(* ===== verification/Handlers.thy ===== *)
theory Handlers
  imports Main
begin

text \<open>
  Handlers as resumptions. A handler of a service is a sequence of atomic actions: statements and
  transactions of the database, reads of the clock, random numbers, messages. Between two of them
  other handlers run. A value of type \<open>('e, 'w, 'a) prog\<close> is such a handler: it is done with a
  result, or it acts: given what its environment contributes to the action (a fault, the time, fresh
  identifiers) and the world, it gives the rest of the handler and the new world. The datatype is
  well-founded, so every handler comes to an end.
\<close>

datatype (dead 'e, dead 'w, 'a) prog =
    Done 'a
  | Act "'e \<Rightarrow> 'w \<Rightarrow> ('e, 'w, 'a) prog \<times> 'w"

lemma prog_induct [case_names Done Act, induct type: prog]:
  fixes P :: "('e, 'w, 'a) prog \<Rightarrow> bool"
  assumes "\<And>a. P (Done a)" and "\<And>f. (\<And>e w q v. f e w = (q, v) \<Longrightarrow> P q) \<Longrightarrow> P (Act f)"
  shows "P p"
proof (rule prog.induct)
  fix f :: "'e \<Rightarrow> 'w \<Rightarrow> ('e, 'w, 'a) prog \<times> 'w"
  assume IH: "\<And>g x q. g \<in> range f \<Longrightarrow> x \<in> range g \<Longrightarrow> q \<in> Basic_BNFs.fsts x \<Longrightarrow> P q"
  show "P (Act f)"
  proof (rule assms(2))
    fix e w q v assume "f e w = (q, v)"
    moreover have "f e w \<in> range (f e)" by (rule rangeI)
    ultimately show "P q" using IH [of "f e" "f e w" q] by (simp add: fsts.simps)
  qed
qed (rule assms(1))

text \<open>Sequencing, with and without the early return on an error.\<close>

primrec and_then :: "('e, 'w, 'a) prog \<Rightarrow> ('a \<Rightarrow> ('e, 'w, 'b) prog) \<Rightarrow> ('e, 'w, 'b) prog" where
  "and_then (Done a) k = k a"
| "and_then (Act f) k = Act (\<lambda>e w. map_prod (\<lambda>p. and_then p k) (\<lambda>w. w) (f e w))"

definition try_then ::
  "('e, 'w, 'x + 'a) prog \<Rightarrow> ('a \<Rightarrow> ('e, 'w, 'x + 'b) prog) \<Rightarrow> ('e, 'w, 'x + 'b) prog" where
  "try_then p k = and_then p (\<lambda>r. case r of Inl x \<Rightarrow> Done (Inl x) | Inr a \<Rightarrow> k a)"

text \<open>One action: an effect on the world, and a look at the environment only.\<close>

definition effect :: "('e \<Rightarrow> 'w \<Rightarrow> 'a \<times> 'w) \<Rightarrow> ('e, 'w, 'a) prog" where
  "effect f = Act (\<lambda>e w. map_prod Done (\<lambda>w. w) (f e w))"

definition ask :: "('e \<Rightarrow> 'a) \<Rightarrow> ('e, 'w, 'a) prog" where
  "ask f = Act (\<lambda>e w. (Done (f e), w))"

section \<open>A handler that runs alone\<close>

text \<open>\<open>es\<close> is what the environment contributes to the actions to come.\<close>

primrec run :: "('e, 'w, 'a) prog \<Rightarrow> (nat \<Rightarrow> 'e) \<Rightarrow> 'w \<Rightarrow> 'a \<times> (nat \<Rightarrow> 'e) \<times> 'w" where
  "run (Done a) = (\<lambda>es w. (a, es, w))"
| "run (Act f) = (\<lambda>es w. case map_prod run (\<lambda>w. w) (f (es 0) w) of (r, w') \<Rightarrow> r (\<lambda>n. es (Suc n)) w')"

lemma run_Done [simp]: "run (Done a) es w = (a, es, w)"
  by simp

lemma run_Act: "run (Act f) es w = (case f (es 0) w of (p, w') \<Rightarrow> run p (\<lambda>n. es (Suc n)) w')"
  by (simp split: prod.splits)

declare run.simps(2) [simp del]

lemma run_effect [simp]: "run (effect f) es w = (case f (es 0) w of (a, w') \<Rightarrow> (a, \<lambda>n. es (Suc n), w'))"
  by (simp add: effect_def run_Act split: prod.splits)

lemma run_ask [simp]: "run (ask f) es w = (f (es 0), \<lambda>n. es (Suc n), w)"
  by (simp add: ask_def run_Act)

lemma run_and_then: "run (and_then p k) es w = (case run p es w of (a, es', w') \<Rightarrow> run (k a) es' w')"
proof (induction p arbitrary: es w)
  case (Act f)
  obtain q v where q: "f (es 0) w = (q, v)" by (cases "f (es 0) w")
  from Act [OF q] show ?case by (simp add: run_Act q)
qed simp

lemma run_try_then:
  "run (try_then p k) es w =
     (case run p es w of (Inl x, es', w') \<Rightarrow> (Inl x, es', w') | (Inr a, es', w') \<Rightarrow> run (k a) es' w')"
  by (simp add: try_then_def run_and_then split: prod.splits sum.splits)

lemmas run_simps = run_and_then run_try_then

section \<open>Handlers among others\<close>

text \<open>
  \<open>exec E R p w a w'\<close>: started in \<open>w\<close>, the handler \<open>p\<close> can end with the result \<open>a\<close> in \<open>w'\<close> while others,
  whose steps are in \<open>R\<close>, run before, between and after its actions. Its environment contributes values
  that satisfy \<open>E\<close>.
\<close>

inductive exec :: "('e \<Rightarrow> bool) \<Rightarrow> ('w \<Rightarrow> 'w \<Rightarrow> bool) \<Rightarrow> ('e, 'w, 'a) prog \<Rightarrow> 'w \<Rightarrow> 'a \<Rightarrow> 'w \<Rightarrow> bool"
  for E :: "'e \<Rightarrow> bool" and R :: "'w \<Rightarrow> 'w \<Rightarrow> bool" where
  exec_Done: "R\<^sup>*\<^sup>* w w' \<Longrightarrow> exec E R (Done a) w a w'"
| exec_Act: "R\<^sup>*\<^sup>* w w1 \<Longrightarrow> E e \<Longrightarrow> f e w1 = (p, w2) \<Longrightarrow> exec E R p w2 a w' \<Longrightarrow> exec E R (Act f) w a w'"

inductive_cases exec_DoneE: "exec E R (Done b) w a w'"
inductive_cases exec_ActE: "exec E R (Act f) w a w'"

lemma exec_Done_iff: "exec E R (Done b) w a w' \<longleftrightarrow> a = b \<and> R\<^sup>*\<^sup>* w w'"
  by (auto elim: exec_DoneE intro: exec_Done)

lemma exec_before: "R\<^sup>*\<^sup>* w0 w \<Longrightarrow> exec E R p w a w' \<Longrightarrow> exec E R p w0 a w'"
  by (cases p) (auto elim!: exec_DoneE exec_ActE intro: exec.intros rtranclp_trans)

lemma exec_after: "exec E R p w a w1 \<Longrightarrow> R\<^sup>*\<^sup>* w1 w' \<Longrightarrow> exec E R p w a w'"
  by (induction rule: exec.induct) (auto intro: exec.intros rtranclp_trans)

lemma exec_and_thenE:
  assumes "exec E R (and_then p k) w b w'"
  obtains a w1 where "exec E R p w a w1" "exec E R (k a) w1 b w'"
proof -
  have "\<exists>a w1. exec E R p w a w1 \<and> exec E R (k a) w1 b w'"
    using assms
  proof (induction p arbitrary: w)
    case (Done a)
    then show ?case by (auto simp: exec_Done_iff)
  next
    case (Act f)
    from Act.prems obtain w1 e q w2 where
      "R\<^sup>*\<^sup>* w w1" "E e" "map_prod (\<lambda>p. and_then p k) (\<lambda>w. w) (f e w1) = (q, w2)" "exec E R q w2 b w'"
      by (auto elim: exec_ActE)
    moreover obtain p' where p': "f e w1 = (p', w2)" "q = and_then p' k"
      using calculation(3) by (cases "f e w1") auto
    moreover have "\<exists>a w3. exec E R p' w2 a w3 \<and> exec E R (k a) w3 b w'"
      using Act.IH [OF p'(1)] p'(2) calculation(4) by blast
    ultimately show ?case by (meson exec_Act)
  qed
  with that show thesis by blast
qed

lemma exec_effectE:
  assumes "exec E R (effect f) w a w'"
  obtains e w1 w2 where "R\<^sup>*\<^sup>* w w1" "E e" "f e w1 = (a, w2)" "R\<^sup>*\<^sup>* w2 w'"
  using assms unfolding effect_def
  by (auto elim!: exec_ActE simp: exec_Done_iff map_prod_def split: prod.splits)

lemma exec_askE:
  assumes "exec E R (ask f) w a w'"
  obtains e where "E e" "a = f e" "R\<^sup>*\<^sup>* w w'"
proof -
  from assms obtain w1 e where "R\<^sup>*\<^sup>* w w1" "E e" "a = f e" "R\<^sup>*\<^sup>* w1 w'"
    unfolding ask_def by (auto elim!: exec_ActE simp: exec_Done_iff)
  then show thesis by (intro that) auto
qed

lemma exec_try_thenE:
  assumes "exec E R (try_then p k) w b w'"
  obtains (failed) x w1 where "exec E R p w (Inl x) w1" "b = Inl x" "R\<^sup>*\<^sup>* w1 w'"
  | (passed) a w1 where "exec E R p w (Inr a) w1" "exec E R (k a) w1 b w'"
  using assms unfolding try_then_def
  by (auto elim!: exec_and_thenE simp: exec_Done_iff split: sum.splits)

text \<open>A handler that succeeds passed every stage.\<close>

lemma exec_try_then_InrE:
  assumes "exec E R (try_then p k) w (Inr b) w'"
  obtains a w1 where "exec E R p w (Inr a) w1" "exec E R (k a) w1 (Inr b) w'"
  using assms by (auto elim: exec_try_thenE)

text \<open>Running alone is a case of running among others.\<close>

lemma run_exec: "run p es w = (a, es', w') \<Longrightarrow> (\<And>n. E (es n)) \<Longrightarrow> exec E R p w a w'"
proof (induction p arbitrary: es w)
  case (Act f)
  obtain q v where q: "f (es 0) w = (q, v)" by (cases "f (es 0) w")
  from Act.prems have "run q (\<lambda>n. es (Suc n)) v = (a, es', w')" by (simp add: run_Act q)
  then have "exec E R q v a w'" by (rule Act.IH [OF q]) (rule Act.prems(2))
  with q Act.prems(2) show ?case by (auto intro: exec_Act)
qed (simp add: exec_Done_iff)

section \<open>What all actions of a handler respect\<close>

text \<open>
  \<open>abides S p\<close>: every action the handler may come to relates the worlds before and after it by \<open>S\<close>.
\<close>

inductive abides :: "('w \<Rightarrow> 'w \<Rightarrow> bool) \<Rightarrow> ('e, 'w, 'a) prog \<Rightarrow> bool" for S :: "'w \<Rightarrow> 'w \<Rightarrow> bool" where
  abides_Done: "abides S (Done a)"
| abides_Act: "(\<And>e w. S w (snd (f e w))) \<Longrightarrow> (\<And>e w. abides S (fst (f e w))) \<Longrightarrow> abides S (Act f)"

inductive_cases abides_ActE: "abides S (Act f)"

lemma abides_and_then:
  assumes "abides S p" and "\<And>a. abides S (k a)"
  shows "abides S (and_then p k)"
  using assms(1)
proof (induction rule: abides.induct)
  case (abides_Act f)
  then show ?case by (auto intro!: abides.abides_Act)
qed (simp add: assms(2))

lemma abides_try_then:
  "abides S p \<Longrightarrow> (\<And>a. abides S (k a)) \<Longrightarrow> abides S (try_then p k)"
  unfolding try_then_def by (rule abides_and_then) (auto intro: abides_Done split: sum.splits)

lemma abides_effect: "(\<And>e w. S w (snd (f e w))) \<Longrightarrow> abides S (effect f)"
  unfolding effect_def by (auto intro!: abides.intros)

text \<open>The steps a handler may make, over-approximated: its actions after whatever its earlier ones gave.\<close>

inductive step_of :: "('e, 'w, 'a) prog \<Rightarrow> 'w \<Rightarrow> 'w \<Rightarrow> bool" where
  step_now: "step_of (Act f) w (snd (f e w))"
| step_later: "step_of (fst (f e v)) w w' \<Longrightarrow> step_of (Act f) w w'"

lemma abides_step: "step_of p w w' \<Longrightarrow> abides S p \<Longrightarrow> S w w'"
  by (induction rule: step_of.induct) (auto elim: abides_ActE)

lemma run_steps: "run p es w = (a, es', w') \<Longrightarrow> (step_of p)\<^sup>*\<^sup>* w w'"
proof (induction p arbitrary: es w)
  case (Act f)
  obtain q v where q: "f (es 0) w = (q, v)" by (cases "f (es 0) w")
  from Act.prems have "run q (\<lambda>n. es (Suc n)) v = (a, es', w')" by (simp add: run_Act q)
  then have "(step_of q)\<^sup>*\<^sup>* v w'" by (rule Act.IH [OF q])
  moreover have "step_of q x y \<Longrightarrow> step_of (Act f) x y" for x y
    using step_later [of f "es 0" w x y] q by simp
  ultimately have "(step_of (Act f))\<^sup>*\<^sup>* v w'" by (metis mono_rtranclp)
  moreover have "step_of (Act f) w v" using step_now [of f w "es 0"] q by simp
  ultimately show ?case by (rule converse_rtranclp_into_rtranclp [rotated])
qed simp

text \<open>
  A discipline is a relation between worlds that does not care how many steps were made. What each
  action respects, handlers respect, alone or among others that respect it too.
\<close>

locale discipline =
  fixes S :: "'w \<Rightarrow> 'w \<Rightarrow> bool"
  assumes stays: "S w w" and composes: "S w w' \<Longrightarrow> S w' w'' \<Longrightarrow> S w w''"
begin

lemma abides_ask: "abides S (ask f)"
  unfolding ask_def by (auto intro!: abides.intros stays)

lemma steps: "R\<^sup>*\<^sup>* w w' \<Longrightarrow> (\<And>v v'. R v v' \<Longrightarrow> S v v') \<Longrightarrow> S w w'"
  by (induction rule: rtranclp_induct) (auto intro: stays composes)

lemma exec_within:
  assumes "exec E R p w a w'" and "abides S p" and "\<And>v v'. R v v' \<Longrightarrow> S v v'"
  shows "S w w'"
  using assms
proof (induction rule: exec.induct)
  case (exec_Done w w' a)
  then show ?case by (blast intro: steps)
next
  case (exec_Act w w1 e f p w2 a w')
  have "S w1 (snd (f e w1))" and "abides S (fst (f e w1))"
    using exec_Act.prems(1) by (auto elim: abides_ActE)
  with exec_Act have "S w1 w2" and "S w2 w'" by simp_all
  moreover have "S w w1" using exec_Act.hyps(1) exec_Act.prems(2) by (blast intro: steps)
  ultimately show ?case by (meson composes)
qed

lemma run_within: "run p es w = (a, es', w') \<Longrightarrow> abides S p \<Longrightarrow> S w w'"
  using exec_within [OF run_exec, of p es w a es' w' "\<lambda>_. True" "\<lambda>_ _. False"] by blast

end

section \<open>Pools\<close>

text \<open>
  A pool of handlers over one world: new ones from \<open>P\<close> may start at any time, and any of them may make
  its next action. The ones that are done stay, with their results.
\<close>

inductive pool_step ::
  "('e \<Rightarrow> bool) \<Rightarrow> ('e, 'w, 'a) prog set \<Rightarrow> ('e, 'w, 'a) prog list \<times> 'w \<Rightarrow> ('e, 'w, 'a) prog list \<times> 'w \<Rightarrow> bool"
  for E :: "'e \<Rightarrow> bool" and P :: "('e, 'w, 'a) prog set" where
  pool_start: "p \<in> P \<Longrightarrow> pool_step E P (ps, w) (ps @ [p], w)"
| pool_act: "i < length ps \<Longrightarrow> ps ! i = Act f \<Longrightarrow> E e \<Longrightarrow>
    pool_step E P (ps, w) (ps[i := fst (f e w)], snd (f e w))"

text \<open>
  \<open>keeps E I p\<close>: as long as the invariant \<open>I\<close> holds, the actions of \<open>p\<close> keep it; what an action gives to
  the rest of the handler was seen in a world with the invariant.
\<close>

inductive keeps :: "('e \<Rightarrow> bool) \<Rightarrow> ('w \<Rightarrow> bool) \<Rightarrow> ('e, 'w, 'a) prog \<Rightarrow> bool"
  for E :: "'e \<Rightarrow> bool" and I :: "'w \<Rightarrow> bool" where
  keeps_Done: "keeps E I (Done a)"
| keeps_Act: "(\<And>e w. E e \<Longrightarrow> I w \<Longrightarrow> I (snd (f e w))) \<Longrightarrow> (\<And>e w. E e \<Longrightarrow> I w \<Longrightarrow> keeps E I (fst (f e w)))
    \<Longrightarrow> keeps E I (Act f)"

inductive_cases keeps_ActE: "keeps E I (Act f)"

lemma pool_keeps:
  assumes "(pool_step E P)\<^sup>*\<^sup>* (ps, w) (ps', w')" and "\<And>p. p \<in> P \<Longrightarrow> keeps E I p"
    and "\<forall>p \<in> set ps. keeps E I p" and "I w"
  shows "I w' \<and> (\<forall>p \<in> set ps'. keeps E I p)"
  using assms(1)
proof (induction rule: rtranclp_induct2)
  case refl
  then show ?case using assms(3,4) by blast
next
  case (step qs v qs' v')
  from step(2) show ?case
  proof cases
    case (pool_start p)
    then show ?thesis using step.IH assms(2) by auto
  next
    case (pool_act i f e)
    then have "keeps E I (Act f)" using step.IH nth_mem by metis
    then have "I v'" "keeps E I (fst (f e v))" using pool_act step.IH by (auto elim: keeps_ActE)
    then show ?thesis using pool_act(1) step.IH set_update_subset_insert by fastforce
  qed
qed

text \<open>
  \<open>ensures E I p Q\<close>: \<open>p\<close> keeps the invariant, and its result, seen under the invariant, satisfies \<open>Q\<close>.
  Sequencing composes these.
\<close>

inductive ensures :: "('e \<Rightarrow> bool) \<Rightarrow> ('w \<Rightarrow> bool) \<Rightarrow> ('e, 'w, 'a) prog \<Rightarrow> ('a \<Rightarrow> bool) \<Rightarrow> bool"
  for E :: "'e \<Rightarrow> bool" and I :: "'w \<Rightarrow> bool" where
  ensures_Done: "Q a \<Longrightarrow> ensures E I (Done a) Q"
| ensures_Act: "(\<And>e w. E e \<Longrightarrow> I w \<Longrightarrow> I (snd (f e w))) \<Longrightarrow>
    (\<And>e w. E e \<Longrightarrow> I w \<Longrightarrow> ensures E I (fst (f e w)) Q) \<Longrightarrow> ensures E I (Act f) Q"

lemma ensures_keeps: "ensures E I p Q \<Longrightarrow> keeps E I p"
  by (induction rule: ensures.induct) (auto intro: keeps.intros)

lemma ensures_and_then:
  assumes "ensures E I p Q" and "\<And>a. Q a \<Longrightarrow> ensures E I (k a) T"
  shows "ensures E I (and_then p k) T"
  using assms
proof (induction rule: ensures.induct)
  case (ensures_Act f Q)
  then show ?case by (auto intro!: ensures.ensures_Act)
qed auto

lemma ensures_try_then:
  assumes "ensures E I p (\<lambda>r. \<forall>a. r = Inr a \<longrightarrow> Q a)" and "\<And>a. Q a \<Longrightarrow> ensures E I (k a) T" and "\<And>x. T (Inl x)"
  shows "ensures E I (try_then p k) T"
  unfolding try_then_def using assms(1)
  by (rule ensures_and_then) (auto intro: ensures_Done assms(2,3) split: sum.splits)

lemma ensures_effect:
  "(\<And>e w. E e \<Longrightarrow> I w \<Longrightarrow> I (snd (f e w)) \<and> Q (fst (f e w))) \<Longrightarrow> ensures E I (effect f) Q"
  unfolding effect_def by (rule ensures_Act) (auto intro: ensures_Done)

lemma ensures_ask: "(\<And>e. E e \<Longrightarrow> Q (f e)) \<Longrightarrow> ensures E I (ask f) Q"
  unfolding ask_def by (rule ensures_Act) (auto intro: ensures_Done)

lemma ensures_mono: "ensures E I p Q \<Longrightarrow> (\<And>a. Q a \<Longrightarrow> T a) \<Longrightarrow> ensures E I p T"
  by (induction rule: ensures.induct) (auto intro: ensures.intros)

lemma abides_ensures: "abides (\<lambda>w w'. I w \<longrightarrow> I w') p \<Longrightarrow> ensures E I p (\<lambda>_. True)"
proof (induction p)
  case (Act f)
  have "ensures E I (fst (f e w)) (\<lambda>_. True)" for e w
    using Act.IH [of e w "fst (f e w)" "snd (f e w)"] Act.prems by (auto elim: abides_ActE)
  with Act.prems show ?case by (auto intro!: ensures_Act elim: abides_ActE)
qed (simp add: ensures_Done)

text \<open>The first n actions of a handler that is interrupted then.\<close>

fun advance :: "nat \<Rightarrow> ('e, 'w, 'a) prog \<Rightarrow> (nat \<Rightarrow> 'e) \<Rightarrow> 'w \<Rightarrow> ('e, 'w, 'a) prog \<times> 'w" where
  "advance (Suc n) (Act f) es w = (case f (es 0) w of (p, w') \<Rightarrow> advance n p (\<lambda>n. es (Suc n)) w')"
| "advance n p es w = (p, w)"

lemma advance_exec:
  "advance n p es w = (q, w1) \<Longrightarrow> (\<And>n. E (es n)) \<Longrightarrow> R\<^sup>*\<^sup>* w1 w2 \<Longrightarrow> exec E R q w2 a w' \<Longrightarrow> exec E R p w a w'"
proof (induction n p es w rule: advance.induct)
  case (1 n f es w)
  obtain r v where r: "f (es 0) w = (r, v)" by (cases "f (es 0) w")
  then have "exec E R r v a w'" using 1 by (auto simp: r)
  with r 1(3) show ?case by (auto intro: exec_Act)
qed (auto intro: exec_before)

lemma and_then_assoc: "and_then (and_then p k) k' = and_then p (\<lambda>a. and_then (k a) k')"
proof (induction p)
  case (Act f)
  have "map_prod (\<lambda>p. and_then p k') (\<lambda>w. w) (map_prod (\<lambda>p. and_then p k) (\<lambda>w. w) (f e w))
      = map_prod (\<lambda>p. and_then p (\<lambda>a. and_then (k a) k')) (\<lambda>w. w) (f e w)" for e w
    using Act.IH [of e w "fst (f e w)" "snd (f e w)"] by (cases "f e w") simp
  then show ?case by (simp add: fun_eq_iff)
qed simp

text \<open>An interruption after the first action.\<close>

lemma advance_effect:
  "advance (Suc 0) (and_then (effect f) k) es w = (case f (es 0) w of (a, w') \<Rightarrow> (k a, w'))"
  by (simp add: effect_def split: prod.splits)

text \<open>A handler of a pool that goes on, to its end or to an interruption, while the others wait.\<close>

lemma pool_run:
  assumes "run (ps ! i) es w = (a, es', w')" and "i < length ps" and "\<And>n. E (es n)"
  shows "(pool_step E P)\<^sup>*\<^sup>* (ps, w) (ps[i := Done a], w')"
proof -
  have "(pool_step E P)\<^sup>*\<^sup>* (ps, w) (ps[i := Done a], w')"
    if "run p es w = (a, es', w')" "ps ! i = p" "i < length ps" "\<And>n. E (es n)" for p ps es w
    using that
  proof (induction p arbitrary: ps es w)
    case (Done b)
    then have "ps[i := Done a] = ps" by (auto simp: list_update_same_conv)
    with Done show ?case by simp
  next
    case (Act f)
    obtain q v where q: "f (es 0) w = (q, v)" by (cases "f (es 0) w")
    have "pool_step E P (ps, w) (ps[i := fst (f (es 0) w)], snd (f (es 0) w))"
      using Act.prems by (intro pool_act)
    moreover have "(pool_step E P)\<^sup>*\<^sup>* (ps[i := q], v) ((ps[i := q])[i := Done a], w')"
      using Act.prems by (intro Act.IH [OF q]) (auto simp: run_Act q)
    ultimately show ?case by (simp add: q converse_rtranclp_into_rtranclp)
  qed
  with assms show ?thesis by blast
qed

lemma pool_advance:
  assumes "advance n (ps ! i) es w = (q, w')" and "i < length ps" and "\<And>n. E (es n)"
  shows "(pool_step E P)\<^sup>*\<^sup>* (ps, w) (ps[i := q], w')"
proof -
  have "(pool_step E P)\<^sup>*\<^sup>* (ps, w) (ps[i := q], w')"
    if "advance n p es w = (q, w')" "ps ! i = p" "i < length ps" "\<And>n. E (es n)" for p ps es w
    using that
  proof (induction n p es w arbitrary: ps rule: advance.induct)
    case (1 n f es w)
    obtain r v where r: "f (es 0) w = (r, v)" by (cases "f (es 0) w")
    have "pool_step E P (ps, w) (ps[i := fst (f (es 0) w)], snd (f (es 0) w))"
      using 1 by (intro pool_act)
    moreover have "(pool_step E P)\<^sup>*\<^sup>* (ps[i := r], v) ((ps[i := r])[i := q], w')"
      using 1 by (intro 1(1) [OF r [symmetric]]) (auto simp: r)
    ultimately show ?case by (simp add: r converse_rtranclp_into_rtranclp)
  qed (metis list_update_id prod.inject advance.simps(2,3) rtranclp.rtrancl_refl)+
  with assms show ?thesis by blast
qed

lemma pool_starts: "set qs \<subseteq> P \<Longrightarrow> (pool_step E P)\<^sup>*\<^sup>* (ps, w) (ps @ qs, w)"
proof (induction qs arbitrary: ps)
  case (Cons q qs)
  then have "pool_step E P (ps, w) (ps @ [q], w)" by (intro pool_start) simp
  moreover have "(pool_step E P)\<^sup>*\<^sup>* (ps @ [q], w) ((ps @ [q]) @ qs, w)" using Cons.IH [of "ps @ [q]"] Cons.prems by simp
  ultimately show ?case by (metis append_Cons append_Nil append_assoc converse_rtranclp_into_rtranclp)
qed simp

text \<open>One call, alone.\<close>

lemma pool_alone:
  assumes "run p es w = (a, es', w')" and "\<And>n. E (es n)" and "p \<in> P"
  shows "(pool_step E P)\<^sup>*\<^sup>* ([], w) ([Done a], w')"
proof -
  have "(pool_step E P)\<^sup>*\<^sup>* ([], w) ([] @ [p], w)" using assms(3) by (intro pool_starts) simp
  also have "(pool_step E P)\<^sup>*\<^sup>* ([] @ [p], w) ([Done a], w')"
    using pool_run [of "[p]" 0 es w a es' w' E P] assms(1,2) by simp
  finally show ?thesis .
qed

text \<open>Two calls that overlap: the second runs while the first is interrupted.\<close>

lemma pool_overlap:
  assumes "advance n p es w = (q, w1)" and "run p' es' w1 = (b, es1, w2)" and "run q es'' w2 = (a, es2, w3)"
    and "\<And>n. E (es n)" "\<And>n. E (es' n)" "\<And>n. E (es'' n)" and "p \<in> P" "p' \<in> P"
  shows "(pool_step E P)\<^sup>*\<^sup>* ([], w) ([Done a, Done b], w3)"
proof -
  have "(pool_step E P)\<^sup>*\<^sup>* ([], w) ([] @ [p, p'], w)" using assms(7,8) by (intro pool_starts) simp
  also have "(pool_step E P)\<^sup>*\<^sup>* ([] @ [p, p'], w) ([q, p'], w1)"
    using pool_advance [of n "[p, p']" 0 es w q w1 E P] assms(1,4) by simp
  also have "(pool_step E P)\<^sup>*\<^sup>* ([q, p'], w1) ([q, Done b], w2)"
    using pool_run [of "[q, p']" 1 es' w1 b es1 w2 E P] assms(2,5) by simp
  also have "(pool_step E P)\<^sup>*\<^sup>* ([q, Done b], w2) ([Done a, Done b], w3)"
    using pool_run [of "[q, Done b]" 0 es'' w2 a es2 w3 E P] assms(3,6) by simp
  finally show ?thesis by simp
qed

section \<open>What can be taken only once\<close>

text \<open>
  \<open>untried E S I c win v p\<close>: a handler that last looked at the world \<open>v\<close> cannot end with a winning result
  unless one of its actions finds \<open>c\<close> false and makes it true. The worlds it will see follow \<open>v\<close> in \<open>S\<close>
  and satisfy \<open>I\<close>.
\<close>

inductive untried ::
  "('e \<Rightarrow> bool) \<Rightarrow> ('w \<Rightarrow> 'w \<Rightarrow> bool) \<Rightarrow> ('w \<Rightarrow> bool) \<Rightarrow> ('w \<Rightarrow> bool) \<Rightarrow> ('a \<Rightarrow> bool) \<Rightarrow> 'w \<Rightarrow> ('e, 'w, 'a) prog \<Rightarrow> bool"
  for E :: "'e \<Rightarrow> bool" and S :: "'w \<Rightarrow> 'w \<Rightarrow> bool" and I c :: "'w \<Rightarrow> bool" and win :: "'a \<Rightarrow> bool" where
  untried_Done: "\<not> win a \<Longrightarrow> untried E S I c win v (Done a)"
| untried_Act: "(\<And>e w. E e \<Longrightarrow> S v w \<Longrightarrow> I w \<Longrightarrow>
      untried E S I c win w (fst (f e w)) \<or> (\<not> c w \<and> c (snd (f e w)))) \<Longrightarrow> untried E S I c win v (Act f)"

inductive_cases untried_ActE: "untried E S I c win v (Act f)"
inductive_cases untried_DoneE: "untried E S I c win v (Done a)"

lemma untried_silent: "\<not> win a \<Longrightarrow> untried E S I c win v (and_then p (\<lambda>_. Done a))"
proof (induction p arbitrary: v)
  case (Act f)
  have "untried E S I c win w (and_then (fst (f e w)) (\<lambda>_. Done a))" for e w
    using Act.IH [of e w "fst (f e w)" "snd (f e w)"] Act.prems by simp
  then show ?case by (auto intro!: untried_Act)
qed (auto intro: untried_Done)

lemma untried_effect_then:
  assumes "\<And>e w. E e \<Longrightarrow> S v w \<Longrightarrow> I w \<Longrightarrow>
    untried E S I c win w (k (fst (f e w))) \<or> (\<not> c w \<and> c (snd (f e w)))"
  shows "untried E S I c win v (and_then (effect f) k)"
  unfolding effect_def and_then.simps
proof (rule untried_Act)
  fix e w assume "E e" "S v w" "I w"
  then show "untried E S I c win w (fst (map_prod (\<lambda>p. and_then p k) (\<lambda>w. w) (map_prod Done (\<lambda>w. w) (f e w)))) \<or>
      (\<not> c w \<and> c (snd (map_prod (\<lambda>p. and_then p k) (\<lambda>w. w) (map_prod Done (\<lambda>w. w) (f e w)))))"
    using assms [of e w] by simp
qed

lemma untried_ask_then:
  assumes "\<And>e w. E e \<Longrightarrow> S v w \<Longrightarrow> I w \<Longrightarrow> untried E S I c win w (k (g e))"
  shows "untried E S I c win v (and_then (ask g) k)"
  unfolding ask_def by (auto intro!: untried_Act assms)

context discipline
begin

lemma untried_later: "untried E S I c win v p \<Longrightarrow> S v v' \<Longrightarrow> untried E S I c win v' p"
  by (induction rule: untried.induct) (auto intro!: untried.intros intro: composes)

lemma taken_once:
  assumes "(pool_step E P)\<^sup>*\<^sup>* ([], w) (ps, w')"
    and P: "\<And>p. p \<in> P \<Longrightarrow> abides S p" "\<And>p v. p \<in> P \<Longrightarrow> I v \<Longrightarrow> untried E S I c win v p"
    and I: "\<And>v v'. S v v' \<Longrightarrow> I v \<Longrightarrow> I v'" and c: "\<And>v v'. S v v' \<Longrightarrow> I v \<Longrightarrow> c v \<Longrightarrow> c v'" and "I w"
  shows "I w' \<and> (\<forall>p \<in> set ps. abides S p) \<and>
    (\<forall>i < length ps. untried E S I c win w' (ps ! i) \<or> c w') \<and>
    (\<forall>i < length ps. \<forall>j < length ps. i \<noteq> j \<longrightarrow> untried E S I c win w' (ps ! i) \<or> untried E S I c win w' (ps ! j))"
  using assms(1)
proof (induction rule: rtranclp_induct2)
  case refl
  then show ?case using \<open>I w\<close> by simp
next
  case (step qs v qs' v')
  from step(2) show ?case
  proof cases
    case (pool_start p)
    then have "untried E S I c win v p" using P(2) step.IH by blast
    then show ?thesis using pool_start step.IH P(1) by (auto simp: nth_append less_Suc_eq)
  next
    case (pool_act k f e)
    have ab: "abides S (Act f)" using pool_act step.IH nth_mem by metis
    then have S: "S v v'" and ab': "abides S (fst (f e v))" using pool_act by (auto elim: abides_ActE)
    have Iv: "I v" using step.IH by blast
    have old: "untried E S I c win v' (qs ! i)" if "untried E S I c win v (qs ! i)" for i
      using that S by (rule untried_later)
    have pairs: "\<forall>i < length qs. \<forall>j < length qs. i \<noteq> j \<longrightarrow>
        untried E S I c win v' (qs ! i) \<or> untried E S I c win v' (qs ! j)"
      using step.IH old by blast
    have ones: "\<forall>i < length qs. untried E S I c win v' (qs ! i) \<or> c v'" using step.IH old c [OF S Iv] by blast
    have all: "\<forall>p \<in> set qs'. abides S p" using step.IH ab' pool_act(1) set_update_subset_insert by fastforce
    have Iv': "I v'" using I [OF S] step.IH by blast
    show ?thesis
    proof (cases "untried E S I c win v (Act f)")
      case True
      have "S v v" by (rule stays)
      with True step.IH pool_act(5) have "untried E S I c win v (fst (f e v)) \<or> (\<not> c v \<and> c (snd (f e v)))"
        by (auto elim!: untried_ActE)
      then show ?thesis
      proof
        assume "untried E S I c win v (fst (f e v))"
        then have "untried E S I c win v' (fst (f e v))" using S by (rule untried_later)
        then show ?thesis using Iv' all pairs ones pool_act(1-3) by (simp add: nth_list_update)
      next
        assume won: "\<not> c v \<and> c (snd (f e v))"
        then have "\<forall>i < length qs. untried E S I c win v (qs ! i)" using step.IH by blast
        then show ?thesis using won Iv' all old pool_act(1-3) by (auto simp: nth_list_update)
      qed
    next
      case False
      then have "c v" using step.IH pool_act(3,4) by metis
      moreover have "untried E S I c win v (qs ! i)" if "i < length qs" "i \<noteq> k" for i
        using step.IH False pool_act(3,4) that by metis
      ultimately show ?thesis using Iv' all old c [OF S Iv] pool_act(1-3) by (auto simp: nth_list_update)
    qed
  qed
qed

end

text \<open>Hence at most one handler of a pool ends with the prize.\<close>

definition won :: "('a \<Rightarrow> bool) \<Rightarrow> ('e, 'w, 'a) prog \<Rightarrow> bool" where
  "won win p \<longleftrightarrow> (case p of Done a \<Rightarrow> win a | Act f \<Rightarrow> False)"

lemma length_filter_one:
  "(\<And>i j. i < length xs \<Longrightarrow> j < length xs \<Longrightarrow> P (xs ! i) \<Longrightarrow> P (xs ! j) \<Longrightarrow> i = j) \<Longrightarrow> length (filter P xs) \<le> 1"
proof (induction xs)
  case (Cons x xs)
  have "length (filter P xs) \<le> 1" using Cons.prems [of "Suc i" "Suc j" for i j] by (intro Cons.IH) simp
  moreover have "filter P xs = []" if "P x"
    using Cons.prems [of 0 "Suc j" for j] that by (auto simp: filter_empty_conv in_set_conv_nth)
  ultimately show ?case by auto
qed simp

context discipline
begin

lemma at_most_one_wins:
  assumes "(pool_step E P)\<^sup>*\<^sup>* ([], w) (ps, w')"
    and "\<And>p. p \<in> P \<Longrightarrow> abides S p" "\<And>p v. p \<in> P \<Longrightarrow> I v \<Longrightarrow> untried E S I c win v p"
    and "\<And>v v'. S v v' \<Longrightarrow> I v \<Longrightarrow> I v'" and "\<And>v v'. S v v' \<Longrightarrow> I v \<Longrightarrow> c v \<Longrightarrow> c v'" and "I w"
  shows "length (filter (won win) ps) \<le> 1"
proof (rule length_filter_one, rule ccontr)
  fix i j assume ij: "i < length ps" "j < length ps" "won win (ps ! i)" "won win (ps ! j)" "i \<noteq> j"
  have "\<forall>i < length ps. \<forall>j < length ps. i \<noteq> j \<longrightarrow> untried E S I c win w' (ps ! i) \<or> untried E S I c win w' (ps ! j)"
    using taken_once [OF assms(1), of I c win] assms(2-6) by blast
  with ij have "untried E S I c win w' (ps ! i) \<or> untried E S I c win w' (ps ! j)" by blast
  moreover have "\<not> untried E S I c win w' p" if "won win p" for p
    using that by (auto simp: won_def elim: untried_DoneE split: prog.splits)
  ultimately show False using ij by blast
qed

end

end
