(* ===== verification/Rely.thy ===== *)
theory Rely
  imports Handlers
begin

text \<open>
  Rely and guarantee for handlers. \<open>S\<close> is how the world may change from one look to the next: what a
  handler relies on from the others, and what each of its own actions guarantees. \<open>I\<close> is an invariant
  of the world, and \<open>G\<close> what the handler guarantees besides. \<open>secures E S G I Q v p\<close>: a handler \<open>p\<close> that last saw the world \<open>v\<close> keeps \<open>I\<close>, \<open>S\<close> and \<open>G\<close> with every
  action, and a result \<open>a\<close> of it satisfies \<open>Q a w\<close> in every world \<open>w\<close> that follows. What the handler
  has read is known of the world it was read in, so it can be used as far as \<open>S\<close> preserves it.
\<close>

inductive secures ::
  "('e \<Rightarrow> bool) \<Rightarrow> ('w \<Rightarrow> 'w \<Rightarrow> bool) \<Rightarrow> ('w \<Rightarrow> 'w \<Rightarrow> bool) \<Rightarrow> ('w \<Rightarrow> bool) \<Rightarrow> ('a \<Rightarrow> 'w \<Rightarrow> bool) \<Rightarrow> 'w \<Rightarrow> ('e, 'w, 'a) prog \<Rightarrow> bool"
  for E :: "'e \<Rightarrow> bool" and S :: "'w \<Rightarrow> 'w \<Rightarrow> bool" and G :: "'w \<Rightarrow> 'w \<Rightarrow> bool" and I :: "'w \<Rightarrow> bool" and Q :: "'a \<Rightarrow> 'w \<Rightarrow> bool" where
  secures_Done: "(\<And>w. S v w \<Longrightarrow> I w \<Longrightarrow> Q a w) \<Longrightarrow> secures E S G I Q v (Done a)"
| secures_Act: "(\<And>e w. E e \<Longrightarrow> S v w \<Longrightarrow> I w \<Longrightarrow> S w (snd (f e w)) \<and> G w (snd (f e w)) \<and> I (snd (f e w))) \<Longrightarrow>
    (\<And>e w. E e \<Longrightarrow> S v w \<Longrightarrow> I w \<Longrightarrow> secures E S G I Q (snd (f e w)) (fst (f e w))) \<Longrightarrow>
    secures E S G I Q v (Act f)"

inductive_cases secures_DoneE: "secures E S G I Q v (Done a)"
inductive_cases secures_ActE: "secures E S G I Q v (Act f)"

context discipline
begin

lemma secures_later: "secures E S G I Q v p \<Longrightarrow> S v v' \<Longrightarrow> secures E S G I Q v' p"
proof (erule secures.cases, goal_cases)
  case (1 u a)
  then show ?case using composes by (blast intro: secures_Done)
next
  case (2 u f)
  then have "S u w" if "S v' w" for w using that composes by blast
  with 2 show ?case by (blast intro: secures_Act)
qed

lemma secures_and_then:
  assumes "secures E S G I R v p" and "I v"
    and "\<And>a w. S v w \<Longrightarrow> I w \<Longrightarrow> (\<And>u. S w u \<Longrightarrow> I u \<Longrightarrow> R a u) \<Longrightarrow> secures E S G I Q w (k a)"
  shows "secures E S G I Q v (and_then p k)"
  using assms
proof (induction rule: secures.induct)
  case (secures_Done v a)
  then have "secures E S G I Q v (k a)" using stays by blast
  then show ?case by simp
next
  case (secures_Act v f)
  have "secures E S G I Q v (Act (\<lambda>e w. map_prod (\<lambda>p. and_then p k) (\<lambda>w. w) (f e w)))"
  proof (rule secures.secures_Act)
    fix e w assume h: "E e" "S v w" "I w"
    have st: "S w (snd (f e w))" "I (snd (f e w))" "G w (snd (f e w))" using secures_Act.hyps(1) [OF h] by blast+
    then show "S w (snd (map_prod (\<lambda>p. and_then p k) (\<lambda>w. w) (f e w))) \<and>
      G w (snd (map_prod (\<lambda>p. and_then p k) (\<lambda>w. w) (f e w))) \<and>
      I (snd (map_prod (\<lambda>p. and_then p k) (\<lambda>w. w) (f e w)))" by simp
    have vs: "S v (snd (f e w))" using h(2) st(1) by (rule composes)
    have "secures E S G I Q (snd (f e w)) (and_then (fst (f e w)) k)"
      by (rule secures_Act.IH [OF h st(2)], rule secures_Act.prems(2)) (blast intro: composes [OF vs])+
    then show "secures E S G I Q (snd (map_prod (\<lambda>p. and_then p k) (\<lambda>w. w) (f e w)))
        (fst (map_prod (\<lambda>p. and_then p k) (\<lambda>w. w) (f e w)))" by simp
  qed
  then show ?case by simp
qed

lemma secures_mono:
  assumes "secures E S G I R v p" and "\<And>a w. S v w \<Longrightarrow> I w \<Longrightarrow> R a w \<Longrightarrow> Q a w"
  shows "secures E S G I Q v p"
  using assms
proof (induction rule: secures.induct)
  case (secures_Done v a)
  then show ?case by (blast intro: secures.secures_Done)
next
  case (secures_Act v f)
  show ?case
  proof (rule secures.secures_Act)
    fix e w assume h: "E e" "S v w" "I w"
    show st: "S w (snd (f e w)) \<and> G w (snd (f e w)) \<and> I (snd (f e w))" using secures_Act.hyps(1) [OF h] .
    then have vs: "S v (snd (f e w))" using h(2) composes by blast
    show "secures E S G I Q (snd (f e w)) (fst (f e w))"
      by (rule secures_Act.IH [OF h], rule secures_Act.prems) (blast intro: composes [OF vs])+
  qed
qed

lemma secures_try_then:
  assumes "secures E S G I R v p" and "I v"
    and "\<And>a w. S v w \<Longrightarrow> I w \<Longrightarrow> (\<And>u. S w u \<Longrightarrow> I u \<Longrightarrow> R (Inr a) u) \<Longrightarrow> secures E S G I Q w (k a)"
    and "\<And>x w. S v w \<Longrightarrow> I w \<Longrightarrow> R (Inl x) w \<Longrightarrow> Q (Inl x) w"
  shows "secures E S G I Q v (try_then p k)"
  unfolding try_then_def
proof (rule secures_and_then [OF assms(1,2)])
  fix r w assume h: "S v w" "I w" "\<And>u. S w u \<Longrightarrow> I u \<Longrightarrow> R r u"
  show "secures E S G I Q w (case r of Inl x \<Rightarrow> Done (Inl x) | Inr a \<Rightarrow> k a)"
  proof (cases r)
    case (Inl x)
    have "secures E S G I Q w (Done (Inl x))"
      using h assms(4) composes [OF h(1)] by (intro secures_Done) (simp add: Inl)
    with Inl show ?thesis by simp
  next
    case (Inr a)
    with h assms(3) show ?thesis by simp
  qed
qed

lemma secures_effect:
  assumes "\<And>e w a w'. E e \<Longrightarrow> S v w \<Longrightarrow> I w \<Longrightarrow> f e w = (a, w') \<Longrightarrow> S w w' \<and> G w w' \<and> I w' \<and> (\<forall>u. S w' u \<longrightarrow> I u \<longrightarrow> Q a u)"
  shows "secures E S G I Q v (effect f)"
  unfolding effect_def
proof (rule secures_Act)
  fix e w assume h: "E e" "S v w" "I w"
  obtain a w' where f: "f e w = (a, w')" by (cases "f e w")
  from assms [OF h f] f
  show "S w (snd (map_prod Done (\<lambda>w. w) (f e w))) \<and> G w (snd (map_prod Done (\<lambda>w. w) (f e w))) \<and> I (snd (map_prod Done (\<lambda>w. w) (f e w)))"
    "secures E S G I Q (snd (map_prod Done (\<lambda>w. w) (f e w))) (fst (map_prod Done (\<lambda>w. w) (f e w)))"
    by (auto intro: secures_Done)
qed

lemma secures_ask:
  assumes "\<And>e w. E e \<Longrightarrow> S v w \<Longrightarrow> I w \<Longrightarrow> Q (f e) w" and "\<And>w. G w w"
  shows "secures E S G I Q v (ask f)"
  unfolding ask_def
  by (rule secures_Act) (use assms stays composes in \<open>auto intro!: secures_Done\<close>)

text \<open>
  Every handler of a pool that starts its handlers in secured states stays secured, and what all of them
  guarantee, the pool does.
\<close>

lemma pool_secures:
  assumes "(pool_step E P)\<^sup>*\<^sup>* ([], w) (ps, w')" and "I w"
    and "\<And>p v. p \<in> P \<Longrightarrow> I v \<Longrightarrow> secures E S (G p) I (Q p) v p"
    and "\<And>v. T v v" "\<And>u v x. T u v \<Longrightarrow> T v x \<Longrightarrow> T u x"
    and "\<And>p u v. p \<in> P \<Longrightarrow> S w u \<Longrightarrow> I u \<Longrightarrow> T w u \<Longrightarrow> G p u v \<Longrightarrow> S u v \<Longrightarrow> T u v"
  shows "I w' \<and> S w w' \<and> T w w' \<and> (\<forall>p \<in> set ps. \<exists>q \<in> P. secures E S (G q) I (Q q) w' p)"
  using assms(1)
proof (induction rule: rtranclp_induct2)
  case refl
  then show ?case using assms(2,4) stays by simp
next
  case (step qs v qs' v')
  from step(2) show ?case
  proof cases
    case (pool_start p)
    then show ?thesis using step.IH assms(3) by auto
  next
    case (pool_act i f e)
    then have "Act f \<in> set qs" by (metis nth_mem)
    then obtain q where q: "q \<in> P" "secures E S (G q) I (Q q) v (Act f)" using step.IH by blast
    have now: "E e" "S v v" "I v" using pool_act step.IH stays by blast+
    have "S v (snd (f e v)) \<and> G q v (snd (f e v)) \<and> I (snd (f e v))"
      "secures E S (G q) I (Q q) (snd (f e v)) (fst (f e v))"
      using q(2) now by (auto elim: secures_ActE)
    then have SI: "S v v'" "I v'" "G q v v'" "secures E S (G q) I (Q q) v' (fst (f e v))"
      using pool_act(2) by simp_all
    have "T v v'" by (rule assms(6) [OF q(1)]) (use step.IH SI in blast)+
    moreover have "\<exists>q \<in> P. secures E S (G q) I (Q q) v' p" if "p \<in> set qs'" for p
    proof -
      have "p = fst (f e v) \<or> p \<in> set qs"
        using that pool_act(1) set_update_subset_insert by fastforce
      then show ?thesis using SI q(1) step.IH secures_later by blast
    qed
    ultimately show ?thesis using SI step.IH composes assms(5) by blast
  qed
qed

lemma pool_results:
  assumes "(pool_step E P)\<^sup>*\<^sup>* ([], w) (ps, w')" and "I w"
    and "\<And>p v. p \<in> P \<Longrightarrow> I v \<Longrightarrow> secures E S (G p) I Q v p"
  shows "I w' \<and> S w w' \<and> (\<forall>a. Done a \<in> set ps \<longrightarrow> Q a w')"
  using pool_secures [OF assms, of "\<lambda>_ _. True"] stays by (blast elim: secures_DoneE)

lemma run_secures:
  assumes "secures E S G I Q v p" and "I v" and "run p es v = (a, es', w')" and "\<And>n. E (es n)"
  shows "S v w' \<and> I w' \<and> Q a w'"
  using assms
proof (induction arbitrary: es rule: secures.induct)
  case (secures_Done v a)
  then show ?case using stays by simp
next
  case (secures_Act v f)
  obtain q u where q: "f (es 0) v = (q, u)" by (cases "f (es 0) v")
  have E: "E (es 0)" by (rule secures_Act.prems(3))
  have u: "S v u" "I u" using secures_Act.hyps(1) [OF E stays secures_Act.prems(1)] q by simp_all
  have "run q (\<lambda>n. es (Suc n)) u = (a, es', w')" using secures_Act.prems(2) by (simp add: run_Act q)
  then have "S u w' \<and> I w' \<and> Q a w'"
    using secures_Act.IH [OF E stays secures_Act.prems(1)] u(2) q secures_Act.prems(3) by simp
  with u(1) show ?case by (meson composes)
qed

end

end
