(* ===== verification/Prelude.thy ===== *)
theory Prelude
  imports Main "HOL-Library.Word"
begin

text \<open>
  Shared vocabulary of the development: the Go value types the backend uses
  (\<open>int64\<close>, \<open>uuid.UUID\<close>, \<open>time.Time\<close>, \<open>time.Duration\<close>), the fault model of one database
  operation, keyed tables, and the generic lemmas the component theories rely on.

  \<^item> An \<open>int64\<close> is a 64 bit word; it is compared through \<^term>\<open>sint\<close> and \<open>+\<close>, \<open>-\<close>, \<open>*\<close> wrap,
    as Go's do.
  \<^item> A \<open>uuid.UUID\<close> is its 16 bytes, as a 128 bit word; \<open>uuid.Nil\<close> is zero.
  \<^item> A \<open>time.Time\<close> is a number of nanoseconds since January 1, year 1 UTC (the zero value of the
    Go type), so \<open>IsZero\<close> is equality with zero.
  \<^item> A Go string is its list of bytes.
\<close>

section \<open>Collections of facts\<close>

named_theorems table_simps \<open>reads after writes on keyed tables\<close>
named_theorems status_defs \<open>the status enumerations and their transition tables\<close>
named_theorems pay_defs \<open>definitions of the payments store\<close>
named_theorems job_defs \<open>definitions of the jobs store\<close>
named_theorems pay_inv \<open>operations that keep the ledger invariant\<close>
named_theorems job_inv \<open>operations that keep the jobs invariant\<close>

section \<open>Go values\<close>

type_synonym int64 = "64 word"
type_synonym uuid = "128 word"
type_synonym gotime = int
type_synonym duration = int

abbreviation uuid_nil :: uuid where "uuid_nil \<equiv> 0"

abbreviation max_int64 :: int where "max_int64 \<equiv> 9223372036854775807"
abbreviation min_int64 :: int where "min_int64 \<equiv> -9223372036854775808"

definition time_second :: duration where "time_second = 1000000000"
definition time_minute :: duration where "time_minute = 60 * time_second"

text \<open>\<open>time.Time.IsZero\<close>.\<close>

definition time_is_zero :: "gotime \<Rightarrow> bool" where
  "time_is_zero t \<longleftrightarrow> t = 0"

text \<open>
  \<open>time.Unix(sec, 0)\<close>: the seconds are kept as an \<open>int64\<close> count from year 1, so the addition of
  the epoch offset wraps for seconds near the end of the range.
\<close>

definition unix_to_internal :: int where "unix_to_internal = 62135596800"

definition time_unix :: "int64 \<Rightarrow> gotime" where
  "time_unix s = sint (s + word_of_int unix_to_internal) * time_second"

text \<open>\<open>t.Unix()\<close>: whole seconds since 1970, rounded down.\<close>

definition unix_of :: "gotime \<Rightarrow> int" where
  "unix_of t = t div time_second - unix_to_internal"

text \<open>\<open>t.Sub(u)\<close>: saturates at the bounds of \<open>time.Duration\<close>.\<close>

definition time_sub :: "gotime \<Rightarrow> gotime \<Rightarrow> duration" where
  "time_sub t u = max min_int64 (min max_int64 (t - u))"

lemma sint_int64_bounds: "min_int64 \<le> sint (w :: int64)" "sint (w :: int64) \<le> max_int64"
  using sint_greater_eq [of w] sint_less [of w] by simp_all

lemma sint_of_int64:
  assumes "min_int64 \<le> i" and "i \<le> max_int64"
  shows "sint (word_of_int i :: int64) = i"
  using assms by (simp add: signed_of_int signed_take_bit_int_eq_self)

lemma sint_plus_int64:
  assumes "min_int64 \<le> sint a + sint b" and "sint a + sint b \<le> max_int64"
  shows "sint (a + b :: int64) = sint a + sint b"
  using sint_of_int64 [OF assms] by simp

lemma sint_minus_int64:
  assumes "min_int64 \<le> sint a - sint b" and "sint a - sint b \<le> max_int64"
  shows "sint (a - b :: int64) = sint a - sint b"
  using sint_of_int64 [OF assms] by simp

lemma sint_int64_inject: "sint a = sint b \<longleftrightarrow> a = (b :: int64)"
  by (rule word_eq_iff_signed [symmetric])

section \<open>Optional identifiers\<close>

text \<open>A nullable uuid column compared with a parameter: SQL's \<open>NULL = x\<close> is not true.\<close>

definition col_eq :: "uuid option \<Rightarrow> uuid \<Rightarrow> bool" where
  "col_eq c x \<longleftrightarrow> c = Some x"

end
