(* ===== verification/Go_Strings.thy ===== *)
theory Go_Strings
  imports Prelude
begin

text \<open>
  The parts of Go's \<open>strings\<close>, \<open>strconv\<close>, \<open>encoding/hex\<close> and \<open>fmt\<close> packages the modelled code calls,
  on byte strings: \<open>TrimSpace\<close>, \<open>HasPrefix\<close>/\<open>TrimPrefix\<close>, \<open>Split\<close>, \<open>ParseInt(s, 10, 64)\<close>, the verb
  \<open>%d\<close>, \<open>hex.EncodeToString\<close> and \<open>hex.DecodeString\<close>; with the round trips between printing and
  parsing that the webhook signature header relies on.
\<close>

section \<open>Trimming, prefixes, splitting\<close>

abbreviation byte :: "nat \<Rightarrow> char" where "byte n \<equiv> char_of n"

definition ascii_space :: "char \<Rightarrow> bool" where
  "ascii_space c \<longleftrightarrow> of_char c \<in> {9, 10, 11, 12, 13, 32 :: nat}"

text \<open>
  The multi-byte encodings of the code points \<open>unicode.IsSpace\<close> accepts beyond ASCII: U+0085,
  U+00A0, U+1680, U+2000..U+200A, U+2028, U+2029, U+202F, U+205F, U+3000.
\<close>

definition wide_space2 :: "nat \<Rightarrow> nat \<Rightarrow> bool" where
  "wide_space2 a b \<longleftrightarrow> a = 194 \<and> (b = 133 \<or> b = 160)"

definition wide_space3 :: "nat \<Rightarrow> nat \<Rightarrow> nat \<Rightarrow> bool" where
  "wide_space3 a b c \<longleftrightarrow>
     (a = 225 \<and> b = 154 \<and> c = 128) \<or>
     (a = 226 \<and> b = 128 \<and> (128 \<le> c \<and> c \<le> 138 \<or> c = 168 \<or> c = 169 \<or> c = 175)) \<or>
     (a = 226 \<and> b = 129 \<and> c = 159) \<or>
     (a = 227 \<and> b = 128 \<and> c = 128)"

fun trim_left :: "string \<Rightarrow> string" where
  "trim_left [] = []"
| "trim_left (a # s) =
     (if ascii_space a then trim_left s
      else case s of
        b # s' \<Rightarrow>
          if wide_space2 (of_char a) (of_char b) then trim_left s'
          else (case s' of
            c # s'' \<Rightarrow> if wide_space3 (of_char a) (of_char b) (of_char c) then trim_left s'' else a # s
          | [] \<Rightarrow> a # s)
      | [] \<Rightarrow> a # s)"

text \<open>The same from the right, on the reversed string.\<close>

fun trim_rev :: "string \<Rightarrow> string" where
  "trim_rev [] = []"
| "trim_rev (a # s) =
     (if ascii_space a then trim_rev s
      else case s of
        b # s' \<Rightarrow>
          if wide_space2 (of_char b) (of_char a) then trim_rev s'
          else (case s' of
            c # s'' \<Rightarrow> if wide_space3 (of_char c) (of_char b) (of_char a) then trim_rev s'' else a # s
          | [] \<Rightarrow> a # s)
      | [] \<Rightarrow> a # s)"

definition trim_space :: "string \<Rightarrow> string" where
  "trim_space s = rev (trim_rev (rev (trim_left s)))"

fun has_prefix :: "string \<Rightarrow> string \<Rightarrow> bool" where
  "has_prefix s [] = True"
| "has_prefix [] (_ # _) = False"
| "has_prefix (c # s) (d # p) = (c = d \<and> has_prefix s p)"

definition trim_prefix :: "string \<Rightarrow> string \<Rightarrow> string" where
  "trim_prefix s p = (if has_prefix s p then drop (length p) s else s)"

text \<open>\<open>strings.Split(s, sep)\<close> for a one-byte separator.\<close>

fun split_on :: "char \<Rightarrow> string \<Rightarrow> string list" where
  "split_on sep [] = [[]]"
| "split_on sep (c # s) =
     (if c = sep then [] # split_on sep s
      else case split_on sep s of [] \<Rightarrow> [[c]] | p # ps \<Rightarrow> (c # p) # ps)"

text \<open>Printable ASCII without blanks: what the code's own renderings consist of.\<close>

definition graphic :: "char \<Rightarrow> bool" where
  "graphic c \<longleftrightarrow> 33 \<le> (of_char c :: nat) \<and> (of_char c :: nat) \<le> 126"

lemma graphic_not_space: "graphic c \<Longrightarrow> \<not> ascii_space c"
  by (auto simp: graphic_def ascii_space_def)

lemma graphic_not_wide:
  "graphic c \<Longrightarrow> \<not> wide_space2 (of_char c) b" "graphic c \<Longrightarrow> \<not> wide_space2 b (of_char c)"
  "graphic c \<Longrightarrow> \<not> wide_space3 (of_char c) b d" "graphic c \<Longrightarrow> \<not> wide_space3 b d (of_char c)"
  by (auto simp: graphic_def wide_space2_def wide_space3_def)

lemma trim_left_graphic: "list_all graphic s \<Longrightarrow> trim_left s = s"
  by (cases s) (auto simp: graphic_not_space graphic_not_wide split: list.split)

lemma trim_rev_graphic: "list_all graphic s \<Longrightarrow> trim_rev s = s"
  by (cases s) (auto simp: graphic_not_space graphic_not_wide split: list.split)

lemma trim_space_graphic: "list_all graphic s \<Longrightarrow> trim_space s = s"
  by (simp add: trim_space_def trim_left_graphic trim_rev_graphic)

lemma split_on_none: "sep \<notin> set s \<Longrightarrow> split_on sep s = [s]"
  by (induction s) auto

lemma split_on_append: "sep \<notin> set s \<Longrightarrow> split_on sep (s @ sep # t) = s # split_on sep t"
  by (induction s) auto

lemma has_prefix_append [simp]: "has_prefix (p @ s) p"
  by (induction p) auto

lemma trim_prefix_append [simp]: "trim_prefix (p @ s) p = s"
  by (simp add: trim_prefix_def)

section \<open>Decimal numbers\<close>

definition digit_char :: "nat \<Rightarrow> char" where
  "digit_char d = char_of (48 + d)"

definition digit_val :: "char \<Rightarrow> nat option" where
  "digit_val c = (let n = of_char c in if 48 \<le> n \<and> n \<le> 57 then Some (n - 48) else None)"

text \<open>\<open>%d\<close> of a natural number and of an \<open>int64\<close>.\<close>

fun dec_nat :: "nat \<Rightarrow> string" where
  "dec_nat n = (if n < 10 then [digit_char n] else dec_nat (n div 10) @ [digit_char (n mod 10)])"

declare dec_nat.simps [simp del]

definition dec_int :: "int \<Rightarrow> string" where
  "dec_int i = (if i < 0 then CHR ''-'' # dec_nat (nat (- i)) else dec_nat (nat i))"

fun digits_val :: "nat \<Rightarrow> string \<Rightarrow> nat option" where
  "digits_val acc [] = Some acc"
| "digits_val acc (c # s) =
     (case digit_val c of None \<Rightarrow> None | Some d \<Rightarrow> digits_val (10 * acc + d) s)"

text \<open>
  \<open>strconv.ParseInt(s, 10, 64)\<close>: an optional sign, at least one digit, only digits, and a value
  that fits; anything else is an error.
\<close>

definition parse_int64 :: "string \<Rightarrow> int64 option" where
  "parse_int64 s =
     (let (neg, ds) = (case s of
          c # t \<Rightarrow> if c = CHR ''-'' then (True, t) else if c = CHR ''+'' then (False, t) else (False, s)
        | [] \<Rightarrow> (False, s))
      in if ds = [] then None
         else case digits_val 0 ds of
           None \<Rightarrow> None
         | Some n \<Rightarrow>
             let v = (if neg then - int n else int n)
             in if min_int64 \<le> v \<and> v \<le> max_int64 then Some (word_of_int v) else None)"

lemma digit_val_char [simp]: "d < 10 \<Longrightarrow> digit_val (digit_char d) = Some d"
  by (simp add: digit_val_def digit_char_def Let_def)

lemma digits_val_append:
  "digits_val acc (s @ t) = (case digits_val acc s of None \<Rightarrow> None | Some a \<Rightarrow> digits_val a t)"
  by (induction s arbitrary: acc) (auto split: option.split)

lemma digits_val_dec_nat: "digits_val 0 (dec_nat n) = Some n"
proof (induction n rule: dec_nat.induct)
  case (1 n)
  show ?case
  proof (cases "n < 10")
    case True
    then show ?thesis by (simp add: dec_nat.simps [of n])
  next
    case False
    with 1 show ?thesis by (simp add: dec_nat.simps [of n] digits_val_append)
  qed
qed

lemma graphic_digit: "d < 10 \<Longrightarrow> graphic (digit_char d)"
  by (simp add: graphic_def digit_char_def)

lemma dec_nat_digits: "c \<in> set (dec_nat n) \<Longrightarrow> \<exists>d < 10. c = digit_char d"
proof (induction n rule: dec_nat.induct)
  case (1 n)
  show ?case
  proof (cases "n < 10")
    case True
    with 1(2) show ?thesis by (auto simp: dec_nat.simps [of n])
  next
    case False
    then have "c \<in> set (dec_nat (n div 10)) \<or> c = digit_char (n mod 10)"
      using 1(2) by (auto simp: dec_nat.simps [of n])
    moreover have "n mod 10 < 10" by simp
    ultimately show ?thesis using 1(1) [OF False] by blast
  qed
qed

lemma dec_nat_nonempty [simp]: "dec_nat n \<noteq> []"
  by (subst dec_nat.simps) simp

lemma digit_char_not_sign: "d < 10 \<Longrightarrow> digit_char d \<noteq> CHR ''-''" "d < 10 \<Longrightarrow> digit_char d \<noteq> CHR ''+''"
  "d < 10 \<Longrightarrow> digit_char d \<noteq> CHR '',''"
  by (auto simp: digit_char_def dest!: arg_cong [where f = "of_char :: char \<Rightarrow> nat"])

lemma dec_nat_hd: "hd (dec_nat n) \<noteq> CHR ''-''" "hd (dec_nat n) \<noteq> CHR ''+''"
proof -
  obtain d where "d < 10" and "hd (dec_nat n) = digit_char d"
    using dec_nat_digits [of "hd (dec_nat n)" n] by auto
  then show "hd (dec_nat n) \<noteq> CHR ''-''" "hd (dec_nat n) \<noteq> CHR ''+''"
    using digit_char_not_sign by metis+
qed

lemma dec_int_graphic: "list_all graphic (dec_int i)"
  by (auto simp: dec_int_def list_all_iff graphic_def dest!: dec_nat_digits graphic_digit)

lemma dec_int_no_comma: "CHR '','' \<notin> set (dec_int i)"
proof -
  have "CHR '','' \<notin> set (dec_nat n)" for n
    using dec_nat_digits [of "CHR '',''" n] digit_char_not_sign(3) by metis
  then show ?thesis by (simp add: dec_int_def)
qed

lemma parse_dec_int:
  assumes "min_int64 \<le> i" and "i \<le> max_int64"
  shows "parse_int64 (dec_int i) = Some (word_of_int i)"
proof (cases "i < 0")
  case True
  with assms show ?thesis by (simp add: parse_int64_def dec_int_def digits_val_dec_nat)
next
  case False
  obtain c t where ct: "dec_nat (nat i) = c # t" by (cases "dec_nat (nat i)") auto
  with dec_nat_hd [of "nat i"] have "c \<noteq> CHR ''-''" "c \<noteq> CHR ''+''" by auto
  moreover have "digits_val 0 (c # t) = Some (nat i)"
    using digits_val_dec_nat [of "nat i"] ct by simp
  ultimately show ?thesis using assms False
    by (simp add: parse_int64_def dec_int_def ct del: digits_val.simps)
qed

section \<open>Hexadecimal\<close>

definition hex_digit :: "nat \<Rightarrow> char" where
  "hex_digit d = (if d < 10 then char_of (48 + d) else char_of (87 + d))"

definition hex_val :: "char \<Rightarrow> nat option" where
  "hex_val c =
     (let n = of_char c in
      if 48 \<le> n \<and> n \<le> 57 then Some (n - 48)
      else if 97 \<le> n \<and> n \<le> 102 then Some (n - 87)
      else if 65 \<le> n \<and> n \<le> 70 then Some (n - 55)
      else None)"

fun hex_encode :: "string \<Rightarrow> string" where
  "hex_encode [] = []"
| "hex_encode (c # s) = hex_digit (of_char c div 16) # hex_digit (of_char c mod 16) # hex_encode s"

fun hex_decode :: "string \<Rightarrow> string option" where
  "hex_decode [] = Some []"
| "hex_decode [_] = None"
| "hex_decode (a # b # s) =
     (case (hex_val a, hex_val b, hex_decode s) of
        (Some x, Some y, Some t) \<Rightarrow> Some (char_of (16 * x + y) # t)
      | _ \<Rightarrow> None)"

lemma hex_val_digit: "d < 16 \<Longrightarrow> hex_val (hex_digit d) = Some d"
  by (auto simp: hex_val_def hex_digit_def Let_def)

lemma of_char_lt_256 [simp]: "of_char c < (256 :: nat)"
  using nat_of_char_less_256 [of c] by simp

theorem hex_decode_encode: "hex_decode (hex_encode s) = Some s"
proof (induction s)
  case Nil
  show ?case by simp
next
  case (Cons c s)
  have "(of_char c :: nat) div 16 < 16" using of_char_lt_256 [of c] by linarith
  with Cons show ?case by (simp add: hex_val_digit)
qed

lemma hex_digit_graphic: "d < 16 \<Longrightarrow> graphic (hex_digit d)" "d < 16 \<Longrightarrow> hex_digit d \<noteq> CHR '',''"
  by (auto simp: graphic_def hex_digit_def dest!: arg_cong [where f = "of_char :: char \<Rightarrow> nat"])

lemma hex_encode_graphic: "list_all graphic (hex_encode s)" "CHR '','' \<notin> set (hex_encode s)"
proof (induction s)
  case (Cons c s)
  have d: "(of_char c :: nat) div 16 < 16" using of_char_lt_256 [of c] by linarith
  { case 1 show ?case using Cons d by (simp add: hex_digit_graphic) }
  { case 2 show ?case using Cons d hex_digit_graphic(2) [of "of_char c div 16"]
      hex_digit_graphic(2) [of "of_char c mod 16"] by auto }
qed auto

lemma hex_encode_empty [simp]: "hex_encode s = [] \<longleftrightarrow> s = []"
  by (cases s) auto

end
