(* ===== verification/Platform_Http.thy ===== *)
theory Platform_Http
  imports Go_Strings
begin

text \<open>
  The HTTP vocabulary of \<open>backend/platform\<close>: the problem errors of \<open>errors.go\<close>, the claims of
  \<open>jwt.go\<close> and the authentication and role gates of \<open>auth.go\<close>. A request is what the handlers look
  at: the claims the middleware put in its context, and the decoded input of the route. A handler
  also works on a world. The JSON decoder, the token validator and the parser of
  \<open>github.com/google/uuid\<close> are not part of the repository and stay parameters.
\<close>

section \<open>Errors\<close>

record FieldError =
  fe_Field :: string
  fe_Issue :: string

record Error =
  er_Status :: nat
  er_Code :: string
  er_Title :: string
  er_Detail :: string
  er_FieldErrors :: "FieldError list"

definition ErrValidation :: "string \<Rightarrow> FieldError list \<Rightarrow> Error" where
  "ErrValidation detail fs =
     \<lparr>er_Status = 422, er_Code = ''validation_failed'', er_Title = ''The request is invalid'',
      er_Detail = detail, er_FieldErrors = fs\<rparr>"

definition ErrNotFound :: "string \<Rightarrow> Error" where
  "ErrNotFound detail =
     \<lparr>er_Status = 404, er_Code = ''not_found'', er_Title = ''Resource not found'', er_Detail = detail,
      er_FieldErrors = []\<rparr>"

definition ErrUnauthorized :: "string \<Rightarrow> Error" where
  "ErrUnauthorized detail =
     \<lparr>er_Status = 401, er_Code = ''unauthorized'', er_Title = ''Authentication required'',
      er_Detail = detail, er_FieldErrors = []\<rparr>"

definition ErrForbidden :: "string \<Rightarrow> Error" where
  "ErrForbidden detail =
     \<lparr>er_Status = 403, er_Code = ''forbidden'', er_Title = ''Permission denied'', er_Detail = detail,
      er_FieldErrors = []\<rparr>"

definition ErrConflict :: "string \<Rightarrow> Error" where
  "ErrConflict detail =
     \<lparr>er_Status = 409, er_Code = ''conflict'', er_Title = ''Conflict with current state'',
      er_Detail = detail, er_FieldErrors = []\<rparr>"

definition ErrInternal :: Error where
  "ErrInternal =
     \<lparr>er_Status = 500, er_Code = ''internal_error'', er_Title = ''An unexpected error occurred'',
      er_Detail = [], er_FieldErrors = []\<rparr>"

lemmas platform_errors = ErrValidation_def ErrNotFound_def ErrUnauthorized_def ErrForbidden_def
  ErrConflict_def ErrInternal_def

text \<open>An error value: one that wraps a platform error, or any other.\<close>

datatype any_error = AppError Error | OtherError

fun AsError :: "any_error \<Rightarrow> Error" where
  "AsError (AppError e) = e"
| "AsError OtherError = ErrInternal"

text \<open>The answer to a request: a status with a body, or a problem document with its status.\<close>

datatype 'b response = Reply nat 'b | Problem Error

definition WriteError :: "any_error \<Rightarrow> 'b response" where
  "WriteError e = Problem (AsError e)"

fun response_status :: "'b response \<Rightarrow> nat" where
  "response_status (Reply s b) = s"
| "response_status (Problem e) = er_Status e"

section \<open>Claims\<close>

record Claims =
  cl_UserID :: string
  cl_TenantID :: string
  cl_Role :: string
  cl_SessionID :: string
  cl_IssuedAt :: gotime
  cl_ExpiresAt :: gotime

definition TenantScopeFrom :: "Claims option \<Rightarrow> string \<times> bool" where
  "TenantScopeFrom cl =
     (case cl of
        Some c \<Rightarrow> if cl_TenantID c \<noteq> [] then (cl_TenantID c, True) else ([], False)
      | None \<Rightarrow> ([], False))"

section \<open>Gates\<close>

type_synonym ('q, 'w, 'b) handler = "Claims option \<Rightarrow> 'q \<Rightarrow> 'w \<Rightarrow> 'b response \<times> 'w"

definition RequireAuthenticated :: "('q, 'w, 'b) handler \<Rightarrow> ('q, 'w, 'b) handler" where
  "RequireAuthenticated h cl q w =
     (case cl of
        None \<Rightarrow> (WriteError (AppError (ErrUnauthorized ''authentication required'')), w)
      | Some _ \<Rightarrow> h cl q w)"

definition RequireRole :: "string list \<Rightarrow> ('q, 'w, 'b) handler \<Rightarrow> ('q, 'w, 'b) handler" where
  "RequireRole roles h cl q w =
     (case cl of
        None \<Rightarrow> (WriteError (AppError (ErrUnauthorized ''authentication required'')), w)
      | Some c \<Rightarrow>
          if cl_Role c \<notin> set roles then (WriteError (AppError (ErrForbidden ''insufficient role'')), w)
          else h cl q w)"

text \<open>
  \<open>strings.EqualFold(s, "Bearer")\<close>: none of its letters folds with a letter outside ASCII.
\<close>

definition ascii_lower :: "char \<Rightarrow> char" where
  "ascii_lower c = (let n = of_char c :: nat in if 65 \<le> n \<and> n \<le> 90 then char_of (n + 32) else c)"

text \<open>\<open>strings.SplitN(s, " ", 2)\<close>.\<close>

fun split_space :: "string \<Rightarrow> string \<Rightarrow> string list" where
  "split_space acc [] = [rev acc]"
| "split_space acc (c # cs) = (if c = CHR 0x20 then [rev acc, cs] else split_space (c # acc) cs)"

definition bearerToken :: "string \<Rightarrow> string" where
  "bearerToken authorization =
     (let header = trim_space authorization in
      if header = [] then []
      else case split_space [] header of
        [scheme, rest] \<Rightarrow> if map ascii_lower scheme = ''bearer'' then trim_space rest else []
      | _ \<Rightarrow> [])"

text \<open>
  \<open>AuthMiddlewareFunc\<close> in front of a handler: \<open>validator\<close> is the token validator bound at the time
  of the request, \<open>None\<close> while the service is starting.
\<close>

definition AuthMiddlewareFunc ::
  "(string \<Rightarrow> Claims option) option \<Rightarrow> ('q, 'w, 'b) handler \<Rightarrow> string \<Rightarrow> 'q \<Rightarrow> 'w \<Rightarrow> 'b response \<times> 'w" where
  "AuthMiddlewareFunc validator h authorization q w =
     (let token = bearerToken authorization in
      case validator of
        None \<Rightarrow>
          if token \<noteq> []
            then (WriteError (AppError (ErrUnauthorized ''access token cannot be verified while the service is starting'')), w)
          else h None q w
      | Some validate \<Rightarrow>
          if token = [] then h None q w
          else case validate token of
            None \<Rightarrow> (WriteError (AppError (ErrUnauthorized ''access token is invalid or expired'')), w)
          | Some c \<Rightarrow> h (Some c) q w)"

section \<open>What a gate lets through\<close>

text \<open>A gated handler either leaves the world alone and answers 401 or 403, or runs for a principal of the role.\<close>

lemma RequireRole_cases:
  assumes "RequireRole roles h cl q w = (r, w')"
  obtains (unauthenticated) "cl = None" "response_status r = 401" "w' = w"
  | (forbidden) c where "cl = Some c" "cl_Role c \<notin> set roles" "response_status r = 403" "w' = w"
  | (granted) c where "cl = Some c" "cl_Role c \<in> set roles" "h cl q w = (r, w')"
  using assms by (auto simp: RequireRole_def WriteError_def platform_errors split: option.splits if_splits)

lemma RequireAuthenticated_cases:
  assumes "RequireAuthenticated h cl q w = (r, w')"
  obtains (unauthenticated) "cl = None" "response_status r = 401" "w' = w"
  | (granted) c where "cl = Some c" "h cl q w = (r, w')"
  using assms by (auto simp: RequireAuthenticated_def WriteError_def platform_errors split: option.splits)

text \<open>While the service starts, a request that carries a token never reaches a handler.\<close>

lemma starting_refuses_tokens:
  "bearerToken a \<noteq> [] \<Longrightarrow> response_status (fst (AuthMiddlewareFunc None h a q w)) = 401 \<and>
     snd (AuthMiddlewareFunc None h a q w) = w"
  by (simp add: AuthMiddlewareFunc_def WriteError_def platform_errors)

end
