(* ===== verification/Http_Input.thy ===== *)
theory Http_Input
  imports Platform_Http
begin

text \<open>
  The input of a handler: the JSON body (\<open>DecodeJSON\<close> of \<open>backend/platform/errors.go\<close>), path
  and query parameters. What \<open>encoding/json\<close> makes of the bytes is the value of type \<open>body\<close>: none,
  an error with its text, or the decoded struct. \<open>uuid.Parse\<close> of \<open>github.com/google/uuid\<close> is the
  argument \<open>parse\<close>. The \<open>uuidFromRequest\<close> of the domains are copies of one another; \<open>path_uuid\<close> is
  that of the jobs domain.
\<close>

datatype 'a body = NoBody | BadBody string | JsonBody 'a

fun DecodeJSON :: "'a body \<Rightarrow> Error + 'a" where
  "DecodeJSON NoBody = Inl (ErrValidation ''request body is required'' [])"
| "DecodeJSON (BadBody msg) = Inl (ErrValidation (''request body is not valid JSON: '' @ msg) [])"
| "DecodeJSON (JsonBody v) = Inr v"

definition path_uuid :: "(string \<Rightarrow> uuid option) \<Rightarrow> string \<Rightarrow> string \<Rightarrow> Error + uuid" where
  "path_uuid parse name value =
     (let raw = trim_space value in
      if raw = [] then Inl (ErrValidation ''resource id is required'' [\<lparr>fe_Field = name, fe_Issue = ''is required''\<rparr>])
      else case parse raw of
        None \<Rightarrow> Inl (ErrValidation ''resource id is not a valid identifier'' [\<lparr>fe_Field = name, fe_Issue = ''must be a uuid''\<rparr>])
      | Some k \<Rightarrow> Inr k)"

text \<open>
  \<open>strings.ToUpper\<close> on the bytes of a string, as far as its result can be ASCII: besides the letters
  only the dotless i (bytes C4 B1) and the long s (bytes C5 BF) have an upper case in ASCII. Other
  characters stay outside ASCII and keep their bytes here.
\<close>

definition upper_char :: "char \<Rightarrow> char" where
  "upper_char c = (let n = of_char c :: nat in if 97 \<le> n \<and> n \<le> 122 then char_of (n - 32) else c)"

fun ascii_upper :: "string \<Rightarrow> string" where
  "ascii_upper [] = []"
| "ascii_upper [c] = [upper_char c]"
| "ascii_upper (c # d # cs) =
     (if c = CHR 0xC4 \<and> d = CHR 0xB1 then CHR ''I'' # ascii_upper cs
      else if c = CHR 0xC5 \<and> d = CHR 0xBF then CHR ''S'' # ascii_upper cs
      else upper_char c # ascii_upper (d # cs))"

text \<open>\<open>strconv.Atoi\<close> on a 64 bit platform.\<close>

definition Atoi :: "string \<Rightarrow> int option" where
  "Atoi s = map_option sint (parse_int64 s)"

section \<open>Pages\<close>

text \<open>The \<open>listPagination\<close> of the domains: the defaults and the cap are its arguments.\<close>

record page_query =
  pq_limit :: string
  pq_offset :: string

definition query_int :: "string \<Rightarrow> int \<Rightarrow> string \<Rightarrow> Error + int" where
  "query_int name dflt raw =
     (if raw = [] then Inr dflt
      else case Atoi raw of
        None \<Rightarrow> Inl (ErrValidation (name @ '' is not a number'') [\<lparr>fe_Field = name, fe_Issue = ''must be an integer''\<rparr>])
      | Some n \<Rightarrow> Inr n)"

definition paginate :: "int \<Rightarrow> int \<Rightarrow> page_query \<Rightarrow> Error + int \<times> int" where
  "paginate dflt cap q =
     (case query_int ''limit'' dflt (pq_limit q) of
        Inl e \<Rightarrow> Inl e
      | Inr limit \<Rightarrow>
          (case query_int ''offset'' 0 (pq_offset q) of
             Inl e \<Rightarrow> Inl e
           | Inr offset \<Rightarrow>
               if limit < 1 then Inl (ErrValidation ''limit must be positive''
                 [\<lparr>fe_Field = ''limit'', fe_Issue = ''must be at least 1''\<rparr>])
               else if offset < 0 then Inl (ErrValidation ''offset must be non-negative''
                 [\<lparr>fe_Field = ''offset'', fe_Issue = ''must be at least 0''\<rparr>])
               else Inr (min limit cap, offset)))"

lemma paginate_bounds: "paginate dflt cap q = Inr (limit, offset) \<Longrightarrow> limit \<le> cap \<and> 0 \<le> offset"
  by (auto simp: paginate_def split: sum.splits if_splits)

section \<open>Principals\<close>

text \<open>The subject and tenant of the claims, as the identifiers the domains use.\<close>

datatype principal = BadSubject | BadTenant | Principal uuid "uuid option"

definition principal_of :: "(string \<Rightarrow> uuid option) \<Rightarrow> Claims \<Rightarrow> principal" where
  "principal_of parse cl =
     (case parse (cl_UserID cl) of
        None \<Rightarrow> BadSubject
      | Some user \<Rightarrow>
          if cl_TenantID cl = [] then Principal user None
          else case parse (cl_TenantID cl) of
            None \<Rightarrow> BadTenant
          | Some tenant \<Rightarrow> Principal user (Some tenant))"

definition require_claims :: "Claims option \<Rightarrow> Error + Claims" where
  "require_claims cl =
     (case cl of None \<Rightarrow> Inl (ErrUnauthorized ''authentication required'') | Some c \<Rightarrow> Inr c)"

lemma DecodeJSON_Inr: "DecodeJSON b = Inr v \<longleftrightarrow> b = JsonBody v"
  by (cases b) auto

lemma DecodeJSON_Inl: "DecodeJSON b = Inl e \<Longrightarrow> er_Status e = 422"
  by (cases b) (auto simp: platform_errors)

lemma path_uuid_Inr: "path_uuid parse name value = Inr k \<longleftrightarrow> trim_space value \<noteq> [] \<and> parse (trim_space value) = Some k"
  by (auto simp: path_uuid_def Let_def split: option.splits)

lemma path_uuid_Inl: "path_uuid parse name value = Inl e \<Longrightarrow> er_Status e = 422"
  by (auto simp: path_uuid_def Let_def platform_errors split: option.splits if_splits)

lemma RequireRole_Reply:
  "RequireRole roles h cl q w = (Reply s b, w') \<longleftrightarrow>
    (\<exists>c. cl = Some c \<and> cl_Role c \<in> set roles \<and> h cl q w = (Reply s b, w'))"
  by (auto simp: RequireRole_def WriteError_def split: option.splits)

lemma RequireAuthenticated_Reply:
  "RequireAuthenticated h cl q w = (Reply s b, w') \<longleftrightarrow> (\<exists>c. cl = Some c \<and> h cl q w = (Reply s b, w'))"
  by (auto simp: RequireAuthenticated_def WriteError_def split: option.splits)

section \<open>Answers\<close>

text \<open>The body of an answer, as one of the bodies of an interface.\<close>

fun map_response :: "('a \<Rightarrow> 'b) \<Rightarrow> 'a response \<Rightarrow> 'b response" where
  "map_response f (Reply s b) = Reply s (f b)"
| "map_response f (Problem e) = Problem e"

lemma apfst_pair: "apfst f p = (r, w') \<longleftrightarrow> (\<exists>r0. p = (r0, w') \<and> r = f r0)"
  by (cases p) auto

lemma RequireRole_cases':
  "RequireRole roles h cl q w = (r, w') \<Longrightarrow> w' \<noteq> w \<Longrightarrow>
    \<exists>claims. cl = Some claims \<and> cl_Role claims \<in> set roles \<and> h (Some claims) q w = (r, w')"
  by (erule RequireRole_cases) auto

lemma RequireAuthenticated_cases':
  "RequireAuthenticated h cl q w = (r, w') \<Longrightarrow> w' \<noteq> w \<Longrightarrow> \<exists>claims. cl = Some claims \<and> h (Some claims) q w = (r, w')"
  by (erule RequireAuthenticated_cases) auto

end
