(* ===== verification/Prog_Http.thy ===== *)
theory Prog_Http
  imports Rely Http_Input
begin

text \<open>
  The gates and answers of \<open>Platform_Http\<close> for handlers that are resumptions: an answer is a \<open>prog\<close> whose
  result is a response. A domain brings its errors and how it turns them into problems.
\<close>

type_synonym ('e, 'w, 'b) answer = "('e, 'w, 'b response) prog"

definition refuse :: "any_error \<Rightarrow> ('e, 'w, 'b) answer" where
  "refuse e = Done (WriteError e)"

text \<open>Answering with what an operation returns, or with its error.\<close>

definition answer_of ::
  "('x \<Rightarrow> any_error) \<Rightarrow> ('a \<Rightarrow> 'b response) \<Rightarrow> ('e, 'w, 'x + 'a) prog \<Rightarrow> ('e, 'w, 'b) answer" where
  "answer_of err f p = and_then p (\<lambda>r. case r of Inl x \<Rightarrow> refuse (err x) | Inr a \<Rightarrow> Done (f a))"

text \<open>A check of the input, before an answer.\<close>

definition checked :: "Error + 'a \<Rightarrow> ('a \<Rightarrow> ('e, 'w, 'b) answer) \<Rightarrow> ('e, 'w, 'b) answer" where
  "checked r h = (case r of Inl e \<Rightarrow> refuse (AppError e) | Inr a \<Rightarrow> h a)"

text \<open>\<open>RequireAuthenticated\<close> and \<open>RequireRole\<close>.\<close>

definition gate_authenticated :: "Claims option \<Rightarrow> (Claims \<Rightarrow> ('e, 'w, 'b) answer) \<Rightarrow> ('e, 'w, 'b) answer" where
  "gate_authenticated cl h = checked (require_claims cl) h"

definition gate_role :: "string list \<Rightarrow> Claims option \<Rightarrow> (Claims \<Rightarrow> ('e, 'w, 'b) answer) \<Rightarrow> ('e, 'w, 'b) answer" where
  "gate_role roles cl h = gate_authenticated cl (\<lambda>c.
     if cl_Role c \<notin> set roles then refuse (AppError (ErrForbidden ''insufficient role'')) else h c)"

section \<open>What the gates keep\<close>

context discipline
begin

lemma secures_refuse: "(\<And>w. S v w \<Longrightarrow> I w \<Longrightarrow> Q (WriteError e) w) \<Longrightarrow> secures E S G I Q v (refuse e)"
  unfolding refuse_def by (rule secures_Done)

lemma secures_answer_of:
  assumes "secures E S G I R v p" and "I v"
    and "\<And>a w. S v w \<Longrightarrow> I w \<Longrightarrow> R (Inr a) w \<Longrightarrow> Q (f a) w"
    and "\<And>x w. S v w \<Longrightarrow> I w \<Longrightarrow> R (Inl x) w \<Longrightarrow> Q (WriteError (err x)) w"
  shows "secures E S G I Q v (answer_of err f p)"
  unfolding answer_of_def
proof (rule secures_and_then [OF assms(1,2)])
  fix r w assume h: "S v w" "I w" "\<And>u. S w u \<Longrightarrow> I u \<Longrightarrow> R r u"
  have later: "S w u \<Longrightarrow> S v u" for u using h(1) by (rule composes)
  show "secures E S G I Q w (case r of Inl x \<Rightarrow> refuse (err x) | Inr a \<Rightarrow> Done (f a))"
    by (cases r) (use h(3) assms(3,4) later in \<open>auto intro!: secures_Done simp: refuse_def\<close>)
qed

lemma secures_checked:
  assumes "\<And>a. r = Inr a \<Longrightarrow> secures E S G I Q v (h a)"
    and "\<And>e w. r = Inl e \<Longrightarrow> S v w \<Longrightarrow> I w \<Longrightarrow> Q (Problem e) w"
  shows "secures E S G I Q v (checked r h)"
  using assms unfolding checked_def
  by (auto intro!: secures_refuse simp: WriteError_def split: sum.splits)

lemma secures_authenticated:
  assumes "\<And>c. cl = Some c \<Longrightarrow> secures E S G I Q v (h c)"
    and "\<And>e w. Q (Problem e) w"
  shows "secures E S G I Q v (gate_authenticated cl h)"
  unfolding gate_authenticated_def
  by (rule secures_checked) (use assms in \<open>auto simp: require_claims_def split: option.splits\<close>)

lemma secures_role:
  assumes "\<And>c. cl = Some c \<Longrightarrow> cl_Role c \<in> set roles \<Longrightarrow> secures E S G I Q v (h c)"
    and "\<And>e w. Q (Problem e) w"
  shows "secures E S G I Q v (gate_role roles cl h)"
  unfolding gate_role_def
  by (rule secures_authenticated) (use assms in \<open>auto intro!: secures_refuse simp: WriteError_def\<close>)

end

section \<open>A gated handler that runs alone\<close>

lemma run_refuse [simp]: "run (refuse e) es w = (Problem (AsError e), es, w)"
  by (simp add: refuse_def WriteError_def)

lemma run_answer_of:
  "run (answer_of err f p) es w =
     (case run p es w of (Inl x, es', w') \<Rightarrow> (Problem (AsError (err x)), es', w') | (Inr a, es', w') \<Rightarrow> (f a, es', w'))"
  by (simp add: answer_of_def run_and_then split: prod.splits sum.splits)

lemma run_checked: "run (checked r h) es w = (case r of Inl e \<Rightarrow> (Problem e, es, w) | Inr a \<Rightarrow> run (h a) es w)"
  by (simp add: checked_def split: sum.splits)

lemma run_gates:
  "run (gate_authenticated (Some c) h) es w = run (h c) es w"
  "cl_Role c \<in> set roles \<Longrightarrow> run (gate_role roles (Some c) h) es w = run (h c) es w"
  by (simp_all add: gate_role_def gate_authenticated_def require_claims_def run_checked)

end
