(* ===== verification/Status_Machines.thy ===== *)
theory Status_Machines
  imports Prelude "HOL-Library.List_Lexorder" "HOL-Library.Char_ord"
begin

text \<open>
  The four status machines: payment intents, provider transactions and refunds
  (\<open>backend/payments/statemachine.go\<close>) and jobs (\<open>backend/jobs/statemachine.go\<close>). Each is a
  transition table from a status to its legal targets; the shared walker \<open>canTransition\<close> looks a
  move up in it. A status of the Go code is a string type, so every enumeration has one more
  constructor for the strings that are no known status.

  The locale \<open>status_machine\<close> states what a well-formed table promises; \<open>settling_machine\<close> adds a
  rank that every move decreases, and derives from it that a lifecycle is finite. All four tables
  are interpreted, the three of the payments domain as settling machines.
\<close>

section \<open>The walker\<close>

text \<open>An illegal move: the two statuses and the names of the alternatives the message lists.\<close>

datatype 's conflict =
    NoOutgoing 's 's "string list"
  | IllegalMove 's 's "string list"

definition canTransition ::
  "('s \<Rightarrow> string) \<Rightarrow> ('s \<Rightarrow> 's list option) \<Rightarrow> 's list \<Rightarrow> 's \<Rightarrow> 's \<Rightarrow> 's conflict option" where
  "canTransition name transitions all from to =
     (case transitions from of
        None \<Rightarrow> Some (NoOutgoing from to (sort (map name all)))
      | Some targets \<Rightarrow>
          if to \<in> set targets then None
          else Some (IllegalMove from to (sort (map name targets))))"

locale status_machine =
  fixes name :: "'s \<Rightarrow> string"
    and edges :: "'s \<Rightarrow> 's list option"
    and all :: "'s list"
  assumes targets_known: "edges s = Some ts \<Longrightarrow> t \<in> set ts \<Longrightarrow> t \<in> set all"
    and source_known: "edges s = Some ts \<Longrightarrow> s \<in> set all"
    and no_self: "edges s = Some ts \<Longrightarrow> s \<notin> set ts"
    and some_target: "edges s = Some ts \<Longrightarrow> ts \<noteq> []"
begin

abbreviation can :: "'s \<Rightarrow> 's \<Rightarrow> 's conflict option" where
  "can \<equiv> canTransition name edges all"

definition legal :: "'s \<Rightarrow> 's \<Rightarrow> bool" where
  "legal s t \<longleftrightarrow> can s t = None"

lemma legal_iff: "legal s t \<longleftrightarrow> (\<exists>ts. edges s = Some ts \<and> t \<in> set ts)"
  by (auto simp: legal_def canTransition_def split: option.splits if_splits)

lemma legal_irrefl: "\<not> legal s s"
  by (auto simp: legal_iff dest: no_self)

lemma legal_known: "legal s t \<Longrightarrow> s \<in> set all \<and> t \<in> set all"
  by (auto simp: legal_iff dest: source_known targets_known)

lemma dead_end_iff: "(\<forall>t. \<not> legal s t) \<longleftrightarrow> edges s = None"
proof (cases "edges s")
  case None
  then show ?thesis by (simp add: legal_iff)
next
  case (Some ts)
  then have "hd ts \<in> set ts" using some_target by auto
  with Some show ?thesis by (auto simp: legal_iff)
qed

lemma unknown_conflicts: "s \<notin> set all \<Longrightarrow> can s t = Some (NoOutgoing s t (sort (map name all)))"
  using source_known [of s] by (cases "edges s") (auto simp: canTransition_def)

end

locale settling_machine = status_machine name edges all
  for name :: "'s \<Rightarrow> string" and edges and all +
  fixes rank :: "'s \<Rightarrow> nat"
  assumes rank_decreases: "edges s = Some ts \<Longrightarrow> t \<in> set ts \<Longrightarrow> rank t < rank s"
begin

text \<open>A run is a list of statuses, each a legal move from the one before.\<close>

fun run :: "'s \<Rightarrow> 's list \<Rightarrow> bool" where
  "run s [] = True"
| "run s (t # ts) = (legal s t \<and> run t ts)"

lemma run_bounded: "run s ts \<Longrightarrow> length ts \<le> rank s"
proof (induction ts arbitrary: s)
  case (Cons t ts)
  then have "rank t < rank s" by (auto simp: legal_iff dest: rank_decreases)
  with Cons show ?case by fastforce
qed simp

lemma legal_not_back: "legal\<^sup>+\<^sup>+ s t \<Longrightarrow> rank t < rank s"
  by (induction rule: tranclp.induct) (auto simp: legal_iff dest!: rank_decreases)

lemma never_returns: "\<not> legal\<^sup>+\<^sup>+ s s"
  using legal_not_back by blast

end

section \<open>Payment intents\<close>

datatype IntentStatus =
    IntentCreated | IntentProcessing | IntentSucceeded | IntentFailed | IntentCanceled
  | IntentOther string

fun intent_name :: "IntentStatus \<Rightarrow> string" where
  "intent_name IntentCreated = ''CREATED''"
| "intent_name IntentProcessing = ''PROCESSING''"
| "intent_name IntentSucceeded = ''SUCCEEDED''"
| "intent_name IntentFailed = ''FAILED''"
| "intent_name IntentCanceled = ''CANCELED''"
| "intent_name (IntentOther s) = s"

fun intentTransitions :: "IntentStatus \<Rightarrow> IntentStatus list option" where
  "intentTransitions IntentCreated = Some [IntentProcessing, IntentCanceled]"
| "intentTransitions IntentProcessing = Some [IntentSucceeded, IntentFailed]"
| "intentTransitions _ = None"

definition AllIntentStatuses :: "IntentStatus list" where
  "AllIntentStatuses = [IntentCreated, IntentProcessing, IntentSucceeded, IntentFailed, IntentCanceled]"

definition CanTransitionIntentStatus ::
  "IntentStatus \<Rightarrow> IntentStatus \<Rightarrow> IntentStatus conflict option" where
  "CanTransitionIntentStatus = canTransition intent_name intentTransitions AllIntentStatuses"

definition isKnownIntentStatus :: "IntentStatus \<Rightarrow> bool" where
  "isKnownIntentStatus s \<longleftrightarrow> s \<in> set AllIntentStatuses"

definition IsIntentTerminal :: "IntentStatus \<Rightarrow> bool" where
  "IsIntentTerminal s \<longleftrightarrow> intentTransitions s = None \<and> isKnownIntentStatus s"

section \<open>Transactions\<close>

datatype TransactionStatus = TxPending | TxSucceeded | TxFailed | TxOther string

fun tx_name :: "TransactionStatus \<Rightarrow> string" where
  "tx_name TxPending = ''PENDING''"
| "tx_name TxSucceeded = ''SUCCEEDED''"
| "tx_name TxFailed = ''FAILED''"
| "tx_name (TxOther s) = s"

fun transactionTransitions :: "TransactionStatus \<Rightarrow> TransactionStatus list option" where
  "transactionTransitions TxPending = Some [TxSucceeded, TxFailed]"
| "transactionTransitions _ = None"

definition AllTransactionStatuses :: "TransactionStatus list" where
  "AllTransactionStatuses = [TxPending, TxSucceeded, TxFailed]"

definition CanTransitionTransactionStatus ::
  "TransactionStatus \<Rightarrow> TransactionStatus \<Rightarrow> TransactionStatus conflict option" where
  "CanTransitionTransactionStatus =
     canTransition tx_name transactionTransitions AllTransactionStatuses"

definition isKnownTransactionStatus :: "TransactionStatus \<Rightarrow> bool" where
  "isKnownTransactionStatus s \<longleftrightarrow> s \<in> set AllTransactionStatuses"

definition IsTransactionTerminal :: "TransactionStatus \<Rightarrow> bool" where
  "IsTransactionTerminal s \<longleftrightarrow> transactionTransitions s = None \<and> isKnownTransactionStatus s"

section \<open>Refunds\<close>

datatype RefundStatus = RefundRequested | RefundCompleted | RefundFailed | RefundOther string

fun refund_name :: "RefundStatus \<Rightarrow> string" where
  "refund_name RefundRequested = ''REQUESTED''"
| "refund_name RefundCompleted = ''COMPLETED''"
| "refund_name RefundFailed = ''FAILED''"
| "refund_name (RefundOther s) = s"

fun refundTransitions :: "RefundStatus \<Rightarrow> RefundStatus list option" where
  "refundTransitions RefundRequested = Some [RefundCompleted, RefundFailed]"
| "refundTransitions _ = None"

definition AllRefundStatuses :: "RefundStatus list" where
  "AllRefundStatuses = [RefundRequested, RefundCompleted, RefundFailed]"

definition CanTransitionRefundStatus ::
  "RefundStatus \<Rightarrow> RefundStatus \<Rightarrow> RefundStatus conflict option" where
  "CanTransitionRefundStatus = canTransition refund_name refundTransitions AllRefundStatuses"

definition isKnownRefundStatus :: "RefundStatus \<Rightarrow> bool" where
  "isKnownRefundStatus s \<longleftrightarrow> s \<in> set AllRefundStatuses"

definition IsRefundTerminal :: "RefundStatus \<Rightarrow> bool" where
  "IsRefundTerminal s \<longleftrightarrow> refundTransitions s = None \<and> isKnownRefundStatus s"

section \<open>Jobs\<close>

datatype Status =
    StatusCreated | StatusTriaging | StatusDispatching | StatusAssigned | StatusAccepted
  | StatusEnRoute | StatusArrived | StatusInspection | StatusDiagnosis | StatusEstimate
  | StatusAwaitingApproval | StatusApproved | StatusRepairing | StatusVerification
  | StatusCompleted | StatusCancelled | StatusFailed | StatusEscalated
  | StatusOther string

fun status_name :: "Status \<Rightarrow> string" where
  "status_name StatusCreated = ''CREATED''"
| "status_name StatusTriaging = ''TRIAGING''"
| "status_name StatusDispatching = ''DISPATCHING''"
| "status_name StatusAssigned = ''ASSIGNED''"
| "status_name StatusAccepted = ''ACCEPTED''"
| "status_name StatusEnRoute = ''EN_ROUTE''"
| "status_name StatusArrived = ''ARRIVED''"
| "status_name StatusInspection = ''INSPECTION''"
| "status_name StatusDiagnosis = ''DIAGNOSIS''"
| "status_name StatusEstimate = ''ESTIMATE''"
| "status_name StatusAwaitingApproval = ''AWAITING_APPROVAL''"
| "status_name StatusApproved = ''APPROVED''"
| "status_name StatusRepairing = ''REPAIRING''"
| "status_name StatusVerification = ''VERIFICATION''"
| "status_name StatusCompleted = ''COMPLETED''"
| "status_name StatusCancelled = ''CANCELLED''"
| "status_name StatusFailed = ''FAILED''"
| "status_name StatusEscalated = ''ESCALATED''"
| "status_name (StatusOther s) = s"

fun transitions :: "Status \<Rightarrow> Status list option" where
  "transitions StatusCreated = Some [StatusTriaging, StatusCancelled]"
| "transitions StatusTriaging = Some [StatusDispatching, StatusCancelled]"
| "transitions StatusDispatching = Some [StatusAssigned, StatusEscalated, StatusCancelled]"
| "transitions StatusAssigned = Some [StatusAccepted, StatusDispatching, StatusCancelled]"
| "transitions StatusAccepted = Some [StatusEnRoute, StatusDispatching, StatusCancelled]"
| "transitions StatusEnRoute = Some [StatusArrived, StatusCancelled]"
| "transitions StatusArrived = Some [StatusInspection, StatusFailed]"
| "transitions StatusInspection = Some [StatusDiagnosis]"
| "transitions StatusDiagnosis = Some [StatusEstimate]"
| "transitions StatusEstimate = Some [StatusAwaitingApproval]"
| "transitions StatusAwaitingApproval = Some [StatusApproved, StatusEscalated, StatusCancelled]"
| "transitions StatusApproved = Some [StatusRepairing]"
| "transitions StatusRepairing = Some [StatusVerification, StatusFailed]"
| "transitions StatusVerification = Some [StatusCompleted, StatusRepairing]"
| "transitions _ = None"

definition AllStatuses :: "Status list" where
  "AllStatuses = [StatusCreated, StatusTriaging, StatusDispatching, StatusAssigned,
     StatusAccepted, StatusEnRoute, StatusArrived, StatusInspection, StatusDiagnosis,
     StatusEstimate, StatusAwaitingApproval, StatusApproved, StatusRepairing,
     StatusVerification, StatusCompleted, StatusCancelled, StatusFailed, StatusEscalated]"

definition CanTransition :: "Status \<Rightarrow> Status \<Rightarrow> Status conflict option" where
  "CanTransition from to =
     (case transitions from of
        None \<Rightarrow> Some (NoOutgoing from to (map status_name AllStatuses))
      | Some targets \<Rightarrow>
          if to \<in> set targets then None
          else Some (IllegalMove from to (sort (map status_name targets))))"

definition IsTerminal :: "Status \<Rightarrow> bool" where
  "IsTerminal s \<longleftrightarrow> s = StatusCompleted \<or> s = StatusCancelled \<or> s = StatusFailed"

definition isKnownStatus :: "Status \<Rightarrow> bool" where
  "isKnownStatus s \<longleftrightarrow> s \<in> set AllStatuses"

declare AllIntentStatuses_def [status_defs] CanTransitionIntentStatus_def [status_defs]
  isKnownIntentStatus_def [status_defs] IsIntentTerminal_def [status_defs]
  AllTransactionStatuses_def [status_defs] CanTransitionTransactionStatus_def [status_defs]
  isKnownTransactionStatus_def [status_defs] IsTransactionTerminal_def [status_defs]
  AllRefundStatuses_def [status_defs] CanTransitionRefundStatus_def [status_defs]
  isKnownRefundStatus_def [status_defs] IsRefundTerminal_def [status_defs]
  AllStatuses_def [status_defs] IsTerminal_def [status_defs] isKnownStatus_def [status_defs]

section \<open>The tables satisfy the contract\<close>

fun intent_rank :: "IntentStatus \<Rightarrow> nat" where
  "intent_rank IntentCreated = 2"
| "intent_rank IntentProcessing = 1"
| "intent_rank _ = 0"

fun tx_rank :: "TransactionStatus \<Rightarrow> nat" where
  "tx_rank TxPending = 1"
| "tx_rank _ = 0"

fun refund_rank :: "RefundStatus \<Rightarrow> nat" where
  "refund_rank RefundRequested = 1"
| "refund_rank _ = 0"

interpretation intents: settling_machine intent_name intentTransitions AllIntentStatuses intent_rank
proof (unfold_locales, goal_cases)
  case (1 s ts t) then show ?case by (cases s) (auto simp: status_defs)
next
  case (2 s ts) then show ?case by (cases s) (auto simp: status_defs)
next
  case (3 s ts) then show ?case by (cases s) auto
next
  case (4 s ts) then show ?case by (cases s) auto
next
  case (5 s ts t) then show ?case by (cases s) auto
qed

interpretation txs: settling_machine tx_name transactionTransitions AllTransactionStatuses tx_rank
proof (unfold_locales, goal_cases)
  case (1 s ts t) then show ?case by (cases s) (auto simp: status_defs)
next
  case (2 s ts) then show ?case by (cases s) (auto simp: status_defs)
next
  case (3 s ts) then show ?case by (cases s) auto
next
  case (4 s ts) then show ?case by (cases s) auto
next
  case (5 s ts t) then show ?case by (cases s) auto
qed

interpretation refunds: settling_machine refund_name refundTransitions AllRefundStatuses refund_rank
proof (unfold_locales, goal_cases)
  case (1 s ts t) then show ?case by (cases s) (auto simp: status_defs)
next
  case (2 s ts) then show ?case by (cases s) (auto simp: status_defs)
next
  case (3 s ts) then show ?case by (cases s) auto
next
  case (4 s ts) then show ?case by (cases s) auto
next
  case (5 s ts t) then show ?case by (cases s) auto
qed

interpretation jobs: status_machine status_name transitions AllStatuses
proof (unfold_locales, goal_cases)
  case (1 s ts t) then show ?case by (cases s) (auto simp: status_defs)
next
  case (2 s ts) then show ?case by (cases s) (auto simp: status_defs)
next
  case (3 s ts) then show ?case by (cases s) auto
next
  case (4 s ts) then show ?case by (cases s) auto
qed

lemma CanTransition_None: "CanTransition s t = None \<longleftrightarrow> jobs.legal s t"
  by (simp add: CanTransition_def jobs.legal_def canTransition_def split: option.split)

lemma CanTransitionIntentStatus_None: "CanTransitionIntentStatus s t = None \<longleftrightarrow> intents.legal s t"
  by (simp add: CanTransitionIntentStatus_def intents.legal_def)

lemma CanTransitionTransactionStatus_None:
  "CanTransitionTransactionStatus s t = None \<longleftrightarrow> txs.legal s t"
  by (simp add: CanTransitionTransactionStatus_def txs.legal_def)

lemma CanTransitionRefundStatus_None: "CanTransitionRefundStatus s t = None \<longleftrightarrow> refunds.legal s t"
  by (simp add: CanTransitionRefundStatus_def refunds.legal_def)

lemmas can_transition_None = CanTransition_None CanTransitionIntentStatus_None
  CanTransitionTransactionStatus_None CanTransitionRefundStatus_None

lemma intent_edges_None: "intentTransitions s = None \<longleftrightarrow> s \<noteq> IntentCreated \<and> s \<noteq> IntentProcessing"
  by (cases s) auto

lemma tx_edges_None: "transactionTransitions s = None \<longleftrightarrow> s \<noteq> TxPending"
  by (cases s) auto

lemma refund_edges_None: "refundTransitions s = None \<longleftrightarrow> s \<noteq> RefundRequested"
  by (cases s) auto

lemma job_edges_None:
  "transitions s = None \<longleftrightarrow> IsTerminal s \<or> s = StatusEscalated \<or> \<not> isKnownStatus s"
  by (cases s) (auto simp: status_defs)

end
