(* ===== verification/Sql.thy ===== *)
theory Sql
  imports Prelude
begin

text \<open>
  What the repositories (\<open>backend/payments/store.go\<close>, \<open>backend/jobs/store.go\<close>) use of PostgreSQL
  and of the pgx driver. Neither is part of the repository. Their behaviour on statements that
  the code gets wrong is therefore a parameter, the record \<open>engine\<close>, and every definition that
  depends on it takes it as an argument. Everything else here is the meaning of the SQL text the
  repositories contain: \<open>WHERE\<close> conditions with numbered placeholders, inserts under a primary
  key, updates by key, one transaction per operation.
\<close>

section \<open>The database engine as a parameter\<close>

text \<open>
  \<^item> \<open>null_to_string\<close>: scanning a SQL \<open>NULL\<close> into a Go \<open>string\<close> succeeds and gives the empty
    string. (pgx documents an error: ``cannot scan NULL into *string''.)
  \<^item> \<open>surplus_args\<close>: a statement may be executed with arguments that no placeholder names. (pgx
    documents an error: ``expected n arguments, got m''; PostgreSQL cannot type a placeholder
    that is skipped.)
  \<^item> \<open>ambiguous_columns\<close>: an unqualified column that several joined relations have is resolved.
    (PostgreSQL documents error 42702, ambiguous column.)
\<close>

record engine =
  null_to_string :: bool
  surplus_args :: bool
  ambiguous_columns :: bool

text \<open>The documented behaviour of pgx v5 on PostgreSQL.\<close>

definition documented_pgx :: engine where
  "documented_pgx = \<lparr>null_to_string = False, surplus_args = False, ambiguous_columns = False\<rparr>"

text \<open>\<open>rows.Scan(&s)\<close> of a nullable text column into a Go \<open>string\<close>.\<close>

definition scan_text :: "engine \<Rightarrow> string option \<Rightarrow> string option" where
  "scan_text e c = (case c of Some s \<Rightarrow> Some s | None \<Rightarrow> if null_to_string e then Some [] else None)"

lemma scan_text_Some [simp]: "scan_text e (Some s) = Some s"
  by (simp add: scan_text_def)

lemma scan_text_None: "scan_text e None = (if null_to_string e then Some [] else None)"
  by (simp add: scan_text_def)

text \<open>\<open>NULLIF(x, '')\<close>.\<close>

definition nullif_empty :: "string \<Rightarrow> string option" where
  "nullif_empty s = (if s = [] then None else Some s)"

section \<open>Faults of one operation\<close>

text \<open>
  Every statement of an operation can fail (connection lost, timeout, cancelled context).
  \<open>FailAt n\<close>: the n-th call of the operation fails, and the deferred rollback undoes the
  transaction. \<open>LostAck\<close>: the last call (the commit, or a single statement) takes effect, but its
  acknowledgement is lost and the caller sees an error.
\<close>

datatype db_fault = Healthy | FailAt nat | LostAck

definition fails :: "db_fault \<Rightarrow> nat \<Rightarrow> bool" where
  "fails f n \<longleftrightarrow> f = FailAt n"

lemma fails_simps [simp]:
  "\<not> fails Healthy n" "\<not> fails LostAck n" "fails (FailAt m) n \<longleftrightarrow> m = n"
  by (auto simp: fails_def)

text \<open>The last call of an operation: the value and new state, or an error.\<close>

definition finish :: "'e \<Rightarrow> db_fault \<Rightarrow> nat \<Rightarrow> 'v \<Rightarrow> 's \<Rightarrow> 's \<Rightarrow> ('e + 'v) \<times> 's" where
  "finish e f n v old new =
     (if fails f n then (Inl e, old)
      else if f = LostAck then (Inl e, new)
      else (Inr v, new))"

lemma finish_Inr: "finish e f n v old new = (Inr v', s') \<Longrightarrow> v' = v \<and> s' = new \<and> f \<noteq> LostAck \<and> \<not> fails f n"
  by (auto simp: finish_def split: if_splits)

lemma finish_Inl: "finish e f n v old new = (Inl e', s') \<Longrightarrow> e' = e \<and> (s' = old \<or> f = LostAck \<and> s' = new)"
  by (auto simp: finish_def split: if_splits)

lemma finish_state: "snd (finish e f n v old new) = old \<or> snd (finish e f n v old new) = new"
  by (auto simp: finish_def)

lemma finish_healthy [simp]: "finish e Healthy n v old new = (Inr v, new)"
  by (simp add: finish_def)

section \<open>Conditions with placeholders\<close>

text \<open>
  The scope predicates are rendered as SQL text with numbered placeholders and a list of
  arguments. \<open>SqlTrue\<close> is the empty condition, \<open>SqlFalse\<close> is \<open>1 = 0\<close>.
\<close>

datatype 'c sql_cond =
    SqlTrue
  | SqlFalse
  | SqlEq 'c nat
  | SqlOr "'c sql_cond" "'c sql_cond"

fun placeholders :: "'c sql_cond \<Rightarrow> nat list" where
  "placeholders SqlTrue = []"
| "placeholders SqlFalse = []"
| "placeholders (SqlEq c n) = [n]"
| "placeholders (SqlOr a b) = placeholders a @ placeholders b"

text \<open>The value of placeholder \<open>$n\<close>: the n-th argument, counted from 1.\<close>

definition sql_arg :: "uuid list \<Rightarrow> nat \<Rightarrow> uuid option" where
  "sql_arg args n = (if 1 \<le> n \<and> n \<le> length args then Some (args ! (n - 1)) else None)"

fun sql_eval :: "('c \<Rightarrow> uuid option) \<Rightarrow> uuid list \<Rightarrow> 'c sql_cond \<Rightarrow> bool" where
  "sql_eval row args SqlTrue = True"
| "sql_eval row args SqlFalse = False"
| "sql_eval row args (SqlEq c n) =
     (case sql_arg args n of None \<Rightarrow> False | Some v \<Rightarrow> col_eq (row c) v)"
| "sql_eval row args (SqlOr a b) = (sql_eval row args a \<or> sql_eval row args b)"

text \<open>A statement is accepted when its placeholders are exactly \<open>$1 .. $n\<close> for its n arguments.\<close>

definition args_accepted :: "engine \<Rightarrow> nat list \<Rightarrow> nat \<Rightarrow> bool" where
  "args_accepted e ps n \<longleftrightarrow>
     surplus_args e \<or> (list_all (\<lambda>i. i \<in> set ps) [1..<Suc n] \<and> list_all (\<lambda>p. 1 \<le> p \<and> p \<le> n) ps)"

section \<open>Keyed tables\<close>

text \<open>
  A table is the list of its rows; \<open>key\<close> reads the primary key. \<open>row_get\<close> is \<open>SELECT .. WHERE id = k\<close>,
  \<open>row_upd\<close> is \<open>UPDATE .. WHERE id = k\<close>, \<open>row_ins\<close> is \<open>INSERT\<close> (the caller checks the key).
\<close>

definition row_get :: "('r \<Rightarrow> 'k) \<Rightarrow> 'k \<Rightarrow> 'r list \<Rightarrow> 'r option" where
  "row_get key k rows = find (\<lambda>r. key r = k) rows"

definition row_upd :: "('r \<Rightarrow> 'k) \<Rightarrow> 'k \<Rightarrow> ('r \<Rightarrow> 'r) \<Rightarrow> 'r list \<Rightarrow> 'r list" where
  "row_upd key k f rows = map (\<lambda>r. if key r = k then f r else r) rows"

definition row_ins :: "'r \<Rightarrow> 'r list \<Rightarrow> 'r list" where
  "row_ins r rows = rows @ [r]"

definition pk_ok :: "('r \<Rightarrow> 'k) \<Rightarrow> 'r list \<Rightarrow> bool" where
  "pk_ok key rows \<longleftrightarrow> distinct (map key rows)"

text \<open>The contract of a keyed table, as its clients use it.\<close>

locale keyed_table =
  fixes key :: "'r \<Rightarrow> 'k"
    and get :: "'k \<Rightarrow> 't \<Rightarrow> 'r option"
    and upd :: "'k \<Rightarrow> ('r \<Rightarrow> 'r) \<Rightarrow> 't \<Rightarrow> 't"
    and ins :: "'r \<Rightarrow> 't \<Rightarrow> 't"
    and rows :: "'t \<Rightarrow> 'r set"
    and ok :: "'t \<Rightarrow> bool"
  assumes get_rows: "ok t \<Longrightarrow> get k t = Some r \<longleftrightarrow> r \<in> rows t \<and> key r = k"
    and rows_upd: "(\<And>r. key (f r) = key r) \<Longrightarrow>
          rows (upd k f t) = {r \<in> rows t. key r \<noteq> k} \<union> f ` {r \<in> rows t. key r = k}"
    and rows_ins: "rows (ins r t) = insert r (rows t)"
    and ok_upd: "(\<And>r. key (f r) = key r) \<Longrightarrow> ok t \<Longrightarrow> ok (upd k f t)"
    and ok_ins: "ok t \<Longrightarrow> get (key r) t = None \<Longrightarrow> ok (ins r t)"
begin

lemma get_None: "ok t \<Longrightarrow> get k t = None \<longleftrightarrow> (\<forall>r \<in> rows t. key r \<noteq> k)"
proof -
  assume "ok t"
  then have "(\<exists>r. get k t = Some r) \<longleftrightarrow> (\<exists>r \<in> rows t. key r = k)"
    by (auto simp: get_rows)
  then show ?thesis by (cases "get k t") auto
qed

lemma key_inj: "ok t \<Longrightarrow> r \<in> rows t \<Longrightarrow> r' \<in> rows t \<Longrightarrow> key r = key r' \<Longrightarrow> r = r'"
  by (metis get_rows option.inject)

text \<open>Updating one row keeps a property of all rows when it keeps it of the row that changes.\<close>

lemma upd_all:
  assumes "\<And>r. key (f r) = key r" and "\<forall>r \<in> rows t. P r"
    and "\<And>r. r \<in> rows t \<Longrightarrow> key r = k \<Longrightarrow> P r \<Longrightarrow> P (f r)"
  shows "\<forall>r \<in> rows (upd k f t). P r"
  using assms by (auto simp: rows_upd [OF assms(1)])

lemma upd_rows_get:
  assumes "\<And>r. key (f r) = key r" and "ok t" and "get k t = Some r"
  shows "rows (upd k f t) = insert (f r) (rows t - {r})"
proof -
  have r: "r \<in> rows t" "key r = k" using assms by (auto simp: get_rows)
  then have "{x \<in> rows t. key x = k} = {r}" using key_inj [OF assms(2)] by blast
  moreover from this have "{x \<in> rows t. key x \<noteq> k} = rows t - {r}" by blast
  ultimately show ?thesis by (simp add: rows_upd [OF assms(1)])
qed

end

lemma find_key_Some:
  "distinct (map key rows) \<Longrightarrow> find (\<lambda>r. key r = k) rows = Some r \<longleftrightarrow> r \<in> set rows \<and> key r = k"
  by (induction rows) (auto simp: image_iff)

lemma map_key_row_upd: "(\<And>r. key (f r) = key r) \<Longrightarrow> map key (row_upd key k f rows) = map key rows"
  by (simp add: row_upd_def)

lemma set_row_upd:
  "set (row_upd key k f rows) = {r \<in> set rows. key r \<noteq> k} \<union> f ` {r \<in> set rows. key r = k}"
  by (auto simp: row_upd_def)

interpretation tbl: keyed_table key "row_get key" "row_upd key" row_ins set "pk_ok key"
  for key :: "'r \<Rightarrow> 'k"
proof (unfold_locales, goal_cases)
  case (1 t k r)
  then show ?case by (simp add: row_get_def pk_ok_def find_key_Some)
next
  case (2 f k t)
  show ?case by (rule set_row_upd)
next
  case (3 r t)
  show ?case by (simp add: row_ins_def)
next
  case (4 f t k)
  then show ?case by (simp add: pk_ok_def map_key_row_upd)
next
  case (5 t r)
  then show ?case
    by (auto simp: pk_ok_def row_get_def row_ins_def find_None_iff)
qed

text \<open>Reads after writes that need no primary key.\<close>

lemma row_get_upd [table_simps]:
  assumes "\<And>r. key (f r) = key r"
  shows "row_get key k' (row_upd key k f rows) =
    (if k' = k then map_option f (row_get key k rows) else row_get key k' rows)"
  using assms by (induction rows) (auto simp: row_get_def row_upd_def)

lemma row_get_ins [table_simps]:
  "row_get key k (row_ins r rows) =
     (case row_get key k rows of Some r' \<Rightarrow> Some r' | None \<Rightarrow> if key r = k then Some r else None)"
  by (induction rows) (auto simp: row_get_def row_ins_def)

lemma row_get_key: "row_get key k rows = Some r \<Longrightarrow> key r = k"
  by (auto simp: row_get_def find_Some_iff)

lemma find_SomeD: "find P xs = Some x \<Longrightarrow> x \<in> set xs \<and> P x"
  by (auto simp: find_Some_iff)

lemma row_get_set: "row_get key k rows = Some r \<Longrightarrow> r \<in> set rows"
  by (auto simp: row_get_def find_Some_iff)

lemma pk_ok_Nil [simp]: "pk_ok key []"
  by (simp add: pk_ok_def)

lemma row_get_Nil [simp]: "row_get key k [] = None"
  by (simp add: row_get_def)

lemma set_row_ins [simp]: "set (row_ins r rows) = insert r (set rows)"
  by (simp add: row_ins_def)

section \<open>Tables that only evolve\<close>

text \<open>
  A table evolves when no row disappears and every row changes only as \<open>ev\<close> allows. The locale is
  the contract of such a per-row discipline; its lemmas lift it to inserts, updates and sequences
  of operations.
\<close>

definition table_evolves :: "('r \<Rightarrow> 'k) \<Rightarrow> ('r \<Rightarrow> 'r \<Rightarrow> bool) \<Rightarrow> 'r list \<Rightarrow> 'r list \<Rightarrow> bool" where
  "table_evolves key ev rows rows' \<longleftrightarrow>
     (\<forall>k r. row_get key k rows = Some r \<longrightarrow> (\<exists>r'. row_get key k rows' = Some r' \<and> ev r r'))"

locale row_discipline =
  fixes key :: "'r \<Rightarrow> 'k" and ev :: "'r \<Rightarrow> 'r \<Rightarrow> bool"
  assumes ev_refl: "ev r r"
    and ev_trans: "ev r r' \<Longrightarrow> ev r' r'' \<Longrightarrow> ev r r''"
begin

lemma te_refl: "table_evolves key ev rows rows"
  by (auto simp: table_evolves_def ev_refl)

lemma te_trans:
  "table_evolves key ev a b \<Longrightarrow> table_evolves key ev b c \<Longrightarrow> table_evolves key ev a c"
  unfolding table_evolves_def by (meson ev_trans)

lemma te_ins: "table_evolves key ev rows (row_ins r rows)"
  by (auto simp: table_evolves_def row_get_ins ev_refl)

lemma te_upd:
  assumes "\<And>r. key (f r) = key r" and "\<And>r. row_get key k rows = Some r \<Longrightarrow> ev r (f r)"
  shows "table_evolves key ev rows (row_upd key k f rows)"
  unfolding table_evolves_def
proof (intro allI impI)
  fix k' r
  assume r: "row_get key k' rows = Some r"
  show "\<exists>r'. row_get key k' (row_upd key k f rows) = Some r' \<and> ev r r'"
  proof (cases "k' = k")
    case True
    with r assms show ?thesis by (simp add: row_get_upd)
  next
    case False
    with r assms(1) show ?thesis by (simp add: row_get_upd ev_refl)
  qed
qed

lemma te_get: "table_evolves key ev rows rows' \<Longrightarrow> row_get key k rows = Some r \<Longrightarrow>
    \<exists>r'. row_get key k rows' = Some r' \<and> ev r r'"
  by (simp add: table_evolves_def)

end

section \<open>Unique indexes\<close>

text \<open>
  A (partial) unique index: no two rows with different primary keys clash. Inserts and updates
  keep it when the new row clashes with no row of another key.
\<close>

definition index_ok :: "('r \<Rightarrow> 'k) \<Rightarrow> ('r \<Rightarrow> 'r \<Rightarrow> bool) \<Rightarrow> 'r list \<Rightarrow> bool" where
  "index_ok key clash rows \<longleftrightarrow>
     (\<forall>r \<in> set rows. \<forall>r' \<in> set rows. key r' = key r \<or> \<not> clash r' r)"

locale unique_index =
  fixes key :: "'r \<Rightarrow> 'k" and clash :: "'r \<Rightarrow> 'r \<Rightarrow> bool"
  assumes clash_sym: "clash r r' \<Longrightarrow> clash r' r"
begin

lemma index_ins:
  assumes "index_ok key clash rows" and "\<forall>r' \<in> set rows. key r' = key r \<or> \<not> clash r' r"
  shows "index_ok key clash (row_ins r rows)"
  using assms clash_sym unfolding index_ok_def set_row_ins by (metis insert_iff)

lemma index_upd:
  assumes "index_ok key clash rows" and "\<And>r. key (f r) = key r" and "row_get key k rows = Some r"
    and "pk_ok key rows" and "\<forall>r' \<in> set rows. key r' = key (f r) \<or> \<not> clash r' (f r)"
  shows "index_ok key clash (row_upd key k f rows)"
proof -
  have "set (row_upd key k f rows) = insert (f r) (set rows - {r})"
    using assms(2-4) by (intro tbl.upd_rows_get)
  with assms(1,5) clash_sym show ?thesis unfolding index_ok_def by (metis Diff_iff insert_iff)
qed

end

end
