(* ===== verification/Insp_Models.thy ===== *)
theory Insp_Models
  imports Prog_Http Status_Machines Sql
begin

text \<open>
  Inspections: the values of \<open>backend/inspections/models.go\<close>, the state machine of \<open>statemachine.go\<close>,
  the template registry of \<open>templates.go\<close> and the scopes of \<open>scope.go\<close>. Classes, results, severities
  and evidence kinds are strings, as in the code, where a request can bring any; statuses are a datatype
  with one more constructor for the strings that are no status. A Go \<open>int\<close> is an \<open>int\<close> (versions and
  counts, far from its bounds).
\<close>

section \<open>Enumerations\<close>

definition allVehicleClasses :: "string list" where
  "allVehicleClasses = [''MOTORCYCLE'', ''SEDAN'', ''SUV'', ''PICKUP'', ''TRUCK'', ''BUS'']"

definition IsVehicleClass :: "string \<Rightarrow> bool" where
  "IsVehicleClass c \<longleftrightarrow> c \<in> set allVehicleClasses"

definition ResultPass :: string where "ResultPass = ''PASS''"
definition ResultFail :: string where "ResultFail = ''FAIL''"
definition ResultAttention :: string where "ResultAttention = ''ATTENTION''"
definition ResultNotApplicable :: string where "ResultNotApplicable = ''NOT_APPLICABLE''"

definition AllFindingResults :: "string list" where
  "AllFindingResults = [ResultPass, ResultFail, ResultAttention, ResultNotApplicable]"

definition SeverityGreen :: string where "SeverityGreen = ''GREEN''"
definition SeverityAmber :: string where "SeverityAmber = ''AMBER''"
definition SeverityRed :: string where "SeverityRed = ''RED''"

definition AllSeverities :: "string list" where
  "AllSeverities = [SeverityGreen, SeverityAmber, SeverityRed]"

definition AllEvidenceKinds :: "string list" where
  "AllEvidenceKinds = [''PHOTO'', ''READING'', ''DOCUMENT'']"

definition IsEvidenceKind :: "string \<Rightarrow> bool" where
  "IsEvidenceKind k \<longleftrightarrow> k \<in> set AllEvidenceKinds"

lemmas insp_words = ResultPass_def ResultFail_def ResultAttention_def ResultNotApplicable_def
  SeverityGreen_def SeverityAmber_def SeverityRed_def

section \<open>Records\<close>

record TemplateItem =
  ti_Key :: string
  ti_Label :: string
  ti_Required :: bool

record Template =
  te_ID :: uuid
  te_VehicleClass :: string
  te_Name :: string
  te_Version :: int
  te_Items :: "TemplateItem list"
  te_Active :: bool

definition Template_Item :: "Template \<Rightarrow> string \<Rightarrow> TemplateItem option" where
  "Template_Item t key = find (\<lambda>i. ti_Key i = key) (te_Items t)"

definition RequiredItems :: "Template \<Rightarrow> string list" where
  "RequiredItems t = map ti_Key (filter ti_Required (te_Items t))"

datatype InspStatus =
    InspCreated
  | InspInProgress
  | InspSubmitted
  | InspReportAvailable
  | InspOther string

record InspSession =
  is_ID :: uuid
  is_TenantID :: "uuid option"
  is_VehicleID :: "uuid option"
  is_JobID :: "uuid option"
  is_CustomerID :: "uuid option"
  is_VehicleClass :: string
  is_TemplateID :: uuid
  is_TemplateName :: string
  is_TemplateVersion :: int
  is_InspectorID :: uuid
  is_Status :: InspStatus
  is_StartedAt :: "gotime option"
  is_SubmittedAt :: "gotime option"
  is_ReportedAt :: "gotime option"
  is_CreatedAt :: gotime
  is_UpdatedAt :: gotime

record Finding =
  fd_ID :: uuid
  fd_SessionID :: uuid
  fd_ItemKey :: string
  fd_Result :: string
  fd_Severity :: string
  fd_Notes :: string
  fd_RecordedBy :: "uuid option"
  fd_CreatedAt :: gotime

record Evidence =
  ev_ID :: uuid
  ev_SessionID :: uuid
  ev_FindingID :: "uuid option"
  ev_Kind :: string
  ev_ContentHash :: string
  ev_CapturedAt :: gotime
  ev_CapturedBy :: "uuid option"
  ev_Uploaded :: bool
  ev_Notes :: string
  ev_CreatedAt :: gotime

record Report =
  rp_ID :: uuid
  rp_SessionID :: uuid
  rp_Version :: int
  rp_VehicleID :: "uuid option"
  rp_JobID :: "uuid option"
  rp_InspectorID :: uuid
  rp_TemplateID :: uuid
  rp_TemplateName :: string
  rp_TemplateVersion :: int
  rp_FindingsSnapshot :: string
  rp_EvidenceSnapshot :: string
  rp_FindingsCount :: int
  rp_EvidenceCount :: int
  rp_ContentHash :: string
  rp_IssuedBy :: "uuid option"
  rp_Notes :: string
  rp_CreatedAt :: gotime

record ReportVerification =
  vf_ReportID :: uuid
  vf_SessionID :: uuid
  vf_Version :: int
  vf_Verified :: bool
  vf_HashMatch :: bool
  vf_FindingsMatch :: bool
  vf_EvidenceMatch :: bool
  vf_TemplateMatch :: bool
  vf_FindingsChecked :: int
  vf_EvidenceChecked :: int
  vf_StoredHash :: string
  vf_RecomputedHash :: string
  vf_CheckedAt :: gotime

record SessionTransition =
  it_ID :: int64
  it_SessionID :: uuid
  it_FromStatus :: InspStatus
  it_ToStatus :: InspStatus
  it_ActorID :: "uuid option"
  it_Reason :: string
  it_CreatedAt :: gotime

section \<open>The state machine\<close>

fun insp_status_name :: "InspStatus \<Rightarrow> string" where
  "insp_status_name InspCreated = ''CREATED''"
| "insp_status_name InspInProgress = ''IN_PROGRESS''"
| "insp_status_name InspSubmitted = ''SUBMITTED''"
| "insp_status_name InspReportAvailable = ''REPORT_AVAILABLE''"
| "insp_status_name (InspOther s) = s"

fun inspTransitions :: "InspStatus \<Rightarrow> InspStatus list option" where
  "inspTransitions InspCreated = Some [InspInProgress]"
| "inspTransitions InspInProgress = Some [InspSubmitted]"
| "inspTransitions InspSubmitted = Some [InspReportAvailable]"
| "inspTransitions _ = None"

definition AllInspStatuses :: "InspStatus list" where
  "AllInspStatuses = [InspCreated, InspInProgress, InspSubmitted, InspReportAvailable]"

definition insp_status_of :: "string \<Rightarrow> InspStatus" where
  "insp_status_of s = (case find (\<lambda>st. insp_status_name st = s) AllInspStatuses of None \<Rightarrow> InspOther s | Some st \<Rightarrow> st)"

definition isKnownInspStatus :: "InspStatus \<Rightarrow> bool" where
  "isKnownInspStatus s \<longleftrightarrow> s \<in> set AllInspStatuses"

text \<open>As the walker of the other machines, but the known statuses are listed in lifecycle order.\<close>

definition InspCanTransition :: "InspStatus \<Rightarrow> InspStatus \<Rightarrow> InspStatus conflict option" where
  "InspCanTransition from to =
     (case inspTransitions from of
        None \<Rightarrow> Some (NoOutgoing from to (map insp_status_name AllInspStatuses))
      | Some targets \<Rightarrow>
          if to \<in> set targets then None
          else Some (IllegalMove from to (sort (map insp_status_name targets))))"

definition IsInspTerminal :: "InspStatus \<Rightarrow> bool" where
  "IsInspTerminal s \<longleftrightarrow> s = InspReportAvailable"

fun insp_rank :: "InspStatus \<Rightarrow> nat" where
  "insp_rank InspCreated = 3"
| "insp_rank InspInProgress = 2"
| "insp_rank InspSubmitted = 1"
| "insp_rank _ = 0"

interpretation insps: settling_machine insp_status_name inspTransitions AllInspStatuses insp_rank
proof (unfold_locales, goal_cases)
  case (1 s ts t) then show ?case by (cases s) (auto simp: AllInspStatuses_def)
next
  case (2 s ts) then show ?case by (cases s) (auto simp: AllInspStatuses_def)
next
  case (3 s ts) then show ?case by (cases s) auto
next
  case (4 s ts) then show ?case by (cases s) auto
next
  case (5 s ts t) then show ?case by (cases s) auto
qed

lemma InspCanTransition_None: "InspCanTransition s t = None \<longleftrightarrow> insps.legal s t"
  by (auto simp: InspCanTransition_def insps.legal_iff split: option.splits)

text \<open>How many moves a session has made.\<close>

fun insp_step :: "InspStatus \<Rightarrow> nat" where
  "insp_step InspCreated = 0"
| "insp_step InspInProgress = 1"
| "insp_step InspSubmitted = 2"
| "insp_step InspReportAvailable = 3"
| "insp_step (InspOther s) = 0"

lemma InspCanTransition_cases:
  "InspCanTransition s t = None \<longleftrightarrow> (s, t) \<in> {(InspCreated, InspInProgress), (InspInProgress, InspSubmitted), (InspSubmitted, InspReportAvailable)}"
  by (cases s) (auto simp: InspCanTransition_def)

section \<open>Scopes\<close>

definition StaffRoles :: "string list" where
  "StaffRoles = [''TECHNICIAN'', ''GARAGE'', ''DISPATCHER'', ''ADMIN'', ''SUPER_ADMIN'']"

definition InspOperatorRoles :: "string list" where
  "InspOperatorRoles = [''ADMIN'', ''SUPER_ADMIN'']"

definition IsInspOperator :: "string \<Rightarrow> bool" where
  "IsInspOperator role \<longleftrightarrow> role \<in> set InspOperatorRoles"

record InspScope =
  ix_TenantID :: "uuid option"
  ix_PrincipalID :: "uuid option"
  ix_explicitUnrestricted :: bool

definition InspUnrestrictedScope :: InspScope where
  "InspUnrestrictedScope = \<lparr>ix_TenantID = None, ix_PrincipalID = None, ix_explicitUnrestricted = True\<rparr>"

definition InspUnrestricted :: "InspScope \<Rightarrow> bool" where
  "InspUnrestricted s \<longleftrightarrow> ix_explicitUnrestricted s \<and> ix_TenantID s = None \<and> ix_PrincipalID s = None"

datatype insp_col = InspTenantCol | InspInspectorCol | InspCustomerCol

fun insp_col_of :: "InspSession \<Rightarrow> insp_col \<Rightarrow> uuid option" where
  "insp_col_of s InspTenantCol = is_TenantID s"
| "insp_col_of s InspInspectorCol = Some (is_InspectorID s)"
| "insp_col_of s InspCustomerCol = is_CustomerID s"

text \<open>The personal scope writes one placeholder twice and brings two arguments.\<close>

definition inspScopePredicate :: "InspScope \<Rightarrow> nat \<Rightarrow> insp_col sql_cond \<times> uuid list" where
  "inspScopePredicate scope nextParam =
     (if InspUnrestricted scope then (SqlTrue, [])
      else case ix_TenantID scope of
        Some t \<Rightarrow> (SqlEq InspTenantCol nextParam, [t])
      | None \<Rightarrow>
          (case ix_PrincipalID scope of
             Some p \<Rightarrow> (SqlOr (SqlEq InspInspectorCol nextParam) (SqlEq InspCustomerCol nextParam), [p, p])
           | None \<Rightarrow> (SqlFalse, [])))"

definition InspScopeFromClaims :: "(string \<Rightarrow> uuid option) \<Rightarrow> Claims \<Rightarrow> Error + InspScope" where
  "InspScopeFromClaims parse claims =
     (if IsInspOperator (cl_Role claims) then Inr InspUnrestrictedScope
      else if cl_TenantID claims \<noteq> [] then
        (case parse (cl_TenantID claims) of
           None \<Rightarrow> Inl (ErrUnauthorized ''authenticated tenant claim is not a tenant identifier'')
         | Some t \<Rightarrow> Inr \<lparr>ix_TenantID = Some t, ix_PrincipalID = None, ix_explicitUnrestricted = False\<rparr>)
      else
        (case parse (cl_UserID claims) of
           None \<Rightarrow> Inl (ErrUnauthorized ''authenticated subject is not a user identifier'')
         | Some u \<Rightarrow> Inr \<lparr>ix_TenantID = None, ix_PrincipalID = Some u, ix_explicitUnrestricted = False\<rparr>))"

text \<open>What a scope admits, independently of the SQL that implements it.\<close>

definition insp_visible :: "InspScope \<Rightarrow> InspSession \<Rightarrow> bool" where
  "insp_visible scope s \<longleftrightarrow>
     (if InspUnrestricted scope then True
      else case ix_TenantID scope of
        Some t \<Rightarrow> is_TenantID s = Some t
      | None \<Rightarrow>
          (case ix_PrincipalID scope of
             Some p \<Rightarrow> is_InspectorID s = p \<or> is_CustomerID s = Some p
           | None \<Rightarrow> False))"

lemma insp_predicate_sound:
  assumes "inspScopePredicate scope (Suc (length pre)) = (pred, predArgs)"
  shows "sql_eval (insp_col_of s) (pre @ predArgs) pred \<longleftrightarrow> insp_visible scope s"
  using assms
  by (auto simp: inspScopePredicate_def insp_visible_def sql_arg_def nth_append col_eq_def split: if_splits option.splits)

end
