(* ===== verification/Insp_Report.thy ===== *)
theory Insp_Report
  imports Insp_Models "HOL-Library.Product_Lexorder"
begin

text \<open>
  Report assembly and verification, \<open>backend/inspections/report.go\<close>, and the registry of
  \<open>templates.go\<close>. SHA-256, \<open>uuid.NewSHA1\<close> under the namespace of the registry, the text of a uuid and
  the text PostgreSQL gives back of a \<open>jsonb\<close> column are parameters. Times are printed in UTC, the zone
  of the service's container.
\<close>

record insp_service =
  nsv_engine :: engine
  nsv_uuid_text :: "uuid \<Rightarrow> string"
  nsv_uuid5 :: "string \<Rightarrow> uuid"
  nsv_sha256 :: "string \<Rightarrow> string"
  nsv_jsonb :: "string \<Rightarrow> string"
  nsv_publisher :: bool
  nsv_correlation :: string

section \<open>The standard library: joining, times, JSON\<close>

fun join_with :: "string \<Rightarrow> string list \<Rightarrow> string" where
  "join_with sep [] = []"
| "join_with sep [s] = s"
| "join_with sep (s # t # ts) = s @ sep @ join_with sep (t # ts)"

text \<open>The year, month and day of a number of days since January 1, year 1.\<close>

definition civil_of_days :: "int \<Rightarrow> int \<times> int \<times> int" where
  "civil_of_days d =
     (let z = d + 306; era = z div 146097; doe = z mod 146097;
          yoe = (doe - doe div 1460 + doe div 36524 - doe div 146096) div 365;
          doy = doe - (365 * yoe + yoe div 4 - yoe div 100);
          mp = (5 * doy + 2) div 153;
          m = (if mp < 10 then mp + 3 else mp - 9)
      in (yoe + era * 400 + (if m \<le> 2 then 1 else 0), m, doy - (153 * mp + 2) div 5 + 1))"

definition time_year :: "gotime \<Rightarrow> int" where
  "time_year t = fst (civil_of_days (t div (86400 * time_second)))"

definition pad_nat :: "nat \<Rightarrow> nat \<Rightarrow> string" where
  "pad_nat width n = (let s = dec_nat n in replicate (width - length s) CHR ''0'' @ s)"

definition pad_int :: "nat \<Rightarrow> int \<Rightarrow> string" where
  "pad_int width i = (if i < 0 then CHR ''-'' # pad_nat width (nat (- i)) else pad_nat width (nat i))"

definition fraction :: "int \<Rightarrow> string" where
  "fraction ns =
     (if ns = 0 then [] else CHR ''.'' # rev (dropWhile (\<lambda>c. c = CHR ''0'') (rev (pad_int 9 ns))))"

text \<open>\<open>t.UTC().Format(time.RFC3339Nano)\<close>.\<close>

definition rfc3339nano :: "gotime \<Rightarrow> string" where
  "rfc3339nano t =
     (let (y, m, d) = civil_of_days (t div (86400 * time_second));
          s = t div time_second mod 86400
      in pad_int 4 y @ ''-'' @ pad_int 2 m @ ''-'' @ pad_int 2 d @ ''T'' @ pad_int 2 (s div 3600) @ '':'' @
         pad_int 2 (s div 60 mod 60) @ '':'' @ pad_int 2 (s mod 60) @ fraction (t mod time_second) @ ''Z'')"

text \<open>
  \<open>json.Marshal\<close> of strings: the escapes of \<open>encoding/json\<close>, with bytes that are no UTF-8 replaced and
  the line separators U+2028, U+2029 escaped.
\<close>

definition utf8_width :: "string \<Rightarrow> nat" where
  "utf8_width s =
     (let b = (\<lambda>i. if i < length s then of_char (s ! i) else (0 :: nat));
          cont = (\<lambda>i. 128 \<le> b i \<and> b i < 192)
      in if 194 \<le> b 0 \<and> b 0 \<le> 223 \<and> cont 1 then 2
         else if 224 \<le> b 0 \<and> b 0 \<le> 239 \<and> cont 1 \<and> cont 2 \<and> \<not> (b 0 = 224 \<and> b 1 < 160) \<and> \<not> (b 0 = 237 \<and> 160 \<le> b 1) then 3
         else if 240 \<le> b 0 \<and> b 0 \<le> 244 \<and> cont 1 \<and> cont 2 \<and> cont 3 \<and> \<not> (b 0 = 240 \<and> b 1 < 144) \<and> \<not> (b 0 = 244 \<and> 144 \<le> b 1) then 4
         else 0)"

definition bslash :: char where "bslash = CHR 0x5C"

definition ascii_escape :: "char \<Rightarrow> string" where
  "ascii_escape c =
     (let n = of_char c :: nat in
      if c = CHR 0x22 \<or> c = bslash then [bslash, c]
      else if n = 8 then [bslash, CHR ''b'']
      else if n = 12 then [bslash, CHR ''f'']
      else if n = 10 then [bslash, CHR ''n'']
      else if n = 13 then [bslash, CHR ''r'']
      else if n = 9 then [bslash, CHR ''t'']
      else if n < 32 \<or> c = CHR ''<'' \<or> c = CHR ''>'' \<or> c = CHR ''&''
        then [bslash, CHR ''u'', CHR ''0'', CHR ''0'', hex_digit (n div 16), hex_digit (n mod 16)]
      else [c])"

fun json_escape :: "string \<Rightarrow> string" where
  "json_escape [] = []"
| "json_escape (c # cs) =
     (if of_char c < (128 :: nat) then ascii_escape c @ json_escape cs
      else case utf8_width (c # cs) of
        0 \<Rightarrow> bslash # ''ufffd'' @ json_escape cs
      | Suc w \<Rightarrow>
          (if take 3 (c # cs) = [CHR 0xE2, CHR 0x80, CHR 0xA8] then bslash # ''u2028''
           else if take 3 (c # cs) = [CHR 0xE2, CHR 0x80, CHR 0xA9] then bslash # ''u2029''
           else take (Suc w) (c # cs)) @ json_escape (drop w cs))"

definition go_quote :: "string \<Rightarrow> string" where
  "go_quote s = CHR 0x22 # json_escape s @ [CHR 0x22]"

text \<open>The snapshots are arrays of flat objects; a time outside the years 0 to 9999 is an error.\<close>

datatype json_atom = JString string | JBool bool | JTime gotime

fun go_atom :: "json_atom \<Rightarrow> string" where
  "go_atom (JString s) = go_quote s"
| "go_atom (JBool b) = (if b then ''true'' else ''false'')"
| "go_atom (JTime t) = CHR 0x22 # rfc3339nano t @ [CHR 0x22]"

fun atom_ok :: "json_atom \<Rightarrow> bool" where
  "atom_ok (JTime t) = (0 \<le> time_year t \<and> time_year t \<le> 9999)"
| "atom_ok _ = True"

type_synonym json_object = "(string \<times> json_atom) list"

definition go_member :: "string \<times> json_atom \<Rightarrow> string" where
  "go_member m = go_quote (fst m) @ '':'' @ go_atom (snd m)"

definition go_object :: "json_object \<Rightarrow> string" where
  "go_object ms = ''{'' @ join_with '','' (map go_member ms) @ ''}''"

definition go_array :: "json_object list \<Rightarrow> string" where
  "go_array os = ''['' @ join_with '','' (map go_object os) @ '']''"

definition marshal :: "json_object list \<Rightarrow> string option" where
  "marshal os = (if list_all (list_all (\<lambda>m. atom_ok (snd m))) os then Some (go_array os) else None)"

section \<open>The template registry\<close>

definition required :: "string \<Rightarrow> string \<Rightarrow> TemplateItem" where
  "required key label = \<lparr>ti_Key = key, ti_Label = label, ti_Required = True\<rparr>"

definition optional_item :: "string \<Rightarrow> string \<Rightarrow> TemplateItem" where
  "optional_item key label = \<lparr>ti_Key = key, ti_Label = label, ti_Required = False\<rparr>"

definition TemplateID :: "insp_service \<Rightarrow> string \<Rightarrow> int \<Rightarrow> uuid" where
  "TemplateID sv name version = nsv_uuid5 sv (name @ ''@v'' @ dec_int version)"

definition system_template :: "insp_service \<Rightarrow> string \<Rightarrow> string \<Rightarrow> TemplateItem list \<Rightarrow> Template" where
  "system_template sv class name items =
     \<lparr>te_ID = TemplateID sv name 1, te_VehicleClass = class, te_Name = name, te_Version = 1, te_Items = items,
      te_Active = True\<rparr>"

definition motorcycle_items :: "TemplateItem list" where
  "motorcycle_items =
     [required ''brakes_front'' ''Front brake pads and disc condition'',
      required ''brakes_rear'' ''Rear brake and drum condition'',
      required ''tyres'' ''Tyre tread, pressure and sidewall condition'',
      required ''chain_sprockets'' ''Drive chain tension and sprocket wear'',
      required ''lights_electrical'' ''Headlamp, brake light, indicators and horn'',
      required ''frame_suspension'' ''Frame, forks and rear suspension'',
      optional_item ''exhaust_emissions'' ''Exhaust condition and visible smoke'',
      required ''odometer_consistency'' ''Odometer reading consistent with wear'']"

definition sedan_items :: "TemplateItem list" where
  "sedan_items =
     [required ''brakes'' ''Brake pads, discs and fluid condition'',
      required ''tyres'' ''Tyre tread depth, pressure and spare'',
      required ''suspension_steering'' ''Suspension bushings and steering play'',
      required ''lights_electrical'' ''Exterior lights, horn and battery'',
      required ''engine_leaks'' ''Engine bay: leaks, belts and fluids'',
      required ''transmission'' ''Gearbox and clutch / automatic behaviour'',
      optional_item ''body_panel_condition'' ''Body panels, doors and glass'',
      required ''odometer_consistency'' ''Odometer reading consistent with wear'']"

definition suv_items :: "TemplateItem list" where
  "suv_items =
     [required ''brakes'' ''Brake pads, discs and fluid condition'',
      required ''tyres'' ''Tyre tread depth, pressure and spare'',
      required ''suspension_steering'' ''Suspension, steering play and 4x4 engagement'',
      required ''lights_electrical'' ''Exterior lights, horn and battery'',
      required ''engine_leaks'' ''Engine bay: leaks, belts and fluids'',
      required ''transmission'' ''Gearbox and transfer case behaviour'',
      required ''chassis_underbody'' ''Underbody, chassis rails and mounting points'',
      required ''odometer_consistency'' ''Odometer reading consistent with wear'']"

definition pickup_items :: "TemplateItem list" where
  "pickup_items =
     [required ''brakes'' ''Brake pads, discs and load-sensing valve'',
      required ''tyres'' ''Tyre tread depth, pressure and spare'',
      required ''suspension_steering'' ''Suspension, leaf springs and steering play'',
      required ''lights_electrical'' ''Exterior lights, horn and battery'',
      required ''engine_leaks'' ''Engine bay: leaks, belts and fluids'',
      required ''transmission'' ''Gearbox and differential behaviour'',
      optional_item ''load_bed_tailgate'' ''Load bed, tailgate and towing gear'',
      required ''odometer_consistency'' ''Odometer reading consistent with wear'']"

definition truck_items :: "TemplateItem list" where
  "truck_items =
     [required ''brakes_air'' ''Air brake system, tanks and governor'',
      required ''tyres'' ''Tyre tread depth, pressure and spare'',
      required ''suspension_steering'' ''Suspension, axles and steering play'',
      required ''lights_electrical'' ''Exterior lights, horn and battery isolation'',
      required ''engine_leaks'' ''Engine bay: leaks, belts and fluids'',
      required ''transmission'' ''Gearbox, retarder and PTO behaviour'',
      required ''chassis_underbody'' ''Chassis, fifth wheel / body mounting'',
      optional_item ''cargo_restraint'' ''Cargo restraint and load security'',
      required ''odometer_consistency'' ''Odometer / tachograph consistency'']"

definition bus_items :: "TemplateItem list" where
  "bus_items =
     [required ''brakes_air'' ''Air brake system, tanks and governor'',
      required ''tyres'' ''Tyre tread depth, pressure and spare'',
      required ''suspension_steering'' ''Suspension, axles and steering play'',
      required ''lights_electrical'' ''Exterior lights, horn and battery isolation'',
      required ''engine_leaks'' ''Engine bay: leaks, belts and fluids'',
      required ''transmission'' ''Gearbox and retarder behaviour'',
      required ''passenger_safety'' ''Emergency exits, handrails and seating'',
      required ''odometer_consistency'' ''Odometer reading consistent with wear'']"

definition registry :: "insp_service \<Rightarrow> Template list" where
  "registry sv =
     [system_template sv ''MOTORCYCLE'' ''Motivra Standard Motorcycle Inspection'' motorcycle_items,
      system_template sv ''SEDAN'' ''Motivra Standard Sedan Inspection'' sedan_items,
      system_template sv ''SUV'' ''Motivra Standard SUV Inspection'' suv_items,
      system_template sv ''PICKUP'' ''Motivra Standard Pickup Inspection'' pickup_items,
      system_template sv ''TRUCK'' ''Motivra Standard Truck Inspection'' truck_items,
      system_template sv ''BUS'' ''Motivra Standard Bus Inspection'' bus_items]"

definition TemplateByID :: "insp_service \<Rightarrow> uuid \<Rightarrow> Template option" where
  "TemplateByID sv k = find (\<lambda>t. te_ID t = k) (registry sv)"

definition ActiveTemplateForClass :: "insp_service \<Rightarrow> string \<Rightarrow> Template option" where
  "ActiveTemplateForClass sv class = find (\<lambda>t. te_VehicleClass t = class \<and> te_Active t) (registry sv)"

section \<open>The canonical report input\<close>

definition uuidOrDash :: "insp_service \<Rightarrow> uuid option \<Rightarrow> string" where
  "uuidOrDash sv u =
     (case u of None \<Rightarrow> ''-'' | Some k \<Rightarrow> if k = uuid_nil then ''-'' else nsv_uuid_text sv k)"

definition hashOfNotes :: "insp_service \<Rightarrow> string \<Rightarrow> string" where
  "hashOfNotes sv s = hex_encode (nsv_sha256 sv s)"

definition HashReportInput :: "insp_service \<Rightarrow> string \<Rightarrow> string" where
  "HashReportInput sv input = hex_encode (nsv_sha256 sv input)"

definition submissionTimestamp :: "InspSession \<Rightarrow> string" where
  "submissionTimestamp s = (case is_SubmittedAt s of None \<Rightarrow> rfc3339nano 0 | Some t \<Rightarrow> rfc3339nano t)"

definition finding_line :: "insp_service \<Rightarrow> Finding \<Rightarrow> string" where
  "finding_line sv f =
     ''finding='' @ join_with '',''
       [nsv_uuid_text sv (fd_ID f), fd_ItemKey f, fd_Result f, fd_Severity f, hashOfNotes sv (fd_Notes f),
        uuidOrDash sv (fd_RecordedBy f)]"

definition evidence_line :: "insp_service \<Rightarrow> Evidence \<Rightarrow> string" where
  "evidence_line sv e =
     ''evidence='' @ join_with '',''
       [nsv_uuid_text sv (ev_ID e), ev_Kind e, ev_ContentHash e, uuidOrDash sv (ev_FindingID e),
        if ev_Uploaded e then ''1'' else ''0'']"

definition report_lines :: "insp_service \<Rightarrow> InspSession \<Rightarrow> Finding list \<Rightarrow> Evidence list \<Rightarrow> int \<Rightarrow> string list" where
  "report_lines sv s fs es version =
     [''motivra-inspections-report-v1'',
      ''session_id='' @ nsv_uuid_text sv (is_ID s),
      ''version='' @ dec_int version,
      ''vehicle_id='' @ uuidOrDash sv (is_VehicleID s),
      ''job_id='' @ uuidOrDash sv (is_JobID s),
      ''template_id='' @ nsv_uuid_text sv (is_TemplateID s),
      ''template_name='' @ is_TemplateName s,
      ''template_version='' @ dec_int (is_TemplateVersion s),
      ''inspector_id='' @ nsv_uuid_text sv (is_InspectorID s),
      ''submitted_at='' @ submissionTimestamp s] @
     map (finding_line sv) fs @ map (evidence_line sv) es @
     [''findings='' @ dec_nat (length fs) @ '',evidence='' @ dec_nat (length es)]"

definition BuildReportInput :: "insp_service \<Rightarrow> InspSession \<Rightarrow> Finding list \<Rightarrow> Evidence list \<Rightarrow> int \<Rightarrow> string" where
  "BuildReportInput sv s fs es version = join_with [CHR 0x0A] (report_lines sv s fs es version)"

section \<open>The latest finding of each item\<close>

definition newer :: "insp_service \<Rightarrow> Finding \<Rightarrow> Finding \<Rightarrow> bool" where
  "newer sv f cur \<longleftrightarrow>
     fd_CreatedAt cur < fd_CreatedAt f \<or>
     (fd_CreatedAt f = fd_CreatedAt cur \<and> nsv_uuid_text sv (fd_ID cur) < nsv_uuid_text sv (fd_ID f))"

fun latest_map :: "insp_service \<Rightarrow> Finding list \<Rightarrow> (string \<Rightarrow> Finding option) \<Rightarrow> string \<Rightarrow> Finding option" where
  "latest_map sv [] latest = latest"
| "latest_map sv (f # fs) latest =
     latest_map sv fs
       (case latest (fd_ItemKey f) of
          None \<Rightarrow> latest(fd_ItemKey f \<mapsto> f)
        | Some cur \<Rightarrow> if newer sv f cur then latest(fd_ItemKey f \<mapsto> f) else latest)"

definition SelectLatestFindings :: "insp_service \<Rightarrow> Finding list \<Rightarrow> Finding list" where
  "SelectLatestFindings sv fs =
     (let latest = latest_map sv fs (\<lambda>_. None) in
      sort_key (\<lambda>f. (fd_ItemKey f, nsv_uuid_text sv (fd_ID f)))
        (filter (\<lambda>f. case latest (fd_ItemKey f) of None \<Rightarrow> False | Some sel \<Rightarrow> fd_ID sel = fd_ID f) fs))"

section \<open>Snapshots\<close>

definition finding_json :: "insp_service \<Rightarrow> Finding \<Rightarrow> json_object" where
  "finding_json sv f =
     [(''id'', JString (nsv_uuid_text sv (fd_ID f))), (''item_key'', JString (fd_ItemKey f)),
      (''result'', JString (fd_Result f)), (''severity'', JString (fd_Severity f)), (''notes'', JString (fd_Notes f))] @
     (case fd_RecordedBy f of None \<Rightarrow> [] | Some u \<Rightarrow> [(''recorded_by'', JString (nsv_uuid_text sv u))]) @
     [(''created_at'', JTime (fd_CreatedAt f))]"

definition evidence_json :: "insp_service \<Rightarrow> Evidence \<Rightarrow> json_object" where
  "evidence_json sv e =
     [(''id'', JString (nsv_uuid_text sv (ev_ID e)))] @
     (case ev_FindingID e of None \<Rightarrow> [] | Some u \<Rightarrow> [(''finding_id'', JString (nsv_uuid_text sv u))]) @
     [(''kind'', JString (ev_Kind e)), (''content_hash'', JString (ev_ContentHash e)),
      (''captured_at'', JTime (ev_CapturedAt e)), (''uploaded'', JBool (ev_Uploaded e))]"

definition marshalFindingsSnapshot :: "insp_service \<Rightarrow> Finding list \<Rightarrow> string option" where
  "marshalFindingsSnapshot sv fs = marshal (map (finding_json sv) fs)"

definition marshalEvidenceSnapshot :: "insp_service \<Rightarrow> Evidence list \<Rightarrow> string option" where
  "marshalEvidenceSnapshot sv es = marshal (map (evidence_json sv) es)"

section \<open>Readiness\<close>

datatype report_issue =
    UnknownItem string
  | MissingItem string
  | RedWithoutEvidence string uuid
  | NoEvidence

definition CheckReportReadiness ::
  "insp_service \<Rightarrow> Template \<Rightarrow> Finding list \<Rightarrow> Evidence list \<Rightarrow> report_issue list" where
  "CheckReportReadiness sv t fs es =
     (let selected = SelectLatestFindings sv fs;
          known = (\<lambda>f. Template_Item t (fd_ItemKey f) \<noteq> None);
          covered = map fd_ItemKey (filter known selected);
          proven = map (\<lambda>e. the (ev_FindingID e)) (filter (\<lambda>e. ev_FindingID e \<noteq> None \<and> ev_FindingID e \<noteq> Some uuid_nil) es)
      in map (\<lambda>f. UnknownItem (fd_ItemKey f)) (filter (\<lambda>f. \<not> known f) selected) @
         map MissingItem (filter (\<lambda>key. key \<notin> set covered) (RequiredItems t)) @
         map (\<lambda>f. RedWithoutEvidence (fd_ItemKey f) (fd_ID f))
           (filter (\<lambda>f. fd_Severity f = SeverityRed \<and> fd_ID f \<notin> set proven) selected) @
         (if es = [] then [NoEvidence] else []))"

section \<open>Verification\<close>

definition subtleEqual :: "string \<Rightarrow> string \<Rightarrow> bool" where
  "subtleEqual a b \<longleftrightarrow> length a = length b \<and>
     foldl (\<lambda>v (c, d). or v (xor (of_nat (of_char c)) (of_nat (of_char d)))) (0 :: 8 word) (zip a b) = 0"

definition VerifyReport ::
  "insp_service \<Rightarrow> gotime \<Rightarrow> Template \<Rightarrow> InspSession \<Rightarrow> Finding list \<Rightarrow> Evidence list \<Rightarrow> Report \<Rightarrow> ReportVerification" where
  "VerifyReport sv now t s fs es r =
     (let selected = SelectLatestFindings sv fs;
          templateMatch = (te_ID t = is_TemplateID s \<and> te_Name t = is_TemplateName s \<and> te_Version t = is_TemplateVersion s);
          findingsMatch = (marshalFindingsSnapshot sv selected = Some (rp_FindingsSnapshot r));
          evidenceMatch = (marshalEvidenceSnapshot sv es = Some (rp_EvidenceSnapshot r));
          recomputed = HashReportInput sv (BuildReportInput sv s selected es (rp_Version r));
          hashMatch = subtleEqual recomputed (rp_ContentHash r)
      in \<lparr>vf_ReportID = rp_ID r, vf_SessionID = rp_SessionID r, vf_Version = rp_Version r,
          vf_Verified = (hashMatch \<and> findingsMatch \<and> evidenceMatch \<and> templateMatch),
          vf_HashMatch = hashMatch, vf_FindingsMatch = findingsMatch, vf_EvidenceMatch = evidenceMatch,
          vf_TemplateMatch = templateMatch, vf_FindingsChecked = int (length fs), vf_EvidenceChecked = int (length es),
          vf_StoredHash = rp_ContentHash r, vf_RecomputedHash = recomputed, vf_CheckedAt = now\<rparr>)"

end
