(* ===== verification/Insp_Store.thy ===== *)
theory Insp_Store
  imports Insp_Report
begin

text \<open>
  The inspections repository, \<open>backend/inspections/store.go\<close>, on the tables of
  \<open>backend/migrations/inspections\<close>: their checks, foreign keys and triggers. An operation takes the
  environment of its action (a fault, the transaction's time, the sequence of the audit log, a fresh
  identifier) and the tables. A statement with its triggers is one action; a transaction under
  \<open>SELECT .. FOR UPDATE\<close> is one action. A stored time is kept as given.
\<close>

section \<open>Errors\<close>

datatype insp_invalid =
    InspectorRequired
  | UnknownVehicleClass string
  | InvalidReference string
  | BadInitialStatus
  | ItemNotInTemplate string string
  | UnknownResult string
  | UnknownSeverity string
  | IllegalPair string string
  | NotesTooLong
  | BadContentHash
  | UnknownKind string
  | CapturedAtRequired
  | CapturedInFuture
  | ForeignFinding uuid uuid
  | UnknownInspStatus InspStatus

datatype insp_error =
    ErrSessionNotFound
  | ErrReportNotFound
  | ErrInspConflict "InspStatus conflict option"
  | ErrSessionSealed InspStatus
  | ErrReportIncomplete "report_issue list"
  | ErrNotInspector
  | ErrInvalidInput insp_invalid
  | ErrNoTemplate
  | ErrSnapshot
  | ErrInspDatabase
  | ErrInspPublish

section \<open>Tables\<close>

record insp_db =
  insp_sessions_t :: "InspSession list"
  findings_t :: "Finding list"
  evidence_t :: "Evidence list"
  reports_t :: "Report list"
  insp_log_t :: "SessionTransition list"

record insp_env =
  nv_flt :: db_fault
  nv_now :: gotime
  nv_seq :: int64
  nv_uuid :: uuid
  nv_clock :: gotime
  nv_pub :: bool

abbreviation get_session :: "uuid \<Rightarrow> insp_db \<Rightarrow> InspSession option" where
  "get_session k db \<equiv> row_get is_ID k (insp_sessions_t db)"

text \<open>\<open>content_hash ~ '^[0-9a-f]{64}$'\<close>, of the migrations and of \<open>sha256HexPattern\<close>.\<close>

definition sha256_hex :: "string \<Rightarrow> bool" where
  "sha256_hex s \<longleftrightarrow> length s = 64 \<and> set s \<subseteq> set ''0123456789abcdef''"

definition session_checks :: "InspSession \<Rightarrow> bool" where
  "session_checks s \<longleftrightarrow> IsVehicleClass (is_VehicleClass s) \<and> 0 < is_TemplateVersion s \<and> isKnownInspStatus (is_Status s)"

definition finding_checks :: "Finding \<Rightarrow> bool" where
  "finding_checks f \<longleftrightarrow> fd_Result f \<in> set AllFindingResults \<and> fd_Severity f \<in> set AllSeverities"

definition evidence_checks :: "Evidence \<Rightarrow> bool" where
  "evidence_checks e \<longleftrightarrow> IsEvidenceKind (ev_Kind e) \<and> sha256_hex (ev_ContentHash e)"

definition report_checks :: "Report \<Rightarrow> bool" where
  "report_checks r \<longleftrightarrow> 0 < rp_Version r \<and> 0 \<le> rp_FindingsCount r \<and> 0 \<le> rp_EvidenceCount r \<and> sha256_hex (rp_ContentHash r)"

section \<open>Sessions\<close>

definition insp_reading :: "(insp_db \<Rightarrow> insp_error + 'a) \<Rightarrow> insp_env \<Rightarrow> insp_db \<Rightarrow> (insp_error + 'a) \<times> insp_db" where
  "insp_reading f e db = (if nv_flt e = Healthy then f db else Inl ErrInspDatabase, db)"

definition InspStore_CreateSession :: "InspSession \<Rightarrow> insp_env \<Rightarrow> insp_db \<Rightarrow> (insp_error + InspSession) \<times> insp_db" where
  "InspStore_CreateSession s e db =
     (let row = s\<lparr>is_ID := (if is_ID s = uuid_nil then nv_uuid e else is_ID s), is_StartedAt := None,
            is_SubmittedAt := None, is_ReportedAt := None, is_CreatedAt := nv_now e, is_UpdatedAt := nv_now e\<rparr>;
          answer = s\<lparr>is_ID := is_ID row, is_CreatedAt := nv_now e, is_UpdatedAt := nv_now e\<rparr>
      in if get_session (is_ID row) db \<noteq> None \<or> \<not> session_checks row then (Inl ErrInspDatabase, db)
         else finish ErrInspDatabase (nv_flt e) 0 answer db
           (db\<lparr>insp_sessions_t := row_ins row (insp_sessions_t db)\<rparr>))"

definition InspStore_GetSession ::
  "insp_service \<Rightarrow> uuid \<Rightarrow> InspScope \<Rightarrow> insp_env \<Rightarrow> insp_db \<Rightarrow> (insp_error + InspSession) \<times> insp_db" where
  "InspStore_GetSession sv k scope = insp_reading (\<lambda>db.
     let (pred, predArgs) = inspScopePredicate scope 2; args = [k] @ predArgs in
     if \<not> args_accepted (nsv_engine sv) (1 # placeholders pred) (length args) then Inl ErrInspDatabase
     else case find (\<lambda>s. is_ID s = k \<and> sql_eval (insp_col_of s) args pred) (insp_sessions_t db) of
       None \<Rightarrow> Inl ErrSessionNotFound
     | Some s \<Rightarrow> Inr s)"

record SessionFilter =
  sf_VehicleID :: "uuid option"
  sf_JobID :: "uuid option"
  sf_Status :: "InspStatus option"

definition session_filter_matches :: "SessionFilter \<Rightarrow> InspSession \<Rightarrow> bool" where
  "session_filter_matches f s \<longleftrightarrow>
     (case sf_VehicleID f of None \<Rightarrow> True | Some v \<Rightarrow> col_eq (is_VehicleID s) v) \<and>
     (case sf_JobID f of None \<Rightarrow> True | Some j \<Rightarrow> col_eq (is_JobID s) j) \<and>
     (case sf_Status f of None \<Rightarrow> True | Some st \<Rightarrow> is_Status s = st)"

definition insp_defaultListLimit :: int where "insp_defaultListLimit = 50"
definition insp_maxListLimit :: int where "insp_maxListLimit = 200"

text \<open>
  Every filter adds an argument and the placeholder of its number, and so do the limit and the offset.
  \<open>ORDER BY created_at DESC, id DESC\<close>.
\<close>

definition InspStore_ListSessions ::
  "insp_service \<Rightarrow> InspScope \<Rightarrow> SessionFilter \<Rightarrow> int \<Rightarrow> int \<Rightarrow> insp_env \<Rightarrow> insp_db \<Rightarrow>
     (insp_error + InspSession list) \<times> insp_db" where
  "InspStore_ListSessions sv scope f limit offset = insp_reading (\<lambda>db.
     let limit1 = (if limit \<le> 0 then insp_defaultListLimit else limit);
         limit2 = min limit1 insp_maxListLimit;
         offset1 = max offset 0;
         (pred, predArgs) = inspScopePredicate scope 1;
         conds = (if sf_VehicleID f = None then 0 else 1) + (if sf_JobID f = None then 0 else 1) +
                 (if sf_Status f = None then 0 else 1 :: nat);
         count = length predArgs + conds + 2
     in if \<not> args_accepted (nsv_engine sv) (placeholders pred @ [Suc (length predArgs) ..< Suc count]) count
          then Inl ErrInspDatabase
        else Inr (take (nat limit2) (drop (nat offset1)
          (sort_key (\<lambda>s. - is_CreatedAt s) (sort_key (\<lambda>s. - uint (is_ID s))
            (filter (\<lambda>s. sql_eval (insp_col_of s) predArgs pred \<and> session_filter_matches f s) (insp_sessions_t db)))))))"

section \<open>Status moves\<close>

text \<open>The new status with the time stamp of \<open>statusTimestampColumn\<close>.\<close>

definition stamp_status :: "gotime \<Rightarrow> InspStatus \<Rightarrow> InspSession \<Rightarrow> InspSession" where
  "stamp_status now to s =
     (let s1 = s\<lparr>is_Status := to, is_UpdatedAt := now\<rparr> in
      case to of
        InspInProgress \<Rightarrow> s1\<lparr>is_StartedAt := Some now\<rparr>
      | InspSubmitted \<Rightarrow> s1\<lparr>is_SubmittedAt := Some now\<rparr>
      | InspReportAvailable \<Rightarrow> s1\<lparr>is_ReportedAt := Some now\<rparr>
      | _ \<Rightarrow> s1)"

definition log_status :: "insp_env \<Rightarrow> uuid \<Rightarrow> InspStatus \<Rightarrow> InspStatus \<Rightarrow> uuid option \<Rightarrow> string \<Rightarrow> SessionTransition" where
  "log_status e k from to actor reason =
     \<lparr>it_ID = nv_seq e, it_SessionID = k, it_FromStatus = from, it_ToStatus = to, it_ActorID = actor, it_Reason = reason,
      it_CreatedAt = nv_now e\<rparr>"

text \<open>Calls: begin, lock, update, insert, commit.\<close>

definition UpdateSessionStatus ::
  "uuid \<Rightarrow> InspStatus \<Rightarrow> InspStatus \<Rightarrow> uuid option \<Rightarrow> string \<Rightarrow> insp_env \<Rightarrow> insp_db \<Rightarrow> (insp_error + unit) \<times> insp_db" where
  "UpdateSessionStatus k expectedFrom newStatus actor reason e db =
     (if fails (nv_flt e) 0 \<or> fails (nv_flt e) 1 then (Inl ErrInspDatabase, db)
      else case get_session k db of
        None \<Rightarrow> (Inl ErrSessionNotFound, db)
      | Some s \<Rightarrow>
          if is_Status s \<noteq> expectedFrom then (Inl (ErrInspConflict None), db)
          else if fails (nv_flt e) 2 \<or> fails (nv_flt e) 3 \<or> \<not> isKnownInspStatus newStatus then (Inl ErrInspDatabase, db)
          else finish ErrInspDatabase (nv_flt e) 4 () db
            (db\<lparr>insp_sessions_t := row_upd is_ID k (stamp_status (nv_now e) newStatus) (insp_sessions_t db),
                insp_log_t := row_ins (log_status e k (is_Status s) newStatus actor reason) (insp_log_t db)\<rparr>))"

section \<open>Findings and evidence\<close>

text \<open>
  The trigger refuses a session that is not in progress; of a session that does not exist it sees no
  status, and the foreign key fails.
\<close>

definition InsertFinding :: "Finding \<Rightarrow> insp_env \<Rightarrow> insp_db \<Rightarrow> (insp_error + Finding) \<times> insp_db" where
  "InsertFinding f e db =
     (let row = f\<lparr>fd_ID := (if fd_ID f = uuid_nil then nv_uuid e else fd_ID f), fd_CreatedAt := nv_now e\<rparr> in
      if fails (nv_flt e) 0 then (Inl ErrInspDatabase, db)
      else case get_session (fd_SessionID f) db of
        None \<Rightarrow> (Inl (if finding_checks row \<and> row_get fd_ID (fd_ID row) (findings_t db) = None
                       then ErrSessionNotFound else ErrInspDatabase), db)
      | Some s \<Rightarrow>
          if is_Status s \<noteq> InspInProgress \<or> \<not> finding_checks row \<or> row_get fd_ID (fd_ID row) (findings_t db) \<noteq> None
            then (Inl ErrInspDatabase, db)
          else finish ErrInspDatabase (nv_flt e) 0 row db (db\<lparr>findings_t := row_ins row (findings_t db)\<rparr>))"

text \<open>\<open>EXISTS\<close> over the parent session, and \<open>ORDER BY created_at, id\<close>.\<close>

definition parent_visible :: "insp_col sql_cond \<Rightarrow> uuid list \<Rightarrow> uuid \<Rightarrow> insp_db \<Rightarrow> bool" where
  "parent_visible pred args k db \<longleftrightarrow>
     pred = SqlTrue \<or> list_ex (\<lambda>s. is_ID s = k \<and> sql_eval (insp_col_of s) args pred) (insp_sessions_t db)"

definition findings_of :: "uuid \<Rightarrow> insp_db \<Rightarrow> Finding list" where
  "findings_of k db =
     sort_key fd_CreatedAt (sort_key (\<lambda>f. uint (fd_ID f)) (filter (\<lambda>f. fd_SessionID f = k) (findings_t db)))"

definition ListFindings ::
  "insp_service \<Rightarrow> uuid \<Rightarrow> InspScope \<Rightarrow> insp_env \<Rightarrow> insp_db \<Rightarrow> (insp_error + Finding list) \<times> insp_db" where
  "ListFindings sv k scope = insp_reading (\<lambda>db.
     let (pred, predArgs) = inspScopePredicate scope 2; args = [k] @ predArgs in
     if \<not> args_accepted (nsv_engine sv) (1 # placeholders pred) (length args) then Inl ErrInspDatabase
     else Inr (if parent_visible pred args k db then findings_of k db else []))"

definition InsertEvidence :: "Evidence \<Rightarrow> insp_env \<Rightarrow> insp_db \<Rightarrow> (insp_error + Evidence) \<times> insp_db" where
  "InsertEvidence v e db =
     (let row = v\<lparr>ev_ID := (if ev_ID v = uuid_nil then nv_uuid e else ev_ID v), ev_CreatedAt := nv_now e\<rparr>;
          linked = (case ev_FindingID v of None \<Rightarrow> True | Some k \<Rightarrow> row_get fd_ID k (findings_t db) \<noteq> None);
          fits = (evidence_checks row \<and> row_get ev_ID (ev_ID row) (evidence_t db) = None)
      in if fails (nv_flt e) 0 then (Inl ErrInspDatabase, db)
         else case get_session (ev_SessionID v) db of
           None \<Rightarrow> (Inl (if fits then ErrSessionNotFound else ErrInspDatabase), db)
         | Some s \<Rightarrow>
             if is_Status s \<noteq> InspInProgress \<or> \<not> fits then (Inl ErrInspDatabase, db)
             else if \<not> linked then (Inl ErrSessionNotFound, db)
             else finish ErrInspDatabase (nv_flt e) 0 row db (db\<lparr>evidence_t := row_ins row (evidence_t db)\<rparr>))"

definition evidence_of :: "uuid \<Rightarrow> insp_db \<Rightarrow> Evidence list" where
  "evidence_of k db =
     sort_key ev_CreatedAt (sort_key (\<lambda>v. uint (ev_ID v)) (filter (\<lambda>v. ev_SessionID v = k) (evidence_t db)))"

definition ListEvidence ::
  "insp_service \<Rightarrow> uuid \<Rightarrow> InspScope \<Rightarrow> insp_env \<Rightarrow> insp_db \<Rightarrow> (insp_error + Evidence list) \<times> insp_db" where
  "ListEvidence sv k scope = insp_reading (\<lambda>db.
     let (pred, predArgs) = inspScopePredicate scope 2; args = [k] @ predArgs in
     if \<not> args_accepted (nsv_engine sv) (1 # placeholders pred) (length args) then Inl ErrInspDatabase
     else Inr (if parent_visible pred args k db then evidence_of k db else []))"

section \<open>Reports\<close>

definition next_version :: "uuid \<Rightarrow> insp_db \<Rightarrow> int" where
  "next_version k db = Max (insert 0 (rp_Version ` set (filter (\<lambda>r. rp_SessionID r = k) (reports_t db)))) + 1"

text \<open>
  Calls: begin, lock, version, insert, update, audit, commit. The snapshots are written into \<open>jsonb\<close>
  columns; the trigger wants evidence of the session.
\<close>

definition InsertReport :: "insp_service \<Rightarrow> Report \<Rightarrow> insp_env \<Rightarrow> insp_db \<Rightarrow> (insp_error + Report) \<times> insp_db" where
  "InsertReport sv r e db =
     (let r1 = r\<lparr>rp_ID := (if rp_ID r = uuid_nil then nv_uuid e else rp_ID r), rp_CreatedAt := nv_now e\<rparr>;
          row = r1\<lparr>rp_FindingsSnapshot := nsv_jsonb sv (rp_FindingsSnapshot r),
                   rp_EvidenceSnapshot := nsv_jsonb sv (rp_EvidenceSnapshot r)\<rparr>;
          k = rp_SessionID r
      in if rp_ContentHash r = [] \<or> fails (nv_flt e) 0 \<or> fails (nv_flt e) 1 then (Inl ErrInspDatabase, db)
         else case get_session k db of
           None \<Rightarrow> (Inl ErrSessionNotFound, db)
         | Some s \<Rightarrow>
             if is_Status s \<noteq> InspSubmitted then (Inl (ErrInspConflict None), db)
             else if fails (nv_flt e) 2 then (Inl ErrInspDatabase, db)
             else if next_version k db \<noteq> rp_Version r then (Inl (ErrInspConflict None), db)
             else if fails (nv_flt e) 3 \<or> \<not> report_checks row \<or> row_get rp_ID (rp_ID row) (reports_t db) \<noteq> None \<or>
                 \<not> list_ex (\<lambda>v. ev_SessionID v = k) (evidence_t db) then (Inl ErrInspDatabase, db)
             else if fails (nv_flt e) 4 \<or> fails (nv_flt e) 5 then (Inl ErrInspDatabase, db)
             else finish ErrInspDatabase (nv_flt e) 6 r1 db
               (db\<lparr>reports_t := row_ins row (reports_t db),
                   insp_sessions_t := row_upd is_ID k (stamp_status (nv_now e) InspReportAvailable) (insp_sessions_t db),
                   insp_log_t := row_ins (log_status e k InspSubmitted InspReportAvailable (rp_IssuedBy r) ''report issued'')
                     (insp_log_t db)\<rparr>))"

text \<open>The latest version, or the one asked for.\<close>

definition latest_report :: "Report list \<Rightarrow> Report option" where
  "latest_report rs = (case sort_key (\<lambda>r. - rp_Version r) rs of [] \<Rightarrow> None | r # _ \<Rightarrow> Some r)"

definition InspStore_GetReport ::
  "insp_service \<Rightarrow> uuid \<Rightarrow> int option \<Rightarrow> InspScope \<Rightarrow> insp_env \<Rightarrow> insp_db \<Rightarrow> (insp_error + Report) \<times> insp_db" where
  "InspStore_GetReport sv k version scope = insp_reading (\<lambda>db.
     let (pred, predArgs) = inspScopePredicate scope 2; args = [k] @ predArgs;
         count = length args + (if version = None then 0 else 1);
         rows = filter (\<lambda>r. rp_SessionID r = k \<and> (case version of None \<Rightarrow> True | Some v \<Rightarrow> rp_Version r = v)) (reports_t db)
     in if \<not> args_accepted (nsv_engine sv) (1 # placeholders pred @ [Suc (length args) ..< Suc count]) count
          then Inl ErrInspDatabase
        else if \<not> parent_visible pred args k db then Inl ErrReportNotFound
        else case latest_report rows of None \<Rightarrow> Inl ErrReportNotFound | Some r \<Rightarrow> Inr r)"

end
