(* ===== verification/Insp_Service.thy ===== *)
theory Insp_Service
  imports Insp_Store
begin

text \<open>
  The inspections service, \<open>backend/inspections/service.go\<close>: its operations as resumptions over the tables
  and the published events. Between two statements other calls run. Metrics are left out.
\<close>

section \<open>Events\<close>

record SessionCreatedPayload =
  pc_SessionID :: uuid
  pc_VehicleClass :: string
  pc_VehicleID :: "uuid option"
  pc_JobID :: "uuid option"
  pc_CustomerID :: "uuid option"
  pc_TemplateID :: uuid
  pc_TemplateName :: string
  pc_TemplateVersion :: int
  pc_InspectorID :: uuid

record SessionStartedPayload =
  pt_SessionID :: uuid
  pt_InspectorID :: uuid
  pt_VehicleID :: "uuid option"

record SessionSubmittedPayload =
  pm_SessionID :: uuid
  pm_InspectorID :: uuid
  pm_FindingsCount :: int
  pm_EvidenceCount :: int
  pm_VehicleID :: "uuid option"
  pm_JobID :: "uuid option"

record ReportIssuedPayload =
  pi_SessionID :: uuid
  pi_ReportID :: uuid
  pi_Version :: int
  pi_ContentHash :: string
  pi_InspectorID :: uuid
  pi_FindingsCount :: int
  pi_EvidenceCount :: int
  pi_TemplateVersion :: int

datatype insp_payload =
    PSessionCreated SessionCreatedPayload
  | PSessionStarted SessionStartedPayload
  | PSessionSubmitted SessionSubmittedPayload
  | PReportIssued ReportIssuedPayload

record insp_event =
  nw_Type :: string
  nw_AggregateID :: string
  nw_TenantID :: string
  nw_ActorID :: string
  nw_CorrelationID :: string
  nw_Payload :: insp_payload

record insp_world =
  nw_db :: insp_db
  nw_events :: "insp_event list"

type_synonym 'a insp_prog = "(insp_env, insp_world, insp_error + 'a) prog"

definition on_db :: "(insp_env \<Rightarrow> insp_db \<Rightarrow> (insp_error + 'a) \<times> insp_db) \<Rightarrow> 'a insp_prog" where
  "on_db f = effect (\<lambda>e w. case f e (nw_db w) of (r, db) \<Rightarrow> (r, w\<lparr>nw_db := db\<rparr>))"

definition EventSessionCreated :: string where "EventSessionCreated = ''session.created.v1''"
definition EventSessionStarted :: string where "EventSessionStarted = ''session.started.v1''"
definition EventSessionSubmitted :: string where "EventSessionSubmitted = ''session.submitted.v1''"
definition EventReportIssued :: string where "EventReportIssued = ''report.issued.v1''"

definition insp_tenantString :: "insp_service \<Rightarrow> uuid option \<Rightarrow> string" where
  "insp_tenantString sv t = (case t of None \<Rightarrow> [] | Some k \<Rightarrow> nsv_uuid_text sv k)"

definition insp_publish ::
  "insp_service \<Rightarrow> string \<Rightarrow> uuid \<Rightarrow> uuid \<Rightarrow> string \<Rightarrow> insp_payload \<Rightarrow> unit insp_prog" where
  "insp_publish sv eventType aggregate actor tenant pl =
     (if \<not> nsv_publisher sv then Done (Inr ())
      else if eventType = [] \<or> nsv_uuid_text sv aggregate = [] then Done (Inl ErrInspPublish)
      else effect (\<lambda>e w.
        if \<not> nv_pub e then (Inl ErrInspPublish, w)
        else (Inr (), w\<lparr>nw_events := nw_events w @
          [\<lparr>nw_Type = eventType, nw_AggregateID = nsv_uuid_text sv aggregate, nw_TenantID = tenant,
            nw_ActorID = (if actor = uuid_nil then [] else nsv_uuid_text sv actor),
            nw_CorrelationID = nsv_correlation sv, nw_Payload = pl\<rparr>]\<rparr>)))"

section \<open>Guards and validation\<close>

definition resultSeverityMatrix :: "(string \<times> string) list" where
  "resultSeverityMatrix =
     [(ResultPass, SeverityGreen), (ResultPass, SeverityAmber), (ResultFail, SeverityAmber), (ResultFail, SeverityRed),
      (ResultAttention, SeverityAmber), (ResultAttention, SeverityRed), (ResultNotApplicable, SeverityGreen)]"

definition IsResultSeverityLegal :: "string \<Rightarrow> string \<Rightarrow> bool" where
  "IsResultSeverityLegal result severity \<longleftrightarrow> (result, severity) \<in> set resultSeverityMatrix"

definition MaxNotesLength :: nat where "MaxNotesLength = 2000"
definition maxCapturedAtSkew :: duration where "maxCapturedAtSkew = 5 * time_minute"

text \<open>A guard: an error, or on with the rest.\<close>

definition unless_error :: "insp_error option \<Rightarrow> 'a insp_prog \<Rightarrow> 'a insp_prog" where
  "unless_error err p = (case err of Some x \<Rightarrow> Done (Inl x) | None \<Rightarrow> p)"

definition guardActor :: "InspSession \<Rightarrow> uuid \<Rightarrow> InspScope \<Rightarrow> insp_error option" where
  "guardActor s actor scope =
     (if InspUnrestricted scope \<or> actor = is_InspectorID s then None else Some ErrNotInspector)"

definition move_guard :: "InspStatus \<Rightarrow> InspStatus \<Rightarrow> insp_error option" where
  "move_guard from to = map_option (\<lambda>c. ErrInspConflict (Some c)) (InspCanTransition from to)"

definition insp_validateOptionalID :: "string \<Rightarrow> uuid option \<Rightarrow> insp_error option" where
  "insp_validateOptionalID field k = (if k = Some uuid_nil then Some (ErrInvalidInput (InvalidReference field)) else None)"

text \<open>The finding as it is to be recorded, or the first rule it breaks.\<close>

definition validateFindingInput :: "Template \<Rightarrow> Finding \<Rightarrow> uuid \<Rightarrow> insp_error + Finding" where
  "validateFindingInput t f actor =
     (if Template_Item t (fd_ItemKey f) = None then Inl (ErrInvalidInput (ItemNotInTemplate (fd_ItemKey f) (te_Name t)))
      else if fd_Result f \<notin> set AllFindingResults then Inl (ErrInvalidInput (UnknownResult (fd_Result f)))
      else if fd_Severity f \<notin> set AllSeverities then Inl (ErrInvalidInput (UnknownSeverity (fd_Severity f)))
      else if \<not> IsResultSeverityLegal (fd_Result f) (fd_Severity f)
        then Inl (ErrInvalidInput (IllegalPair (fd_Result f) (fd_Severity f)))
      else if MaxNotesLength < length (fd_Notes f) then Inl (ErrInvalidInput NotesTooLong)
      else Inr (if actor \<noteq> uuid_nil then f\<lparr>fd_RecordedBy := Some actor\<rparr> else f))"

definition validateEvidenceInput :: "gotime \<Rightarrow> Evidence \<Rightarrow> uuid \<Rightarrow> insp_error + Evidence" where
  "validateEvidenceInput now v actor =
     (if \<not> sha256_hex (ev_ContentHash v) then Inl (ErrInvalidInput BadContentHash)
      else if \<not> IsEvidenceKind (ev_Kind v) then Inl (ErrInvalidInput (UnknownKind (ev_Kind v)))
      else if time_is_zero (ev_CapturedAt v) then Inl (ErrInvalidInput CapturedAtRequired)
      else if now + maxCapturedAtSkew < ev_CapturedAt v then Inl (ErrInvalidInput CapturedInFuture)
      else if MaxNotesLength < length (ev_Notes v) then Inl (ErrInvalidInput NotesTooLong)
      else Inr (if actor \<noteq> uuid_nil then v\<lparr>ev_CapturedBy := Some actor\<rparr> else v))"

definition with_template :: "insp_service \<Rightarrow> uuid \<Rightarrow> (Template \<Rightarrow> 'a insp_prog) \<Rightarrow> 'a insp_prog" where
  "with_template sv k h = (case TemplateByID sv k of None \<Rightarrow> Done (Inl ErrNoTemplate) | Some t \<Rightarrow> h t)"

section \<open>Operations\<close>

definition InspCreateSession :: "insp_service \<Rightarrow> InspSession \<Rightarrow> InspSession insp_prog" where
  "InspCreateSession sv s =
     (if is_InspectorID s = uuid_nil then Done (Inl (ErrInvalidInput InspectorRequired))
      else if \<not> IsVehicleClass (is_VehicleClass s) then Done (Inl (ErrInvalidInput (UnknownVehicleClass (is_VehicleClass s))))
      else case ActiveTemplateForClass sv (is_VehicleClass s) of
        None \<Rightarrow> Done (Inl ErrNoTemplate)
      | Some t \<Rightarrow>
          unless_error (insp_validateOptionalID ''vehicle_id'' (is_VehicleID s)) (
          unless_error (insp_validateOptionalID ''job_id'' (is_JobID s)) (
          unless_error (insp_validateOptionalID ''customer_id'' (is_CustomerID s)) (
          unless_error (if is_Status s \<noteq> InspOther [] \<and> is_Status s \<noteq> InspCreated
              then Some (ErrInvalidInput BadInitialStatus) else None) (
          try_then (on_db (InspStore_CreateSession (s\<lparr>is_TemplateID := te_ID t, is_TemplateName := te_Name t,
              is_TemplateVersion := te_Version t, is_Status := InspCreated\<rparr>))) (\<lambda>s1.
          try_then (insp_publish sv EventSessionCreated (is_ID s1) (is_InspectorID s1) (insp_tenantString sv (is_TenantID s1))
            (PSessionCreated \<lparr>pc_SessionID = is_ID s1, pc_VehicleClass = is_VehicleClass s1, pc_VehicleID = is_VehicleID s1,
               pc_JobID = is_JobID s1, pc_CustomerID = is_CustomerID s1, pc_TemplateID = is_TemplateID s1,
               pc_TemplateName = is_TemplateName s1, pc_TemplateVersion = is_TemplateVersion s1,
               pc_InspectorID = is_InspectorID s1\<rparr>)) (\<lambda>_. Done (Inr s1))))))))"

definition Start :: "insp_service \<Rightarrow> uuid \<Rightarrow> uuid \<Rightarrow> InspScope \<Rightarrow> InspSession insp_prog" where
  "Start sv k actor scope =
     try_then (on_db (InspStore_GetSession sv k scope)) (\<lambda>s.
     unless_error (guardActor s actor scope) (
     unless_error (move_guard (is_Status s) InspInProgress) (
     try_then (on_db (UpdateSessionStatus k (is_Status s) InspInProgress (Some actor) ''inspection started'')) (\<lambda>_.
     try_then (on_db (InspStore_GetSession sv k scope)) (\<lambda>s1.
     try_then (insp_publish sv EventSessionStarted k actor (insp_tenantString sv (is_TenantID s1))
       (PSessionStarted \<lparr>pt_SessionID = k, pt_InspectorID = is_InspectorID s1, pt_VehicleID = is_VehicleID s1\<rparr>)) (\<lambda>_.
     Done (Inr s1)))))))"

definition RecordFinding ::
  "insp_service \<Rightarrow> uuid \<Rightarrow> Finding \<Rightarrow> uuid \<Rightarrow> InspScope \<Rightarrow> Finding insp_prog" where
  "RecordFinding sv k f actor scope =
     try_then (on_db (InspStore_GetSession sv k scope)) (\<lambda>s.
     unless_error (guardActor s actor scope) (
     unless_error (if is_Status s \<noteq> InspInProgress then Some (ErrSessionSealed (is_Status s)) else None) (
     with_template sv (is_TemplateID s) (\<lambda>t.
     case validateFindingInput t f actor of
       Inl err \<Rightarrow> Done (Inl err)
     | Inr f1 \<Rightarrow> on_db (InsertFinding (f1\<lparr>fd_SessionID := is_ID s\<rparr>))))))"

text \<open>The link of an evidence record, checked against the findings the caller can see.\<close>

definition check_link :: "insp_service \<Rightarrow> InspSession \<Rightarrow> uuid option \<Rightarrow> InspScope \<Rightarrow> unit insp_prog" where
  "check_link sv s link scope =
     (case link of
        None \<Rightarrow> Done (Inr ())
      | Some k \<Rightarrow>
          try_then (on_db (ListFindings sv (is_ID s) scope)) (\<lambda>fs.
          if list_ex (\<lambda>f. fd_ID f = k) fs then Done (Inr ())
          else Done (Inl (ErrInvalidInput (ForeignFinding k (is_ID s))))))"

definition AttachEvidence ::
  "insp_service \<Rightarrow> uuid \<Rightarrow> Evidence \<Rightarrow> uuid \<Rightarrow> InspScope \<Rightarrow> Evidence insp_prog" where
  "AttachEvidence sv k v actor scope =
     try_then (on_db (InspStore_GetSession sv k scope)) (\<lambda>s.
     unless_error (guardActor s actor scope) (
     unless_error (if is_Status s \<noteq> InspInProgress then Some (ErrSessionSealed (is_Status s)) else None) (
     and_then (ask nv_clock) (\<lambda>now.
     case validateEvidenceInput now v actor of
       Inl err \<Rightarrow> Done (Inl err)
     | Inr v1 \<Rightarrow>
         try_then (check_link sv s (ev_FindingID v1) scope) (\<lambda>_.
         on_db (InsertEvidence (v1\<lparr>ev_SessionID := is_ID s\<rparr>)))))))"

definition incomplete :: "report_issue list \<Rightarrow> insp_error option" where
  "incomplete issues = (if issues = [] then None else Some (ErrReportIncomplete issues))"

definition checkReadiness :: "insp_service \<Rightarrow> InspSession \<Rightarrow> InspScope \<Rightarrow> unit insp_prog" where
  "checkReadiness sv s scope =
     with_template sv (is_TemplateID s) (\<lambda>t.
     try_then (on_db (ListFindings sv (is_ID s) scope)) (\<lambda>fs.
     try_then (on_db (ListEvidence sv (is_ID s) scope)) (\<lambda>es.
     unless_error (incomplete (CheckReportReadiness sv t fs es)) (Done (Inr ())))))"

definition Submit :: "insp_service \<Rightarrow> uuid \<Rightarrow> uuid \<Rightarrow> InspScope \<Rightarrow> InspSession insp_prog" where
  "Submit sv k actor scope =
     try_then (on_db (InspStore_GetSession sv k scope)) (\<lambda>s.
     unless_error (guardActor s actor scope) (
     unless_error (move_guard (is_Status s) InspSubmitted) (
     try_then (checkReadiness sv s scope) (\<lambda>_.
     try_then (on_db (UpdateSessionStatus k (is_Status s) InspSubmitted (Some actor) ''inspection submitted'')) (\<lambda>_.
     try_then (on_db (InspStore_GetSession sv k scope)) (\<lambda>s1.
     try_then (on_db (ListFindings sv k scope)) (\<lambda>fs.
     try_then (on_db (ListEvidence sv k scope)) (\<lambda>es.
     try_then (insp_publish sv EventSessionSubmitted k actor (insp_tenantString sv (is_TenantID s1))
       (PSessionSubmitted \<lparr>pm_SessionID = k, pm_InspectorID = is_InspectorID s1,
          pm_FindingsCount = int (length (SelectLatestFindings sv fs)), pm_EvidenceCount = int (length es),
          pm_VehicleID = is_VehicleID s1, pm_JobID = is_JobID s1\<rparr>)) (\<lambda>_.
     Done (Inr s1))))))))))"

definition ReportVersionInitial :: int where "ReportVersionInitial = 1"

text \<open>The record assembled from a session, its findings and its evidence.\<close>

definition assemble ::
  "insp_service \<Rightarrow> InspSession \<Rightarrow> Finding list \<Rightarrow> Evidence list \<Rightarrow> uuid \<Rightarrow> string \<Rightarrow> insp_error + Report" where
  "assemble sv s fs es actor notes =
     (let selected = SelectLatestFindings sv fs in
      case (marshalFindingsSnapshot sv selected, marshalEvidenceSnapshot sv es) of
        (Some fj, Some ej) \<Rightarrow>
          if MaxNotesLength < length notes then Inl (ErrInvalidInput NotesTooLong)
          else Inr \<lparr>rp_ID = uuid_nil, rp_SessionID = is_ID s, rp_Version = ReportVersionInitial, rp_VehicleID = is_VehicleID s,
            rp_JobID = is_JobID s, rp_InspectorID = is_InspectorID s, rp_TemplateID = is_TemplateID s,
            rp_TemplateName = is_TemplateName s, rp_TemplateVersion = is_TemplateVersion s,
            rp_FindingsSnapshot = fj, rp_EvidenceSnapshot = ej, rp_FindingsCount = int (length selected),
            rp_EvidenceCount = int (length es),
            rp_ContentHash = HashReportInput sv (BuildReportInput sv s selected es ReportVersionInitial),
            rp_IssuedBy = Some actor, rp_Notes = notes, rp_CreatedAt = 0\<rparr>
      | _ \<Rightarrow> Inl ErrSnapshot)"

definition IssueReport :: "insp_service \<Rightarrow> uuid \<Rightarrow> uuid \<Rightarrow> string \<Rightarrow> InspScope \<Rightarrow> Report insp_prog" where
  "IssueReport sv k actor notes scope =
     try_then (on_db (InspStore_GetSession sv k scope)) (\<lambda>s.
     unless_error (guardActor s actor scope) (
     unless_error (move_guard (is_Status s) InspReportAvailable) (
     with_template sv (is_TemplateID s) (\<lambda>t.
     try_then (on_db (ListFindings sv k scope)) (\<lambda>fs.
     try_then (on_db (ListEvidence sv k scope)) (\<lambda>es.
     unless_error (incomplete (CheckReportReadiness sv t fs es)) (
     case assemble sv s fs es actor notes of
       Inl err \<Rightarrow> Done (Inl err)
     | Inr r \<Rightarrow>
         try_then (on_db (InsertReport sv r)) (\<lambda>r1.
         try_then (insp_publish sv EventReportIssued (rp_ID r1) actor (insp_tenantString sv (is_TenantID s))
           (PReportIssued \<lparr>pi_SessionID = is_ID s, pi_ReportID = rp_ID r1, pi_Version = rp_Version r1,
              pi_ContentHash = rp_ContentHash r1, pi_InspectorID = rp_InspectorID r1,
              pi_FindingsCount = rp_FindingsCount r1, pi_EvidenceCount = rp_EvidenceCount r1,
              pi_TemplateVersion = rp_TemplateVersion r1\<rparr>)) (\<lambda>_. Done (Inr r1))))))))))"

definition InspGetSession :: "insp_service \<Rightarrow> uuid \<Rightarrow> InspScope \<Rightarrow> InspSession insp_prog" where
  "InspGetSession sv k scope = on_db (InspStore_GetSession sv k scope)"

definition insp_DefaultSessionsLimit :: int where "insp_DefaultSessionsLimit = 50"
definition insp_MaxSessionsLimit :: int where "insp_MaxSessionsLimit = 200"

definition InspSessions ::
  "insp_service \<Rightarrow> InspScope \<Rightarrow> SessionFilter \<Rightarrow> int \<Rightarrow> int \<Rightarrow> InspSession list insp_prog" where
  "InspSessions sv scope f limit offset =
     (let limit1 = min (if limit \<le> 0 then insp_DefaultSessionsLimit else limit) insp_MaxSessionsLimit;
          offset1 = max offset 0
      in unless_error (case sf_Status f of None \<Rightarrow> None
           | Some st \<Rightarrow> if isKnownInspStatus st then None else Some (ErrInvalidInput (UnknownInspStatus st))) (
         on_db (InspStore_ListSessions sv scope f limit1 offset1)))"

definition Findings :: "insp_service \<Rightarrow> uuid \<Rightarrow> InspScope \<Rightarrow> Finding list insp_prog" where
  "Findings sv k scope = try_then (on_db (InspStore_GetSession sv k scope)) (\<lambda>_. on_db (ListFindings sv k scope))"

definition Evidences :: "insp_service \<Rightarrow> uuid \<Rightarrow> InspScope \<Rightarrow> Evidence list insp_prog" where
  "Evidences sv k scope = try_then (on_db (InspStore_GetSession sv k scope)) (\<lambda>_. on_db (ListEvidence sv k scope))"

definition InspGetReport :: "insp_service \<Rightarrow> uuid \<Rightarrow> int option \<Rightarrow> InspScope \<Rightarrow> Report insp_prog" where
  "InspGetReport sv k version scope =
     try_then (on_db (InspStore_GetSession sv k scope)) (\<lambda>_. on_db (InspStore_GetReport sv k version scope))"

definition InspVerify :: "insp_service \<Rightarrow> uuid \<Rightarrow> int option \<Rightarrow> InspScope \<Rightarrow> ReportVerification insp_prog" where
  "InspVerify sv k version scope =
     try_then (on_db (InspStore_GetSession sv k scope)) (\<lambda>s.
     try_then (on_db (InspStore_GetReport sv k version scope)) (\<lambda>r.
     with_template sv (is_TemplateID s) (\<lambda>t.
     try_then (on_db (ListFindings sv k scope)) (\<lambda>fs.
     try_then (on_db (ListEvidence sv k scope)) (\<lambda>es.
     and_then (ask nv_clock) (\<lambda>now. Done (Inr (VerifyReport sv now t s fs es r))))))))"

end
