(* ===== verification/Insp_Http.thy ===== *)
theory Insp_Http
  imports Insp_Service
begin

text \<open>
  The HTTP interface of inspections, \<open>backend/inspections/http.go\<close>. A call brings the validated claims and
  the decoded input of its route. \<open>uuid.Parse\<close>, the text of an error, and what \<open>json.Unmarshal\<close> leaves of
  a stored snapshot are parameters.
\<close>

record insp_http =
  nh_service :: insp_service
  nh_parse :: "string \<Rightarrow> uuid option"
  nh_text_of :: "insp_error \<Rightarrow> string"
  nh_findings :: "string \<Rightarrow> json_object list"
  nh_evidence :: "string \<Rightarrow> json_object list"

section \<open>Bodies\<close>

record createSessionRequest =
  qc_VehicleID :: "uuid option"
  qc_JobID :: "uuid option"
  qc_CustomerID :: "uuid option"
  qc_VehicleClass :: string

record findingRequest =
  qn_ItemKey :: string
  qn_Result :: string
  qn_Severity :: string
  qn_Notes :: string

record evidenceRequest =
  qe_FindingID :: "uuid option"
  qe_Kind :: string
  qe_ContentHash :: string
  qe_CapturedAt :: gotime
  qe_Uploaded :: bool
  qe_Notes :: string

record issueReportRequest = qi_Notes :: string

record inspSessionResponse =
  yi_ID :: uuid
  yi_TenantID :: "uuid option"
  yi_VehicleID :: "uuid option"
  yi_JobID :: "uuid option"
  yi_CustomerID :: "uuid option"
  yi_VehicleClass :: string
  yi_TemplateID :: uuid
  yi_TemplateName :: string
  yi_TemplateVersion :: int
  yi_InspectorID :: uuid
  yi_Status :: InspStatus
  yi_StartedAt :: "gotime option"
  yi_SubmittedAt :: "gotime option"
  yi_ReportedAt :: "gotime option"
  yi_CreatedAt :: gotime
  yi_UpdatedAt :: gotime

definition newInspSessionResponse :: "InspSession \<Rightarrow> inspSessionResponse" where
  "newInspSessionResponse s =
     \<lparr>yi_ID = is_ID s, yi_TenantID = is_TenantID s, yi_VehicleID = is_VehicleID s, yi_JobID = is_JobID s,
      yi_CustomerID = is_CustomerID s, yi_VehicleClass = is_VehicleClass s, yi_TemplateID = is_TemplateID s,
      yi_TemplateName = is_TemplateName s, yi_TemplateVersion = is_TemplateVersion s,
      yi_InspectorID = is_InspectorID s, yi_Status = is_Status s, yi_StartedAt = is_StartedAt s,
      yi_SubmittedAt = is_SubmittedAt s, yi_ReportedAt = is_ReportedAt s, yi_CreatedAt = is_CreatedAt s,
      yi_UpdatedAt = is_UpdatedAt s\<rparr>"

record findingResponse =
  yf_ID :: uuid
  yf_SessionID :: uuid
  yf_ItemKey :: string
  yf_Result :: string
  yf_Severity :: string
  yf_Notes :: string
  yf_RecordedBy :: "uuid option"
  yf_CreatedAt :: gotime

definition newFindingResponse :: "Finding \<Rightarrow> findingResponse" where
  "newFindingResponse f =
     \<lparr>yf_ID = fd_ID f, yf_SessionID = fd_SessionID f, yf_ItemKey = fd_ItemKey f, yf_Result = fd_Result f,
      yf_Severity = fd_Severity f, yf_Notes = fd_Notes f, yf_RecordedBy = fd_RecordedBy f, yf_CreatedAt = fd_CreatedAt f\<rparr>"

record evidenceResponse =
  ye_ID :: uuid
  ye_SessionID :: uuid
  ye_FindingID :: "uuid option"
  ye_Kind :: string
  ye_ContentHash :: string
  ye_CapturedAt :: gotime
  ye_CapturedBy :: "uuid option"
  ye_Uploaded :: bool
  ye_Notes :: string
  ye_CreatedAt :: gotime

definition newEvidenceResponse :: "Evidence \<Rightarrow> evidenceResponse" where
  "newEvidenceResponse v =
     \<lparr>ye_ID = ev_ID v, ye_SessionID = ev_SessionID v, ye_FindingID = ev_FindingID v, ye_Kind = ev_Kind v,
      ye_ContentHash = ev_ContentHash v, ye_CapturedAt = ev_CapturedAt v, ye_CapturedBy = ev_CapturedBy v,
      ye_Uploaded = ev_Uploaded v, ye_Notes = ev_Notes v, ye_CreatedAt = ev_CreatedAt v\<rparr>"

record reportResponse =
  yr_ID :: uuid
  yr_SessionID :: uuid
  yr_Version :: int
  yr_VehicleID :: "uuid option"
  yr_JobID :: "uuid option"
  yr_InspectorID :: uuid
  yr_TemplateID :: uuid
  yr_TemplateName :: string
  yr_TemplateVersion :: int
  yr_Findings :: "json_object list"
  yr_Evidence :: "json_object list"
  yr_FindingsCount :: int
  yr_EvidenceCount :: int
  yr_ContentHash :: string
  yr_IssuedBy :: "uuid option"
  yr_Notes :: string
  yr_CreatedAt :: gotime

definition newReportResponse :: "insp_http \<Rightarrow> Report \<Rightarrow> reportResponse" where
  "newReportResponse c r =
     \<lparr>yr_ID = rp_ID r, yr_SessionID = rp_SessionID r, yr_Version = rp_Version r, yr_VehicleID = rp_VehicleID r,
      yr_JobID = rp_JobID r, yr_InspectorID = rp_InspectorID r, yr_TemplateID = rp_TemplateID r,
      yr_TemplateName = rp_TemplateName r, yr_TemplateVersion = rp_TemplateVersion r,
      yr_Findings = nh_findings c (rp_FindingsSnapshot r), yr_Evidence = nh_evidence c (rp_EvidenceSnapshot r),
      yr_FindingsCount = rp_FindingsCount r, yr_EvidenceCount = rp_EvidenceCount r, yr_ContentHash = rp_ContentHash r,
      yr_IssuedBy = rp_IssuedBy r, yr_Notes = rp_Notes r, yr_CreatedAt = rp_CreatedAt r\<rparr>"

datatype insp_reply =
    InspSessionBody inspSessionResponse
  | InspSessionsBody "inspSessionResponse list"
  | FindingBody findingResponse
  | FindingsBody "findingResponse list"
  | EvidenceBody evidenceResponse
  | EvidencesBody "evidenceResponse list"
  | ReportBody reportResponse
  | VerificationBody ReportVerification
  | TemplatesBody "Template list"
  | TemplateBody Template

type_synonym insp_answer = "(insp_env, insp_world, insp_reply) answer"

section \<open>Input\<close>

fun insp_domain_error :: "(insp_error \<Rightarrow> string) \<Rightarrow> insp_error \<Rightarrow> any_error" where
  "insp_domain_error text_of (ErrInspConflict x) = AppError (ErrConflict (text_of (ErrInspConflict x)))"
| "insp_domain_error text_of (ErrSessionSealed x) = AppError (ErrValidation (text_of (ErrSessionSealed x)) [])"
| "insp_domain_error text_of (ErrReportIncomplete x) = AppError (ErrValidation (text_of (ErrReportIncomplete x)) [])"
| "insp_domain_error text_of (ErrInvalidInput x) = AppError (ErrValidation (text_of (ErrInvalidInput x)) [])"
| "insp_domain_error text_of ErrNotInspector =
     AppError (ErrForbidden ''only the session's inspector may perform this action'')"
| "insp_domain_error text_of ErrSessionNotFound = AppError (ErrNotFound ''session not found'')"
| "insp_domain_error text_of ErrReportNotFound = AppError (ErrNotFound ''report not found'')"
| "insp_domain_error text_of _ = OtherError"

definition answer_insp :: "insp_http \<Rightarrow> ('a \<Rightarrow> insp_reply response) \<Rightarrow> 'a insp_prog \<Rightarrow> insp_answer" where
  "answer_insp c f p = answer_of (insp_domain_error (nh_text_of c)) f p"

definition insp_scope :: "insp_http \<Rightarrow> Claims option \<Rightarrow> Error + InspScope" where
  "insp_scope c cl =
     (case cl of
        None \<Rightarrow> Inl (ErrUnauthorized ''authentication required'')
      | Some claims \<Rightarrow>
          (case InspScopeFromClaims (nh_parse c) claims of
             Inl _ \<Rightarrow> Inl (ErrUnauthorized ''authentication required'')
           | Inr scope \<Rightarrow> Inr scope))"

definition subject_uuid :: "insp_http \<Rightarrow> Claims \<Rightarrow> Error + uuid" where
  "subject_uuid c claims =
     (case nh_parse c (cl_UserID claims) of
        None \<Rightarrow> Inl (ErrUnauthorized ''authenticated subject is not a user identifier'')
      | Some u \<Rightarrow> Inr u)"

definition insp_actorAndScope :: "insp_http \<Rightarrow> Claims option \<Rightarrow> Error + uuid \<times> InspScope" where
  "insp_actorAndScope c cl =
     (case require_claims cl of
        Inl e \<Rightarrow> Inl e
      | Inr claims \<Rightarrow>
          (case subject_uuid c claims of
             Inl e \<Rightarrow> Inl e
           | Inr actor \<Rightarrow>
               (case InspScopeFromClaims (nh_parse c) claims of Inl e \<Rightarrow> Inl e | Inr scope \<Rightarrow> Inr (actor, scope))))"

text \<open>Of a malformed tenant claim this makes no tenant.\<close>

definition insp_tenantIDFromClaims :: "insp_http \<Rightarrow> Claims \<Rightarrow> uuid option" where
  "insp_tenantIDFromClaims c claims = (if cl_TenantID claims = [] then None else nh_parse c (cl_TenantID claims))"

definition unknown_class :: Error where
  "unknown_class = ErrValidation ''vehicle_class is not a known vehicle class''
     [\<lparr>fe_Field = ''vehicle_class'', fe_Issue = ''must be one of the documented vehicle classes''\<rparr>]"

definition insp_parseStatus :: "string \<Rightarrow> Error + InspStatus" where
  "insp_parseStatus raw =
     (let candidate = insp_status_of (ascii_upper (trim_space raw)) in
      if isKnownInspStatus candidate then Inr candidate
      else Inl (ErrValidation ''status is not a known inspection session status''
        [\<lparr>fe_Field = ''status'', fe_Issue = ''must be one of the documented session statuses''\<rparr>]))"

definition optionalVersion :: "string \<Rightarrow> Error + int option" where
  "optionalVersion value =
     (let raw = trim_space value in
      if raw = [] then Inr None
      else case Atoi raw of
        None \<Rightarrow> Inl (ErrValidation ''version is not a valid report version''
          [\<lparr>fe_Field = ''version'', fe_Issue = ''must be a positive integer''\<rparr>])
      | Some n \<Rightarrow>
          if n < 1 then Inl (ErrValidation ''version is not a valid report version''
            [\<lparr>fe_Field = ''version'', fe_Issue = ''must be a positive integer''\<rparr>])
          else Inr (Some n))"

fun insp_decodeOptionalJSON :: "'a \<Rightarrow> 'a body \<Rightarrow> Error + 'a" where
  "insp_decodeOptionalJSON zero NoBody = Inr zero"
| "insp_decodeOptionalJSON zero (BadBody msg) = Inl (ErrValidation (''request body is not valid JSON: '' @ msg) [])"
| "insp_decodeOptionalJSON zero (JsonBody v) = Inr v"

record sessions_query =
  sq_status :: string
  sq_vehicle_id :: string
  sq_job_id :: string
  sq_page :: page_query

text \<open>An optional identifier of a query.\<close>

definition query_uuid :: "insp_http \<Rightarrow> string \<Rightarrow> string \<Rightarrow> Error + uuid option" where
  "query_uuid c name value =
     (let raw = trim_space value in
      if raw = [] then Inr None
      else case nh_parse c raw of
        None \<Rightarrow> Inl (ErrValidation (name @ '' is not a valid identifier'') [\<lparr>fe_Field = name, fe_Issue = ''must be a uuid''\<rparr>])
      | Some k \<Rightarrow> Inr (Some k))"

definition sessions_filter :: "insp_http \<Rightarrow> sessions_query \<Rightarrow> Error + SessionFilter \<times> int \<times> int" where
  "sessions_filter c q =
     (case (if trim_space (sq_status q) = [] then Inr None
            else map_sum (\<lambda>e. e) Some (insp_parseStatus (trim_space (sq_status q)))) of
        Inl e \<Rightarrow> Inl e
      | Inr status \<Rightarrow>
      case query_uuid c ''vehicle_id'' (sq_vehicle_id q) of
        Inl e \<Rightarrow> Inl e
      | Inr vehicle \<Rightarrow>
      case query_uuid c ''job_id'' (sq_job_id q) of
        Inl e \<Rightarrow> Inl e
      | Inr job \<Rightarrow>
      case paginate insp_DefaultSessionsLimit insp_MaxSessionsLimit (sq_page q) of
        Inl e \<Rightarrow> Inl e
      | Inr (limit, offset) \<Rightarrow>
          Inr (\<lparr>sf_VehicleID = vehicle, sf_JobID = job, sf_Status = status\<rparr>, limit, offset))"

definition session_path :: "insp_http \<Rightarrow> string \<Rightarrow> Error + uuid" where
  "session_path c raw = path_uuid (nh_parse c) ''sessionID'' raw"

section \<open>Handlers\<close>

definition handleCreateSession :: "insp_http \<Rightarrow> Claims option \<Rightarrow> createSessionRequest body \<Rightarrow> insp_answer" where
  "handleCreateSession c cl b =
     checked (require_claims cl) (\<lambda>claims.
     checked (subject_uuid c claims) (\<lambda>inspector.
     checked (DecodeJSON b) (\<lambda>q.
     if \<not> IsVehicleClass (qc_VehicleClass q) then refuse (AppError unknown_class)
     else answer_insp c (\<lambda>s. Reply 201 (InspSessionBody (newInspSessionResponse s)))
       (InspCreateSession (nh_service c)
         \<lparr>is_ID = uuid_nil, is_TenantID = insp_tenantIDFromClaims c claims, is_VehicleID = qc_VehicleID q,
          is_JobID = qc_JobID q, is_CustomerID = qc_CustomerID q, is_VehicleClass = qc_VehicleClass q,
          is_TemplateID = uuid_nil, is_TemplateName = [], is_TemplateVersion = 0, is_InspectorID = inspector,
          is_Status = InspCreated, is_StartedAt = None, is_SubmittedAt = None, is_ReportedAt = None,
          is_CreatedAt = 0, is_UpdatedAt = 0\<rparr>))))"

definition handleListInspSessions :: "insp_http \<Rightarrow> Claims option \<Rightarrow> sessions_query \<Rightarrow> insp_answer" where
  "handleListInspSessions c cl q =
     checked (insp_scope c cl) (\<lambda>scope.
     checked (sessions_filter c q) (\<lambda>(f, limit, offset).
     answer_insp c (\<lambda>ss. Reply 200 (InspSessionsBody (map newInspSessionResponse ss)))
       (InspSessions (nh_service c) scope f limit offset)))"

definition handleGetInspSession :: "insp_http \<Rightarrow> Claims option \<Rightarrow> string \<Rightarrow> insp_answer" where
  "handleGetInspSession c cl raw =
     checked (insp_scope c cl) (\<lambda>scope. checked (session_path c raw) (\<lambda>k.
     answer_insp c (\<lambda>s. Reply 200 (InspSessionBody (newInspSessionResponse s))) (InspGetSession (nh_service c) k scope)))"

definition handleStart :: "insp_http \<Rightarrow> Claims option \<Rightarrow> string \<Rightarrow> insp_answer" where
  "handleStart c cl raw =
     checked (insp_actorAndScope c cl) (\<lambda>(actor, scope). checked (session_path c raw) (\<lambda>k.
     answer_insp c (\<lambda>s. Reply 200 (InspSessionBody (newInspSessionResponse s))) (Start (nh_service c) k actor scope)))"

definition handleRecordFinding :: "insp_http \<Rightarrow> Claims option \<Rightarrow> string \<Rightarrow> findingRequest body \<Rightarrow> insp_answer" where
  "handleRecordFinding c cl raw b =
     checked (insp_actorAndScope c cl) (\<lambda>(actor, scope). checked (session_path c raw) (\<lambda>k. checked (DecodeJSON b) (\<lambda>q.
     answer_insp c (\<lambda>f. Reply 201 (FindingBody (newFindingResponse f)))
       (RecordFinding (nh_service c) k
         \<lparr>fd_ID = uuid_nil, fd_SessionID = uuid_nil, fd_ItemKey = qn_ItemKey q, fd_Result = qn_Result q,
          fd_Severity = qn_Severity q, fd_Notes = qn_Notes q, fd_RecordedBy = None, fd_CreatedAt = 0\<rparr> actor scope))))"

definition handleListFindings :: "insp_http \<Rightarrow> Claims option \<Rightarrow> string \<Rightarrow> insp_answer" where
  "handleListFindings c cl raw =
     checked (insp_scope c cl) (\<lambda>scope. checked (session_path c raw) (\<lambda>k.
     answer_insp c (\<lambda>fs. Reply 200 (FindingsBody (map newFindingResponse fs))) (Findings (nh_service c) k scope)))"

definition handleAttachEvidence :: "insp_http \<Rightarrow> Claims option \<Rightarrow> string \<Rightarrow> evidenceRequest body \<Rightarrow> insp_answer" where
  "handleAttachEvidence c cl raw b =
     checked (insp_actorAndScope c cl) (\<lambda>(actor, scope). checked (session_path c raw) (\<lambda>k. checked (DecodeJSON b) (\<lambda>q.
     answer_insp c (\<lambda>v. Reply 201 (EvidenceBody (newEvidenceResponse v)))
       (AttachEvidence (nh_service c) k
         \<lparr>ev_ID = uuid_nil, ev_SessionID = uuid_nil, ev_FindingID = qe_FindingID q, ev_Kind = qe_Kind q,
          ev_ContentHash = qe_ContentHash q, ev_CapturedAt = qe_CapturedAt q, ev_CapturedBy = None,
          ev_Uploaded = qe_Uploaded q, ev_Notes = qe_Notes q, ev_CreatedAt = 0\<rparr> actor scope))))"

definition handleListEvidence :: "insp_http \<Rightarrow> Claims option \<Rightarrow> string \<Rightarrow> insp_answer" where
  "handleListEvidence c cl raw =
     checked (insp_scope c cl) (\<lambda>scope. checked (session_path c raw) (\<lambda>k.
     answer_insp c (\<lambda>vs. Reply 200 (EvidencesBody (map newEvidenceResponse vs))) (Evidences (nh_service c) k scope)))"

definition handleSubmit :: "insp_http \<Rightarrow> Claims option \<Rightarrow> string \<Rightarrow> insp_answer" where
  "handleSubmit c cl raw =
     checked (insp_actorAndScope c cl) (\<lambda>(actor, scope). checked (session_path c raw) (\<lambda>k.
     answer_insp c (\<lambda>s. Reply 200 (InspSessionBody (newInspSessionResponse s))) (Submit (nh_service c) k actor scope)))"

definition handleIssueReport :: "insp_http \<Rightarrow> Claims option \<Rightarrow> string \<Rightarrow> issueReportRequest body \<Rightarrow> insp_answer" where
  "handleIssueReport c cl raw b =
     checked (insp_actorAndScope c cl) (\<lambda>(actor, scope). checked (session_path c raw) (\<lambda>k.
     checked (insp_decodeOptionalJSON \<lparr>qi_Notes = []\<rparr> b) (\<lambda>q.
     answer_insp c (\<lambda>r. Reply 201 (ReportBody (newReportResponse c r)))
       (IssueReport (nh_service c) k actor (qi_Notes q) scope))))"

definition handleGetReport :: "insp_http \<Rightarrow> Claims option \<Rightarrow> string \<Rightarrow> string \<Rightarrow> insp_answer" where
  "handleGetReport c cl raw version =
     checked (insp_scope c cl) (\<lambda>scope. checked (session_path c raw) (\<lambda>k. checked (optionalVersion version) (\<lambda>v.
     answer_insp c (\<lambda>r. Reply 200 (ReportBody (newReportResponse c r))) (InspGetReport (nh_service c) k v scope))))"

definition handleVerifyReport :: "insp_http \<Rightarrow> Claims option \<Rightarrow> string \<Rightarrow> string \<Rightarrow> insp_answer" where
  "handleVerifyReport c cl raw version =
     checked (insp_scope c cl) (\<lambda>scope. checked (session_path c raw) (\<lambda>k. checked (optionalVersion version) (\<lambda>v.
     answer_insp c (\<lambda>vf. Reply 200 (VerificationBody vf)) (InspVerify (nh_service c) k v scope))))"

definition handleListTemplates :: "insp_http \<Rightarrow> string \<Rightarrow> insp_answer" where
  "handleListTemplates c value =
     (let raw = trim_space value; templates = registry (nh_service c) in
      if raw = [] then Done (Reply 200 (TemplatesBody templates))
      else let class = ascii_upper raw in
        if \<not> IsVehicleClass class then refuse (AppError unknown_class)
        else Done (Reply 200 (TemplatesBody (filter (\<lambda>t. te_VehicleClass t = class) templates))))"

definition handleGetTemplate :: "insp_http \<Rightarrow> string \<Rightarrow> insp_answer" where
  "handleGetTemplate c value =
     (let raw = trim_space value in
      if raw = [] then refuse (AppError (ErrValidation ''template id is required''
        [\<lparr>fe_Field = ''templateID'', fe_Issue = ''is required''\<rparr>]))
      else case nh_parse c raw of
        None \<Rightarrow> refuse (AppError (ErrValidation ''template id is not a valid identifier''
          [\<lparr>fe_Field = ''templateID'', fe_Issue = ''must be a uuid''\<rparr>]))
      | Some k \<Rightarrow>
          (case TemplateByID (nh_service c) k of
             None \<Rightarrow> refuse (AppError (ErrNotFound ''template not found''))
           | Some t \<Rightarrow> Done (Reply 200 (TemplateBody t))))"

section \<open>Routes\<close>

datatype insp_request =
    PostSession "createSessionRequest body"
  | GetSessions sessions_query
  | GetOneSession string
  | PostStart string
  | PostFinding string "findingRequest body"
  | GetFindings string
  | PostEvidence string "evidenceRequest body"
  | GetEvidence string
  | PostSubmit string
  | PostReport string "issueReportRequest body"
  | GetReport string string
  | GetVerification string string
  | GetTemplates string
  | GetTemplate string

fun insp_Routes :: "insp_http \<Rightarrow> Claims option \<Rightarrow> insp_request \<Rightarrow> insp_answer" where
  "insp_Routes c cl (PostSession b) = gate_role StaffRoles cl (\<lambda>_. handleCreateSession c cl b)"
| "insp_Routes c cl (GetSessions q) = gate_role StaffRoles cl (\<lambda>_. handleListInspSessions c cl q)"
| "insp_Routes c cl (GetOneSession raw) = gate_authenticated cl (\<lambda>_. handleGetInspSession c cl raw)"
| "insp_Routes c cl (PostStart raw) = gate_role StaffRoles cl (\<lambda>_. handleStart c cl raw)"
| "insp_Routes c cl (PostFinding raw b) = gate_role StaffRoles cl (\<lambda>_. handleRecordFinding c cl raw b)"
| "insp_Routes c cl (GetFindings raw) = gate_authenticated cl (\<lambda>_. handleListFindings c cl raw)"
| "insp_Routes c cl (PostEvidence raw b) = gate_role StaffRoles cl (\<lambda>_. handleAttachEvidence c cl raw b)"
| "insp_Routes c cl (GetEvidence raw) = gate_authenticated cl (\<lambda>_. handleListEvidence c cl raw)"
| "insp_Routes c cl (PostSubmit raw) = gate_role StaffRoles cl (\<lambda>_. handleSubmit c cl raw)"
| "insp_Routes c cl (PostReport raw b) = gate_role StaffRoles cl (\<lambda>_. handleIssueReport c cl raw b)"
| "insp_Routes c cl (GetReport raw version) = gate_authenticated cl (\<lambda>_. handleGetReport c cl raw version)"
| "insp_Routes c cl (GetVerification raw version) = gate_authenticated cl (\<lambda>_. handleVerifyReport c cl raw version)"
| "insp_Routes c cl (GetTemplates value) = gate_authenticated cl (\<lambda>_. handleListTemplates c value)"
| "insp_Routes c cl (GetTemplate value) = gate_authenticated cl (\<lambda>_. handleGetTemplate c value)"

end
