(* ===== verification/Insp_Canon.thy ===== *)
theory Insp_Canon
  imports Insp_Report "HOL-Library.Multiset"
begin

text \<open>
  The pure part of a report: which findings are selected, when a session is ready, what the constant-time
  comparison decides, and that the canonical input determines what it is made of.
\<close>

section \<open>The selection\<close>

definition age :: "insp_service \<Rightarrow> Finding \<Rightarrow> gotime \<times> string" where
  "age sv f = (fd_CreatedAt f, nsv_uuid_text sv (fd_ID f))"

lemma newer_age: "newer sv f cur \<longleftrightarrow> age sv cur < age sv f"
  by (auto simp: newer_def age_def)

lemma latest_map_Some:
  assumes "latest_map sv fs m k = Some g" and "\<And>k g. m k = Some g \<Longrightarrow> fd_ItemKey g = k"
  shows "fd_ItemKey g = k \<and> (g \<in> set fs \<or> m k = Some g) \<and>
    (\<forall>f \<in> set fs. fd_ItemKey f = k \<longrightarrow> age sv f \<le> age sv g) \<and> (\<forall>f. m k = Some f \<longrightarrow> age sv f \<le> age sv g)"
  using assms
proof (induction fs arbitrary: m)
  case Nil
  then show ?case by auto
next
  case (Cons f fs)
  let ?m = "case m (fd_ItemKey f) of None \<Rightarrow> m(fd_ItemKey f \<mapsto> f)
     | Some cur \<Rightarrow> if newer sv f cur then m(fd_ItemKey f \<mapsto> f) else m"
  have keyed: "\<And>k g. ?m k = Some g \<Longrightarrow> fd_ItemKey g = k"
    using Cons.prems(2) by (auto split: option.splits if_splits)
  have "latest_map sv fs ?m k = Some g" using Cons.prems(1) by simp
  from Cons.IH [OF this keyed] show ?case
    by (auto simp: newer_age not_less split: option.splits if_splits dest: less_imp_le order.trans)
qed

lemma latest_map_None: "latest_map sv fs m k = None \<longleftrightarrow> m k = None \<and> (\<forall>f \<in> set fs. fd_ItemKey f \<noteq> k)"
proof (induction fs arbitrary: m)
  case (Cons f fs)
  show ?case
    unfolding latest_map.simps Cons.IH by (auto split: option.splits if_splits)
qed simp

text \<open>What is selected: the findings no other finding of the item is newer than.\<close>

definition is_latest :: "insp_service \<Rightarrow> Finding list \<Rightarrow> Finding \<Rightarrow> bool" where
  "is_latest sv fs f \<longleftrightarrow> f \<in> set fs \<and> (\<forall>g \<in> set fs. fd_ItemKey g = fd_ItemKey f \<longrightarrow> age sv g \<le> age sv f)"

definition select_key :: "insp_service \<Rightarrow> Finding \<Rightarrow> string \<times> string" where
  "select_key sv f = (fd_ItemKey f, nsv_uuid_text sv (fd_ID f))"

definition selected_in :: "insp_service \<Rightarrow> Finding list \<Rightarrow> Finding \<Rightarrow> bool" where
  "selected_in sv fs f \<longleftrightarrow>
     (case latest_map sv fs (\<lambda>_. None) (fd_ItemKey f) of None \<Rightarrow> False | Some sel \<Rightarrow> fd_ID sel = fd_ID f)"

lemma SelectLatestFindings_eq:
  "SelectLatestFindings sv fs = sort_key (select_key sv) (filter (selected_in sv fs) fs)"
  by (simp add: SelectLatestFindings_def Let_def select_key_def [abs_def] selected_in_def [abs_def])

lemma ids_inject: "distinct (map fd_ID fs) \<Longrightarrow> f \<in> set fs \<Longrightarrow> g \<in> set fs \<Longrightarrow> fd_ID f = fd_ID g \<Longrightarrow> f = g"
  by (auto simp: distinct_map dest: inj_onD)

lemma selected_in_iff:
  assumes "distinct (map fd_ID fs)" and "inj (nsv_uuid_text sv)" and "f \<in> set fs"
  shows "selected_in sv fs f \<longleftrightarrow> is_latest sv fs f"
proof -
  obtain g where g: "latest_map sv fs (\<lambda>_. None) (fd_ItemKey f) = Some g"
    using assms(3) latest_map_None [of sv fs "\<lambda>_. None" "fd_ItemKey f"] by fastforce
  from latest_map_Some [OF this] have g': "g \<in> set fs" "fd_ItemKey g = fd_ItemKey f"
    "\<forall>h \<in> set fs. fd_ItemKey h = fd_ItemKey f \<longrightarrow> age sv h \<le> age sv g" by auto
  have "is_latest sv fs f \<longleftrightarrow> f = g"
  proof
    assume "is_latest sv fs f"
    then have "age sv f = age sv g" using g' assms(3) by (auto simp: is_latest_def intro: antisym)
    then have "fd_ID f = fd_ID g" using assms(2) by (simp add: age_def inj_eq)
    then show "f = g" using ids_inject [OF assms(1,3) g'(1)] by simp
  qed (use g' in \<open>auto simp: is_latest_def\<close>)
  moreover have "fd_ID g = fd_ID f \<longleftrightarrow> f = g"
    using ids_inject [OF assms(1,3) g'(1)] by auto
  ultimately show ?thesis by (simp add: selected_in_def g)
qed

lemma select_filter:
  assumes "distinct (map fd_ID fs)" and "inj (nsv_uuid_text sv)"
  shows "SelectLatestFindings sv fs = sort_key (select_key sv) (filter (is_latest sv fs) fs)"
  unfolding SelectLatestFindings_eq
  by (rule arg_cong [where f = "sort_key (select_key sv)"]) (use selected_in_iff [OF assms] in \<open>simp cong: filter_cong\<close>)

lemma select_subset: "set (SelectLatestFindings sv fs) \<subseteq> set fs"
  by (auto simp: SelectLatestFindings_eq)

lemma set_select:
  "distinct (map fd_ID fs) \<Longrightarrow> inj (nsv_uuid_text sv) \<Longrightarrow> set (SelectLatestFindings sv fs) = {f. is_latest sv fs f}"
  by (auto simp: select_filter is_latest_def)

text \<open>Every item that has a finding has one selected.\<close>

lemma select_covers:
  assumes "f \<in> set fs"
  shows "\<exists>g \<in> set (SelectLatestFindings sv fs). fd_ItemKey g = fd_ItemKey f"
proof -
  obtain g where g: "latest_map sv fs (\<lambda>_. None) (fd_ItemKey f) = Some g"
    using assms latest_map_None [of sv fs "\<lambda>_. None" "fd_ItemKey f"] by fastforce
  from latest_map_Some [OF this] have "g \<in> set fs" "fd_ItemKey g = fd_ItemKey f" by auto
  with g show ?thesis by (auto simp: SelectLatestFindings_eq selected_in_def intro!: bexI [of _ g])
qed

text \<open>
  C39. The selection of a report keeps exactly the newest finding of every item, each item once and in
  the order of the items, and depends on the findings only, not on the order they were read in.
\<close>

theorem latest_findings_selected:
  assumes "distinct (map fd_ID fs)" and "inj (nsv_uuid_text sv)" and "mset fs' = mset fs"
  shows "SelectLatestFindings sv fs' = SelectLatestFindings sv fs \<and>
    set (SelectLatestFindings sv fs) = {f. is_latest sv fs f} \<and>
    sorted (map fd_ItemKey (SelectLatestFindings sv fs)) \<and> distinct (map fd_ItemKey (SelectLatestFindings sv fs))"
proof -
  have set: "set fs' = set fs" using assms(3) by (metis set_mset_mset)
  have dist: "distinct (map fd_ID fs')" using assms(1,3) by (metis mset_map mset_eq_imp_distinct_iff)
  have inj: "inj_on (select_key sv) (set xs)" if "set xs \<subseteq> set fs" for xs
  proof (rule inj_onI)
    fix f g assume fg: "f \<in> set xs" "g \<in> set xs" "select_key sv f = select_key sv g"
    then have "fd_ID f = fd_ID g" using assms(2) by (simp add: select_key_def inj_eq)
    then show "f = g" using fg(1,2) that by (intro ids_inject [OF assms(1)]) auto
  qed
  have "filter (is_latest sv fs) fs' = filter (is_latest sv fs') fs'" using set by (simp add: is_latest_def [abs_def])
  then have "mset (filter (is_latest sv fs') fs') = mset (filter (is_latest sv fs) fs)"
    using assms(3) by (metis mset_filter)
  then have same: "SelectLatestFindings sv fs' = SelectLatestFindings sv fs"
    unfolding select_filter [OF assms(1,2)] select_filter [OF dist assms(2)]
    using inj [of "filter (is_latest sv fs') fs'"] set by (intro sort_key_inj_key_eq) auto
  have "sorted (map (select_key sv) (SelectLatestFindings sv fs))"
    by (simp add: SelectLatestFindings_eq)
  then have items: "sorted (map fd_ItemKey (SelectLatestFindings sv fs))"
    unfolding sorted_map by (rule sorted_wrt_mono_rel [rotated]) (auto simp: select_key_def)
  have one: "f = g" if "is_latest sv fs f" "is_latest sv fs g" "fd_ItemKey f = fd_ItemKey g" for f g
  proof -
    have "age sv f = age sv g" using that by (auto simp: is_latest_def intro: antisym)
    then have "fd_ID f = fd_ID g" using assms(2) by (simp add: age_def inj_eq)
    then show ?thesis using that ids_inject [OF assms(1)] by (simp add: is_latest_def)
  qed
  have "distinct (SelectLatestFindings sv fs)"
    using assms(1) by (simp add: SelectLatestFindings_eq distinct_map)
  then have "distinct (map fd_ItemKey (SelectLatestFindings sv fs))"
    using one set_select [OF assms(1,2)] by (auto simp: distinct_map inj_on_def)
  then show ?thesis using same items set_select [OF assms(1,2)] by blast
qed

section \<open>Readiness\<close>

lemma readiness_iff:
  "CheckReportReadiness sv t fs es = [] \<longleftrightarrow>
     (\<forall>f \<in> set (SelectLatestFindings sv fs). Template_Item t (fd_ItemKey f) \<noteq> None) \<and>
     (\<forall>key \<in> set (RequiredItems t). \<exists>f \<in> set (SelectLatestFindings sv fs). fd_ItemKey f = key) \<and>
     (\<forall>f \<in> set (SelectLatestFindings sv fs). fd_Severity f = SeverityRed \<longrightarrow>
        (\<exists>e \<in> set es. ev_FindingID e = Some (fd_ID f) \<and> fd_ID f \<noteq> uuid_nil)) \<and> es \<noteq> []"
proof -
  have proven: "set (map (\<lambda>e. the (ev_FindingID e)) (filter (\<lambda>e. ev_FindingID e \<noteq> None \<and> ev_FindingID e \<noteq> Some uuid_nil) es))
      = {k. k \<noteq> uuid_nil \<and> (\<exists>e \<in> set es. ev_FindingID e = Some k)}" by force
  have covered: "set (map fd_ItemKey (filter (\<lambda>f. Template_Item t (fd_ItemKey f) \<noteq> None) fs)) =
      {key. Template_Item t key \<noteq> None \<and> (\<exists>f \<in> set fs. fd_ItemKey f = key)}" for fs by auto
  show ?thesis
    unfolding CheckReportReadiness_def Let_def proven covered append_is_Nil_conv map_is_Nil_conv filter_empty_conv
    by (simp split: if_split) auto
qed

section \<open>The comparison\<close>

lemma byte_xor_zero: "xor (of_nat (of_char c)) (of_nat (of_char d)) = (0 :: 8 word) \<longleftrightarrow> c = d"
proof
  have n: "unat (of_nat (of_char c) :: 8 word) = of_char c" for c
    using of_char_lt_256 [of c] by (simp add: unat_of_nat take_bit_nat_eq_self)
  assume "xor (of_nat (of_char c)) (of_nat (of_char d)) = (0 :: 8 word)"
  then have "xor (xor (of_nat (of_char c)) (of_nat (of_char d))) (of_nat (of_char d)) = xor 0 (of_nat (of_char d) :: 8 word)" by simp
  then have "(of_nat (of_char c) :: 8 word) = of_nat (of_char d)" by (simp add: xor.assoc)
  then have "(of_char c :: nat) = of_char d" using n [of c] n [of d] by metis
  then show "c = d" by simp
qed simp

lemma fold_or_zero:
  "foldl (\<lambda>v (c, d). or v (xor (of_nat (of_char c)) (of_nat (of_char d)))) v xs = (0 :: 8 word) \<longleftrightarrow>
     v = 0 \<and> (\<forall>(c, d) \<in> set xs. c = d)"
proof (induction xs arbitrary: v)
  case (Cons x xs)
  have "or v u = 0 \<longleftrightarrow> v = 0 \<and> u = 0" for v u :: "8 word"
    by (auto simp: bit_eq_iff bit_or_iff)
  then show ?case using Cons by (cases x) (simp add: byte_xor_zero)
qed simp

lemma subtleEqual_iff: "subtleEqual a b \<longleftrightarrow> a = b"
proof -
  have "length a = length b \<Longrightarrow> (\<forall>(c, d) \<in> set (zip a b). c = d) \<longleftrightarrow> a = b"
    by (induction a b rule: list_induct2) auto
  then show ?thesis by (auto simp: subtleEqual_def fold_or_zero)
qed

section \<open>The canonical input determines the report\<close>

text \<open>What \<open>github.com/google/uuid\<close> documents of \<open>String\<close>: 36 characters, hexadecimal digits and dashes, one-to-one.\<close>

definition uuid_texts :: "insp_service \<Rightarrow> bool" where
  "uuid_texts sv \<longleftrightarrow> inj (nsv_uuid_text sv) \<and>
     (\<forall>u. length (nsv_uuid_text sv u) = 36 \<and> set (nsv_uuid_text sv u) \<subseteq> set ''0123456789abcdef-'')"

definition plain :: "string \<Rightarrow> bool" where
  "plain s \<longleftrightarrow> CHR '','' \<notin> set s \<and> CHR 0x0A \<notin> set s"

definition finding_clean :: "Finding \<Rightarrow> bool" where
  "finding_clean f \<longleftrightarrow> plain (fd_ItemKey f) \<and> plain (fd_Result f) \<and> plain (fd_Severity f)"

definition evidence_clean :: "Evidence \<Rightarrow> bool" where
  "evidence_clean e \<longleftrightarrow> plain (ev_Kind e) \<and> plain (ev_ContentHash e)"

text \<open>A reference, where the nil identifier is none.\<close>

definition ref_of :: "uuid option \<Rightarrow> uuid option" where
  "ref_of u = (if u = Some uuid_nil then None else u)"

definition finding_digest :: "insp_service \<Rightarrow> Finding \<Rightarrow> uuid \<times> string \<times> string \<times> string \<times> string \<times> uuid option" where
  "finding_digest sv f =
     (fd_ID f, fd_ItemKey f, fd_Result f, fd_Severity f, hashOfNotes sv (fd_Notes f), ref_of (fd_RecordedBy f))"

definition evidence_digest :: "Evidence \<Rightarrow> uuid \<times> string \<times> string \<times> uuid option \<times> bool" where
  "evidence_digest e = (ev_ID e, ev_Kind e, ev_ContentHash e, ref_of (ev_FindingID e), ev_Uploaded e)"

lemma join_with_Cons: "ts \<noteq> [] \<Longrightarrow> join_with sep (s # ts) = s @ sep @ join_with sep ts"
  by (cases ts) auto

lemma split_join: "xs \<noteq> [] \<Longrightarrow> \<forall>x \<in> set xs. c \<notin> set x \<Longrightarrow> split_on c (join_with [c] xs) = xs"
proof (induction xs)
  case (Cons x xs)
  then show ?case by (cases "xs = []") (simp_all add: split_on_none split_on_append join_with_Cons)
qed simp

lemma join_inject:
  "join_with [c] xs = join_with [c] ys \<Longrightarrow> xs \<noteq> [] \<Longrightarrow> ys \<noteq> [] \<Longrightarrow> \<forall>x \<in> set xs. c \<notin> set x \<Longrightarrow>
    \<forall>y \<in> set ys. c \<notin> set y \<Longrightarrow> xs = ys"
  by (metis split_join)

lemma plain_simps [simp]: "plain []" "plain (c # s) \<longleftrightarrow> c \<noteq> CHR '','' \<and> c \<noteq> CHR 0x0A \<and> plain s"
  "plain (s @ t) \<longleftrightarrow> plain s \<and> plain t"
  by (auto simp: plain_def)

lemma plain_hex: "plain (hex_encode s)"
  using hex_encode_graphic [of s] by (auto simp: plain_def list_all_iff graphic_def)

lemma plain_uuid: "uuid_texts sv \<Longrightarrow> plain (nsv_uuid_text sv u)" "uuid_texts sv \<Longrightarrow> plain (uuidOrDash sv r)"
proof -
  show "uuid_texts sv \<Longrightarrow> plain (nsv_uuid_text sv u)" for u by (auto simp: uuid_texts_def plain_def)
  then show "uuid_texts sv \<Longrightarrow> plain (uuidOrDash sv r)" by (simp add: uuidOrDash_def split: option.split)
qed

lemma plain_dec: "plain (dec_nat n)" "plain (dec_int i)"
proof -
  show "plain (dec_int i)" for i
    using dec_int_graphic [of i] dec_int_no_comma [of i] by (auto simp: plain_def list_all_iff graphic_def)
  from this [of "int n"] show "plain (dec_nat n)" by (simp add: dec_int_def)
qed

lemma plain_pad: "plain (pad_int w i)"
proof -
  have "plain (replicate n CHR ''0'')" for n by (auto simp: plain_def)
  then show ?thesis by (simp add: pad_int_def pad_nat_def Let_def plain_dec)
qed

lemma plain_fraction: "plain (fraction ns)"
proof -
  have "set (dropWhile P (rev xs)) \<subseteq> set xs" for P and xs :: string by (auto dest: set_dropWhileD)
  then show ?thesis using plain_pad [of 9 ns] by (auto simp: fraction_def plain_def)
qed

lemma plain_time: "plain (rfc3339nano t)"
  by (simp add: rfc3339nano_def Let_def plain_pad plain_fraction split: prod.split)

lemma plain_submission: "plain (submissionTimestamp s)"
  by (simp add: submissionTimestamp_def plain_time split: option.split)

lemma dec_nat_inject: "dec_nat m = dec_nat n \<Longrightarrow> m = n"
  by (metis digits_val_dec_nat option.inject)

lemma dec_int_inject: "dec_int i = dec_int j \<Longrightarrow> i = j"
  unfolding dec_int_def
  by (metis (no_types, lifting) dec_nat_hd(1) dec_nat_inject eq_nat_nat_iff linorder_not_less list.inject list.sel(1)
      neg_le_0_iff_le neg_equal_iff_equal order_less_imp_le)

lemma uuid_text_inject: "uuid_texts sv \<Longrightarrow> nsv_uuid_text sv u = nsv_uuid_text sv v \<longleftrightarrow> u = v"
  by (auto simp: uuid_texts_def inj_eq)

lemma uuidOrDash_inject: "uuid_texts sv \<Longrightarrow> uuidOrDash sv a = uuidOrDash sv b \<Longrightarrow> ref_of a = ref_of b"
proof -
  assume u: "uuid_texts sv" and eq: "uuidOrDash sv a = uuidOrDash sv b"
  have "uuidOrDash sv r = (case ref_of r of None \<Rightarrow> ''-'' | Some k \<Rightarrow> nsv_uuid_text sv k)" for r
    by (auto simp: uuidOrDash_def ref_of_def split: option.split)
  moreover have "nsv_uuid_text sv k \<noteq> ''-''" for k
  proof
    assume "nsv_uuid_text sv k = ''-''"
    then have "length (nsv_uuid_text sv k) = 1" by simp
    with u show False by (simp add: uuid_texts_def)
  qed
  ultimately show ?thesis using eq uuid_text_inject [OF u] by (auto split: option.splits)
qed

lemma finding_line_inject:
  assumes "uuid_texts sv" and "finding_clean f" and "finding_clean g" and "finding_line sv f = finding_line sv g"
  shows "finding_digest sv f = finding_digest sv g"
proof -
  have "[nsv_uuid_text sv (fd_ID f), fd_ItemKey f, fd_Result f, fd_Severity f, hashOfNotes sv (fd_Notes f),
        uuidOrDash sv (fd_RecordedBy f)] = [nsv_uuid_text sv (fd_ID g), fd_ItemKey g, fd_Result g, fd_Severity g,
        hashOfNotes sv (fd_Notes g), uuidOrDash sv (fd_RecordedBy g)]"
    using assms(4) unfolding finding_line_def same_append_eq
    by (rule join_inject) (use assms(1-3) plain_uuid plain_hex in \<open>auto simp: finding_clean_def hashOfNotes_def plain_def\<close>)
  then show ?thesis
    using assms(1) by (auto simp: finding_digest_def uuid_text_inject intro: uuidOrDash_inject)
qed

lemma evidence_line_inject:
  assumes "uuid_texts sv" and "evidence_clean e" and "evidence_clean g" and "evidence_line sv e = evidence_line sv g"
  shows "evidence_digest e = evidence_digest g"
proof -
  have "[nsv_uuid_text sv (ev_ID e), ev_Kind e, ev_ContentHash e, uuidOrDash sv (ev_FindingID e),
        if ev_Uploaded e then ''1'' else ''0''] = [nsv_uuid_text sv (ev_ID g), ev_Kind g, ev_ContentHash g,
        uuidOrDash sv (ev_FindingID g), if ev_Uploaded g then ''1'' else ''0'']"
    using assms(4) unfolding evidence_line_def same_append_eq
    by (rule join_inject) (use assms(1-3) plain_uuid in \<open>auto simp: evidence_clean_def plain_def split: if_splits\<close>)
  then show ?thesis
    using assms(1) by (auto simp: evidence_digest_def uuid_text_inject intro: uuidOrDash_inject split: if_splits)
qed

lemma map_eq_transfer:
  "map f xs = map f ys \<Longrightarrow> (\<And>x y. x \<in> set xs \<Longrightarrow> y \<in> set ys \<Longrightarrow> f x = f y \<Longrightarrow> g x = g y) \<Longrightarrow> map g xs = map g ys"
proof (induction xs arbitrary: ys)
  case (Cons x xs)
  then show ?case by (cases ys) auto
qed simp

lemma take_finding_lines:
  assumes "\<not> has_prefix l ''finding=''"
  shows "takeWhile (\<lambda>l. has_prefix l ''finding='') (map (finding_line sv) fs @ map (evidence_line sv) es @ [l])
     = map (finding_line sv) fs"
proof -
  have f: "x \<in> set (map (finding_line sv) fs) \<Longrightarrow> has_prefix x ''finding=''" for x by (auto simp: finding_line_def)
  have e: "takeWhile (\<lambda>l. has_prefix l ''finding='') (map (evidence_line sv) es @ [l]) = []"
    using assms by (cases es) (simp_all add: evidence_line_def)
  show ?thesis by (subst takeWhile_append2) (use f e in auto)
qed

lemma lines_split:
  assumes "map (finding_line sv) fs @ map (evidence_line sv) es @ [l] = map (finding_line sv) fs' @ map (evidence_line sv) es' @ [l']"
    and "\<not> has_prefix l ''finding=''" and "\<not> has_prefix l' ''finding=''"
  shows "map (finding_line sv) fs = map (finding_line sv) fs' \<and> map (evidence_line sv) es = map (evidence_line sv) es'"
proof -
  have fs: "map (finding_line sv) fs = map (finding_line sv) fs'"
    using take_finding_lines [OF assms(2), of sv fs es] take_finding_lines [OF assms(3), of sv fs' es'] assms(1) by metis
  then show ?thesis using assms(1) by simp
qed

lemma report_lines_plain:
  assumes "uuid_texts sv" and "CHR 0x0A \<notin> set (is_TemplateName s)"
    and "\<forall>f \<in> set fs. finding_clean f" and "\<forall>e \<in> set es. evidence_clean e"
  shows "\<forall>l \<in> set (report_lines sv s fs es v). CHR 0x0A \<notin> set l"
proof -
  have nl: "CHR 0x0A \<notin> set x" if "plain x" for x using that by (simp add: plain_def)
  note texts = nl [OF plain_uuid(1) [OF assms(1)]] nl [OF plain_uuid(2) [OF assms(1)]] nl [OF plain_dec(1)]
    nl [OF plain_dec(2)] nl [OF plain_submission] nl [OF plain_hex]
  have "CHR 0x0A \<notin> set (finding_line sv f)" if "f \<in> set fs" for f
  proof -
    have "plain (fd_ItemKey f)" "plain (fd_Result f)" "plain (fd_Severity f)"
      using assms(3) that by (auto simp: finding_clean_def)
    from this [THEN nl] show ?thesis by (simp add: finding_line_def hashOfNotes_def texts)
  qed
  moreover have "CHR 0x0A \<notin> set (evidence_line sv e)" if "e \<in> set es" for e
  proof -
    have "plain (ev_Kind e)" "plain (ev_ContentHash e)" using assms(4) that by (auto simp: evidence_clean_def)
    from this [THEN nl] show ?thesis by (simp add: evidence_line_def texts)
  qed
  ultimately show ?thesis using assms(2) by (auto simp: report_lines_def texts)
qed

text \<open>
  C40. The canonical input of a report determines everything it certifies: two inputs are the same text
  only if they name the same session, version, vehicle, job, template, inspector and time of submission,
  list the same findings with the same results, severities, authors and hashes of notes, and the same
  evidence with the same hashes, links and upload states, in the same order. No field can be shifted
  into another.
\<close>

theorem canonical_input_determines:
  assumes "BuildReportInput sv s fs es v = BuildReportInput sv s' fs' es' v'" and "uuid_texts sv"
    and "CHR 0x0A \<notin> set (is_TemplateName s)" "\<forall>f \<in> set fs. finding_clean f" "\<forall>e \<in> set es. evidence_clean e"
    and "CHR 0x0A \<notin> set (is_TemplateName s')" "\<forall>f \<in> set fs'. finding_clean f" "\<forall>e \<in> set es'. evidence_clean e"
  shows "is_ID s = is_ID s' \<and> v = v' \<and> ref_of (is_VehicleID s) = ref_of (is_VehicleID s') \<and>
    ref_of (is_JobID s) = ref_of (is_JobID s') \<and> is_TemplateID s = is_TemplateID s' \<and>
    is_TemplateName s = is_TemplateName s' \<and> is_TemplateVersion s = is_TemplateVersion s' \<and>
    is_InspectorID s = is_InspectorID s' \<and> submissionTimestamp s = submissionTimestamp s' \<and>
    map (finding_digest sv) fs = map (finding_digest sv) fs' \<and> map evidence_digest es = map evidence_digest es'"
proof -
  have some: "report_lines sv s fs es v \<noteq> []" for s fs es v by (simp add: report_lines_def)
  have "report_lines sv s fs es v = report_lines sv s' fs' es' v'"
    using assms(1) unfolding BuildReportInput_def
    by (rule join_inject) (rule some report_lines_plain assms(2-8))+
  then have eqs: "nsv_uuid_text sv (is_ID s) = nsv_uuid_text sv (is_ID s')" "dec_int v = dec_int v'"
    "uuidOrDash sv (is_VehicleID s) = uuidOrDash sv (is_VehicleID s')" "uuidOrDash sv (is_JobID s) = uuidOrDash sv (is_JobID s')"
    "nsv_uuid_text sv (is_TemplateID s) = nsv_uuid_text sv (is_TemplateID s')" "is_TemplateName s = is_TemplateName s'"
    "dec_int (is_TemplateVersion s) = dec_int (is_TemplateVersion s')"
    "nsv_uuid_text sv (is_InspectorID s) = nsv_uuid_text sv (is_InspectorID s')"
    "submissionTimestamp s = submissionTimestamp s'"
    and rows: "map (finding_line sv) fs @ map (evidence_line sv) es @ [''findings='' @ dec_nat (length fs) @ '',evidence='' @ dec_nat (length es)]
      = map (finding_line sv) fs' @ map (evidence_line sv) es' @ [''findings='' @ dec_nat (length fs') @ '',evidence='' @ dec_nat (length es')]"
    unfolding report_lines_def by simp_all
  have halves: "map (finding_line sv) fs = map (finding_line sv) fs'" "map (evidence_line sv) es = map (evidence_line sv) es'"
    using lines_split [OF rows] by simp_all
  have "map (finding_digest sv) fs = map (finding_digest sv) fs'"
    using halves(1) by (rule map_eq_transfer) (use assms(4,7) finding_line_inject [OF assms(2)] in blast)
  moreover have "map evidence_digest es = map evidence_digest es'"
    using halves(2) by (rule map_eq_transfer) (use assms(5,8) evidence_line_inject [OF assms(2)] in blast)
  ultimately show ?thesis
    using eqs(1,2,5-9) uuidOrDash_inject [OF assms(2) eqs(3)] uuidOrDash_inject [OF assms(2) eqs(4)]
      dec_int_inject [OF eqs(2)] dec_int_inject [OF eqs(7)]
    by (simp add: uuid_text_inject [OF assms(2)])
qed

end
