(* ===== verification/Insp_Ledger.thy ===== *)
theory Insp_Ledger
  imports Insp_Http Insp_Canon "HOL-Library.Sublist"
begin

text \<open>
  The inspection tables over time: how one action may change them (\<open>insp_history\<close>), what is consistent
  (\<open>insp_ok\<close>), whose sessions a call leaves alone (\<open>untouched\<close>), and that the writing statements keep all
  three, given what the service has checked before.
\<close>

section \<open>History\<close>

definition same_session :: "InspSession \<Rightarrow> InspSession \<Rightarrow> bool" where
  "same_session s s' \<longleftrightarrow> is_ID s' = is_ID s \<and> is_TenantID s' = is_TenantID s \<and> is_VehicleID s' = is_VehicleID s \<and>
     is_JobID s' = is_JobID s \<and> is_CustomerID s' = is_CustomerID s \<and> is_VehicleClass s' = is_VehicleClass s \<and>
     is_TemplateID s' = is_TemplateID s \<and> is_TemplateName s' = is_TemplateName s \<and>
     is_TemplateVersion s' = is_TemplateVersion s \<and> is_InspectorID s' = is_InspectorID s \<and>
     is_CreatedAt s' = is_CreatedAt s"

definition session_evolves :: "InspSession \<Rightarrow> InspSession \<Rightarrow> bool" where
  "session_evolves s s' \<longleftrightarrow> same_session s s' \<and> insp_step (is_Status s) \<le> insp_step (is_Status s') \<and>
     (2 \<le> insp_step (is_Status s) \<longrightarrow> is_SubmittedAt s' = is_SubmittedAt s)"

interpretation sess: row_discipline is_ID session_evolves
  by unfold_locales (auto simp: session_evolves_def same_session_def)

definition sealed :: "uuid \<Rightarrow> insp_db \<Rightarrow> bool" where
  "sealed k db \<longleftrightarrow> (\<exists>s. get_session k db = Some s \<and> 2 \<le> insp_step (is_Status s))"

definition insp_history :: "insp_db \<Rightarrow> insp_db \<Rightarrow> bool" where
  "insp_history db db' \<longleftrightarrow>
     table_evolves is_ID session_evolves (insp_sessions_t db) (insp_sessions_t db') \<and>
     prefix (findings_t db) (findings_t db') \<and> prefix (evidence_t db) (evidence_t db') \<and>
     prefix (reports_t db) (reports_t db') \<and> prefix (insp_log_t db) (insp_log_t db') \<and>
     (\<forall>k. sealed k db \<longrightarrow> findings_of k db' = findings_of k db \<and> evidence_of k db' = evidence_of k db)"

lemma history_get: "insp_history db db' \<Longrightarrow> get_session k db = Some s \<Longrightarrow>
    \<exists>s'. get_session k db' = Some s' \<and> session_evolves s s'"
  unfolding insp_history_def by (blast dest: sess.te_get)

lemma sealed_later: "insp_history db db' \<Longrightarrow> sealed k db \<Longrightarrow> sealed k db'"
  unfolding sealed_def by (metis history_get order.trans session_evolves_def)

lemma history_refl: "insp_history db db"
  by (simp add: insp_history_def sess.te_refl)

lemma history_trans: "insp_history a b \<Longrightarrow> insp_history b c \<Longrightarrow> insp_history a c"
  using sealed_later [of a b] unfolding insp_history_def
  by (auto intro: sess.te_trans prefix_order.trans)

definition insp_evolves :: "insp_world \<Rightarrow> insp_world \<Rightarrow> bool" where
  "insp_evolves w w' \<longleftrightarrow> insp_history (nw_db w) (nw_db w') \<and> prefix (nw_events w) (nw_events w')"

interpretation iev: discipline insp_evolves
  by unfold_locales (auto simp: insp_evolves_def history_refl intro: history_trans prefix_order.trans)

section \<open>What a call leaves alone\<close>

definition reports_of :: "uuid \<Rightarrow> insp_db \<Rightarrow> Report list" where
  "reports_of k db = filter (\<lambda>r. rp_SessionID r = k) (reports_t db)"

definition log_of :: "uuid \<Rightarrow> insp_db \<Rightarrow> SessionTransition list" where
  "log_of k db = filter (\<lambda>l. it_SessionID l = k) (insp_log_t db)"

definition untouched :: "uuid \<Rightarrow> insp_db \<Rightarrow> insp_db \<Rightarrow> bool" where
  "untouched k db db' \<longleftrightarrow> get_session k db' = get_session k db \<and> findings_of k db' = findings_of k db \<and>
     evidence_of k db' = evidence_of k db \<and> reports_of k db' = reports_of k db \<and> log_of k db' = log_of k db"

lemma untouched_refl: "untouched k db db"
  by (simp add: untouched_def)

lemma untouched_trans: "untouched k a b \<Longrightarrow> untouched k b c \<Longrightarrow> untouched k a c"
  by (simp add: untouched_def)

section \<open>Consistency\<close>

definition session_ok :: "insp_service \<Rightarrow> InspSession \<Rightarrow> bool" where
  "session_ok sv s \<longleftrightarrow> isKnownInspStatus (is_Status s) \<and>
     (\<exists>t \<in> set (registry sv). te_ID t = is_TemplateID s \<and> te_Name t = is_TemplateName s \<and>
        te_Version t = is_TemplateVersion s \<and> te_VehicleClass t = is_VehicleClass s) \<and>
     (is_StartedAt s = None \<longleftrightarrow> insp_step (is_Status s) < 1) \<and>
     (is_SubmittedAt s = None \<longleftrightarrow> insp_step (is_Status s) < 2) \<and>
     (is_ReportedAt s = None \<longleftrightarrow> insp_step (is_Status s) < 3)"

definition finding_fits :: "insp_service \<Rightarrow> InspSession \<Rightarrow> Finding \<Rightarrow> bool" where
  "finding_fits sv s f \<longleftrightarrow> 1 \<le> insp_step (is_Status s) \<and>
     (\<exists>t. TemplateByID sv (is_TemplateID s) = Some t \<and> Template_Item t (fd_ItemKey f) \<noteq> None) \<and>
     IsResultSeverityLegal (fd_Result f) (fd_Severity f) \<and> length (fd_Notes f) \<le> MaxNotesLength"

definition evidence_fits :: "insp_db \<Rightarrow> InspSession \<Rightarrow> Evidence \<Rightarrow> bool" where
  "evidence_fits db s v \<longleftrightarrow> 1 \<le> insp_step (is_Status s) \<and> evidence_checks v \<and>
     (\<forall>k. ev_FindingID v = Some k \<longrightarrow> (\<exists>f \<in> set (findings_t db). fd_ID f = k \<and> fd_SessionID f = ev_SessionID v)) \<and>
     length (ev_Notes v) \<le> MaxNotesLength"

definition report_fits :: "insp_service \<Rightarrow> insp_db \<Rightarrow> InspSession \<Rightarrow> Report \<Rightarrow> bool" where
  "report_fits sv db s r \<longleftrightarrow>
     (let fs = findings_of (is_ID s) db; es = evidence_of (is_ID s) db; selected = SelectLatestFindings sv fs in
      is_Status s = InspReportAvailable \<and> rp_Version r = 1 \<and>
      (\<exists>t. TemplateByID sv (is_TemplateID s) = Some t \<and> CheckReportReadiness sv t fs es = []) \<and>
      rp_ContentHash r = HashReportInput sv (BuildReportInput sv s selected es 1) \<and>
      map_option (nsv_jsonb sv) (marshalFindingsSnapshot sv selected) = Some (rp_FindingsSnapshot r) \<and>
      map_option (nsv_jsonb sv) (marshalEvidenceSnapshot sv es) = Some (rp_EvidenceSnapshot r) \<and>
      rp_FindingsCount r = int (length selected) \<and> rp_EvidenceCount r = int (length es))"

definition lifecycle :: "(InspStatus \<times> InspStatus) list" where
  "lifecycle = [(InspCreated, InspInProgress), (InspInProgress, InspSubmitted), (InspSubmitted, InspReportAvailable)]"

definition keys_ok :: "insp_db \<Rightarrow> bool" where
  "keys_ok db \<longleftrightarrow> pk_ok is_ID (insp_sessions_t db) \<and> pk_ok fd_ID (findings_t db) \<and> pk_ok ev_ID (evidence_t db) \<and>
     pk_ok rp_ID (reports_t db)"

definition rows_ok :: "insp_service \<Rightarrow> insp_db \<Rightarrow> bool" where
  "rows_ok sv db \<longleftrightarrow> (\<forall>s \<in> set (insp_sessions_t db). session_ok sv s) \<and>
     (\<forall>f \<in> set (findings_t db). \<exists>s. get_session (fd_SessionID f) db = Some s \<and> finding_fits sv s f) \<and>
     (\<forall>v \<in> set (evidence_t db). \<exists>s. get_session (ev_SessionID v) db = Some s \<and> evidence_fits db s v) \<and>
     (\<forall>r \<in> set (reports_t db). \<exists>s. get_session (rp_SessionID r) db = Some s \<and> report_fits sv db s r)"

definition counts_ok :: "insp_db \<Rightarrow> bool" where
  "counts_ok db \<longleftrightarrow> (\<forall>s \<in> set (insp_sessions_t db).
     length (reports_of (is_ID s) db) = (if is_Status s = InspReportAvailable then 1 else 0) \<and>
     map (\<lambda>l. (it_FromStatus l, it_ToStatus l)) (log_of (is_ID s) db) = take (insp_step (is_Status s)) lifecycle) \<and>
     (\<forall>l \<in> set (insp_log_t db). get_session (it_SessionID l) db \<noteq> None)"

definition insp_ok :: "insp_service \<Rightarrow> insp_db \<Rightarrow> bool" where
  "insp_ok sv db \<longleftrightarrow> keys_ok db \<and> rows_ok sv db \<and> counts_ok db"

text \<open>The rows that are there stay fit while the tables only evolve.\<close>

lemma step_three: "3 \<le> insp_step st \<Longrightarrow> st = InspReportAvailable"
  by (cases st) auto

lemma insp_session_get: "keys_ok db \<Longrightarrow> get_session k db = Some s \<longleftrightarrow> s \<in> set (insp_sessions_t db) \<and> is_ID s = k"
  by (simp add: keys_ok_def tbl.get_rows)

lemma get_session_ID: "get_session k db = Some s \<Longrightarrow> is_ID s = k"
  by (rule row_get_key)

lemma finding_fits_later: "finding_fits sv s f \<Longrightarrow> session_evolves s s' \<Longrightarrow> finding_fits sv s' f"
  by (auto simp: finding_fits_def session_evolves_def same_session_def)

lemma build_cong:
  "same_session s s' \<Longrightarrow> is_SubmittedAt s' = is_SubmittedAt s \<Longrightarrow>
    BuildReportInput sv s' fs es v = BuildReportInput sv s fs es v"
  by (simp add: BuildReportInput_def report_lines_def submissionTimestamp_def same_session_def)

lemma report_fits_later:
  assumes "report_fits sv db s r" and "session_evolves s s'"
    and "findings_of (is_ID s) db' = findings_of (is_ID s) db" "evidence_of (is_ID s) db' = evidence_of (is_ID s) db"
  shows "report_fits sv db' s' r"
proof -
  have st: "is_Status s = InspReportAvailable" using assms(1) by (simp add: report_fits_def Let_def)
  then have "is_Status s' = InspReportAvailable" "is_SubmittedAt s' = is_SubmittedAt s" "same_session s s'"
    using assms(2) step_three by (auto simp: session_evolves_def)
  moreover from this have "is_ID s' = is_ID s" "is_TemplateID s' = is_TemplateID s" by (simp_all add: same_session_def)
  ultimately show ?thesis
    using assms(1,3,4) by (simp add: report_fits_def Let_def build_cong)
qed

lemma rows_later:
  assumes "rows_ok sv db" and h: "insp_history db db'"
    and "\<forall>s \<in> set (insp_sessions_t db'). session_ok sv s"
    and "\<forall>f \<in> set (findings_t db') - set (findings_t db). \<exists>s. get_session (fd_SessionID f) db' = Some s \<and> finding_fits sv s f"
    and "\<forall>v \<in> set (evidence_t db') - set (evidence_t db). \<exists>s. get_session (ev_SessionID v) db' = Some s \<and> evidence_fits db' s v"
    and "\<forall>r \<in> set (reports_t db') - set (reports_t db). \<exists>s. get_session (rp_SessionID r) db' = Some s \<and> report_fits sv db' s r"
  shows "rows_ok sv db'"
proof -
  have sub: "set (findings_t db) \<subseteq> set (findings_t db')" using h by (simp add: insp_history_def set_mono_prefix)
  have f: "\<exists>s. get_session (fd_SessionID f) db' = Some s \<and> finding_fits sv s f" if f: "f \<in> set (findings_t db)" for f
  proof -
    obtain s where s: "get_session (fd_SessionID f) db = Some s" "finding_fits sv s f"
      using assms(1) f unfolding rows_ok_def by blast
    from history_get [OF h s(1)] finding_fits_later [OF s(2)] show ?thesis by blast
  qed
  have v: "\<exists>s. get_session (ev_SessionID v) db' = Some s \<and> evidence_fits db' s v" if v: "v \<in> set (evidence_t db)" for v
  proof -
    obtain s where s: "get_session (ev_SessionID v) db = Some s" "evidence_fits db s v"
      using assms(1) v unfolding rows_ok_def by blast
    from history_get [OF h s(1)] obtain s' where s': "get_session (ev_SessionID v) db' = Some s'" "session_evolves s s'" by blast
    have "evidence_fits db' s' v"
      using s(2) s'(2) sub unfolding evidence_fits_def session_evolves_def by (meson le_trans subsetD)
    with s'(1) show ?thesis by blast
  qed
  have r: "\<exists>s. get_session (rp_SessionID r) db' = Some s \<and> report_fits sv db' s r" if r: "r \<in> set (reports_t db)" for r
  proof -
    obtain s where s: "get_session (rp_SessionID r) db = Some s" "report_fits sv db s r"
      using assms(1) r unfolding rows_ok_def by blast
    from history_get [OF h s(1)] obtain s' where s': "get_session (rp_SessionID r) db' = Some s'" "session_evolves s s'" by blast
    have "is_ID s = rp_SessionID r" using s(1) by (rule get_session_ID)
    moreover have "sealed (rp_SessionID r) db" using s by (simp add: sealed_def report_fits_def Let_def)
    ultimately have "report_fits sv db' s' r" using report_fits_later [OF s(2) s'(2)] h by (simp add: insp_history_def)
    with s'(1) show ?thesis by blast
  qed
  show ?thesis using assms(3-6) f v r unfolding rows_ok_def by blast
qed

end
