(* ===== verification/Insp_Steps.thy ===== *)
theory Insp_Steps
  imports Insp_Ledger
begin

text \<open>
  The writing statements of inspections: what each can do to the tables, and that consistency and history
  are kept when the service has checked what it checks.
\<close>

lemmas rows_simps = row_ins_def findings_of_def evidence_of_def reports_of_def log_of_def

lemma sealed_in_progress: "get_session k db = Some s \<Longrightarrow> is_Status s = InspInProgress \<Longrightarrow> \<not> sealed k db"
  by (simp add: sealed_def)

lemma finish_cases:
  assumes "finish err flt n a db db1 = (r, db')"
  obtains x where "db' = db" "r = Inl x" | "db' = db1" "r = Inr a \<or> (\<exists>x. r = Inl x)"
  using assms by (auto simp: finish_def split: if_splits)

section \<open>A finding\<close>

lemma InsertFinding_cases:
  assumes "InsertFinding f e db = (r, db')"
  obtains (same) x where "db' = db" "r = Inl x"
  | (added) row s where "row = f\<lparr>fd_ID := fd_ID row, fd_CreatedAt := nv_now e\<rparr>" "get_session (fd_SessionID f) db = Some s"
      "is_Status s = InspInProgress" "row_get fd_ID (fd_ID row) (findings_t db) = None"
      "db' = db\<lparr>findings_t := row_ins row (findings_t db)\<rparr>" "r = Inr row \<or> (\<exists>x. r = Inl x)"
proof -
  define row where "row = f\<lparr>fd_ID := (if fd_ID f = uuid_nil then nv_uuid e else fd_ID f), fd_CreatedAt := nv_now e\<rparr>"
  have ID: "row = f\<lparr>fd_ID := fd_ID row, fd_CreatedAt := nv_now e\<rparr>" by (simp add: row_def)
  have split: "(\<exists>x. r = Inl x \<and> db' = db) \<or> (\<exists>s. get_session (fd_SessionID f) db = Some s \<and> is_Status s = InspInProgress \<and>
      row_get fd_ID (fd_ID row) (findings_t db) = None \<and>
      db' = db\<lparr>findings_t := row_ins row (findings_t db)\<rparr> \<and> (r = Inr row \<or> (\<exists>x. r = Inl x)))"
    using assms unfolding InsertFinding_def Let_def finish_def row_def [symmetric] by (auto split: if_splits option.splits)
  show thesis using split same added [OF ID] by blast
qed

lemma add_finding:
  assumes ok: "insp_ok sv db" and s: "get_session k db = Some s" "is_Status s = InspInProgress"
    and row: "fd_SessionID row = k" "finding_fits sv s row" "row_get fd_ID (fd_ID row) (findings_t db) = None"
    and db': "db' = db\<lparr>findings_t := row_ins row (findings_t db)\<rparr>"
  shows "insp_history db db'" and "insp_ok sv db'" and "k' \<noteq> k \<Longrightarrow> untouched k' db db'"
proof -
  have "\<forall>k'. sealed k' db \<longrightarrow> k' \<noteq> k" using sealed_in_progress [OF s] by blast
  then show h: "insp_history db db'"
    using row(1) by (auto simp: insp_history_def db' sess.te_refl rows_simps)
  have "rows_ok sv db'"
    using ok s row(1,2) by (intro rows_later [OF _ h]) (auto simp: insp_ok_def rows_ok_def db' row_ins_def)
  moreover have "keys_ok db'" using ok row(3) by (simp add: insp_ok_def keys_ok_def db' tbl.ok_ins)
  moreover have "counts_ok db'" using ok by (simp add: insp_ok_def counts_ok_def db' rows_simps)
  ultimately show "insp_ok sv db'" by (simp add: insp_ok_def)
  show "k' \<noteq> k \<Longrightarrow> untouched k' db db'" using row(1) by (simp add: untouched_def db' rows_simps)
qed

section \<open>An evidence record\<close>

lemma InsertEvidence_cases:
  assumes "InsertEvidence v e db = (r, db')"
  obtains (same) x where "db' = db" "r = Inl x"
  | (added) row s where "row = v\<lparr>ev_ID := ev_ID row, ev_CreatedAt := nv_now e\<rparr>" "get_session (ev_SessionID v) db = Some s"
      "is_Status s = InspInProgress" "row_get ev_ID (ev_ID row) (evidence_t db) = None" "evidence_checks row"
      "db' = db\<lparr>evidence_t := row_ins row (evidence_t db)\<rparr>" "r = Inr row \<or> (\<exists>x. r = Inl x)"
proof -
  define row where "row = v\<lparr>ev_ID := (if ev_ID v = uuid_nil then nv_uuid e else ev_ID v), ev_CreatedAt := nv_now e\<rparr>"
  have ID: "row = v\<lparr>ev_ID := ev_ID row, ev_CreatedAt := nv_now e\<rparr>" by (simp add: row_def)
  have split: "(\<exists>x. r = Inl x \<and> db' = db) \<or> (\<exists>s. get_session (ev_SessionID v) db = Some s \<and> is_Status s = InspInProgress \<and>
      row_get ev_ID (ev_ID row) (evidence_t db) = None \<and> evidence_checks row \<and>
      db' = db\<lparr>evidence_t := row_ins row (evidence_t db)\<rparr> \<and> (r = Inr row \<or> (\<exists>x. r = Inl x)))"
    using assms unfolding InsertEvidence_def Let_def finish_def row_def [symmetric] by (auto split: if_splits option.splits)
  show thesis using split same added [OF ID] by blast
qed

lemma add_evidence:
  assumes ok: "insp_ok sv db" and s: "get_session k db = Some s" "is_Status s = InspInProgress"
    and row: "ev_SessionID row = k" "evidence_fits db s row" "row_get ev_ID (ev_ID row) (evidence_t db) = None"
    and db': "db' = db\<lparr>evidence_t := row_ins row (evidence_t db)\<rparr>"
  shows "insp_history db db'" and "insp_ok sv db'" and "k' \<noteq> k \<Longrightarrow> untouched k' db db'"
proof -
  have "\<forall>k'. sealed k' db \<longrightarrow> k' \<noteq> k" using sealed_in_progress [OF s] by blast
  then show h: "insp_history db db'"
    using row(1) by (auto simp: insp_history_def db' sess.te_refl rows_simps)
  have "rows_ok sv db'"
    using ok s row(1,2) by (intro rows_later [OF _ h]) (auto simp: insp_ok_def rows_ok_def db' row_ins_def evidence_fits_def)
  moreover have "keys_ok db'" using ok row(3) by (simp add: insp_ok_def keys_ok_def db' tbl.ok_ins)
  moreover have "counts_ok db'" using ok by (simp add: insp_ok_def counts_ok_def db' rows_simps)
  ultimately show "insp_ok sv db'" by (simp add: insp_ok_def)
  show "k' \<noteq> k \<Longrightarrow> untouched k' db db'" using row(1) by (simp add: untouched_def db' rows_simps)
qed

section \<open>A session\<close>

lemma CreateSession_cases:
  assumes "InspStore_CreateSession s e db = (r, db')"
  obtains (same) x where "db' = db" "r = Inl x"
  | (added) row s1 where "row = s\<lparr>is_ID := is_ID row, is_StartedAt := None, is_SubmittedAt := None, is_ReportedAt := None,
        is_CreatedAt := nv_now e, is_UpdatedAt := nv_now e\<rparr>"
      "s1 = s\<lparr>is_ID := is_ID row, is_CreatedAt := nv_now e, is_UpdatedAt := nv_now e\<rparr>"
      "get_session (is_ID row) db = None"
      "db' = db\<lparr>insp_sessions_t := row_ins row (insp_sessions_t db)\<rparr>" "r = Inr s1 \<or> (\<exists>x. r = Inl x)"
proof -
  define row where "row = s\<lparr>is_ID := (if is_ID s = uuid_nil then nv_uuid e else is_ID s), is_StartedAt := None,
    is_SubmittedAt := None, is_ReportedAt := None, is_CreatedAt := nv_now e, is_UpdatedAt := nv_now e\<rparr>"
  have ID: "row = s\<lparr>is_ID := is_ID row, is_StartedAt := None, is_SubmittedAt := None, is_ReportedAt := None,
        is_CreatedAt := nv_now e, is_UpdatedAt := nv_now e\<rparr>" by (simp add: row_def)
  let ?s1 = "s\<lparr>is_ID := is_ID row, is_CreatedAt := nv_now e, is_UpdatedAt := nv_now e\<rparr>"
  have split: "(\<exists>x. r = Inl x \<and> db' = db) \<or> (get_session (is_ID row) db = None \<and>
      db' = db\<lparr>insp_sessions_t := row_ins row (insp_sessions_t db)\<rparr> \<and> (r = Inr ?s1 \<or> (\<exists>x. r = Inl x)))"
    using assms unfolding InspStore_CreateSession_def Let_def finish_def row_def [symmetric] by (auto split: if_splits)
  show thesis using split same added [OF ID refl] by blast
qed

lemma get_session_ins:
  "get_session k (db\<lparr>insp_sessions_t := row_ins row (insp_sessions_t db)\<rparr>) =
     (case get_session k db of Some s \<Rightarrow> Some s | None \<Rightarrow> if is_ID row = k then Some row else None)"
  by (simp add: row_get_ins)

lemma add_session:
  assumes ok: "insp_ok sv db" and row: "get_session (is_ID row) db = None" "session_ok sv row" "is_Status row = InspCreated"
    and db': "db' = db\<lparr>insp_sessions_t := row_ins row (insp_sessions_t db)\<rparr>"
  shows "insp_history db db'" and "insp_ok sv db'" and "get_session k' db = Some s \<Longrightarrow> untouched k' db db'"
proof -
  show h: "insp_history db db'"
    unfolding insp_history_def db' by (auto simp: sess.te_ins findings_of_def evidence_of_def)
  have rows: "rows_ok sv db'"
    using ok row(2) by (intro rows_later [OF _ h]) (auto simp: insp_ok_def rows_ok_def db' row_ins_def)
  have keys: "keys_ok db'" using ok row(1) by (simp add: insp_ok_def keys_ok_def db' tbl.ok_ins)
  have "reports_of (is_ID row) db = []"
  proof -
    have "rp_SessionID r \<noteq> is_ID row" if "r \<in> set (reports_t db)" for r
      using ok row(1) that by (auto simp: insp_ok_def rows_ok_def)
    then show ?thesis by (auto simp: reports_of_def filter_empty_conv)
  qed
  moreover have "log_of (is_ID row) db = []"
  proof -
    have "it_SessionID l \<noteq> is_ID row" if "l \<in> set (insp_log_t db)" for l
      using ok row(1) that unfolding insp_ok_def counts_ok_def by metis
    then show ?thesis by (auto simp: log_of_def filter_empty_conv)
  qed
  moreover have "reports_of k db' = reports_of k db" "log_of k db' = log_of k db" "insp_log_t db' = insp_log_t db"
    "set (insp_sessions_t db') = insert row (set (insp_sessions_t db))" for k
    by (simp_all add: db' reports_of_def log_of_def set_row_ins)
  moreover have "get_session k db \<noteq> None \<Longrightarrow> get_session k db' \<noteq> None" for k
    unfolding db' get_session_ins by (auto split: option.splits)
  ultimately have "counts_ok db'"
    using ok row(3) unfolding insp_ok_def counts_ok_def by simp
  then show "insp_ok sv db'" using rows keys by (simp add: insp_ok_def)
  show "untouched k' db db'" if "get_session k' db = Some s"
    using that unfolding untouched_def db' get_session_ins
    by (simp add: findings_of_def evidence_of_def reports_of_def log_of_def)
qed

section \<open>A move\<close>

lemma stamp_fields [simp]: "is_ID (stamp_status now to s) = is_ID s"
  by (cases to) (simp_all add: stamp_status_def Let_def)

lemma stamp_evolves: "InspCanTransition (is_Status s) to = None \<Longrightarrow> session_evolves s (stamp_status now to s)"
  by (auto simp: InspCanTransition_cases session_evolves_def same_session_def stamp_status_def Let_def)

lemma stamp_ok: "session_ok sv s \<Longrightarrow> InspCanTransition (is_Status s) to = None \<Longrightarrow> session_ok sv (stamp_status now to s)"
  unfolding InspCanTransition_cases
  by (elim insertE emptyE) (simp_all add: session_ok_def stamp_status_def Let_def isKnownInspStatus_def AllInspStatuses_def)

lemma stamp_status_is [simp]: "is_Status (stamp_status now to s) = to"
  by (cases to) (simp_all add: stamp_status_def Let_def)

definition moved_insp_db :: "uuid \<Rightarrow> gotime \<Rightarrow> InspStatus \<Rightarrow> SessionTransition \<Rightarrow> insp_db \<Rightarrow> insp_db" where
  "moved_insp_db k now to l db =
     db\<lparr>insp_sessions_t := row_upd is_ID k (stamp_status now to) (insp_sessions_t db), insp_log_t := row_ins l (insp_log_t db)\<rparr>"

lemma moved_insp_db_simps [simp]:
  "get_session k' (moved_insp_db k now to l db) =
     (if k' = k then map_option (stamp_status now to) (get_session k db) else get_session k' db)"
  "findings_of k' (moved_insp_db k now to l db) = findings_of k' db" "evidence_of k' (moved_insp_db k now to l db) = evidence_of k' db"
  "reports_of k' (moved_insp_db k now to l db) = reports_of k' db"
  "findings_t (moved_insp_db k now to l db) = findings_t db" "evidence_t (moved_insp_db k now to l db) = evidence_t db"
  "reports_t (moved_insp_db k now to l db) = reports_t db" "insp_log_t (moved_insp_db k now to l db) = row_ins l (insp_log_t db)"
  by (simp_all add: moved_insp_db_def rows_simps row_get_upd)

lemma UpdateSessionStatus_cases:
  assumes "UpdateSessionStatus k from to actor reason e db = (r, db')"
  obtains (same) x where "db' = db" "r = Inl x"
  | (moved) s l where "get_session k db = Some s" "is_Status s = from"
      "it_SessionID l = k" "it_FromStatus l = from" "it_ToStatus l = to"
      "db' = moved_insp_db k (nv_now e) to l db" "r = Inr () \<or> (\<exists>x. r = Inl x)"
proof -
  define l where "l = log_status e k from to actor reason"
  have l: "it_SessionID l = k" "it_FromStatus l = from" "it_ToStatus l = to" by (simp_all add: l_def log_status_def)
  have split: "(\<exists>x. r = Inl x \<and> db' = db) \<or> (\<exists>s. get_session k db = Some s \<and> is_Status s = from \<and>
      db' = moved_insp_db k (nv_now e) to l db \<and> (r = Inr () \<or> (\<exists>x. r = Inl x)))"
    using assms unfolding UpdateSessionStatus_def l_def moved_insp_db_def finish_def by (auto split: if_splits option.splits)
  show thesis using split same moved [OF _ _ l] by blast
qed

lemma moved_sessions:
  assumes "keys_ok db" and "get_session k db = Some s"
  shows "set (insp_sessions_t (moved_insp_db k now to l db)) =
    insert (stamp_status now to s) {r \<in> set (insp_sessions_t db). is_ID r \<noteq> k}"
proof -
  have "r = s" if "r \<in> set (insp_sessions_t db)" "is_ID r = k" for r
  proof -
    have "get_session k db = Some r" using that insp_session_get [OF assms(1)] by simp
    then show ?thesis using assms(2) by simp
  qed
  moreover have "s \<in> set (insp_sessions_t db)" "is_ID s = k" using insp_session_get [OF assms(1)] assms(2) by simp_all
  ultimately have "{r \<in> set (insp_sessions_t db). is_ID r = k} = {s}" by blast
  moreover have "insp_sessions_t (moved_insp_db k now to l db) = row_upd is_ID k (stamp_status now to) (insp_sessions_t db)"
    by (simp add: moved_insp_db_def)
  ultimately show ?thesis by (simp add: set_row_upd)
qed

lemma moved_history:
  assumes "get_session k db = Some s" and "InspCanTransition (is_Status s) to = None"
  shows "insp_history db (moved_insp_db k now to l db)"
proof -
  have "table_evolves is_ID session_evolves (insp_sessions_t db) (insp_sessions_t (moved_insp_db k now to l db))"
    using assms stamp_evolves by (auto simp: moved_insp_db_def intro!: sess.te_upd)
  then show ?thesis by (simp add: insp_history_def row_ins_def)
qed

lemma moved_counts:
  assumes ok: "keys_ok db" "counts_ok db" and s: "get_session k db = Some s" "InspCanTransition (is_Status s) to = None"
    and l: "it_SessionID l = k" "it_FromStatus l = is_Status s" "it_ToStatus l = to"
  shows "\<forall>r \<in> set (insp_sessions_t (moved_insp_db k now to l db)).
      map (\<lambda>l. (it_FromStatus l, it_ToStatus l)) (log_of (is_ID r) (moved_insp_db k now to l db)) = take (insp_step (is_Status r)) lifecycle"
    and "\<forall>m \<in> set (insp_log_t (moved_insp_db k now to l db)). get_session (it_SessionID m) (moved_insp_db k now to l db) \<noteq> None"
proof -
  have log: "log_of k' (moved_insp_db k now to l db) = log_of k' db @ (if k' = k then [l] else [])" for k'
    using l(1) by (simp add: log_of_def row_ins_def)
  have s': "s \<in> set (insp_sessions_t db)" "is_ID s = k" using s(1) insp_session_get [OF ok(1)] by auto
  have "map (\<lambda>l. (it_FromStatus l, it_ToStatus l)) (log_of k db) = take (insp_step (is_Status s)) lifecycle"
    using ok(2) s' by (auto simp: counts_ok_def)
  then have "map (\<lambda>l. (it_FromStatus l, it_ToStatus l)) (log_of k db @ [l]) = take (insp_step to) lifecycle"
    using s(2) l(2,3) by (auto simp: InspCanTransition_cases lifecycle_def)
  then show "\<forall>r \<in> set (insp_sessions_t (moved_insp_db k now to l db)).
      map (\<lambda>l. (it_FromStatus l, it_ToStatus l)) (log_of (is_ID r) (moved_insp_db k now to l db)) = take (insp_step (is_Status r)) lifecycle"
    using ok(2) s'(2) unfolding moved_sessions [OF ok(1) s(1)] log by (auto simp: counts_ok_def)
  show "\<forall>m \<in> set (insp_log_t (moved_insp_db k now to l db)). get_session (it_SessionID m) (moved_insp_db k now to l db) \<noteq> None"
    using ok(2) s(1) l(1) by (auto simp: counts_ok_def)
qed

lemma moved_keys: "keys_ok db \<Longrightarrow> keys_ok (moved_insp_db k now to l db)"
  by (simp add: keys_ok_def moved_insp_db_def tbl.ok_upd)

lemma make_move:
  assumes ok: "insp_ok sv db" and s: "get_session k db = Some s" "InspCanTransition (is_Status s) to = None" "to \<noteq> InspReportAvailable"
    and l: "it_SessionID l = k" "it_FromStatus l = is_Status s" "it_ToStatus l = to"
    and db': "db' = moved_insp_db k now to l db"
  shows "insp_history db db'" and "insp_ok sv db'" and "k' \<noteq> k \<Longrightarrow> untouched k' db db'"
proof -
  have ok': "keys_ok db" "rows_ok sv db" "counts_ok db" using ok by (simp_all add: insp_ok_def)
  have s': "s \<in> set (insp_sessions_t db)" "is_ID s = k" using s(1) insp_session_get [OF ok'(1)] by auto
  show h: "insp_history db db'" unfolding db' by (rule moved_history [OF s(1,2)])
  have "session_ok sv (stamp_status now to s)" using ok'(2) s' s(2) by (intro stamp_ok) (auto simp: rows_ok_def)
  then have "rows_ok sv db'"
    using ok'(2) moved_sessions [OF ok'(1) s(1)] by (intro rows_later [OF ok'(2) h]) (auto simp: db' rows_ok_def)
  moreover have "keys_ok db'" unfolding db' by (rule moved_keys [OF ok'(1)])
  moreover have "is_Status s \<noteq> InspReportAvailable" using s(2) by (auto simp: InspCanTransition_cases)
  then have "\<forall>r \<in> set (insp_sessions_t db'). length (reports_of (is_ID r) db') = (if is_Status r = InspReportAvailable then 1 else 0)"
    using ok'(3) s' s(3) unfolding db' moved_sessions [OF ok'(1) s(1)] by (auto simp: counts_ok_def)
  then have "counts_ok db'" using moved_counts [OF ok'(1,3) s(1,2) l] unfolding counts_ok_def db' by blast
  ultimately show "insp_ok sv db'" by (simp add: insp_ok_def)
  show "k' \<noteq> k \<Longrightarrow> untouched k' db db'" using l(1) by (simp add: untouched_def db' log_of_def row_ins_def)
qed

section \<open>A report\<close>

lemma InsertReport_cases:
  assumes "InsertReport sv r e db = (res, db')"
  obtains (same) x where "db' = db" "res = Inl x"
  | (issued) s l row r1 where "get_session (rp_SessionID r) db = Some s" "is_Status s = InspSubmitted"
      "it_SessionID l = rp_SessionID r" "it_FromStatus l = InspSubmitted" "it_ToStatus l = InspReportAvailable"
      "r1 = r\<lparr>rp_ID := rp_ID row, rp_CreatedAt := nv_now e\<rparr>"
      "row = r1\<lparr>rp_FindingsSnapshot := nsv_jsonb sv (rp_FindingsSnapshot r), rp_EvidenceSnapshot := nsv_jsonb sv (rp_EvidenceSnapshot r)\<rparr>"
      "row_get rp_ID (rp_ID row) (reports_t db) = None"
      "db' = (moved_insp_db (rp_SessionID r) (nv_now e) InspReportAvailable l db)\<lparr>reports_t := row_ins row (reports_t db)\<rparr>"
      "res = Inr r1 \<or> (\<exists>x. res = Inl x)"
proof -
  define k where "k = rp_SessionID r"
  define l where "l = log_status e k InspSubmitted InspReportAvailable (rp_IssuedBy r) ''report issued''"
  define r1 where "r1 = r\<lparr>rp_ID := (if rp_ID r = uuid_nil then nv_uuid e else rp_ID r), rp_CreatedAt := nv_now e\<rparr>"
  define row where "row = r1\<lparr>rp_FindingsSnapshot := nsv_jsonb sv (rp_FindingsSnapshot r),
    rp_EvidenceSnapshot := nsv_jsonb sv (rp_EvidenceSnapshot r)\<rparr>"
  have l: "it_SessionID l = rp_SessionID r" "it_FromStatus l = InspSubmitted" "it_ToStatus l = InspReportAvailable"
    by (simp_all add: l_def log_status_def k_def)
  have r1: "r1 = r\<lparr>rp_ID := rp_ID row, rp_CreatedAt := nv_now e\<rparr>" by (simp add: r1_def row_def)
  let ?db = "(moved_insp_db k (nv_now e) InspReportAvailable l db)\<lparr>reports_t := row_ins row (reports_t db)\<rparr>"
  have db: "db\<lparr>reports_t := row_ins row (reports_t db),
      insp_sessions_t := row_upd is_ID k (stamp_status (nv_now e) InspReportAvailable) (insp_sessions_t db),
      insp_log_t := row_ins l (insp_log_t db)\<rparr> = ?db" by (simp add: moved_insp_db_def)
  have split: "(\<exists>x. res = Inl x \<and> db' = db) \<or> (\<exists>s. get_session k db = Some s \<and> is_Status s = InspSubmitted \<and>
      row_get rp_ID (rp_ID row) (reports_t db) = None \<and> finish ErrInspDatabase (nv_flt e) 6 r1 db ?db = (res, db'))"
    using assms unfolding InsertReport_def Let_def r1_def [symmetric] k_def [symmetric] row_def [symmetric] l_def [symmetric] db
    by (auto simp del: not_None_eq not_Some_eq split: if_splits option.splits)
  then show thesis
  proof (elim disjE exE conjE)
    fix x assume "res = Inl x" "db' = db" then show thesis using same by blast
  next
    fix s assume h: "get_session k db = Some s" "is_Status s = InspSubmitted" "row_get rp_ID (rp_ID row) (reports_t db) = None"
      and "finish ErrInspDatabase (nv_flt e) 6 r1 db ?db = (res, db')"
    from this(4) show thesis
    proof (cases rule: finish_cases)
      case (1 x) then show thesis using same by blast
    next
      case 2
      then show thesis by (intro issued [OF h(1,2) [unfolded k_def] l r1 row_def h(3)]) (simp_all add: k_def)
    qed
  qed
qed

lemma assemble_Inr:
  assumes "assemble sv s fs es actor notes = Inr r"
  shows "rp_SessionID r = is_ID s \<and> rp_Version r = 1 \<and>
    marshalFindingsSnapshot sv (SelectLatestFindings sv fs) = Some (rp_FindingsSnapshot r) \<and>
    marshalEvidenceSnapshot sv es = Some (rp_EvidenceSnapshot r) \<and>
    rp_FindingsCount r = int (length (SelectLatestFindings sv fs)) \<and> rp_EvidenceCount r = int (length es) \<and>
    rp_ContentHash r = HashReportInput sv (BuildReportInput sv s (SelectLatestFindings sv fs) es 1)"
  using assms by (auto simp: assemble_def Let_def ReportVersionInitial_def split: option.splits if_splits)

lemma issue_report:
  assumes ok: "insp_ok sv db" and s: "get_session k db = Some s" "is_Status s = InspSubmitted"
    and l: "it_SessionID l = k" "it_FromStatus l = InspSubmitted" "it_ToStatus l = InspReportAvailable"
    and r: "assemble sv s0 fs es actor notes = Inr r" "row = r\<lparr>rp_ID := rp_ID row, rp_CreatedAt := rp_CreatedAt row,
        rp_FindingsSnapshot := nsv_jsonb sv (rp_FindingsSnapshot r), rp_EvidenceSnapshot := nsv_jsonb sv (rp_EvidenceSnapshot r)\<rparr>"
      "row_get rp_ID (rp_ID row) (reports_t db) = None"
    and seen: "same_session s0 s" "is_SubmittedAt s = is_SubmittedAt s0" "fs = findings_of k db" "es = evidence_of k db"
      "TemplateByID sv (is_TemplateID s0) = Some t" "CheckReportReadiness sv t fs es = []"
    and db': "db' = (moved_insp_db k now InspReportAvailable l db)\<lparr>reports_t := row_ins row (reports_t db)\<rparr>"
  shows "insp_history db db'" and "insp_ok sv db'" and "k' \<noteq> k \<Longrightarrow> untouched k' db db'"
proof -
  let ?db1 = "moved_insp_db k now InspReportAvailable l db"
  have ok': "keys_ok db" "rows_ok sv db" "counts_ok db" using ok by (simp_all add: insp_ok_def)
  have can: "InspCanTransition (is_Status s) InspReportAvailable = None" using s(2) by (simp add: InspCanTransition_cases)
  have s': "s \<in> set (insp_sessions_t db)" "is_ID s = k" using s(1) insp_session_get [OF ok'(1)] by auto
  have tables [simp]: "get_session k' db' = get_session k' ?db1" "findings_of k' db' = findings_of k' db"
    "evidence_of k' db' = evidence_of k' db" "log_of k' db' = log_of k' ?db1" "findings_t db' = findings_t db"
    "evidence_t db' = evidence_t db" "insp_sessions_t db' = insp_sessions_t ?db1" "insp_log_t db' = insp_log_t ?db1"
    "reports_t db' = row_ins row (reports_t db)" for k'
    unfolding db' by (simp_all add: rows_simps moved_insp_db_def)
  have sid: "rp_SessionID row = k" 
    by (subst r(2)) (use assemble_Inr [OF r(1)] seen(1) s'(2) in \<open>simp add: same_session_def\<close>)
  have reps: "reports_of k' db' = reports_of k' db @ (if k' = k then [row] else [])" for k'
    using sid by (simp add: reports_of_def row_ins_def)
  show h: "insp_history db db'"
    using moved_history [OF s(1) can, of now l] by (simp add: insp_history_def row_ins_def)
  let ?s' = "stamp_status now InspReportAvailable s"
  have st: "same_session s0 ?s'" "is_SubmittedAt ?s' = is_SubmittedAt s0" "is_ID ?s' = k"
    using seen(1,2) s'(2) by (simp_all add: same_session_def stamp_status_def Let_def)
  have "report_fits sv db' ?s' row"
  proof -
    have "rp_Version row = 1" "rp_ContentHash row = rp_ContentHash r" "rp_FindingsCount row = rp_FindingsCount r"
      "rp_EvidenceCount row = rp_EvidenceCount r" "rp_FindingsSnapshot row = nsv_jsonb sv (rp_FindingsSnapshot r)"
      "rp_EvidenceSnapshot row = nsv_jsonb sv (rp_EvidenceSnapshot r)"
      by (subst r(2), use assemble_Inr [OF r(1)] in simp)+
    moreover have "is_TemplateID ?s' = is_TemplateID s0" using st(1) by (simp add: same_session_def)
    ultimately show ?thesis
      using assemble_Inr [OF r(1)] seen(3-6) st by (simp add: report_fits_def Let_def build_cong)
  qed
  moreover have "session_ok sv ?s'" using ok'(2) s' can by (intro stamp_ok) (auto simp: rows_ok_def)
  ultimately have rows: "rows_ok sv db'"
    using ok'(2) moved_sessions [OF ok'(1) s(1)] s(1) sid by (intro rows_later [OF ok'(2) h]) (auto simp: rows_ok_def)
  have keys: "keys_ok db'" using moved_keys [OF ok'(1), of k now InspReportAvailable l] r(3) by (simp add: keys_ok_def tbl.ok_ins)
  have none: "reports_of k db = []"
    using ok'(3) s' s(2) by (auto simp: counts_ok_def)
  have "\<forall>q \<in> set (insp_sessions_t db'). length (reports_of (is_ID q) db') = (if is_Status q = InspReportAvailable then 1 else 0)"
    using ok'(3) s' none unfolding reps tables moved_sessions [OF ok'(1) s(1)] by (auto simp: counts_ok_def)
  then have "counts_ok db'"
    using moved_counts [OF ok'(1,3) s(1) can l(1) l(2) [folded s(2)] l(3), of now] unfolding counts_ok_def tables by blast
  with rows keys show "insp_ok sv db'" by (simp add: insp_ok_def)
  show "k' \<noteq> k \<Longrightarrow> untouched k' db db'" using l(1) reps by (simp add: untouched_def log_of_def row_ins_def)
qed

end
