(* ===== verification/Insp_Flows.thy ===== *)
theory Insp_Flows
  imports Insp_Steps Prog_Http
begin

text \<open>
  The operations of inspections among others: what each relies on, keeps and returns. A pool keeps
  \<open>insp_inv\<close>, evolves by \<open>insp_evolves\<close>, and a call leaves the sessions it may not work on untouched.
\<close>

section \<open>The discipline\<close>

definition insp_inv :: "insp_service \<Rightarrow> uuid set \<Rightarrow> insp_world \<Rightarrow> bool" where
  "insp_inv sv K w \<longleftrightarrow> insp_ok sv (nw_db w) \<and> (\<forall>k \<in> K. sealed k (nw_db w))"

definition worked :: "(InspSession \<Rightarrow> bool) \<Rightarrow> insp_world \<Rightarrow> insp_world \<Rightarrow> bool" where
  "worked M w w' \<longleftrightarrow> (\<forall>k s. get_session k (nw_db w) = Some s \<and> \<not> M s \<longrightarrow> untouched k (nw_db w) (nw_db w'))"

lemma worked_refl [simp]: "nw_db w' = nw_db w \<Longrightarrow> worked M w w'"
  by (simp add: worked_def untouched_refl)

abbreviation assured ::
  "insp_service \<Rightarrow> uuid set \<Rightarrow> (InspSession \<Rightarrow> bool) \<Rightarrow> ('a \<Rightarrow> insp_world \<Rightarrow> bool) \<Rightarrow> insp_world \<Rightarrow> (insp_env, insp_world, 'a) prog \<Rightarrow> bool" where
  "assured sv K M Q v p \<equiv> secures (\<lambda>_. True) insp_evolves (worked M) (insp_inv sv K) Q v p"

text \<open>What holds of a result that is not an error.\<close>

definition got :: "('a \<Rightarrow> insp_world \<Rightarrow> bool) \<Rightarrow> insp_error + 'a \<Rightarrow> insp_world \<Rightarrow> bool" where
  "got Q r w \<longleftrightarrow> (\<forall>a. r = Inr a \<longrightarrow> Q a w)"

lemma got_simps [simp]: "got Q (Inl x) w" "got Q (Inr a) w \<longleftrightarrow> Q a w"
  by (simp_all add: got_def)

lemma assured_Inl [simp]: "assured sv K M (got Q) v (Done (Inl x))"
  by (simp add: secures_Done)

lemma assured_Inr: "(\<And>w. insp_evolves v w \<Longrightarrow> insp_inv sv K w \<Longrightarrow> Q a w) \<Longrightarrow> assured sv K M (got Q) v (Done (Inr a))"
  by (simp add: secures_Done)

lemma assured_try:
  assumes "insp_inv sv K v" and "assured sv K M (got R) v p"
    and "\<And>a w. insp_evolves v w \<Longrightarrow> insp_inv sv K w \<Longrightarrow> R a w \<Longrightarrow> assured sv K M (got Q) w (k a)"
  shows "assured sv K M (got Q) v (try_then p k)"
  using assms(2,1) by (rule iev.secures_try_then) (use assms(3) iev.stays in auto)

lemma assured_unless:
  "(err = None \<Longrightarrow> assured sv K M (got Q) v p) \<Longrightarrow> assured sv K M (got Q) v (unless_error err p)"
  by (auto simp: unless_error_def split: option.splits)

lemma assured_template:
  "(\<And>t. TemplateByID sv k = Some t \<Longrightarrow> assured sv K M (got Q) v (h t)) \<Longrightarrow> assured sv K M (got Q) v (with_template sv k h)"
  by (auto simp: with_template_def split: option.splits)

lemma assured_reading:
  assumes "\<And>w u a. insp_evolves v w \<Longrightarrow> insp_inv sv K w \<Longrightarrow> insp_evolves w u \<Longrightarrow> insp_inv sv K u \<Longrightarrow>
    f (nw_db w) = Inr a \<Longrightarrow> Q a u"
  shows "assured sv K M (got Q) v (on_db (insp_reading f))"
  unfolding on_db_def
proof (rule iev.secures_effect)
  fix e w a w' assume h: "insp_evolves v w" "insp_inv sv K w"
    and e: "(case insp_reading f e (nw_db w) of (r, db) \<Rightarrow> (r, w\<lparr>nw_db := db\<rparr>)) = (a, w')"
  then have "w' = w" "\<forall>b. a = Inr b \<longrightarrow> f (nw_db w) = Inr b" by (auto simp: insp_reading_def split: if_splits)
  with h assms show "insp_evolves w w' \<and> worked M w w' \<and> insp_inv sv K w' \<and> (\<forall>u. insp_evolves w' u \<longrightarrow> insp_inv sv K u \<longrightarrow> got Q a u)"
    using iev.stays by (auto simp: got_def)
qed

lemma evolves_insp_db: "insp_history (nw_db w) db \<Longrightarrow> insp_evolves w (w\<lparr>nw_db := db\<rparr>)"
  by (simp add: insp_evolves_def)

lemma assured_write:
  assumes "\<And>e w r db'. insp_evolves v w \<Longrightarrow> insp_inv sv K w \<Longrightarrow> f e (nw_db w) = (r, db') \<Longrightarrow> db' \<noteq> nw_db w \<Longrightarrow>
      insp_history (nw_db w) db' \<and> insp_ok sv db' \<and> (\<forall>k s. get_session k (nw_db w) = Some s \<and> \<not> M s \<longrightarrow> untouched k (nw_db w) db')"
    and "\<And>e w db' u a. insp_evolves v w \<Longrightarrow> insp_inv sv K w \<Longrightarrow> f e (nw_db w) = (Inr a, db') \<Longrightarrow>
      insp_history db' (nw_db u) \<Longrightarrow> insp_evolves v u \<Longrightarrow> insp_inv sv K u \<Longrightarrow> Q a u"
  shows "assured sv K M (got Q) v (on_db f)"
  unfolding on_db_def
proof (rule iev.secures_effect)
  fix e w a w' assume h: "insp_evolves v w" "insp_inv sv K w"
    and e: "(case f e (nw_db w) of (r, db) \<Rightarrow> (r, w\<lparr>nw_db := db\<rparr>)) = (a, w')"
  then obtain db' where f: "f e (nw_db w) = (a, db')" and w': "w' = w\<lparr>nw_db := db'\<rparr>" by (auto split: prod.splits)
  have "insp_history (nw_db w) db' \<and> insp_ok sv db' \<and> (\<forall>k s. get_session k (nw_db w) = Some s \<and> \<not> M s \<longrightarrow> untouched k (nw_db w) db')"
    using assms(1) [OF h f] h(2) by (cases "db' = nw_db w") (auto simp: history_refl untouched_refl insp_inv_def)
  then have st: "insp_evolves w w' \<and> worked M w w' \<and> insp_inv sv K w'"
    using h(2) by (auto simp: w' evolves_insp_db worked_def insp_inv_def intro: sealed_later)
  have "got Q a u" if "insp_evolves w' u" "insp_inv sv K u" for u
  proof -
    have "insp_evolves v u" using h(1) st that(1) iev.composes by blast
    then show ?thesis using assms(2) [OF h] f that by (cases a) (auto simp: w' insp_evolves_def)
  qed
  with st show "insp_evolves w w' \<and> worked M w w' \<and> insp_inv sv K w' \<and> (\<forall>u. insp_evolves w' u \<longrightarrow> insp_inv sv K u \<longrightarrow> got Q a u)"
    by blast
qed

lemma assured_publish: "assured sv K M (got (\<lambda>_ _. True)) v (insp_publish sv et agg actor tenant pl)"
proof -
  have "insp_inv sv K (w\<lparr>nw_events := es\<rparr>) = insp_inv sv K w" for w es by (simp add: insp_inv_def)
  moreover have "got (\<lambda>_ _. True) r w" for r and w by (simp add: got_def)
  moreover have "insp_evolves w (w\<lparr>nw_events := nw_events w @ es\<rparr>)" for w es by (simp add: insp_evolves_def history_refl)
  ultimately show ?thesis
    unfolding insp_publish_def
    by (auto intro!: assured_Inr iev.secures_effect simp: iev.stays split: if_splits)
qed

lemma assured_ask_then:
  assumes "insp_inv sv K v" and "\<And>e w. insp_evolves v w \<Longrightarrow> insp_inv sv K w \<Longrightarrow> assured sv K M Q w (k (f e))"
  shows "assured sv K M Q v (and_then (ask f) k)"
proof -
  have "assured sv K M (\<lambda>a _. \<exists>e. a = f e) v (ask f)" by (rule iev.secures_ask) auto
  then show ?thesis using assms(1) by (rule iev.secures_and_then) (use assms(2) iev.stays in blast)
qed

section \<open>What has been read\<close>

definition seen :: "InspSession \<Rightarrow> insp_world \<Rightarrow> bool" where
  "seen s w \<longleftrightarrow> (\<exists>s'. get_session (is_ID s) (nw_db w) = Some s' \<and> session_evolves s s')"

definition found :: "uuid set \<Rightarrow> uuid \<Rightarrow> InspScope \<Rightarrow> InspSession \<Rightarrow> insp_world \<Rightarrow> bool" where
  "found K k scope s w \<longleftrightarrow> seen s w \<and> is_ID s = k \<and> insp_visible scope s \<and> (k \<in> K \<longrightarrow> 2 \<le> insp_step (is_Status s))"

lemma seen_later: "seen s w \<Longrightarrow> insp_evolves w u \<Longrightarrow> seen s u"
  unfolding seen_def insp_evolves_def by (meson history_get sess.ev_trans)

lemma found_later: "found K k scope s w \<Longrightarrow> insp_evolves w u \<Longrightarrow> found K k scope s u"
  unfolding found_def using seen_later by blast

lemma seen_now: "get_session k (nw_db w) = Some s \<Longrightarrow> seen s w"
  using get_session_ID by (fastforce simp: seen_def sess.ev_refl)

lemma visible_same: "same_session s s' \<Longrightarrow> insp_visible scope s' = insp_visible scope s"
  by (simp add: insp_visible_def same_session_def split: option.splits)

lemma find_session:
  assumes "insp_ok sv db" and "find (\<lambda>s. is_ID s = k \<and> P s) (insp_sessions_t db) = Some s"
  shows "get_session k db = Some s \<and> P s"
  using find_SomeD [OF assms(2)] assms(1) insp_session_get by (auto simp: insp_ok_def)

lemma visible_at_two:
  "inspScopePredicate scope 2 = (pred, predArgs) \<Longrightarrow> sql_eval (insp_col_of s) (k # predArgs) pred \<longleftrightarrow> insp_visible scope s"
  using insp_predicate_sound [of scope "[k]"] by (simp add: numeral_2_eq_2)

lemma assured_get: "assured sv K M (got (found K k scope)) v (on_db (InspStore_GetSession sv k scope))"
  unfolding InspStore_GetSession_def
proof (rule assured_reading, goal_cases)
  case (1 w u s)
  note h = 1(2,3) and r = 1(5)
  obtain pred predArgs where p: "inspScopePredicate scope 2 = (pred, predArgs)" by (cases "inspScopePredicate scope 2")
  have fnd: "find (\<lambda>s. is_ID s = k \<and> sql_eval (insp_col_of s) (k # predArgs) pred) (insp_sessions_t (nw_db w)) = Some s"
    using r by (auto simp: p Let_def split: if_splits option.splits)
  have "insp_ok sv (nw_db w)" using h(1) by (simp add: insp_inv_def)
  from find_session [OF this fnd] have s: "get_session k (nw_db w) = Some s" "insp_visible scope s"
    using visible_at_two [OF p] by simp_all
  then have "found K k scope s w"
    using h(1) seen_now get_session_ID by (fastforce simp: found_def insp_inv_def sealed_def)
  then show ?case using h(2) by (rule found_later)
qed

lemma parent_found:
  assumes "found K k scope s w" and "insp_inv sv K w" and "inspScopePredicate scope 2 = (pred, predArgs)"
  shows "parent_visible pred (k # predArgs) k (nw_db w)"
proof -
  obtain s' where s': "get_session k (nw_db w) = Some s'" "session_evolves s s'"
    using assms(1) by (auto simp: found_def seen_def)
  then have "s' \<in> set (insp_sessions_t (nw_db w))" "is_ID s' = k"
    using assms(2) insp_session_get by (auto simp: insp_inv_def insp_ok_def)
  moreover have "insp_visible scope s'"
    using assms(1) visible_same s'(2) by (auto simp: found_def session_evolves_def)
  ultimately show ?thesis
    using visible_at_two [OF assms(3)] by (auto simp: parent_visible_def list_ex_iff)
qed

text \<open>The rows of a session: of one that was read sealed, all of them.\<close>

definition rows_of :: "('r list \<Rightarrow> insp_db \<Rightarrow> bool) \<Rightarrow> ('r \<Rightarrow> uuid) \<Rightarrow> (insp_db \<Rightarrow> 'r list) \<Rightarrow> InspSession \<Rightarrow> 'r list \<Rightarrow> insp_world \<Rightarrow> bool" where
  "rows_of all_of sid tbl s rs w \<longleftrightarrow> (\<forall>r \<in> set rs. r \<in> set (tbl (nw_db w)) \<and> sid r = is_ID s) \<and>
     (2 \<le> insp_step (is_Status s) \<longrightarrow> all_of rs (nw_db w))"

abbreviation "findings_read s \<equiv> rows_of (\<lambda>fs db. fs = findings_of (is_ID s) db) fd_SessionID findings_t s"
abbreviation "evidence_read s \<equiv> rows_of (\<lambda>es db. es = evidence_of (is_ID s) db) ev_SessionID evidence_t s"

lemma found_sealed:
  assumes "found K k scope s w" and "2 \<le> insp_step (is_Status s)"
  shows "sealed k (nw_db w)"
  using assms unfolding found_def seen_def sealed_def session_evolves_def by (metis order.trans)

lemma set_findings_of [simp]: "set (findings_of k db) = {f \<in> set (findings_t db). fd_SessionID f = k}"
  by (simp add: findings_of_def)

lemma set_evidence_of [simp]: "set (evidence_of k db) = {v \<in> set (evidence_t db). ev_SessionID v = k}"
  by (simp add: evidence_of_def)

lemma findings_read_later: "findings_read s fs w \<Longrightarrow> found K k scope s w \<Longrightarrow> insp_evolves w u \<Longrightarrow> findings_read s fs u"
  using found_sealed [of K k scope s w] set_mono_prefix
  by (fastforce simp: rows_of_def insp_evolves_def insp_history_def found_def)

lemma evidence_read_later: "evidence_read s es w \<Longrightarrow> found K k scope s w \<Longrightarrow> insp_evolves w u \<Longrightarrow> evidence_read s es u"
  using found_sealed [of K k scope s w] set_mono_prefix
  by (fastforce simp: rows_of_def insp_evolves_def insp_history_def found_def)

lemma assured_findings:
  assumes "found K k scope s v"
  shows "assured sv K M (got (findings_read s)) v (on_db (ListFindings sv k scope))"
  unfolding ListFindings_def
proof (rule assured_reading, goal_cases)
  case (1 w u fs)
  note h = 1(1-3) and r = 1(5)
  have f: "found K k scope s w" using assms h(1) by (rule found_later)
  obtain pred predArgs where p: "inspScopePredicate scope 2 = (pred, predArgs)" by (cases "inspScopePredicate scope 2")
  have "fs = findings_of k (nw_db w)"
    using r parent_found [OF f h(2) p] by (auto simp: p Let_def split: if_splits)
  then have "findings_read s fs w" using f by (simp add: rows_of_def found_def)
  then show ?case using f h(3) by (rule findings_read_later)
qed

lemma assured_evidence:
  assumes "found K k scope s v"
  shows "assured sv K M (got (evidence_read s)) v (on_db (ListEvidence sv k scope))"
  unfolding ListEvidence_def
proof (rule assured_reading, goal_cases)
  case (1 w u es)
  note h = 1(1-3) and r = 1(5)
  have f: "found K k scope s w" using assms h(1) by (rule found_later)
  obtain pred predArgs where p: "inspScopePredicate scope 2 = (pred, predArgs)" by (cases "inspScopePredicate scope 2")
  have "es = evidence_of k (nw_db w)"
    using r parent_found [OF f h(2) p] by (auto simp: p Let_def split: if_splits)
  then have "evidence_read s es w" using f by (simp add: rows_of_def found_def)
  then show ?case using f h(3) by (rule evidence_read_later)
qed

definition report_read :: "uuid \<Rightarrow> Report \<Rightarrow> insp_world \<Rightarrow> bool" where
  "report_read k r w \<longleftrightarrow> r \<in> set (reports_t (nw_db w)) \<and> rp_SessionID r = k"

lemma report_read_later: "report_read k r w \<Longrightarrow> insp_evolves w u \<Longrightarrow> report_read k r u"
  using set_mono_prefix by (fastforce simp: report_read_def insp_evolves_def insp_history_def)

lemma latest_report_in: "latest_report rs = Some r \<Longrightarrow> r \<in> set rs"
  unfolding latest_report_def by (metis list.case_eq_if list.set_sel(1) option.discI option.inject set_sort)

lemma assured_report: "assured sv K M (got (report_read k)) v (on_db (InspStore_GetReport sv k version scope))"
  unfolding InspStore_GetReport_def
proof (rule assured_reading, goal_cases)
  case (1 w u r)
  note h = 1(3) and r = 1(5)
  have "latest_report (filter (\<lambda>r. rp_SessionID r = k \<and> (case version of None \<Rightarrow> True | Some v \<Rightarrow> rp_Version r = v)) (reports_t (nw_db w))) = Some r"
    using r by (auto simp: Let_def split: if_splits option.splits prod.splits)
  then have "report_read k r w" using latest_report_in by (fastforce simp: report_read_def)
  then show ?case using h by (rule report_read_later)
qed

end
