(* ===== verification/Insp_Work.thy ===== *)
theory Insp_Work
  imports Insp_Flows
begin

text \<open>
  The service operations of inspections among others: each is assured under the discipline of
  \<open>Insp_Flows\<close>, writes only to sessions its guard admits, and returns what the tables hold.
\<close>

section \<open>Guards\<close>

definition works_on :: "uuid \<Rightarrow> InspScope \<Rightarrow> InspSession \<Rightarrow> bool" where
  "works_on actor scope s \<longleftrightarrow> InspUnrestricted scope \<or> actor = is_InspectorID s"

lemma guardActor_None: "guardActor s actor scope = None \<longleftrightarrow> works_on actor scope s"
  by (simp add: guardActor_def works_on_def)

lemma move_guard_None: "move_guard from to = None \<longleftrightarrow> InspCanTransition from to = None"
  by (simp add: move_guard_def)

lemma works_on_later: "works_on actor scope s \<Longrightarrow> session_evolves s s' \<Longrightarrow> works_on actor scope s'"
  by (simp add: works_on_def session_evolves_def same_session_def)

definition permitted :: "(InspSession \<Rightarrow> bool) \<Rightarrow> uuid \<Rightarrow> InspScope \<Rightarrow> bool" where
  "permitted M actor scope \<longleftrightarrow> (\<forall>s. works_on actor scope s \<longrightarrow> M s)"

lemma found_now:
  assumes "found K k scope s w" and "get_session k (nw_db w) = Some s'"
  shows "session_evolves s s'"
  using assms by (auto simp: found_def seen_def)

text \<open>A write to the session the caller may work on leaves the others untouched.\<close>

lemma others_untouched:
  assumes "permitted M actor scope" "works_on actor scope s" "get_session k db = Some s"
    and "\<And>k'. k' \<noteq> k \<Longrightarrow> untouched k' db db'"
  shows "\<forall>k' s'. get_session k' db = Some s' \<and> \<not> M s' \<longrightarrow> untouched k' db db'"
  using assms unfolding permitted_def by (metis option.inject)

section \<open>Creating a session\<close>

definition created_shown :: "uuid \<Rightarrow> InspSession \<Rightarrow> insp_world \<Rightarrow> bool" where
  "created_shown actor s w \<longleftrightarrow> seen s w \<and> is_InspectorID s = actor"

lemma assured_created:
  assumes t: "ActiveTemplateForClass sv (is_VehicleClass s) = Some t"
    and s: "s1 = s\<lparr>is_TemplateID := te_ID t, is_TemplateName := te_Name t, is_TemplateVersion := te_Version t, is_Status := InspCreated\<rparr>"
    and unstamped: "is_StartedAt s = None" "is_SubmittedAt s = None" "is_ReportedAt s = None"
  shows "assured sv K M (got (created_shown (is_InspectorID s))) v (on_db (InspStore_CreateSession s1))"
proof (rule assured_write, goal_cases)
  case (1 e w r db')
  from 1(3) show ?case
  proof (cases rule: CreateSession_cases)
    case (same x)
    with 1(4) show ?thesis by simp
  next
    case (added row s2)
    have "t \<in> set (registry sv)" "te_VehicleClass t = is_VehicleClass s"
      using t by (auto simp: ActiveTemplateForClass_def find_Some_iff)
    then have "session_ok sv row" "is_Status row = InspCreated"
      by (subst added(1), simp add: s unstamped session_ok_def isKnownInspStatus_def AllInspStatuses_def, blast)
        (subst added(1), simp add: s)
    with 1(2) add_session [OF _ added(3) _ _ added(4)] show ?thesis by (auto simp: insp_inv_def)
  qed
next
  case (2 e w db' u a)
  from 2(3) show ?case
  proof (cases rule: CreateSession_cases)
    case (added row s2)
    have a: "a = s2" using added(5) by auto
    have "get_session (is_ID row) db' = Some row" unfolding added(4) get_session_ins added(3) by simp
    then obtain s' where s': "get_session (is_ID row) (nw_db u) = Some s'" "session_evolves row s'"
      using history_get [OF 2(4)] by blast
    have "session_evolves s2 row"
      unfolding added(2) by (subst (2) added(1)) (simp add: session_evolves_def same_session_def s)
    moreover have "is_ID s2 = is_ID row" "is_InspectorID s2 = is_InspectorID s" by (simp_all add: added(2) s)
    ultimately show ?thesis using s' sess.ev_trans by (auto simp: created_shown_def seen_def a)
  qed simp
qed

text \<open>An operation that publishes what it did.\<close>

lemma assured_published:
  assumes "insp_inv sv K v" and "assured sv K M (got R) v p" and later: "\<And>a w u. R a w \<Longrightarrow> insp_evolves w u \<Longrightarrow> R a u"
  shows "assured sv K M (got R) v
    (try_then p (\<lambda>a. try_then (insp_publish sv (et a) (agg a) (act a) (ten a) (pl a)) (\<lambda>_. Done (Inr a))))"
proof (rule assured_try [OF assms(1,2)])
  fix a w assume "insp_inv sv K w" "R a w"
  then show "assured sv K M (got R) w (try_then (insp_publish sv (et a) (agg a) (act a) (ten a) (pl a)) (\<lambda>_. Done (Inr a)))"
    by (intro assured_try [OF _ assured_publish]) (auto intro!: assured_Inr intro: later)
qed

lemma created_later: "created_shown actor s w \<Longrightarrow> insp_evolves w u \<Longrightarrow> created_shown actor s u"
  unfolding created_shown_def using seen_later by blast

lemma assured_InspCreateSession:
  assumes "insp_inv sv K v" and "is_StartedAt s = None" "is_SubmittedAt s = None" "is_ReportedAt s = None"
  shows "assured sv K M (got (created_shown (is_InspectorID s))) v (InspCreateSession sv s)"
  unfolding InspCreateSession_def
  by (auto intro!: assured_unless assured_published [OF assms(1)] assured_created [OF _ refl assms(2-4)] intro: created_later
      split: option.splits)

section \<open>Moving\<close>

lemma assured_move:
  assumes f: "found K k scope s v" and "permitted M actor scope" "works_on actor scope s"
    and to: "InspCanTransition (is_Status s) to = None" "to \<noteq> InspReportAvailable"
  shows "assured sv K M (got (\<lambda>_ _. True)) v (on_db (UpdateSessionStatus k (is_Status s) to by reason))"
proof (rule assured_write, goal_cases)
  case (1 e w r db')
  from 1(3) show ?case
  proof (cases rule: UpdateSessionStatus_cases)
    case (same x)
    with 1(4) show ?thesis by simp
  next
    case (moved s' l)
    have ok: "insp_ok sv (nw_db w)" using 1(2) by (simp add: insp_inv_def)
    have can: "InspCanTransition (is_Status s') to = None" "it_FromStatus l = is_Status s'" using moved(2,4) to(1) by simp_all
    note kept = make_move [OF ok moved(1) can(1) to(2) moved(3) can(2) moved(5,6)]
    have "works_on actor scope s'" using assms(3) found_now [OF found_later [OF f 1(1)] moved(1)] by (rule works_on_later)
    then show ?thesis using kept(1,2) others_untouched [OF assms(2) _ moved(1) kept(3)] by blast
  qed
qed simp

lemma found_try:
  assumes "insp_inv sv K v" and "assured sv K M (got (\<lambda>_ _. True)) v p"
    and "\<And>a w. insp_evolves v w \<Longrightarrow> insp_inv sv K w \<Longrightarrow> assured sv K M (got Q) w (k a)"
  shows "assured sv K M (got Q) v (try_then p k)"
  using assms by (intro assured_try [OF assms(1,2)]) blast

lemma assured_weaken: "assured sv K M (got R) v p \<Longrightarrow> assured sv K M (got (\<lambda>_ _. True)) v p"
  by (erule iev.secures_mono) (simp add: got_def)

lemma assured_Start:
  assumes inv: "insp_inv sv K v" and M: "permitted M actor scope"
  shows "assured sv K M (got (found K k scope)) v (Start sv k actor scope)"
  unfolding Start_def
proof (rule assured_try [OF inv assured_get], intro assured_unless, goal_cases)
  case (1 s w)
  have g: "works_on actor scope s" "InspCanTransition (is_Status s) InspInProgress = None"
    using 1(4,5) by (simp_all add: guardActor_None move_guard_None)
  show ?case
    by (rule found_try [OF 1(2) assured_move [OF 1(3) M g]])
      (auto intro!: assured_published assured_get intro: found_later)
qed

section \<open>Findings and evidence\<close>

definition finding_shown :: "uuid set \<Rightarrow> uuid \<Rightarrow> InspScope \<Rightarrow> Finding \<Rightarrow> insp_world \<Rightarrow> bool" where
  "finding_shown K k scope f w \<longleftrightarrow> f \<in> set (findings_t (nw_db w)) \<and> fd_SessionID f = k \<and> (\<exists>s. found K k scope s w)"

definition evidence_shown :: "uuid set \<Rightarrow> uuid \<Rightarrow> InspScope \<Rightarrow> Evidence \<Rightarrow> insp_world \<Rightarrow> bool" where
  "evidence_shown K k scope v w \<longleftrightarrow> v \<in> set (evidence_t (nw_db w)) \<and> ev_SessionID v = k \<and> (\<exists>s. found K k scope s w)"

lemma in_tables_later:
  assumes "insp_history db db'"
  shows "f \<in> set (findings_t db) \<Longrightarrow> f \<in> set (findings_t db')" "v \<in> set (evidence_t db) \<Longrightarrow> v \<in> set (evidence_t db')"
    "r \<in> set (reports_t db) \<Longrightarrow> r \<in> set (reports_t db')"
  using assms set_mono_prefix by (fastforce simp: insp_history_def)+

lemma found_after: "found K k scope s w \<Longrightarrow> insp_history (nw_db w) (nw_db u) \<Longrightarrow> found K k scope s u"
  unfolding found_def seen_def by (meson history_get sess.ev_trans)

lemma validateFindingInput_fits:
  assumes "validateFindingInput t f actor = Inr f1" and "TemplateByID sv (is_TemplateID s) = Some t" "is_Status s = InspInProgress"
    and "row = (f1\<lparr>fd_SessionID := k\<rparr>)\<lparr>fd_ID := a, fd_CreatedAt := b\<rparr>"
  shows "finding_fits sv s row"
  using assms by (auto simp: validateFindingInput_def finding_fits_def split: if_splits)

lemma assured_finding:
  assumes f: "found K k scope s v" and M: "permitted M actor scope" "works_on actor scope s"
    and fits: "TemplateByID sv (is_TemplateID s) = Some t" "validateFindingInput t f0 actor = Inr f1"
  shows "assured sv K M (got (finding_shown K k scope)) v (on_db (InsertFinding (f1\<lparr>fd_SessionID := is_ID s\<rparr>)))"
proof (rule assured_write, goal_cases)
  case (1 e w r db')
  have k: "is_ID s = k" using f by (simp add: found_def)
  from 1(3) show ?case
  proof (cases rule: InsertFinding_cases)
    case (same x)
    with 1(4) show ?thesis by simp
  next
    case (added row s')
    have s': "get_session k (nw_db w) = Some s'" using added(2) k by simp
    have ev: "session_evolves s s'" by (rule found_now [OF found_later [OF f 1(1)] s'])
    have row: "fd_SessionID row = k" by (subst added(1)) (simp add: k)
    have "TemplateByID sv (is_TemplateID s') = Some t" using ev fits(1) by (simp add: session_evolves_def same_session_def)
    then have ft: "finding_fits sv s' row" by (rule validateFindingInput_fits [OF fits(2) _ added(3,1)])
    have ok: "insp_ok sv (nw_db w)" using 1(2) by (simp add: insp_inv_def)
    note kept = add_finding [OF ok s' added(3) row ft added(4,5)]
    show ?thesis using kept(1,2) others_untouched [OF M(1) works_on_later [OF M(2) ev] s' kept(3)] by blast
  qed
next
  case (2 e w db' u a)
  from 2(3) show ?case
  proof (cases rule: InsertFinding_cases)
    case (added row s')
    have "a = row" using added(6) by simp
    moreover have "fd_SessionID row = k" using f by (subst added(1)) (simp add: found_def)
    moreover have "row \<in> set (findings_t db')" by (simp add: added(5))
    ultimately show ?thesis
      using in_tables_later(1) [OF 2(4)] found_later [OF f 2(5)] by (auto simp: finding_shown_def)
  qed simp
qed

lemma assured_RecordFinding:
  assumes inv: "insp_inv sv K v" and M: "permitted M actor scope"
  shows "assured sv K M (got (finding_shown K k scope)) v (RecordFinding sv k f actor scope)"
  unfolding RecordFinding_def
proof (rule assured_try [OF inv assured_get], intro assured_unless assured_template, goal_cases)
  case (1 s w t)
  show ?case
  proof (cases "validateFindingInput t f actor")
    case (Inr f1)
    have "works_on actor scope s" using 1(4) by (simp add: guardActor_None)
    from assured_finding [OF 1(3) M this 1(6) Inr] show ?thesis using Inr by simp
  qed simp
qed

lemma validateEvidenceInput_fits:
  assumes "validateEvidenceInput now v actor = Inr v1"
  shows "ev_FindingID v1 = ev_FindingID v" "length (ev_Notes v1) \<le> MaxNotesLength"
  using assms by (auto simp: validateEvidenceInput_def split: if_splits)

definition linked :: "uuid \<Rightarrow> uuid option \<Rightarrow> insp_world \<Rightarrow> bool" where
  "linked k l w \<longleftrightarrow> (\<forall>j. l = Some j \<longrightarrow> (\<exists>f \<in> set (findings_t (nw_db w)). fd_ID f = j \<and> fd_SessionID f = k))"

lemma linked_later: "linked k l w \<Longrightarrow> insp_evolves w u \<Longrightarrow> linked k l u"
  unfolding linked_def insp_evolves_def using in_tables_later(1) by blast

lemma assured_link:
  assumes inv: "insp_inv sv K v" and f: "found K k scope s v"
  shows "assured sv K M (got (\<lambda>_. linked k l)) v (check_link sv s l scope)"
proof (cases l)
  case None
  then show ?thesis by (auto simp: check_link_def linked_def intro!: assured_Inr)
next
  case (Some j)
  have k: "is_ID s = k" using f by (simp add: found_def)
  show ?thesis
    unfolding check_link_def Some option.case k
  proof (rule assured_try [OF inv assured_findings [OF f]])
    fix fs w assume "findings_read s fs w"
    then have "list_ex (\<lambda>f. fd_ID f = j) fs \<Longrightarrow> linked k (Some j) w"
      by (auto simp: rows_of_def linked_def list_ex_iff k)
    then show "assured sv K M (got (\<lambda>_. linked k (Some j))) w
        (if list_ex (\<lambda>f. fd_ID f = j) fs then Done (Inr ()) else Done (Inl (ErrInvalidInput (ForeignFinding j k))))"
      using linked_later by (auto intro!: assured_Inr)
  qed
qed

lemma assured_evidence_row:
  assumes f: "found K k scope s v" and M: "permitted M actor scope" "works_on actor scope s"
    and fits: "validateEvidenceInput now v0 actor = Inr v1" "linked k (ev_FindingID v1) v"
  shows "assured sv K M (got (evidence_shown K k scope)) v (on_db (InsertEvidence (v1\<lparr>ev_SessionID := is_ID s\<rparr>)))"
proof (rule assured_write, goal_cases)
  case (1 e w r db')
  have k: "is_ID s = k" using f by (simp add: found_def)
  from 1(3) show ?case
  proof (cases rule: InsertEvidence_cases)
    case (same x)
    with 1(4) show ?thesis by simp
  next
    case (added row s')
    have s': "get_session k (nw_db w) = Some s'" using added(2) k by simp
    have ev: "session_evolves s s'" by (rule found_now [OF found_later [OF f 1(1)] s'])
    have row: "ev_SessionID row = k" "ev_FindingID row = ev_FindingID v1" "ev_Notes row = ev_Notes v1"
      by (subst added(1), simp add: k)+
    have "evidence_fits (nw_db w) s' row"
      using linked_later [OF fits(2) 1(1)] validateEvidenceInput_fits [OF fits(1)] added(3,5)
      by (simp add: evidence_fits_def linked_def row)
    moreover have ok: "insp_ok sv (nw_db w)" using 1(2) by (simp add: insp_inv_def)
    moreover note kept = add_evidence [OF ok s' added(3) row(1) calculation(1) added(4,6)]
    show ?thesis using kept(1,2) others_untouched [OF M(1) works_on_later [OF M(2) ev] s' kept(3)] by blast
  qed
next
  case (2 e w db' u a)
  from 2(3) show ?case
  proof (cases rule: InsertEvidence_cases)
    case (added row s')
    have "a = row" using added(7) by simp
    moreover have "ev_SessionID row = k" using f by (subst added(1)) (simp add: found_def)
    moreover have "row \<in> set (evidence_t db')" by (simp add: added(6))
    ultimately show ?thesis
      using in_tables_later(2) [OF 2(4)] found_later [OF f 2(5)] by (auto simp: evidence_shown_def)
  qed simp
qed

lemma assured_AttachEvidence:
  assumes inv: "insp_inv sv K v" and M: "permitted M actor scope"
  shows "assured sv K M (got (evidence_shown K k scope)) v (AttachEvidence sv k ev actor scope)"
  unfolding AttachEvidence_def
proof (rule assured_try [OF inv assured_get], intro assured_unless, rule assured_ask_then, goal_cases)
  case (2 s w e w1)
  have f: "found K k scope s w1" using 2(3,6) by (rule found_later)
  show ?case
  proof (cases "validateEvidenceInput (nv_clock e) ev actor")
    case (Inr v1)
    have g: "works_on actor scope s" using 2(4) by (simp add: guardActor_None)
    have "assured sv K M (got (evidence_shown K k scope)) w1
        (try_then (check_link sv s (ev_FindingID v1) scope) (\<lambda>_. on_db (InsertEvidence (v1\<lparr>ev_SessionID := is_ID s\<rparr>))))"
      by (rule assured_try [OF 2(7) assured_link [OF 2(7) f]]) (rule assured_evidence_row [OF found_later [OF f] M g Inr])
    then show ?thesis using Inr by simp
  qed simp
qed

end
