(* ===== verification/Insp_Issue.thy ===== *)
theory Insp_Issue
  imports Insp_Work
begin

text \<open>
  Submission, reports and reads of inspections among others. A report is made of what was read of a
  session that had been submitted when it was read, so the rows are those of the table that it is
  written to.
\<close>

section \<open>Submission\<close>

text \<open>Reading the findings and the evidence of a session that has been found.\<close>

lemma assured_rows:
  assumes inv: "insp_inv sv K v" and f: "found K k scope s v"
    and rest: "\<And>fs es w. insp_inv sv K w \<Longrightarrow> found K k scope s w \<Longrightarrow> findings_read s fs w \<Longrightarrow> evidence_read s es w \<Longrightarrow>
      insp_evolves v w \<Longrightarrow> assured sv K M (got Q) w (c fs es)"
  shows "assured sv K M (got Q) v (try_then (on_db (ListFindings sv k scope)) (\<lambda>fs.
    try_then (on_db (ListEvidence sv k scope)) (c fs)))"
proof (rule assured_try [OF inv assured_findings [OF f]])
  fix fs w assume w: "insp_evolves v w" "insp_inv sv K w" "findings_read s fs w"
  have fw: "found K k scope s w" using f w(1) by (rule found_later)
  show "assured sv K M (got Q) w (try_then (on_db (ListEvidence sv k scope)) (c fs))"
  proof (rule assured_try [OF w(2) assured_evidence [OF fw]])
    fix es u assume u: "insp_evolves w u" "insp_inv sv K u" "evidence_read s es u"
    show "assured sv K M (got Q) u (c fs es)"
      using u(2) found_later [OF fw u(1)] findings_read_later [OF w(3) fw u(1)] u(3) iev.composes [OF w(1) u(1)]
      by (rule rest)
  qed
qed

lemma assured_checkReadiness:
  assumes inv: "insp_inv sv K v" and f: "found K k scope s v"
  shows "assured sv K M (got (\<lambda>_ _. True)) v (checkReadiness sv s scope)"
proof -
  have k: "is_ID s = k" using f by (simp add: found_def)
  show ?thesis
    unfolding checkReadiness_def k
    by (intro assured_template assured_rows [OF inv f] assured_unless assured_Inr) simp
qed

lemma assured_Submit:
  assumes inv: "insp_inv sv K v" and M: "permitted M actor scope"
  shows "assured sv K M (got (found K k scope)) v (Submit sv k actor scope)"
  unfolding Submit_def
proof (rule assured_try [OF inv assured_get], intro assured_unless, goal_cases)
  case (1 s w)
  have g: "works_on actor scope s" "InspCanTransition (is_Status s) InspSubmitted = None"
    using 1(4,5) by (simp_all add: guardActor_None move_guard_None)
  note f = 1(3)
  show ?case
    by (rule found_try [OF 1(2) assured_checkReadiness [OF 1(2,3)]], rule found_try, assumption,
        rule assured_move [OF found_later [OF f] M g], assumption, simp, rule assured_try [OF _ assured_get], assumption,
        rule assured_rows, assumption, assumption, rule assured_try [OF _ assured_publish], assumption)
      (auto intro!: assured_Inr intro: found_later)
qed

section \<open>A report\<close>

definition report_shown :: "uuid set \<Rightarrow> uuid \<Rightarrow> InspScope \<Rightarrow> Report \<Rightarrow> insp_world \<Rightarrow> bool" where
  "report_shown K k scope r w \<longleftrightarrow> rp_SessionID r = k \<and> (\<exists>s. found K k scope s w) \<and>
     (\<exists>row. report_read k row w \<and> rp_ID row = rp_ID r \<and> rp_Version row = rp_Version r \<and> rp_ContentHash row = rp_ContentHash r)"

lemma report_shown_later: "report_shown K k scope r w \<Longrightarrow> insp_evolves w u \<Longrightarrow> report_shown K k scope r u"
  unfolding report_shown_def using found_later report_read_later by blast

lemma assured_InsertReport:
  assumes f: "found K k scope s v" and M: "permitted M actor scope" "works_on actor scope s"
    and sub: "is_Status s = InspSubmitted" and read: "findings_read s fs v" "evidence_read s es v"
    and ready: "TemplateByID sv (is_TemplateID s) = Some t" "CheckReportReadiness sv t fs es = []"
    and r: "assemble sv s fs es actor notes = Inr r"
  shows "assured sv K M (got (report_shown K k scope)) v (on_db (InsertReport sv r))"
proof (rule assured_write, goal_cases)
  case (1 e w res db')
  have k: "is_ID s = k" "rp_SessionID r = k" using f assemble_Inr [OF r] by (simp_all add: found_def)
  from 1(3) show ?case
  proof (cases rule: InsertReport_cases)
    case (same x)
    with 1(4) show ?thesis by simp
  next
    case (issued s' l row r1)
    note iss = issued [unfolded k(2)]
    have ev: "session_evolves s s'" by (rule found_now [OF found_later [OF f 1(1)] iss(1)])
    have row: "row = r\<lparr>rp_ID := rp_ID row, rp_CreatedAt := rp_CreatedAt row,
        rp_FindingsSnapshot := nsv_jsonb sv (rp_FindingsSnapshot r), rp_EvidenceSnapshot := nsv_jsonb sv (rp_EvidenceSnapshot r)\<rparr>"
      by (subst iss(7), subst iss(7), subst iss(6)) (subst iss(6), simp)
    have same: "same_session s s'" "is_SubmittedAt s' = is_SubmittedAt s" using ev sub by (simp_all add: session_evolves_def)
    have rows: "fs = findings_of k (nw_db w)" "es = evidence_of k (nw_db w)"
      using findings_read_later [OF read(1) f 1(1)] evidence_read_later [OF read(2) f 1(1)] sub by (simp_all add: rows_of_def k)
    have ok: "insp_ok sv (nw_db w)" using 1(2) by (simp add: insp_inv_def)
    note kept = issue_report [OF ok iss(1,2,3,4,5) r row iss(8) same rows ready iss(9)]
    show ?thesis using kept(1,2) others_untouched [OF M(1) works_on_later [OF M(2) ev] iss(1) kept(3)] by blast
  qed
next
  case (2 e w db' u a)
  have k: "rp_SessionID r = k" using f assemble_Inr [OF r] by (simp add: found_def)
  from 2(3) show ?case
  proof (cases rule: InsertReport_cases)
    case (issued s' l row r1)
    have "row \<in> set (reports_t db')" by (simp add: issued(9))
    then have "row \<in> set (reports_t (nw_db u))" by (rule in_tables_later(3) [OF 2(4)])
    moreover have a: "a = r1" using issued(10) by simp
    moreover have "rp_SessionID r1 = k" by (subst issued(6)) (simp add: k)
    moreover have "rp_SessionID row = rp_SessionID r1" "rp_Version row = rp_Version r1" "rp_ContentHash row = rp_ContentHash r1"
      by (subst issued(7), simp)+
    moreover have "rp_ID r1 = rp_ID row" by (subst issued(6)) simp
    ultimately show ?thesis
      using found_later [OF f 2(5)] unfolding report_shown_def report_read_def by metis
  qed simp
qed

lemma assured_IssueReport:
  assumes inv: "insp_inv sv K v" and M: "permitted M actor scope"
  shows "assured sv K M (got (report_shown K k scope)) v (IssueReport sv k actor notes scope)"
  unfolding IssueReport_def
proof (rule assured_try [OF inv assured_get], intro assured_unless assured_template, goal_cases)
  case (1 s w t)
  have g: "works_on actor scope s" and sub: "is_Status s = InspSubmitted"
    using 1(4,5) by (auto simp: guardActor_None move_guard_None InspCanTransition_cases)
  note t = 1(6)
  show ?case
  proof (rule assured_rows [OF 1(2,3)], rule assured_unless, goal_cases)
    case (1 fs es w2)
    have ready: "CheckReportReadiness sv t fs es = []" using 1(6) by (simp add: incomplete_def split: if_splits)
    show ?case
      using assured_InsertReport [OF 1(2) M g sub 1(3,4) t ready]
      by (auto intro!: assured_published [OF 1(1)] intro: report_shown_later split: sum.splits)
  qed
qed

section \<open>Reads\<close>

lemma if_Inl_Inr: "(if c then Inl x else Inr y) = Inr z \<longleftrightarrow> \<not> c \<and> y = z"
  by simp

lemma page_in: "ss = take n (drop m (sort_key f (sort_key g (filter P xs)))) \<Longrightarrow> \<forall>s \<in> set ss. s \<in> set xs \<and> P s"
  by (auto dest!: in_set_takeD in_set_dropD)

lemma assured_InspSessions:
  "assured sv K M (got (\<lambda>ss w. \<forall>s \<in> set ss. seen s w \<and> insp_visible scope s)) v (InspSessions sv scope f limit offset)"
  unfolding InspSessions_def Let_def InspStore_ListSessions_def
proof (intro assured_unless assured_reading, goal_cases)
  case (1 w u ss)
  obtain pred predArgs where p: "inspScopePredicate scope 1 = (pred, predArgs)" by (cases "inspScopePredicate scope 1")
  have "\<forall>s \<in> set ss. s \<in> set (insp_sessions_t (nw_db w)) \<and> sql_eval (insp_col_of s) predArgs pred"
    using page_in [OF sym [OF conjunct2 [OF 1(6) [unfolded Let_def p prod.case if_Inl_Inr]]]] by simp
  moreover have "sql_eval (insp_col_of s) predArgs pred \<longleftrightarrow> insp_visible scope s" for s
    using insp_predicate_sound [of scope "[]"] p by simp
  moreover have "keys_ok (nw_db w)" using 1(3) by (simp add: insp_inv_def insp_ok_def)
  ultimately have "\<forall>s \<in> set ss. seen s w \<and> insp_visible scope s"
    using insp_session_get by (blast intro: seen_now)
  then show ?case using seen_later [OF _ 1(4)] by blast
qed

lemma assured_Findings:
  assumes inv: "insp_inv sv K v"
  shows "assured sv K M (got (\<lambda>fs w. \<forall>f \<in> set fs. finding_shown K k scope f w)) v (Findings sv k scope)"
  unfolding Findings_def
proof (rule assured_try [OF inv assured_get])
  fix s w assume f: "found K k scope s w"
  show "assured sv K M (got (\<lambda>fs w. \<forall>f \<in> set fs. finding_shown K k scope f w)) w (on_db (ListFindings sv k scope))"
    by (rule iev.secures_mono [OF assured_findings [OF f]])
      (use f found_later [OF f] in \<open>auto simp: got_def rows_of_def finding_shown_def found_def\<close>)
qed

lemma assured_Evidences:
  assumes inv: "insp_inv sv K v"
  shows "assured sv K M (got (\<lambda>vs w. \<forall>v \<in> set vs. evidence_shown K k scope v w)) v (Evidences sv k scope)"
  unfolding Evidences_def
proof (rule assured_try [OF inv assured_get])
  fix s w assume f: "found K k scope s w"
  show "assured sv K M (got (\<lambda>vs w. \<forall>v \<in> set vs. evidence_shown K k scope v w)) w (on_db (ListEvidence sv k scope))"
    by (rule iev.secures_mono [OF assured_evidence [OF f]])
      (use f found_later [OF f] in \<open>auto simp: got_def rows_of_def evidence_shown_def found_def\<close>)
qed

lemma assured_InspGetReport:
  assumes inv: "insp_inv sv K v"
  shows "assured sv K M (got (report_shown K k scope)) v (InspGetReport sv k version scope)"
  unfolding InspGetReport_def
proof (rule assured_try [OF inv assured_get])
  fix s w assume f: "found K k scope s w"
  show "assured sv K M (got (report_shown K k scope)) w (on_db (InspStore_GetReport sv k version scope))"
    by (rule iev.secures_mono [OF assured_report])
      (use found_later [OF f] in \<open>auto simp: got_def report_shown_def report_read_def\<close>)
qed

section \<open>Verification\<close>

text \<open>
  What a verification says of a report. Of a session that had been submitted before the call, the parts
  are what they say: the hash always matches, and a snapshot matches if the column gave its text back.
\<close>

definition verification_shown :: "insp_service \<Rightarrow> uuid set \<Rightarrow> uuid \<Rightarrow> InspScope \<Rightarrow> ReportVerification \<Rightarrow> insp_world \<Rightarrow> bool" where
  "verification_shown sv K k scope vf w \<longleftrightarrow> (\<exists>s r. found K k scope s w \<and> report_read k r w \<and>
     vf_ReportID vf = rp_ID r \<and> vf_SessionID vf = k \<and> vf_Version vf = rp_Version r \<and> vf_StoredHash vf = rp_ContentHash r \<and>
     (vf_Verified vf \<longleftrightarrow> vf_HashMatch vf \<and> vf_FindingsMatch vf \<and> vf_EvidenceMatch vf \<and> vf_TemplateMatch vf) \<and>
     (vf_HashMatch vf \<longleftrightarrow> vf_RecomputedHash vf = vf_StoredHash vf) \<and>
     (vf_EvidenceMatch vf \<longrightarrow> (\<exists>es. marshalEvidenceSnapshot sv es = Some (rp_EvidenceSnapshot r))) \<and>
     (k \<in> K \<longrightarrow> vf_HashMatch vf \<and> (distinct (map te_ID (registry sv)) \<longrightarrow> vf_TemplateMatch vf) \<and>
       (vf_FindingsMatch vf \<longleftrightarrow>
          marshalFindingsSnapshot sv (SelectLatestFindings sv (findings_of k (nw_db w))) = Some (rp_FindingsSnapshot r)) \<and>
       (vf_EvidenceMatch vf \<longleftrightarrow> marshalEvidenceSnapshot sv (evidence_of k (nw_db w)) = Some (rp_EvidenceSnapshot r))))"

lemma registry_template:
  assumes "distinct (map te_ID (registry sv))" and "TemplateByID sv k = Some t" and "t' \<in> set (registry sv)" "te_ID t' = k"
  shows "t' = t"
proof -
  have "t \<in> set (registry sv)" "te_ID t = k" using assms(2) by (auto simp: TemplateByID_def find_Some_iff)
  then show ?thesis using assms by (auto simp: distinct_map dest: inj_onD)
qed

lemma VerifyReport_shown:
  assumes "VerifyReport sv now t s fs es r = vf" and inv: "insp_inv sv K w"
    and f: "found K k scope s w" and r: "report_read k r w" and rows: "findings_read s fs w" "evidence_read s es w"
    and t: "TemplateByID sv (is_TemplateID s) = Some t"
  shows "verification_shown sv K k scope vf w"
proof -
  have "vf_HashMatch vf \<and> (distinct (map te_ID (registry sv)) \<longrightarrow> vf_TemplateMatch vf) \<and>
     fs = findings_of k (nw_db w) \<and> es = evidence_of k (nw_db w)" if k: "k \<in> K"
  proof -
    have sub: "2 \<le> insp_step (is_Status s)" and sid: "is_ID s = k" using f k by (simp_all add: found_def)
    then have rows': "fs = findings_of k (nw_db w)" "es = evidence_of k (nw_db w)" using rows by (simp_all add: rows_of_def)
    have ok: "rows_ok sv (nw_db w)" using inv by (simp add: insp_inv_def insp_ok_def)
    then obtain s' where s': "get_session k (nw_db w) = Some s'" "report_fits sv (nw_db w) s' r"
      using r unfolding rows_ok_def report_read_def by blast
    have ev: "session_evolves s s'" by (rule found_now [OF f s'(1)])
    then have same: "same_session s s'" "is_SubmittedAt s' = is_SubmittedAt s" using sub by (simp_all add: session_evolves_def)
    have sid': "is_ID s' = k" using s'(1) by (rule get_session_ID)
    have "rp_ContentHash r = HashReportInput sv (BuildReportInput sv s (SelectLatestFindings sv fs) es (rp_Version r))"
      using s'(2) by (simp add: report_fits_def Let_def sid' rows' build_cong [OF same])
    then have "vf_HashMatch vf" using assms(1) by (auto simp: VerifyReport_def Let_def subtleEqual_iff)
    moreover have "vf_TemplateMatch vf" if dist: "distinct (map te_ID (registry sv))"
    proof -
      have "session_ok sv s'" using ok row_get_set [OF s'(1)] by (simp add: rows_ok_def)
      then obtain t' where "t' \<in> set (registry sv)" "te_ID t' = is_TemplateID s" "te_Name t' = is_TemplateName s"
        "te_Version t' = is_TemplateVersion s"
        using same(1) by (auto simp: session_ok_def same_session_def)
      then show ?thesis
        using registry_template [OF dist t] assms(1) by (auto simp: VerifyReport_def Let_def)
    qed
    ultimately show ?thesis using rows' by blast
  qed
  moreover have "rp_SessionID r = k" using r by (simp add: report_read_def)
  ultimately show ?thesis
    unfolding verification_shown_def using f r assms(1) [symmetric]
    by (intro exI [of _ s] exI [of _ r], cases "k \<in> K") (simp_all add: VerifyReport_def Let_def subtleEqual_iff, blast+)
qed

lemma verification_later:
  assumes "verification_shown sv K k scope vf w" and "insp_inv sv K w" "insp_evolves w u"
  shows "verification_shown sv K k scope vf u"
proof -
  have "findings_of k (nw_db u) = findings_of k (nw_db w) \<and> evidence_of k (nw_db u) = evidence_of k (nw_db w)" if "k \<in> K"
    using assms(2,3) that by (simp add: insp_inv_def insp_evolves_def insp_history_def)
  then show ?thesis
    using assms(1) found_later [OF _ assms(3)] report_read_later [OF _ assms(3)] unfolding verification_shown_def by metis
qed

lemma assured_InspVerify:
  assumes inv: "insp_inv sv K v"
  shows "assured sv K M (got (verification_shown sv K k scope)) v (InspVerify sv k version scope)"
  unfolding InspVerify_def
proof (rule assured_try [OF inv assured_get], rule assured_try, assumption, rule assured_report, rule assured_template, goal_cases)
  case (1 s w r w1 t)
  have f: "found K k scope s w1" using 1(3,4) by (rule found_later)
  show ?case
  proof (rule assured_rows [OF 1(5) f], rule assured_ask_then, assumption, rule assured_Inr, goal_cases)
    case (1 fs es w2 e w3 w4)
    have r: "report_read k r w2" using \<open>report_read k r w1\<close> 1(5) by (rule report_read_later)
    have "insp_evolves w2 w4" using 1(6,8) by (rule iev.composes)
    with VerifyReport_shown [OF refl 1(1,2) r 1(3,4) \<open>TemplateByID sv (is_TemplateID s) = Some t\<close>] 1(1)
    show ?case by (rule verification_later)
  qed
qed

end
