(* ===== verification/Insp_Pools.thy ===== *)
theory Insp_Pools
  imports Insp_Issue
begin

text \<open>
  The routes of inspections, and any number of calls of them at once, some of which may never return.
\<close>

section \<open>What a caller may do and see\<close>

definition may_work :: "insp_http \<Rightarrow> Claims option \<Rightarrow> InspSession \<Rightarrow> bool" where
  "may_work c cl s \<longleftrightarrow> (\<exists>actor scope. insp_actorAndScope c cl = Inr (actor, scope) \<and> works_on actor scope s)"

definition may_see :: "insp_http \<Rightarrow> Claims option \<Rightarrow> InspSession \<Rightarrow> bool" where
  "may_see c cl s \<longleftrightarrow> (\<exists>claims. cl = Some claims \<and> nh_parse c (cl_UserID claims) = Some (is_InspectorID s)) \<or>
     (\<exists>scope. insp_scope c cl = Inr scope \<and> insp_visible scope s)"

definition session_seen :: "insp_http \<Rightarrow> Claims option \<Rightarrow> insp_world \<Rightarrow> inspSessionResponse \<Rightarrow> bool" where
  "session_seen c cl w y \<longleftrightarrow> (\<exists>s. y = newInspSessionResponse s \<and> seen s w \<and> may_see c cl s)"

definition finding_seen :: "insp_http \<Rightarrow> uuid set \<Rightarrow> Claims option \<Rightarrow> insp_world \<Rightarrow> findingResponse \<Rightarrow> bool" where
  "finding_seen c K cl w y \<longleftrightarrow>
     (\<exists>scope k f. insp_scope c cl = Inr scope \<and> y = newFindingResponse f \<and> finding_shown K k scope f w)"

definition evidence_seen :: "insp_http \<Rightarrow> uuid set \<Rightarrow> Claims option \<Rightarrow> insp_world \<Rightarrow> evidenceResponse \<Rightarrow> bool" where
  "evidence_seen c K cl w y \<longleftrightarrow>
     (\<exists>scope k v. insp_scope c cl = Inr scope \<and> y = newEvidenceResponse v \<and> evidence_shown K k scope v w)"

fun shows_true :: "insp_http \<Rightarrow> uuid set \<Rightarrow> Claims option \<Rightarrow> insp_world \<Rightarrow> insp_reply \<Rightarrow> bool" where
  "shows_true c K cl w (InspSessionBody y) = session_seen c cl w y"
| "shows_true c K cl w (InspSessionsBody ys) = (\<forall>y \<in> set ys. session_seen c cl w y)"
| "shows_true c K cl w (FindingBody y) = finding_seen c K cl w y"
| "shows_true c K cl w (FindingsBody ys) = (\<forall>y \<in> set ys. finding_seen c K cl w y)"
| "shows_true c K cl w (EvidenceBody y) = evidence_seen c K cl w y"
| "shows_true c K cl w (EvidencesBody ys) = (\<forall>y \<in> set ys. evidence_seen c K cl w y)"
| "shows_true c K cl w (ReportBody y) =
     (\<exists>scope k r. insp_scope c cl = Inr scope \<and> y = newReportResponse c r \<and> report_shown K k scope r w)"
| "shows_true c K cl w (VerificationBody vf) =
     (\<exists>scope k. insp_scope c cl = Inr scope \<and> verification_shown (nh_service c) K k scope vf w)"
| "shows_true c K cl w (TemplatesBody ts) = (set ts \<subseteq> set (registry (nh_service c)))"
| "shows_true c K cl w (TemplateBody t) = (t \<in> set (registry (nh_service c)))"

fun reply_true :: "insp_http \<Rightarrow> uuid set \<Rightarrow> Claims option \<Rightarrow> insp_reply response \<Rightarrow> insp_world \<Rightarrow> bool" where
  "reply_true c K cl (Reply n b) w = shows_true c K cl w b"
| "reply_true c K cl (Problem e) w = True"

section \<open>Routes\<close>

lemma assured_answer:
  assumes "insp_inv sv K v" and "assured sv K M (got R) v p" and "\<And>a w. R a w \<Longrightarrow> reply_true c K cl (f a) w"
  shows "assured sv K M (reply_true c K cl) v (answer_insp c f p)"
  unfolding answer_insp_def
  by (rule iev.secures_answer_of [OF assms(2,1)]) (use assms(3) in \<open>auto simp: WriteError_def\<close>)

lemma insp_actorAndScope_scope: "insp_actorAndScope c cl = Inr (actor, scope) \<Longrightarrow> insp_scope c cl = Inr scope"
  by (auto simp: insp_actorAndScope_def insp_scope_def require_claims_def split: option.splits sum.splits)

lemma found_see: "insp_scope c cl = Inr scope \<Longrightarrow> found K k scope s w \<Longrightarrow> session_seen c cl w (newInspSessionResponse s)"
  by (auto simp: found_def session_seen_def may_see_def)

lemma registry_lookup: "TemplateByID sv k = Some t \<Longrightarrow> t \<in> set (registry sv)"
  by (auto simp: TemplateByID_def find_Some_iff)

lemma shown_seen:
  assumes "insp_actorAndScope c cl = Inr (actor, scope)"
  shows "finding_shown K k scope f w \<Longrightarrow> finding_seen c K cl w (newFindingResponse f)"
    "evidence_shown K k scope v w \<Longrightarrow> evidence_seen c K cl w (newEvidenceResponse v)"
    "report_shown K k scope r w \<Longrightarrow> \<exists>scope. insp_scope c cl = Inr scope \<and> (\<exists>k r'. newReportResponse c r = newReportResponse c r' \<and> report_shown K k scope r' w)"
  using insp_actorAndScope_scope [OF assms] unfolding finding_seen_def evidence_seen_def by blast+

lemma route_gates:
  "(\<And>x. cl = Some x \<Longrightarrow> assured sv K M (reply_true c K cl) v (h x)) \<Longrightarrow>
    assured sv K M (reply_true c K cl) v (gate_role roles cl h)"
  "(\<And>x. cl = Some x \<Longrightarrow> assured sv K M (reply_true c K cl) v (h x)) \<Longrightarrow>
    assured sv K M (reply_true c K cl) v (gate_authenticated cl h)"
  "(\<And>a. r = Inr a \<Longrightarrow> assured sv K M (reply_true c K cl) v (g a)) \<Longrightarrow>
    assured sv K M (reply_true c K cl) v (checked r g)"
  "assured sv K M (reply_true c K cl) v (refuse e)"
  by (auto intro: iev.secures_role iev.secures_authenticated iev.secures_checked iev.secures_refuse simp: WriteError_def)

lemma assured_reads:
  assumes inv: "insp_inv (nh_service c) K v"
  shows "rq = GetSessions q \<or> rq = GetOneSession raw \<or> rq = GetFindings raw \<or> rq = GetEvidence raw \<or> rq = GetReport raw n \<or>
      rq = GetVerification raw n \<or> rq = GetTemplates raw \<or> rq = GetTemplate raw \<Longrightarrow>
    assured (nh_service c) K M (reply_true c K cl) v (insp_Routes c cl rq)"
proof (elim disjE; hypsubst; unfold insp_Routes.simps; intro route_gates)
  fix x
  show "assured (nh_service c) K M (reply_true c K cl) v (handleListInspSessions c cl q)"
    unfolding handleListInspSessions_def
    by (auto intro!: route_gates assured_answer [OF inv assured_InspSessions] simp: session_seen_def may_see_def) blast
  show "assured (nh_service c) K M (reply_true c K cl) v (handleGetInspSession c cl raw)"
    unfolding handleGetInspSession_def InspGetSession_def
    by (auto intro!: route_gates assured_answer [OF inv assured_get] found_see)
  show "assured (nh_service c) K M (reply_true c K cl) v (handleListFindings c cl raw)"
    unfolding handleListFindings_def
    by (auto intro!: route_gates assured_answer [OF inv assured_Findings [OF inv]] simp: finding_seen_def) blast
  show "assured (nh_service c) K M (reply_true c K cl) v (handleListEvidence c cl raw)"
    unfolding handleListEvidence_def
    by (auto intro!: route_gates assured_answer [OF inv assured_Evidences [OF inv]] simp: evidence_seen_def) blast
  show "assured (nh_service c) K M (reply_true c K cl) v (handleGetReport c cl raw n)"
    unfolding handleGetReport_def
    by (auto intro!: route_gates assured_answer [OF inv assured_InspGetReport [OF inv]]) blast
  show "assured (nh_service c) K M (reply_true c K cl) v (handleVerifyReport c cl raw n)"
    unfolding handleVerifyReport_def
    by (auto intro!: route_gates assured_answer [OF inv assured_InspVerify [OF inv]])
  show "assured (nh_service c) K M (reply_true c K cl) v (handleListTemplates c raw)"
    unfolding handleListTemplates_def Let_def by (auto intro!: route_gates secures_Done)
  show "assured (nh_service c) K M (reply_true c K cl) v (handleGetTemplate c raw)"
    unfolding handleGetTemplate_def Let_def
    by (auto intro!: route_gates secures_Done registry_lookup split: option.splits)
qed

lemma assured_Routes:
  assumes inv: "insp_inv (nh_service c) K v" and M: "\<And>s. may_work c cl s \<Longrightarrow> M s"
  shows "assured (nh_service c) K M (reply_true c K cl) v (insp_Routes c cl rq)"
proof -
  have M': "insp_actorAndScope c cl = Inr (actor, scope) \<Longrightarrow> permitted M actor scope" for actor scope
    using M by (auto simp: permitted_def may_work_def)
  note reads = assured_reads [OF inv]
  note act = insp_actorAndScope_scope
  show ?thesis
  proof (cases rq)
    case (PostSession b)
    have see: "created_shown u s w \<Longrightarrow> subject_uuid c claims = Inr u \<Longrightarrow>
        session_seen c (Some claims) w (newInspSessionResponse s)" for u s w claims
      by (auto simp: created_shown_def session_seen_def may_see_def subject_uuid_def split: option.splits)
    have made: "assured (nh_service c) K M (got (created_shown u)) v (InspCreateSession (nh_service c) s)"
      if "is_InspectorID s = u" "is_StartedAt s = None" "is_SubmittedAt s = None" "is_ReportedAt s = None" for u s
      using assured_InspCreateSession [OF inv that(2-4)] that(1) by simp
    show ?thesis
      unfolding PostSession insp_Routes.simps handleCreateSession_def require_claims_def
      by (intro route_gates) (auto intro!: route_gates assured_answer [OF inv made] see)
  next
    case (PostStart raw)
    show ?thesis
      unfolding PostStart insp_Routes.simps handleStart_def
      by (auto intro!: route_gates assured_answer [OF inv assured_Start [OF inv M']] found_see act)
  next
    case (PostFinding raw b)
    show ?thesis
      unfolding PostFinding insp_Routes.simps handleRecordFinding_def
      by (auto intro!: route_gates assured_answer [OF inv assured_RecordFinding [OF inv M']] intro: shown_seen)
  next
    case (PostEvidence raw b)
    show ?thesis
      unfolding PostEvidence insp_Routes.simps handleAttachEvidence_def
      by (auto intro!: route_gates assured_answer [OF inv assured_AttachEvidence [OF inv M']] intro: shown_seen)
  next
    case (PostSubmit raw)
    show ?thesis
      unfolding PostSubmit insp_Routes.simps handleSubmit_def
      by (auto intro!: route_gates assured_answer [OF inv assured_Submit [OF inv M']] found_see act)
  next
    case (PostReport raw b)
    show ?thesis
      unfolding PostReport insp_Routes.simps handleIssueReport_def
      by (auto intro!: route_gates assured_answer [OF inv assured_IssueReport [OF inv M']] intro: shown_seen)
  qed (use reads in blast)+
qed

section \<open>Pools\<close>

definition insp_call :: "insp_http \<Rightarrow> Claims option \<times> insp_request \<Rightarrow>
    (insp_env, insp_world, (Claims option \<times> insp_request) \<times> insp_reply response) prog" where
  "insp_call c x = and_then (insp_Routes c (fst x) (snd x)) (\<lambda>a. Done (x, a))"

definition insp_runs :: "insp_http \<Rightarrow> (Claims option \<times> insp_request) set \<Rightarrow> insp_world \<Rightarrow>
    (insp_env, insp_world, (Claims option \<times> insp_request) \<times> insp_reply response) prog list \<Rightarrow> insp_world \<Rightarrow> bool" where
  "insp_runs c X w ps w' \<longleftrightarrow> (pool_step (\<lambda>_. True) (insp_call c ` X))\<^sup>*\<^sup>* ([], w) (ps, w')"

lemma worked_trans: "worked M u v \<Longrightarrow> worked M v w \<Longrightarrow> worked M u w"
  unfolding worked_def untouched_def by metis

lemma insp_runs_keep:
  assumes "insp_runs c X w ps w'" and "insp_inv (nh_service c) K w"
    and M: "\<And>cl rq s. (cl, rq) \<in> X \<Longrightarrow> may_work c cl s \<Longrightarrow> M s"
  shows "insp_inv (nh_service c) K w' \<and> insp_evolves w w' \<and> worked M w w' \<and>
    (\<forall>cl rq a. Done ((cl, rq), a) \<in> set ps \<longrightarrow> (cl, rq) \<in> X \<and> reply_true c K cl a w')"
proof -
  let ?Q = "\<lambda>(x, a) w. x \<in> X \<and> reply_true c K (fst x) a w"
  have call: "assured (nh_service c) K M ?Q v (insp_call c x)" if "x \<in> X" "insp_inv (nh_service c) K v" for x v
    unfolding insp_call_def
    by (rule iev.secures_and_then [OF assured_Routes])
      (use that M in \<open>auto intro!: secures_Done\<close>, metis prod.collapse)
  have "insp_inv (nh_service c) K w' \<and> insp_evolves w w' \<and> worked M w w' \<and>
      (\<forall>p \<in> set ps. \<exists>q \<in> insp_call c ` X. assured (nh_service c) K M ?Q w' p)"
    using assms(1) unfolding insp_runs_def
    by (rule iev.pool_secures [where T = "worked M" and Q = "\<lambda>_. ?Q" and G = "\<lambda>_. worked M"])
      (use assms(2) call worked_trans in \<open>auto simp: worked_def untouched_refl\<close>)
  then show ?thesis using iev.stays by (fastforce elim: secures_DoneE)
qed

end
