(* ===== verification/Insp_Demo.thy ===== *)
theory Insp_Demo
  imports Insp_Pools
begin

text \<open>
  A small instance of inspections: a service with toy texts and hashes, and the tables of one session at
  each point of its life. The examples beside the properties run on it.
\<close>

section \<open>The service\<close>

definition demo_nibble :: "uuid \<Rightarrow> nat \<Rightarrow> nat" where
  "demo_nibble u i = unat (take_bit 4 (drop_bit (4 * i) u))"

definition demo_text :: "uuid \<Rightarrow> string" where
  "demo_text u = map (\<lambda>i. hex_digit (demo_nibble u i)) [0..<32] @ ''----''"

text \<open>The second letter of the class tells the six templates apart.\<close>

definition demo_uuid5 :: "string \<Rightarrow> uuid" where
  "demo_uuid5 s = word_of_nat (of_char (s ! 18))"

text \<open>\<open>jsonb\<close> prints a space after a colon; this prints the first one.\<close>

definition demo_jsonb :: "string \<Rightarrow> string" where
  "demo_jsonb t = take 7 t @ '' '' @ drop 7 t"

definition demo_inspections :: insp_service where
  "demo_inspections =
     \<lparr>nsv_engine = documented_pgx, nsv_uuid_text = demo_text, nsv_uuid5 = demo_uuid5,
      nsv_sha256 = (\<lambda>s. replicate 32 CHR ''x''), nsv_jsonb = demo_jsonb, nsv_publisher = True, nsv_correlation = ''c1''\<rparr>"

definition demo_insp_parse :: "string \<Rightarrow> uuid option" where
  "demo_insp_parse s = map_option (\<lambda>n. word_of_int n) (Atoi s)"

definition demo_insp :: insp_http where
  "demo_insp =
     \<lparr>nh_service = demo_inspections, nh_parse = demo_insp_parse, nh_text_of = (\<lambda>_. ''failed''),
      nh_findings = (\<lambda>_. []), nh_evidence = (\<lambda>_. [])\<rparr>"

lemma demo_inspections_simps [simp]:
  "nh_service demo_insp = demo_inspections" "nh_parse demo_insp = demo_insp_parse"
  "nsv_engine demo_inspections = documented_pgx" "nsv_uuid5 demo_inspections = demo_uuid5"
  "nsv_uuid_text demo_inspections = demo_text" "nsv_jsonb demo_inspections = demo_jsonb" "nsv_publisher demo_inspections"
  "nsv_sha256 demo_inspections s = replicate 32 CHR ''x''"
  by (simp_all add: demo_inspections_def demo_insp_def)

lemma hex_digit_inject: "m < 16 \<Longrightarrow> n < 16 \<Longrightarrow> hex_digit m = hex_digit n \<Longrightarrow> m = n"
  by (metis hex_val_digit option.inject)

lemma demo_nibble_less: "demo_nibble u i < 16"
  using take_bit_nat_less_exp [of 4 "unat (drop_bit (4 * i) u)"] by (simp add: demo_nibble_def unsigned_take_bit_eq)

lemma demo_text_inject: "inj demo_text"
proof (rule injI)
  fix u v assume "demo_text u = demo_text v"
  then have "demo_nibble u i = demo_nibble v i" if "i < 32" for i
    using that by (auto simp: demo_text_def intro!: hex_digit_inject demo_nibble_less)
  then have nib: "take_bit 4 (drop_bit (4 * i) u) = take_bit 4 (drop_bit (4 * i) v)" if "i < 32" for i
    using \<open>\<And>i. i < 32 \<Longrightarrow> demo_nibble u i = demo_nibble v i\<close> [OF that] unfolding demo_nibble_def by (simp only: word_unat_eq_iff)
  show "u = v"
  proof (rule bit_word_eqI)
    fix n assume n: "n < LENGTH(128)"
    have "bit (take_bit 4 (drop_bit (4 * (n div 4)) u)) (n mod 4) = bit (take_bit 4 (drop_bit (4 * (n div 4)) v)) (n mod 4)"
      using nib [of "n div 4"] n by simp
    then show "bit u n = bit v n" by (simp add: bit_take_bit_iff bit_drop_bit_eq)
  qed
qed

lemma demo_templates: "distinct (map te_ID (registry demo_inspections))"
  by (simp add: registry_def system_template_def TemplateID_def demo_uuid5_def)

section \<open>The tables\<close>

text \<open>Session 7 of inspector 1, in the garage 50: every required item found in order, one photograph.\<close>

definition demo_finding :: "uuid \<Rightarrow> string \<Rightarrow> Finding" where
  "demo_finding k key =
     \<lparr>fd_ID = k, fd_SessionID = 7, fd_ItemKey = key, fd_Result = ResultPass, fd_Severity = SeverityGreen, fd_Notes = [],
      fd_RecordedBy = Some 1, fd_CreatedAt = 5\<rparr>"

definition demo_findings :: "Finding list" where
  "demo_findings =
     [demo_finding 21 ''brakes'', demo_finding 22 ''tyres'', demo_finding 23 ''suspension_steering'',
      demo_finding 24 ''lights_electrical'', demo_finding 25 ''engine_leaks'', demo_finding 26 ''transmission'',
      demo_finding 27 ''odometer_consistency'']"

definition demo_evidence :: Evidence where
  "demo_evidence =
     \<lparr>ev_ID = 31, ev_SessionID = 7, ev_FindingID = Some 21, ev_Kind = ''PHOTO'', ev_ContentHash = replicate 64 CHR ''a'',
      ev_CapturedAt = 4, ev_CapturedBy = Some 1, ev_Uploaded = True, ev_Notes = [], ev_CreatedAt = 6\<rparr>"

definition demo_template :: Template where
  "demo_template = system_template demo_inspections ''SEDAN'' ''Motivra Standard Sedan Inspection'' sedan_items"

definition demo_insp_session :: "InspStatus \<Rightarrow> InspSession" where
  "demo_insp_session st =
     \<lparr>is_ID = 7, is_TenantID = Some 50, is_VehicleID = Some 60, is_JobID = None, is_CustomerID = Some 2,
      is_VehicleClass = ''SEDAN'', is_TemplateID = te_ID demo_template, is_TemplateName = te_Name demo_template,
      is_TemplateVersion = 1, is_InspectorID = 1, is_Status = st, is_StartedAt = Some 3,
      is_SubmittedAt = (if 2 \<le> insp_step st then Some 8 else None), is_ReportedAt = (if 3 \<le> insp_step st then Some 9 else None),
      is_CreatedAt = 1, is_UpdatedAt = 9\<rparr>"

definition demo_snapshot :: "string option \<Rightarrow> string" where
  "demo_snapshot t = demo_jsonb (case t of None \<Rightarrow> [] | Some s \<Rightarrow> s)"

definition demo_report :: Report where
  "demo_report =
     (let selected = SelectLatestFindings demo_inspections demo_findings; s = demo_insp_session InspReportAvailable in
      \<lparr>rp_ID = 41, rp_SessionID = 7, rp_Version = 1, rp_VehicleID = Some 60, rp_JobID = None, rp_InspectorID = 1,
       rp_TemplateID = is_TemplateID s, rp_TemplateName = is_TemplateName s, rp_TemplateVersion = 1,
       rp_FindingsSnapshot = demo_snapshot (marshalFindingsSnapshot demo_inspections selected),
       rp_EvidenceSnapshot = demo_snapshot (marshalEvidenceSnapshot demo_inspections [demo_evidence]),
       rp_FindingsCount = int (length selected), rp_EvidenceCount = 1,
       rp_ContentHash = HashReportInput demo_inspections (BuildReportInput demo_inspections s selected [demo_evidence] 1),
       rp_IssuedBy = Some 1, rp_Notes = [], rp_CreatedAt = 9\<rparr>)"

definition demo_move :: "InspStatus \<times> InspStatus \<Rightarrow> SessionTransition" where
  "demo_move m =
     \<lparr>it_ID = 1, it_SessionID = 7, it_FromStatus = fst m, it_ToStatus = snd m, it_ActorID = Some 1, it_Reason = [],
      it_CreatedAt = 3\<rparr>"

definition demo_insp_world :: "InspStatus \<Rightarrow> insp_world" where
  "demo_insp_world st =
     \<lparr>nw_db = \<lparr>insp_sessions_t = [demo_insp_session st], findings_t = demo_findings, evidence_t = [demo_evidence],
        reports_t = (if st = InspReportAvailable then [demo_report] else []),
        insp_log_t = map demo_move (take (insp_step st) lifecycle)\<rparr>,
      nw_events = []\<rparr>"

section \<open>Its tables are consistent\<close>

lemmas demo_insp_rows = demo_insp_world_def demo_insp_session_def demo_findings_def demo_finding_def demo_evidence_def
  demo_move_def

lemma demo_template_found: "TemplateByID demo_inspections (te_ID demo_template) = Some demo_template"
  by (simp add: TemplateByID_def registry_def demo_template_def system_template_def TemplateID_def demo_uuid5_def)

lemma demo_items: "Template_Item demo_template key \<noteq> None \<longleftrightarrow> key \<in> set (map ti_Key sedan_items)"
  by (auto simp: demo_template_def system_template_def Template_Item_def find_None_iff)

lemma select_distinct:
  assumes "distinct (map fd_ItemKey fs)"
  shows "set (SelectLatestFindings sv fs) = set fs"
proof
  show "set fs \<subseteq> set (SelectLatestFindings sv fs)"
  proof
    fix f assume f: "f \<in> set fs"
    from select_covers [OF f] obtain g where g: "g \<in> set (SelectLatestFindings sv fs)" "fd_ItemKey g = fd_ItemKey f" by blast
    then have "g = f" using assms f select_subset [of sv fs] by (auto simp: distinct_map dest: inj_onD)
    with g show "f \<in> set (SelectLatestFindings sv fs)" by simp
  qed
qed (rule select_subset)

lemma demo_keys: "distinct (map fd_ItemKey demo_findings)"
  by (simp add: demo_findings_def demo_finding_def)

lemma demo_required: "RequiredItems demo_template = map fd_ItemKey demo_findings"
  by (simp add: RequiredItems_def demo_template_def system_template_def sedan_items_def required_def optional_item_def
      demo_findings_def demo_finding_def)

lemma demo_ready:
  assumes "set fs = set demo_findings" "distinct (map fd_ItemKey fs)"
  shows "CheckReportReadiness demo_inspections demo_template fs [demo_evidence] = []"
  unfolding readiness_iff select_distinct [OF assms(2)] demo_items demo_required assms(1)
  by (simp add: demo_findings_def demo_finding_def sedan_items_def required_def SeverityGreen_def SeverityRed_def)

lemma demo_findings_of: "findings_of 7 (nw_db (demo_insp_world st)) = demo_findings"
  by (simp add: findings_of_def demo_insp_rows)

lemma demo_evidence_of: "evidence_of 7 (nw_db (demo_insp_world st)) = [demo_evidence]"
  by (simp add: evidence_of_def demo_insp_rows)

lemma demo_insp_session_get: "get_session 7 (nw_db (demo_insp_world st)) = Some (demo_insp_session st)"
  by (simp add: demo_insp_rows row_get_def)

lemma demo_years: "atom_ok (JTime 4)" "atom_ok (JTime 5)"
  by code_simp+

lemma demo_marshals:
  "\<exists>t. marshalFindingsSnapshot demo_inspections (SelectLatestFindings demo_inspections demo_findings) = Some t"
  "\<exists>t. marshalEvidenceSnapshot demo_inspections [demo_evidence] = Some t"
proof -
  have "list_all (\<lambda>m. atom_ok (snd m)) (finding_json demo_inspections f)" if "f \<in> set demo_findings" for f
  proof -
    have "fd_CreatedAt f = 5" using that by (auto simp: demo_findings_def demo_finding_def)
    then show ?thesis using demo_years(2) by (simp add: finding_json_def split: option.split)
  qed
  then have "list_all (list_all (\<lambda>m. atom_ok (snd m)))
      (map (finding_json demo_inspections) (SelectLatestFindings demo_inspections demo_findings))"
    using select_distinct [OF demo_keys] by (simp add: list_all_iff)
  then show "\<exists>t. marshalFindingsSnapshot demo_inspections (SelectLatestFindings demo_inspections demo_findings) = Some t"
    by (simp add: marshalFindingsSnapshot_def marshal_def)
  show "\<exists>t. marshalEvidenceSnapshot demo_inspections [demo_evidence] = Some t"
    using demo_years(1) by (simp add: marshalEvidenceSnapshot_def marshal_def evidence_json_def demo_evidence_def)
qed

lemma demo_report_fits:
  "report_fits demo_inspections (nw_db (demo_insp_world InspReportAvailable)) (demo_insp_session InspReportAvailable) demo_report"
proof -
  have key: "is_ID (demo_insp_session st) = 7" "is_TemplateID (demo_insp_session st) = te_ID demo_template"
    "is_Status (demo_insp_session st) = st" for st
    by (simp_all add: demo_insp_session_def)
  have ready: "CheckReportReadiness demo_inspections demo_template demo_findings [demo_evidence] = []"
    by (rule demo_ready [OF refl demo_keys])
  show ?thesis
    unfolding report_fits_def key Let_def demo_findings_of demo_evidence_of
    using demo_marshals demo_template_found ready by (auto simp: demo_report_def Let_def demo_snapshot_def)
qed

lemma demo_finding_plain:
  assumes "f \<in> set demo_findings"
  shows "fd_ItemKey f \<in> set (map ti_Key sedan_items)" "fd_SessionID f = 7" "fd_Result f = ResultPass"
    "fd_Severity f = SeverityGreen" "fd_Notes f = []"
  using assms by (auto simp: demo_findings_def demo_finding_def sedan_items_def required_def)

lemma demo_finding_fits:
  assumes "f \<in> set demo_findings" and "1 \<le> insp_step st"
  shows "finding_fits demo_inspections (demo_insp_session st) f"
proof -
  have "is_TemplateID (demo_insp_session st) = te_ID demo_template" "is_Status (demo_insp_session st) = st"
    by (simp_all add: demo_insp_session_def)
  moreover have "Template_Item demo_template (fd_ItemKey f) \<noteq> None"
    using demo_finding_plain(1) [OF assms(1)] by (simp only: demo_items)
  moreover have "IsResultSeverityLegal ResultPass SeverityGreen" by (simp add: IsResultSeverityLegal_def resultSeverityMatrix_def)
  ultimately show ?thesis
    using assms(2) demo_template_found demo_finding_plain(3-5) [OF assms(1)] unfolding finding_fits_def by simp
qed

lemma demo_hash64: "sha256_hex (replicate 64 CHR ''a'')"
  by (simp add: sha256_hex_def)

lemma demo_lifecycle: "map ((\<lambda>l. (it_FromStatus l, it_ToStatus l)) \<circ> demo_move) ms = ms"
  by (induction ms) (simp_all add: demo_move_def)

lemma demo_insp_ok:
  assumes "isKnownInspStatus st" and "1 \<le> insp_step st"
  shows "insp_ok demo_inspections (nw_db (demo_insp_world st))"
proof -
  let ?db = "nw_db (demo_insp_world st)"
  have tables: "insp_sessions_t ?db = [demo_insp_session st]" "findings_t ?db = demo_findings" "evidence_t ?db = [demo_evidence]"
    "reports_t ?db = (if st = InspReportAvailable then [demo_report] else [])"
    "insp_log_t ?db = map demo_move (take (insp_step st) lifecycle)"
    by (simp_all add: demo_insp_world_def)
  have "session_ok demo_inspections (demo_insp_session st)"
    using assms registry_lookup [OF demo_template_found]
    by (auto simp: session_ok_def demo_insp_session_def demo_template_def system_template_def intro!: bexI [of _ demo_template])
  moreover have "finding_fits demo_inspections (demo_insp_session st) f" "fd_SessionID f = 7" if "f \<in> set demo_findings" for f
    by (rule demo_finding_fits [OF that assms(2)], rule demo_finding_plain(2) [OF that])
  moreover have "evidence_fits ?db (demo_insp_session st) demo_evidence" "ev_SessionID demo_evidence = 7"
    using assms(2) demo_hash64 unfolding evidence_fits_def tables
    by (simp_all add: demo_evidence_def demo_insp_session_def demo_findings_def demo_finding_def evidence_checks_def
        IsEvidenceKind_def AllEvidenceKinds_def)
  moreover have "rp_SessionID demo_report = 7" by (simp add: demo_report_def Let_def)
  ultimately have "rows_ok demo_inspections ?db"
    using demo_report_fits demo_insp_session_get [of st, unfolded tables] unfolding rows_ok_def tables by (auto split: if_splits)
  moreover have "keys_ok ?db"
    unfolding keys_ok_def tables by (simp add: pk_ok_def demo_findings_def demo_finding_def)
  moreover have "counts_ok ?db"
  proof -
    have "is_ID (demo_insp_session st) = 7" "is_Status (demo_insp_session st) = st" by (simp_all add: demo_insp_session_def)
    moreover have "reports_of 7 ?db = reports_t ?db" "log_of 7 ?db = insp_log_t ?db"
      using \<open>rp_SessionID demo_report = 7\<close> by (auto simp: reports_of_def log_of_def tables filter_id_conv demo_move_def)
    moreover have "it_SessionID l = 7" if "l \<in> set (insp_log_t ?db)" for l
      using that by (auto simp: tables demo_move_def)
    ultimately show ?thesis
      using demo_insp_session_get [of st, unfolded tables] by (simp add: counts_ok_def tables demo_lifecycle)
  qed
  ultimately show ?thesis by (simp add: insp_ok_def)
qed

section \<open>Calls\<close>

definition demo_staff :: "string \<Rightarrow> Claims option" where
  "demo_staff u =
     Some \<lparr>cl_UserID = u, cl_TenantID = ''50'', cl_Role = ''GARAGE'', cl_SessionID = [], cl_IssuedAt = 1, cl_ExpiresAt = 2\<rparr>"

definition demo_insp_scope :: InspScope where
  "demo_insp_scope = \<lparr>ix_TenantID = Some 50, ix_PrincipalID = None, ix_explicitUnrestricted = False\<rparr>"

definition demo_insp_env :: "uuid \<Rightarrow> insp_env" where
  "demo_insp_env k = \<lparr>nv_flt = Healthy, nv_now = 8, nv_seq = 2, nv_uuid = k, nv_clock = 8, nv_pub = True\<rparr>"

lemma demo_numbers [simp]:
  "demo_insp_parse ''1'' = Some 1" "demo_insp_parse ''2'' = Some 2" "demo_insp_parse ''50'' = Some 50" "demo_insp_parse ''7'' = Some 7"
  by code_simp+

lemma demo_scopes:
  "u \<in> {''1'', ''2''} \<Longrightarrow> insp_scope demo_insp (demo_staff u) = Inr demo_insp_scope"
  "insp_actorAndScope demo_insp (demo_staff ''1'') = Inr (1, demo_insp_scope)"
  "insp_actorAndScope demo_insp (demo_staff ''2'') = Inr (2, demo_insp_scope)"
  by (auto simp: insp_scope_def insp_actorAndScope_def demo_staff_def InspScopeFromClaims_def demo_insp_scope_def IsInspOperator_def
      InspOperatorRoles_def require_claims_def subject_uuid_def)

lemma demo_path: "session_path demo_insp ''7'' = Inr 7"
  by (simp add: session_path_def path_uuid_def trim_space_def ascii_space_def)

lemma demo_reads:
  assumes "insp_sessions_t db = [s]" "is_ID s = 7" "is_TenantID s = Some 50"
  shows "InspStore_GetSession demo_inspections 7 demo_insp_scope (demo_insp_env k) db = (Inr s, db)"
    "ListFindings demo_inspections 7 demo_insp_scope (demo_insp_env k) db = (Inr (findings_of 7 db), db)"
    "ListEvidence demo_inspections 7 demo_insp_scope (demo_insp_env k) db = (Inr (evidence_of 7 db), db)"
  using assms
  by (simp_all add: InspStore_GetSession_def ListFindings_def ListEvidence_def insp_reading_def inspScopePredicate_def demo_insp_scope_def
      InspUnrestricted_def args_accepted_def documented_pgx_def demo_insp_env_def parent_visible_def sql_arg_def col_eq_def)

lemma demo_works: "works_on 1 demo_insp_scope (demo_insp_session st)" "\<not> works_on 2 demo_insp_scope (demo_insp_session st)"
  by (simp_all add: works_on_def demo_insp_session_def demo_insp_scope_def InspUnrestricted_def)

lemma demo_stranger: "\<not> may_work demo_insp (demo_staff ''2'') (demo_insp_session st)"
  by (simp add: may_work_def demo_scopes(3) demo_works)

section \<open>A submission that overlaps with a finding\<close>

lemma advance_then:
  "advance (Suc n) (and_then (effect f) k) es w = (case f (es 0) w of (a, w') \<Rightarrow> advance n (k a) (\<lambda>n. es (Suc n)) w')"
  by (simp add: effect_def split: prod.splits)

lemma advance_db:
  "f (es 0) (nw_db w) = (Inr a, nw_db w) \<Longrightarrow>
    advance (Suc n) (try_then (on_db f) k) es w = advance n (k a) (\<lambda>n. es (Suc n)) w"
  by (simp add: try_then_def on_db_def advance_then)

lemma run_db:
  "f (es 0) (nw_db w) = (Inr a, db) \<Longrightarrow> run (try_then (on_db f) k) es w = run (k a) (\<lambda>n. es (Suc n)) (w\<lparr>nw_db := db\<rparr>)"
  by (simp add: run_try_then on_db_def)

lemma advance_and_then:
  "advance n p es w = (Act f, w') \<Longrightarrow> advance n (and_then p k) es w = (and_then (Act f) k, w')"
proof (induction n p es w rule: advance.induct)
  case (1 n g es w)
  then show ?case by (auto split: prod.splits)
qed auto

lemma advance_waiting:
  assumes "advance n p es w = (q, w') \<and> (\<exists>f. q = Act f)"
  shows "advance n (and_then p k) es w = (and_then q k, w') \<and> (\<exists>f. and_then q k = Act f)"
  using assms advance_and_then by fastforce

definition demo_red :: Finding where
  "demo_red =
     \<lparr>fd_ID = 28, fd_SessionID = 7, fd_ItemKey = ''body_panel_condition'', fd_Result = ResultFail, fd_Severity = SeverityRed,
      fd_Notes = [], fd_RecordedBy = Some 1, fd_CreatedAt = 8\<rparr>"

definition demo_red_request :: findingRequest where
  "demo_red_request =
     \<lparr>qn_ItemKey = ''body_panel_condition'', qn_Result = ResultFail, qn_Severity = SeverityRed, qn_Notes = []\<rparr>"

abbreviation "demo_open \<equiv> demo_insp_world InspInProgress"

definition demo_submission :: "Claims option \<times> insp_request" where
  "demo_submission = (demo_staff ''1'', PostSubmit ''7'')"

definition demo_recording :: "Claims option \<times> insp_request" where
  "demo_recording = (demo_staff ''1'', PostFinding ''7'' (JsonBody demo_red_request))"

lemma try_then_assoc: "try_then (try_then p k) k' = try_then p (\<lambda>a. try_then (k a) k')"
proof -
  have "and_then (case r of Inl x \<Rightarrow> Done (Inl x) | Inr a \<Rightarrow> k a) (\<lambda>r. case r of Inl x \<Rightarrow> Done (Inl x) | Inr a \<Rightarrow> k' a) =
      (case r of Inl x \<Rightarrow> Done (Inl x) | Inr a \<Rightarrow> and_then (k a) (\<lambda>r. case r of Inl x \<Rightarrow> Done (Inl x) | Inr a \<Rightarrow> k' a))" for r
    by (cases r) simp_all
  then show ?thesis by (simp add: try_then_def and_then_assoc)
qed

lemma demo_fields [simp]:
  "is_ID (demo_insp_session st) = 7" "is_TenantID (demo_insp_session st) = Some 50" "is_Status (demo_insp_session st) = st"
  "is_InspectorID (demo_insp_session st) = 1" "is_TemplateID (demo_insp_session st) = te_ID demo_template"
  "insp_sessions_t (nw_db (demo_insp_world st)) = [demo_insp_session st]" "findings_t (nw_db (demo_insp_world st)) = demo_findings"
  "evidence_t (nw_db (demo_insp_world st)) = [demo_evidence]"
  by (simp_all add: demo_insp_session_def demo_insp_world_def)

text \<open>What is left of a submission whose checks have passed.\<close>

definition demo_tail :: "InspSession insp_prog" where
  "demo_tail =
     try_then (on_db (UpdateSessionStatus 7 InspInProgress InspSubmitted (Some 1) ''inspection submitted'')) (\<lambda>_.
     try_then (on_db (InspStore_GetSession demo_inspections 7 demo_insp_scope)) (\<lambda>s1.
     try_then (on_db (ListFindings demo_inspections 7 demo_insp_scope)) (\<lambda>fs.
     try_then (on_db (ListEvidence demo_inspections 7 demo_insp_scope)) (\<lambda>es.
     try_then (insp_publish demo_inspections EventSessionSubmitted 7 1 (insp_tenantString demo_inspections (is_TenantID s1))
       (PSessionSubmitted \<lparr>pm_SessionID = 7, pm_InspectorID = is_InspectorID s1,
          pm_FindingsCount = int (length (SelectLatestFindings demo_inspections fs)), pm_EvidenceCount = int (length es),
          pm_VehicleID = is_VehicleID s1, pm_JobID = is_JobID s1\<rparr>)) (\<lambda>_. Done (Inr s1))))))"

lemma demo_interrupted:
  "advance 3 (Submit demo_inspections 7 1 demo_insp_scope) (\<lambda>_. demo_insp_env k) demo_open = (demo_tail, demo_open)"
proof -
  let ?es = "\<lambda>_ :: nat. demo_insp_env k"
  have guards: "guardActor (demo_insp_session InspInProgress) 1 demo_insp_scope = None" "move_guard InspInProgress InspSubmitted = None"
    by (simp_all add: guardActor_None demo_works move_guard_None InspCanTransition_cases)
  have ready: "incomplete (CheckReportReadiness demo_inspections demo_template demo_findings [demo_evidence]) = None"
    by (simp add: incomplete_def demo_ready [OF refl demo_keys])
  have db: "findings_of 7 (nw_db demo_open) = demo_findings" "evidence_of 7 (nw_db demo_open) = [demo_evidence]"
    by (rule demo_findings_of demo_evidence_of)+
  note reads = demo_reads [of "nw_db demo_open" "demo_insp_session InspInProgress" k, simplified, unfolded db]
  note steps = advance_db [where es = ?es and w = demo_open and f = "InspStore_GetSession demo_inspections 7 demo_insp_scope", OF reads(1)]
    advance_db [where es = ?es and w = demo_open and f = "ListFindings demo_inspections 7 demo_insp_scope", OF reads(2)]
    advance_db [where es = ?es and w = demo_open and f = "ListEvidence demo_inspections 7 demo_insp_scope", OF reads(3)]
  have "try_then (checkReadiness demo_inspections (demo_insp_session InspInProgress) demo_insp_scope) c =
      try_then (on_db (ListFindings demo_inspections 7 demo_insp_scope)) (\<lambda>fs.
      try_then (on_db (ListEvidence demo_inspections 7 demo_insp_scope)) (\<lambda>es.
      try_then (unless_error (incomplete (CheckReportReadiness demo_inspections demo_template fs es)) (Done (Inr ()))) c))" for c :: "unit \<Rightarrow> InspSession insp_prog"
    by (simp add: checkReadiness_def with_template_def demo_template_found try_then_assoc)
  then show ?thesis
    unfolding Submit_def demo_tail_def numeral_3_eq_3
    by (simp add: steps unless_error_def guards, simp add: steps ready unless_error_def try_then_def)
qed

text \<open>The finding is recorded while the submission waits.\<close>

definition demo_raced_db :: insp_db where
  "demo_raced_db = (nw_db demo_open)\<lparr>findings_t := row_ins demo_red demo_findings\<rparr>"

lemma demo_recorded:
  "run (RecordFinding demo_inspections 7
      \<lparr>fd_ID = uuid_nil, fd_SessionID = uuid_nil, fd_ItemKey = qn_ItemKey demo_red_request, fd_Result = qn_Result demo_red_request,
       fd_Severity = qn_Severity demo_red_request, fd_Notes = qn_Notes demo_red_request, fd_RecordedBy = None, fd_CreatedAt = 0\<rparr>
      1 demo_insp_scope) (\<lambda>_. demo_insp_env 28) demo_open =
    (Inr demo_red, \<lambda>_. demo_insp_env 28, demo_open\<lparr>nw_db := demo_raced_db\<rparr>)"
proof -
  have get: "InspStore_GetSession demo_inspections 7 demo_insp_scope (demo_insp_env 28) (nw_db demo_open) =
      (Inr (demo_insp_session InspInProgress), nw_db demo_open)"
    by (rule demo_reads) simp_all
  have guard: "guardActor (demo_insp_session InspInProgress) 1 demo_insp_scope = None"
    by (simp add: guardActor_None demo_works)
  have item: "Template_Item demo_template ''body_panel_condition'' \<noteq> None"
    unfolding demo_items by (simp add: sedan_items_def required_def optional_item_def)
  have valid: "validateFindingInput demo_template
      \<lparr>fd_ID = uuid_nil, fd_SessionID = uuid_nil, fd_ItemKey = qn_ItemKey demo_red_request, fd_Result = qn_Result demo_red_request,
       fd_Severity = qn_Severity demo_red_request, fd_Notes = qn_Notes demo_red_request, fd_RecordedBy = None, fd_CreatedAt = 0\<rparr> 1 =
    Inr (demo_red\<lparr>fd_ID := uuid_nil, fd_SessionID := uuid_nil, fd_CreatedAt := 0\<rparr>)"
    using item by (simp add: validateFindingInput_def demo_red_request_def demo_red_def AllFindingResults_def AllSeverities_def
        IsResultSeverityLegal_def resultSeverityMatrix_def)
  have free: "row_get fd_ID 28 demo_findings = None"
    by (simp add: row_get_def demo_findings_def demo_finding_def)
  have ins: "InsertFinding (demo_red\<lparr>fd_ID := uuid_nil, fd_CreatedAt := 0, fd_SessionID := 7\<rparr>) (demo_insp_env 28) (nw_db demo_open) =
      (Inr demo_red, demo_raced_db)"
    using free demo_insp_session_get
    by (simp add: InsertFinding_def Let_def demo_red_def demo_insp_env_def finding_checks_def AllFindingResults_def AllSeverities_def
        row_get_def demo_raced_db_def)
  show ?thesis
    unfolding RecordFinding_def run_try_then
    by (simp add: on_db_def get unless_error_def guard with_template_def demo_template_found valid ins)
qed

definition demo_stuck_session :: InspSession where
  "demo_stuck_session = stamp_status 8 InspSubmitted (demo_insp_session InspInProgress)"

definition demo_stuck_db :: insp_db where
  "demo_stuck_db = moved_insp_db 7 8 InspSubmitted (log_status (demo_insp_env 29) 7 InspInProgress InspSubmitted (Some 1) ''inspection submitted'')
     demo_raced_db"

lemma demo_stuck_tables:
  "insp_sessions_t demo_stuck_db = [demo_stuck_session]" "is_ID demo_stuck_session = 7" "is_TenantID demo_stuck_session = Some 50"
  "is_Status demo_stuck_session = InspSubmitted" "findings_t demo_stuck_db = row_ins demo_red demo_findings"
  "evidence_t demo_stuck_db = [demo_evidence]" "is_TemplateID demo_stuck_session = te_ID demo_template"
  by (simp_all add: demo_stuck_db_def demo_raced_db_def demo_stuck_session_def moved_insp_db_def row_upd_def)
    (simp_all add: stamp_status_def Let_def)

lemma demo_finished:
  "\<exists>es w. run demo_tail (\<lambda>_. demo_insp_env 29) (demo_open\<lparr>nw_db := demo_raced_db\<rparr>) = (Inr demo_stuck_session, es, w) \<and>
    nw_db w = demo_stuck_db"
proof -
  have "get_session 7 demo_raced_db = Some (demo_insp_session InspInProgress)"
    using demo_insp_session_get [of InspInProgress] by (simp add: demo_raced_db_def)
  then have upd: "UpdateSessionStatus 7 InspInProgress InspSubmitted (Some 1) ''inspection submitted'' (demo_insp_env 29) demo_raced_db =
      (Inr (), demo_stuck_db)"
    unfolding demo_stuck_db_def moved_insp_db_def
    by (simp add: UpdateSessionStatus_def isKnownInspStatus_def AllInspStatuses_def demo_insp_env_def)
  note reads = demo_reads [OF demo_stuck_tables(1-3), of 29]
  have named: "demo_text 7 \<noteq> []" by (simp add: demo_text_def)
  have pub: "nv_pub (demo_insp_env 29)" by (simp add: demo_insp_env_def)
  show ?thesis
    unfolding demo_tail_def run_try_then
    by (simp add: on_db_def upd reads insp_publish_def named pub EventSessionSubmitted_def)
qed

lemma demo_calls:
  "insp_call demo_insp demo_submission =
     and_then (and_then (Submit demo_inspections 7 1 demo_insp_scope)
       (\<lambda>r. case r of Inl x \<Rightarrow> refuse (insp_domain_error (nh_text_of demo_insp) x)
         | Inr s \<Rightarrow> Done (Reply 200 (InspSessionBody (newInspSessionResponse s))))) (\<lambda>a. Done (demo_submission, a))"
  "insp_call demo_insp demo_recording =
     and_then (and_then (RecordFinding demo_inspections 7
      \<lparr>fd_ID = uuid_nil, fd_SessionID = uuid_nil, fd_ItemKey = qn_ItemKey demo_red_request, fd_Result = qn_Result demo_red_request,
       fd_Severity = qn_Severity demo_red_request, fd_Notes = qn_Notes demo_red_request, fd_RecordedBy = None, fd_CreatedAt = 0\<rparr>
      1 demo_insp_scope)
       (\<lambda>r. case r of Inl x \<Rightarrow> refuse (insp_domain_error (nh_text_of demo_insp) x)
         | Inr f \<Rightarrow> Done (Reply 201 (FindingBody (newFindingResponse f))))) (\<lambda>a. Done (demo_recording, a))"
proof -
  have gate: "gate_role StaffRoles (demo_staff ''1'') h = h (the (demo_staff ''1''))" for h :: "Claims \<Rightarrow> insp_answer"
    by (simp add: gate_role_def gate_authenticated_def checked_def require_claims_def demo_staff_def StaffRoles_def)
  show "insp_call demo_insp demo_submission =
     and_then (and_then (Submit demo_inspections 7 1 demo_insp_scope)
       (\<lambda>r. case r of Inl x \<Rightarrow> refuse (insp_domain_error (nh_text_of demo_insp) x)
         | Inr s \<Rightarrow> Done (Reply 200 (InspSessionBody (newInspSessionResponse s))))) (\<lambda>a. Done (demo_submission, a))"
    by (simp add: insp_call_def demo_submission_def gate handleStart_def handleSubmit_def checked_def demo_scopes demo_path
        answer_insp_def answer_of_def)
  show "insp_call demo_insp demo_recording =
     and_then (and_then (RecordFinding demo_inspections 7
      \<lparr>fd_ID = uuid_nil, fd_SessionID = uuid_nil, fd_ItemKey = qn_ItemKey demo_red_request, fd_Result = qn_Result demo_red_request,
       fd_Severity = qn_Severity demo_red_request, fd_Notes = qn_Notes demo_red_request, fd_RecordedBy = None, fd_CreatedAt = 0\<rparr>
      1 demo_insp_scope)
       (\<lambda>r. case r of Inl x \<Rightarrow> refuse (insp_domain_error (nh_text_of demo_insp) x)
         | Inr f \<Rightarrow> Done (Reply 201 (FindingBody (newFindingResponse f))))) (\<lambda>a. Done (demo_recording, a))"
    by (simp add: insp_call_def demo_recording_def gate handleRecordFinding_def checked_def demo_scopes demo_path
        answer_insp_def answer_of_def)
qed

lemma demo_race:
  "\<exists>w. insp_runs demo_insp {demo_submission, demo_recording} demo_open
      [Done (demo_submission, Reply 200 (InspSessionBody (newInspSessionResponse demo_stuck_session))),
       Done (demo_recording, Reply 201 (FindingBody (newFindingResponse demo_red)))] w \<and> nw_db w = demo_stuck_db"
proof -
  obtain es w where tail: "run demo_tail (\<lambda>_. demo_insp_env 29) (demo_open\<lparr>nw_db := demo_raced_db\<rparr>) = (Inr demo_stuck_session, es, w)"
    and w: "nw_db w = demo_stuck_db"
    using demo_finished by blast
  have g: "\<exists>f. demo_tail = Act f" by (auto simp: demo_tail_def try_then_def on_db_def effect_def)
  have first: "advance 3 (insp_call demo_insp demo_submission) (\<lambda>_. demo_insp_env 29) demo_open =
      (and_then (and_then demo_tail
       (\<lambda>r. case r of Inl x \<Rightarrow> refuse (insp_domain_error (nh_text_of demo_insp) x)
         | Inr s \<Rightarrow> Done (Reply 200 (InspSessionBody (newInspSessionResponse s))))) (\<lambda>a. Done (demo_submission, a)), demo_open)"
    unfolding demo_calls(1)
    by (rule conjunct1 [OF advance_waiting [OF advance_waiting [OF conjI [OF demo_interrupted g]]]])
  have second: "run (insp_call demo_insp demo_recording) (\<lambda>_. demo_insp_env 28) demo_open =
      ((demo_recording, Reply 201 (FindingBody (newFindingResponse demo_red))), \<lambda>_. demo_insp_env 28, demo_open\<lparr>nw_db := demo_raced_db\<rparr>)"
    by (simp add: demo_calls(2) run_and_then demo_recorded)
  have third: "run (and_then (and_then demo_tail
       (\<lambda>r. case r of Inl x \<Rightarrow> refuse (insp_domain_error (nh_text_of demo_insp) x)
         | Inr s \<Rightarrow> Done (Reply 200 (InspSessionBody (newInspSessionResponse s))))) (\<lambda>a. Done (demo_submission, a)))
      (\<lambda>_. demo_insp_env 29) (demo_open\<lparr>nw_db := demo_raced_db\<rparr>) =
    ((demo_submission, Reply 200 (InspSessionBody (newInspSessionResponse demo_stuck_session))), es, w)"
    by (simp add: run_and_then tail)
  have "(pool_step (\<lambda>_. True) (insp_call demo_insp ` {demo_submission, demo_recording}))\<^sup>*\<^sup>* ([], demo_open)
      ([Done (demo_submission, Reply 200 (InspSessionBody (newInspSessionResponse demo_stuck_session))),
        Done (demo_recording, Reply 201 (FindingBody (newFindingResponse demo_red)))], w)"
    by (rule pool_overlap [OF first second third]) simp_all
  with w show ?thesis unfolding insp_runs_def by blast
qed

end
