(* ===== verification/Insp_Props.thy ===== *)
theory Insp_Props
  imports Insp_Demo
begin

text \<open>
  The properties of inspections: of any pool of calls of the HTTP routes, from any consistent tables, with
  any faults, clocks and identifiers.
\<close>

section \<open>Integrity\<close>



section \<open>The seal\<close>




lemma demo_alone: "\<exists>a w'. insp_runs demo_insp {x} w [Done a] w'"
proof -
  obtain a es w' where "run (insp_call demo_insp x) (\<lambda>_. demo_insp_env 28) w = (a, es, w')"
    by (cases "run (insp_call demo_insp x) (\<lambda>_. demo_insp_env 28) w") auto
  then have "insp_runs demo_insp {x} w [Done a] w'"
    unfolding insp_runs_def by (rule pool_alone) simp_all
  then show ?thesis by blast
qed


section \<open>Reports\<close>




section \<open>Verification\<close>








section \<open>Who can do what\<close>

text \<open>
  C36. A session that none of the callers may work on is left alone. Unless some caller of a staff route is
  its inspector, or an operator, no calls at all, however they overlap, change the session, its findings,
  its evidence, its reports or its audit log.
\<close>

theorem strangers_leave_session:
  assumes "insp_runs c X w ps w'" and "insp_ok (nh_service c) (nw_db w)" and "get_session k (nw_db w) = Some s"
    and "\<And>cl rq. (cl, rq) \<in> X \<Longrightarrow> \<not> may_work c cl s"
  shows "untouched k (nw_db w) (nw_db w')"
proof -
  have "worked (\<lambda>r. \<exists>cl rq. (cl, rq) \<in> X \<and> may_work c cl r) w w'"
    using insp_runs_keep [OF assms(1), of "{}" "\<lambda>r. \<exists>cl rq. (cl, rq) \<in> X \<and> may_work c cl r"] assms(2) by (auto simp: insp_inv_def)
  then show ?thesis using assms(3,4) unfolding worked_def by blast
qed

theorem strangers_leave_session_witness:
  "\<exists>a w'. insp_runs demo_insp {(demo_staff ''2'', PostFinding ''7'' (JsonBody demo_red_request))} demo_open [Done a] w' \<and>
    untouched 7 (nw_db demo_open) (nw_db w')"
proof -
  obtain a w' where w': "insp_runs demo_insp {(demo_staff ''2'', PostFinding ''7'' (JsonBody demo_red_request))} demo_open [Done a] w'"
    using demo_alone by blast
  have ok: "insp_ok (nh_service demo_insp) (nw_db demo_open)"
    by (simp add: demo_insp_ok isKnownInspStatus_def AllInspStatuses_def)
  have "untouched 7 (nw_db demo_open) (nw_db w')"
    by (rule strangers_leave_session [OF w' ok demo_insp_session_get]) (simp add: demo_stranger)
  with w' show ?thesis by blast
qed

text \<open>
  C37. A caller is shown only what its scope admits. Whatever else runs, a session in an answer is in the
  tables and was visible to the caller, by its tenant, as its inspector or customer, or as an operator, or
  is the one the caller created; and a finding, an evidence record, a report or a verification in an answer
  belongs to a session that was visible to the caller.
\<close>

theorem insp_reads_confined:
  assumes "insp_runs c X w ps w'" and "insp_ok (nh_service c) (nw_db w)" and "Done ((cl, rq), Reply n b) \<in> set ps"
  shows "shows_true c {} cl w' b"
proof -
  have "insp_inv (nh_service c) {} w" using assms(2) by (simp add: insp_inv_def)
  from insp_runs_keep [OF assms(1) this, of "\<lambda>_. True"] assms(3) have "reply_true c {} cl (Reply n b) w'" by blast
  then show ?thesis by simp
qed

theorem insp_reads_confined_witness:
  "\<exists>w. insp_runs demo_insp {demo_submission, demo_recording} demo_open
      [Done (demo_submission, Reply 200 (InspSessionBody (newInspSessionResponse demo_stuck_session))),
       Done (demo_recording, Reply 201 (FindingBody (newFindingResponse demo_red)))] w \<and>
    shows_true demo_insp {} (demo_staff ''1'') w (FindingBody (newFindingResponse demo_red))"
proof -
  obtain w where w: "insp_runs demo_insp {demo_submission, demo_recording} demo_open
      [Done (demo_submission, Reply 200 (InspSessionBody (newInspSessionResponse demo_stuck_session))),
       Done (demo_recording, Reply 201 (FindingBody (newFindingResponse demo_red)))] w"
    using demo_race by blast
  have ok: "insp_ok (nh_service demo_insp) (nw_db demo_open)"
    by (simp add: demo_insp_ok isKnownInspStatus_def AllInspStatuses_def)
  have "shows_true demo_insp {} (demo_staff ''1'') w (FindingBody (newFindingResponse demo_red))"
    by (rule insp_reads_confined [OF w ok, of _ "PostFinding ''7'' (JsonBody demo_red_request)" 201]) (simp add: demo_recording_def)
  with w show ?thesis by blast
qed

section \<open>A submission that can never be reported\<close>




section \<open>Examples of the selection and of the canonical input\<close>

theorem latest_findings_selected_witness:
  "SelectLatestFindings demo_inspections (rev demo_findings) = SelectLatestFindings demo_inspections demo_findings \<and>
    distinct (map fd_ItemKey (SelectLatestFindings demo_inspections demo_findings))"
proof -
  have ids: "distinct (map fd_ID demo_findings)" by (simp add: demo_findings_def demo_finding_def)
  have "inj (nsv_uuid_text demo_inspections)" by (simp add: demo_text_inject)
  from latest_findings_selected [OF ids this, of "rev demo_findings"] show ?thesis by simp
qed

lemma demo_uuid_texts: "uuid_texts demo_inspections"
proof -
  have "list_all (\<lambda>d. hex_digit d \<in> set ''0123456789abcdef-'') [0..<16]" by code_simp
  then have "hex_digit d \<in> set ''0123456789abcdef-''" if "d < 16" for d
    using that by (simp only: list_all_iff) simp
  then have "set (demo_text u) \<subseteq> set ''0123456789abcdef-''" for u
    using demo_nibble_less unfolding demo_text_def by auto
  then show ?thesis by (simp add: uuid_texts_def demo_text_inject demo_text_def)
qed

theorem canonical_input_determines_witness:
  "map (finding_digest demo_inspections) demo_findings =
     map (finding_digest demo_inspections) (map (fd_CreatedAt_update (\<lambda>_. 9)) demo_findings)"
proof -
  let ?s = "demo_insp_session InspSubmitted"
  let ?later = "map (fd_CreatedAt_update (\<lambda>_. 9)) demo_findings"
  have "finding_line demo_inspections (f\<lparr>fd_CreatedAt := 9\<rparr>) = finding_line demo_inspections f" for f
    by (simp add: finding_line_def)
  then have "map (finding_line demo_inspections) ?later = map (finding_line demo_inspections) demo_findings" by simp
  then have same: "BuildReportInput demo_inspections ?s demo_findings [demo_evidence] 1 = BuildReportInput demo_inspections ?s ?later [demo_evidence] 1"
    unfolding BuildReportInput_def report_lines_def by (simp only: length_map)
  have name: "CHR 0x0A \<notin> set (is_TemplateName ?s)" by (simp add: demo_insp_session_def demo_template_def system_template_def)
  have clean: "\<forall>f \<in> set demo_findings. finding_clean f" "\<forall>f \<in> set ?later. finding_clean f" "\<forall>e \<in> set [demo_evidence]. evidence_clean e"
    by (simp_all add: demo_findings_def demo_finding_def demo_evidence_def finding_clean_def evidence_clean_def plain_def
        ResultPass_def SeverityGreen_def)
  from canonical_input_determines [OF same demo_uuid_texts name clean(1,3) name clean(2,3)] show ?thesis by blast
qed

end
