(* ===== verification/Id_Models.thy ===== *)
theory Id_Models
  imports Sql Platform_Http Handlers
begin

text \<open>
  The data of the identity domain, \<open>backend/identity/models.go\<close> and the records of \<open>audit.go\<close> and
  \<open>config.go\<close>: accounts, role grants, refresh sessions, verification tokens, the audit trail; and what
  one action of a handler gets from its environment.
\<close>

section \<open>Roles\<close>

text \<open>A \<open>Role\<close> of the code is a string; the nine fixed ones have a priority.\<close>

type_synonym Role = string

definition RoleCustomer :: Role where "RoleCustomer = ''CUSTOMER''"
definition IdRoleTechnician :: Role where "IdRoleTechnician = ''TECHNICIAN''"
definition IdRoleDispatcher :: Role where "IdRoleDispatcher = ''DISPATCHER''"
definition IdRoleGarage :: Role where "IdRoleGarage = ''GARAGE''"
definition RoleFleetAdmin :: Role where "RoleFleetAdmin = ''FLEET_ADMIN''"
definition RoleSupport :: Role where "RoleSupport = ''SUPPORT''"
definition RoleFinance :: Role where "RoleFinance = ''FINANCE''"
definition RoleAdmin :: Role where "RoleAdmin = ''ADMIN''"
definition RoleSuperAdmin :: Role where "RoleSuperAdmin = ''SUPER_ADMIN''"

lemmas role_names = RoleCustomer_def IdRoleTechnician_def IdRoleDispatcher_def IdRoleGarage_def RoleFleetAdmin_def
  RoleSupport_def RoleFinance_def RoleAdmin_def RoleSuperAdmin_def

definition rolePriority :: "Role \<rightharpoonup> int" where
  "rolePriority = map_of
     [(RoleSuperAdmin, 8), (RoleAdmin, 7), (RoleFinance, 6), (RoleSupport, 5), (RoleFleetAdmin, 4),
      (IdRoleGarage, 3), (IdRoleDispatcher, 2), (IdRoleTechnician, 1), (RoleCustomer, 0)]"

text \<open>The loop of \<open>HighestRole\<close>, from the best priority and role so far.\<close>

fun highest_role :: "int \<Rightarrow> string \<Rightarrow> Role list \<Rightarrow> string" where
  "highest_role best result [] = result"
| "highest_role best result (r # rs) =
     (case rolePriority r of
        Some p \<Rightarrow> if p > best then highest_role p r rs else highest_role best result rs
      | None \<Rightarrow> highest_role best result rs)"

definition HighestRole :: "Role list \<Rightarrow> string" where
  "HighestRole roles = highest_role (-1) [] roles"

record RoleGrant =
  rg_Role :: Role
  rg_TenantID :: "uuid option"

section \<open>Accounts, sessions, tokens\<close>

definition StatusActive :: string where "StatusActive = ''active''"
definition StatusSuspended :: string where "StatusSuspended = ''suspended''"
definition StatusDeleted :: string where "StatusDeleted = ''deleted''"

record User =
  us_ID :: uuid
  us_Email :: string
  us_Phone :: string
  us_FullName :: string
  us_PasswordHash :: string
  us_Status :: string
  us_Roles :: "Role list"
  us_EmailVerifiedAt :: "gotime option"
  us_PhoneVerifiedAt :: "gotime option"
  us_CreatedAt :: gotime
  us_UpdatedAt :: gotime

definition verificationSatisfied :: "User \<Rightarrow> bool" where
  "verificationSatisfied u \<longleftrightarrow>
     \<not> us_EmailVerifiedAt u = None \<and> \<not> (us_Phone u \<noteq> [] \<and> us_PhoneVerifiedAt u = None)"

record Session =
  se_ID :: uuid
  se_UserID :: uuid
  se_RefreshTokenHash :: string
  se_DeviceName :: string
  se_IPAddress :: string
  se_CreatedAt :: gotime
  se_ExpiresAt :: gotime
  se_AbsoluteExpiresAt :: gotime
  se_RevokedAt :: "gotime option"

type_synonym VerificationChannel = string

definition ChannelEmail :: VerificationChannel where "ChannelEmail = ''email''"
definition ChannelPhone :: VerificationChannel where "ChannelPhone = ''phone''"

definition IsValidVerificationChannel :: "VerificationChannel \<Rightarrow> bool" where
  "IsValidVerificationChannel channel \<longleftrightarrow> channel = ChannelEmail \<or> channel = ChannelPhone"

record VerificationToken =
  vt_ID :: uuid
  vt_UserID :: uuid
  vt_Channel :: VerificationChannel
  vt_TokenHash :: string
  vt_ExpiresAt :: gotime
  vt_ConsumedAt :: "gotime option"
  vt_CreatedAt :: gotime

section \<open>The audit trail\<close>

text \<open>The values the code puts into the metadata of an entry; a time stands for its RFC 3339 text.\<close>

datatype meta = MText string | MInt int | MTime gotime

record AuditEntry =
  ae_ActorID :: "uuid option"
  ae_Action :: string
  ae_ObjectType :: string
  ae_ObjectID :: string
  ae_TenantID :: "uuid option"
  ae_Metadata :: "(string \<times> meta) list"

record AuditRecord =
  au_ID :: int64
  au_ActorID :: "uuid option"
  au_Action :: string
  au_ObjectType :: string
  au_ObjectID :: string
  au_TenantID :: "uuid option"
  au_Metadata :: "(string \<times> meta) list"
  au_CreatedAt :: gotime

definition ActionUserRegistered :: string where "ActionUserRegistered = ''identity.user.registered''"
definition ActionUserLogin :: string where "ActionUserLogin = ''identity.user.login''"
definition ActionSessionRefreshed :: string where "ActionSessionRefreshed = ''identity.session.refreshed''"
definition ActionSessionRevoked :: string where "ActionSessionRevoked = ''identity.session.revoked''"
definition ActionRoleGranted :: string where "ActionRoleGranted = ''identity.role.granted''"
definition ActionSessionRevokedAll :: string where "ActionSessionRevokedAll = ''identity.session.revoked_all''"
definition ActionPasswordChanged :: string where "ActionPasswordChanged = ''identity.user.password_changed''"
definition ActionBreachCheckUnavailable :: string where
  "ActionBreachCheckUnavailable = ''identity.password.breach_check_unavailable''"
definition ActionVerificationIssued :: string where "ActionVerificationIssued = ''identity.verification.issued''"
definition ActionVerificationVerified :: string where "ActionVerificationVerified = ''identity.verification.verified''"
definition ActionVerificationResent :: string where "ActionVerificationResent = ''identity.verification.resent''"
definition ActionUsersListed :: string where "ActionUsersListed = ''identity.users.listed''"

lemmas audit_actions = ActionUserRegistered_def ActionUserLogin_def ActionSessionRefreshed_def
  ActionSessionRevoked_def ActionRoleGranted_def ActionSessionRevokedAll_def ActionPasswordChanged_def
  ActionBreachCheckUnavailable_def ActionVerificationIssued_def ActionVerificationVerified_def
  ActionVerificationResent_def ActionUsersListed_def

record AuditFilter =
  af_ActorID :: "uuid option"
  af_Action :: string
  af_ObjectType :: string
  af_ObjectID :: string
  af_TenantID :: "uuid option"
  af_Since :: "gotime option"
  af_Until :: "gotime option"
  af_Limit :: int
  af_Offset :: int

definition defaultAuditListLimit :: int where "defaultAuditListLimit = 20"
definition maxAuditListLimit :: int where "maxAuditListLimit = 100"

definition AuditFilter_clamp :: "AuditFilter \<Rightarrow> AuditFilter" where
  "AuditFilter_clamp f =
     (let f1 = (if af_Limit f \<le> 0 then f\<lparr>af_Limit := defaultAuditListLimit\<rparr> else f);
          f2 = (if af_Limit f1 > maxAuditListLimit then f1\<lparr>af_Limit := maxAuditListLimit\<rparr> else f1)
      in if af_Offset f2 < 0 then f2\<lparr>af_Offset := 0\<rparr> else f2)"

section \<open>Configuration\<close>

definition time_hour :: duration where "time_hour = 60 * time_minute"

record VerificationConfig =
  vc_Grace :: duration
  vc_TokenTTL :: duration
  vc_ResendCooldown :: duration
  vc_ResendLimit :: int
  vc_DevEcho :: bool

definition DefaultVerificationGrace :: duration where "DefaultVerificationGrace = 24 * time_hour"
definition DefaultVerificationTokenTTL :: duration where "DefaultVerificationTokenTTL = 24 * time_hour"
definition DefaultResendCooldown :: duration where "DefaultResendCooldown = time_minute"
definition DefaultResendLimit :: int where "DefaultResendLimit = 5"
definition verificationResendLimitWindow :: duration where "verificationResendLimitWindow = 24 * time_hour"

definition DefaultVerificationConfig :: VerificationConfig where
  "DefaultVerificationConfig =
     \<lparr>vc_Grace = DefaultVerificationGrace, vc_TokenTTL = DefaultVerificationTokenTTL,
      vc_ResendCooldown = DefaultResendCooldown, vc_ResendLimit = DefaultResendLimit, vc_DevEcho = False\<rparr>"

text \<open>\<open>Validate\<close> of the configuration, as whether it refuses to boot.\<close>

definition VerificationConfig_valid :: "VerificationConfig \<Rightarrow> string \<Rightarrow> bool" where
  "VerificationConfig_valid c devEnv \<longleftrightarrow>
     \<not> vc_Grace c < 0 \<and> \<not> vc_TokenTTL c \<le> 0 \<and> \<not> vc_ResendCooldown c < 0 \<and> \<not> vc_ResendLimit c \<le> 0 \<and>
     \<not> (vc_DevEcho c \<and> (devEnv = ''staging'' \<or> devEnv = ''production''))"

section \<open>Errors and environments\<close>

text \<open>
  An error is a platform error (which wrapping keeps), one of the two sentinels of the store, or
  something else: a failed statement, a failed signature, a failed publication.
\<close>

datatype id_error = IdApp Error | ErrUserNotFound | ErrVerificationTokenConsumed | IdFailed

fun id_any_error :: "id_error \<Rightarrow> any_error" where
  "id_any_error (IdApp e) = AppError e"
| "id_any_error _ = OtherError"

definition isNotFound :: "id_error \<Rightarrow> bool" where
  "isNotFound e \<longleftrightarrow> e = ErrUserNotFound"

text \<open>
  What one action gets: the fault that befalls it, the database's clock, the next number of its
  sequences, the process's clock, a fresh identifier, random bytes (\<open>None\<close> if the source fails),
  whether a message can be published, and the answer of the breach list (\<open>None\<close> if it gives none).
\<close>

record id_env =
  ie_flt :: db_fault
  ie_now :: gotime
  ie_seq :: int64
  ie_clock :: gotime
  ie_uuid :: uuid
  ie_random :: "string option"
  ie_pub :: bool
  ie_answer :: "(int \<times> string) option"

end
