(* ===== verification/Id_Store.thy ===== *)
theory Id_Store
  imports Id_Models
begin

text \<open>
  The identity repository, \<open>backend/identity/store.go\<close>, over the tables of its migrations. An operation
  takes the environment of its action and the tables. \<open>lower\<close> is PostgreSQL's \<open>LOWER\<close> under the collation
  of the database. A stored time is kept as given; PostgreSQL rounds it to microseconds.
\<close>

section \<open>Tables\<close>

record user_row =
  ur_id :: uuid
  ur_email :: string
  ur_phone :: "string option"
  ur_password_hash :: string
  ur_full_name :: string
  ur_status :: string
  ur_email_verified_at :: "gotime option"
  ur_phone_verified_at :: "gotime option"
  ur_created_at :: gotime
  ur_updated_at :: gotime

record role_row =
  ro_id :: int64
  ro_user_id :: uuid
  ro_role :: Role
  ro_tenant_id :: "uuid option"
  ro_created_at :: gotime

record id_db =
  users_t :: "user_row list"
  user_roles_t :: "role_row list"
  sessions_t :: "Session list"
  vtokens_t :: "VerificationToken list"
  audit_log_t :: "AuditRecord list"

text \<open>
  \<open>strings.ToLower\<close>, as far as its result can be ASCII: besides the letters only the dotted I (bytes
  C4 B0) and the Kelvin sign (bytes E2 84 AA) have a lower case in ASCII. Other characters stay
  outside ASCII and keep their bytes here.
\<close>

fun to_lower :: "string \<Rightarrow> string" where
  "to_lower [] = []"
| "to_lower (c # cs) =
     (case cs of
        d # ds \<Rightarrow>
          if c = CHR 0xC4 \<and> d = CHR 0xB0 then CHR ''i'' # to_lower ds
          else (case ds of
            g # gs \<Rightarrow> if c = CHR 0xE2 \<and> d = CHR 0x84 \<and> g = CHR 0xAA then CHR ''k'' # to_lower gs
                      else ascii_lower c # to_lower cs
          | [] \<Rightarrow> ascii_lower c # to_lower cs)
      | [] \<Rightarrow> [ascii_lower c])"

section \<open>Accounts\<close>

definition conflict :: "string \<Rightarrow> id_error" where "conflict detail = IdApp (ErrConflict detail)"

text \<open>The unique indexes of \<open>users\<close>, in the order they are checked, and \<open>mapUserConflict\<close>.\<close>

definition user_conflict :: "(string \<Rightarrow> string) \<Rightarrow> user_row \<Rightarrow> user_row list \<Rightarrow> id_error option" where
  "user_conflict lower r rows =
     (if list_ex (\<lambda>s. ur_id s = ur_id r) rows then Some (conflict ''user already exists'')
      else if list_ex (\<lambda>s. lower (ur_email s) = lower (ur_email r)) rows
        then Some (conflict ''email address is already registered'')
      else if ur_phone r \<noteq> None \<and> list_ex (\<lambda>s. ur_phone s = ur_phone r) rows
        then Some (conflict ''phone number is already registered'')
      else None)"

definition grant_exists :: "uuid \<Rightarrow> Role \<Rightarrow> uuid option \<Rightarrow> role_row list \<Rightarrow> bool" where
  "grant_exists user role tenant rows \<longleftrightarrow>
     list_ex (\<lambda>r. ro_user_id r = user \<and> ro_role r = role \<and> ro_tenant_id r = tenant) rows"

definition status_checks :: "string \<Rightarrow> bool" where
  "status_checks s \<longleftrightarrow> s = StatusActive \<or> s = StatusSuspended \<or> s = StatusDeleted"

text \<open>The inserts of the initial roles, from the n-th statement of the transaction on.\<close>

fun insert_roles :: "id_env \<Rightarrow> nat \<Rightarrow> uuid \<Rightarrow> Role list \<Rightarrow> role_row list \<Rightarrow> id_error + role_row list" where
  "insert_roles e n user [] rows = Inr rows"
| "insert_roles e n user (r # rs) rows =
     (if fails (ie_flt e) n then Inl IdFailed
      else if rolePriority r = None then Inl IdFailed
      else if grant_exists user r None rows then Inl (conflict ''user already exists'')
      else insert_roles e (Suc n) user rs
        (row_ins \<lparr>ro_id = ie_seq e + of_nat (n - 2), ro_user_id = user, ro_role = r, ro_tenant_id = None,
                  ro_created_at = ie_now e\<rparr> rows))"

definition user_row_of :: "gotime \<Rightarrow> User \<Rightarrow> user_row" where
  "user_row_of now u =
     \<lparr>ur_id = us_ID u, ur_email = us_Email u, ur_phone = nullif_empty (us_Phone u),
      ur_password_hash = us_PasswordHash u, ur_full_name = us_FullName u, ur_status = us_Status u,
      ur_email_verified_at = None, ur_phone_verified_at = None, ur_created_at = now, ur_updated_at = now\<rparr>"

definition CreateUser :: "(string \<Rightarrow> string) \<Rightarrow> User \<Rightarrow> id_env \<Rightarrow> id_db \<Rightarrow> (id_error + User) \<times> id_db" where
  "CreateUser lower u e db =
     (let u1 = u\<lparr>us_Email := to_lower (trim_space (us_Email u)), us_Phone := trim_space (us_Phone u)\<rparr>;
          roles = (if us_Roles u = [] then [RoleCustomer] else us_Roles u);
          r = user_row_of (ie_now e) u1 in
      if fails (ie_flt e) 0 \<or> fails (ie_flt e) 1 \<or> \<not> status_checks (ur_status r) then (Inl IdFailed, db)
      else case user_conflict lower r (users_t db) of
        Some err \<Rightarrow> (Inl err, db)
      | None \<Rightarrow>
          (case insert_roles e 2 (ur_id r) roles (user_roles_t db) of
             Inl err \<Rightarrow> (Inl err, db)
           | Inr rows \<Rightarrow>
               finish IdFailed (ie_flt e) (2 + length roles)
                 (u1\<lparr>us_CreatedAt := ie_now e, us_UpdatedAt := ie_now e, us_Roles := roles\<rparr>) db
                 (db\<lparr>users_t := row_ins r (users_t db), user_roles_t := rows\<rparr>)))"

definition user_exists :: "uuid \<Rightarrow> id_db \<Rightarrow> bool" where
  "user_exists u db \<longleftrightarrow> list_ex (\<lambda>r. ur_id r = u) (users_t db)"

definition AssignRole :: "uuid \<Rightarrow> Role \<Rightarrow> uuid option \<Rightarrow> id_env \<Rightarrow> id_db \<Rightarrow> (id_error + unit) \<times> id_db" where
  "AssignRole user role tenant e db =
     (if rolePriority role = None
        then (Inl (IdApp (ErrValidation ''unknown role'' [\<lparr>fe_Field = ''role'', fe_Issue = ''invalid''\<rparr>])), db)
      else if fails (ie_flt e) 0 then (Inl IdFailed, db)
      else if grant_exists user role tenant (user_roles_t db) then (Inl (conflict ''role already assigned''), db)
      else if \<not> user_exists user db then (Inl IdFailed, db)
      else finish IdFailed (ie_flt e) 0 () db
        (db\<lparr>user_roles_t := row_ins \<lparr>ro_id = ie_seq e, ro_user_id = user, ro_role = role, ro_tenant_id = tenant,
              ro_created_at = ie_now e\<rparr> (user_roles_t db)\<rparr>))"

text \<open>The grants of a user, \<open>ORDER BY created_at, id\<close>.\<close>

definition grants_of :: "uuid \<Rightarrow> id_db \<Rightarrow> RoleGrant list" where
  "grants_of u db =
     map (\<lambda>r. \<lparr>rg_Role = ro_role r, rg_TenantID = ro_tenant_id r\<rparr>)
       (sort_key ro_created_at (sort_key (\<lambda>r. sint (ro_id r)) (filter (\<lambda>r. ro_user_id r = u) (user_roles_t db))))"

text \<open>A read fails under any fault and changes nothing.\<close>

definition reading :: "(id_db \<Rightarrow> id_error + 'a) \<Rightarrow> id_env \<Rightarrow> id_db \<Rightarrow> (id_error + 'a) \<times> id_db" where
  "reading f e db = (if ie_flt e = Healthy then f db else Inl IdFailed, db)"

definition GetRoleGrants :: "uuid \<Rightarrow> id_env \<Rightarrow> id_db \<Rightarrow> (id_error + RoleGrant list) \<times> id_db" where
  "GetRoleGrants u = reading (\<lambda>db. Inr (grants_of u db))"

definition rolesFromGrants :: "RoleGrant list \<Rightarrow> Role list" where
  "rolesFromGrants gs = map rg_Role gs"

definition scanUser :: "user_row \<Rightarrow> User" where
  "scanUser r =
     \<lparr>us_ID = ur_id r, us_Email = ur_email r, us_Phone = (case ur_phone r of None \<Rightarrow> [] | Some p \<Rightarrow> p),
      us_FullName = ur_full_name r, us_PasswordHash = ur_password_hash r, us_Status = ur_status r,
      us_Roles = [], us_EmailVerifiedAt = ur_email_verified_at r, us_PhoneVerifiedAt = ur_phone_verified_at r,
      us_CreatedAt = ur_created_at r, us_UpdatedAt = ur_updated_at r\<rparr>"

definition select_user :: "uuid \<Rightarrow> id_env \<Rightarrow> id_db \<Rightarrow> (id_error + User) \<times> id_db" where
  "select_user u = reading (\<lambda>db.
     case row_get ur_id u (users_t db) of None \<Rightarrow> Inl ErrUserNotFound | Some r \<Rightarrow> Inr (scanUser r))"

definition select_user_by_email ::
  "(string \<Rightarrow> string) \<Rightarrow> string \<Rightarrow> id_env \<Rightarrow> id_db \<Rightarrow> (id_error + User) \<times> id_db" where
  "select_user_by_email lower email = reading (\<lambda>db.
     case find (\<lambda>r. ur_email r = lower (trim_space email)) (users_t db) of
       None \<Rightarrow> Inl ErrUserNotFound
     | Some r \<Rightarrow> Inr (scanUser r))"

text \<open>A page of accounts, \<open>ORDER BY created_at DESC, id\<close>; a negative limit or offset is an error.\<close>

definition select_users :: "int \<Rightarrow> int \<Rightarrow> id_env \<Rightarrow> id_db \<Rightarrow> (id_error + User list) \<times> id_db" where
  "select_users limit offset = reading (\<lambda>db.
     if limit < 0 \<or> offset < 0 then Inl IdFailed
     else Inr (map scanUser (take (nat limit) (drop (nat offset)
       (sort_key (\<lambda>r. - ur_created_at r) (sort_key (\<lambda>r. uint (ur_id r)) (users_t db)))))))"

definition batchRoleGrants :: "uuid list \<Rightarrow> id_env \<Rightarrow> id_db \<Rightarrow> (id_error + (uuid \<Rightarrow> RoleGrant list)) \<times> id_db" where
  "batchRoleGrants ids = reading (\<lambda>db. Inr (\<lambda>u. if u \<in> set ids then grants_of u db else []))"

definition UpdatePassword :: "uuid \<Rightarrow> string \<Rightarrow> id_env \<Rightarrow> id_db \<Rightarrow> (id_error + unit) \<times> id_db" where
  "UpdatePassword user passwordHash e db =
     (if fails (ie_flt e) 0 then (Inl IdFailed, db)
      else if \<not> user_exists user db then (Inl ErrUserNotFound, db)
      else finish IdFailed (ie_flt e) 0 () db
        (db\<lparr>users_t := row_upd ur_id user (\<lambda>r. r\<lparr>ur_password_hash := passwordHash, ur_updated_at := ie_now e\<rparr>)
              (users_t db)\<rparr>))"

section \<open>Sessions\<close>

definition CreateSession :: "Session \<Rightarrow> id_env \<Rightarrow> id_db \<Rightarrow> (id_error + unit) \<times> id_db" where
  "CreateSession s e db =
     (if fails (ie_flt e) 0 then (Inl IdFailed, db)
      else if list_ex (\<lambda>r. se_ID r = se_ID s \<or> se_RefreshTokenHash r = se_RefreshTokenHash s) (sessions_t db)
        then (Inl (conflict ''session already exists''), db)
      else if \<not> user_exists (se_UserID s) db then (Inl IdFailed, db)
      else finish IdFailed (ie_flt e) 0 () db
        (db\<lparr>sessions_t := row_ins (s\<lparr>se_CreatedAt := ie_now e, se_RevokedAt := None\<rparr>) (sessions_t db)\<rparr>))"

definition GetSessionByRefreshHash :: "string \<Rightarrow> id_env \<Rightarrow> id_db \<Rightarrow> (id_error + Session) \<times> id_db" where
  "GetSessionByRefreshHash hash = reading (\<lambda>db.
     case find (\<lambda>s. se_RefreshTokenHash s = hash) (sessions_t db) of None \<Rightarrow> Inl ErrUserNotFound | Some s \<Rightarrow> Inr s)"

definition GetSessionByID :: "uuid \<Rightarrow> id_env \<Rightarrow> id_db \<Rightarrow> (id_error + Session) \<times> id_db" where
  "GetSessionByID k = reading (\<lambda>db.
     case row_get se_ID k (sessions_t db) of None \<Rightarrow> Inl ErrUserNotFound | Some s \<Rightarrow> Inr s)"

definition ListUserSessions :: "uuid \<Rightarrow> id_env \<Rightarrow> id_db \<Rightarrow> (id_error + Session list) \<times> id_db" where
  "ListUserSessions user = reading (\<lambda>db.
     Inr (sort_key (\<lambda>s. - se_CreatedAt s) (sort_key (\<lambda>s. uint (se_ID s))
       (filter (\<lambda>s. se_UserID s = user) (sessions_t db)))))"

definition revoke :: "gotime \<Rightarrow> Session \<Rightarrow> Session" where
  "revoke now s = s\<lparr>se_RevokedAt := Some now\<rparr>"

text \<open>The statement has no condition on \<open>revoked_at\<close>: a revoked session is revoked again.\<close>

definition Store_RevokeSession :: "uuid \<Rightarrow> id_env \<Rightarrow> id_db \<Rightarrow> (id_error + unit) \<times> id_db" where
  "Store_RevokeSession k e db =
     (if fails (ie_flt e) 0 then (Inl IdFailed, db)
      else if row_get se_ID k (sessions_t db) = None then (Inl ErrUserNotFound, db)
      else finish IdFailed (ie_flt e) 0 () db
        (db\<lparr>sessions_t := row_upd se_ID k (revoke (ie_now e)) (sessions_t db)\<rparr>))"

definition live_of :: "uuid \<Rightarrow> Session \<Rightarrow> bool" where
  "live_of user s \<longleftrightarrow> se_UserID s = user \<and> se_RevokedAt s = None"

definition RevokeUserSessions :: "uuid \<Rightarrow> id_env \<Rightarrow> id_db \<Rightarrow> (id_error + int) \<times> id_db" where
  "RevokeUserSessions user e db =
     finish IdFailed (ie_flt e) 0 (int (length (filter (live_of user) (sessions_t db)))) db
       (db\<lparr>sessions_t := map (\<lambda>s. if live_of user s then revoke (ie_now e) s else s) (sessions_t db)\<rparr>)"

section \<open>The audit trail\<close>

definition audit_row :: "id_env \<Rightarrow> AuditEntry \<Rightarrow> AuditRecord" where
  "audit_row e a =
     \<lparr>au_ID = ie_seq e, au_ActorID = ae_ActorID a, au_Action = ae_Action a, au_ObjectType = ae_ObjectType a,
      au_ObjectID = ae_ObjectID a, au_TenantID = ae_TenantID a, au_Metadata = ae_Metadata a, au_CreatedAt = ie_now e\<rparr>"

definition InsertAudit :: "AuditEntry \<Rightarrow> id_env \<Rightarrow> id_db \<Rightarrow> (id_error + unit) \<times> id_db" where
  "InsertAudit a e db =
     finish IdFailed (ie_flt e) 0 () db (db\<lparr>audit_log_t := row_ins (audit_row e a) (audit_log_t db)\<rparr>)"

definition audit_matches :: "AuditFilter \<Rightarrow> AuditRecord \<Rightarrow> bool" where
  "audit_matches f r \<longleftrightarrow>
     (case af_ActorID f of None \<Rightarrow> True | Some a \<Rightarrow> col_eq (au_ActorID r) a) \<and>
     (af_Action f = [] \<or> au_Action r = af_Action f) \<and>
     (af_ObjectType f = [] \<or> au_ObjectType r = af_ObjectType f) \<and>
     (af_ObjectID f = [] \<or> au_ObjectID r = af_ObjectID f) \<and>
     (case af_TenantID f of None \<Rightarrow> True | Some t \<Rightarrow> col_eq (au_TenantID r) t) \<and>
     (case af_Since f of None \<Rightarrow> True | Some t \<Rightarrow> t \<le> au_CreatedAt r) \<and>
     (case af_Until f of None \<Rightarrow> True | Some t \<Rightarrow> au_CreatedAt r < t)"

definition Store_ListAudit :: "AuditFilter \<Rightarrow> id_env \<Rightarrow> id_db \<Rightarrow> (id_error + AuditRecord list) \<times> id_db" where
  "Store_ListAudit f = reading (\<lambda>db.
     let g = AuditFilter_clamp f in
     Inr (take (nat (af_Limit g)) (drop (nat (af_Offset g))
       (sort_key (\<lambda>r. - au_CreatedAt r) (sort_key (\<lambda>r. - sint (au_ID r)) (filter (audit_matches g) (audit_log_t db)))))))"

section \<open>Verification tokens\<close>

definition CreateVerificationToken :: "VerificationToken \<Rightarrow> id_env \<Rightarrow> id_db \<Rightarrow> (id_error + unit) \<times> id_db" where
  "CreateVerificationToken t e db =
     (if fails (ie_flt e) 0 \<or> \<not> IsValidVerificationChannel (vt_Channel t) then (Inl IdFailed, db)
      else if list_ex (\<lambda>r. vt_ID r = vt_ID t \<or> vt_TokenHash r = vt_TokenHash t) (vtokens_t db)
        then (Inl (conflict ''verification token already exists''), db)
      else if \<not> user_exists (vt_UserID t) db then (Inl IdFailed, db)
      else finish IdFailed (ie_flt e) 0 () db
        (db\<lparr>vtokens_t := row_ins (t\<lparr>vt_ConsumedAt := None, vt_CreatedAt := ie_now e\<rparr>) (vtokens_t db)\<rparr>))"

definition GetVerificationTokenByHash :: "string \<Rightarrow> id_env \<Rightarrow> id_db \<Rightarrow> (id_error + VerificationToken) \<times> id_db" where
  "GetVerificationTokenByHash hash = reading (\<lambda>db.
     case find (\<lambda>t. vt_TokenHash t = hash) (vtokens_t db) of None \<Rightarrow> Inl ErrUserNotFound | Some t \<Rightarrow> Inr t)"

definition stamp_channel :: "VerificationChannel \<Rightarrow> gotime \<Rightarrow> user_row \<Rightarrow> user_row" where
  "stamp_channel channel at r =
     (if channel = ChannelEmail
        then (if ur_email_verified_at r = None then r\<lparr>ur_email_verified_at := Some at, ur_updated_at := at\<rparr> else r)
        else (if ur_phone_verified_at r = None then r\<lparr>ur_phone_verified_at := Some at, ur_updated_at := at\<rparr> else r))"

definition consume :: "uuid \<Rightarrow> gotime \<Rightarrow> VerificationToken \<Rightarrow> VerificationToken" where
  "consume token at t = (if vt_ID t = token \<and> vt_ConsumedAt t = None then t\<lparr>vt_ConsumedAt := Some at\<rparr> else t)"

definition ConsumeVerificationToken ::
  "uuid \<Rightarrow> uuid \<Rightarrow> VerificationChannel \<Rightarrow> gotime \<Rightarrow> id_env \<Rightarrow> id_db \<Rightarrow> (id_error + unit) \<times> id_db" where
  "ConsumeVerificationToken token user channel at e db =
     (if fails (ie_flt e) 0 \<or> fails (ie_flt e) 1 then (Inl IdFailed, db)
      else case find (\<lambda>t. vt_ID t = token \<and> vt_ConsumedAt t = None) (vtokens_t db) of
        None \<Rightarrow> (Inl ErrVerificationTokenConsumed, db)
      | Some _ \<Rightarrow>
          if \<not> IsValidVerificationChannel channel \<or> fails (ie_flt e) 2 then (Inl IdFailed, db)
          else finish IdFailed (ie_flt e) 3 () db
            (db\<lparr>vtokens_t := map (consume token at) (vtokens_t db),
                users_t := row_upd ur_id user (stamp_channel channel at) (users_t db)\<rparr>))"

definition VerificationTokenStats ::
  "uuid \<Rightarrow> VerificationChannel \<Rightarrow> gotime \<Rightarrow> id_env \<Rightarrow> id_db \<Rightarrow> (id_error + int \<times> gotime) \<times> id_db" where
  "VerificationTokenStats user channel since = reading (\<lambda>db.
     let ts = filter (\<lambda>t. vt_UserID t = user \<and> vt_Channel t = channel) (vtokens_t db) in
     Inr (int (length (filter (\<lambda>t. since \<le> vt_CreatedAt t) ts)),
          if ts = [] then 0 else Max (set (map vt_CreatedAt ts))))"

section \<open>Operations as actions\<close>

record UserCreatedPayload =
  pu_UserID :: uuid
  pu_Status :: string
  pu_Roles :: "Role list"

record RoleGrantedPayload =
  pg_UserID :: uuid
  pg_Role :: Role
  pg_TenantID :: "uuid option"

datatype id_payload = PUserCreated UserCreatedPayload | PRoleGranted RoleGrantedPayload

record id_event =
  de_Type :: string
  de_AggregateID :: string
  de_TenantID :: string
  de_ActorID :: string
  de_CorrelationID :: string
  de_Payload :: id_payload

record id_world =
  iw_db :: id_db
  iw_events :: "id_event list"

type_synonym 'a id_prog = "(id_env, id_world, id_error + 'a) prog"

definition stored :: "(id_env \<Rightarrow> id_db \<Rightarrow> (id_error + 'a) \<times> id_db) \<Rightarrow> 'a id_prog" where
  "stored f = effect (\<lambda>e w. case f e (iw_db w) of (r, db) \<Rightarrow> (r, w\<lparr>iw_db := db\<rparr>))"

text \<open>The lookups of accounts are two statements each, without a transaction around them.\<close>

definition with_roles :: "User \<Rightarrow> User id_prog" where
  "with_roles u = try_then (stored (GetRoleGrants (us_ID u))) (\<lambda>gs. Done (Inr (u\<lparr>us_Roles := rolesFromGrants gs\<rparr>)))"

definition GetUser :: "uuid \<Rightarrow> User id_prog" where
  "GetUser u = try_then (stored (select_user u)) with_roles"

definition GetUserByEmail :: "(string \<Rightarrow> string) \<Rightarrow> string \<Rightarrow> User id_prog" where
  "GetUserByEmail lower email = try_then (stored (select_user_by_email lower email)) with_roles"

definition Store_ListUsers :: "int \<Rightarrow> int \<Rightarrow> User list id_prog" where
  "Store_ListUsers limit offset =
     try_then (stored (select_users limit offset)) (\<lambda>users.
       if users = [] then Done (Inr [])
       else try_then (stored (batchRoleGrants (map us_ID users))) (\<lambda>grants.
         Done (Inr (map (\<lambda>u. u\<lparr>us_Roles := rolesFromGrants (grants (us_ID u))\<rparr>) users))))"

end
