(* ===== verification/Base64.thy ===== *)
theory Base64
  imports Go_Strings
begin

text \<open>
  \<open>encoding/base64\<close> as the backend uses it: without padding, in the standard alphabet
  (\<open>RawStdEncoding\<close>) and the one for URLs (\<open>RawURLEncoding\<close>). The decoder skips line ends and does not
  insist on zero trailing bits, as Go's does.
\<close>

definition b64_digit :: "char \<times> char \<Rightarrow> nat \<Rightarrow> char" where
  "b64_digit ab d =
     (if d < 26 then char_of (65 + d)
      else if d < 52 then char_of (71 + d)
      else if d < 62 then char_of (d - 4)
      else if d = 62 then fst ab
      else snd ab)"

definition b64_val :: "char \<times> char \<Rightarrow> char \<Rightarrow> nat option" where
  "b64_val ab c =
     (let n = of_char c in
      if 65 \<le> n \<and> n \<le> 90 then Some (n - 65)
      else if 97 \<le> n \<and> n \<le> 122 then Some (n - 71)
      else if 48 \<le> n \<and> n \<le> 57 then Some (n + 4)
      else if c = fst ab then Some 62
      else if c = snd ab then Some 63
      else None)"

definition std_alphabet :: "char \<times> char" where "std_alphabet = (CHR ''+'', CHR ''/'')"
definition url_alphabet :: "char \<times> char" where "url_alphabet = (CHR ''-'', CHR ''_'')"

fun b64_encode :: "char \<times> char \<Rightarrow> string \<Rightarrow> string" where
  "b64_encode ab [] = []"
| "b64_encode ab [a] = (let x = of_char a in [b64_digit ab (x div 4), b64_digit ab (x mod 4 * 16)])"
| "b64_encode ab [a, b] =
     (let x = of_char a; y = of_char b in
      [b64_digit ab (x div 4), b64_digit ab (x mod 4 * 16 + y div 16), b64_digit ab (y mod 16 * 4)])"
| "b64_encode ab (a # b # c # s) =
     (let x = of_char a; y = of_char b; z = of_char c in
      b64_digit ab (x div 4) # b64_digit ab (x mod 4 * 16 + y div 16) #
      b64_digit ab (y mod 16 * 4 + z div 64) # b64_digit ab (z mod 64) # b64_encode ab s)"

fun b64_quads :: "nat list \<Rightarrow> string option" where
  "b64_quads [] = Some []"
| "b64_quads [p] = None"
| "b64_quads [p, q] = Some [char_of (p * 4 + q div 16)]"
| "b64_quads [p, q, r] = Some [char_of (p * 4 + q div 16), char_of (q mod 16 * 16 + r div 4)]"
| "b64_quads (p # q # r # s # t) =
     map_option (\<lambda>u. char_of (p * 4 + q div 16) # char_of (q mod 16 * 16 + r div 4) # char_of (r mod 4 * 64 + s) # u)
       (b64_quads t)"

definition b64_decode :: "char \<times> char \<Rightarrow> string \<Rightarrow> string option" where
  "b64_decode ab s =
     (let cs = filter (\<lambda>c. c \<noteq> CHR 0x0A \<and> c \<noteq> CHR 0x0D) s in
      if list_all (\<lambda>c. b64_val ab c \<noteq> None) cs then b64_quads (map (\<lambda>c. the (b64_val ab c)) cs) else None)"

section \<open>Decoding what was encoded\<close>

definition b64_alphabet :: "char \<times> char \<Rightarrow> bool" where
  "b64_alphabet ab \<longleftrightarrow> ab = std_alphabet \<or> ab = url_alphabet"

lemma b64_val_digit: "b64_alphabet ab \<Longrightarrow> d < 64 \<Longrightarrow> b64_val ab (b64_digit ab d) = Some d"
  by (auto simp: b64_alphabet_def std_alphabet_def url_alphabet_def b64_val_def b64_digit_def Let_def)

lemma b64_digit_graphic:
  assumes "b64_alphabet ab"
  shows "graphic (b64_digit ab d)" and "b64_digit ab d \<noteq> CHR ''$''" and "b64_digit ab d \<noteq> CHR '',''"
    and "b64_digit ab d \<noteq> CHR 0x0A" and "b64_digit ab d \<noteq> CHR 0x0D"
  using assms
  by (auto simp: graphic_def b64_alphabet_def std_alphabet_def url_alphabet_def b64_digit_def
      dest!: arg_cong [where f = "of_char :: char \<Rightarrow> nat"])

lemma b64_join:
  assumes "x < 256" and "y < 256" and "z < 256"
  shows "x div 4 * 4 + (x mod 4 * 16 + y div 16) div 16 = (x :: nat)"
    and "(x mod 4 * 16 + y div 16) mod 16 * 16 + (y mod 16 * 4 + z div 64) div 4 = y"
    and "(y mod 16 * 4 + z div 64) mod 4 * 64 + z mod 64 = z"
    and "x div 4 * 4 + x mod 4 * 16 div 16 = x"
    and "(x mod 4 * 16 + y div 16) mod 16 * 16 + y mod 16 * 4 div 4 = y"
proof -
  have small: "y div 16 < 16" "z div 64 < 4" using assms by linarith+
  then have q: "(x mod 4 * 16 + y div 16) div 16 = x mod 4" "(x mod 4 * 16 + y div 16) mod 16 = y div 16"
    "(y mod 16 * 4 + z div 64) div 4 = y mod 16" "(y mod 16 * 4 + z div 64) mod 4 = z div 64"
    by (simp_all add: add.commute)
  show "x div 4 * 4 + (x mod 4 * 16 + y div 16) div 16 = x"
    "(x mod 4 * 16 + y div 16) mod 16 * 16 + (y mod 16 * 4 + z div 64) div 4 = y"
    "(y mod 16 * 4 + z div 64) mod 4 * 64 + z mod 64 = z"
    "x div 4 * 4 + x mod 4 * 16 div 16 = x"
    "(x mod 4 * 16 + y div 16) mod 16 * 16 + y mod 16 * 4 div 4 = y"
    using small by (simp_all add: q)
qed

lemmas b64_bytes = b64_join [OF of_char_lt_256 of_char_lt_256 of_char_lt_256]

fun b64_vals :: "string \<Rightarrow> nat list" where
  "b64_vals [] = []"
| "b64_vals [a] = (let x = of_char a in [x div 4, x mod 4 * 16])"
| "b64_vals [a, b] = (let x = of_char a; y = of_char b in [x div 4, x mod 4 * 16 + y div 16, y mod 16 * 4])"
| "b64_vals (a # b # c # s) =
     (let x = of_char a; y = of_char b; z = of_char c in
      x div 4 # (x mod 4 * 16 + y div 16) # (y mod 16 * 4 + z div 64) # z mod 64 # b64_vals s)"

lemma b64_encode_vals: "b64_encode ab s = map (b64_digit ab) (b64_vals s)"
  by (induction s rule: b64_vals.induct) (simp_all add: Let_def)

lemma b64_vals_bound: "d \<in> set (b64_vals s) \<Longrightarrow> d < 64"
proof (induction s rule: b64_vals.induct)
  case (2 a)
  have "(of_char a :: nat) div 4 < 64" using of_char_lt_256 [of a] by linarith
  with 2 show ?case by (auto simp: Let_def)
next
  case (3 a b)
  have "(of_char a :: nat) div 4 < 64" "(of_char b :: nat) div 16 < 16"
    using of_char_lt_256 [of a] of_char_lt_256 [of b] by linarith+
  moreover have "(of_char a :: nat) mod 4 * 16 + of_char b div 16 < 64" "(of_char b :: nat) mod 16 * 4 < 64"
    using calculation(2) by linarith+
  ultimately show ?case using 3 by (auto simp: Let_def)
next
  case (4 a b c s)
  have "(of_char a :: nat) div 4 < 64" "(of_char b :: nat) div 16 < 16" "(of_char c :: nat) div 64 < 4"
    using of_char_lt_256 [of a] of_char_lt_256 [of b] of_char_lt_256 [of c] by linarith+
  moreover have "(of_char a :: nat) mod 4 * 16 + of_char b div 16 < 64"
    "(of_char b :: nat) mod 16 * 4 + of_char c div 64 < 64" "(of_char c :: nat) mod 64 < 64"
    using calculation(2,3) by linarith+
  ultimately show ?case using 4 by (auto simp: Let_def)
qed simp

lemma b64_quads_vals: "b64_quads (b64_vals s) = Some s"
proof (induction s rule: b64_vals.induct)
  case (2 a)
  show ?case by (simp only: b64_vals.simps b64_quads.simps Let_def b64_bytes(4)) simp
next
  case (3 a b)
  show ?case by (simp only: b64_vals.simps b64_quads.simps Let_def b64_bytes(1,5)) simp
next
  case (4 a b c s)
  then show ?case by (simp only: b64_vals.simps b64_quads.simps Let_def b64_bytes(1-3)) simp
qed simp

lemma b64_decode_encode:
  assumes "b64_alphabet ab"
  shows "b64_decode ab (b64_encode ab s) = Some s"
proof -
  have "filter (\<lambda>c. c \<noteq> CHR 0x0A \<and> c \<noteq> CHR 0x0D) (b64_encode ab s) = b64_encode ab s"
    using b64_digit_graphic(4,5) [OF assms] by (auto simp: filter_id_conv b64_encode_vals)
  moreover have "list_all (\<lambda>c. b64_val ab c \<noteq> None) (b64_encode ab s)"
    using b64_vals_bound by (fastforce simp: list_all_iff b64_encode_vals b64_val_digit [OF assms])
  moreover have "map (\<lambda>c. the (b64_val ab c)) (b64_encode ab s) = b64_vals s"
    using b64_vals_bound by (auto simp: b64_encode_vals b64_val_digit [OF assms] intro!: map_idI)
  ultimately show ?thesis by (simp add: b64_decode_def Let_def b64_quads_vals)
qed

lemma b64_encode_empty [simp]: "b64_encode ab s = [] \<longleftrightarrow> s = []"
  by (cases "(ab, s)" rule: b64_encode.cases) (simp_all add: Let_def)

end
