(* ===== verification/Id_Password.thy ===== *)
theory Id_Password
  imports Id_Store Base64 Http_Input
begin

text \<open>
  Password hashing and the breach check, \<open>backend/identity/password.go\<close> and \<open>breach.go\<close>. The key
  derivation of \<open>golang.org/x/crypto/argon2\<close>, SHA-1 and the answers of the breach list are not part of
  the repository: \<open>argon\<close> takes the password, the salt, and the time, memory, thread and length
  parameters as the machine integers the code converts them to; \<open>sha1\<close> gives 20 bytes; the answer to
  a range request comes with the action that asks, in \<open>ie_answer\<close>.
\<close>

section \<open>Hashes in PHC form\<close>

type_synonym argon = "string \<Rightarrow> string \<Rightarrow> 32 word \<Rightarrow> 32 word \<Rightarrow> 8 word \<Rightarrow> 32 word \<Rightarrow> string"

definition MinPasswordLength :: nat where "MinPasswordLength = 10"
definition MaxPasswordLength :: nat where "MaxPasswordLength = 128"
definition argon2MemoryKiB :: nat where "argon2MemoryKiB = 64 * 1024"
definition argon2Time :: nat where "argon2Time = 3"
definition argon2Threads :: nat where "argon2Threads = 4"
definition argon2KeyLength :: nat where "argon2KeyLength = 32"
definition argon2SaltLength :: nat where "argon2SaltLength = 16"
definition argon2Version :: nat where "argon2Version = 19"

lemmas argon2_params = argon2MemoryKiB_def argon2Time_def argon2Threads_def argon2KeyLength_def argon2Version_def

definition password_error :: "string \<Rightarrow> string \<Rightarrow> id_error" where
  "password_error detail issue = IdApp (ErrValidation detail [\<lparr>fe_Field = ''password'', fe_Issue = issue\<rparr>])"

definition phc_render :: "string \<Rightarrow> string \<Rightarrow> string" where
  "phc_render salt key =
     ''$argon2id$v='' @ dec_nat argon2Version @ ''$m='' @ dec_nat argon2MemoryKiB @ '',t='' @ dec_nat argon2Time
       @ '',p='' @ dec_nat argon2Threads @ ''$'' @ b64_encode std_alphabet salt @ ''$'' @ b64_encode std_alphabet key"

definition HashPassword :: "argon \<Rightarrow> string \<Rightarrow> string id_prog" where
  "HashPassword argon password =
     (if length password < MinPasswordLength
        then Done (Inl (password_error (''password must be at least '' @ dec_nat MinPasswordLength @ '' characters'') ''too_short''))
      else if length password > MaxPasswordLength
        then Done (Inl (password_error (''password must be at most '' @ dec_nat MaxPasswordLength @ '' characters'') ''too_long''))
      else and_then (ask ie_random) (\<lambda>salt. case salt of
        None \<Rightarrow> Done (Inl IdFailed)
      | Some bytes \<Rightarrow>
          let s = take argon2SaltLength bytes in
          Done (Inr (phc_render s (argon password s (of_nat argon2Time) (of_nat argon2MemoryKiB)
            (of_nat argon2Threads) (of_nat argon2KeyLength))))))"

definition parsePHCField :: "string \<Rightarrow> string \<Rightarrow> int option" where
  "parsePHCField field key =
     (if \<not> has_prefix field (key @ ''='') then None else Atoi (trim_prefix field (key @ ''='')))"

text \<open>\<open>None\<close> is an error: an unknown or malformed format.\<close>

definition VerifyPassword :: "argon \<Rightarrow> string \<Rightarrow> string \<Rightarrow> bool option" where
  "VerifyPassword argon password encoded =
     (if \<not> has_prefix encoded ''$argon2id$'' then None
      else case split_on (CHR ''$'') (trim_prefix encoded ''$'') of
        [alg, ver, par, saltPart, keyPart] \<Rightarrow>
          if alg \<noteq> ''argon2id'' then None
          else (case parsePHCField ver ''v'' of
            None \<Rightarrow> None
          | Some v \<Rightarrow>
              if v \<noteq> int argon2Version then None
              else (case split_on (CHR '','') par of
                [pm, pt, pp] \<Rightarrow>
                  (case (parsePHCField pm ''m'', parsePHCField pt ''t'', parsePHCField pp ''p'') of
                    (Some m, Some t, Some p) \<Rightarrow>
                      if m \<le> 0 \<or> t \<le> 0 \<or> p \<le> 0 then None
                      else (case (b64_decode std_alphabet saltPart, b64_decode std_alphabet keyPart) of
                        (Some salt, Some want) \<Rightarrow>
                          if salt = [] \<or> want = [] \<or> length want > MaxPasswordLength then None
                          else Some (argon password salt (of_int t) (of_int m) (of_int p) (of_nat (length want)) = want)
                      | _ \<Rightarrow> None)
                  | _ \<Rightarrow> None)
              | _ \<Rightarrow> None))
      | _ \<Rightarrow> None)"

section \<open>The breach lists\<close>

text \<open>A breacher answers, or fails, on a new password.\<close>

type_synonym breacher = "string \<Rightarrow> bool id_prog"

definition defaultDenylist :: "string list" where
  "defaultDenylist =
     [''123456'', ''password'', ''123456789'', ''12345678'', ''12345'', ''qwerty'',
      ''1234567890'', ''1234567'', ''abc123'', ''111111'', ''password1'', ''password123'',
      ''qwerty123'', ''iloveyou'', ''admin'', ''welcome'', ''monkey'', ''dragon'',
      ''letmein'', ''football'', ''000000'', ''123123'', ''654321'', ''superman'',
      ''batman'', ''trustno1'', ''hello123'', ''freedom'', ''whatever'', ''qazwsx'',
      ''google'', ''zaq12wsx'', ''asdfghjkl'', ''passw0rd'', ''starwars'', ''1q2w3e4r'',
      ''lovely'', ''solo'', ''master'', ''sunshine'', ''princess'', ''shadow'',
      ''motivra'', ''motivra123'', ''changeme'', ''secret'']"

text \<open>The entries of a checker, and the file an operator may add: blank lines and comments are skipped.\<close>

definition NewDenylistChecker :: "string list" where
  "NewDenylistChecker = map to_lower defaultDenylist"

definition LoadFile :: "string \<Rightarrow> string list \<Rightarrow> string list" where
  "LoadFile raw entries =
     entries @ map to_lower (filter (\<lambda>l. l \<noteq> [] \<and> \<not> has_prefix l ''#'') (map trim_space (split_on (CHR 0x0A) raw)))"

definition DenylistChecker :: "string list \<Rightarrow> breacher" where
  "DenylistChecker entries password = Done (Inr (to_lower password \<in> set entries))"

definition hibpMaxBodyBytes :: nat where "hibpMaxBodyBytes = 2 * 1024 * 1024"

text \<open>
  \<open>fmt.Sscanf(s, "%d", &n)\<close> on a trimmed string: an optional sign and at least one digit, read as an
  \<open>int64\<close>; what follows is not looked at.
\<close>

fun take_digits :: "string \<Rightarrow> string" where
  "take_digits [] = []"
| "take_digits (c # s) = (if digit_val c = None then [] else c # take_digits s)"

definition scan_count :: "string \<Rightarrow> int option" where
  "scan_count s =
     (case s of
        c # t \<Rightarrow> if c = CHR ''-'' \<or> c = CHR ''+'' then Atoi (c # take_digits t) else Atoi (take_digits s)
      | [] \<Rightarrow> None)"

text \<open>The position of the first colon, and the lines of a range page.\<close>

fun cut_colon :: "string \<Rightarrow> (string \<times> string) option" where
  "cut_colon [] = None"
| "cut_colon (c # s) = (if c = CHR '':'' then Some ([], s) else map_option (apfst (\<lambda>p. c # p)) (cut_colon s))"

fun hibp_lines :: "string \<Rightarrow> string list \<Rightarrow> id_error + bool" where
  "hibp_lines suffix [] = Inr False"
| "hibp_lines suffix (line # rest) =
     (case cut_colon (trim_space line) of
        None \<Rightarrow> hibp_lines suffix rest
      | Some (name, count) \<Rightarrow>
          if name = [] then hibp_lines suffix rest
          else if map ascii_lower (trim_space name) \<noteq> map ascii_lower suffix then hibp_lines suffix rest
          else (case scan_count (trim_space count) of
            None \<Rightarrow> Inl IdFailed
          | Some n \<Rightarrow> Inr (n > 0)))"

text \<open>The digest in upper-case hexadecimal; its first five characters are what is sent.\<close>

definition hibp_digest :: "(string \<Rightarrow> string) \<Rightarrow> string \<Rightarrow> string" where
  "hibp_digest sha1 password = map upper_char (hex_encode (sha1 password))"

definition HIBPChecker :: "(string \<Rightarrow> string) \<Rightarrow> breacher" where
  "HIBPChecker sha1 password =
     and_then (ask ie_answer) (\<lambda>answer. Done (case answer of
       None \<Rightarrow> Inl IdFailed
     | Some (status, body) \<Rightarrow>
         if status \<noteq> 200 then Inl IdFailed
         else hibp_lines (drop 5 (hibp_digest sha1 password))
                (split_on (CHR 0x0A) (take hibpMaxBodyBytes body))))"

text \<open>The chain: the first positive answer wins; an error is remembered and stands if none follows.\<close>

fun chain_breached :: "bool \<Rightarrow> breacher list \<Rightarrow> breacher" where
  "chain_breached failed [] password = Done (if failed then Inl IdFailed else Inr False)"
| "chain_breached failed (c # cs) password =
     and_then (c password) (\<lambda>r. case r of
       Inl _ \<Rightarrow> chain_breached True cs password
     | Inr breached \<Rightarrow> if breached then Done (Inr True) else chain_breached failed cs password)"

definition ChainBreacher :: "breacher list \<Rightarrow> breacher" where
  "ChainBreacher checkers = chain_breached False checkers"

text \<open>\<open>NewBreacher\<close>: the local list with the operator's file (\<open>Some None\<close> is one that cannot be read), then HIBP.\<close>

definition NewBreacher :: "(string \<Rightarrow> string) \<Rightarrow> bool \<Rightarrow> string option option \<Rightarrow> breacher option" where
  "NewBreacher sha1 hibp denylistFile =
     (let chain = (\<lambda>entries. ChainBreacher (DenylistChecker entries # (if hibp then [HIBPChecker sha1] else [])))
      in case denylistFile of
        None \<Rightarrow> Some (chain NewDenylistChecker)
      | Some None \<Rightarrow> None
      | Some (Some raw) \<Rightarrow> Some (chain (LoadFile raw NewDenylistChecker)))"

section \<open>Verifying what was hashed\<close>

lemma phc_fields:
  shows "parsePHCField (''v='' @ dec_nat n) ''v'' = Atoi (dec_nat n)"
    and "parsePHCField (''m='' @ dec_nat n) ''m'' = Atoi (dec_nat n)"
    and "parsePHCField (''t='' @ dec_nat n) ''t'' = Atoi (dec_nat n)"
    and "parsePHCField (''p='' @ dec_nat n) ''p'' = Atoi (dec_nat n)"
  by (simp_all add: parsePHCField_def trim_prefix_def)

lemma Atoi_dec_nat: "int n \<le> max_int64 \<Longrightarrow> Atoi (dec_nat n) = Some (int n)"
  using parse_dec_int [of "int n"] sint_of_int64 [of "int n"] by (simp add: Atoi_def dec_int_def)

lemma dec_nat_free: "CHR ''$'' \<notin> set (dec_nat n)" "CHR '','' \<notin> set (dec_nat n)"
proof -
  have "c \<noteq> CHR ''$'' \<and> c \<noteq> CHR '',''" if c: "c \<in> set (dec_nat n)" for c
  proof -
    obtain d where "d < 10" "c = digit_char d" using dec_nat_digits [OF c] by blast
    then show ?thesis by (auto simp: digit_char_def dest!: arg_cong [where f = "of_char :: char \<Rightarrow> nat"])
  qed
  then show "CHR ''$'' \<notin> set (dec_nat n)" "CHR '','' \<notin> set (dec_nat n)" by auto
qed

lemma b64_free: "CHR ''$'' \<notin> set (b64_encode std_alphabet s)"
proof
  assume "CHR ''$'' \<in> set (b64_encode std_alphabet s)"
  then obtain d where "CHR ''$'' = b64_digit std_alphabet d" by (auto simp: b64_encode_vals)
  then show False using b64_digit_graphic(2) [of std_alphabet d] by (simp add: b64_alphabet_def)
qed

lemma split_params:
  "split_on (CHR '','') (''m='' @ dec_nat a @ '',t='' @ dec_nat b @ '',p='' @ dec_nat c)
     = [''m='' @ dec_nat a, ''t='' @ dec_nat b, ''p='' @ dec_nat c]"
proof -
  have "split_on (CHR '','') ((''m='' @ dec_nat a) @ CHR '','' # (''t='' @ dec_nat b) @ CHR '','' # (''p='' @ dec_nat c))
      = [''m='' @ dec_nat a, ''t='' @ dec_nat b, ''p='' @ dec_nat c]"
    using dec_nat_free(2) by (subst split_on_append, simp, subst split_on_append, simp, subst split_on_none) simp_all
  then show ?thesis by simp
qed

lemma phc_split:
  "split_on (CHR ''$'') (trim_prefix (phc_render salt key) ''$'') =
     [''argon2id'', ''v='' @ dec_nat argon2Version,
      ''m='' @ dec_nat argon2MemoryKiB @ '',t='' @ dec_nat argon2Time @ '',p='' @ dec_nat argon2Threads,
      b64_encode std_alphabet salt, b64_encode std_alphabet key]"
proof -
  let ?par = "''m='' @ dec_nat argon2MemoryKiB @ '',t='' @ dec_nat argon2Time @ '',p='' @ dec_nat argon2Threads"
  have "trim_prefix (phc_render salt key) ''$'' =
      ''argon2id'' @ CHR ''$'' # (''v='' @ dec_nat argon2Version) @ CHR ''$'' # ?par @ CHR ''$'' #
        b64_encode std_alphabet salt @ CHR ''$'' # b64_encode std_alphabet key"
    by (simp add: phc_render_def trim_prefix_def)
  moreover have "CHR ''$'' \<notin> set ''argon2id''" "CHR ''$'' \<notin> set (''v='' @ dec_nat argon2Version)"
    "CHR ''$'' \<notin> set ?par" using dec_nat_free(1) by simp_all
  ultimately show ?thesis
    using split_on_append [of "CHR ''$''"] split_on_none [of "CHR ''$''"] b64_free by metis
qed

lemma verify_rendered:
  assumes "salt \<noteq> []" and "key \<noteq> []" and "length key \<le> MaxPasswordLength"
  shows "VerifyPassword argon q (phc_render salt key) = Some (argon q salt 3 65536 4 (of_nat (length key)) = key)"
proof -
  have pre: "has_prefix (phc_render salt key) ''$argon2id$''"
    by (simp add: phc_render_def)
  have nums: "Atoi (dec_nat argon2Version) = Some (int argon2Version)"
    "Atoi (dec_nat argon2MemoryKiB) = Some (int argon2MemoryKiB)"
    "Atoi (dec_nat argon2Time) = Some (int argon2Time)" "Atoi (dec_nat argon2Threads) = Some (int argon2Threads)"
    by (simp_all add: Atoi_dec_nat argon2_params)
  have pos: "\<not> int argon2MemoryKiB \<le> 0" "\<not> int argon2Time \<le> 0" "\<not> int argon2Threads \<le> 0"
    and conv: "word_of_int (int argon2MemoryKiB) = (65536 :: 32 word)" "word_of_int (int argon2Time) = (3 :: 32 word)"
      "word_of_int (int argon2Threads) = (4 :: 8 word)"
    by (simp_all add: argon2_params)
  have dec: "b64_decode std_alphabet (b64_encode std_alphabet s) = Some s" for s
    by (simp add: b64_decode_encode b64_alphabet_def)
  have "\<not> (salt = [] \<or> key = [] \<or> length key > MaxPasswordLength)" using assms by simp
  then show ?thesis
    by (simp only: VerifyPassword_def phc_split list.case pre not_True_eq_False if_False refl if_True phc_fields nums
        option.case split_params prod.case pos dec conv not_False_eq_True HOL.simp_thms)
qed

text \<open>
  C31. A password hash verifies the password it was made from, and any other password exactly when the
  key derivation does not tell the two apart under that salt.
\<close>

theorem password_round_trip:
  assumes len: "MinPasswordLength \<le> length p" "length p \<le> MaxPasswordLength"
    and salt: "ie_random (es 0) = Some bytes" "bytes \<noteq> []"
    and argon: "\<And>q t m r. length (argon q (take argon2SaltLength bytes) t m r 32) = 32"
  shows "\<exists>h. fst (run (HashPassword argon p) es w) = Inr h \<and> VerifyPassword argon p h = Some True \<and>
    VerifyPassword argon q h =
      Some (argon q (take argon2SaltLength bytes) 3 65536 4 32 = argon p (take argon2SaltLength bytes) 3 65536 4 32)"
proof -
  let ?s = "take argon2SaltLength bytes"
  let ?k = "argon p ?s 3 65536 4 32"
  have k: "length ?k = 32" by (rule argon)
  then have "?k \<noteq> []" by auto
  have "?s \<noteq> []" using salt(2) by (simp add: argon2SaltLength_def)
  have "fst (run (HashPassword argon p) es w) = Inr (phc_render ?s ?k)"
    using len salt by (simp add: HashPassword_def run_simps argon2_params Let_def)
  moreover have "VerifyPassword argon q (phc_render ?s ?k) = Some (argon q ?s 3 65536 4 32 = ?k)" for q
    using verify_rendered [of ?s ?k argon q] \<open>?s \<noteq> []\<close> \<open>?k \<noteq> []\<close> k by (simp add: MaxPasswordLength_def)
  ultimately show ?thesis by auto
qed

definition toy_argon :: argon where
  "toy_argon p s t m r n = take (unat n) (p @ s @ replicate 32 CHR 0x00)"

definition calm_id :: id_env where
  "calm_id = \<lparr>ie_flt = Healthy, ie_now = 0, ie_seq = 1, ie_clock = 0, ie_uuid = 1, ie_random = Some ''0123456789abcdef'',
     ie_pub = True, ie_answer = None\<rparr>"

definition blank_id :: id_world where
  "blank_id = \<lparr>iw_db = \<lparr>users_t = [], user_roles_t = [], sessions_t = [], vtokens_t = [], audit_log_t = []\<rparr>, iw_events = []\<rparr>"

theorem password_round_trip_witness:
  "\<exists>h. fst (run (HashPassword toy_argon ''correct horse'') (\<lambda>_. calm_id) blank_id) = Inr h \<and>
     VerifyPassword toy_argon ''correct horse'' h = Some True \<and>
     VerifyPassword toy_argon ''battery staple'' h = Some False"
proof -
  have "length (toy_argon q s t m r 32) = 32" for q s t m r by (simp add: toy_argon_def)
  from password_round_trip [of "''correct horse''" "\<lambda>_. calm_id" "''0123456789abcdef''" toy_argon blank_id "''battery staple''",
      OF _ _ _ _ this]
  show ?thesis by (simp add: MinPasswordLength_def MaxPasswordLength_def calm_id_def toy_argon_def argon2SaltLength_def)
qed

text \<open>The chain of \<open>breach.go\<close>: a positive answer of a list is never lost to a failure of another.\<close>

lemma chain_positive:
  assumes "c \<in> set cs" and "\<And>es w. \<exists>es' w'. run (c p) es w = (Inr True, es', w')"
  shows "fst (run (chain_breached failed cs p) es w) = Inr True"
  using assms(1)
proof (induction cs arbitrary: failed es w)
  case (Cons d ds)
  show ?case
  proof (cases "d = c")
    case True
    then show ?thesis using assms(2) [of es w] by (auto simp: run_simps)
  next
    case False
    then have IH: "fst (run (chain_breached f ds p) es' w') = Inr True" for f es' w'
      using Cons by simp
    show ?thesis by (auto simp: run_simps IH split: prod.splits sum.splits)
  qed
qed simp

lemma denylisted_refused:
  assumes "NewBreacher sha1 hibp fl = Some b" and "to_lower p \<in> set NewDenylistChecker"
  shows "fst (run (b p) es w) = Inr True"
proof -
  have "to_lower p \<in> set (LoadFile raw NewDenylistChecker)" for raw using assms(2) by (simp add: LoadFile_def)
  with assms show ?thesis
    by (auto simp: NewBreacher_def ChainBreacher_def DenylistChecker_def run_simps Let_def split: option.splits)
qed

text \<open>A breacher only asks: it abides by every discipline.\<close>

lemma abides_chain:
  assumes "\<And>c q. c \<in> set cs \<Longrightarrow> abides S (c q)"
  shows "abides S (chain_breached failed cs p)"
  using assms
proof (induction cs arbitrary: failed)
  case (Cons c cs)
  then show ?case by (auto intro!: abides_and_then abides_Done split: sum.splits)
qed (simp add: abides_Done)

lemma abides_NewBreacher:
  assumes "discipline S" and "NewBreacher sha1 hibp file = Some b"
  shows "abides S (b p)"
  using assms(2)
  by (auto simp: NewBreacher_def ChainBreacher_def Let_def DenylistChecker_def HIBPChecker_def split: option.splits
      intro!: abides_chain abides_and_then abides_Done discipline.abides_ask [OF assms(1)])

end
