(* ===== verification/Id_Tokens.thy ===== *)
theory Id_Tokens
  imports Id_Password
begin

text \<open>
  The token issuer, \<open>backend/identity/tokens.go\<close>: sessions with opaque refresh tokens, rotation, and
  the claims of access tokens. An \<open>issuer\<close> carries the keys as functions: \<open>iss_mac\<close> is HMAC-SHA256 under
  its secret, \<open>iss_sign\<close> what the JWT library makes of a claim set. The texts that wrap errors are left
  out.
\<close>

section \<open>Defaults\<close>

definition DefaultAccessTTL :: duration where "DefaultAccessTTL = 15 * time_minute"
definition DefaultRefreshTTL :: duration where "DefaultRefreshTTL = 30 * 24 * time_hour"
definition DefaultAbsoluteSessionTTL :: duration where "DefaultAbsoluteSessionTTL = 90 * 24 * time_hour"
definition refreshTokenBytes :: nat where "refreshTokenBytes = 32"

record VerificationEcho =
  ve_Channel :: VerificationChannel
  ve_Token :: string
  ve_ExpiresAt :: gotime

record AccessResponse =
  ar_AccessToken :: string
  ar_RefreshToken :: string
  ar_ExpiresAt :: gotime
  ar_Verification :: "VerificationEcho list"

text \<open>The claim set \<open>AccessClaims\<close> of \<open>backend/platform/jwt.go\<close> builds; times in seconds.\<close>

record access_claims =
  ac_iss :: string
  ac_aud :: string
  ac_sub :: string
  ac_sid :: string
  ac_tenant_id :: string
  ac_role :: string
  ac_roles :: "string list"
  ac_iat :: int
  ac_exp :: int

definition AccessClaims :: "Claims \<Rightarrow> string list \<Rightarrow> string \<Rightarrow> string \<Rightarrow> access_claims" where
  "AccessClaims c roles issuer audience =
     \<lparr>ac_iss = issuer, ac_aud = audience, ac_sub = cl_UserID c, ac_sid = cl_SessionID c,
      ac_tenant_id = cl_TenantID c, ac_role = cl_Role c, ac_roles = roles,
      ac_iat = unix_of (cl_IssuedAt c), ac_exp = unix_of (cl_ExpiresAt c)\<rparr>"

record issuer =
  iss_mac :: "string \<Rightarrow> string"
  iss_sign :: "access_claims \<Rightarrow> string option"
  iss_jwks :: "string option"
  iss_issuer :: string
  iss_audience :: string
  iss_accessTTL :: duration
  iss_refreshTTL :: duration
  iss_absoluteTTL :: duration
  iss_verificationGrace :: duration
  iss_uuid_string :: "uuid \<Rightarrow> string"

definition WithVerificationGrace :: "duration \<Rightarrow> issuer \<Rightarrow> issuer" where
  "WithVerificationGrace grace i = i\<lparr>iss_verificationGrace := (if grace > 0 then grace else 0)\<rparr>"

definition TokenHash :: "issuer \<Rightarrow> string \<Rightarrow> string" where
  "TokenHash i token = hex_encode (iss_mac i token)"

definition RefreshTokenHash :: "issuer \<Rightarrow> string \<Rightarrow> string" where
  "RefreshTokenHash i token = TokenHash i token"

definition newOpaqueToken :: "string id_prog" where
  "newOpaqueToken = and_then (ask ie_random) (\<lambda>raw. case raw of
     None \<Rightarrow> Done (Inl IdFailed)
   | Some bytes \<Rightarrow> Done (Inr (b64_encode url_alphabet (take refreshTokenBytes bytes))))"

section \<open>Claims\<close>

text \<open>The tenant of the highest-priority grant that has one, from the best so far.\<close>

fun grant_tenant :: "int \<Rightarrow> uuid option \<Rightarrow> RoleGrant list \<Rightarrow> uuid option" where
  "grant_tenant best tenant [] = tenant"
| "grant_tenant best tenant (g # gs) =
     (case rg_TenantID g of
        None \<Rightarrow> grant_tenant best tenant gs
      | Some t \<Rightarrow>
          (case rolePriority (rg_Role g) of
             Some p \<Rightarrow> if p > best then grant_tenant p (Some t) gs else grant_tenant best tenant gs
           | None \<Rightarrow> grant_tenant best tenant gs))"

definition claim_tenant :: "issuer \<Rightarrow> RoleGrant list \<Rightarrow> string" where
  "claim_tenant i gs = (case grant_tenant (-1) None gs of None \<Rightarrow> [] | Some t \<Rightarrow> iss_uuid_string i t)"

definition claimContext :: "issuer \<Rightarrow> User \<Rightarrow> (string \<times> Role list) id_prog" where
  "claimContext i user =
     and_then (stored (GetRoleGrants (us_ID user))) (\<lambda>r. case r of
       Inl err \<Rightarrow> if isNotFound err then Done (Inr ([], us_Roles user)) else Done (Inl err)
     | Inr gs \<Rightarrow> Done (Inr (claim_tenant i gs, rolesFromGrants gs)))"

section \<open>Issuing\<close>

definition verificationRefused :: "gotime \<Rightarrow> User \<Rightarrow> duration \<Rightarrow> bool" where
  "verificationRefused now user grace \<longleftrightarrow>
     (if grace \<le> 0 then False
      else if verificationSatisfied user then False
      else \<not> now < us_CreatedAt user + grace)"

definition verification_required :: id_error where
  "verification_required =
     IdApp (ErrForbidden ''account verification is required; the post-registration grace window has ended'')"

definition new_session :: "issuer \<Rightarrow> uuid \<Rightarrow> User \<Rightarrow> string \<Rightarrow> string \<Rightarrow> string \<Rightarrow> gotime \<Rightarrow> gotime \<Rightarrow> Session" where
  "new_session i sid user refreshToken device ip now absolute =
     \<lparr>se_ID = sid, se_UserID = us_ID user, se_RefreshTokenHash = RefreshTokenHash i refreshToken,
      se_DeviceName = device, se_IPAddress = ip, se_CreatedAt = 0, se_ExpiresAt = now + iss_refreshTTL i,
      se_AbsoluteExpiresAt = (if time_is_zero absolute then now + iss_absoluteTTL i else absolute),
      se_RevokedAt = None\<rparr>"

definition session_claims :: "issuer \<Rightarrow> uuid \<Rightarrow> User \<Rightarrow> string \<Rightarrow> Role list \<Rightarrow> gotime \<Rightarrow> access_claims" where
  "session_claims i sid user tenant roles now =
     AccessClaims \<lparr>cl_UserID = iss_uuid_string i (us_ID user), cl_TenantID = tenant, cl_Role = HighestRole roles,
       cl_SessionID = iss_uuid_string i sid, cl_IssuedAt = now, cl_ExpiresAt = now + iss_accessTTL i\<rparr>
       roles (iss_issuer i) (iss_audience i)"

text \<open>The part of \<open>issue\<close> after the claims: the session row, then the signature.\<close>

definition mint :: "issuer \<Rightarrow> User \<Rightarrow> string \<Rightarrow> string \<Rightarrow> gotime \<Rightarrow> string \<Rightarrow> Role list \<Rightarrow> AccessResponse id_prog" where
  "mint i user device ip absolute tenant roles =
     and_then (ask ie_uuid) (\<lambda>sid.
     try_then newOpaqueToken (\<lambda>refreshToken.
     and_then (ask ie_clock) (\<lambda>now.
     try_then (stored (CreateSession (new_session i sid user refreshToken device ip now absolute))) (\<lambda>_.
     Done (case iss_sign i (session_claims i sid user tenant roles now) of
       None \<Rightarrow> Inl IdFailed
     | Some jwt \<Rightarrow>
         Inr \<lparr>ar_AccessToken = jwt, ar_RefreshToken = refreshToken,
              ar_ExpiresAt = now + iss_accessTTL i, ar_Verification = []\<rparr>)))))"

definition issue :: "issuer \<Rightarrow> User \<Rightarrow> string \<Rightarrow> string \<Rightarrow> gotime \<Rightarrow> AccessResponse id_prog" where
  "issue i user device ip absolute =
     and_then (ask ie_clock) (\<lambda>gate.
     if verificationRefused gate user (iss_verificationGrace i) then Done (Inl verification_required)
     else try_then (claimContext i user) (\<lambda>(tenant, roles). mint i user device ip absolute tenant roles))"

definition Issue :: "issuer \<Rightarrow> User \<Rightarrow> string \<Rightarrow> string \<Rightarrow> AccessResponse id_prog" where
  "Issue i user device ip = issue i user device ip 0"

section \<open>Rotation\<close>

definition refresh_invalid :: id_error where
  "refresh_invalid = IdApp (ErrUnauthorized ''refresh token is invalid'')"

definition not_active :: id_error where
  "not_active = IdApp (ErrForbidden ''account is not active'')"

text \<open>A lookup whose not-found error is translated.\<close>

definition or_else :: "id_error \<Rightarrow> 'a id_prog \<Rightarrow> 'a id_prog" where
  "or_else err p = and_then p (\<lambda>r. Done (case r of Inl x \<Rightarrow> Inl (if isNotFound x then err else x) | Inr a \<Rightarrow> Inr a))"

definition Refresh :: "issuer \<Rightarrow> string \<Rightarrow> (AccessResponse \<times> Session) id_prog" where
  "Refresh i refreshToken =
     (if refreshToken = [] then Done (Inl refresh_invalid)
      else try_then (or_else refresh_invalid (stored (GetSessionByRefreshHash (RefreshTokenHash i refreshToken)))) (\<lambda>sess.
      if se_RevokedAt sess \<noteq> None then Done (Inl refresh_invalid)
      else and_then (ask ie_clock) (\<lambda>t1.
      if \<not> t1 < se_ExpiresAt sess then Done (Inl refresh_invalid)
      else and_then (ask ie_clock) (\<lambda>t2.
      if \<not> t2 < se_AbsoluteExpiresAt sess then Done (Inl refresh_invalid)
      else try_then (or_else refresh_invalid (GetUser (se_UserID sess))) (\<lambda>user.
      if us_Status user \<noteq> StatusActive then Done (Inl not_active)
      else and_then (ask ie_clock) (\<lambda>t3.
      if verificationRefused t3 user (iss_verificationGrace i) then Done (Inl verification_required)
      else try_then (stored (Store_RevokeSession (se_ID sess))) (\<lambda>_.
      try_then (issue i user (se_DeviceName sess) (se_IPAddress sess) (se_AbsoluteExpiresAt sess)) (\<lambda>resp.
      Done (Inr (resp, sess))))))))))"

definition Revoke :: "uuid \<Rightarrow> unit id_prog" where
  "Revoke k = stored (Store_RevokeSession k)"

definition JWKS :: "issuer \<Rightarrow> string option" where
  "JWKS i = iss_jwks i"

end
