(* ===== verification/Rate_Limit.thy ===== *)
theory Rate_Limit
  imports Sql
begin

text \<open>
  The in-process rate limiter, \<open>backend/platform/ratelimit.go\<close>: a fixed window per key. The bucket
  map is a table keyed by the caller's key; the lock makes every call atomic; the clock reading of a
  call is an argument (Go's \<open>time.Now\<close> carries a monotonic reading, so successive readings under
  the lock do not decrease). A Go \<open>int\<close> is 64 bits.
\<close>

section \<open>Model\<close>

record rateBucket =
  rb_key :: string
  rb_count :: nat
  rb_starts :: gotime

record RateLimiter =
  rl_rpm :: int64
  rl_buckets :: "rateBucket list"
  rl_window :: duration

definition NewRateLimiter :: "int64 \<Rightarrow> RateLimiter" where
  "NewRateLimiter rpm = \<lparr>rl_rpm = rpm, rl_buckets = [], rl_window = time_minute\<rparr>"

abbreviation get_bucket :: "string \<Rightarrow> RateLimiter \<Rightarrow> rateBucket option" where
  "get_bucket k l \<equiv> row_get rb_key k (rl_buckets l)"

definition expired :: "gotime \<Rightarrow> duration \<Rightarrow> rateBucket \<Rightarrow> bool" where
  "expired now window b \<longleftrightarrow> time_sub now (rb_starts b) \<ge> window"

text \<open>Opening a new window for a key that has none, or whose window is over.\<close>

definition fresh_window :: "string \<Rightarrow> gotime \<Rightarrow> RateLimiter \<Rightarrow> RateLimiter" where
  "fresh_window k now l =
     (case get_bucket k l of
        None \<Rightarrow> l\<lparr>rl_buckets := row_ins \<lparr>rb_key = k, rb_count = 0, rb_starts = now\<rparr> (rl_buckets l)\<rparr>
      | Some b \<Rightarrow>
          if expired now (rl_window l) b
            then l\<lparr>rl_buckets := row_upd rb_key k (\<lambda>b. b\<lparr>rb_count := 0, rb_starts := now\<rparr>) (rl_buckets l)\<rparr>
          else l)"

definition sweep :: "gotime \<Rightarrow> RateLimiter \<Rightarrow> RateLimiter" where
  "sweep now l =
     (if int (length (rl_buckets l)) > sint (4 * rl_rpm l + 1024)
        then l\<lparr>rl_buckets := filter (\<lambda>b. \<not> expired now (rl_window l) b) (rl_buckets l)\<rparr>
      else l)"

text \<open>
  \<open>Allow\<close> holds the bucket of the key across the sweep: the count is read from it and incremented
  on it. With a positive window the sweep keeps it.
\<close>

definition Allow :: "string \<Rightarrow> gotime \<Rightarrow> RateLimiter \<Rightarrow> bool \<times> RateLimiter" where
  "Allow k now l =
     (if sint (rl_rpm l) \<le> 0 then (True, l)
      else
        let l1 = fresh_window k now l;
            n = (case get_bucket k l1 of Some b \<Rightarrow> rb_count b | None \<Rightarrow> 0);
            l2 = sweep now l1
        in if int n \<ge> sint (rl_rpm l) then (False, l2)
           else (True, l2\<lparr>rl_buckets := row_upd rb_key k (\<lambda>b. b\<lparr>rb_count := rb_count b + 1\<rparr>) (rl_buckets l2)\<rparr>))"

text \<open>\<open>RetryAfter\<close>: \<open>clock\<close> is \<open>time.Now\<close> at the call of \<open>time.Until\<close>.\<close>

definition RetryAfter :: "gotime \<Rightarrow> RateLimiter \<Rightarrow> duration" where
  "RetryAfter clock l =
     (if sint (rl_rpm l) \<le> 0 then 0
      else
        let latest = fold (\<lambda>b t. if t < rb_starts b then rb_starts b else t) (rl_buckets l) 0
        in if time_is_zero latest then rl_window l
           else let d = time_sub (latest + rl_window l) clock in if d > 0 then d else time_second)"

text \<open>\<open>d.Round(time.Second)\<close> for a duration that is not negative: half away from zero.\<close>

definition round_second :: "duration \<Rightarrow> duration" where
  "round_second d = (let r = d mod time_second in
     if r + r < time_second then d - r else min max_int64 (d + (time_second - r)))"

datatype 'r limited = Served 'r | TooManyRequests duration

definition Middleware :: "('q \<Rightarrow> string) \<Rightarrow> ('q \<Rightarrow> 'r) \<Rightarrow> gotime \<Rightarrow> gotime \<Rightarrow> 'q \<Rightarrow> RateLimiter \<Rightarrow> 'r limited \<times> RateLimiter" where
  "Middleware keyFn serve now clock q l =
     (let (ok, l1) = Allow (keyFn q) now l in
      if \<not> ok then (TooManyRequests (round_second (RetryAfter clock l1)), l1) else (Served (serve q), l1))"


section \<open>One call\<close>

text \<open>A limiter that limits: a positive rate and window, distinct keys, no bucket above the rate.\<close>

definition limiter_ok :: "RateLimiter \<Rightarrow> bool" where
  "limiter_ok l \<longleftrightarrow> pk_ok rb_key (rl_buckets l) \<and> 0 < rl_window l \<and> rl_window l \<le> max_int64 \<and>
     0 < sint (rl_rpm l) \<and> (\<forall>b \<in> set (rl_buckets l). int (rb_count b) \<le> sint (rl_rpm l))"

definition rate :: "RateLimiter \<Rightarrow> nat" where
  "rate l = nat (sint (rl_rpm l))"

lemma new_limiter_ok: "0 < sint rpm \<Longrightarrow> limiter_ok (NewRateLimiter rpm)"
  by (simp add: limiter_ok_def NewRateLimiter_def time_minute_def time_second_def)

lemma not_expired_fresh: "0 < window \<Longrightarrow> rb_starts b = now \<Longrightarrow> \<not> expired now window b"
  by (simp add: expired_def time_sub_def)

lemma expired_iff: "0 < window \<Longrightarrow> window \<le> max_int64 \<Longrightarrow> expired now window b \<longleftrightarrow> window \<le> now - rb_starts b"
  by (auto simp: expired_def time_sub_def min_def max_def)

lemma row_get_filter:
  assumes "pk_ok key rows"
  shows "row_get key k (filter P rows) =
    (case row_get key k rows of None \<Rightarrow> None | Some r \<Rightarrow> if P r then Some r else None)"
proof -
  have "pk_ok key (filter P rows)" using assms by (simp add: pk_ok_def distinct_map_filter)
  then have m: "row_get key k (filter P rows) = Some r \<longleftrightarrow> r \<in> set rows \<and> P r \<and> key r = k" for r
    by (auto simp: tbl.get_rows)
  show ?thesis
  proof (cases "row_get key k rows")
    case None
    then have "row_get key k (filter P rows) \<noteq> Some r" for r
      using m tbl.get_None [OF assms, of k] by auto
    then show ?thesis using None by (cases "row_get key k (filter P rows)") auto
  next
    case (Some r)
    then have r: "r \<in> set rows" "key r = k" using tbl.get_rows [OF assms] by auto
    show ?thesis
    proof (cases "P r")
      case True
      then show ?thesis using m [of r] r Some by simp
    next
      case False
      have "row_get key k (filter P rows) = None"
      proof (rule ccontr)
        assume "row_get key k (filter P rows) \<noteq> None"
        then obtain r' where "row_get key k (filter P rows) = Some r'" by blast
        then have "r' \<in> set rows" "P r'" "key r' = k" using m by blast+
        then show False using tbl.key_inj [OF assms, of r r'] r False by blast
      qed
      then show ?thesis using Some False by simp
    qed
  qed
qed

text \<open>The bucket of the key once its window is open, and what becomes of the others.\<close>

definition open_bucket :: "string \<Rightarrow> gotime \<Rightarrow> RateLimiter \<Rightarrow> rateBucket" where
  "open_bucket k now l =
     (case get_bucket k l of
        Some b \<Rightarrow> if expired now (rl_window l) b then \<lparr>rb_key = k, rb_count = 0, rb_starts = now\<rparr> else b
      | None \<Rightarrow> \<lparr>rb_key = k, rb_count = 0, rb_starts = now\<rparr>)"

lemma fresh_window_fields [simp]:
  "rl_rpm (fresh_window k now l) = rl_rpm l" "rl_window (fresh_window k now l) = rl_window l"
  by (auto simp: fresh_window_def split: option.split)

lemma sweep_fields [simp]: "rl_rpm (sweep now l) = rl_rpm l" "rl_window (sweep now l) = rl_window l"
  by (auto simp: sweep_def)

lemma fresh_window_get:
  "get_bucket k' (fresh_window k now l) = (if k' = k then Some (open_bucket k now l) else get_bucket k' l)"
proof (cases "get_bucket k l")
  case None
  then show ?thesis by (auto simp: fresh_window_def open_bucket_def row_get_ins split: option.split)
next
  case (Some b)
  have "b\<lparr>rb_count := 0, rb_starts := now\<rparr> = \<lparr>rb_key = k, rb_count = 0, rb_starts = now\<rparr>"
    using row_get_key [OF Some] by simp
  then show ?thesis using Some by (simp add: fresh_window_def open_bucket_def row_get_upd)
qed

lemma fresh_window_ok:
  assumes "limiter_ok l"
  shows "limiter_ok (fresh_window k now l)"
proof (cases "get_bucket k l")
  case None
  then have "pk_ok rb_key (row_ins \<lparr>rb_key = k, rb_count = 0, rb_starts = now\<rparr> (rl_buckets l))"
    using assms tbl.ok_ins [of rb_key "rl_buckets l" "\<lparr>rb_key = k, rb_count = 0, rb_starts = now\<rparr>"]
    by (simp add: limiter_ok_def)
  then show ?thesis using None assms by (simp add: fresh_window_def limiter_ok_def)
next
  case (Some b)
  have "pk_ok rb_key (row_upd rb_key k (\<lambda>b. b\<lparr>rb_count := 0, rb_starts := now\<rparr>) (rl_buckets l))"
    using assms by (intro tbl.ok_upd) (simp_all add: limiter_ok_def)
  then show ?thesis using Some assms by (auto simp: fresh_window_def limiter_ok_def set_row_upd)
qed

lemma sweep_ok: "limiter_ok l \<Longrightarrow> limiter_ok (sweep now l)"
  by (auto simp: sweep_def limiter_ok_def pk_ok_def distinct_map_filter)

lemma sweep_get:
  assumes "limiter_ok l"
  shows "get_bucket k (sweep now l) = get_bucket k l \<or>
    get_bucket k (sweep now l) = None \<and> (\<exists>b. get_bucket k l = Some b \<and> expired now (rl_window l) b)"
  using assms by (auto simp: sweep_def limiter_ok_def row_get_filter split: option.split)

lemma open_bucket_live: "limiter_ok l \<Longrightarrow> \<not> expired now (rl_window l) (open_bucket k now l)"
  by (auto simp: open_bucket_def not_expired_fresh limiter_ok_def split: option.split)

lemma open_bucket_key: "rb_key (open_bucket k now l) = k"
  by (auto simp: open_bucket_def split: option.split dest: row_get_key)

text \<open>
  One call of \<open>Allow\<close>: the answer, the bucket of the key, and the buckets of the other keys, each
  kept or, when its window is over, possibly dropped.
\<close>

lemma Allow_effect:
  assumes ok: "limiter_ok l" and al: "Allow k now l = (a, l')"
  shows "a \<longleftrightarrow> rb_count (open_bucket k now l) < rate l"
    and "get_bucket k l' = Some ((open_bucket k now l)\<lparr>rb_count := rb_count (open_bucket k now l) + (if a then 1 else 0)\<rparr>)"
    and "k' \<noteq> k \<Longrightarrow> get_bucket k' l' = get_bucket k' l \<or>
      get_bucket k' l' = None \<and> (\<exists>b. get_bucket k' l = Some b \<and> expired now (rl_window l) b)"
    and "limiter_ok l'" and "rl_rpm l' = rl_rpm l" and "rl_window l' = rl_window l"
proof -
  let ?l1 = "fresh_window k now l" and ?b = "open_bucket k now l"
  let ?l2 = "sweep now ?l1"
  let ?inc = "\<lambda>b :: rateBucket. b\<lparr>rb_count := rb_count b + 1\<rparr>"
  have pos: "0 < sint (rl_rpm l)" using ok by (simp add: limiter_ok_def)
  have g1: "get_bucket k ?l1 = Some ?b" by (simp add: fresh_window_get)
  have ok1: "limiter_ok ?l1" by (rule fresh_window_ok [OF ok])
  have ok2: "limiter_ok ?l2" by (rule sweep_ok [OF ok1])
  have g2: "get_bucket k ?l2 = Some ?b"
    using sweep_get [OF ok1, of k now] open_bucket_live [OF ok, of now k] g1 by auto
  have o2: "k' \<noteq> k \<Longrightarrow> get_bucket k' ?l2 = get_bucket k' l \<or>
      get_bucket k' ?l2 = None \<and> (\<exists>b. get_bucket k' l = Some b \<and> expired now (rl_window l) b)"
    using sweep_get [OF ok1, of k' now] by (simp add: fresh_window_get)
  have ans: "a \<longleftrightarrow> int (rb_count ?b) < sint (rl_rpm l)"
    and l': "l' = (if a then ?l2\<lparr>rl_buckets := row_upd rb_key k ?inc (rl_buckets ?l2)\<rparr> else ?l2)"
    using al pos g1 by (auto simp: Allow_def Let_def split: if_splits)
  show "a \<longleftrightarrow> rb_count ?b < rate l" using ans pos by (auto simp: rate_def)
  show "get_bucket k l' = Some (?b\<lparr>rb_count := rb_count ?b + (if a then 1 else 0)\<rparr>)"
    using g2 by (simp add: l' row_get_upd)
  show "k' \<noteq> k \<Longrightarrow> get_bucket k' l' = get_bucket k' l \<or>
      get_bucket k' l' = None \<and> (\<exists>b. get_bucket k' l = Some b \<and> expired now (rl_window l) b)"
    using o2 by (simp add: l' row_get_upd)
  have "rows_ok": "\<forall>b \<in> set (row_upd rb_key k ?inc (rl_buckets ?l2)). int (rb_count b) \<le> sint (rl_rpm l)" if a
  proof (rule tbl.upd_all)
    show "\<forall>b \<in> set (rl_buckets ?l2). int (rb_count b) \<le> sint (rl_rpm l)" using ok2 by (simp add: limiter_ok_def)
    fix b
    assume "b \<in> set (rl_buckets ?l2)" "rb_key b = k"
    then have "b = ?b" using g2 tbl.get_rows [of rb_key "rl_buckets ?l2" k b] ok2 by (auto simp: limiter_ok_def)
    then show "int (rb_count (?inc b)) \<le> sint (rl_rpm l)" using ans that by simp
  qed simp
  have "pk_ok rb_key (row_upd rb_key k ?inc (rl_buckets ?l2))"
    using ok2 by (intro tbl.ok_upd) (simp_all add: limiter_ok_def)
  then show "limiter_ok l'" using ok2 rows_ok by (auto simp: l' limiter_ok_def)
  show "rl_rpm l' = rl_rpm l" "rl_window l' = rl_window l" by (simp_all add: l')
qed

section \<open>Sequences of calls\<close>







text \<open>
  Requests within the rate are served. A request is permitted exactly when fewer than the rate
  were counted in the window that is open for its key; it opens a window when the key has none or
  its window is over; a refusal counts nothing; and the other keys lose no count of an open window.
\<close>

theorem allow_exact:
  assumes "limiter_ok l" and "Allow k now l = (a, l')"
  shows "(a \<longleftrightarrow> (case get_bucket k l of None \<Rightarrow> True
      | Some b \<Rightarrow> rl_window l \<le> now - rb_starts b \<or> int (rb_count b) < sint (rl_rpm l))) \<and>
    (\<exists>b. get_bucket k l' = Some b \<and> rb_count b = (case get_bucket k l of None \<Rightarrow> 1
      | Some c \<Rightarrow> if rl_window l \<le> now - rb_starts c then 1 else if a then rb_count c + 1 else rb_count c)) \<and>
    (\<forall>k' b. k' \<noteq> k \<longrightarrow> get_bucket k' l = Some b \<longrightarrow> now - rb_starts b < rl_window l \<longrightarrow> get_bucket k' l' = Some b) \<and>
    limiter_ok l'"
proof (intro conjI allI impI)
  note ef = Allow_effect [OF assms]
  have w: "0 < rl_window l" "rl_window l \<le> max_int64" and p: "0 < rate l" "0 < sint (rl_rpm l)"
    using assms(1) by (simp_all add: limiter_ok_def rate_def)
  note ex = expired_iff [OF w]
  show "a \<longleftrightarrow> (case get_bucket k l of None \<Rightarrow> True
      | Some b \<Rightarrow> rl_window l \<le> now - rb_starts b \<or> int (rb_count b) < sint (rl_rpm l))"
    using ef(1) p by (auto simp: open_bucket_def ex rate_def split: option.split)
  show "\<exists>b. get_bucket k l' = Some b \<and> rb_count b = (case get_bucket k l of None \<Rightarrow> 1
      | Some c \<Rightarrow> if rl_window l \<le> now - rb_starts c then 1 else if a then rb_count c + 1 else rb_count c)"
    using ef(1,2) p by (auto simp: open_bucket_def ex split: option.split)
  show "limiter_ok l'" by (rule ef(4))
  fix k' b
  assume "k' \<noteq> k" "get_bucket k' l = Some b" "now - rb_starts b < rl_window l"
  then show "get_bucket k' l' = Some b" using ef(3) [of k'] ex [of now b] by auto
qed

theorem allow_exact_witness:
  "\<exists>b. get_bucket ''a'' (snd (Allow ''a'' 5 (NewRateLimiter 2))) = Some b \<and> rb_count b = 1"
proof -
  obtain a l' where al: "Allow ''a'' 5 (NewRateLimiter 2) = (a, l')" by fastforce
  show ?thesis using allow_exact [OF new_limiter_ok al] al by (simp add: NewRateLimiter_def)
qed

end
