(* ===== verification/Id_Service.thy ===== *)
theory Id_Service
  imports Id_Tokens Rate_Limit
begin

text \<open>
  The identity service, \<open>backend/identity/service.go\<close>, \<open>sessions.go\<close>, \<open>verification.go\<close>, \<open>audit.go\<close> and
  \<open>events.go\<close>. Every operation is a handler in the sense of \<open>Handlers\<close>. The record \<open>id_service\<close> carries
  what the service was built with and the correlation id of the request; the free-text redaction of
  \<open>backend/platform/redact.go\<close>, the texts of errors and of durations are functions in it.
\<close>

record id_service =
  isv_issuer :: issuer
  isv_publisher :: bool
  isv_trustForwarded :: bool
  isv_breacher :: "breacher option"
  isv_breachFailClosed :: bool
  isv_verification :: VerificationConfig
  isv_argon :: argon
  isv_lower :: "string \<Rightarrow> string"
  isv_redact :: "string \<Rightarrow> string"
  isv_error_text :: "id_error \<Rightarrow> string"
  isv_duration_text :: "duration \<Rightarrow> string"
  isv_correlation :: string

abbreviation uuid_text :: "id_service \<Rightarrow> uuid \<Rightarrow> string" where
  "uuid_text sv \<equiv> iss_uuid_string (isv_issuer sv)"

section \<open>Events and audit entries\<close>

definition EventUserCreated :: string where "EventUserCreated = ''user.created.v1''"
definition EventRoleGranted :: string where "EventRoleGranted = ''role.granted.v1''"

definition id_publish :: "id_service \<Rightarrow> string \<Rightarrow> string \<Rightarrow> string \<Rightarrow> string \<Rightarrow> id_payload \<Rightarrow> unit id_prog" where
  "id_publish sv eventType aggregate tenant actor pl =
     (if \<not> isv_publisher sv then Done (Inr ())
      else if eventType = [] \<or> aggregate = [] then Done (Inl IdFailed)
      else effect (\<lambda>e w.
        if \<not> ie_pub e then (Inl IdFailed, w)
        else (Inr (), w\<lparr>iw_events := iw_events w @
          [\<lparr>de_Type = eventType, de_AggregateID = aggregate, de_TenantID = tenant, de_ActorID = actor,
            de_CorrelationID = isv_correlation sv, de_Payload = pl\<rparr>]\<rparr>)))"

definition RecordAudit :: "AuditEntry \<Rightarrow> unit id_prog" where
  "RecordAudit a =
     (if ae_Action a = [] then Done (Inl (IdApp (ErrValidation ''audit action is required''
        [\<lparr>fe_Field = ''action'', fe_Issue = ''required''\<rparr>])))
      else if ae_ObjectType a = [] \<or> ae_ObjectID a = []
        then Done (Inl (IdApp (ErrValidation ''audit object type and id are required''
          [\<lparr>fe_Field = ''object_type'', fe_Issue = ''required''\<rparr>, \<lparr>fe_Field = ''object_id'', fe_Issue = ''required''\<rparr>])))
      else stored (InsertAudit a))"

definition actor_ref :: "uuid \<Rightarrow> uuid option" where
  "actor_ref a = (if a = uuid_nil then None else Some a)"

definition audit :: "uuid \<Rightarrow> string \<Rightarrow> string \<Rightarrow> string \<Rightarrow> (string \<times> meta) list \<Rightarrow> unit id_prog" where
  "audit actor action objectType objectID metadata =
     RecordAudit \<lparr>ae_ActorID = actor_ref actor, ae_Action = action, ae_ObjectType = objectType,
       ae_ObjectID = objectID, ae_TenantID = None, ae_Metadata = metadata\<rparr>"

section \<open>Passwords\<close>

definition invalidLogin :: id_error where
  "invalidLogin = IdApp (ErrUnauthorized ''invalid email or password'')"

definition not_found :: "string \<Rightarrow> id_error" where "not_found detail = IdApp (ErrNotFound detail)"

definition breach_unavailable :: id_error where
  "breach_unavailable = IdApp
     \<lparr>er_Status = 503, er_Code = ''breach_check_unavailable'', er_Title = ''Password breach check unavailable'',
      er_Detail = ''the password could not be checked against breach lists; try again later'', er_FieldErrors = []\<rparr>"

definition checkPasswordBreach :: "id_service \<Rightarrow> string \<Rightarrow> string id_prog" where
  "checkPasswordBreach sv password =
     (case isv_breacher sv of
        None \<Rightarrow> Done (Inr [])
      | Some b \<Rightarrow>
          if length password < MinPasswordLength \<or> length password > MaxPasswordLength then Done (Inr [])
          else and_then (b password) (\<lambda>r. Done (case r of
            Inl err \<Rightarrow>
              if isv_breachFailClosed sv then Inl breach_unavailable
              else Inr (''fail-open: breach check unavailable: '' @ isv_error_text sv err)
          | Inr breached \<Rightarrow>
              if breached then Inl (password_error ''password appears in a known breach or common-password corpus'' ''breached'')
              else Inr [])))"

definition auditBreachNote :: "id_service \<Rightarrow> uuid \<Rightarrow> string \<Rightarrow> unit id_prog" where
  "auditBreachNote sv user note =
     audit user ActionBreachCheckUnavailable ''user'' (uuid_text sv user) [(''note'', MText note)]"

definition breach_note :: "id_service \<Rightarrow> uuid \<Rightarrow> string \<Rightarrow> unit id_prog" where
  "breach_note sv user note = (if note \<noteq> [] then auditBreachNote sv user note else Done (Inr ()))"

section \<open>Registration\<close>

definition email_letter :: "char \<Rightarrow> bool" where
  "email_letter c \<longleftrightarrow> (let n = of_char c :: nat in (97 \<le> n \<and> n \<le> 122) \<or> (65 \<le> n \<and> n \<le> 90))"

definition email_domain_char :: "char \<Rightarrow> bool" where
  "email_domain_char c \<longleftrightarrow> email_letter c \<or> digit_val c \<noteq> None \<or> c = CHR ''.'' \<or> c = CHR ''-''"

definition email_local_char :: "char \<Rightarrow> bool" where
  "email_local_char c \<longleftrightarrow> email_domain_char c \<or> c \<in> set ''_%+''"

text \<open>
  The regular expression \<open>emailPattern\<close>: one @; before it at least one of its characters; after it
  characters of domains, the last of their dots neither first nor followed by anything but two letters
  or more.
\<close>

definition emailPattern :: "string \<Rightarrow> bool" where
  "emailPattern s =
     (case split_on (CHR ''@'') s of
        [localPart, domain] \<Rightarrow>
          let parts = split_on (CHR ''.'') domain; tld = last parts in
          localPart \<noteq> [] \<and> list_all email_local_char localPart \<and> list_all email_domain_char domain \<and>
          length parts \<ge> 2 \<and> length tld \<ge> 2 \<and> list_all email_letter tld \<and> length domain > length tld + 1
      | _ \<Rightarrow> False)"

definition maxEmailLength :: nat where "maxEmailLength = 254"

definition registration_fields :: "string \<Rightarrow> string \<Rightarrow> FieldError list" where
  "registration_fields email fullName =
     (if \<not> emailPattern email \<or> length email > maxEmailLength then [\<lparr>fe_Field = ''email'', fe_Issue = ''invalid''\<rparr>] else [])
     @ (if fullName = [] then [\<lparr>fe_Field = ''full_name'', fe_Issue = ''required''\<rparr>] else [])"

definition issueVerificationToken ::
  "id_service \<Rightarrow> User \<Rightarrow> VerificationChannel \<Rightarrow> string \<Rightarrow> (string \<times> gotime) id_prog" where
  "issueVerificationToken sv user channel via =
     try_then newOpaqueToken (\<lambda>raw.
     and_then (ask ie_clock) (\<lambda>now.
     let expiresAt = now + vc_TokenTTL (isv_verification sv) in
     and_then (ask ie_uuid) (\<lambda>k.
     try_then (stored (CreateVerificationToken
       \<lparr>vt_ID = k, vt_UserID = us_ID user, vt_Channel = channel, vt_TokenHash = TokenHash (isv_issuer sv) raw,
        vt_ExpiresAt = expiresAt, vt_ConsumedAt = None, vt_CreatedAt = 0\<rparr>)) (\<lambda>_.
     try_then (audit (us_ID user) (if via = ''resend'' then ActionVerificationResent else ActionVerificationIssued)
       ''user'' (uuid_text sv (us_ID user)) [(''channel'', MText channel), (''expires_at'', MTime expiresAt)]) (\<lambda>_.
     Done (Inr (raw, expiresAt)))))))"

definition issueChannel :: "id_service \<Rightarrow> User \<Rightarrow> VerificationChannel \<Rightarrow> VerificationEcho list id_prog" where
  "issueChannel sv user channel =
     try_then (issueVerificationToken sv user channel ''registration'') (\<lambda>(raw, expiresAt).
     Done (Inr (if vc_DevEcho (isv_verification sv)
       then [\<lparr>ve_Channel = channel, ve_Token = raw, ve_ExpiresAt = expiresAt\<rparr>] else [])))"

definition device_meta :: "id_service \<Rightarrow> string \<Rightarrow> string \<Rightarrow> (string \<times> meta) list" where
  "device_meta sv device ip = [(''device_name'', MText (isv_redact sv device)), (''ip_address'', MText ip)]"

definition new_user :: "uuid \<Rightarrow> string \<Rightarrow> string \<Rightarrow> string \<Rightarrow> string \<Rightarrow> User" where
  "new_user k email phone fullName hash =
     \<lparr>us_ID = k, us_Email = email, us_Phone = phone, us_FullName = fullName, us_PasswordHash = hash,
      us_Status = StatusActive, us_Roles = [RoleCustomer], us_EmailVerifiedAt = None, us_PhoneVerifiedAt = None,
      us_CreatedAt = 0, us_UpdatedAt = 0\<rparr>"

definition Register ::
  "id_service \<Rightarrow> string \<Rightarrow> string \<Rightarrow> string \<Rightarrow> string \<Rightarrow> string \<Rightarrow> string \<Rightarrow> AccessResponse id_prog" where
  "Register sv email0 phone0 password fullName0 device ip =
     (let email = to_lower (trim_space email0); phone = trim_space phone0; fullName = trim_space fullName0;
          bad = registration_fields email fullName in
      if bad \<noteq> [] then Done (Inl (IdApp (ErrValidation ''the registration request is invalid'' bad)))
      else try_then (checkPasswordBreach sv password) (\<lambda>note.
      try_then (HashPassword (isv_argon sv) password) (\<lambda>hash.
      and_then (ask ie_uuid) (\<lambda>k.
      try_then (stored (CreateUser (isv_lower sv) (new_user k email phone fullName hash))) (\<lambda>user.
      try_then (breach_note sv (us_ID user) note) (\<lambda>_.
      try_then (Issue (isv_issuer sv) user device ip) (\<lambda>resp.
      try_then (audit (us_ID user) ActionUserRegistered ''user'' (uuid_text sv (us_ID user))
        ((''email'', MText (us_Email user)) # device_meta sv device ip)) (\<lambda>_.
      try_then (issueChannel sv user ChannelEmail) (\<lambda>echo1.
      try_then (if us_Phone user \<noteq> [] then issueChannel sv user ChannelPhone else Done (Inr [])) (\<lambda>echo2.
      try_then (id_publish sv EventUserCreated (uuid_text sv (us_ID user)) [] (uuid_text sv (us_ID user))
        (PUserCreated \<lparr>pu_UserID = us_ID user, pu_Status = us_Status user, pu_Roles = us_Roles user\<rparr>)) (\<lambda>_.
      Done (Inr (resp\<lparr>ar_Verification := echo1 @ echo2\<rparr>)))))))))))))"

section \<open>Login and password change\<close>

definition Login :: "id_service \<Rightarrow> string \<Rightarrow> string \<Rightarrow> string \<Rightarrow> string \<Rightarrow> AccessResponse id_prog" where
  "Login sv email password device ip =
     try_then (or_else invalidLogin (GetUserByEmail (isv_lower sv) (trim_space email))) (\<lambda>user.
     case VerifyPassword (isv_argon sv) password (us_PasswordHash user) of
       None \<Rightarrow> Done (Inl IdFailed)
     | Some ok \<Rightarrow>
         if \<not> ok then Done (Inl invalidLogin)
         else if us_Status user \<noteq> StatusActive then Done (Inl not_active)
         else try_then (Issue (isv_issuer sv) user device ip) (\<lambda>resp.
         try_then (audit (us_ID user) ActionUserLogin ''user'' (uuid_text sv (us_ID user)) (device_meta sv device ip)) (\<lambda>_.
         Done (Inr resp))))"

definition ChangePassword :: "id_service \<Rightarrow> uuid \<Rightarrow> string \<Rightarrow> string \<Rightarrow> unit id_prog" where
  "ChangePassword sv userID currentPassword newPassword =
     try_then (or_else (not_found ''user not found'') (GetUser userID)) (\<lambda>user.
     case VerifyPassword (isv_argon sv) currentPassword (us_PasswordHash user) of
       None \<Rightarrow> Done (Inl IdFailed)
     | Some ok \<Rightarrow>
         if \<not> ok then Done (Inl (IdApp (ErrUnauthorized ''current password is incorrect'')))
         else try_then (checkPasswordBreach sv newPassword) (\<lambda>note.
         try_then (breach_note sv (us_ID user) note) (\<lambda>_.
         try_then (HashPassword (isv_argon sv) newPassword) (\<lambda>hash.
         try_then (stored (UpdatePassword (us_ID user) hash)) (\<lambda>_.
         try_then (stored (RevokeUserSessions (us_ID user))) (\<lambda>revoked.
         audit (us_ID user) ActionPasswordChanged ''user'' (uuid_text sv (us_ID user))
           [(''sessions_revoked'', MInt revoked)]))))))"

section \<open>Sessions\<close>

definition RefreshTokens :: "id_service \<Rightarrow> string \<Rightarrow> AccessResponse id_prog" where
  "RefreshTokens sv refreshToken =
     try_then (Refresh (isv_issuer sv) refreshToken) (\<lambda>(resp, previous).
     try_then (audit (se_UserID previous) ActionSessionRefreshed ''session'' (uuid_text sv (se_ID previous))
       (device_meta sv (se_DeviceName previous) (se_IPAddress previous))) (\<lambda>_.
     Done (Inr resp)))"

definition Logout :: "id_service \<Rightarrow> uuid \<Rightarrow> uuid \<Rightarrow> unit id_prog" where
  "Logout sv sessionID actorID =
     try_then (or_else (not_found ''session not found'') (Revoke sessionID)) (\<lambda>_.
     audit actorID ActionSessionRevoked ''session'' (uuid_text sv sessionID) [])"

definition LogoutByRefreshToken :: "id_service \<Rightarrow> string \<Rightarrow> uuid \<Rightarrow> unit id_prog" where
  "LogoutByRefreshToken sv refreshToken actorID =
     (if trim_space refreshToken = []
        then Done (Inl (IdApp (ErrValidation ''refresh_token is required''
          [\<lparr>fe_Field = ''refresh_token'', fe_Issue = ''required''\<rparr>])))
      else try_then (or_else invalidLogin
        (stored (GetSessionByRefreshHash (RefreshTokenHash (isv_issuer sv) refreshToken)))) (\<lambda>sess.
      if se_RevokedAt sess \<noteq> None then Done (Inl invalidLogin)
      else try_then (stored (Store_RevokeSession (se_ID sess))) (\<lambda>_.
      audit actorID ActionSessionRevoked ''session'' (uuid_text sv (se_ID sess)) [(''via'', MText ''refresh_token'')])))"

definition ListSessions :: "uuid \<Rightarrow> Session list id_prog" where
  "ListSessions userID =
     try_then (stored (ListUserSessions userID)) (\<lambda>ss. Done (Inr (map (\<lambda>s. s\<lparr>se_RefreshTokenHash := []\<rparr>) ss)))"

definition RevokeSession :: "id_service \<Rightarrow> uuid \<Rightarrow> uuid \<Rightarrow> uuid \<Rightarrow> unit id_prog" where
  "RevokeSession sv userID sessionID actorID =
     try_then (or_else (not_found ''session not found'') (stored (GetSessionByID sessionID))) (\<lambda>sess.
     if se_UserID sess \<noteq> userID then Done (Inl (not_found ''session not found''))
     else try_then (or_else (not_found ''session not found'') (stored (Store_RevokeSession sessionID))) (\<lambda>_.
     audit actorID ActionSessionRevoked ''session'' (uuid_text sv sessionID)
       [(''via'', MText ''sessions_api''), (''owner_id'', MText (uuid_text sv userID)),
        (''device_name'', MText (isv_redact sv (se_DeviceName sess)))]))"

definition RevokeAllSessions :: "id_service \<Rightarrow> uuid \<Rightarrow> uuid \<Rightarrow> int id_prog" where
  "RevokeAllSessions sv userID actorID =
     try_then (stored (RevokeUserSessions userID)) (\<lambda>revoked.
     try_then (audit actorID ActionSessionRevokedAll ''user'' (uuid_text sv userID) [(''revoked'', MInt revoked)]) (\<lambda>_.
     Done (Inr revoked)))"

section \<open>Verification\<close>

definition errInvalidVerificationToken :: id_error where
  "errInvalidVerificationToken = IdApp (ErrUnauthorized ''verification token is invalid or expired'')"

definition errResendLimited :: "string \<Rightarrow> id_error" where
  "errResendLimited detail = IdApp
     \<lparr>er_Status = 429, er_Code = ''rate_limited'', er_Title = ''Too many requests'', er_Detail = detail,
      er_FieldErrors = []\<rparr>"

definition Verify :: "id_service \<Rightarrow> string \<Rightarrow> VerificationChannel id_prog" where
  "Verify sv raw0 =
     (let raw = trim_space raw0 in
      if raw = [] then Done (Inl (IdApp (ErrValidation ''token is required''
        [\<lparr>fe_Field = ''token'', fe_Issue = ''required''\<rparr>])))
      else try_then (or_else errInvalidVerificationToken
        (stored (GetVerificationTokenByHash (TokenHash (isv_issuer sv) raw)))) (\<lambda>token.
      and_then (ask ie_clock) (\<lambda>now.
      if vt_ConsumedAt token \<noteq> None \<or> \<not> now < vt_ExpiresAt token then Done (Inl errInvalidVerificationToken)
      else try_then (and_then (stored (ConsumeVerificationToken (vt_ID token) (vt_UserID token) (vt_Channel token) now))
        (\<lambda>r. Done (case r of
          Inl err \<Rightarrow> Inl (if err = ErrVerificationTokenConsumed then errInvalidVerificationToken else err)
        | Inr x \<Rightarrow> Inr x))) (\<lambda>_.
      try_then (audit (vt_UserID token) ActionVerificationVerified ''user'' (uuid_text sv (vt_UserID token))
        [(''channel'', MText (vt_Channel token))]) (\<lambda>_.
      Done (Inr (vt_Channel token)))))))"

definition resend_due :: "id_service \<Rightarrow> gotime \<Rightarrow> int \<Rightarrow> gotime \<Rightarrow> id_error option" where
  "resend_due sv now count latest =
     (let cfg = isv_verification sv in
      if \<not> time_is_zero latest \<and> vc_ResendCooldown cfg > 0 \<and> time_sub now latest < vc_ResendCooldown cfg
        then Some (errResendLimited (''verification resend cooldown active for this channel; retry in ''
          @ isv_duration_text sv (round_second (vc_ResendCooldown cfg - time_sub now latest))))
      else if count \<ge> vc_ResendLimit cfg
        then Some (errResendLimited (''verification resend limit reached for this channel; at most ''
          @ dec_int (vc_ResendLimit cfg) @ '' tokens per 24h''))
      else None)"

definition ResendVerification ::
  "id_service \<Rightarrow> string \<Rightarrow> VerificationChannel \<Rightarrow> (VerificationChannel \<times> VerificationEcho option) id_prog" where
  "ResendVerification sv email0 channel0 =
     (let email = to_lower (trim_space email0); channel = (if channel0 = [] then ChannelEmail else channel0) in
      if email = [] then Done (Inl (IdApp (ErrValidation ''email is required''
        [\<lparr>fe_Field = ''email'', fe_Issue = ''required''\<rparr>])))
      else if \<not> IsValidVerificationChannel channel
        then Done (Inl (IdApp (ErrValidation ''channel must be email or phone''
          [\<lparr>fe_Field = ''channel'', fe_Issue = ''invalid''\<rparr>])))
      else and_then (GetUserByEmail (isv_lower sv) email) (\<lambda>found. case found of
        Inl err \<Rightarrow> if isNotFound err then Done (Inr (channel, None)) else Done (Inl err)
      | Inr user \<Rightarrow>
          if channel = ChannelEmail \<and> us_EmailVerifiedAt user \<noteq> None then Done (Inr (channel, None))
          else if channel = ChannelPhone \<and> (us_Phone user = [] \<or> us_PhoneVerifiedAt user \<noteq> None)
            then Done (Inr (channel, None))
          else and_then (ask ie_clock) (\<lambda>now.
          try_then (stored (VerificationTokenStats (us_ID user) channel (now - verificationResendLimitWindow))) (\<lambda>(count, latest).
          case resend_due sv now count latest of
            Some err \<Rightarrow> Done (Inl err)
          | None \<Rightarrow>
              try_then (issueVerificationToken sv user channel ''resend'') (\<lambda>(raw, expiresAt).
              Done (Inr (channel, if vc_DevEcho (isv_verification sv)
                then Some \<lparr>ve_Channel = channel, ve_Token = raw, ve_ExpiresAt = expiresAt\<rparr> else None)))))))"

section \<open>Reads and administration\<close>

definition Profile :: "uuid \<Rightarrow> User id_prog" where
  "Profile userID =
     try_then (or_else (not_found ''user not found'') (GetUser userID)) (\<lambda>user.
     Done (Inr (user\<lparr>us_PasswordHash := []\<rparr>)))"

definition defaultListUsersLimit :: int where "defaultListUsersLimit = 20"
definition maxListUsersLimit :: int where "maxListUsersLimit = 100"

definition clampLimit :: "int \<Rightarrow> int" where
  "clampLimit limit =
     (if limit \<le> 0 then defaultListUsersLimit else if limit > maxListUsersLimit then maxListUsersLimit else limit)"

definition clampOffset :: "int \<Rightarrow> int" where
  "clampOffset offset = (if offset < 0 then 0 else offset)"

definition ListUsers :: "int \<Rightarrow> int \<Rightarrow> User list id_prog" where
  "ListUsers limit offset =
     (let limit1 = (if limit \<le> 0 then defaultListUsersLimit else limit);
          limit2 = (if limit1 > maxListUsersLimit then maxListUsersLimit else limit1);
          offset1 = (if offset < 0 then 0 else offset)
      in try_then (Store_ListUsers limit2 offset1) (\<lambda>users.
         Done (Inr (map (\<lambda>u. u\<lparr>us_PasswordHash := []\<rparr>) users))))"

definition ListUsersForAdmin :: "uuid \<Rightarrow> uuid option \<Rightarrow> int \<Rightarrow> int \<Rightarrow> User list id_prog" where
  "ListUsersForAdmin actorID tenantID limit offset =
     try_then (ListUsers limit offset) (\<lambda>users.
     try_then (RecordAudit \<lparr>ae_ActorID = actor_ref actorID, ae_Action = ActionUsersListed, ae_ObjectType = ''user'',
       ae_ObjectID = ''collection'', ae_TenantID = tenantID,
       ae_Metadata = [(''limit'', MInt (clampLimit limit)), (''offset'', MInt (clampOffset offset)),
                      (''returned'', MInt (int (length users)))]\<rparr>) (\<lambda>_.
     Done (Inr users)))"

definition ListAudit :: "AuditFilter \<Rightarrow> AuditRecord list id_prog" where
  "ListAudit f = stored (Store_ListAudit (AuditFilter_clamp f))"

definition Service_AssignRole :: "id_service \<Rightarrow> uuid \<Rightarrow> Role \<Rightarrow> uuid option \<Rightarrow> uuid \<Rightarrow> unit id_prog" where
  "Service_AssignRole sv userID role tenantID actorID =
     try_then (stored (AssignRole userID role tenantID)) (\<lambda>_.
     try_then (audit actorID ActionRoleGranted ''user'' (uuid_text sv userID) [(''role'', MText role)]) (\<lambda>_.
     id_publish sv EventRoleGranted (uuid_text sv userID)
       (case tenantID of None \<Rightarrow> [] | Some t \<Rightarrow> uuid_text sv t)
       (if actorID \<noteq> uuid_nil then uuid_text sv actorID else [])
       (PRoleGranted \<lparr>pg_UserID = userID, pg_Role = role, pg_TenantID = tenantID\<rparr>)))"

end
