(* ===== verification/Id_Http.thy ===== *)
theory Id_Http
  imports Id_Service
begin

text \<open>
  The HTTP interface of identity, \<open>backend/identity/http.go\<close>. A call brings an \<open>id_call\<close>: the validated
  claims, the addresses of the connection, and what the rate limiter answered to it (\<open>None\<close>: admitted;
  its state is the subject of \<open>Rate_Limit\<close>). A handler answers through a \<open>prog\<close>. \<open>uuid.Parse\<close> and
  \<open>time.Parse\<close> for RFC 3339 are parameters; \<open>ih_partial\<close> is the identifier \<open>uuid.Parse\<close> returns beside
  an error. A time in a response stands for its text.
\<close>

record id_http =
  ih_service :: id_service
  ih_parse :: "string \<Rightarrow> uuid option"
  ih_partial :: "string \<Rightarrow> uuid"
  ih_parse_time :: "string \<Rightarrow> gotime option"

record id_call =
  ic_claims :: "Claims option"
  ic_remote :: string
  ic_forwarded :: string
  ic_limited :: "duration option"

type_synonym 'b id_answer = "(id_env, id_world, 'b response) prog"

section \<open>Bodies\<close>

record registerRequest =
  qr_Email :: string
  qr_Phone :: string
  qr_Password :: string
  qr_FullName :: string
  qr_DeviceName :: string

record loginRequest =
  ql_Email :: string
  ql_Password :: string
  ql_DeviceName :: string

record refreshRequest = qf_RefreshToken :: string

record logoutRequest = qo_RefreshToken :: string

record verifyRequest = qv_Token :: string

record resendVerificationRequest =
  qs_Email :: string
  qs_Channel :: VerificationChannel

record changePasswordRequest =
  qp_CurrentPassword :: string
  qp_NewPassword :: string

record userResponse =
  xu_ID :: uuid
  xu_Email :: string
  xu_Phone :: string
  xu_FullName :: string
  xu_Status :: string
  xu_Roles :: "string list"
  xu_EmailVerifiedAt :: "gotime option"
  xu_PhoneVerifiedAt :: "gotime option"
  xu_CreatedAt :: gotime

definition newUserResponse :: "User \<Rightarrow> userResponse" where
  "newUserResponse u =
     \<lparr>xu_ID = us_ID u, xu_Email = us_Email u, xu_Phone = us_Phone u, xu_FullName = us_FullName u,
      xu_Status = us_Status u, xu_Roles = us_Roles u, xu_EmailVerifiedAt = us_EmailVerifiedAt u,
      xu_PhoneVerifiedAt = us_PhoneVerifiedAt u, xu_CreatedAt = us_CreatedAt u\<rparr>"

record userListResponse =
  xl_Users :: "userResponse list"
  xl_Limit :: int
  xl_Offset :: int

record sessionResponse =
  xs_ID :: uuid
  xs_DeviceName :: string
  xs_IPAddress :: string
  xs_CreatedAt :: gotime
  xs_ExpiresAt :: gotime
  xs_AbsoluteExpiresAt :: gotime
  xs_RevokedAt :: "gotime option"
  xs_Current :: bool

definition newSessionResponse :: "id_service \<Rightarrow> Session \<Rightarrow> string \<Rightarrow> sessionResponse" where
  "newSessionResponse sv s currentSessionID =
     \<lparr>xs_ID = se_ID s, xs_DeviceName = se_DeviceName s, xs_IPAddress = se_IPAddress s,
      xs_CreatedAt = se_CreatedAt s, xs_ExpiresAt = se_ExpiresAt s, xs_AbsoluteExpiresAt = se_AbsoluteExpiresAt s,
      xs_RevokedAt = se_RevokedAt s, xs_Current = (uuid_text sv (se_ID s) = currentSessionID)\<rparr>"

record auditRecordResponse =
  xa_ID :: int64
  xa_ActorID :: "uuid option"
  xa_Action :: string
  xa_ObjectType :: string
  xa_ObjectID :: string
  xa_TenantID :: "uuid option"
  xa_Metadata :: "(string \<times> meta) list"
  xa_CreatedAt :: gotime

definition newAuditRecordResponse :: "AuditRecord \<Rightarrow> auditRecordResponse" where
  "newAuditRecordResponse r =
     \<lparr>xa_ID = au_ID r, xa_ActorID = au_ActorID r, xa_Action = au_Action r, xa_ObjectType = au_ObjectType r,
      xa_ObjectID = au_ObjectID r, xa_TenantID = au_TenantID r, xa_Metadata = au_Metadata r,
      xa_CreatedAt = au_CreatedAt r\<rparr>"

record auditListResponse =
  xe_Entries :: "auditRecordResponse list"
  xe_Limit :: int
  xe_Offset :: int

record resendResponse =
  xr_Channel :: string
  xr_Token :: string
  xr_ExpiresAt :: "gotime option"

datatype id_reply =
    TokensBody AccessResponse
  | NoBodyReply
  | ChannelBody string
  | ResendBody resendResponse
  | SessionsBody "sessionResponse list"
  | RevokedBody int
  | JwksBody string
  | UserBody userResponse
  | UsersBody userListResponse
  | AuditBody auditListResponse

section \<open>Gates and input\<close>

definition clientIP :: "id_service \<Rightarrow> id_call \<Rightarrow> string" where
  "clientIP sv k =
     (let fwd = trim_space (ic_forwarded k); first = takeWhile (\<lambda>c. c \<noteq> CHR '','') fwd in
      if isv_trustForwarded sv \<and> fwd \<noteq> [] \<and> first \<noteq> [] then trim_space first
      else trim_space (ic_remote k))"

definition id_problem :: "id_error \<Rightarrow> 'b id_answer" where
  "id_problem err = Done (WriteError (id_any_error err))"

text \<open>Answering with what an operation returns, or with its error.\<close>

definition answering :: "'a id_prog \<Rightarrow> ('a \<Rightarrow> 'b response) \<Rightarrow> 'b id_answer" where
  "answering p f = and_then p (\<lambda>r. case r of Inl err \<Rightarrow> id_problem err | Inr a \<Rightarrow> Done (f a))"

definition with_body :: "'q body \<Rightarrow> ('q \<Rightarrow> 'b id_answer) \<Rightarrow> 'b id_answer" where
  "with_body b h = (case DecodeJSON b of Inl e \<Rightarrow> id_problem (IdApp e) | Inr q \<Rightarrow> h q)"

text \<open>The gates of \<open>platform/auth.go\<close> and the limiter of \<open>platform/ratelimit.go\<close>, in front of an answer.\<close>

definition authenticated :: "id_call \<Rightarrow> (Claims \<Rightarrow> 'b id_answer) \<Rightarrow> 'b id_answer" where
  "authenticated k h =
     (case ic_claims k of
        None \<Rightarrow> id_problem (IdApp (ErrUnauthorized ''authentication required''))
      | Some claims \<Rightarrow> h claims)"

definition with_role :: "string list \<Rightarrow> id_call \<Rightarrow> (Claims \<Rightarrow> 'b id_answer) \<Rightarrow> 'b id_answer" where
  "with_role roles k h = authenticated k (\<lambda>claims.
     if cl_Role claims \<notin> set roles then id_problem (IdApp (ErrForbidden ''insufficient role'')) else h claims)"

text \<open>The limiter's own answer: a code, a title and the pause, which is not part of the problem here.\<close>

definition too_many_requests :: Error where
  "too_many_requests =
     \<lparr>er_Status = 429, er_Code = ''rate_limited'', er_Title = ''Too many requests'',
      er_Detail = [], er_FieldErrors = []\<rparr>"

definition throttle :: "id_call \<Rightarrow> 'b id_answer \<Rightarrow> 'b id_answer" where
  "throttle k h = (case ic_limited k of None \<Rightarrow> h | Some _ \<Rightarrow> Done (Problem too_many_requests))"

definition subject_of :: "id_http \<Rightarrow> Claims \<Rightarrow> id_error + uuid" where
  "subject_of c claims =
     (case ih_parse c (cl_UserID claims) of
        None \<Rightarrow> Inl (IdApp (ErrUnauthorized ''access token subject is invalid''))
      | Some u \<Rightarrow> Inr u)"

definition with_subject :: "id_http \<Rightarrow> Claims \<Rightarrow> (uuid \<Rightarrow> 'b id_answer) \<Rightarrow> 'b id_answer" where
  "with_subject c claims h = (case subject_of c claims of Inl err \<Rightarrow> id_problem err | Inr u \<Rightarrow> h u)"

definition tenantIDFromClaims :: "id_http \<Rightarrow> Claims \<Rightarrow> id_error + uuid option" where
  "tenantIDFromClaims c claims =
     (if cl_TenantID claims = [] then Inr None
      else case ih_parse c (cl_TenantID claims) of
        None \<Rightarrow> Inl (IdApp (ErrUnauthorized ''authenticated tenant claim is not a tenant identifier''))
      | Some t \<Rightarrow> Inr (Some t))"

definition invalid_param :: "string \<Rightarrow> string \<Rightarrow> id_error" where
  "invalid_param name detail = IdApp (ErrValidation detail [\<lparr>fe_Field = name, fe_Issue = ''invalid''\<rparr>])"

definition paginationFromQuery :: "page_query \<Rightarrow> id_error + int \<times> int" where
  "paginationFromQuery q =
     (case (if pq_limit q = [] then Some defaultListUsersLimit else Atoi (pq_limit q)) of
        None \<Rightarrow> Inl (invalid_param ''limit'' ''limit must be an integer'')
      | Some limit \<Rightarrow>
          (case (if pq_offset q = [] then Some 0 else Atoi (pq_offset q)) of
             None \<Rightarrow> Inl (invalid_param ''offset'' ''offset must be an integer'')
           | Some offset \<Rightarrow> Inr (limit, offset)))"

record audit_query =
  aq_page :: page_query
  aq_tenant_id :: string
  aq_actor_id :: string
  aq_action :: string
  aq_object_type :: string
  aq_object_id :: string
  aq_since :: string
  aq_until :: string

text \<open>An optional parameter: absent when empty.\<close>

definition optional :: "(string \<Rightarrow> 'a option) \<Rightarrow> id_error \<Rightarrow> string \<Rightarrow> id_error + 'a option" where
  "optional parse err raw =
     (if raw = [] then Inr None else case parse raw of None \<Rightarrow> Inl err | Some v \<Rightarrow> Inr (Some v))"

definition auditFilterFromQuery :: "id_http \<Rightarrow> audit_query \<Rightarrow> Claims \<Rightarrow> id_error + AuditFilter" where
  "auditFilterFromQuery c q claims =
     (case paginationFromQuery (aq_page q) of
        Inl err \<Rightarrow> Inl err
      | Inr (limit, offset) \<Rightarrow>
      case (if aq_tenant_id q \<noteq> [] \<and> cl_Role claims = RoleSuperAdmin
            then optional (ih_parse c) (invalid_param ''tenant_id'' ''tenant_id must be a UUID'') (aq_tenant_id q)
            else tenantIDFromClaims c claims) of
        Inl err \<Rightarrow> Inl err
      | Inr tenant \<Rightarrow>
      case optional (ih_parse c) (invalid_param ''actor_id'' ''actor_id must be a UUID'') (aq_actor_id q) of
        Inl err \<Rightarrow> Inl err
      | Inr actor \<Rightarrow>
      case optional (ih_parse_time c) (invalid_param ''since'' ''since must be an RFC 3339 timestamp'') (aq_since q) of
        Inl err \<Rightarrow> Inl err
      | Inr since \<Rightarrow>
      case optional (ih_parse_time c) (invalid_param ''until'' ''until must be an RFC 3339 timestamp'') (aq_until q) of
        Inl err \<Rightarrow> Inl err
      | Inr until \<Rightarrow>
          Inr \<lparr>af_ActorID = actor, af_Action = trim_space (aq_action q), af_ObjectType = trim_space (aq_object_type q),
               af_ObjectID = trim_space (aq_object_id q), af_TenantID = tenant, af_Since = since, af_Until = until,
               af_Limit = limit, af_Offset = offset\<rparr>)"

section \<open>Handlers\<close>

definition handleRegister :: "id_http \<Rightarrow> id_call \<Rightarrow> registerRequest body \<Rightarrow> id_reply id_answer" where
  "handleRegister c k b = with_body b (\<lambda>q.
     answering (Register (ih_service c) (qr_Email q) (qr_Phone q) (qr_Password q) (qr_FullName q) (qr_DeviceName q)
       (clientIP (ih_service c) k)) (\<lambda>resp. Reply 201 (TokensBody resp)))"

definition handleLogin :: "id_http \<Rightarrow> id_call \<Rightarrow> loginRequest body \<Rightarrow> id_reply id_answer" where
  "handleLogin c k b = with_body b (\<lambda>q.
     answering (Login (ih_service c) (ql_Email q) (ql_Password q) (ql_DeviceName q) (clientIP (ih_service c) k))
       (\<lambda>resp. Reply 200 (TokensBody resp)))"

definition handleRefresh :: "id_http \<Rightarrow> refreshRequest body \<Rightarrow> id_reply id_answer" where
  "handleRefresh c b = with_body b (\<lambda>q.
     answering (RefreshTokens (ih_service c) (qf_RefreshToken q)) (\<lambda>resp. Reply 200 (TokensBody resp)))"

definition handleLogout :: "id_http \<Rightarrow> id_call \<Rightarrow> logoutRequest body \<Rightarrow> id_reply id_answer" where
  "handleLogout c k b = with_body b (\<lambda>q.
     let actor = (case ic_claims k of
       None \<Rightarrow> uuid_nil
     | Some claims \<Rightarrow> (case ih_parse c (cl_UserID claims) of Some u \<Rightarrow> u | None \<Rightarrow> ih_partial c (cl_UserID claims)))
     in answering (LogoutByRefreshToken (ih_service c) (qo_RefreshToken q) actor) (\<lambda>_. Reply 204 NoBodyReply))"

definition handleVerify :: "id_http \<Rightarrow> verifyRequest body \<Rightarrow> id_reply id_answer" where
  "handleVerify c b = with_body b (\<lambda>q.
     answering (Verify (ih_service c) (qv_Token q)) (\<lambda>channel. Reply 200 (ChannelBody channel)))"

definition handleVerificationResend :: "id_http \<Rightarrow> resendVerificationRequest body \<Rightarrow> id_reply id_answer" where
  "handleVerificationResend c b = with_body b (\<lambda>q.
     answering (ResendVerification (ih_service c) (qs_Email q) (qs_Channel q)) (\<lambda>(channel, echo).
       Reply 202 (ResendBody (case echo of
         None \<Rightarrow> \<lparr>xr_Channel = channel, xr_Token = [], xr_ExpiresAt = None\<rparr>
       | Some v \<Rightarrow> \<lparr>xr_Channel = channel, xr_Token = ve_Token v, xr_ExpiresAt = Some (ve_ExpiresAt v)\<rparr>))))"

definition handleChangePassword :: "id_http \<Rightarrow> id_call \<Rightarrow> changePasswordRequest body \<Rightarrow> id_reply id_answer" where
  "handleChangePassword c k b = authenticated k (\<lambda>claims. with_subject c claims (\<lambda>u. with_body b (\<lambda>q.
     answering (ChangePassword (ih_service c) u (qp_CurrentPassword q) (qp_NewPassword q)) (\<lambda>_. Reply 204 NoBodyReply))))"

definition handleProfile :: "id_http \<Rightarrow> id_call \<Rightarrow> id_reply id_answer" where
  "handleProfile c k = authenticated k (\<lambda>claims. with_subject c claims (\<lambda>u.
     answering (Profile u) (\<lambda>user. Reply 200 (UserBody (newUserResponse user)))))"

definition handleListUsers :: "id_http \<Rightarrow> id_call \<Rightarrow> page_query \<Rightarrow> id_reply id_answer" where
  "handleListUsers c k q = authenticated k (\<lambda>claims. with_subject c claims (\<lambda>actor.
     case paginationFromQuery q of
       Inl err \<Rightarrow> id_problem err
     | Inr (limit, offset) \<Rightarrow>
         (case tenantIDFromClaims c claims of
            Inl err \<Rightarrow> id_problem err
          | Inr tenant \<Rightarrow>
              answering (ListUsersForAdmin actor tenant limit offset) (\<lambda>users.
                Reply 200 (UsersBody \<lparr>xl_Users = map newUserResponse users, xl_Limit = clampLimit limit,
                  xl_Offset = clampOffset offset\<rparr>)))))"

definition handleListAudit :: "id_http \<Rightarrow> id_call \<Rightarrow> audit_query \<Rightarrow> id_reply id_answer" where
  "handleListAudit c k q = authenticated k (\<lambda>claims.
     case auditFilterFromQuery c q claims of
       Inl err \<Rightarrow> id_problem err
     | Inr f \<Rightarrow> answering (ListAudit f) (\<lambda>records.
         Reply 200 (AuditBody \<lparr>xe_Entries = map newAuditRecordResponse records, xe_Limit = af_Limit f,
           xe_Offset = af_Offset f\<rparr>)))"

definition handleListSessions :: "id_http \<Rightarrow> id_call \<Rightarrow> id_reply id_answer" where
  "handleListSessions c k = authenticated k (\<lambda>claims. with_subject c claims (\<lambda>u.
     answering (ListSessions u) (\<lambda>ss.
       Reply 200 (SessionsBody (map (\<lambda>s. newSessionResponse (ih_service c) s (cl_SessionID claims)) ss)))))"

definition handleRevokeSession :: "id_http \<Rightarrow> id_call \<Rightarrow> string \<Rightarrow> id_reply id_answer" where
  "handleRevokeSession c k raw = authenticated k (\<lambda>claims. with_subject c claims (\<lambda>u.
     case ih_parse c raw of
       None \<Rightarrow> id_problem (invalid_param ''sessionID'' ''sessionID must be a UUID'')
     | Some sid \<Rightarrow> answering (RevokeSession (ih_service c) u sid u) (\<lambda>_. Reply 204 NoBodyReply)))"

definition handleRevokeAllSessions :: "id_http \<Rightarrow> id_call \<Rightarrow> id_reply id_answer" where
  "handleRevokeAllSessions c k = authenticated k (\<lambda>claims. with_subject c claims (\<lambda>u.
     answering (RevokeAllSessions (ih_service c) u u) (\<lambda>n. Reply 200 (RevokedBody n))))"

definition handleJWKS :: "id_http \<Rightarrow> id_reply id_answer" where
  "handleJWKS c = (case JWKS (isv_issuer (ih_service c)) of
     None \<Rightarrow> id_problem (IdApp (ErrNotFound ''no JWKS key set is configured (legacy HS256 signing)''))
   | Some keys \<Rightarrow> Done (Reply 200 (JwksBody keys)))"

section \<open>Routes\<close>

datatype id_request =
    PostRegister "registerRequest body"
  | PostLogin "loginRequest body"
  | PostRefresh "refreshRequest body"
  | PostLogout "logoutRequest body"
  | PostVerify "verifyRequest body"
  | PostResend "resendVerificationRequest body"
  | PostPassword "changePasswordRequest body"
  | GetSessions
  | DeleteSession string
  | DeleteSessions
  | GetJwks
  | GetMe
  | GetUsers page_query
  | GetAudit audit_query

definition admin_roles :: "string list" where "admin_roles = [RoleAdmin, RoleSuperAdmin]"

definition id_Routes :: "id_http \<Rightarrow> id_call \<Rightarrow> id_request \<Rightarrow> id_reply id_answer" where
  "id_Routes c k rq =
     (case rq of
        PostRegister b \<Rightarrow> throttle k (handleRegister c k b)
      | PostLogin b \<Rightarrow> throttle k (handleLogin c k b)
      | PostRefresh b \<Rightarrow> throttle k (handleRefresh c b)
      | PostLogout b \<Rightarrow> throttle k (handleLogout c k b)
      | PostVerify b \<Rightarrow> throttle k (handleVerify c b)
      | PostResend b \<Rightarrow> throttle k (handleVerificationResend c b)
      | PostPassword b \<Rightarrow> authenticated k (\<lambda>_. throttle k (handleChangePassword c k b))
      | GetSessions \<Rightarrow> authenticated k (\<lambda>_. handleListSessions c k)
      | DeleteSession raw \<Rightarrow> authenticated k (\<lambda>_. handleRevokeSession c k raw)
      | DeleteSessions \<Rightarrow> authenticated k (\<lambda>_. handleRevokeAllSessions c k)
      | GetJwks \<Rightarrow> handleJWKS c
      | GetMe \<Rightarrow> authenticated k (\<lambda>_. handleProfile c k)
      | GetUsers q \<Rightarrow> with_role admin_roles k (\<lambda>_. handleListUsers c k q)
      | GetAudit q \<Rightarrow> with_role admin_roles k (\<lambda>_. handleListAudit c k q))"

end
