(* ===== verification/Id_Ledger.thy ===== *)
theory Id_Ledger
  imports Id_Http "HOL-Library.Sublist"
begin

text \<open>
  The integrity of the identity tables and their history: what every action of every handler keeps,
  whatever its environment contributes. \<open>id_move c\<close> is a step of any handler of the HTTP interface, or of
  the in-process role grant; its runs are all interleavings of handlers.
\<close>

section \<open>Integrity\<close>

definition clash_email :: "(string \<Rightarrow> string) \<Rightarrow> user_row \<Rightarrow> user_row \<Rightarrow> bool" where
  "clash_email lower r r' \<longleftrightarrow> lower (ur_email r) = lower (ur_email r')"

definition clash_phone :: "user_row \<Rightarrow> user_row \<Rightarrow> bool" where
  "clash_phone r r' \<longleftrightarrow> (case ur_phone r of None \<Rightarrow> False | Some p \<Rightarrow> ur_phone r' = Some p)"

definition clash_session :: "Session \<Rightarrow> Session \<Rightarrow> bool" where
  "clash_session s s' \<longleftrightarrow> se_RefreshTokenHash s = se_RefreshTokenHash s'"

definition clash_token :: "VerificationToken \<Rightarrow> VerificationToken \<Rightarrow> bool" where
  "clash_token t t' \<longleftrightarrow> vt_TokenHash t = vt_TokenHash t'"

interpretation email_index: unique_index ur_id "clash_email lower" for lower
  by unfold_locales (auto simp: clash_email_def)

interpretation phone_index: unique_index ur_id clash_phone
  by unfold_locales (auto simp: clash_phone_def split: option.splits)

interpretation session_index: unique_index se_ID clash_session
  by unfold_locales (auto simp: clash_session_def)

interpretation token_index: unique_index vt_ID clash_token
  by unfold_locales (auto simp: clash_token_def)

definition users_ok :: "(string \<Rightarrow> string) \<Rightarrow> user_row list \<Rightarrow> bool" where
  "users_ok lower us \<longleftrightarrow> pk_ok ur_id us \<and> index_ok ur_id (clash_email lower) us \<and> index_ok ur_id clash_phone us \<and>
     (\<forall>r \<in> set us. status_checks (ur_status r))"

definition grant_key :: "role_row \<Rightarrow> uuid \<times> Role \<times> uuid option" where
  "grant_key r = (ro_user_id r, ro_role r, ro_tenant_id r)"

definition roles_ok :: "role_row list \<Rightarrow> bool" where
  "roles_ok rs \<longleftrightarrow> distinct (map grant_key rs) \<and> (\<forall>r \<in> set rs. rolePriority (ro_role r) \<noteq> None)"

definition sessions_ok :: "Session list \<Rightarrow> bool" where
  "sessions_ok ss \<longleftrightarrow> pk_ok se_ID ss \<and> index_ok se_ID clash_session ss"

definition vtokens_ok :: "VerificationToken list \<Rightarrow> bool" where
  "vtokens_ok ts \<longleftrightarrow> pk_ok vt_ID ts \<and> index_ok vt_ID clash_token ts \<and>
     (\<forall>t \<in> set ts. IsValidVerificationChannel (vt_Channel t))"

definition owned :: "id_db \<Rightarrow> bool" where
  "owned db \<longleftrightarrow> ro_user_id ` set (user_roles_t db) \<union> se_UserID ` set (sessions_t db) \<union> vt_UserID ` set (vtokens_t db)
     \<subseteq> ur_id ` set (users_t db)"

definition id_ok :: "(string \<Rightarrow> string) \<Rightarrow> id_db \<Rightarrow> bool" where
  "id_ok lower db \<longleftrightarrow> users_ok lower (users_t db) \<and> roles_ok (user_roles_t db) \<and> sessions_ok (sessions_t db) \<and>
     vtokens_ok (vtokens_t db) \<and> owned db"

section \<open>Operations keep it\<close>

lemma stored_state: "snd (case f e db of (r, db') \<Rightarrow> (r, w\<lparr>iw_db := db'\<rparr>)) = w\<lparr>iw_db := snd (f e db)\<rparr>"
  by (simp split: prod.splits)

lemma reading_state [simp]: "snd (reading f e db) = db"
  by (simp add: reading_def)

lemma finish_ok: "id_ok lower old \<Longrightarrow> id_ok lower new \<Longrightarrow> id_ok lower (snd (finish err f n v old new))"
  using finish_state [of err f n v old new] by auto

lemma user_exists_iff: "user_exists u db \<longleftrightarrow> u \<in> ur_id ` set (users_t db)"
  by (auto simp: user_exists_def list_ex_iff)

lemma row_get_fresh: "(\<forall>r \<in> set rows. key r \<noteq> k) \<Longrightarrow> row_get key k rows = None"
  by (auto simp: row_get_def find_None_iff)

lemma row_get_own: "pk_ok key rows \<Longrightarrow> r \<in> set rows \<Longrightarrow> row_get key (key r) rows = Some r"
  by (induction rows) (auto simp: pk_ok_def row_get_def)

lemma row_get_mem: "row_get key k rows = Some r \<Longrightarrow> r \<in> set rows \<and> key r = k"
  by (auto simp: row_get_def find_Some_iff)

lemma pk_ok_map: "(\<And>r. key (f r) = key r) \<Longrightarrow> pk_ok key rows \<Longrightarrow> pk_ok key (map f rows)"
  by (simp add: pk_ok_def o_def)

lemma index_ok_map:
  "(\<And>r. key (f r) = key r) \<Longrightarrow> (\<And>r r'. clash (f r) (f r') = clash r r') \<Longrightarrow> index_ok key clash rows \<Longrightarrow>
    index_ok key clash (map f rows)"
  by (simp add: index_ok_def)

lemma row_upd_map: "row_upd key k f rows = map (\<lambda>r. if key r = k then f r else r) rows"
  by (simp add: row_upd_def)

lemma insert_roles_ok:
  assumes "insert_roles e n u rs rows = Inr rows'" and "roles_ok rows"
  shows "roles_ok rows' \<and> ro_user_id ` set rows' \<subseteq> insert u (ro_user_id ` set rows)"
  using assms
proof (induction e n u rs rows rule: insert_roles.induct)
  case (1 e n u rows)
  then show ?case by auto
next
  case (2 e n u r rs rows)
  let ?row = "\<lparr>ro_id = ie_seq e + of_nat (n - 2), ro_user_id = u, ro_role = r, ro_tenant_id = None, ro_created_at = ie_now e\<rparr>"
  have c: "\<not> fails (ie_flt e) n" "rolePriority r \<noteq> None" "\<not> grant_exists u r None rows"
    "insert_roles e (Suc n) u rs (row_ins ?row rows) = Inr rows'"
    using 2(2) by (auto split: if_splits)
  then have "grant_key ?row \<notin> grant_key ` set rows"
    by (auto simp: grant_exists_def list_ex_iff grant_key_def)
  then have "roles_ok (row_ins ?row rows)" using 2(3) c(2) by (simp add: roles_ok_def row_ins_def)
  from 2(1) [OF c(1-3) c(4) this] show ?case by auto
qed

lemma CreateUser_effect:
  assumes "snd (CreateUser lower u e db) \<noteq> db"
  obtains r roles rows where "status_checks (ur_status r)" "user_conflict lower r (users_t db) = None"
    "insert_roles e 2 (ur_id r) roles (user_roles_t db) = Inr rows" "ur_id r = us_ID u"
    "snd (CreateUser lower u e db) = db\<lparr>users_t := row_ins r (users_t db), user_roles_t := rows\<rparr>"
proof -
  let ?r = "user_row_of (ie_now e) (u\<lparr>us_Email := to_lower (trim_space (us_Email u)), us_Phone := trim_space (us_Phone u)\<rparr>)"
  let ?roles = "if us_Roles u = [] then [RoleCustomer] else us_Roles u"
  from assms have c: "status_checks (ur_status ?r)" "user_conflict lower ?r (users_t db) = None"
    unfolding CreateUser_def Let_def by (auto split: if_splits option.splits)
  from assms obtain rows where rows: "insert_roles e 2 (ur_id ?r) ?roles (user_roles_t db) = Inr rows"
    using c unfolding CreateUser_def Let_def
    by (cases "insert_roles e 2 (ur_id ?r) ?roles (user_roles_t db)") (simp_all split: if_splits)
  let ?new = "db\<lparr>users_t := row_ins ?r (users_t db), user_roles_t := rows\<rparr>"
  have "\<not> (fails (ie_flt e) 0 \<or> fails (ie_flt e) 1 \<or> \<not> status_checks (ur_status ?r))"
    using assms unfolding CreateUser_def Let_def by (auto split: if_splits)
  then have "snd (CreateUser lower u e db) = snd (finish IdFailed (ie_flt e) (2 + length ?roles)
      (u\<lparr>us_Email := to_lower (trim_space (us_Email u)), us_Phone := trim_space (us_Phone u),
         us_CreatedAt := ie_now e, us_UpdatedAt := ie_now e, us_Roles := ?roles\<rparr>) db ?new)"
    unfolding CreateUser_def Let_def by (simp only: c rows if_False option.case sum.case)
  then have "snd (CreateUser lower u e db) = ?new" using assms finish_state by metis
  with c rows show thesis by (intro that) (simp_all add: user_row_of_def)
qed

lemma CreateUser_ok:
  assumes "id_ok lower db"
  shows "id_ok lower (snd (CreateUser lower u e db))"
proof (cases "snd (CreateUser lower u e db) = db")
  case False
  then obtain r roles rows where c: "status_checks (ur_status r)" "user_conflict lower r (users_t db) = None"
    "insert_roles e 2 (ur_id r) roles (user_roles_t db) = Inr rows"
    "snd (CreateUser lower u e db) = db\<lparr>users_t := row_ins r (users_t db), user_roles_t := rows\<rparr>"
    by (rule CreateUser_effect)
  have fresh: "\<forall>s \<in> set (users_t db). ur_id s \<noteq> ur_id r \<and> \<not> clash_email lower s r \<and> \<not> clash_phone s r"
    using c(2) by (auto simp: user_conflict_def list_ex_iff clash_email_def clash_phone_def split: if_splits option.splits)
  have "users_ok lower (row_ins r (users_t db))"
    using assms fresh c(1) unfolding id_ok_def users_ok_def
    by (auto intro!: tbl.ok_ins email_index.index_ins phone_index.index_ins row_get_fresh)
  then show ?thesis using assms insert_roles_ok [OF c(3)] unfolding c(4) id_ok_def owned_def by auto
qed (simp add: assms)

lemma users_map_ok:
  assumes "id_ok lower db" and "\<And>r. ur_id (f r) = ur_id r" "\<And>r. ur_email (f r) = ur_email r"
    and "\<And>r. ur_phone (f r) = ur_phone r" "\<And>r. ur_status (f r) = ur_status r"
  shows "id_ok lower (db\<lparr>users_t := map f (users_t db)\<rparr>)"
proof -
  have "users_ok lower (map f (users_t db))"
    using assms unfolding id_ok_def users_ok_def
    by (auto simp: clash_email_def clash_phone_def intro!: pk_ok_map index_ok_map split: option.splits)
  then show ?thesis using assms(1,2) by (simp add: id_ok_def owned_def image_image)
qed

lemma users_upd_ok:
  assumes "id_ok lower db" and "\<And>r. ur_id (f r) = ur_id r" "\<And>r. ur_email (f r) = ur_email r"
    and "\<And>r. ur_phone (f r) = ur_phone r" "\<And>r. ur_status (f r) = ur_status r"
  shows "id_ok lower (db\<lparr>users_t := row_upd ur_id u f (users_t db)\<rparr>)"
  unfolding row_upd_map using assms by (intro users_map_ok) simp_all

lemma stamp_channel_fields [simp]:
  "ur_id (stamp_channel ch at r) = ur_id r" "ur_email (stamp_channel ch at r) = ur_email r"
  "ur_phone (stamp_channel ch at r) = ur_phone r" "ur_status (stamp_channel ch at r) = ur_status r"
  by (simp_all add: stamp_channel_def)

lemma sessions_map_ok:
  assumes "sessions_ok ss" and "\<And>s. se_ID (f s) = se_ID s" "\<And>s. se_RefreshTokenHash (f s) = se_RefreshTokenHash s"
  shows "sessions_ok (map f ss)"
  using assms unfolding sessions_ok_def by (auto simp: clash_session_def intro!: pk_ok_map index_ok_map)

lemma revoke_fields [simp]:
  "se_ID (revoke t s) = se_ID s" "se_UserID (revoke t s) = se_UserID s"
  "se_RefreshTokenHash (revoke t s) = se_RefreshTokenHash s" "se_AbsoluteExpiresAt (revoke t s) = se_AbsoluteExpiresAt s"
  "se_DeviceName (revoke t s) = se_DeviceName s" "se_IPAddress (revoke t s) = se_IPAddress s"
  "se_RevokedAt (revoke t s) = Some t"
  by (simp_all add: revoke_def)

lemma sessions_upd_ok:
  assumes "id_ok lower db" and "\<And>s. se_ID (f s) = se_ID s" "\<And>s. se_RefreshTokenHash (f s) = se_RefreshTokenHash s"
    and "\<And>s. se_UserID (f s) = se_UserID s"
  shows "id_ok lower (db\<lparr>sessions_t := map f (sessions_t db)\<rparr>)"
  using assms sessions_map_ok [of "sessions_t db" f] by (auto simp: id_ok_def owned_def image_image)

lemma CreateSession_ok: "id_ok lower db \<Longrightarrow> id_ok lower (snd (CreateSession s e db))"
proof (cases "snd (CreateSession s e db) = db")
  case False
  assume ok: "id_ok lower db"
  let ?s = "s\<lparr>se_CreatedAt := ie_now e, se_RevokedAt := None\<rparr>"
  from False have c: "\<forall>r \<in> set (sessions_t db). se_ID r \<noteq> se_ID s \<and> se_RefreshTokenHash r \<noteq> se_RefreshTokenHash s"
      "user_exists (se_UserID s) db" "snd (CreateSession s e db) = db\<lparr>sessions_t := row_ins ?s (sessions_t db)\<rparr>"
    by (auto simp: CreateSession_def finish_def list_ex_iff split: if_splits)
  then have "sessions_ok (row_ins ?s (sessions_t db))"
    using ok unfolding id_ok_def sessions_ok_def
    by (auto simp: clash_session_def intro!: tbl.ok_ins session_index.index_ins row_get_fresh)
  then show ?thesis using ok c(2) unfolding c(3) by (auto simp: id_ok_def owned_def user_exists_iff)
qed simp

lemma CreateVerificationToken_ok: "id_ok lower db \<Longrightarrow> id_ok lower (snd (CreateVerificationToken t e db))"
proof (cases "snd (CreateVerificationToken t e db) = db")
  case False
  assume ok: "id_ok lower db"
  let ?t = "t\<lparr>vt_ConsumedAt := None, vt_CreatedAt := ie_now e\<rparr>"
  from False have c: "\<forall>r \<in> set (vtokens_t db). vt_ID r \<noteq> vt_ID t \<and> vt_TokenHash r \<noteq> vt_TokenHash t"
      "user_exists (vt_UserID t) db" "IsValidVerificationChannel (vt_Channel t)"
      "snd (CreateVerificationToken t e db) = db\<lparr>vtokens_t := row_ins ?t (vtokens_t db)\<rparr>"
    by (auto simp: CreateVerificationToken_def finish_def list_ex_iff split: if_splits)
  then have "vtokens_ok (row_ins ?t (vtokens_t db))"
    using ok unfolding id_ok_def vtokens_ok_def
    by (auto simp: clash_token_def intro!: tbl.ok_ins token_index.index_ins row_get_fresh)
  then show ?thesis using ok c(2) unfolding c(4) by (auto simp: id_ok_def owned_def user_exists_iff)
qed simp

lemma vtokens_map_ok:
  assumes "id_ok lower db" and "\<And>t. vt_ID (f t) = vt_ID t" "\<And>t. vt_TokenHash (f t) = vt_TokenHash t"
    and "\<And>t. vt_Channel (f t) = vt_Channel t" "\<And>t. vt_UserID (f t) = vt_UserID t"
  shows "id_ok lower (db\<lparr>vtokens_t := map f (vtokens_t db)\<rparr>)"
proof -
  have "vtokens_ok (map f (vtokens_t db))"
    using assms unfolding id_ok_def vtokens_ok_def by (auto simp: clash_token_def intro!: pk_ok_map index_ok_map)
  then show ?thesis using assms(1,5) by (simp add: id_ok_def owned_def image_image)
qed

lemma consume_fields [simp]:
  "vt_ID (consume k at t) = vt_ID t" "vt_TokenHash (consume k at t) = vt_TokenHash t"
  "vt_Channel (consume k at t) = vt_Channel t" "vt_UserID (consume k at t) = vt_UserID t"
  by (simp_all add: consume_def)

lemma ConsumeVerificationToken_ok:
  assumes "id_ok lower db"
  shows "id_ok lower (snd (ConsumeVerificationToken k u ch at e db))"
proof -
  let ?mid = "db\<lparr>vtokens_t := map (consume k at) (vtokens_t db)\<rparr>"
  have "id_ok lower ?mid" using assms by (intro vtokens_map_ok) simp_all
  then have "id_ok lower (?mid\<lparr>users_t := row_upd ur_id u (stamp_channel ch at) (users_t ?mid)\<rparr>)"
    by (intro users_upd_ok) simp_all
  then show ?thesis using assms
    by (auto simp: ConsumeVerificationToken_def intro!: finish_ok split: option.splits)
qed

lemma UpdatePassword_ok: "id_ok lower db \<Longrightarrow> id_ok lower (snd (UpdatePassword u h e db))"
  unfolding UpdatePassword_def by (auto intro!: finish_ok users_upd_ok)

lemma Store_RevokeSession_ok: "id_ok lower db \<Longrightarrow> id_ok lower (snd (Store_RevokeSession k e db))"
  unfolding Store_RevokeSession_def row_upd_map by (auto intro!: finish_ok sessions_upd_ok)

lemma RevokeUserSessions_ok: "id_ok lower db \<Longrightarrow> id_ok lower (snd (RevokeUserSessions u e db))"
  unfolding RevokeUserSessions_def by (auto intro!: finish_ok sessions_upd_ok)

lemma InsertAudit_ok: "id_ok lower db \<Longrightarrow> id_ok lower (snd (InsertAudit a e db))"
  unfolding InsertAudit_def by (rule finish_ok) (simp_all add: id_ok_def owned_def)

lemma AssignRole_ok: "id_ok lower db \<Longrightarrow> id_ok lower (snd (AssignRole u r t e db))"
proof (cases "snd (AssignRole u r t e db) = db")
  case False
  assume ok: "id_ok lower db"
  let ?row = "\<lparr>ro_id = ie_seq e, ro_user_id = u, ro_role = r, ro_tenant_id = t, ro_created_at = ie_now e\<rparr>"
  from False have c: "rolePriority r \<noteq> None" "\<not> grant_exists u r t (user_roles_t db)" "user_exists u db"
      "snd (AssignRole u r t e db) = db\<lparr>user_roles_t := row_ins ?row (user_roles_t db)\<rparr>"
    by (auto simp: AssignRole_def finish_def split: if_splits)
  then have "grant_key ?row \<notin> grant_key ` set (user_roles_t db)"
    by (auto simp: grant_exists_def list_ex_iff grant_key_def)
  then have "roles_ok (row_ins ?row (user_roles_t db))"
    using ok c(1) by (simp add: id_ok_def roles_ok_def row_ins_def)
  then show ?thesis using ok c(3) unfolding c(4) by (auto simp: id_ok_def owned_def user_exists_iff)
qed simp

section \<open>History\<close>

text \<open>
  How a row may change: an account keeps everything but its password, and a verification stays; a session
  only becomes revoked; a token only becomes consumed, once. Grants, audit entries and events are only
  added.
\<close>

definition user_ev :: "user_row \<Rightarrow> user_row \<Rightarrow> bool" where
  "user_ev r r' \<longleftrightarrow> ur_id r' = ur_id r \<and> ur_email r' = ur_email r \<and> ur_phone r' = ur_phone r \<and>
     ur_full_name r' = ur_full_name r \<and> ur_status r' = ur_status r \<and> ur_created_at r' = ur_created_at r \<and>
     (ur_email_verified_at r = None \<or> ur_email_verified_at r' = ur_email_verified_at r) \<and>
     (ur_phone_verified_at r = None \<or> ur_phone_verified_at r' = ur_phone_verified_at r)"

definition session_ev :: "Session \<Rightarrow> Session \<Rightarrow> bool" where
  "session_ev s s' \<longleftrightarrow> s' = s\<lparr>se_RevokedAt := se_RevokedAt s'\<rparr> \<and> (se_RevokedAt s = None \<or> se_RevokedAt s' \<noteq> None)"

definition token_ev :: "VerificationToken \<Rightarrow> VerificationToken \<Rightarrow> bool" where
  "token_ev t t' \<longleftrightarrow> t' = t\<lparr>vt_ConsumedAt := vt_ConsumedAt t'\<rparr> \<and>
     (vt_ConsumedAt t = None \<or> vt_ConsumedAt t' = vt_ConsumedAt t)"

interpretation users_h: row_discipline ur_id user_ev
  by unfold_locales (auto simp: user_ev_def)

interpretation sessions_h: row_discipline se_ID session_ev
proof (unfold_locales, goal_cases)
  case (2 r r' r'')
  then show ?case by (cases r; cases r'; cases r'') (auto simp: session_ev_def)
qed (auto simp: session_ev_def)

interpretation vtokens_h: row_discipline vt_ID token_ev
proof (unfold_locales, goal_cases)
  case (2 r r' r'')
  then show ?case by (cases r; cases r'; cases r'') (auto simp: token_ev_def)
qed (simp add: token_ev_def)

definition id_history :: "id_db \<Rightarrow> id_db \<Rightarrow> bool" where
  "id_history db db' \<longleftrightarrow> table_evolves ur_id user_ev (users_t db) (users_t db') \<and>
     table_evolves se_ID session_ev (sessions_t db) (sessions_t db') \<and>
     table_evolves vt_ID token_ev (vtokens_t db) (vtokens_t db') \<and>
     prefix (user_roles_t db) (user_roles_t db') \<and> prefix (audit_log_t db) (audit_log_t db')"

lemma id_history_refl [simp]: "id_history db db"
  by (simp add: id_history_def users_h.te_refl sessions_h.te_refl vtokens_h.te_refl)

lemma id_history_trans: "id_history a b \<Longrightarrow> id_history b c \<Longrightarrow> id_history a c"
  unfolding id_history_def
  by (meson users_h.te_trans sessions_h.te_trans vtokens_h.te_trans prefix_order.trans)

lemma rows_te_map:
  assumes "\<And>r. key (f r) = key r" and "\<And>r. ev r (f r)"
  shows "table_evolves key ev rows (map f rows)"
  using assms by (induction rows) (auto simp: table_evolves_def row_get_def)

lemma revoke_ev: "session_ev s (revoke t s)"
  by (simp add: session_ev_def revoke_def)

lemma stamp_ev: "user_ev r (stamp_channel ch at r)"
  by (simp add: user_ev_def stamp_channel_def)

lemma consume_ev: "token_ev t (consume k at t)"
  by (simp add: token_ev_def consume_def)

lemma finish_history: "id_history db new \<Longrightarrow> id_history db (snd (finish err f n v db new))"
  using finish_state [of err f n v db new] by auto

lemma prefix_ins [simp]: "prefix rows (row_ins r rows)"
  by (simp add: row_ins_def)

lemma insert_roles_prefix: "insert_roles e n u rs rows = Inr rows' \<Longrightarrow> prefix rows rows'"
proof (induction e n u rs rows rule: insert_roles.induct)
  case (2 e n u r rs rows)
  then show ?case by (auto split: if_splits) (metis prefix_ins prefix_order.trans)
qed simp

lemma CreateUser_history: "id_history db (snd (CreateUser lower u e db))"
proof (cases "snd (CreateUser lower u e db) = db")
  case False
  then show ?thesis
    by (rule CreateUser_effect) (simp add: id_history_def users_h.te_ins sessions_h.te_refl vtokens_h.te_refl insert_roles_prefix)
qed simp

lemma users_history:
  "(\<And>r. ur_id (f r) = ur_id r) \<Longrightarrow> (\<And>r. user_ev r (f r)) \<Longrightarrow> id_history db (db\<lparr>users_t := map f (users_t db)\<rparr>)"
  by (simp add: id_history_def sessions_h.te_refl vtokens_h.te_refl rows_te_map)

lemma sessions_history:
  "(\<And>s. se_ID (f s) = se_ID s) \<Longrightarrow> (\<And>s. session_ev s (f s)) \<Longrightarrow> id_history db (db\<lparr>sessions_t := map f (sessions_t db)\<rparr>)"
  by (simp add: id_history_def users_h.te_refl vtokens_h.te_refl rows_te_map)

lemma consumed_history:
  "id_history db (db\<lparr>vtokens_t := map (consume k at) (vtokens_t db),
     users_t := map (\<lambda>r. if ur_id r = u then stamp_channel ch at r else r) (users_t db)\<rparr>)"
  by (auto simp: id_history_def sessions_h.te_refl consume_ev stamp_ev users_h.ev_refl intro!: rows_te_map)

lemma insert_history:
  "id_history db (db\<lparr>sessions_t := row_ins s (sessions_t db)\<rparr>)"
  "id_history db (db\<lparr>vtokens_t := row_ins t (vtokens_t db)\<rparr>)"
  "id_history db (db\<lparr>user_roles_t := row_ins r (user_roles_t db)\<rparr>)"
  "id_history db (db\<lparr>audit_log_t := row_ins a (audit_log_t db)\<rparr>)"
  by (simp_all add: id_history_def users_h.te_refl sessions_h.te_refl vtokens_h.te_refl sessions_h.te_ins vtokens_h.te_ins)

lemma operations_history:
  "id_history db (snd (UpdatePassword u h e db))"
  "id_history db (snd (CreateSession s e db))"
  "id_history db (snd (Store_RevokeSession k e db))"
  "id_history db (snd (RevokeUserSessions u e db))"
  "id_history db (snd (InsertAudit a e db))"
  "id_history db (snd (CreateVerificationToken t e db))"
  "id_history db (snd (ConsumeVerificationToken k u ch at e db))"
  "id_history db (snd (AssignRole u r tn e db))"
proof -
  show "id_history db (snd (UpdatePassword u h e db))"
    unfolding UpdatePassword_def row_upd_map
    by (auto intro!: finish_history users_history simp: user_ev_def)
  show "id_history db (snd (CreateSession s e db))"
    unfolding CreateSession_def
    by (auto intro!: finish_history insert_history)
  show "id_history db (snd (Store_RevokeSession k e db))"
    unfolding Store_RevokeSession_def row_upd_map
    by (auto intro!: finish_history sessions_history simp: sessions_h.ev_refl revoke_ev)
  show "id_history db (snd (RevokeUserSessions u e db))"
    unfolding RevokeUserSessions_def
    by (auto intro!: finish_history sessions_history simp: sessions_h.ev_refl revoke_ev)
  show "id_history db (snd (InsertAudit a e db))"
    unfolding InsertAudit_def
    by (auto intro!: finish_history insert_history)
  show "id_history db (snd (CreateVerificationToken t e db))"
    unfolding CreateVerificationToken_def
    by (auto intro!: finish_history insert_history)
  show "id_history db (snd (ConsumeVerificationToken k u ch at e db))"
    unfolding ConsumeVerificationToken_def row_upd_map
    by (auto intro!: finish_history consumed_history split: option.splits)
  show "id_history db (snd (AssignRole u r tn e db))"
    unfolding AssignRole_def
    by (auto intro!: finish_history insert_history)
qed

section \<open>Handlers\<close>

text \<open>The discipline of the tables and of the published events.\<close>

definition id_evolves :: "(string \<Rightarrow> string) \<Rightarrow> id_world \<Rightarrow> id_world \<Rightarrow> bool" where
  "id_evolves lower w w' \<longleftrightarrow> (id_ok lower (iw_db w) \<longrightarrow> id_ok lower (iw_db w')) \<and> id_history (iw_db w) (iw_db w') \<and>
     prefix (iw_events w) (iw_events w')"

interpretation evo: discipline "id_evolves lower" for lower
  by unfold_locales (auto simp: id_evolves_def intro: id_history_trans prefix_order.trans)

lemma abides_stored: "(\<And>e w. S w (w\<lparr>iw_db := snd (f e (iw_db w))\<rparr>)) \<Longrightarrow> abides S (stored f)"
  unfolding stored_def by (rule abides_effect) (simp add: stored_state)

text \<open>A service is wired when its breach check, if any, is one that \<open>NewBreacher\<close> builds.\<close>

definition wired :: "id_service \<Rightarrow> bool" where
  "wired sv \<longleftrightarrow> isv_breacher sv = None \<or> (\<exists>sha1 hibp file. isv_breacher sv = NewBreacher sha1 hibp file)"

text \<open>
  The operations, as far as they do not touch sessions, respect any discipline that the statements they
  are made of respect; then those that open sessions, those that revoke them, and those that do both.
\<close>

lemmas reads_defs = GetRoleGrants_def select_user_def select_user_by_email_def select_users_def batchRoleGrants_def
  GetSessionByRefreshHash_def GetSessionByID_def ListUserSessions_def Store_ListAudit_def
  GetVerificationTokenByHash_def VerificationTokenStats_def

locale sessionless = discipline S for S :: "id_world \<Rightarrow> id_world \<Rightarrow> bool" +
  fixes lower :: "string \<Rightarrow> string"
  assumes w_CreateUser: "S w (w\<lparr>iw_db := snd (CreateUser lower u e (iw_db w))\<rparr>)"
    and w_UpdatePassword: "S w (w\<lparr>iw_db := snd (UpdatePassword k h e (iw_db w))\<rparr>)"
    and w_InsertAudit: "S w (w\<lparr>iw_db := snd (InsertAudit a e (iw_db w))\<rparr>)"
    and w_CreateToken: "S w (w\<lparr>iw_db := snd (CreateVerificationToken t e (iw_db w))\<rparr>)"
    and w_Consume: "S w (w\<lparr>iw_db := snd (ConsumeVerificationToken k k' ch at e (iw_db w))\<rparr>)"
    and w_AssignRole: "S w (w\<lparr>iw_db := snd (AssignRole k r tn e (iw_db w))\<rparr>)"
    and w_publish: "S w (w\<lparr>iw_events := iw_events w @ [ev]\<rparr>)"
begin

lemma abides_reading: "abides S (stored (reading f))"
  by (rule abides_stored) (simp add: stays)

lemma abides_reads:
  "abides S (stored (GetRoleGrants u))"
  "abides S (stored (select_user u))"
  "abides S (stored (select_user_by_email l em))"
  "abides S (stored (select_users li off))"
  "abides S (stored (batchRoleGrants us))"
  "abides S (stored (GetSessionByRefreshHash h))"
  "abides S (stored (GetSessionByID k))"
  "abides S (stored (ListUserSessions u))"
  "abides S (stored (Store_ListAudit f))"
  "abides S (stored (GetVerificationTokenByHash h))"
  "abides S (stored (VerificationTokenStats u ch since))"
  unfolding reads_defs by (rule abides_reading)+

lemma abides_writes:
  "abides S (stored (CreateUser lower u))"
  "abides S (stored (UpdatePassword k h))"
  "abides S (stored (InsertAudit a))"
  "abides S (stored (CreateVerificationToken t))"
  "abides S (stored (ConsumeVerificationToken k k' ch at))"
  "abides S (stored (AssignRole k r tn))"
  by (rule abides_stored; rule w_CreateUser w_UpdatePassword w_InsertAudit w_CreateToken w_Consume w_AssignRole)+

lemma abides_publish: "abides S (id_publish sv ty ag tn ac pl)"
  unfolding id_publish_def by (auto intro!: abides_Done abides_effect simp: stays w_publish)

lemmas abides_rules = abides_Done abides_and_then abides_try_then abides_ask abides_reads abides_writes abides_publish

lemma abides_audit: "abides S (audit ac act ot oid md)" "abides S (RecordAudit a)"
  unfolding audit_def RecordAudit_def by (auto intro!: abides_rules)

lemma abides_breach:
  assumes "wired sv"
  shows "abides S (checkPasswordBreach sv p)" and "abides S (breach_note sv u note)"
  unfolding checkPasswordBreach_def breach_note_def auditBreachNote_def using assms
  by (auto simp: wired_def intro!: abides_rules abides_audit abides_NewBreacher discipline_axioms split: option.splits sum.splits)

lemma abides_HashPassword: "abides S (HashPassword argon p)"
  unfolding HashPassword_def Let_def by (auto intro!: abides_rules split: option.splits)

lemma abides_token: "abides S newOpaqueToken"
  unfolding newOpaqueToken_def by (auto intro!: abides_rules split: option.splits)

lemma abides_lookups:
  "abides S (GetUser u)" "abides S (GetUserByEmail l em)" "abides S (Store_ListUsers li off)"
  unfolding GetUser_def GetUserByEmail_def Store_ListUsers_def with_roles_def by (auto intro!: abides_rules)

lemma abides_or_else: "abides S p \<Longrightarrow> abides S (or_else x p)"
  unfolding or_else_def by (auto intro!: abides_rules)

lemmas abides_parts = abides_rules abides_audit abides_breach abides_HashPassword abides_token abides_lookups
  abides_or_else

lemma abides_verification:
  "abides S (issueVerificationToken sv u ch via)" "abides S (issueChannel sv u ch)"
  unfolding issueChannel_def issueVerificationToken_def Let_def by (auto intro!: abides_parts)

lemma abides_sessionless:
  shows "abides S (ListSessions u)"
    and "abides S (Verify sv raw)"
    and "abides S (ResendVerification sv em ch)"
    and "abides S (Profile u)"
    and "abides S (ListUsersForAdmin u tn li off)"
    and "abides S (ListAudit f)"
    and "abides S (Service_AssignRole sv u role tn a)"
proof -
  show "abides S (ListSessions u)"
    unfolding ListSessions_def by (auto intro!: abides_parts)
  show "abides S (Verify sv raw)"
    unfolding Verify_def Let_def by (auto intro!: abides_parts)
  show "abides S (ResendVerification sv em ch)"
    unfolding ResendVerification_def Let_def by (auto intro!: abides_parts abides_verification split: sum.splits option.splits)
  show "abides S (Profile u)"
    unfolding Profile_def by (auto intro!: abides_parts)
  show "abides S (ListUsersForAdmin u tn li off)"
    unfolding ListUsersForAdmin_def ListUsers_def Let_def by (auto intro!: abides_parts)
  show "abides S (ListAudit f)"
    unfolding ListAudit_def by (rule abides_reads)
  show "abides S (Service_AssignRole sv u role tn a)"
    unfolding Service_AssignRole_def by (auto intro!: abides_parts)
qed

text \<open>The gates of the interface.\<close>

lemma abides_answering: "abides S p \<Longrightarrow> abides S (answering p f)"
  unfolding answering_def id_problem_def by (auto intro!: abides_rules split: sum.splits)

lemma abides_problem: "abides S (id_problem x)"
  unfolding id_problem_def by (rule abides_Done)

lemma abides_gates:
  "(\<And>cl. abides S (h cl)) \<Longrightarrow> abides S (authenticated k h)"
  "(\<And>cl. abides S (h cl)) \<Longrightarrow> abides S (with_role roles k h)"
  "abides S p \<Longrightarrow> abides S (throttle k p)"
  "(\<And>u. abides S (g u)) \<Longrightarrow> abides S (with_subject c claims g)"
  "(\<And>q. abides S (b q)) \<Longrightarrow> abides S (with_body bd b)"
  unfolding authenticated_def with_role_def throttle_def with_subject_def with_body_def
  by (auto intro!: abides_problem abides_Done split: option.splits sum.splits)

lemmas abides_http = abides_gates abides_answering abides_problem abides_Done

lemma abides_sessionless_routes:
  shows "abides S (handleVerify c b)"
    and "abides S (handleVerificationResend c b')"
    and "abides S (handleProfile c k)"
    and "abides S (handleListSessions c k)"
    and "abides S (handleListUsers c k q)"
    and "abides S (handleListAudit c k aq)"
    and "abides S (handleJWKS c)"
proof -
  show "abides S (handleVerify c b)" "abides S (handleVerificationResend c b')" "abides S (handleProfile c k)"
    "abides S (handleListSessions c k)"
    unfolding handleVerify_def handleVerificationResend_def handleProfile_def handleListSessions_def
    by (intro abides_http abides_sessionless)+
  show "abides S (handleListUsers c k q)"
    unfolding handleListUsers_def by (intro abides_http) (auto intro!: abides_http abides_sessionless split: sum.splits)
  show "abides S (handleListAudit c k aq)"
    unfolding handleListAudit_def by (intro abides_http) (auto intro!: abides_http abides_sessionless split: sum.splits)
  show "abides S (handleJWKS c)"
    unfolding handleJWKS_def by (auto intro!: abides_http split: option.splits)
qed

end

locale minting = sessionless S lower for S lower +
  assumes w_CreateSession: "S w (w\<lparr>iw_db := snd (CreateSession s e (iw_db w))\<rparr>)"
begin

lemma abides_CreateSession: "abides S (stored (CreateSession s))"
  by (rule abides_stored) (rule w_CreateSession)

lemma abides_issue: "abides S (issue i u dev ip ab)" "abides S (Issue i u dev ip)"
  unfolding Issue_def issue_def mint_def claimContext_def
  by (auto intro!: abides_parts abides_CreateSession split: sum.splits option.splits)

lemma abides_minting:
  assumes "isv_lower sv = lower"
  shows "wired sv \<Longrightarrow> abides S (Register sv em ph pw fn dev ip)" and "abides S (Login sv em pw dev ip)"
proof -
  show "abides S (Register sv em ph pw fn dev ip)" if "wired sv"
    unfolding Register_def Let_def assms using that by (auto intro!: abides_parts abides_verification abides_issue)
  show "abides S (Login sv em pw dev ip)"
    unfolding Login_def by (auto intro!: abides_parts abides_issue split: option.splits)
qed

lemma abides_minting_routes:
  assumes "wired (ih_service c)" and "isv_lower (ih_service c) = lower"
  shows "abides S (handleRegister c k b)" and "abides S (handleLogin c k b')"
  unfolding handleRegister_def handleLogin_def by (intro abides_http abides_minting assms)+

end

locale sweeping = sessionless S lower for S lower +
  assumes w_Revoke: "S w (w\<lparr>iw_db := snd (Store_RevokeSession k e (iw_db w))\<rparr>)"
    and w_RevokeAll: "S w (w\<lparr>iw_db := snd (RevokeUserSessions k e (iw_db w))\<rparr>)"
begin

lemma abides_revokes: "abides S (stored (Store_RevokeSession k))" "abides S (stored (RevokeUserSessions k))"
  by (rule abides_stored; rule w_Revoke w_RevokeAll)+

lemma abides_sweeping:
  shows "wired sv \<Longrightarrow> abides S (ChangePassword sv u pw pw')"
    and "abides S (Logout sv k a)"
    and "abides S (LogoutByRefreshToken sv tok a)"
    and "abides S (RevokeSession sv u k a)"
    and "abides S (RevokeAllSessions sv u a)"
proof -
  show "abides S (ChangePassword sv u pw pw')" if "wired sv"
    unfolding ChangePassword_def using that by (auto intro!: abides_parts abides_revokes split: option.splits)
  show "abides S (Logout sv k a)"
    unfolding Logout_def Revoke_def by (auto intro!: abides_parts abides_revokes)
  show "abides S (LogoutByRefreshToken sv tok a)"
    unfolding LogoutByRefreshToken_def by (auto intro!: abides_parts abides_revokes)
  show "abides S (RevokeSession sv u k a)"
    unfolding RevokeSession_def by (auto intro!: abides_parts abides_revokes)
  show "abides S (RevokeAllSessions sv u a)"
    unfolding RevokeAllSessions_def by (auto intro!: abides_parts abides_revokes)
qed

lemma abides_sweeping_routes:
  shows "wired (ih_service c) \<Longrightarrow> abides S (handleChangePassword c k b)"
    and "abides S (handleLogout c k b')"
    and "abides S (handleRevokeSession c k raw)"
    and "abides S (handleRevokeAllSessions c k)"
proof -
  show "abides S (handleChangePassword c k b)" if "wired (ih_service c)"
    unfolding handleChangePassword_def by (intro abides_http abides_sweeping that)
  show "abides S (handleLogout c k b')"
    unfolding handleLogout_def Let_def by (intro abides_http abides_sweeping)
  show "abides S (handleRevokeSession c k raw)"
    unfolding handleRevokeSession_def by (intro abides_http) (auto intro!: abides_http abides_sweeping split: option.splits)
  show "abides S (handleRevokeAllSessions c k)"
    unfolding handleRevokeAllSessions_def by (intro abides_http abides_sweeping)
qed

end

locale table_discipline = minting S lower + sweeping S lower for S lower
begin

lemma abides_Refresh: "abides S (Refresh i tok)"
  unfolding Refresh_def by (auto intro!: abides_parts abides_issue abides_revokes)

lemma abides_RefreshTokens: "abides S (RefreshTokens sv tok)"
  unfolding RefreshTokens_def by (auto intro!: abides_parts abides_Refresh)

lemma abides_handleRefresh: "abides S (handleRefresh c b)"
  unfolding handleRefresh_def by (intro abides_http abides_RefreshTokens)

lemma abides_Routes:
  assumes "wired (ih_service c)" and "isv_lower (ih_service c) = lower"
  shows "abides S (id_Routes c k rq)"
  unfolding id_Routes_def using assms
  by (cases rq) (simp_all add: abides_gates abides_sessionless_routes abides_minting_routes abides_sweeping_routes
      abides_handleRefresh)

end

lemma evolves_db:
  "(id_ok lower (iw_db w) \<Longrightarrow> id_ok lower db) \<Longrightarrow> id_history (iw_db w) db \<Longrightarrow> id_evolves lower w (w\<lparr>iw_db := db\<rparr>)"
  by (simp add: id_evolves_def)

lemma id_evolves_discipline: "table_discipline (id_evolves lower) lower"
proof unfold_locales
  show "id_evolves lower w (w\<lparr>iw_events := iw_events w @ [ev]\<rparr>)" for w ev by (simp add: id_evolves_def)
qed (simp_all add: id_evolves_def CreateUser_ok UpdatePassword_ok CreateSession_ok Store_RevokeSession_ok
      RevokeUserSessions_ok InsertAudit_ok CreateVerificationToken_ok ConsumeVerificationToken_ok AssignRole_ok
      CreateUser_history operations_history evo.stays)

interpretation ledger: table_discipline "id_evolves lower" lower for lower
  by (rule id_evolves_discipline)

text \<open>A step of any handler of the interface, or of the role grant.\<close>

inductive id_move :: "id_http \<Rightarrow> id_world \<Rightarrow> id_world \<Rightarrow> bool" for c :: id_http where
  move_route: "step_of (id_Routes c k rq) w w' \<Longrightarrow> id_move c w w'"
| move_grant: "step_of (Service_AssignRole (ih_service c) u role tn a) w w' \<Longrightarrow> id_move c w w'"

lemma id_move_evolves:
  assumes "id_move c w w'" and "wired (ih_service c)"
  shows "id_evolves (isv_lower (ih_service c)) w w'"
  using assms(1)
proof cases
  case (move_route k rq)
  then show ?thesis by (rule abides_step) (rule ledger.abides_Routes [OF assms(2) refl])
next
  case (move_grant u role tn a)
  then show ?thesis by (rule abides_step) (rule ledger.abides_sessionless)
qed

lemma id_moves_evolve: "(id_move c)\<^sup>*\<^sup>* w w' \<Longrightarrow> wired (ih_service c) \<Longrightarrow> id_evolves (isv_lower (ih_service c)) w w'"
  by (erule evo.steps) (rule id_move_evolves)

text \<open>An environment whose clock reads come after year 1, where \<open>time.Time\<close> starts.\<close>

definition clocked :: "id_env \<Rightarrow> bool" where "clocked e \<longleftrightarrow> 0 \<le> ie_clock e"

end
