(* ===== verification/Id_Sessions.thy ===== *)
theory Id_Sessions
  imports Id_Ledger
begin

text \<open>
  Refresh sessions: what rotation gives and takes, how often a refresh token works, and what happens
  when two calls overlap.
\<close>

section \<open>Stages of a handler\<close>

lemma exec_stored_InrE:
  assumes "exec E R (stored f) w (Inr a) w'"
  obtains e v db where "R\<^sup>*\<^sup>* w v" "E e" "f e (iw_db v) = (Inr a, db)" "R\<^sup>*\<^sup>* (v\<lparr>iw_db := db\<rparr>) w'"
  using assms unfolding stored_def by (auto elim!: exec_effectE split: prod.splits)

lemma exec_or_else_InrE:
  assumes "exec E R (or_else x p) w (Inr a) w'"
  obtains v where "exec E R p w (Inr a) v" "R\<^sup>*\<^sup>* v w'"
  using assms unfolding or_else_def by (auto elim!: exec_and_thenE simp: exec_Done_iff split: sum.splits)

lemma exec_ask_thenE:
  assumes "exec E R (and_then (ask g) k) w a w'"
  obtains e v where "R\<^sup>*\<^sup>* w v" "E e" "exec E R (k (g e)) v a w'"
  using assms by (auto elim!: exec_and_thenE exec_askE)

lemma exec_DoneD: "exec E R (Done b) w a w' \<Longrightarrow> a = b \<and> R\<^sup>*\<^sup>* w w'"
  by (simp add: exec_Done_iff)

lemma reading_Inr: "reading f e db = (Inr a, db') \<longleftrightarrow> f db = Inr a \<and> db' = db \<and> ie_flt e = Healthy"
  by (auto simp: reading_def)

lemma exec_reading_InrE:
  assumes "exec E R (stored (reading f)) w (Inr a) w'"
  obtains v where "R\<^sup>*\<^sup>* w v" "f (iw_db v) = Inr a" "R\<^sup>*\<^sup>* v w'"
proof -
  from assms obtain e v db where "R\<^sup>*\<^sup>* w v" "reading f e (iw_db v) = (Inr a, db)" "R\<^sup>*\<^sup>* (v\<lparr>iw_db := db\<rparr>) w'"
    by (rule exec_stored_InrE)
  moreover have "v\<lparr>iw_db := iw_db v\<rparr> = v" by simp
  ultimately show thesis by (intro that) (auto simp: reading_Inr)
qed

lemma exec_with_roles_InrE:
  assumes "exec E R (with_roles x) w (Inr user) w'"
  shows "user\<lparr>us_Roles := []\<rparr> = x\<lparr>us_Roles := []\<rparr>" and "R\<^sup>*\<^sup>* w w'"
proof -
  from assms obtain gs v where g: "exec E R (stored (GetRoleGrants (us_ID x))) w (Inr gs) v"
    "user = x\<lparr>us_Roles := rolesFromGrants gs\<rparr>" "R\<^sup>*\<^sup>* v w'"
    unfolding with_roles_def by (rule exec_try_then_InrE) (auto dest: exec_DoneD)
  from g(1) have "R\<^sup>*\<^sup>* w v"
    unfolding GetRoleGrants_def by (rule exec_reading_InrE) (rule rtranclp_trans)
  then show "R\<^sup>*\<^sup>* w w'" using g(3) by (rule rtranclp_trans)
  show "user\<lparr>us_Roles := []\<rparr> = x\<lparr>us_Roles := []\<rparr>" using g(2) by simp
qed

lemma exec_GetUser_InrE:
  assumes "exec E R (GetUser u) w (Inr user) w'"
  obtains v r where "R\<^sup>*\<^sup>* w v" "R\<^sup>*\<^sup>* v w'" "row_get ur_id u (users_t (iw_db v)) = Some r"
    "user\<lparr>us_Roles := []\<rparr> = scanUser r"
proof -
  from assms obtain x v1 where x: "exec E R (stored (select_user u)) w (Inr x) v1" "exec E R (with_roles x) v1 (Inr user) w'"
    unfolding GetUser_def by (rule exec_try_then_InrE)
  from x(1) obtain v where v: "R\<^sup>*\<^sup>* w v" "(case row_get ur_id u (users_t (iw_db v)) of None \<Rightarrow> Inl ErrUserNotFound
      | Some r \<Rightarrow> Inr (scanUser r)) = Inr x" "R\<^sup>*\<^sup>* v v1"
    unfolding select_user_def by (rule exec_reading_InrE)
  from v(2) obtain r where r: "row_get ur_id u (users_t (iw_db v)) = Some r" "x = scanUser r"
    by (auto split: option.splits)
  from x(2) have "user\<lparr>us_Roles := []\<rparr> = x\<lparr>us_Roles := []\<rparr>" "R\<^sup>*\<^sup>* v1 w'" by (rule exec_with_roles_InrE)+
  then have "R\<^sup>*\<^sup>* v w'" "user\<lparr>us_Roles := []\<rparr> = scanUser r"
    using v(3) r(2) by (simp_all add: scanUser_def)
  with v(1) r(1) that show thesis by blast
qed

text \<open>Minting a session.\<close>

lemma exec_newOpaqueToken_InrE:
  assumes "exec E R newOpaqueToken w (Inr tok) w'"
  obtains "R\<^sup>*\<^sup>* w w'"
proof -
  from assms obtain e v where "R\<^sup>*\<^sup>* w v" "E e" "exec E R (case ie_random e of None \<Rightarrow> Done (Inl IdFailed)
      | Some bytes \<Rightarrow> Done (Inr (b64_encode url_alphabet (take refreshTokenBytes bytes)))) v (Inr tok) w'"
    unfolding newOpaqueToken_def by (rule exec_ask_thenE)
  then have "R\<^sup>*\<^sup>* w w'" by (auto split: option.splits dest!: exec_DoneD)
  then show thesis by (rule that)
qed

lemma exec_mint_InrE:
  assumes "exec E R (mint i user dev ip ab tenant roles) w (Inr resp) w'"
  obtains v sid e e1 db where "R\<^sup>*\<^sup>* w v" "E e1"
    "CreateSession (new_session i sid user (ar_RefreshToken resp) dev ip (ie_clock e1) ab) e (iw_db v) = (Inr (), db)"
    "R\<^sup>*\<^sup>* (v\<lparr>iw_db := db\<rparr>) w'"
    "iss_sign i (session_claims i sid user tenant roles (ie_clock e1)) = Some (ar_AccessToken resp)"
    "ar_ExpiresAt resp = ie_clock e1 + iss_accessTTL i" "ar_Verification resp = []"
proof -
  from assms obtain eu v1 where a: "R\<^sup>*\<^sup>* w v1" and "E eu" and a': "exec E R (try_then newOpaqueToken (\<lambda>refreshToken.
     and_then (ask ie_clock) (\<lambda>now.
     try_then (stored (CreateSession (new_session i (ie_uuid eu) user refreshToken dev ip now ab))) (\<lambda>_.
     Done (case iss_sign i (session_claims i (ie_uuid eu) user tenant roles now) of
       None \<Rightarrow> Inl IdFailed
     | Some jwt \<Rightarrow> Inr \<lparr>ar_AccessToken = jwt, ar_RefreshToken = refreshToken,
              ar_ExpiresAt = now + iss_accessTTL i, ar_Verification = []\<rparr>))))) v1 (Inr resp) w'"
    unfolding mint_def by (rule exec_ask_thenE)
  from a' obtain tok v3 where b: "exec E R newOpaqueToken v1 (Inr tok) v3" and b': "exec E R (
     and_then (ask ie_clock) (\<lambda>now.
     try_then (stored (CreateSession (new_session i (ie_uuid eu) user tok dev ip now ab))) (\<lambda>_.
     Done (case iss_sign i (session_claims i (ie_uuid eu) user tenant roles now) of
       None \<Rightarrow> Inl IdFailed
     | Some jwt \<Rightarrow> Inr \<lparr>ar_AccessToken = jwt, ar_RefreshToken = tok,
              ar_ExpiresAt = now + iss_accessTTL i, ar_Verification = []\<rparr>)))) v3 (Inr resp) w'"
    by (rule exec_try_then_InrE)
  from b have v13: "R\<^sup>*\<^sup>* v1 v3" by (rule exec_newOpaqueToken_InrE)
  from b' obtain e1 v4 v5 u where d: "R\<^sup>*\<^sup>* v3 v4" "E e1"
    "exec E R (stored (CreateSession (new_session i (ie_uuid eu) user tok dev ip (ie_clock e1) ab))) v4 (Inr u) v5"
    "Inr resp = (case iss_sign i (session_claims i (ie_uuid eu) user tenant roles (ie_clock e1)) of None \<Rightarrow> Inl IdFailed
         | Some jwt \<Rightarrow> Inr \<lparr>ar_AccessToken = jwt, ar_RefreshToken = tok,
             ar_ExpiresAt = ie_clock e1 + iss_accessTTL i, ar_Verification = []\<rparr>)" "R\<^sup>*\<^sup>* v5 w'"
    by (elim exec_ask_thenE exec_try_then_InrE) (blast dest: exec_DoneD)
  from d(3) obtain e v db where f: "R\<^sup>*\<^sup>* v4 v"
    "CreateSession (new_session i (ie_uuid eu) user tok dev ip (ie_clock e1) ab) e (iw_db v) = (Inr u, db)"
    "R\<^sup>*\<^sup>* (v\<lparr>iw_db := db\<rparr>) v5"
    by (rule exec_stored_InrE)
  from d(4) obtain jwt where g: "iss_sign i (session_claims i (ie_uuid eu) user tenant roles (ie_clock e1)) = Some jwt"
    "resp = \<lparr>ar_AccessToken = jwt, ar_RefreshToken = tok, ar_ExpiresAt = ie_clock e1 + iss_accessTTL i, ar_Verification = []\<rparr>"
    by (auto split: option.splits)
  have "R\<^sup>*\<^sup>* w v" using a v13 d(1) f(1) by (meson rtranclp_trans)
  moreover have "R\<^sup>*\<^sup>* (v\<lparr>iw_db := db\<rparr>) w'" using f(3) d(5) by (rule rtranclp_trans)
  ultimately show thesis using that [of v e1 "ie_uuid eu" e db] d(2) f(2) g by simp
qed

lemma exec_claimContext_InrE:
  assumes "exec E R (claimContext i user) w (Inr (tenant, roles)) w'"
  obtains v where "R\<^sup>*\<^sup>* w v" "R\<^sup>*\<^sup>* v w'" "tenant = claim_tenant i (grants_of (us_ID user) (iw_db v))"
    "roles = rolesFromGrants (grants_of (us_ID user) (iw_db v))"
proof -
  from assms obtain r v1 where r: "exec E R (stored (GetRoleGrants (us_ID user))) w r v1"
    "exec E R (case r of Inl err \<Rightarrow> if isNotFound err then Done (Inr ([], us_Roles user)) else Done (Inl err)
     | Inr gs \<Rightarrow> Done (Inr (claim_tenant i gs, rolesFromGrants gs))) v1 (Inr (tenant, roles)) w'"
    unfolding claimContext_def by (rule exec_and_thenE)
  show thesis
  proof (cases r)
    case (Inl err)
    with r(1) have "err = IdFailed"
      unfolding stored_def GetRoleGrants_def by (auto elim!: exec_effectE simp: reading_def split: if_splits)
    with r(2) Inl show thesis by (auto simp: isNotFound_def dest: exec_DoneD)
  next
    case (Inr gs)
    from r(1) [unfolded Inr GetRoleGrants_def] obtain v where v: "R\<^sup>*\<^sup>* w v" "gs = grants_of (us_ID user) (iw_db v)" "R\<^sup>*\<^sup>* v v1"
      by (rule exec_reading_InrE) simp
    with r(2) Inr have "Inr (tenant, roles) = Inr (claim_tenant i gs, rolesFromGrants gs) \<and> R\<^sup>*\<^sup>* v1 w'"
      by (auto dest!: exec_DoneD)
    with v show thesis by (intro that [of v]) auto
  qed
qed

lemma exec_issue_InrE:
  assumes "exec E R (issue i user dev ip ab) w (Inr resp) w'"
  obtains v g sid e e0 e1 db where "R\<^sup>*\<^sup>* w g" "R\<^sup>*\<^sup>* g v" "E e0" "E e1"
    "\<not> verificationRefused (ie_clock e0) user (iss_verificationGrace i)"
    "CreateSession (new_session i sid user (ar_RefreshToken resp) dev ip (ie_clock e1) ab) e (iw_db v) = (Inr (), db)"
    "R\<^sup>*\<^sup>* (v\<lparr>iw_db := db\<rparr>) w'"
    "iss_sign i (session_claims i sid user (claim_tenant i (grants_of (us_ID user) (iw_db g)))
       (rolesFromGrants (grants_of (us_ID user) (iw_db g))) (ie_clock e1)) = Some (ar_AccessToken resp)"
    "ar_ExpiresAt resp = ie_clock e1 + iss_accessTTL i" "ar_Verification resp = []"
proof -
  from assms obtain e0 v0 where a: "R\<^sup>*\<^sup>* w v0" "E e0" "\<not> verificationRefused (ie_clock e0) user (iss_verificationGrace i)"
    and a': "exec E R (try_then (claimContext i user) (\<lambda>(tenant, roles). mint i user dev ip ab tenant roles)) v0 (Inr resp) w'"
    unfolding issue_def by (elim exec_ask_thenE) (auto split: if_splits dest: exec_DoneD)
  from a' obtain tr v1 where b: "exec E R (claimContext i user) v0 (Inr tr) v1"
    "exec E R (case tr of (tenant, roles) \<Rightarrow> mint i user dev ip ab tenant roles) v1 (Inr resp) w'"
    by (rule exec_try_then_InrE)
  obtain tenant roles where tr: "tr = (tenant, roles)" by (cases tr)
  from b(1) [unfolded tr] obtain g where g: "R\<^sup>*\<^sup>* v0 g" "R\<^sup>*\<^sup>* g v1" "tenant = claim_tenant i (grants_of (us_ID user) (iw_db g))"
    "roles = rolesFromGrants (grants_of (us_ID user) (iw_db g))"
    by (rule exec_claimContext_InrE)
  from b(2) have "exec E R (mint i user dev ip ab tenant roles) v1 (Inr resp) w'" by (simp add: tr)
  then obtain v sid e e1 db where m: "R\<^sup>*\<^sup>* v1 v" "E e1"
    "CreateSession (new_session i sid user (ar_RefreshToken resp) dev ip (ie_clock e1) ab) e (iw_db v) = (Inr (), db)"
    "R\<^sup>*\<^sup>* (v\<lparr>iw_db := db\<rparr>) w'" "iss_sign i (session_claims i sid user tenant roles (ie_clock e1)) = Some (ar_AccessToken resp)"
    "ar_ExpiresAt resp = ie_clock e1 + iss_accessTTL i" "ar_Verification resp = []"
    by (rule exec_mint_InrE)
  show thesis
    using that [of g v e0 e1 sid e db] rtranclp_trans [OF a(1) g(1)] rtranclp_trans [OF g(2) m(1)] a(2,3) m(2-7) g(3,4)
    by simp
qed

text \<open>Rotating one.\<close>

lemma exec_Refresh_InrE:
  assumes "exec clocked R (Refresh i tok) w (Inr (resp, sess)) w'"
  obtains v u r user z e db where "R\<^sup>*\<^sup>* w v" "find (\<lambda>s. se_RefreshTokenHash s = RefreshTokenHash i tok) (sessions_t (iw_db v)) = Some sess"
    "se_RevokedAt sess = None" "0 < se_AbsoluteExpiresAt sess" "R\<^sup>*\<^sup>* v u"
    "row_get ur_id (se_UserID sess) (users_t (iw_db u)) = Some r" "user\<lparr>us_Roles := []\<rparr> = scanUser r"
    "us_Status user = StatusActive" "R\<^sup>*\<^sup>* u z"
    "Store_RevokeSession (se_ID sess) e (iw_db z) = (Inr (), db)"
    "exec clocked R (issue i user (se_DeviceName sess) (se_IPAddress sess) (se_AbsoluteExpiresAt sess)) (z\<lparr>iw_db := db\<rparr>) (Inr resp) w'"
proof -
  from assms have ne: "tok \<noteq> []" unfolding Refresh_def by (auto dest: exec_DoneD split: if_splits)
  define k4 where "k4 sess user = try_then (stored (Store_RevokeSession (se_ID sess))) (\<lambda>_.
      try_then (issue i user (se_DeviceName sess) (se_IPAddress sess) (se_AbsoluteExpiresAt sess)) (\<lambda>resp.
      Done (Inr (resp, sess))))" for sess :: Session and user
  define k3 where "k3 sess user = (if us_Status user \<noteq> StatusActive then Done (Inl not_active)
      else and_then (ask ie_clock) (\<lambda>t3.
      if verificationRefused t3 user (iss_verificationGrace i) then Done (Inl verification_required)
      else k4 sess user))" for sess :: Session and user
  define k2 where "k2 sess = try_then (or_else refresh_invalid (GetUser (se_UserID sess))) (k3 sess)" for sess :: Session
  define k1 where "k1 sess = (if se_RevokedAt sess \<noteq> None then Done (Inl refresh_invalid)
      else and_then (ask ie_clock) (\<lambda>t1.
      if \<not> t1 < se_ExpiresAt sess then Done (Inl refresh_invalid)
      else and_then (ask ie_clock) (\<lambda>t2.
      if \<not> t2 < se_AbsoluteExpiresAt sess then Done (Inl refresh_invalid)
      else k2 sess)))" for sess :: Session
  have "Refresh i tok = try_then (or_else refresh_invalid
      (stored (GetSessionByRefreshHash (RefreshTokenHash i tok)))) k1"
    unfolding Refresh_def k1_def k2_def k3_def k4_def by (simp add: ne)
  with assms have "exec clocked R (try_then (or_else refresh_invalid
      (stored (GetSessionByRefreshHash (RefreshTokenHash i tok)))) k1) w (Inr (resp, sess)) w'" by simp
  then obtain s v1 where s: "exec clocked R (or_else refresh_invalid
      (stored (GetSessionByRefreshHash (RefreshTokenHash i tok)))) w (Inr s) v1" "exec clocked R (k1 s) v1 (Inr (resp, sess)) w'"
    by (rule exec_try_then_InrE)
  from s(1) obtain v0 where "exec clocked R (stored (GetSessionByRefreshHash (RefreshTokenHash i tok))) w (Inr s) v0" and v01: "R\<^sup>*\<^sup>* v0 v1"
    by (rule exec_or_else_InrE)
  then obtain v where v: "R\<^sup>*\<^sup>* w v" "find (\<lambda>s. se_RefreshTokenHash s = RefreshTokenHash i tok) (sessions_t (iw_db v)) = Some s" "R\<^sup>*\<^sup>* v v0"
    unfolding GetSessionByRefreshHash_def by (elim exec_reading_InrE) (auto split: option.splits)
  from s(2) have live: "se_RevokedAt s = None" unfolding k1_def by (auto dest: exec_DoneD split: if_splits)
  from s(2) live have "exec clocked R (and_then (ask ie_clock) (\<lambda>t1.
      if \<not> t1 < se_ExpiresAt s then Done (Inl refresh_invalid)
      else and_then (ask ie_clock) (\<lambda>t2.
      if \<not> t2 < se_AbsoluteExpiresAt s then Done (Inl refresh_invalid) else k2 s))) v1 (Inr (resp, sess)) w'"
    by (simp add: k1_def)
  then obtain e1 v2 where "R\<^sup>*\<^sup>* v1 v2" "exec clocked R (and_then (ask ie_clock) (\<lambda>t2.
      if \<not> t2 < se_AbsoluteExpiresAt s then Done (Inl refresh_invalid) else k2 s)) v2 (Inr (resp, sess)) w'"
    by (elim exec_ask_thenE) (auto split: if_splits dest: exec_DoneD)
  then obtain v3 where v3: "R\<^sup>*\<^sup>* v1 v3" "0 < se_AbsoluteExpiresAt s" "exec clocked R (k2 s) v3 (Inr (resp, sess)) w'"
    by (elim exec_ask_thenE) (auto split: if_splits dest: exec_DoneD simp: clocked_def intro: rtranclp_trans)
  from v3(3) obtain user v4 v5 where g: "exec clocked R (GetUser (se_UserID s)) v3 (Inr user) v4" "R\<^sup>*\<^sup>* v4 v5"
    "exec clocked R (k3 s user) v5 (Inr (resp, sess)) w'"
    unfolding k2_def by (elim exec_try_then_InrE exec_or_else_InrE) blast
  from g(1) obtain u r where u: "R\<^sup>*\<^sup>* v3 u" "R\<^sup>*\<^sup>* u v4" "row_get ur_id (se_UserID s) (users_t (iw_db u)) = Some r"
    "user\<lparr>us_Roles := []\<rparr> = scanUser r"
    by (rule exec_GetUser_InrE)
  from g(3) have active: "us_Status user = StatusActive" unfolding k3_def by (auto dest: exec_DoneD split: if_splits)
  with g(3) obtain v6 where v6: "R\<^sup>*\<^sup>* v5 v6" "exec clocked R (k4 s user) v6 (Inr (resp, sess)) w'"
    unfolding k3_def by (auto elim!: exec_ask_thenE split: if_splits dest: exec_DoneD)
  from v6(2) obtain x v7 rp v8 where k: "exec clocked R (stored (Store_RevokeSession (se_ID s))) v6 (Inr x) v7"
    "exec clocked R (issue i user (se_DeviceName s) (se_IPAddress s) (se_AbsoluteExpiresAt s)) v7 (Inr rp) v8"
    "exec clocked R (Done (Inr (rp, s)) :: (AccessResponse \<times> Session) id_prog) v8 (Inr (resp, sess)) w'"
    unfolding k4_def by (elim exec_try_then_InrE) blast
  from k(3) have same: "resp = rp" "sess = s" "R\<^sup>*\<^sup>* v8 w'" by (auto dest: exec_DoneD)
  from k(1) obtain e z db where z: "R\<^sup>*\<^sup>* v6 z" "Store_RevokeSession (se_ID s) e (iw_db z) = (Inr x, db)" "R\<^sup>*\<^sup>* (z\<lparr>iw_db := db\<rparr>) v7"
    by (rule exec_stored_InrE)
  have "exec clocked R (issue i user (se_DeviceName s) (se_IPAddress s) (se_AbsoluteExpiresAt s)) (z\<lparr>iw_db := db\<rparr>) (Inr rp) w'"
    using exec_before [OF z(3) k(2)] same(3) by (rule exec_after)
  moreover have "R\<^sup>*\<^sup>* v u" using v(3) v01 v3(1) u(1) by (meson rtranclp_trans)
  moreover have "R\<^sup>*\<^sup>* u z" using u(2) g(2) v6(1) z(1) by (meson rtranclp_trans)
  ultimately show thesis using that [of v u r user z e db] v(1,2) live v3(2) u(3,4) active z(2) same by simp
qed

section \<open>Rotation\<close>

text \<open>
  What a successful rotation leaves behind: the session of the old token is revoked, and there is one of
  the new token, of the same account, device and address, with the same absolute bound; the access token
  is signed for that account and session.
\<close>

definition rotated :: "issuer \<Rightarrow> string \<Rightarrow> AccessResponse \<Rightarrow> Session \<Rightarrow> Session \<Rightarrow> bool" where
  "rotated i tok resp old new \<longleftrightarrow>
     se_RefreshTokenHash old = RefreshTokenHash i tok \<and> se_RevokedAt old \<noteq> None \<and>
     se_RefreshTokenHash new = RefreshTokenHash i (ar_RefreshToken resp) \<and> se_ID new \<noteq> se_ID old \<and>
     se_UserID new = se_UserID old \<and> se_DeviceName new = se_DeviceName old \<and>
     se_IPAddress new = se_IPAddress old \<and> se_AbsoluteExpiresAt new = se_AbsoluteExpiresAt old \<and>
     (\<exists>cl. iss_sign i cl = Some (ar_AccessToken resp) \<and> ac_sub cl = iss_uuid_string i (se_UserID old) \<and>
        ac_sid cl = iss_uuid_string i (se_ID new))"

lemma find_hash:
  assumes "find (\<lambda>s. se_RefreshTokenHash s = h) ss = Some s"
  shows "s \<in> set ss" and "se_RefreshTokenHash s = h"
  using assms by (auto simp: find_Some_iff)

lemma session_get: "id_ok lower db \<Longrightarrow> s \<in> set (sessions_t db) \<Longrightarrow> row_get se_ID (se_ID s) (sessions_t db) = Some s"
  by (auto simp: id_ok_def sessions_ok_def intro: row_get_own)

lemma session_later:
  assumes "id_evolves lower w w'" "row_get se_ID k (sessions_t (iw_db w)) = Some s"
  obtains s' where "row_get se_ID k (sessions_t (iw_db w')) = Some s'" "session_ev s s'"
  using assms sessions_h.te_get unfolding id_evolves_def id_history_def by meson

lemma session_ev_same:
  assumes "session_ev s s'"
  shows "se_ID s' = se_ID s" and "se_UserID s' = se_UserID s" and "se_RefreshTokenHash s' = se_RefreshTokenHash s"
    and "se_DeviceName s' = se_DeviceName s" and "se_IPAddress s' = se_IPAddress s"
    and "se_AbsoluteExpiresAt s' = se_AbsoluteExpiresAt s" and "se_RevokedAt s \<noteq> None \<Longrightarrow> se_RevokedAt s' \<noteq> None"
proof -
  have s': "s' = s\<lparr>se_RevokedAt := se_RevokedAt s'\<rparr>" using assms by (simp add: session_ev_def)
  show "se_ID s' = se_ID s" "se_UserID s' = se_UserID s" "se_RefreshTokenHash s' = se_RefreshTokenHash s"
    "se_DeviceName s' = se_DeviceName s" "se_IPAddress s' = se_IPAddress s"
    "se_AbsoluteExpiresAt s' = se_AbsoluteExpiresAt s"
    by (subst s', simp)+
  show "se_RevokedAt s' \<noteq> None" if "se_RevokedAt s \<noteq> None" using assms that unfolding session_ev_def by blast
qed

lemma Store_RevokeSession_Inr:
  assumes "Store_RevokeSession k e db = (Inr x, db')" and "row_get se_ID k (sessions_t db) = Some s"
  shows "row_get se_ID k (sessions_t db') = Some (revoke (ie_now e) s)"
  using assms by (auto simp: Store_RevokeSession_def row_get_upd dest!: finish_Inr split: if_splits)

lemma CreateSession_Inr:
  assumes "CreateSession s e db = (Inr x, db')"
  shows "db' = db\<lparr>sessions_t := row_ins (s\<lparr>se_CreatedAt := ie_now e, se_RevokedAt := None\<rparr>) (sessions_t db)\<rparr>"
    and "\<forall>r \<in> set (sessions_t db). se_ID r \<noteq> se_ID s \<and> se_RefreshTokenHash r \<noteq> se_RefreshTokenHash s"
  using assms by (auto simp: CreateSession_def list_ex_iff dest!: finish_Inr split: if_splits)

lemma evolves_ok: "id_evolves lower v w \<Longrightarrow> id_ok lower (iw_db v) \<Longrightarrow> id_ok lower (iw_db w)"
  by (simp add: id_evolves_def)

lemma refresh_leaves:
  assumes ex: "exec clocked (id_move c) (Refresh i tok) w (Inr (resp, old)) w'"
    and wired: "wired (ih_service c)" and ok: "id_ok (isv_lower (ih_service c)) (iw_db w)"
  obtains new s where "rotated i tok resp s new" "s \<in> set (sessions_t (iw_db w'))" "new \<in> set (sessions_t (iw_db w'))"
    "se_ID s = se_ID old"
proof -
  let ?ev = "id_evolves (isv_lower (ih_service c))" and ?R = "(id_move c)\<^sup>*\<^sup>*"
  note mv = id_moves_evolve [OF _ wired]
  from ex obtain v u r user z e db where v: "?R w v" "find (\<lambda>s. se_RefreshTokenHash s = RefreshTokenHash i tok) (sessions_t (iw_db v)) = Some old"
    "0 < se_AbsoluteExpiresAt old" "?R v u" and u: "row_get ur_id (se_UserID old) (users_t (iw_db u)) = Some r"
    "user\<lparr>us_Roles := []\<rparr> = scanUser r" "?R u z" "Store_RevokeSession (se_ID old) e (iw_db z) = (Inr (), db)"
    and iss: "exec clocked (id_move c) (issue i user (se_DeviceName old) (se_IPAddress old) (se_AbsoluteExpiresAt old))
      (z\<lparr>iw_db := db\<rparr>) (Inr resp) w'"
    by (rule exec_Refresh_InrE)
  have owner: "us_ID user = se_UserID old"
    using arg_cong [where f = us_ID, OF u(2)] row_get_mem [OF u(1)] by (simp add: scanUser_def)
  have okv: "id_ok (isv_lower (ih_service c)) (iw_db v)" using evolves_ok [OF mv [OF v(1)] ok] .
  have old: "row_get se_ID (se_ID old) (sessions_t (iw_db v)) = Some old"
    using session_get [OF okv find_hash(1) [OF v(2)]] .
  from iss obtain y g sid e2 db2 and e1 :: id_env where y: "?R (z\<lparr>iw_db := db\<rparr>) g" "?R g y"
    "CreateSession (new_session i sid user (ar_RefreshToken resp) (se_DeviceName old) (se_IPAddress old) (ie_clock e1)
       (se_AbsoluteExpiresAt old)) e2 (iw_db y) = (Inr (), db2)" "?R (y\<lparr>iw_db := db2\<rparr>) w'"
    "iss_sign i (session_claims i sid user (claim_tenant i (grants_of (us_ID user) (iw_db g)))
       (rolesFromGrants (grants_of (us_ID user) (iw_db g))) (ie_clock e1)) = Some (ar_AccessToken resp)"
    by (rule exec_issue_InrE) (rule that)
  have "?ev v z" using mv [OF v(4)] mv [OF u(3)] by (rule evo.composes)
  then obtain s1 where s1: "row_get se_ID (se_ID old) (sessions_t (iw_db z)) = Some s1" "session_ev old s1"
    using old by (rule session_later)
  have s2: "row_get se_ID (se_ID old) (sessions_t (iw_db (z\<lparr>iw_db := db\<rparr>))) = Some (revoke (ie_now e) s1)"
    using Store_RevokeSession_Inr [OF u(4) s1(1)] by simp
  from mv [OF rtranclp_trans [OF y(1,2)]] s2 obtain s3 where s3: "row_get se_ID (se_ID old) (sessions_t (iw_db y)) = Some s3"
    "session_ev (revoke (ie_now e) s1) s3" by (rule session_later)
  let ?new = "new_session i sid user (ar_RefreshToken resp) (se_DeviceName old) (se_IPAddress old) (ie_clock e1) (se_AbsoluteExpiresAt old)"
  let ?row = "?new\<lparr>se_CreatedAt := ie_now e2, se_RevokedAt := None\<rparr>"
  note made = CreateSession_Inr [OF y(3)]
  have s4: "row_get se_ID (se_ID old) (sessions_t (iw_db (y\<lparr>iw_db := db2\<rparr>))) = Some s3"
    using s3(1) made(1) by (simp add: row_get_ins)
  have fresh: "se_ID ?row \<noteq> se_ID old"
    using row_get_mem [OF s3(1)] made(2) by (auto simp: new_session_def)
  have n4: "row_get se_ID (se_ID ?row) (sessions_t (iw_db (y\<lparr>iw_db := db2\<rparr>))) = Some ?row"
    using made by (simp add: row_get_ins row_get_fresh)
  from mv [OF y(4)] s4 obtain s where s: "row_get se_ID (se_ID old) (sessions_t (iw_db w')) = Some s" "session_ev s3 s"
    by (rule session_later)
  from mv [OF y(4)] n4 obtain n where n: "row_get se_ID (se_ID ?row) (sessions_t (iw_db w')) = Some n" "session_ev ?row n"
    by (rule session_later)
  note same = session_ev_same [OF s1(2)] session_ev_same [OF s3(2)] session_ev_same [OF s(2)] session_ev_same [OF n(2)]
  have "\<exists>cl. iss_sign i cl = Some (ar_AccessToken resp) \<and> ac_sub cl = iss_uuid_string i (se_UserID old) \<and>
      ac_sid cl = iss_uuid_string i sid"
    using y(5) owner by (intro exI conjI) (assumption, simp_all add: session_claims_def AccessClaims_def)
  then have "rotated i tok resp s n"
    unfolding rotated_def using same find_hash(2) [OF v(2)] fresh v(3) owner
    by (simp add: new_session_def time_is_zero_def)
  then show thesis using that [of s n] row_get_mem [OF s(1)] row_get_mem [OF n(1)] by simp
qed

lemma rotated_later:
  assumes "rotated i tok resp old new" and "old \<in> set (sessions_t (iw_db v))" "new \<in> set (sessions_t (iw_db v))"
    and "id_evolves lower v w" and "id_ok lower (iw_db v)"
  shows "\<exists>old \<in> set (sessions_t (iw_db w)). \<exists>new \<in> set (sessions_t (iw_db w)). rotated i tok resp old new"
proof -
  from session_later [OF assms(4) session_get [OF assms(5,2)]] obtain o' where
    o: "row_get se_ID (se_ID old) (sessions_t (iw_db w)) = Some o'" "session_ev old o'" .
  from session_later [OF assms(4) session_get [OF assms(5,3)]] obtain n' where
    n: "row_get se_ID (se_ID new) (sessions_t (iw_db w)) = Some n'" "session_ev new n'" .
  have "rotated i tok resp o' n'"
    using assms(1) session_ev_same [OF o(2)] session_ev_same [OF n(2)] by (simp add: rotated_def)
  then show ?thesis using row_get_mem [OF o(1)] row_get_mem [OF n(1)] by blast
qed

lemma exec_RefreshTokens_InrE:
  assumes "exec E R (RefreshTokens sv tok) w (Inr resp) w'"
  obtains old w1 where "exec E R (Refresh (isv_issuer sv) tok) w (Inr (resp, old)) w1"
    "exec E R (audit (se_UserID old) ActionSessionRefreshed ''session'' (uuid_text sv (se_ID old))
       (device_meta sv (se_DeviceName old) (se_IPAddress old))) w1 (Inr ()) w'"
proof -
  from assms obtain x w1 where x: "exec E R (Refresh (isv_issuer sv) tok) w (Inr x) w1"
    "exec E R (case x of (resp, old) \<Rightarrow> try_then (audit (se_UserID old) ActionSessionRefreshed ''session''
       (uuid_text sv (se_ID old)) (device_meta sv (se_DeviceName old) (se_IPAddress old))) (\<lambda>_. Done (Inr resp)))
       w1 (Inr resp) w'"
    unfolding RefreshTokens_def by (rule exec_try_then_InrE)
  obtain rp old where p: "x = (rp, old)" by (cases x)
  from x(2) [unfolded p prod.case] obtain y w2 where y: "exec E R (audit (se_UserID old) ActionSessionRefreshed ''session''
       (uuid_text sv (se_ID old)) (device_meta sv (se_DeviceName old) (se_IPAddress old))) w1 (Inr y) w2"
      "resp = rp" "R\<^sup>*\<^sup>* w2 w'"
    by (rule exec_try_then_InrE) (auto dest: exec_DoneD)
  have "exec E R (audit (se_UserID old) ActionSessionRefreshed ''session''
       (uuid_text sv (se_ID old)) (device_meta sv (se_DeviceName old) (se_IPAddress old))) w1 (Inr ()) w'"
    using exec_after [OF y(1,3)] by simp
  then show thesis using that [of old w1] x(1) p y(2) by simp
qed

text \<open>A spent token: it has a session, and that one is revoked. It stays spent, and nothing is read for it but that.\<close>

definition spent :: "string \<Rightarrow> id_db \<Rightarrow> bool" where
  "spent h db \<longleftrightarrow> (\<exists>s \<in> set (sessions_t db). se_RefreshTokenHash s = h \<and> se_RevokedAt s \<noteq> None)"

lemma spent_later:
  assumes "id_evolves lower v w" and "id_ok lower (iw_db v)" and "spent h (iw_db v)"
  shows "spent h (iw_db w)"
proof -
  from assms(3) obtain s where s: "s \<in> set (sessions_t (iw_db v))" "se_RefreshTokenHash s = h" "se_RevokedAt s \<noteq> None"
    by (auto simp: spent_def)
  from session_later [OF assms(1) session_get [OF assms(2) s(1)]] obtain s'
    where s': "row_get se_ID (se_ID s) (sessions_t (iw_db w)) = Some s'" "session_ev s s'" .
  have "s' \<in> set (sessions_t (iw_db w))" using row_get_mem [OF s'(1)] by simp
  moreover have "se_RefreshTokenHash s' = h" using session_ev_same(3) [OF s'(2)] s(2) by simp
  moreover have "se_RevokedAt s' \<noteq> None" using s(3) by (rule session_ev_same(7) [OF s'(2)])
  ultimately show ?thesis unfolding spent_def by blast
qed

lemma same_hash:
  assumes "id_ok lower db" and "s \<in> set (sessions_t db)" "s' \<in> set (sessions_t db)"
    and "se_RefreshTokenHash s = se_RefreshTokenHash s'"
  shows "s = s'"
proof -
  have "index_ok se_ID clash_session (sessions_t db)" using assms(1) by (simp add: id_ok_def sessions_ok_def)
  then have "se_ID s = se_ID s'" using assms(2-4) unfolding index_ok_def clash_session_def by blast
  then show ?thesis using session_get [OF assms(1,2)] session_get [OF assms(1,3)] by (metis option.inject)
qed

lemma spent_found:
  "spent h db \<Longrightarrow> id_ok lower db \<Longrightarrow> find (\<lambda>s. se_RefreshTokenHash s = h) (sessions_t db) = Some s \<Longrightarrow> se_RevokedAt s \<noteq> None"
  unfolding spent_def using same_hash find_hash by metis

lemma spent_refused:
  assumes ex: "exec clocked (id_move c) (Refresh i tok) w (Inr (resp, old)) w'"
    and wired: "wired (ih_service c)" and ok: "id_ok (isv_lower (ih_service c)) (iw_db w)"
    and spent: "spent (RefreshTokenHash i tok) (iw_db w)"
  shows False
proof -
  from ex obtain v where v: "(id_move c)\<^sup>*\<^sup>* w v"
    "find (\<lambda>s. se_RefreshTokenHash s = RefreshTokenHash i tok) (sessions_t (iw_db v)) = Some old" "se_RevokedAt old = None"
    by (rule exec_Refresh_InrE)
  note ev = id_moves_evolve [OF v(1) wired]
  show False using spent_found [OF spent_later [OF ev ok spent] evolves_ok [OF ev ok] v(2)] v(3) by simp
qed

end
