(* ===== verification/Id_Demo.thy ===== *)
theory Id_Demo
  imports Id_Sessions
begin

text \<open>
  A small instance of identity: a service with toy keys, two accounts and their tables. The examples
  beside the properties run on it.
\<close>

definition demo_issuer :: issuer where
  "demo_issuer =
     \<lparr>iss_mac = (\<lambda>s. s), iss_sign = (\<lambda>cl. Some (ac_sub cl @ ''.'' @ ac_sid cl @ ''.'' @ ac_tenant_id cl @ ''.'' @ ac_role cl)), iss_jwks = None,
      iss_issuer = ''motivra'', iss_audience = ''api'', iss_accessTTL = DefaultAccessTTL,
      iss_refreshTTL = DefaultRefreshTTL, iss_absoluteTTL = DefaultAbsoluteSessionTTL,
      iss_verificationGrace = 0, iss_uuid_string = (\<lambda>u. dec_nat (unat u))\<rparr>"

text \<open>A toy derivation: the password itself, whatever the salt and the costs.\<close>

definition demo_argon :: argon where "demo_argon p salt t m th n = p"

definition demo_service :: id_service where
  "demo_service =
     \<lparr>isv_issuer = demo_issuer, isv_publisher = True, isv_trustForwarded = False, isv_breacher = None,
      isv_breachFailClosed = False, isv_verification = DefaultVerificationConfig, isv_argon = demo_argon,
      isv_lower = (\<lambda>s. s), isv_redact = (\<lambda>s. s), isv_error_text = (\<lambda>_. ''failed''),
      isv_duration_text = (\<lambda>_. ''a while''), isv_correlation = ''c1''\<rparr>"

lemma demo_hash [simp]: "RefreshTokenHash demo_issuer ''one'' = ''6f6e65''" "RefreshTokenHash demo_issuer ''two'' = ''74776f''"
  "TokenHash demo_issuer ''vt'' = ''7674''" "RefreshTokenHash demo_issuer ''eHl6'' = ''65486c36''"
  "RefreshTokenHash demo_issuer ''dXZ3'' = ''64585a33''"
  by code_simp+

lemma demo_token [simp]:
  "b64_encode url_alphabet (take refreshTokenBytes ''xyz'') = ''eHl6''"
  "b64_encode url_alphabet (take refreshTokenBytes ''uvw'') = ''dXZ3''"
  by code_simp+

text \<open>Decimal numerals stand for identifiers.\<close>

definition demo_parse :: "string \<Rightarrow> uuid option" where
  "demo_parse s = map_option (\<lambda>n. word_of_int n) (Atoi s)"

definition demo_http :: id_http where
  "demo_http = \<lparr>ih_service = demo_service, ih_parse = demo_parse, ih_partial = (\<lambda>_. 0), ih_parse_time = (\<lambda>_. None)\<rparr>"

definition demo_now :: gotime where "demo_now = 1000 * time_hour"

definition demo_user :: "uuid \<Rightarrow> string \<Rightarrow> string \<Rightarrow> user_row" where
  "demo_user k email pw =
     \<lparr>ur_id = k, ur_email = email, ur_phone = None, ur_password_hash = phc_render ''salt'' pw,
      ur_full_name = ''A'', ur_status = StatusActive, ur_email_verified_at = Some 1, ur_phone_verified_at = None,
      ur_created_at = 1, ur_updated_at = 1\<rparr>"

definition demo_session :: "uuid \<Rightarrow> uuid \<Rightarrow> string \<Rightarrow> Session" where
  "demo_session k user tok =
     \<lparr>se_ID = k, se_UserID = user, se_RefreshTokenHash = RefreshTokenHash demo_issuer tok, se_DeviceName = ''phone'',
      se_IPAddress = ''10.0.0.1'', se_CreatedAt = 1, se_ExpiresAt = demo_now + time_hour,
      se_AbsoluteExpiresAt = demo_now + 2 * time_hour, se_RevokedAt = None\<rparr>"

definition demo_vtoken :: VerificationToken where
  "demo_vtoken =
     \<lparr>vt_ID = 31, vt_UserID = 2, vt_Channel = ChannelEmail, vt_TokenHash = TokenHash demo_issuer ''vt'',
      vt_ExpiresAt = demo_now + time_hour, vt_ConsumedAt = None, vt_CreatedAt = 1\<rparr>"

definition demo_world :: id_world where
  "demo_world =
     \<lparr>iw_db = \<lparr>users_t = [demo_user 1 ''a@x.ke'' ''first password'', demo_user 2 ''b@x.ke'' ''second password''],
        user_roles_t = [\<lparr>ro_id = 1, ro_user_id = 1, ro_role = RoleCustomer, ro_tenant_id = None, ro_created_at = 1\<rparr>],
        sessions_t = [demo_session 11 1 ''one'', demo_session 12 2 ''two''], vtokens_t = [demo_vtoken],
        audit_log_t = []\<rparr>,
      iw_events = []\<rparr>"

text \<open>A healthy environment with a given fresh identifier and random bytes.\<close>

definition demo_env :: "uuid \<Rightarrow> string \<Rightarrow> id_env" where
  "demo_env k bytes =
     \<lparr>ie_flt = Healthy, ie_now = demo_now, ie_seq = 1, ie_clock = demo_now, ie_uuid = k, ie_random = Some bytes,
      ie_pub = True, ie_answer = None\<rparr>"

lemma demo_wired: "wired (ih_service demo_http)"
  by (simp add: wired_def demo_http_def demo_service_def)

lemma demo_clocked: "clocked (demo_env k b)"
  by (simp add: clocked_def demo_env_def demo_now_def time_hour_def time_minute_def time_second_def)

lemma demo_ok: "id_ok (isv_lower (ih_service demo_http)) (iw_db demo_world)"
  by (simp add: id_ok_def users_ok_def roles_ok_def sessions_ok_def vtokens_ok_def owned_def pk_ok_def index_ok_def
      clash_email_def clash_phone_def clash_session_def clash_token_def grant_key_def demo_world_def demo_http_def
      demo_service_def demo_user_def demo_session_def demo_vtoken_def status_checks_def StatusActive_def
      rolePriority_def role_names IsValidVerificationChannel_def)

lemma run_demo: "exec E R p w (fst (run p es w)) (snd (snd (run p es w)))" if "\<And>n. E (es n)"
  using run_exec [of p es w "fst (run p es w)" "fst (snd (run p es w))" "snd (snd (run p es w))" E R] that by simp

lemma run_stored: "run (stored f) es w = (case f (es 0) (iw_db w) of (r, db) \<Rightarrow> (r, \<lambda>n. es (Suc n), w\<lparr>iw_db := db\<rparr>))"
  by (simp add: stored_def split: prod.splits)

lemma demo_issuer_simps [simp]:
  "iss_verificationGrace demo_issuer = 0" "iss_accessTTL demo_issuer = DefaultAccessTTL"
  "iss_refreshTTL demo_issuer = DefaultRefreshTTL" "iss_absoluteTTL demo_issuer = DefaultAbsoluteSessionTTL"
  "iss_uuid_string demo_issuer u = dec_nat (unat u)"
  "iss_sign demo_issuer cl = Some (ac_sub cl @ ''.'' @ ac_sid cl @ ''.'' @ ac_tenant_id cl @ ''.'' @ ac_role cl)"
  by (simp_all add: demo_issuer_def)

lemma demo_service_simps [simp]:
  "ih_service demo_http = demo_service" "ih_parse demo_http = demo_parse"
  "isv_issuer demo_service = demo_issuer" "isv_argon demo_service = demo_argon" "isv_lower demo_service = (\<lambda>s. s)"
  "isv_publisher demo_service" "isv_breacher demo_service = None" "isv_trustForwarded demo_service = False"
  "isv_redact demo_service s = s" "isv_correlation demo_service = ''c1''"
  "isv_verification demo_service = DefaultVerificationConfig"
  by (simp_all add: demo_http_def demo_service_def)

lemma demo_env_simps [simp]:
  "ie_flt (demo_env k b) = Healthy" "ie_now (demo_env k b) = demo_now" "ie_clock (demo_env k b) = demo_now"
  "ie_seq (demo_env k b) = 1" "ie_uuid (demo_env k b) = k" "ie_random (demo_env k b) = Some b" "ie_pub (demo_env k b)"
  "ie_answer (demo_env k b) = None"
  by (simp_all add: demo_env_def)

lemmas demo_rows = demo_world_def demo_user_def demo_session_def demo_vtoken_def demo_now_def time_hour_def
  time_minute_def time_second_def StatusActive_def

lemmas run_reads = reads_defs reading_def row_get_def scanUser_def grants_of_def rolesFromGrants_def GetUser_def
  GetUserByEmail_def with_roles_def or_else_def

lemmas run_writes = Store_RevokeSession_def CreateSession_def InsertAudit_def finish_def audit_row_def user_exists_def
  row_upd_def row_ins_def revoke_def

lemmas run_tokens = claimContext_def issue_def Issue_def mint_def newOpaqueToken_def new_session_def verificationRefused_def
  RecordAudit_def audit_def audit_actions time_is_zero_def

lemma demo_refresh:
  "\<exists>resp es w'. run (RefreshTokens demo_service ''one'') (\<lambda>_. demo_env 13 ''xyz'') demo_world = (Inr resp, es, w')"
  by (simp add: RefreshTokens_def Refresh_def run_simps run_stored run_reads run_writes run_tokens demo_rows)

text \<open>Calls, by nobody or by an account.\<close>

definition demo_call :: "string \<Rightarrow> id_call" where
  "demo_call u =
     \<lparr>ic_claims = (if u = [] then None else Some \<lparr>cl_UserID = u, cl_TenantID = [], cl_Role = RoleCustomer,
        cl_SessionID = ''11'', cl_IssuedAt = 1, cl_ExpiresAt = 2\<rparr>), ic_remote = ''10.0.0.2'', ic_forwarded = [],
      ic_limited = None\<rparr>"

lemma demo_parses [simp]: "demo_parse ''1'' = Some 1" "demo_parse ''2'' = Some 2" "demo_parse ''11'' = Some 11"
  by code_simp+

lemmas run_http = id_Routes_def throttle_def authenticated_def with_body_def with_subject_def subject_of_def
  answering_def id_problem_def demo_call_def

lemma demo_route_refresh:
  "\<exists>a es w'. run (id_Routes demo_http (demo_call []) (PostRefresh (JsonBody \<lparr>qf_RefreshToken = ''one''\<rparr>)))
     (\<lambda>_. demo_env 13 ''xyz'') demo_world = (Reply 200 a, es, w') \<and> length (sessions_t (iw_db w')) = 3"
  by (simp add: run_http handleRefresh_def RefreshTokens_def Refresh_def run_simps run_stored run_reads run_writes
      run_tokens demo_rows)

lemma demo_route_delete:
  "\<exists>err es. run (id_Routes demo_http (demo_call ''2'') (DeleteSession ''11'')) (\<lambda>_. demo_env 13 ''xyz'') demo_world =
     (Problem err, es, demo_world)"
  by (simp add: run_http handleRevokeSession_def RevokeSession_def not_found_def isNotFound_def run_simps run_stored run_reads
      demo_rows WriteError_def)

text \<open>Two verifications with one token that overlap.\<close>

lemma demo_trim: "trim_space ''vt'' = ''vt''" "trim_space ''nobody@x.ke'' = ''nobody@x.ke''" "trim_space ''a@x.ke'' = ''a@x.ke''"
  by code_simp+

lemma demo_verify:
  "\<exists>q a es w2 b es2 w3. advance (Suc 0) (Verify demo_service ''vt'') (\<lambda>_. demo_env 13 ''xyz'') demo_world = (q, demo_world) \<and>
     run (Verify demo_service ''vt'') (\<lambda>_. demo_env 13 ''xyz'') demo_world = (Inr a, es, w2) \<and>
     run q (\<lambda>_. demo_env 14 ''uvw'') w2 = (Inl b, es2, w3)"
  by (simp add: Verify_def demo_trim try_then_def stored_def and_then_assoc advance_effect run_simps run_reads run_writes
      ConsumeVerificationToken_def consume_def stamp_channel_def IsValidVerificationChannel_def RecordAudit_def audit_def
      audit_actions demo_rows)

text \<open>A login, and a password change.\<close>

lemma demo_verify_password [simp]:
  "VerifyPassword demo_argon q (phc_render ''salt'' ''first password'') = Some (q = ''first password'')"
  by (simp add: verify_rendered MaxPasswordLength_def demo_argon_def)

lemma demo_login:
  "\<exists>resp es w'. run (Login demo_service ''a@x.ke'' ''first password'' ''tablet'' ''10.0.0.2'') (\<lambda>_. demo_env 13 ''xyz'') demo_world =
     (Inr resp, es, w')"
  by (simp add: Login_def demo_trim run_simps run_stored run_reads run_writes run_tokens demo_rows)

lemma demo_change_password:
  "\<exists>es w'. run (ChangePassword demo_service 1 ''first password'' ''another password'') (\<lambda>_. demo_env 13 ''xyz'') demo_world =
     (Inr (), es, w')"
  by (simp add: ChangePassword_def checkPasswordBreach_def breach_note_def HashPassword_def Let_def MinPasswordLength_def
      MaxPasswordLength_def UpdatePassword_def RevokeUserSessions_def live_of_def
      run_simps run_stored run_reads run_writes run_tokens demo_rows)

text \<open>An administrator of tenant 77, and a query of the trail.\<close>

definition demo_admin :: id_call where
  "demo_admin =
     \<lparr>ic_claims = Some \<lparr>cl_UserID = ''2'', cl_TenantID = ''77'', cl_Role = RoleAdmin,
        cl_SessionID = ''12'', cl_IssuedAt = 1, cl_ExpiresAt = 2\<rparr>, ic_remote = ''10.0.0.2'', ic_forwarded = [],
      ic_limited = None\<rparr>"

definition demo_record :: "uuid option \<Rightarrow> AuditRecord" where
  "demo_record t =
     \<lparr>au_ID = 1, au_ActorID = None, au_Action = ActionUsersListed, au_ObjectType = ''user'', au_ObjectID = ''collection'',
      au_TenantID = t, au_Metadata = [], au_CreatedAt = 5\<rparr>"

definition demo_trail :: id_world where
  "demo_trail = demo_world\<lparr>iw_db := (iw_db demo_world)\<lparr>audit_log_t := [demo_record None, demo_record (Some 77), demo_record (Some 78)]\<rparr>\<rparr>"

definition demo_audit_query :: audit_query where
  "demo_audit_query =
     \<lparr>aq_page = \<lparr>pq_limit = [], pq_offset = []\<rparr>, aq_tenant_id = ''78'', aq_actor_id = [], aq_action = [], aq_object_type = [],
      aq_object_id = [], aq_since = [], aq_until = []\<rparr>"

lemma demo_trim_empty [simp]: "trim_space [] = []" "demo_parse ''77'' = Some 77" "demo_parse ''78'' = Some 78"
  by code_simp+

lemma demo_audit_reply:
  "run (id_Routes demo_http demo_admin (GetAudit demo_audit_query)) (\<lambda>_. demo_env 13 ''xyz'') demo_trail =
     (Reply 200 (AuditBody \<lparr>xe_Entries = [newAuditRecordResponse (demo_record (Some 77))], xe_Limit = 20, xe_Offset = 0\<rparr>), \<lambda>_. demo_env 13 ''xyz'', demo_trail)"
  by (simp add: run_http with_role_def admin_roles_def handleListAudit_def demo_admin_def demo_audit_query_def
      auditFilterFromQuery_def paginationFromQuery_def optional_def tenantIDFromClaims_def ListAudit_def
      AuditFilter_clamp_def defaultListUsersLimit_def defaultAuditListLimit_def maxAuditListLimit_def audit_matches_def
      col_eq_def demo_trail_def demo_record_def RoleSuperAdmin_def RoleAdmin_def run_simps run_stored run_reads)

text \<open>An account that is a garage on its own behalf and a technician for tenant 77.\<close>

definition demo_grants :: "role_row list" where
  "demo_grants =
     [\<lparr>ro_id = 1, ro_user_id = 1, ro_role = IdRoleGarage, ro_tenant_id = None, ro_created_at = 1\<rparr>,
      \<lparr>ro_id = 2, ro_user_id = 1, ro_role = IdRoleTechnician, ro_tenant_id = Some 77, ro_created_at = 2\<rparr>]"

definition demo_mixed :: id_world where
  "demo_mixed = demo_world\<lparr>iw_db := (iw_db demo_world)\<lparr>user_roles_t := demo_grants\<rparr>\<rparr>"

lemma demo_numerals [simp]: "dec_nat (Suc 0) = ''1''" "dec_nat 13 = ''13''" "dec_nat 77 = ''77''"
  by code_simp+

lemma demo_mixed_login:
  "\<exists>resp es w'. run (Login demo_service ''a@x.ke'' ''first password'' ''tablet'' ''10.0.0.2'') (\<lambda>_. demo_env 13 ''xyz'') demo_mixed =
     (Inr resp, es, w') \<and> ar_AccessToken resp = ''1.13.77.GARAGE''"
  by (simp add: Login_def demo_trim run_simps run_stored run_reads run_writes run_tokens demo_rows demo_mixed_def demo_grants_def
      session_claims_def AccessClaims_def claim_tenant_def HighestRole_def rolePriority_def role_names)

text \<open>A registration whose session cannot be stored, and the same registration again.\<close>

definition demo_broken :: "nat \<Rightarrow> id_env" where
  "demo_broken n = (if n = 8 then (demo_env 13 ''xyz'')\<lparr>ie_flt := FailAt 0\<rparr> else demo_env 13 ''xyz'')"

definition demo_register :: "AccessResponse id_prog" where
  "demo_register = Register demo_service ''c@x.ke'' [] ''third password'' ''C'' ''phone'' ''10.0.0.3''"

lemma demo_strings [simp]: "emailPattern ''c@x.ke''" "trim_space ''C'' = ''C''" "trim_space ''c@x.ke'' = ''c@x.ke''"
  by code_simp+

lemma demo_lower [simp]: "ascii_lower CHR ''c'' = CHR ''c''" "ascii_lower CHR ''@'' = CHR ''@''"
  "ascii_lower CHR ''x'' = CHR ''x''" "ascii_lower CHR ''.'' = CHR ''.''" "ascii_lower CHR ''k'' = CHR ''k''"
  "ascii_lower CHR ''e'' = CHR ''e''"
  by code_simp+

lemma demo_half_registered:
  "\<exists>es w1. run demo_register demo_broken demo_world = (Inl IdFailed, es, w1) \<and>
     (\<exists>r \<in> set (users_t (iw_db w1)). ur_email r = ''c@x.ke'') \<and>
     (\<exists>es2. run demo_register (\<lambda>_. demo_env 14 ''uvw'') w1 = (Inl (conflict ''email address is already registered''), es2, w1))"
  by (simp add: demo_register_def Register_def registration_fields_def maxEmailLength_def Let_def checkPasswordBreach_def breach_note_def
      HashPassword_def Let_def MinPasswordLength_def MaxPasswordLength_def CreateUser_def user_row_of_def user_conflict_def new_user_def
      nullif_empty_def status_checks_def grant_exists_def rolePriority_def role_names demo_broken_def
      run_simps run_stored run_reads run_writes run_tokens demo_rows)

end
