(* ===== verification/Id_Pools.thy ===== *)
theory Id_Pools
  imports Id_Ledger
begin

text \<open>
  Invariants of pools of identity handlers: the absolute bound of sessions, and the sessions of an account
  among calls of strangers.
\<close>

section \<open>Stages under an invariant\<close>

lemma ensures_stored:
  "(\<And>e w. E e \<Longrightarrow> I w \<Longrightarrow> I (w\<lparr>iw_db := snd (f e (iw_db w))\<rparr>) \<and> Q (fst (f e (iw_db w)))) \<Longrightarrow> ensures E I (stored f) Q"
  unfolding stored_def by (rule ensures_effect) (auto simp: split_beta)

lemma ensures_reading:
  "(\<And>w a. I w \<Longrightarrow> f (iw_db w) = Inr a \<Longrightarrow> Q a) \<Longrightarrow> ensures E I (stored (reading f)) (\<lambda>r. \<forall>a. r = Inr a \<longrightarrow> Q a)"
  by (rule ensures_stored) (auto simp: reading_def)

lemma ensures_or_else:
  "ensures E I p (\<lambda>r. \<forall>a. r = Inr a \<longrightarrow> Q a) \<Longrightarrow> ensures E I (or_else x p) (\<lambda>r. \<forall>a. r = Inr a \<longrightarrow> Q a)"
  unfolding or_else_def by (erule ensures_and_then) (auto intro!: ensures_Done split: sum.splits)

lemma ensures_any: "ensures E I p Q \<Longrightarrow> ensures E I p (\<lambda>_. True)"
  by (erule ensures_mono) simp

text \<open>In \<open>try_then\<close> with nothing to show of the result.\<close>

lemma ensures_try:
  assumes "ensures E I p (\<lambda>r. \<forall>a. r = Inr a \<longrightarrow> Q a)" and "\<And>a. Q a \<Longrightarrow> ensures E I (k a) (\<lambda>_. True)"
  shows "ensures E I (try_then p k) (\<lambda>_. True)"
  using assms by (rule ensures_try_then) simp_all

lemma ensures_try_any:
  assumes "ensures E I p (\<lambda>_. True)" and "\<And>a. ensures E I (k a) (\<lambda>_. True)"
  shows "ensures E I (try_then p k) (\<lambda>_. True)"
  using ensures_mono [OF assms(1), of "\<lambda>r. \<forall>a. r = Inr a \<longrightarrow> True"] assms(2) by (rule ensures_try) simp_all

lemma ensures_ask_then:
  "(\<And>e. E e \<Longrightarrow> ensures E I (k (g e)) Q) \<Longrightarrow> ensures E I (and_then (ask g) k) Q"
  unfolding ask_def by (auto intro!: ensures_Act)

lemma ensures_http:
  "ensures E I p (\<lambda>_. True) \<Longrightarrow> ensures E I (answering p f) (\<lambda>_. True)"
  "ensures E I r (\<lambda>_. True) \<Longrightarrow> ensures E I (throttle k r) (\<lambda>_. True)"
  "(\<And>cl. ic_claims k = Some cl \<Longrightarrow> ensures E I (h cl) (\<lambda>_. True)) \<Longrightarrow> ensures E I (authenticated k h) (\<lambda>_. True)"
  "(\<And>u. subject_of c claims = Inr u \<Longrightarrow> ensures E I (g u) (\<lambda>_. True)) \<Longrightarrow> ensures E I (with_subject c claims g) (\<lambda>_. True)"
  "(\<And>q. DecodeJSON bd = Inr q \<Longrightarrow> ensures E I (b q) (\<lambda>_. True)) \<Longrightarrow> ensures E I (with_body bd b) (\<lambda>_. True)"
  "ensures E I (id_problem x) (\<lambda>_. True)"
proof -
  show "ensures E I p (\<lambda>_. True) \<Longrightarrow> ensures E I (answering p f) (\<lambda>_. True)"
    unfolding answering_def id_problem_def by (erule ensures_and_then) (auto intro!: ensures_Done split: sum.splits)
qed (auto simp: throttle_def authenticated_def with_subject_def with_body_def id_problem_def
    intro!: ensures_Done split: option.splits sum.splits)

text \<open>Rotation, from what is known of the session read to what is done with it.\<close>

lemma ensures_Refresh:
  assumes found: "\<And>w s. I w \<Longrightarrow> find (\<lambda>s. se_RefreshTokenHash s = RefreshTokenHash i tok) (sessions_t (iw_db w)) = Some s \<Longrightarrow> Q s"
    and lookup: "\<And>u. ensures clocked I (GetUser u) (\<lambda>_. True)"
    and revoked: "\<And>s. Q s \<Longrightarrow> ensures clocked I (stored (Store_RevokeSession (se_ID s))) (\<lambda>_. True)"
    and issued: "\<And>s user dev ip. Q s \<Longrightarrow> 0 < se_AbsoluteExpiresAt s \<Longrightarrow>
      ensures clocked I (issue i user dev ip (se_AbsoluteExpiresAt s)) (\<lambda>_. True)"
  shows "ensures clocked I (Refresh i tok) (\<lambda>_. True)"
proof -
  have rest: "ensures clocked I (try_then (or_else refresh_invalid (GetUser (se_UserID sess))) (\<lambda>user.
      if us_Status user \<noteq> StatusActive then Done (Inl not_active)
      else and_then (ask ie_clock) (\<lambda>t3.
      if verificationRefused t3 user (iss_verificationGrace i) then Done (Inl verification_required)
      else try_then (stored (Store_RevokeSession (se_ID sess))) (\<lambda>_.
      try_then (issue i user (se_DeviceName sess) (se_IPAddress sess) (se_AbsoluteExpiresAt sess)) (\<lambda>resp.
      Done (Inr (resp, sess))))))) (\<lambda>_. True)" if Q: "Q sess" "0 < se_AbsoluteExpiresAt sess" for sess
  proof (rule ensures_try_any)
    show "ensures clocked I (or_else refresh_invalid (GetUser (se_UserID sess))) (\<lambda>_. True)"
      unfolding or_else_def by (rule ensures_and_then [OF lookup]) (rule ensures_Done, simp)
  qed (auto intro!: ensures_Done ensures_ask_then ensures_try_any revoked issued Q)
  have "ensures clocked I (or_else refresh_invalid (stored (GetSessionByRefreshHash (RefreshTokenHash i tok)))) (\<lambda>r. \<forall>a. r = Inr a \<longrightarrow> Q a)"
    unfolding GetSessionByRefreshHash_def
    by (intro ensures_or_else ensures_reading) (auto intro: found split: option.splits)
  then show ?thesis
    unfolding Refresh_def
    by (auto intro!: ensures_Done ensures_ask_then rest simp: clocked_def elim!: ensures_try)
qed

section \<open>The absolute bound\<close>

definition bounded :: "gotime \<Rightarrow> id_world \<Rightarrow> bool" where
  "bounded B w \<longleftrightarrow> (\<forall>s \<in> set (sessions_t (iw_db w)). se_AbsoluteExpiresAt s \<le> B)"

lemma finish_sessions:
  "sessions_t new = sessions_t old \<Longrightarrow> sessions_t (snd (finish err f n v old new)) = sessions_t old"
  using finish_state [of err f n v old new] by auto

lemma sessionless_writes:
  "sessions_t (snd (CreateUser lower u e db)) = sessions_t db"
  "sessions_t (snd (UpdatePassword k h e db)) = sessions_t db"
  "sessions_t (snd (InsertAudit a e db)) = sessions_t db"
  "sessions_t (snd (CreateVerificationToken t e db)) = sessions_t db"
  "sessions_t (snd (ConsumeVerificationToken k k' ch at e db)) = sessions_t db"
  "sessions_t (snd (AssignRole k r tn e db)) = sessions_t db"
proof -
  show "sessions_t (snd (CreateUser lower u e db)) = sessions_t db"
    by (cases "snd (CreateUser lower u e db) = db") (auto elim: CreateUser_effect)
qed (auto simp: UpdatePassword_def InsertAudit_def CreateVerificationToken_def ConsumeVerificationToken_def
    AssignRole_def finish_sessions split: option.splits)

lemma bounded_sessions:
  "bounded B w \<Longrightarrow> (\<And>s. s \<in> set ss \<Longrightarrow> \<exists>s' \<in> set (sessions_t (iw_db w)). se_AbsoluteExpiresAt s = se_AbsoluteExpiresAt s') \<Longrightarrow>
    sessions_t db = ss \<Longrightarrow> bounded B (w\<lparr>iw_db := db\<rparr>)"
  by (fastforce simp: bounded_def)

interpretation bound: sweeping "\<lambda>w w'. bounded B w \<longrightarrow> bounded B w'" lower for B lower
proof unfold_locales
  show "bounded B w \<longrightarrow> bounded B (w\<lparr>iw_db := snd (Store_RevokeSession k e (iw_db w))\<rparr>)" for w k e
    using finish_state by (auto simp: bounded_def Store_RevokeSession_def row_upd_def finish_def)
  show "bounded B w \<longrightarrow> bounded B (w\<lparr>iw_db := snd (RevokeUserSessions k e (iw_db w))\<rparr>)" for w k e
    by (auto simp: bounded_def RevokeUserSessions_def finish_def)
qed (auto simp: bounded_def sessionless_writes)

lemma CreateSession_bounded:
  "bounded B w \<Longrightarrow> se_AbsoluteExpiresAt s \<le> B \<Longrightarrow> bounded B (w\<lparr>iw_db := snd (CreateSession s e (iw_db w))\<rparr>)"
  by (auto simp: bounded_def CreateSession_def finish_def)

lemma ensures_mint:
  assumes "0 < ab" "ab \<le> B"
  shows "ensures E (bounded B) (mint i user dev ip ab tenant roles) (\<lambda>_. True)"
  unfolding mint_def
proof (rule ensures_ask_then, rule ensures_try_any, rule abides_ensures, rule bound.abides_token, rule ensures_ask_then,
    rule ensures_try_any)
  fix e tok e'
  show "ensures E (bounded B) (stored (CreateSession (new_session i (ie_uuid e) user tok dev ip (ie_clock e') ab))) (\<lambda>_. True)"
    by (rule ensures_stored) (use assms in \<open>simp add: CreateSession_bounded new_session_def time_is_zero_def\<close>)
qed (rule ensures_Done, simp)


lemma ensures_issue:
  assumes "\<And>tenant roles. ensures E I (mint i user dev ip ab tenant roles) (\<lambda>_. True)"
    and "ensures E I (claimContext i user) (\<lambda>_. True)"
  shows "ensures E I (issue i user dev ip ab) (\<lambda>_. True)"
  unfolding issue_def by (auto intro!: ensures_ask_then ensures_try_any ensures_Done assms)

lemma bound_claimContext: "ensures E (bounded B) (claimContext i user) (\<lambda>_. True)"
  unfolding claimContext_def
  by (rule abides_ensures) (auto intro!: bound.abides_rules split: sum.splits)

lemma bound_RefreshTokens: "ensures clocked (bounded B) (RefreshTokens sv tok) (\<lambda>_. True)"
  unfolding RefreshTokens_def
proof (rule ensures_try_any)
  show "ensures clocked (bounded B) (Refresh (isv_issuer sv) tok) (\<lambda>_. True)"
  proof (rule ensures_Refresh [where Q = "\<lambda>s. se_AbsoluteExpiresAt s \<le> B"])
    show "se_AbsoluteExpiresAt s \<le> B" if "bounded B w"
      "find (\<lambda>s. se_RefreshTokenHash s = RefreshTokenHash (isv_issuer sv) tok) (sessions_t (iw_db w)) = Some s" for w s
      using that by (auto simp: bounded_def find_Some_iff)
    show "ensures clocked (bounded B) (issue (isv_issuer sv) user dev ip (se_AbsoluteExpiresAt s)) (\<lambda>_. True)"
      if "se_AbsoluteExpiresAt s \<le> B" "0 < se_AbsoluteExpiresAt s" for s user dev ip
      using that by (intro ensures_issue ensures_mint bound_claimContext)
  qed (auto intro!: abides_ensures bound.abides_lookups bound.abides_revokes)
qed (auto intro!: abides_ensures bound.abides_rules bound.abides_audit)

text \<open>The calls that sign in: a registration or a login.\<close>

fun signs_in :: "id_request \<Rightarrow> bool" where
  "signs_in (PostRegister b) = True"
| "signs_in (PostLogin b) = True"
| "signs_in rq = False"

lemma bound_Routes:
  assumes "wired (ih_service c)" and "\<not> signs_in rq"
  shows "ensures clocked (bounded B) (id_Routes c k rq) (\<lambda>_. True)"
proof (cases rq)
  case (PostRefresh b)
  then show ?thesis unfolding id_Routes_def handleRefresh_def
    by (auto intro!: ensures_http bound_RefreshTokens)
qed (use assms in \<open>auto simp: id_Routes_def intro!: abides_ensures bound.abides_gates bound.abides_sessionless_routes
    bound.abides_sweeping_routes\<close>)


section \<open>Among strangers\<close>

text \<open>
  A session with its identifier, account and token hash, live; and a call by a stranger to it: one that
  does not bring its refresh token, and where it acts on sessions or the password of its caller, is not
  made by the account.
\<close>

definition live_session :: "(string \<Rightarrow> string) \<Rightarrow> uuid \<Rightarrow> uuid \<Rightarrow> string \<Rightarrow> id_world \<Rightarrow> bool" where
  "live_session lower k v h w \<longleftrightarrow> id_ok lower (iw_db w) \<and>
     (\<exists>s \<in> set (sessions_t (iw_db w)). se_ID s = k \<and> se_UserID s = v \<and> se_RefreshTokenHash s = h \<and> se_RevokedAt s = None)"

definition not_caller :: "id_http \<Rightarrow> uuid \<Rightarrow> id_call \<Rightarrow> bool" where
  "not_caller c v k \<longleftrightarrow> (case ic_claims k of None \<Rightarrow> True | Some claims \<Rightarrow> subject_of c claims \<noteq> Inr v)"

definition other_token :: "id_http \<Rightarrow> string \<Rightarrow> string \<Rightarrow> bool" where
  "other_token c h tok \<longleftrightarrow> RefreshTokenHash (isv_issuer (ih_service c)) tok \<noteq> h"

fun stranger :: "id_http \<Rightarrow> uuid \<Rightarrow> string \<Rightarrow> id_call \<Rightarrow> id_request \<Rightarrow> bool" where
  "stranger c v h k (PostRefresh b) = (case DecodeJSON b of Inl _ \<Rightarrow> True | Inr q \<Rightarrow> other_token c h (qf_RefreshToken q))"
| "stranger c v h k (PostLogout b) = (case DecodeJSON b of Inl _ \<Rightarrow> True | Inr q \<Rightarrow> other_token c h (qo_RefreshToken q))"
| "stranger c v h k (PostPassword b) = not_caller c v k"
| "stranger c v h k (DeleteSession raw) = not_caller c v k"
| "stranger c v h k DeleteSessions = not_caller c v k"
| "stranger c v h k rq = True"

lemma live_row_get:
  assumes "live_session lower k v h w"
  obtains s where "row_get se_ID k (sessions_t (iw_db w)) = Some s" "se_UserID s = v" "se_RefreshTokenHash s = h"
    "se_RevokedAt s = None" "id_ok lower (iw_db w)"
proof -
  from assms obtain s where s: "id_ok lower (iw_db w)" "s \<in> set (sessions_t (iw_db w))" "se_ID s = k" "se_UserID s = v"
    "se_RefreshTokenHash s = h" "se_RevokedAt s = None" by (auto simp: live_session_def)
  from row_get_own [of se_ID "sessions_t (iw_db w)" s] s(1-3)
  have "row_get se_ID k (sessions_t (iw_db w)) = Some s" by (auto simp: id_ok_def sessions_ok_def)
  with s that show thesis by blast
qed

lemma live_later:
  assumes "live_session lower k v h w" and "id_ok lower (iw_db w')"
    and "set (sessions_t (iw_db w')) \<supseteq> {s \<in> set (sessions_t (iw_db w)). se_ID s = k}"
  shows "live_session lower k v h w'"
  using assms unfolding live_session_def by blast

lemma live_write:
  assumes "live_session lower k v h w" and "\<And>db. id_ok lower db \<Longrightarrow> id_ok lower (snd (f e db))"
    and "\<And>db s. s \<in> set (sessions_t db) \<Longrightarrow> se_ID s = k \<Longrightarrow> s \<in> set (sessions_t (snd (f e db)))"
  shows "live_session lower k v h (w\<lparr>iw_db := snd (f e (iw_db w))\<rparr>)"
  using assms unfolding live_session_def by auto

lemma CreateSession_keeps: "s \<in> set (sessions_t db) \<Longrightarrow> s \<in> set (sessions_t (snd (CreateSession n e db)))"
  by (auto simp: CreateSession_def finish_def)

lemma Store_RevokeSession_keeps:
  assumes "s \<in> set (sessions_t db)" and "se_ID s \<noteq> k'"
  shows "s \<in> set (sessions_t (snd (Store_RevokeSession k' e db)))"
proof -
  have "s \<in> set (row_upd se_ID k' (revoke (ie_now e)) (sessions_t db))"
    using assms unfolding row_upd_def by (auto intro!: image_eqI [of _ _ s])
  with assms(1) show ?thesis by (auto simp: Store_RevokeSession_def finish_def)
qed

interpretation live: minting "\<lambda>w w'. live_session lower k v h w \<longrightarrow> live_session lower k v h w'" lower for lower k v h
proof unfold_locales
  show "live_session lower k v h w \<longrightarrow> live_session lower k v h (w\<lparr>iw_events := iw_events w @ [ev]\<rparr>)" for w ev
    by (simp add: live_session_def)
qed (auto intro: live_write simp: CreateUser_ok UpdatePassword_ok CreateSession_ok InsertAudit_ok CreateVerificationToken_ok
    ConsumeVerificationToken_ok AssignRole_ok sessionless_writes CreateSession_keeps)

lemma live_revoke:
  assumes "k' \<noteq> k"
  shows "ensures E (live_session lower k v h) (stored (Store_RevokeSession k')) (\<lambda>_. True)"
proof (rule ensures_stored, rule conjI)
  fix e w assume "live_session lower k v h w"
  then show "live_session lower k v h (w\<lparr>iw_db := snd (Store_RevokeSession k' e (iw_db w))\<rparr>)"
    using assms by (intro live_write Store_RevokeSession_ok Store_RevokeSession_keeps) auto
qed simp

lemma live_revoke_user:
  assumes "u \<noteq> v"
  shows "ensures E (live_session lower k v h) (stored (RevokeUserSessions u)) (\<lambda>_. True)"
proof (rule ensures_stored, rule conjI)
  fix e w assume live: "live_session lower k v h w"
  then obtain s where s: "s \<in> set (sessions_t (iw_db w))" "se_ID s = k" "se_UserID s = v" "se_RefreshTokenHash s = h"
    "se_RevokedAt s = None" by (auto simp: live_session_def)
  have "s \<in> set (sessions_t (snd (RevokeUserSessions u e (iw_db w))))"
    using s(1,3) assms by (auto simp: RevokeUserSessions_def finish_def live_of_def intro!: image_eqI [of _ _ s])
  with live s RevokeUserSessions_ok [of lower "iw_db w" u e]
  show "live_session lower k v h (w\<lparr>iw_db := snd (RevokeUserSessions u e (iw_db w))\<rparr>)"
    unfolding live_session_def by auto
qed simp

lemma live_found_hash:
  assumes "live_session lower k v h w" and "h' \<noteq> h"
    and "find (\<lambda>s. se_RefreshTokenHash s = h') (sessions_t (iw_db w)) = Some s"
  shows "se_ID s \<noteq> k"
proof
  assume "se_ID s = k"
  from assms(1) obtain r where r: "row_get se_ID k (sessions_t (iw_db w)) = Some r" "se_RefreshTokenHash r = h"
    and ok: "id_ok lower (iw_db w)" by (rule live_row_get)
  have s: "s \<in> set (sessions_t (iw_db w))" "se_RefreshTokenHash s = h'" using assms(3) by (auto simp: find_Some_iff)
  from ok s(1) have "row_get se_ID (se_ID s) (sessions_t (iw_db w)) = Some s"
    by (auto simp: id_ok_def sessions_ok_def intro: row_get_own)
  with r \<open>se_ID s = k\<close> s(2) assms(2) show False by simp
qed

lemma live_read_hash:
  assumes "h' \<noteq> h"
  shows "ensures E (live_session lower k v h) (stored (GetSessionByRefreshHash h')) (\<lambda>r. \<forall>s. r = Inr s \<longrightarrow> se_ID s \<noteq> k)"
  unfolding GetSessionByRefreshHash_def
  by (rule ensures_reading) (auto dest: live_found_hash [OF _ assms] split: option.splits)

lemma live_RefreshTokens:
  assumes "RefreshTokenHash (isv_issuer sv) tok \<noteq> h"
  shows "ensures clocked (live_session lower k v h) (RefreshTokens sv tok) (\<lambda>_. True)"
  unfolding RefreshTokens_def
proof (rule ensures_try_any)
  show "ensures clocked (live_session lower k v h) (Refresh (isv_issuer sv) tok) (\<lambda>_. True)"
    by (rule ensures_Refresh [where Q = "\<lambda>s. se_ID s \<noteq> k"])
      (auto dest: live_found_hash [OF _ assms] intro!: live_revoke abides_ensures [OF live.abides_lookups(1)] abides_ensures [OF live.abides_issue(1)])
qed (auto intro!: abides_ensures live.abides_rules live.abides_audit)

lemma live_logout:
  assumes "RefreshTokenHash (isv_issuer sv) tok \<noteq> h"
  shows "ensures E (live_session lower k v h) (LogoutByRefreshToken sv tok a) (\<lambda>_. True)"
  unfolding LogoutByRefreshToken_def
  by (auto intro!: ensures_Done ensures_try [OF ensures_or_else [OF live_read_hash [OF assms]]] ensures_try_any live_revoke
      abides_ensures [OF live.abides_audit(1)])

lemma live_RevokeSession:
  assumes "u \<noteq> v"
  shows "ensures E (live_session lower k v h) (RevokeSession sv u sid a) (\<lambda>_. True)"
proof -
  have "ensures E (live_session lower k v h) (or_else (not_found ''session not found'') (stored (GetSessionByID sid)))
      (\<lambda>r. \<forall>s. r = Inr s \<longrightarrow> (se_UserID s = u \<longrightarrow> sid \<noteq> k))"
    unfolding GetSessionByID_def
    using assms by (intro ensures_or_else ensures_reading) (auto elim!: live_row_get split: option.splits)
  then show ?thesis
    unfolding RevokeSession_def
  proof (rule ensures_try)
    fix sess :: Session
    assume own: "se_UserID sess = u \<longrightarrow> sid \<noteq> k"
    have "ensures E (live_session lower k v h) (or_else x (stored (Store_RevokeSession sid))) (\<lambda>_. True)"
      if "se_UserID sess = u" for x
      unfolding or_else_def
      by (rule ensures_and_then [OF live_revoke]) (use own that in \<open>auto intro!: ensures_Done\<close>)
    then show "ensures E (live_session lower k v h)
        (if se_UserID sess \<noteq> u then Done (Inl (not_found ''session not found''))
         else try_then (or_else (not_found ''session not found'') (stored (Store_RevokeSession sid))) (\<lambda>_.
           audit a ActionSessionRevoked ''session'' (uuid_text sv sid) [(''via'', MText ''sessions_api''),
             (''owner_id'', MText (uuid_text sv u)), (''device_name'', MText (isv_redact sv (se_DeviceName sess)))])) (\<lambda>_. True)"
      by (auto intro!: ensures_Done ensures_try_any abides_ensures [OF live.abides_audit(1)])
  qed
qed

lemma live_RevokeAllSessions:
  assumes "u \<noteq> v"
  shows "ensures E (live_session lower k v h) (RevokeAllSessions sv u a) (\<lambda>_. True)"
  unfolding RevokeAllSessions_def
  by (auto intro!: ensures_try_any live_revoke_user assms ensures_Done abides_ensures [OF live.abides_audit(1)])

lemma GetUser_same: "ensures E I (GetUser u) (\<lambda>r. \<forall>user. r = Inr user \<longrightarrow> us_ID user = u)"
  unfolding GetUser_def
proof (rule ensures_try_then)
  show "ensures E I (stored (select_user u)) (\<lambda>r. \<forall>a. r = Inr a \<longrightarrow> us_ID a = u)"
    unfolding select_user_def
    by (rule ensures_reading) (auto simp: scanUser_def row_get_def find_Some_iff split: option.splits)
  show "ensures E I (with_roles a) (\<lambda>r. \<forall>user. r = Inr user \<longrightarrow> us_ID user = u)" if "us_ID a = u" for a
    unfolding with_roles_def GetRoleGrants_def
    by (rule ensures_try_then, rule ensures_reading [where Q = "\<lambda>_. True"]) (auto intro!: ensures_Done simp: that)
qed simp

lemma live_ChangePassword:
  assumes "u \<noteq> v" and "wired sv"
  shows "ensures E (live_session lower k v h) (ChangePassword sv u pw pw') (\<lambda>_. True)"
  unfolding ChangePassword_def
proof (rule ensures_try [OF ensures_or_else [OF GetUser_same]])
  fix user :: User assume "us_ID user = u"
  then have "ensures E (live_session lower k v h) (stored (RevokeUserSessions (us_ID user))) (\<lambda>_. True)"
    using assms(1) by (simp add: live_revoke_user)
  moreover have "ensures E (live_session lower k v h) (stored (UpdatePassword (us_ID user) x)) (\<lambda>_. True)" for x
    by (rule abides_ensures) (rule live.abides_writes)
  ultimately show "ensures E (live_session lower k v h)
      (case VerifyPassword (isv_argon sv) pw (us_PasswordHash user) of
        None \<Rightarrow> Done (Inl IdFailed)
      | Some ok \<Rightarrow>
          if \<not> ok then Done (Inl (IdApp (ErrUnauthorized ''current password is incorrect'')))
          else try_then (checkPasswordBreach sv pw') (\<lambda>note.
            try_then (breach_note sv (us_ID user) note) (\<lambda>_.
            try_then (HashPassword (isv_argon sv) pw') (\<lambda>hash.
            try_then (stored (UpdatePassword (us_ID user) hash)) (\<lambda>_.
            try_then (stored (RevokeUserSessions (us_ID user))) (\<lambda>revoked.
            audit (us_ID user) ActionPasswordChanged ''user'' (uuid_text sv (us_ID user))
              [(''sessions_revoked'', MInt revoked)])))))) (\<lambda>_. True)"
    by (auto intro!: ensures_Done ensures_try_any abides_ensures [OF live.abides_audit(1)]
        abides_ensures [OF live.abides_HashPassword] abides_ensures [OF live.abides_breach(1) [OF assms(2)]]
        abides_ensures [OF live.abides_breach(2) [OF assms(2)]] split: option.splits)
qed

lemma live_Routes:
  assumes "wired (ih_service c)" and "isv_lower (ih_service c) = lower" and str: "stranger c v h k rq"
  shows "ensures clocked (live_session lower sid v h) (id_Routes c k rq) (\<lambda>_. True)"
proof (cases rq)
  case (PostRefresh b)
  with str show ?thesis unfolding id_Routes_def handleRefresh_def
    by (auto intro!: ensures_http live_RefreshTokens simp: other_token_def)
next
  case (PostLogout b)
  with str show ?thesis unfolding id_Routes_def handleLogout_def Let_def
    by (auto intro!: ensures_http live_logout simp: other_token_def)
next
  case (PostPassword b)
  with str assms(1) show ?thesis unfolding id_Routes_def handleChangePassword_def
    by (auto intro!: ensures_http live_ChangePassword simp: not_caller_def)
next
  case (DeleteSession raw)
  with str show ?thesis unfolding id_Routes_def handleRevokeSession_def
    by (auto intro!: ensures_http live_RevokeSession simp: not_caller_def split: option.splits)
next
  case DeleteSessions
  with str show ?thesis unfolding id_Routes_def handleRevokeAllSessions_def
    by (auto intro!: ensures_http live_RevokeAllSessions simp: not_caller_def)
qed (use assms(1,2) in \<open>auto simp: id_Routes_def intro!: abides_ensures live.abides_gates live.abides_sessionless_routes
    live.abides_minting_routes\<close>)

end
