(* ===== verification/Id_Verify.thy ===== *)
theory Id_Verify
  imports Id_Ledger
begin

text \<open>
  A verification token works once, also for calls that overlap: its consumption is one conditional
  statement.
\<close>

section \<open>What one action does\<close>

lemma untried_stored_then:
  assumes "\<And>e w r db. E e \<Longrightarrow> S v w \<Longrightarrow> I w \<Longrightarrow> f e (iw_db w) = (r, db) \<Longrightarrow>
    untried E S I c win w (k r) \<or> (\<not> c w \<and> c (w\<lparr>iw_db := db\<rparr>))"
  shows "untried E S I c win v (and_then (stored f) k)"
  unfolding stored_def
proof (rule untried_effect_then)
  fix e w assume "E e" "S v w" "I w"
  then show "untried E S I c win w (k (fst (case f e (iw_db w) of (r, db) \<Rightarrow> (r, w\<lparr>iw_db := db\<rparr>)))) \<or>
      (\<not> c w \<and> c (snd (case f e (iw_db w) of (r, db) \<Rightarrow> (r, w\<lparr>iw_db := db\<rparr>))))"
    using assms [of e w "fst (f e (iw_db w))" "snd (f e (iw_db w))"] by (simp add: split_beta)
qed

definition token_used :: "string \<Rightarrow> id_world \<Rightarrow> bool" where
  "token_used h w \<longleftrightarrow> (\<exists>t \<in> set (vtokens_t (iw_db w)). vt_TokenHash t = h \<and> vt_ConsumedAt t \<noteq> None)"

definition tables_ok :: "(string \<Rightarrow> string) \<Rightarrow> id_world \<Rightarrow> bool" where
  "tables_ok lower w \<longleftrightarrow> id_ok lower (iw_db w)"

lemma token_get:
  assumes "tables_ok lower w" and "t \<in> set (vtokens_t (iw_db w))"
  shows "row_get vt_ID (vt_ID t) (vtokens_t (iw_db w)) = Some t"
  using assms by (intro row_get_own) (auto simp: tables_ok_def id_ok_def vtokens_ok_def)

lemma token_later:
  assumes "id_evolves lower v w" and "row_get vt_ID k (vtokens_t (iw_db v)) = Some t"
  obtains t' where "row_get vt_ID k (vtokens_t (iw_db w)) = Some t'" "vt_TokenHash t' = vt_TokenHash t"
    "vt_UserID t' = vt_UserID t" "vt_Channel t' = vt_Channel t" "vt_ConsumedAt t \<noteq> None \<longrightarrow> vt_ConsumedAt t' \<noteq> None"
proof -
  from assms obtain t' where t': "row_get vt_ID k (vtokens_t (iw_db w)) = Some t'" "token_ev t t'"
    using vtokens_h.te_get unfolding id_evolves_def id_history_def by meson
  then have eq: "t' = t\<lparr>vt_ConsumedAt := vt_ConsumedAt t'\<rparr>" and c: "vt_ConsumedAt t = None \<or> vt_ConsumedAt t' = vt_ConsumedAt t"
    by (simp_all add: token_ev_def)
  have "vt_TokenHash t' = vt_TokenHash t" "vt_UserID t' = vt_UserID t" "vt_Channel t' = vt_Channel t"
    by (subst eq, simp)+
  with t'(1) c that show thesis by auto
qed

lemma used_later:
  assumes "id_evolves lower v w" and "tables_ok lower v" and "token_used h v"
  shows "token_used h w"
proof -
  from assms(3) obtain t where t: "t \<in> set (vtokens_t (iw_db v))" "vt_TokenHash t = h" "vt_ConsumedAt t \<noteq> None"
    by (auto simp: token_used_def)
  from assms(1) token_get [OF assms(2) t(1)] obtain t' where
    "row_get vt_ID (vt_ID t) (vtokens_t (iw_db w)) = Some t'" "vt_TokenHash t' = vt_TokenHash t"
    "vt_ConsumedAt t \<noteq> None \<longrightarrow> vt_ConsumedAt t' \<noteq> None" by (rule token_later)
  then show ?thesis unfolding token_used_def using t(2,3) row_get_mem by metis
qed

lemma same_token:
  assumes "tables_ok lower w" and "t \<in> set (vtokens_t (iw_db w))" "t' \<in> set (vtokens_t (iw_db w))"
    and "vt_TokenHash t = vt_TokenHash t'"
  shows "t = t'"
proof -
  have "index_ok vt_ID clash_token (vtokens_t (iw_db w))" using assms(1) by (simp add: tables_ok_def id_ok_def vtokens_ok_def)
  then have "vt_ID t = vt_ID t'" using assms(2-4) unfolding index_ok_def clash_token_def by blast
  then show ?thesis using token_get [OF assms(1,2)] token_get [OF assms(1,3)] by (metis option.inject)
qed

text \<open>A consumption that succeeds found the token of that identifier unused, and leaves it used.\<close>

lemma consumption_takes:
  assumes "ConsumeVerificationToken (vt_ID t) u ch at e (iw_db w) = (Inr x, db)"
    and "tables_ok lower w" and "row_get vt_ID (vt_ID t) (vtokens_t (iw_db w)) = Some t'" and "vt_TokenHash t' = h"
  shows "\<not> token_used h w \<and> token_used h (w\<lparr>iw_db := db\<rparr>)"
proof -
  obtain t2 where t2: "find (\<lambda>r. vt_ID r = vt_ID t \<and> vt_ConsumedAt r = None) (vtokens_t (iw_db w)) = Some t2"
    and db: "vtokens_t db = map (consume (vt_ID t) at) (vtokens_t (iw_db w))"
    using assms(1) by (auto simp: ConsumeVerificationToken_def dest!: finish_Inr split: if_splits option.splits)
  from t2 have mem: "t2 \<in> set (vtokens_t (iw_db w))" "vt_ID t2 = vt_ID t" "vt_ConsumedAt t2 = None"
    by (auto simp: find_Some_iff)
  with token_get [OF assms(2) mem(1)] assms(3) have "t2 = t'" by simp
  then have h: "vt_TokenHash t2 = h" using assms(4) by simp
  have "\<not> token_used h w"
    unfolding token_used_def using same_token [OF assms(2) mem(1)] h mem(3) by metis
  moreover have "consume (vt_ID t) at t2 \<in> set (vtokens_t db)" using db mem(1) by simp
  then have "token_used h (w\<lparr>iw_db := db\<rparr>)"
    unfolding token_used_def using h mem(2,3) by (intro bexI [of _ "consume (vt_ID t) at t2"]) (simp_all add: consume_def)
  ultimately show ?thesis by blast
qed

lemma untried_Verify:
  "untried E (id_evolves lower) (tables_ok lower) (token_used (TokenHash (isv_issuer sv) (trim_space raw)))
     (\<lambda>r. \<exists>ch. r = Inr ch) v (Verify sv raw)"
    (is "untried E ?S ?I ?c ?win v _")
proof -
  let ?h = "TokenHash (isv_issuer sv) (trim_space raw)"
  define after where "after token r = (case (case r of
      Inl err \<Rightarrow> Inl (if err = ErrVerificationTokenConsumed then errInvalidVerificationToken else err)
    | Inr (x :: unit) \<Rightarrow> Inr x) of Inl x \<Rightarrow> Done (Inl x) | Inr _ \<Rightarrow>
      try_then (audit (vt_UserID token) ActionVerificationVerified ''user'' (uuid_text sv (vt_UserID token))
        [(''channel'', MText (vt_Channel token))]) (\<lambda>_. Done (Inr (vt_Channel token)) :: VerificationChannel id_prog))"
    for token :: VerificationToken and r
  have lost: "untried E ?S ?I ?c ?win w (after token (Inl err))" for w token err
    by (auto simp: after_def intro: untried_Done)
  have take: "untried E ?S ?I ?c ?win w
      (and_then (stored (ConsumeVerificationToken (vt_ID t) (vt_UserID t) (vt_Channel t) now)) (after t))"
    if t: "row_get vt_ID (vt_ID t) (vtokens_t (iw_db u)) = Some t" "vt_TokenHash t = ?h" and uw: "?S u w" for u w t now
  proof (rule untried_stored_then)
    fix e w1 r db
    assume s: "?S w w1" "?I w1" "ConsumeVerificationToken (vt_ID t) (vt_UserID t) (vt_Channel t) now e (iw_db w1) = (r, db)"
    have "?S u w1" using uw s(1) by (rule evo.composes)
    then obtain t' where t': "row_get vt_ID (vt_ID t) (vtokens_t (iw_db w1)) = Some t'" "vt_TokenHash t' = vt_TokenHash t"
      using t(1) by (rule token_later)
    show "untried E ?S ?I ?c ?win w1 (after t r) \<or> (\<not> ?c w1 \<and> ?c (w1\<lparr>iw_db := db\<rparr>))"
    proof (cases r)
      case (Inr x)
      with consumption_takes [OF _ s(2) t'(1)] s(3) t'(2) t(2) show ?thesis by simp
    qed (simp add: lost)
  qed
  show ?thesis
  proof (cases "trim_space raw = []")
    case False
    have found: "untried E ?S ?I ?c ?win w (and_then (ask ie_clock) (\<lambda>now.
        if vt_ConsumedAt t \<noteq> None \<or> \<not> now < vt_ExpiresAt t then Done (Inl errInvalidVerificationToken)
        else and_then (stored (ConsumeVerificationToken (vt_ID t) (vt_UserID t) (vt_Channel t) now)) (after t)))"
      if t: "row_get vt_ID (vt_ID t) (vtokens_t (iw_db w)) = Some t" "vt_TokenHash t = ?h" for w t
      by (rule untried_ask_then) (auto intro: untried_Done take [OF t])
    define fetched where "fetched r = (case (case r of
        Inl x \<Rightarrow> Inl (if isNotFound x then errInvalidVerificationToken else x) | Inr (t :: VerificationToken) \<Rightarrow> Inr t) of
          Inl x \<Rightarrow> Done (Inl x)
        | Inr t \<Rightarrow> and_then (ask ie_clock) (\<lambda>now.
            if vt_ConsumedAt t \<noteq> None \<or> \<not> now < vt_ExpiresAt t then Done (Inl errInvalidVerificationToken)
            else and_then (stored (ConsumeVerificationToken (vt_ID t) (vt_UserID t) (vt_Channel t) now)) (after t)))" for r
    have "Verify sv raw = and_then (stored (GetVerificationTokenByHash ?h)) fetched"
      using False unfolding Verify_def Let_def try_then_def or_else_def after_def fetched_def
      by (simp only: False if_False and_then_assoc and_then.simps(1))
    moreover have "untried E ?S ?I ?c ?win v (and_then (stored (GetVerificationTokenByHash ?h)) fetched)"
    proof (rule untried_stored_then, rule disjI1)
      fix e w r db
      assume w: "?I w" "GetVerificationTokenByHash ?h e (iw_db w) = (r, db)"
      show "untried E ?S ?I ?c ?win w (fetched r)"
      proof (cases r)
        case (Inr t)
        with w(2) have "find (\<lambda>t. vt_TokenHash t = ?h) (vtokens_t (iw_db w)) = Some t"
          by (auto simp: GetVerificationTokenByHash_def reading_def split: if_splits option.splits)
        then have "t \<in> set (vtokens_t (iw_db w))" "vt_TokenHash t = ?h" by (auto simp: find_Some_iff)
        with token_get [OF w(1)] found Inr show ?thesis by (simp add: fetched_def)
      qed (auto simp: fetched_def intro: untried_Done)
    qed
    ultimately show ?thesis by simp
  qed (auto simp: Verify_def intro: untried_Done)
qed

end
