(* ===== verification/Id_Accounts.thy ===== *)
theory Id_Accounts
  imports Id_Sessions
begin

text \<open>Login and password change: what a call that succeeds was given and leaves, and how login refuses.\<close>

section \<open>Login\<close>

lemma exec_GetUserByEmail_InrE:
  assumes "exec E R (GetUserByEmail lower em) w (Inr user) w'"
  obtains v r where "R\<^sup>*\<^sup>* w v" "R\<^sup>*\<^sup>* v w'" "find (\<lambda>r. ur_email r = lower (trim_space em)) (users_t (iw_db v)) = Some r"
    "user\<lparr>us_Roles := []\<rparr> = scanUser r"
proof -
  from assms obtain x v1 where x: "exec E R (stored (select_user_by_email lower em)) w (Inr x) v1"
    "exec E R (with_roles x) v1 (Inr user) w'"
    unfolding GetUserByEmail_def by (rule exec_try_then_InrE)
  from x(1) obtain v r where v: "R\<^sup>*\<^sup>* w v" "find (\<lambda>r. ur_email r = lower (trim_space em)) (users_t (iw_db v)) = Some r"
      "x = scanUser r" "R\<^sup>*\<^sup>* v v1"
    unfolding select_user_by_email_def by (elim exec_reading_InrE) (auto split: option.splits)
  from x(2) have "user\<lparr>us_Roles := []\<rparr> = x\<lparr>us_Roles := []\<rparr>" "R\<^sup>*\<^sup>* v1 w'" by (rule exec_with_roles_InrE)+
  moreover have "x\<lparr>us_Roles := []\<rparr> = scanUser r" using v(3) by (simp add: scanUser_def)
  ultimately show thesis using v rtranclp_trans [of R v v1 w'] by (intro that) simp_all
qed

lemma exec_Login_InrE:
  assumes "exec E R (Login sv em pw dev ip) w (Inr resp) w'"
  obtains v r user z w1 where "R\<^sup>*\<^sup>* w v" "find (\<lambda>r. ur_email r = isv_lower sv (trim_space (trim_space em))) (users_t (iw_db v)) = Some r"
    "VerifyPassword (isv_argon sv) pw (ur_password_hash r) = Some True" "ur_status r = StatusActive"
    "us_ID user = ur_id r" "R\<^sup>*\<^sup>* v z" "exec E R (issue (isv_issuer sv) user dev ip 0) z (Inr resp) w1"
    "exec E R (audit (us_ID user) ActionUserLogin ''user'' (uuid_text sv (us_ID user)) (device_meta sv dev ip)) w1 (Inr ()) w'"
proof -
  from assms obtain user z where a: "exec E R (or_else invalidLogin (GetUserByEmail (isv_lower sv) (trim_space em))) w (Inr user) z"
    and b: "exec E R (case VerifyPassword (isv_argon sv) pw (us_PasswordHash user) of
       None \<Rightarrow> Done (Inl IdFailed)
     | Some ok \<Rightarrow>
         if \<not> ok then Done (Inl invalidLogin)
         else if us_Status user \<noteq> StatusActive then Done (Inl not_active)
         else try_then (Issue (isv_issuer sv) user dev ip) (\<lambda>resp.
         try_then (audit (us_ID user) ActionUserLogin ''user'' (uuid_text sv (us_ID user)) (device_meta sv dev ip)) (\<lambda>_.
         Done (Inr resp)))) z (Inr resp) w'"
    unfolding Login_def by (rule exec_try_then_InrE)
  from a obtain z0 where z0: "exec E R (GetUserByEmail (isv_lower sv) (trim_space em)) w (Inr user) z0" "R\<^sup>*\<^sup>* z0 z"
    by (rule exec_or_else_InrE)
  from z0(1) obtain v r where v: "R\<^sup>*\<^sup>* w v" "R\<^sup>*\<^sup>* v z0"
    "find (\<lambda>r. ur_email r = isv_lower sv (trim_space (trim_space em))) (users_t (iw_db v)) = Some r"
    "user\<lparr>us_Roles := []\<rparr> = scanUser r" by (rule exec_GetUserByEmail_InrE)
  have same: "us_ID user = ur_id r" "us_PasswordHash user = ur_password_hash r" "us_Status user = ur_status r"
    using arg_cong [where f = us_ID, OF v(4)] arg_cong [where f = us_PasswordHash, OF v(4)]
      arg_cong [where f = us_Status, OF v(4)] by (simp_all add: scanUser_def)
  from b have ok: "VerifyPassword (isv_argon sv) pw (us_PasswordHash user) = Some True" "us_Status user = StatusActive"
    by (auto split: option.splits if_splits dest: exec_DoneD)
  with b obtain rp w1 x w2 where c: "exec E R (Issue (isv_issuer sv) user dev ip) z (Inr rp) w1"
    "exec E R (audit (us_ID user) ActionUserLogin ''user'' (uuid_text sv (us_ID user)) (device_meta sv dev ip)) w1 (Inr x) w2"
    "exec E R (Done (Inr rp) :: AccessResponse id_prog) w2 (Inr resp) w'"
    by (auto elim!: exec_try_then_InrE)
  then have "resp = rp" "R\<^sup>*\<^sup>* w2 w'" by (auto dest: exec_DoneD)
  with c same ok v z0(2) show thesis
    using that [of v r user z w1] rtranclp_trans [OF v(2) z0(2)] exec_after [OF c(2)] by (simp add: Issue_def)
qed

text \<open>A session that \<open>issue\<close> opened.\<close>

lemma issue_opens:
  assumes ex: "exec E (id_move c) (issue i user dev ip ab) w (Inr resp) w'" and wired: "wired (ih_service c)"
  obtains k s where "row_get se_ID k (sessions_t (iw_db w')) = Some s" "se_UserID s = us_ID user"
    "se_RefreshTokenHash s = RefreshTokenHash i (ar_RefreshToken resp)"
proof -
  from ex obtain y g sid e2 db2 and e1 :: id_env where y: "(id_move c)\<^sup>*\<^sup>* w g" "(id_move c)\<^sup>*\<^sup>* g y"
    "CreateSession (new_session i sid user (ar_RefreshToken resp) dev ip (ie_clock e1) ab) e2 (iw_db y) = (Inr (), db2)"
    "(id_move c)\<^sup>*\<^sup>* (y\<lparr>iw_db := db2\<rparr>) w'" by (rule exec_issue_InrE) (rule that)
  let ?row = "(new_session i sid user (ar_RefreshToken resp) dev ip (ie_clock e1) ab)\<lparr>se_CreatedAt := ie_now e2, se_RevokedAt := None\<rparr>"
  note made = CreateSession_Inr [OF y(3)]
  have "row_get se_ID (se_ID ?row) (sessions_t (iw_db (y\<lparr>iw_db := db2\<rparr>))) = Some ?row"
    using made by (simp add: row_get_ins row_get_fresh)
  with id_moves_evolve [OF y(4) wired] obtain s where
    s: "row_get se_ID (se_ID ?row) (sessions_t (iw_db w')) = Some s" "session_ev ?row s" by (rule session_later)
  show thesis using that [OF s(1)] session_ev_same(2,3) [OF s(2)] by (simp add: new_session_def)
qed

text \<open>How login refuses, when nothing fails: the same way for an unknown address as for a wrong password.\<close>

lemma run_reading_healthy:
  "ie_flt (es 0) = Healthy \<Longrightarrow> run (stored (reading f)) es w = (f (iw_db w), \<lambda>n. es (Suc n), w)"
  by (simp add: stored_def reading_def)

lemma run_login_refused:
  assumes "\<forall>n. ie_flt (es n) = Healthy"
    and "\<forall>r \<in> set (users_t (iw_db w)). ur_email r = isv_lower sv (trim_space (trim_space em)) \<longrightarrow>
      VerifyPassword (isv_argon sv) pw (ur_password_hash r) = Some False"
  obtains es' where "run (Login sv em pw dev ip) es w = (Inl invalidLogin, es', w)"
proof (cases "find (\<lambda>r. ur_email r = isv_lower sv (trim_space (trim_space em))) (users_t (iw_db w))")
  case None
  then show thesis
    using that [of "\<lambda>n. es (Suc n)"] assms(1)
    by (simp add: Login_def or_else_def GetUserByEmail_def run_simps select_user_by_email_def run_reading_healthy isNotFound_def)
next
  case (Some r)
  with assms(2) have "VerifyPassword (isv_argon sv) pw (ur_password_hash r) = Some False" by (auto simp: find_Some_iff)
  with Some show thesis
    using that [of "\<lambda>n. es (Suc (Suc n))"] assms(1)
    by (simp add: Login_def or_else_def GetUserByEmail_def with_roles_def run_simps select_user_by_email_def GetRoleGrants_def
        run_reading_healthy scanUser_def)
qed

section \<open>Password change\<close>

lemma revoked_all:
  assumes "RevokeUserSessions u e db = (Inr n, db')" and "row_get se_ID k (sessions_t db) = Some s" "se_UserID s = u"
  obtains s' where "row_get se_ID k (sessions_t db') = Some s'" "se_RevokedAt s' \<noteq> None"
proof -
  let ?f = "\<lambda>s. if live_of u s then revoke (ie_now e) s else s"
  have "sessions_t db' = map ?f (sessions_t db)" using assms(1) by (auto simp: RevokeUserSessions_def dest!: finish_Inr)
  moreover have "row_get se_ID k (map ?f rows) = Some (?f s)" if "row_get se_ID k rows = Some s" for rows
    using that by (induction rows) (auto simp: row_get_def split: if_splits)
  ultimately have "row_get se_ID k (sessions_t db') = Some (?f s)" using assms(2) by simp
  then show thesis using that [of "?f s"] assms(3) by (auto simp: live_of_def)
qed

lemma change_password_revokes:
  assumes ex: "exec E (id_move c) (ChangePassword (ih_service c) u pw pw') w (Inr ()) w'" and wired: "wired (ih_service c)"
    and s: "row_get se_ID k (sessions_t (iw_db w)) = Some s" "se_UserID s = u"
  obtains s' where "row_get se_ID k (sessions_t (iw_db w')) = Some s'" "se_RevokedAt s' \<noteq> None"
proof -
  let ?sv = "ih_service c" and ?ev = "id_evolves (isv_lower (ih_service c))"
  note within = evo.exec_within [OF _ _ id_move_evolves [OF _ wired]]
  from ex obtain user v0 where a: "exec E (id_move c) (or_else (not_found ''user not found'') (GetUser u)) w (Inr user) v0"
    and b: "exec E (id_move c) (case VerifyPassword (isv_argon ?sv) pw (us_PasswordHash user) of
       None \<Rightarrow> Done (Inl IdFailed)
     | Some ok \<Rightarrow>
         if \<not> ok then Done (Inl (IdApp (ErrUnauthorized ''current password is incorrect'')))
         else try_then (checkPasswordBreach ?sv pw') (\<lambda>note.
         try_then (breach_note ?sv (us_ID user) note) (\<lambda>_.
         try_then (HashPassword (isv_argon ?sv) pw') (\<lambda>hash.
         try_then (stored (UpdatePassword (us_ID user) hash)) (\<lambda>_.
         try_then (stored (RevokeUserSessions (us_ID user))) (\<lambda>revoked.
         audit (us_ID user) ActionPasswordChanged ''user'' (uuid_text ?sv (us_ID user))
           [(''sessions_revoked'', MInt revoked)])))))) v0 (Inr ()) w'"
    unfolding ChangePassword_def by (rule exec_try_then_InrE)
  from a obtain v00 where "exec E (id_move c) (GetUser u) w (Inr user) v00" by (rule exec_or_else_InrE)
  then obtain vr :: id_world and r where "row_get ur_id u (users_t (iw_db vr)) = Some r" "user\<lparr>us_Roles := []\<rparr> = scanUser r"
    by (rule exec_GetUser_InrE)
  then have owner: "us_ID user = u"
    using row_get_mem [of ur_id u "users_t (iw_db vr)" r] by (auto simp: scanUser_def dest!: arg_cong [where f = us_ID])
  from b obtain nt v1 x v2 hash v3 y v4 n v5 where
    st: "exec E (id_move c) (checkPasswordBreach ?sv pw') v0 (Inr nt) v1"
      "exec E (id_move c) (breach_note ?sv (us_ID user) nt) v1 (Inr x) v2"
      "exec E (id_move c) (HashPassword (isv_argon ?sv) pw') v2 (Inr hash) v3"
      "exec E (id_move c) (stored (UpdatePassword (us_ID user) hash)) v3 (Inr y) v4"
      "exec E (id_move c) (stored (RevokeUserSessions (us_ID user))) v4 (Inr n) v5"
      "exec E (id_move c) (audit (us_ID user) ActionPasswordChanged ''user'' (uuid_text ?sv (us_ID user))
           [(''sessions_revoked'', MInt n)]) v5 (Inr ()) w'"
    by (auto elim!: exec_try_then_InrE split: option.splits if_splits dest: exec_DoneD)
  from st(5) obtain e z db where z: "(id_move c)\<^sup>*\<^sup>* v4 z" "RevokeUserSessions u e (iw_db z) = (Inr n, db)"
    "(id_move c)\<^sup>*\<^sup>* (z\<lparr>iw_db := db\<rparr>) v5" unfolding owner by (rule exec_stored_InrE)
  have "?ev w v0" using a by (rule within) (intro ledger.abides_parts)
  moreover have "?ev v0 v1" using st(1) by (rule within) (rule ledger.abides_breach(1) [OF wired])
  moreover have "?ev v1 v2" using st(2) by (rule within) (rule ledger.abides_breach(2) [OF wired])
  moreover have "?ev v2 v3" using st(3) by (rule within) (rule ledger.abides_HashPassword)
  moreover have "?ev v3 v4" using st(4) by (rule within) (rule ledger.abides_writes)
  ultimately have "?ev w z" using id_moves_evolve [OF z(1) wired] by (meson evo.composes)
  then obtain s1 where s1: "row_get se_ID k (sessions_t (iw_db z)) = Some s1" "session_ev s s1" using s(1) by (rule session_later)
  obtain s2 where s2: "row_get se_ID k (sessions_t db) = Some s2" "se_RevokedAt s2 \<noteq> None"
    using revoked_all [OF z(2) s1(1)] session_ev_same(2) [OF s1(2)] s(2) by auto
  have "?ev v5 w'" using st(6) by (rule within) (rule ledger.abides_audit(1))
  then have "?ev (z\<lparr>iw_db := db\<rparr>) w'" using id_moves_evolve [OF z(3) wired] by (meson evo.composes)
  moreover have "row_get se_ID k (sessions_t (iw_db (z\<lparr>iw_db := db\<rparr>))) = Some s2" using s2(1) by simp
  ultimately obtain s' where "row_get se_ID k (sessions_t (iw_db w')) = Some s'" "session_ev s2 s'" by (rule session_later)
  then show thesis using that session_ev_same(7) s2(2) by blast
qed

section \<open>Reading the trail\<close>

lemma ListAudit_matches:
  assumes "exec E R (ListAudit f) w (Inr records) v" and "x \<in> set records"
  shows "audit_matches (AuditFilter_clamp (AuditFilter_clamp f)) x"
  using assms unfolding ListAudit_def Store_ListAudit_def
  by (elim exec_reading_InrE) (auto simp: Let_def dest!: in_set_takeD in_set_dropD)

end
