(* ===== verification/Id_Trail.thy ===== *)
theory Id_Trail
  imports Id_Ledger
begin

text \<open>
  The audit trail of identity: a call that changes something and succeeds has written its entry.
\<close>

definition appends :: "id_world \<Rightarrow> id_world \<Rightarrow> bool" where
  "appends w w' \<longleftrightarrow> prefix (audit_log_t (iw_db w)) (audit_log_t (iw_db w'))"

interpretation trail: table_discipline appends lower for lower
proof unfold_locales
  show "appends w w" for w by (simp add: appends_def)
  show "appends w w''" if "appends w w'" "appends w' w''" for w w' w''
    using that unfolding appends_def by (rule prefix_order.trans)
qed (use CreateUser_history operations_history in \<open>auto simp: appends_def id_history_def\<close>)

text \<open>New entries, among them one with the action \<open>a\<close>.\<close>

definition logged :: "string \<Rightarrow> id_world \<Rightarrow> id_world \<Rightarrow> bool" where
  "logged a w w' \<longleftrightarrow> (\<exists>new. audit_log_t (iw_db w') = audit_log_t (iw_db w) @ new \<and> a \<in> au_Action ` set new)"

lemma logged_before: "appends w v \<Longrightarrow> logged a v w' \<Longrightarrow> logged a w w'"
  by (auto simp: appends_def logged_def elim!: prefixE)

lemma logged_after: "logged a w v \<Longrightarrow> appends v w' \<Longrightarrow> logged a w w'"
  by (auto simp: appends_def logged_def elim!: prefixE)

text \<open>\<open>leaves a p\<close>: alone, \<open>p\<close> does not succeed without leaving an entry with the action \<open>a\<close>.\<close>

abbreviation nobody :: "id_world \<Rightarrow> id_world \<Rightarrow> bool" where "nobody \<equiv> \<lambda>_ _. False"

lemma nobody_stays [simp]: "nobody\<^sup>*\<^sup>* w w' \<longleftrightarrow> w' = w"
  by (auto elim: rtranclp.cases)

definition leaves :: "string \<Rightarrow> 'a id_prog \<Rightarrow> bool" where
  "leaves a p \<longleftrightarrow> (\<forall>E w r w'. exec E nobody p w (Inr r) w' \<longrightarrow> logged a w w')"

lemma exec_appends: "exec E nobody p w r w' \<Longrightarrow> abides appends p \<Longrightarrow> appends w w'"
  by (erule trail.exec_within) simp_all

lemma leaves_Inl: "leaves a (Done (Inl x))"
  by (simp add: leaves_def exec_Done_iff)

lemma leaves_first: "leaves a p \<Longrightarrow> (\<And>x. abides appends (k x)) \<Longrightarrow> leaves a (try_then p k)"
  unfolding leaves_def by (blast elim: exec_try_then_InrE intro: logged_after exec_appends)

lemma leaves_rest: "abides appends p \<Longrightarrow> (\<And>x. leaves a (k x)) \<Longrightarrow> leaves a (try_then p k)"
  unfolding leaves_def by (blast elim: exec_try_then_InrE intro: logged_before exec_appends)

lemma leaves_then: "abides appends p \<Longrightarrow> (\<And>x. leaves a (k x)) \<Longrightarrow> leaves a (and_then p k)"
  unfolding leaves_def by (blast elim: exec_and_thenE intro: logged_before exec_appends)

lemma leaves_record: "leaves (ae_Action e) (RecordAudit e)"
  unfolding leaves_def RecordAudit_def
  by (auto simp: exec_Done_iff stored_def InsertAudit_def logged_def audit_row_def row_ins_def elim!: exec_effectE
      dest!: finish_Inr split: prod.splits)

lemma leaves_audit: "leaves act (audit ac act ot oid md)"
  using leaves_record unfolding audit_def by (metis AuditEntry.select_convs(2))

lemmas leaves_rules = leaves_Inl leaves_first [OF leaves_audit] leaves_audit

section \<open>The operations\<close>

lemma leaves_operations:
  shows "wired sv \<Longrightarrow> isv_lower sv = lower \<Longrightarrow> leaves ActionUserRegistered (Register sv em ph pw fn dev ip)"
    and "leaves ActionUserLogin (Login sv em pw dev ip)"
    and "wired sv \<Longrightarrow> leaves ActionPasswordChanged (ChangePassword sv u pw pw')"
    and "leaves ActionSessionRefreshed (RefreshTokens sv tok)"
    and "leaves ActionSessionRevoked (LogoutByRefreshToken sv tok ac)"
    and "leaves ActionSessionRevoked (RevokeSession sv u k ac)"
    and "leaves ActionSessionRevokedAll (RevokeAllSessions sv u ac)"
    and "leaves ActionVerificationVerified (Verify sv raw)"
    and "leaves ActionUsersListed (ListUsersForAdmin ac tn li off)"
proof -
  note parts = trail.abides_parts trail.abides_verification trail.abides_issue trail.abides_revokes trail.abides_CreateSession
  show "leaves ActionUserRegistered (Register sv em ph pw fn dev ip)" if "wired sv" "isv_lower sv = lower"
    unfolding Register_def Let_def using that(1)
    by (auto intro!: leaves_rules leaves_rest leaves_then parts)
  show "leaves ActionUserLogin (Login sv em pw dev ip)"
    unfolding Login_def by (auto intro!: leaves_rules leaves_rest parts split: option.splits)
  show "leaves ActionPasswordChanged (ChangePassword sv u pw pw')" if "wired sv"
    unfolding ChangePassword_def using that by (auto intro!: leaves_rules leaves_rest parts split: option.splits)
  show "leaves ActionSessionRefreshed (RefreshTokens sv tok)"
    unfolding RefreshTokens_def by (auto intro!: leaves_rules leaves_rest parts trail.abides_Refresh)
  show "leaves ActionSessionRevoked (LogoutByRefreshToken sv tok ac)"
    unfolding LogoutByRefreshToken_def by (auto intro!: leaves_rules leaves_rest parts)
  show "leaves ActionSessionRevoked (RevokeSession sv u k ac)"
    unfolding RevokeSession_def by (auto intro!: leaves_rules leaves_rest parts)
  show "leaves ActionSessionRevokedAll (RevokeAllSessions sv u ac)"
    unfolding RevokeAllSessions_def by (auto intro!: leaves_rules leaves_rest parts)
  show "leaves ActionVerificationVerified (Verify sv raw)"
    unfolding Verify_def Let_def by (auto intro!: leaves_rules leaves_rest leaves_then parts)
  have "leaves ActionUsersListed (RecordAudit \<lparr>ae_ActorID = x, ae_Action = ActionUsersListed, ae_ObjectType = y,
      ae_ObjectID = z, ae_TenantID = t, ae_Metadata = md\<rparr>)" for x y z t md
    using leaves_record by (metis AuditEntry.select_convs(2))
  moreover have "abides appends (ListUsers li off)"
    unfolding ListUsers_def Let_def by (auto intro!: parts)
  ultimately show "leaves ActionUsersListed (ListUsersForAdmin ac tn li off)"
    unfolding ListUsersForAdmin_def by (intro leaves_rest leaves_first) (auto intro!: parts)
qed

section \<open>The routes\<close>

text \<open>The action a successful call of a route leaves.\<close>

fun audited :: "id_request \<Rightarrow> string option" where
  "audited (PostRegister b) = Some ActionUserRegistered"
| "audited (PostLogin b) = Some ActionUserLogin"
| "audited (PostRefresh b) = Some ActionSessionRefreshed"
| "audited (PostLogout b) = Some ActionSessionRevoked"
| "audited (PostVerify b) = Some ActionVerificationVerified"
| "audited (PostPassword b) = Some ActionPasswordChanged"
| "audited (DeleteSession raw) = Some ActionSessionRevoked"
| "audited DeleteSessions = Some ActionSessionRevokedAll"
| "audited (GetUsers q) = Some ActionUsersListed"
| "audited rq = None"

definition replies :: "string \<Rightarrow> 'b id_answer \<Rightarrow> bool" where
  "replies a p \<longleftrightarrow> (\<forall>E w st b w'. exec E nobody p w (Reply st b) w' \<longrightarrow> logged a w w')"

lemma replies_problem: "replies a (id_problem x)" "replies a (Done (Problem y))"
  by (simp_all add: replies_def id_problem_def WriteError_def exec_Done_iff split: any_error.splits)

lemma replies_answering:
  assumes "leaves a p"
  shows "replies a (answering p f)"
  unfolding replies_def
proof (intro allI impI)
  fix E w st b w'
  assume "exec E nobody (answering p f) w (Reply st b) w'"
  then obtain r v where r: "exec E nobody p w r v"
    "exec E nobody (case r of Inl err \<Rightarrow> id_problem err | Inr a \<Rightarrow> Done (f a)) v (Reply st b) w'"
    unfolding answering_def by (rule exec_and_thenE)
  show "logged a w w'"
  proof (cases r)
    case (Inl err)
    with r(2) show ?thesis by (simp add: id_problem_def WriteError_def exec_Done_iff split: any_error.splits)
  next
    case (Inr x)
    then have "v = w'" using r(2) by (auto simp: exec_Done_iff)
    with r(1) Inr assms show ?thesis by (auto simp: leaves_def)
  qed
qed

lemma replies_gates:
  "(\<And>cl. replies a (h cl)) \<Longrightarrow> replies a (authenticated k h)"
  "(\<And>cl. replies a (h cl)) \<Longrightarrow> replies a (with_role roles k h)"
  "replies a p \<Longrightarrow> replies a (throttle k p)"
  "(\<And>u. replies a (g u)) \<Longrightarrow> replies a (with_subject c claims g)"
  "(\<And>q. replies a (b q)) \<Longrightarrow> replies a (with_body bd b)"
  unfolding authenticated_def with_role_def throttle_def with_subject_def with_body_def
  by (auto intro!: replies_problem split: option.splits sum.splits)

lemmas replies_rules = replies_gates replies_answering replies_problem

lemma routes_reply:
  assumes "wired (ih_service c)" and "audited rq = Some a"
  shows "replies a (id_Routes c k rq)"
proof -
  note ops = leaves_operations(1) [OF assms(1) refl] leaves_operations(2) leaves_operations(3) [OF assms(1)]
    leaves_operations(4-9)
  show ?thesis
    using assms(2) unfolding id_Routes_def
    by (cases rq) (auto simp: handleRegister_def handleLogin_def handleRefresh_def handleLogout_def handleVerify_def
        handleChangePassword_def handleRevokeSession_def handleRevokeAllSessions_def handleListUsers_def Let_def
        intro!: replies_rules ops split: option.splits sum.splits)
qed

end
