(* ===== verification/Id_Props.thy ===== *)
theory Id_Props
  imports Id_Demo Id_Pools Id_Verify Id_Accounts Id_Trail
begin

text \<open>
  Properties of identity: integrity and history of its tables, rotation of refresh tokens, the absolute
  bound of sessions, login, verification and password change. Where a property speaks of \<open>exec\<close> with
  \<open>id_move\<close>, or of a pool, any number of other calls run between the actions of a handler.
\<close>

section \<open>Integrity and history\<close>

text \<open>
  C22. However calls interleave and whatever fails, the identity tables stay consistent: unique accounts,
  addresses, phones, grants, sessions and tokens, known roles, channels and states, every row owned by an
  account. And their history only moves forward: accounts keep who they are, a session never comes back
  from revocation, a token never becomes unused, grants and audit entries are only added.
\<close>

theorem identity_integrity:
  assumes "(id_move c)\<^sup>*\<^sup>* w w'" and "wired (ih_service c)" and "id_ok (isv_lower (ih_service c)) (iw_db w)"
  shows "id_ok (isv_lower (ih_service c)) (iw_db w') \<and> id_history (iw_db w) (iw_db w')"
  using id_moves_evolve [OF assms(1,2)] assms(3) by (simp add: id_evolves_def)

lemma demo_refresh_moves:
  obtains w' where "(id_move demo_http)\<^sup>*\<^sup>* demo_world w'" "length (sessions_t (iw_db w')) = 3"
proof -
  obtain a es w' where r: "run (id_Routes demo_http (demo_call []) (PostRefresh (JsonBody \<lparr>qf_RefreshToken = ''one''\<rparr>)))
     (\<lambda>_. demo_env 13 ''xyz'') demo_world = (Reply 200 a, es, w')" "length (sessions_t (iw_db w')) = 3"
    using demo_route_refresh by blast
  from run_steps [OF r(1)] have "(id_move demo_http)\<^sup>*\<^sup>* demo_world w'"
    by (rule rtranclp_mono [THEN predicate2D, rotated]) (auto intro: move_route)
  with r(2) that show thesis by blast
qed

lemma identity_integrity_witness:
  "\<exists>w' :: id_world. length (sessions_t (iw_db w')) = 3 \<and> id_ok (isv_lower (ih_service demo_http)) (iw_db w') \<and>
     id_history (iw_db demo_world) (iw_db w')"
proof -
  obtain w' where w': "(id_move demo_http)\<^sup>*\<^sup>* demo_world w'" "length (sessions_t (iw_db w')) = 3" by (rule demo_refresh_moves)
  from identity_integrity [OF w'(1) demo_wired demo_ok] w'(2) show ?thesis by blast
qed

section \<open>Refresh tokens\<close>

text \<open>
  C23. A refresh that succeeds, whatever runs meanwhile, has revoked the session of the token it was given
  and left a new session of the token it returns: of the same account, device and address and with the
  same absolute bound; and the access token it returns was signed for that account and that session.
\<close>

theorem refresh_rotates:
  assumes "exec clocked (id_move c) (RefreshTokens (ih_service c) tok) w (Inr resp) w'"
    and "wired (ih_service c)" and "id_ok (isv_lower (ih_service c)) (iw_db w)"
  shows "\<exists>old \<in> set (sessions_t (iw_db w')). \<exists>new \<in> set (sessions_t (iw_db w')).
    rotated (isv_issuer (ih_service c)) tok resp old new"
proof -
  from assms(1) obtain old w1 where ref: "exec clocked (id_move c) (Refresh (isv_issuer (ih_service c)) tok) w (Inr (resp, old)) w1"
    and au: "exec clocked (id_move c) (audit (se_UserID old) ActionSessionRefreshed ''session'' (uuid_text (ih_service c) (se_ID old))
       (device_meta (ih_service c) (se_DeviceName old) (se_IPAddress old))) w1 (Inr ()) w'"
    by (rule exec_RefreshTokens_InrE)
  from refresh_leaves [OF ref assms(2,3)] obtain new s where n: "rotated (isv_issuer (ih_service c)) tok resp s new"
    "s \<in> set (sessions_t (iw_db w1))" "new \<in> set (sessions_t (iw_db w1))" .
  have ev1: "id_evolves (isv_lower (ih_service c)) w w1"
    using ref ledger.abides_Refresh id_move_evolves [OF _ assms(2)] by (rule evo.exec_within)
  have ev: "id_evolves (isv_lower (ih_service c)) w1 w'"
    using au ledger.abides_audit(1) id_move_evolves [OF _ assms(2)] by (rule evo.exec_within)
  show ?thesis by (rule rotated_later [OF n ev evolves_ok [OF ev1 assms(3)]])
qed

lemma demo_refresh_exec:
  obtains resp w' where "exec clocked (id_move demo_http) (RefreshTokens (ih_service demo_http) ''one'') demo_world (Inr resp) w'"
  using demo_refresh run_exec [of "RefreshTokens demo_service ''one''" "\<lambda>_. demo_env 13 ''xyz''" demo_world _ _ _ clocked "id_move demo_http"]
    demo_clocked by fastforce

lemma refresh_rotates_witness:
  "\<exists>resp (w' :: id_world). \<exists>old \<in> set (sessions_t (iw_db w')). \<exists>new \<in> set (sessions_t (iw_db w')).
    rotated demo_issuer ''one'' resp old new"
proof -
  obtain resp w' where ex: "exec clocked (id_move demo_http) (RefreshTokens (ih_service demo_http) ''one'') demo_world (Inr resp) w'"
    by (rule demo_refresh_exec)
  have "\<exists>old \<in> set (sessions_t (iw_db w')). \<exists>new \<in> set (sessions_t (iw_db w')). rotated demo_issuer ''one'' resp old new"
    using refresh_rotates [OF ex demo_wired demo_ok] by (simp only: demo_service_simps)
  then show ?thesis by blast
qed

text \<open>
  C24. A refresh token works once: when a refresh with it has succeeded, no later call with the same token
  succeeds, whatever runs in between and meanwhile.
\<close>

theorem refresh_once:
  assumes "exec clocked (id_move c) (RefreshTokens (ih_service c) tok) w (Inr resp) w1"
    and "wired (ih_service c)" and "id_ok (isv_lower (ih_service c)) (iw_db w)"
  shows "\<not> exec clocked (id_move c) (RefreshTokens (ih_service c) tok) w1 (Inr resp') w2"
proof
  assume again: "exec clocked (id_move c) (RefreshTokens (ih_service c) tok) w1 (Inr resp') w2"
  have ev: "id_evolves (isv_lower (ih_service c)) w w1"
    using assms(1) ledger.abides_RefreshTokens id_move_evolves [OF _ assms(2)] by (rule evo.exec_within)
  from assms(1) obtain old v where ref: "exec clocked (id_move c) (Refresh (isv_issuer (ih_service c)) tok) w (Inr (resp, old)) v"
    and au: "exec clocked (id_move c) (audit (se_UserID old) ActionSessionRefreshed ''session'' (uuid_text (ih_service c) (se_ID old))
       (device_meta (ih_service c) (se_DeviceName old) (se_IPAddress old))) v (Inr ()) w1"
    by (rule exec_RefreshTokens_InrE)
  from refresh_leaves [OF ref assms(2,3)] have "spent (RefreshTokenHash (isv_issuer (ih_service c)) tok) (iw_db v)"
    unfolding spent_def rotated_def by blast
  moreover have "id_evolves (isv_lower (ih_service c)) w v"
    using ref ledger.abides_Refresh id_move_evolves [OF _ assms(2)] by (rule evo.exec_within)
  moreover have "id_evolves (isv_lower (ih_service c)) v w1"
    using au ledger.abides_audit(1) id_move_evolves [OF _ assms(2)] by (rule evo.exec_within)
  ultimately have "spent (RefreshTokenHash (isv_issuer (ih_service c)) tok) (iw_db w1)"
    using spent_later evolves_ok assms(3) by blast
  moreover from again obtain old2 v2 where
    "exec clocked (id_move c) (Refresh (isv_issuer (ih_service c)) tok) w1 (Inr (resp', old2)) v2"
    by (rule exec_RefreshTokens_InrE)
  ultimately show False using spent_refused assms(2) evolves_ok [OF ev assms(3)] by blast
qed

lemma refresh_once_witness:
  "\<exists>resp w1. exec clocked (id_move demo_http) (RefreshTokens demo_service ''one'') demo_world (Inr resp) w1 \<and>
    \<not> exec clocked (id_move demo_http) (RefreshTokens demo_service ''one'') w1 (Inr resp) w1"
proof -
  obtain resp w' where ex: "exec clocked (id_move demo_http) (RefreshTokens (ih_service demo_http) ''one'') demo_world (Inr resp) w'"
    by (rule demo_refresh_exec)
  have "\<not> exec clocked (id_move demo_http) (RefreshTokens demo_service ''one'') w' (Inr resp) w'"
    using refresh_once [OF ex demo_wired demo_ok] by (simp only: demo_service_simps not_False_eq_True)
  with ex show ?thesis by (auto simp only: demo_service_simps)
qed

lemma demo_fork:
  "\<exists>q. advance (Suc 0) (RefreshTokens demo_service ''one'') (\<lambda>_. demo_env 13 ''xyz'') demo_world = (q, demo_world) \<and>
    (\<exists>r1 r2 es1 w2 es2 w3. run (RefreshTokens demo_service ''one'') (\<lambda>_. demo_env 13 ''xyz'') demo_world = (Inr r1, es1, w2) \<and>
      run q (\<lambda>_. demo_env 14 ''uvw'') w2 = (Inr r2, es2, w3) \<and> ar_RefreshToken r1 = ''eHl6'' \<and> ar_RefreshToken r2 = ''dXZ3'' \<and>
      length (filter (live_of 1) (sessions_t (iw_db w3))) = 2)"
  by (simp add: RefreshTokens_def Refresh_def try_then_def stored_def and_then_assoc advance_effect run_simps run_reads run_writes run_tokens demo_rows live_of_def)

text \<open>
  Two refreshes with the same token that overlap both succeed: the revocation has no condition on the
  session being live, so the second does not notice that the token is spent. The account ends with two
  live sessions and two different refresh tokens, out of one.
\<close>

theorem refresh_forks:
  "\<exists>r1 r2 w'. (pool_step clocked {RefreshTokens demo_service ''one''})\<^sup>*\<^sup>* ([], demo_world) ([Done (Inr r1), Done (Inr r2)], w') \<and>
     ar_RefreshToken r1 \<noteq> ar_RefreshToken r2 \<and>
     length (filter (live_of 1) (sessions_t (iw_db demo_world))) = 1 \<and>
     length (filter (live_of 1) (sessions_t (iw_db w'))) = 2"
proof -
  from demo_fork obtain q r1 r2 es1 w2 es2 w3 where
    q: "advance (Suc 0) (RefreshTokens demo_service ''one'') (\<lambda>_. demo_env 13 ''xyz'') demo_world = (q, demo_world)"
      "run (RefreshTokens demo_service ''one'') (\<lambda>_. demo_env 13 ''xyz'') demo_world = (Inr r1, es1, w2)"
      "run q (\<lambda>_. demo_env 14 ''uvw'') w2 = (Inr r2, es2, w3)"
    and r: "ar_RefreshToken r1 = ''eHl6''" "ar_RefreshToken r2 = ''dXZ3''"
      "length (filter (live_of 1) (sessions_t (iw_db w3))) = 2" by blast
  have "(pool_step clocked {RefreshTokens demo_service ''one''})\<^sup>*\<^sup>* ([], demo_world) ([Done (Inr r2), Done (Inr r1)], w3)"
    by (rule pool_overlap [OF q]) (simp_all add: demo_clocked)
  moreover have "length (filter (live_of 1) (sessions_t (iw_db demo_world))) = 1"
    by (simp add: demo_world_def demo_session_def live_of_def)
  moreover have "ar_RefreshToken r2 \<noteq> ar_RefreshToken r1" using r(1,2) by simp
  ultimately show ?thesis using r(3) by blast
qed

section \<open>Sessions\<close>

text \<open>
  C25. Without a login or a registration, no session is ever given an absolute bound later than the ones
  there are: in every interleaving of the other calls, however often tokens are refreshed, all sessions
  keep the bound \<open>B\<close> that the first ones had.
\<close>

theorem absolute_bound_kept:
  assumes "(pool_step clocked {id_Routes c k rq | k rq. \<not> signs_in rq})\<^sup>*\<^sup>* ([], w) (ps, w')"
    and "wired (ih_service c)" and "bounded B w"
  shows "bounded B w'"
proof -
  have "keeps clocked (bounded B) p" if "p \<in> {id_Routes c k rq | k rq. \<not> signs_in rq}" for p
    using that by (auto intro: ensures_keeps [OF bound_Routes [OF assms(2)]])
  from pool_keeps [OF assms(1) this] assms(3) show ?thesis by simp
qed

lemma absolute_bound_kept_witness:
  "\<exists>ps w'. (pool_step clocked {id_Routes demo_http k rq | k rq. \<not> signs_in rq})\<^sup>*\<^sup>* ([], demo_world) (ps, w') \<and>
     length (sessions_t (iw_db w')) = 3 \<and> bounded (demo_now + 2 * time_hour) w'"
proof -
  let ?P = "{id_Routes demo_http k rq | k rq. \<not> signs_in rq}"
  let ?p = "id_Routes demo_http (demo_call []) (PostRefresh (JsonBody \<lparr>qf_RefreshToken = ''one''\<rparr>))"
  obtain a es w' where r: "run ?p (\<lambda>_. demo_env 13 ''xyz'') demo_world = (Reply 200 a, es, w')"
    "length (sessions_t (iw_db w')) = 3" using demo_route_refresh by blast
  have "\<not> signs_in (PostRefresh (JsonBody \<lparr>qf_RefreshToken = ''one''\<rparr>))" by simp
  then have "?p \<in> ?P" by blast
  then have "(pool_step clocked ?P)\<^sup>*\<^sup>* ([], demo_world) ([Done (Reply 200 a)], w')"
    by (intro pool_alone [OF r(1)] demo_clocked)
  moreover have "bounded (demo_now + 2 * time_hour) demo_world"
    by (simp add: bounded_def demo_world_def demo_session_def)
  ultimately show ?thesis using absolute_bound_kept [OF _ demo_wired] r(2) by blast
qed

text \<open>
  C26. A session is safe from strangers: as long as its refresh token is presented by nobody else, and its
  account neither changes its password nor revokes it, no interleaving of calls, of others and of the
  account, ends it.
\<close>

theorem session_survives_strangers:
  assumes "(pool_step clocked {id_Routes c k rq | k rq. stranger c v h k rq})\<^sup>*\<^sup>* ([], w) (ps, w')"
    and "wired (ih_service c)" and "live_session (isv_lower (ih_service c)) sid v h w"
  shows "live_session (isv_lower (ih_service c)) sid v h w'"
proof -
  have "keeps clocked (live_session (isv_lower (ih_service c)) sid v h) p"
    if "p \<in> {id_Routes c k rq | k rq. stranger c v h k rq}" for p
    using that by (auto intro: ensures_keeps [OF live_Routes [OF assms(2) refl]])
  from pool_keeps [OF assms(1) this] assms(3) show ?thesis by simp
qed

lemma session_survives_strangers_witness:
  "\<exists>err w'. (pool_step clocked {id_Routes demo_http k rq | k rq. stranger demo_http 1 ''6f6e65'' k rq})\<^sup>*\<^sup>*
       ([], demo_world) ([Done (Problem err)], w') \<and>
     live_session (isv_lower (ih_service demo_http)) 11 1 ''6f6e65'' w'"
proof -
  let ?P = "{id_Routes demo_http k rq | k rq. stranger demo_http 1 ''6f6e65'' k rq}"
  let ?p = "id_Routes demo_http (demo_call ''2'') (DeleteSession ''11'')"
  obtain err es where r: "run ?p (\<lambda>_. demo_env 13 ''xyz'') demo_world = (Problem err, es, demo_world)"
    using demo_route_delete by blast
  have "stranger demo_http 1 ''6f6e65'' (demo_call ''2'') (DeleteSession ''11'')"
    by (simp add: not_caller_def demo_call_def subject_of_def)
  then have "?p \<in> ?P" by blast
  then have ex: "(pool_step clocked ?P)\<^sup>*\<^sup>* ([], demo_world) ([Done (Problem err)], demo_world)"
    by (intro pool_alone [OF r] demo_clocked)
  have "live_session (isv_lower (ih_service demo_http)) 11 1 ''6f6e65'' demo_world"
    using demo_ok by (simp add: live_session_def) (simp add: demo_world_def demo_session_def)
  from session_survives_strangers [OF ex demo_wired this] ex show ?thesis by blast
qed

section \<open>Verification\<close>

text \<open>
  C27. A verification token is good for one verification, also among calls that overlap: of all calls of
  \<open>Verify\<close> with it, in any interleaving with each other and with calls of the interface, at most one
  succeeds.
\<close>

theorem verification_single_use:
  assumes "(pool_step E ({Verify (ih_service c) raw} \<union> {and_then (id_Routes c k rq) (\<lambda>_. Done (Inl IdFailed)) | k rq. True}))\<^sup>*\<^sup>*
      ([], w) (ps, w')"
    and "wired (ih_service c)" and "id_ok (isv_lower (ih_service c)) (iw_db w)"
  shows "length (filter (won (\<lambda>r. \<exists>ch. r = Inr ch)) ps) \<le> 1"
proof -
  let ?lower = "isv_lower (ih_service c)"
  let ?c = "token_used (TokenHash (isv_issuer (ih_service c)) (trim_space raw))"
  have S: "tables_ok ?lower v'" if "id_evolves ?lower v v'" "tables_ok ?lower v" for v v'
    using that by (simp add: tables_ok_def id_evolves_def)
  show ?thesis
  proof (rule evo.at_most_one_wins [OF assms(1), where I = "tables_ok ?lower" and c = ?c])
    fix p :: "VerificationChannel id_prog" assume p: "p \<in> {Verify (ih_service c) raw} \<union> {and_then (id_Routes c k rq) (\<lambda>_. Done (Inl IdFailed)) | k rq. True}"
    then show "abides (id_evolves ?lower) p"
      by (auto intro!: ledger.abides_sessionless abides_and_then ledger.abides_Routes abides_Done assms(2))
    show "untried E (id_evolves ?lower) (tables_ok ?lower) ?c (\<lambda>r. \<exists>ch. r = Inr ch) v p" for v
      using p by (auto intro!: untried_silent untried_Verify)
  qed (use S used_later assms(3) in \<open>auto simp: tables_ok_def\<close>)
qed

lemma verification_single_use_witness:
  "\<exists>ps w'. (pool_step clocked ({Verify (ih_service demo_http) ''vt''} \<union>
       {and_then (id_Routes demo_http k rq) (\<lambda>_. Done (Inl IdFailed)) | k rq. True}))\<^sup>*\<^sup>* ([], demo_world) (ps, w') \<and>
     length ps = 2 \<and> length (filter (won (\<lambda>r. \<exists>ch. r = Inr ch)) ps) \<le> 1"
proof -
  let ?P = "{Verify (ih_service demo_http) ''vt''} \<union> {and_then (id_Routes demo_http k rq) (\<lambda>_. Done (Inl IdFailed)) | k rq. True}"
  obtain q a es w2 b es2 w3 where r: "advance (Suc 0) (Verify demo_service ''vt'') (\<lambda>_. demo_env 13 ''xyz'') demo_world = (q, demo_world)"
    "run (Verify demo_service ''vt'') (\<lambda>_. demo_env 13 ''xyz'') demo_world = (Inr a, es, w2)"
    "run q (\<lambda>_. demo_env 14 ''uvw'') w2 = (Inl b, es2, w3)" using demo_verify by blast
  let ?ps = "[Done (Inl b), Done (Inr a)] :: VerificationChannel id_prog list"
  have "(pool_step clocked ?P)\<^sup>*\<^sup>* ([], demo_world) (?ps, w3)"
    by (rule pool_overlap [OF r]) (simp_all add: demo_clocked)
  moreover from verification_single_use [OF this demo_wired demo_ok]
  have "length (filter (won (\<lambda>r. \<exists>ch. r = Inr ch)) ?ps) \<le> 1" .
  moreover have "length ?ps = 2" by simp
  ultimately show ?thesis by blast
qed

section \<open>Accounts\<close>

text \<open>
  C28. A login that succeeds was given the password that an active account with that address had at some
  moment of the call, and leaves a session of that account for the refresh token it returns.
\<close>

theorem login_sound:
  assumes "exec E (id_move c) (Login (ih_service c) em pw dev ip) w (Inr resp) w'" and "wired (ih_service c)"
  shows "\<exists>v r s. (id_move c)\<^sup>*\<^sup>* w v \<and> r \<in> set (users_t (iw_db v)) \<and>
    ur_email r = isv_lower (ih_service c) (trim_space (trim_space em)) \<and> ur_status r = StatusActive \<and>
    VerifyPassword (isv_argon (ih_service c)) pw (ur_password_hash r) = Some True \<and>
    s \<in> set (sessions_t (iw_db w')) \<and> se_UserID s = ur_id r \<and>
    se_RefreshTokenHash s = RefreshTokenHash (isv_issuer (ih_service c)) (ar_RefreshToken resp)"
proof -
  from assms(1) obtain v r user z w1 where l: "(id_move c)\<^sup>*\<^sup>* w v"
    "find (\<lambda>r. ur_email r = isv_lower (ih_service c) (trim_space (trim_space em))) (users_t (iw_db v)) = Some r"
    "VerifyPassword (isv_argon (ih_service c)) pw (ur_password_hash r) = Some True" "ur_status r = StatusActive"
    "us_ID user = ur_id r" and iss: "exec E (id_move c) (issue (isv_issuer (ih_service c)) user dev ip 0) z (Inr resp) w1"
    and au: "exec E (id_move c) (audit (us_ID user) ActionUserLogin ''user'' (uuid_text (ih_service c) (us_ID user))
      (device_meta (ih_service c) dev ip)) w1 (Inr ()) w'" by (rule exec_Login_InrE)
  from issue_opens [OF iss assms(2)] obtain k s where s: "row_get se_ID k (sessions_t (iw_db w1)) = Some s" "se_UserID s = us_ID user"
    "se_RefreshTokenHash s = RefreshTokenHash (isv_issuer (ih_service c)) (ar_RefreshToken resp)" .
  have "id_evolves (isv_lower (ih_service c)) w1 w'"
    using au ledger.abides_audit(1) id_move_evolves [OF _ assms(2)] by (rule evo.exec_within)
  then obtain s' where s': "row_get se_ID k (sessions_t (iw_db w')) = Some s'" "session_ev s s'" using s(1) by (rule session_later)
  have "r \<in> set (users_t (iw_db v))" "ur_email r = isv_lower (ih_service c) (trim_space (trim_space em))"
    using l(2) by (auto simp: find_Some_iff)
  with l(1,3-5) s(2,3) row_get_mem [OF s'(1)] session_ev_same(2,3) [OF s'(2)] show ?thesis
    by (intro exI [of _ v] exI [of _ r] exI [of _ s'] conjI) simp_all
qed

lemma login_sound_witness:
  "\<exists>resp v r s w'. r \<in> set (users_t (iw_db (v :: id_world))) \<and>
    VerifyPassword demo_argon ''first password'' (ur_password_hash r) = Some True \<and>
    s \<in> set (sessions_t (iw_db (w' :: id_world))) \<and> se_UserID s = ur_id r \<and>
    se_RefreshTokenHash s = RefreshTokenHash demo_issuer (ar_RefreshToken (resp :: AccessResponse))"
proof -
  obtain resp es w' where "run (Login demo_service ''a@x.ke'' ''first password'' ''tablet'' ''10.0.0.2'')
      (\<lambda>_. demo_env 13 ''xyz'') demo_world = (Inr resp, es, w')" using demo_login by blast
  then have "exec clocked (id_move demo_http) (Login demo_service ''a@x.ke'' ''first password'' ''tablet'' ''10.0.0.2'')
      demo_world (Inr resp) w'" by (rule run_exec) (rule demo_clocked)
  then have "exec clocked (id_move demo_http) (Login (ih_service demo_http) ''a@x.ke'' ''first password'' ''tablet'' ''10.0.0.2'')
      demo_world (Inr resp) w'" by simp
  from login_sound [OF this demo_wired] show ?thesis unfolding demo_service_simps by blast
qed

text \<open>
  Login refuses uniformly: when no account has the address, or the one that has it does not have the
  password, the answer is the same error and nothing changes.
\<close>

theorem login_refuses_alike:
  assumes "\<forall>n. ie_flt (es n) = Healthy"
    and "\<forall>r \<in> set (users_t (iw_db w)). ur_email r = isv_lower sv (trim_space (trim_space em)) \<longrightarrow>
      VerifyPassword (isv_argon sv) pw (ur_password_hash r) = Some False"
  shows "fst (run (Login sv em pw dev ip) es w) = Inl invalidLogin \<and> snd (snd (run (Login sv em pw dev ip) es w)) = w"
  using run_login_refused [OF assms] by (metis fst_conv snd_conv)

lemma login_refuses_alike_witness:
  "fst (run (Login demo_service ''nobody@x.ke'' ''secret'' ''phone'' ''10.0.0.1'') (\<lambda>_. demo_env 13 ''xyz'') demo_world) = Inl invalidLogin"
  by (rule login_refuses_alike [THEN conjunct1]) (use demo_trim in \<open>simp_all add: demo_world_def demo_user_def\<close>)

text \<open>
  C29. A password change that succeeds has signed the account out everywhere: every session the account had
  when the call began is revoked when it ends, whatever runs meanwhile.
\<close>

theorem password_change_signs_out:
  assumes "exec E (id_move c) (ChangePassword (ih_service c) u pw pw') w (Inr ()) w'" and "wired (ih_service c)"
    and "id_ok (isv_lower (ih_service c)) (iw_db w)" and "s \<in> set (sessions_t (iw_db w))" and "se_UserID s = u"
  shows "\<exists>s' \<in> set (sessions_t (iw_db w')). se_ID s' = se_ID s \<and> se_RevokedAt s' \<noteq> None"
proof -
  obtain s' where "row_get se_ID (se_ID s) (sessions_t (iw_db w')) = Some s'" "se_RevokedAt s' \<noteq> None"
    using change_password_revokes [OF assms(1,2) session_get [OF assms(3,4)] assms(5)] by blast
  then show ?thesis using row_get_mem by metis
qed

lemma password_change_signs_out_witness:
  "\<exists>w'. \<exists>s' \<in> set (sessions_t (iw_db (w' :: id_world))). se_ID s' = 11 \<and> se_RevokedAt s' \<noteq> None"
proof -
  obtain es w' where "run (ChangePassword demo_service 1 ''first password'' ''another password'') (\<lambda>_. demo_env 13 ''xyz'')
      demo_world = (Inr (), es, w')" using demo_change_password by blast
  then have "exec clocked (id_move demo_http) (ChangePassword demo_service 1 ''first password'' ''another password'')
      demo_world (Inr ()) w'" by (rule run_exec) (rule demo_clocked)
  then have ex: "exec clocked (id_move demo_http) (ChangePassword (ih_service demo_http) 1 ''first password'' ''another password'')
      demo_world (Inr ()) w'" by simp
  have "demo_session 11 1 ''one'' \<in> set (sessions_t (iw_db demo_world))" by (simp add: demo_world_def)
  from password_change_signs_out [OF ex demo_wired demo_ok this] show ?thesis by (auto simp: demo_session_def)
qed

text \<open>
  A registration is not one transaction: when the session cannot be stored, the caller gets an error
  but the account exists, and the same registration again is refused because the address is taken.
\<close>

theorem registration_strands:
  "\<exists>es w1 es2. run demo_register demo_broken demo_world = (Inl IdFailed, es, w1) \<and>
     (\<exists>r \<in> set (users_t (iw_db w1)). ur_email r = ''c@x.ke'') \<and>
     run demo_register (\<lambda>_. demo_env 14 ''uvw'') w1 = (Inl (conflict ''email address is already registered''), es2, w1)"
  using demo_half_registered by blast

text \<open>
  The role and the tenant of an access token can come from two different grants. An account that is a
  garage on its own behalf and a technician for tenant 77 gets a token that says garage, of tenant 77,
  which nobody ever granted.
\<close>

theorem claims_mix_grants:
  "\<exists>resp es w'. run (Login demo_service ''a@x.ke'' ''first password'' ''tablet'' ''10.0.0.2'') (\<lambda>_. demo_env 13 ''xyz'') demo_mixed =
       (Inr resp, es, w') \<and> ar_AccessToken resp = ''1.13.77.'' @ IdRoleGarage \<and>
     \<not> grant_exists 1 IdRoleGarage (Some 77) (user_roles_t (iw_db demo_mixed))"
  using demo_mixed_login by (auto simp: IdRoleGarage_def IdRoleTechnician_def grant_exists_def demo_mixed_def demo_grants_def)

section \<open>The audit trail\<close>



text \<open>
  An administrator whose token names a tenant, and who is not a super administrator, is only shown
  audit entries of that tenant, whatever the query asks for.
\<close>

theorem audit_reads_scoped:
  assumes "exec E R (id_Routes c k (GetAudit q)) w (Reply st (AuditBody b)) w'" and "ic_claims k = Some cl"
    and "cl_Role cl \<noteq> RoleSuperAdmin" and "cl_TenantID cl \<noteq> []" and "r \<in> set (xe_Entries b)"
  shows "xa_TenantID r \<noteq> None \<and> xa_TenantID r = ih_parse c (cl_TenantID cl)"
proof -
  from assms(1,2) obtain f where f: "auditFilterFromQuery c q cl = Inr f"
    and ex: "exec E R (answering (ListAudit f) (\<lambda>records. Reply 200 (AuditBody \<lparr>xe_Entries = map newAuditRecordResponse records,
         xe_Limit = af_Limit f, xe_Offset = af_Offset f\<rparr>))) w (Reply st (AuditBody b)) w'"
    by (auto simp: id_Routes_def with_role_def authenticated_def handleListAudit_def id_problem_def WriteError_def
        exec_Done_iff split: if_splits sum.splits)
  from f assms(3,4) obtain t where t: "ih_parse c (cl_TenantID cl) = Some t" "af_TenantID f = Some t"
    by (auto simp: auditFilterFromQuery_def tenantIDFromClaims_def split: sum.splits if_splits option.splits)
  from ex obtain records v where rs: "exec E R (ListAudit f) w (Inr records) v"
    "xe_Entries b = map newAuditRecordResponse records"
    unfolding answering_def id_problem_def WriteError_def
    by (auto elim!: exec_and_thenE simp: exec_Done_iff split: sum.splits any_error.splits)
  have "audit_matches (AuditFilter_clamp (AuditFilter_clamp f)) x" if "x \<in> set records" for x
    using rs(1) that by (rule ListAudit_matches)
  moreover have "af_TenantID (AuditFilter_clamp (AuditFilter_clamp f)) = Some t"
    using t(2) by (simp add: AuditFilter_clamp_def Let_def)
  ultimately have "au_TenantID x = Some t" if "x \<in> set records" for x
    using that by (auto simp: audit_matches_def col_eq_def)
  then show ?thesis using rs(2) assms(5) t(1) by (auto simp: newAuditRecordResponse_def)
qed

lemma audit_reads_scoped_witness:
  "\<exists>b. run (id_Routes demo_http demo_admin (GetAudit demo_audit_query)) (\<lambda>_. demo_env 13 ''xyz'') demo_trail =
       (Reply 200 (AuditBody b), \<lambda>_. demo_env 13 ''xyz'', demo_trail) \<and> xe_Entries b \<noteq> [] \<and> xa_TenantID (hd (xe_Entries b)) = Some 77"
proof -
  let ?b = "\<lparr>xe_Entries = [newAuditRecordResponse (demo_record (Some 77))], xe_Limit = 20, xe_Offset = 0\<rparr>"
  have run: "run (id_Routes demo_http demo_admin (GetAudit demo_audit_query)) (\<lambda>_. demo_env 13 ''xyz'') demo_trail =
      (Reply 200 (AuditBody ?b), \<lambda>_. demo_env 13 ''xyz'', demo_trail)" by (rule demo_audit_reply)
  have "exec clocked (id_move demo_http) (id_Routes demo_http demo_admin (GetAudit demo_audit_query)) demo_trail
      (Reply 200 (AuditBody ?b)) demo_trail" using run by (rule run_exec) (rule demo_clocked)
  from audit_reads_scoped [OF this, of "the (ic_claims demo_admin)" "newAuditRecordResponse (demo_record (Some 77))"]
  have "xa_TenantID (newAuditRecordResponse (demo_record (Some 77))) = Some 77"
    by (simp add: demo_admin_def RoleAdmin_def RoleSuperAdmin_def)
  with run show ?thesis by (intro exI [of _ ?b]) simp
qed

end
