(* ===== verification/Garage.thy ===== *)
theory Garage
  imports Http_Input Sql
begin

text \<open>
  The garages domain: \<open>backend/garages/capacity.go\<close>, \<open>store.go\<close>, \<open>service.go\<close>, \<open>scope.go\<close> and
  \<open>http.go\<close>. A garage declares its service capacity in one row per tenant; the identity of the
  garage comes from the claims alone. A Go \<open>int\<close> is a 64 bit word, the \<open>integer\<close> columns of the
  migration are 32 bit words.
\<close>

section \<open>Wall-clock times\<close>

text \<open>
  \<open>time.Parse("15:04", s)\<close>: an hour of one or two digits, a colon, a minute of two digits, both in
  range, and nothing else. The result is a time of January 1, year 0.
\<close>

definition getnum :: "bool \<Rightarrow> string \<Rightarrow> (nat \<times> string) option" where
  "getnum fixed s =
     (case s of
        [] \<Rightarrow> None
      | c # t \<Rightarrow>
          (case digit_val c of
             None \<Rightarrow> None
           | Some a \<Rightarrow>
               (case t of
                  [] \<Rightarrow> if fixed then None else Some (a, t)
                | d # u \<Rightarrow>
                    (case digit_val d of
                       None \<Rightarrow> if fixed then None else Some (a, t)
                     | Some b \<Rightarrow> Some (10 * a + b, u)))))"

definition time_day :: duration where "time_day = 86400000000000"

definition year_zero :: gotime where "year_zero = - 366 * time_day"

definition clock_time :: "nat \<Rightarrow> nat \<Rightarrow> gotime" where
  "clock_time h m = year_zero + (int h * 60 + int m) * time_minute"

definition parseWallClock :: "string \<Rightarrow> gotime option" where
  "parseWallClock raw =
     (case getnum False raw of
        None \<Rightarrow> None
      | Some (h, s) \<Rightarrow>
          if 24 \<le> h then None
          else (case s of
            [] \<Rightarrow> None
          | c # t \<Rightarrow>
              if c \<noteq> CHR '':'' then None
              else (case getnum True t of
                None \<Rightarrow> None
              | Some (m, rest) \<Rightarrow> if 60 \<le> m \<or> rest \<noteq> [] then None else Some (clock_time h m))))"

text \<open>
  A \<open>time\<close> column holds microseconds since midnight. The driver stores the time of day of a
  \<open>time.Time\<close> and reads it back as a time of January 1, 2000; \<open>Format("15:04")\<close> prints its hour and
  minute.
\<close>

type_synonym timecol = int

definition time_value :: "gotime \<Rightarrow> timecol" where
  "time_value t = (t mod time_day) div 1000"

definition scan_time :: "timecol \<Rightarrow> gotime" where
  "scan_time u = 730119 * time_day + u * 1000"

definition two_digits :: "nat \<Rightarrow> string" where
  "two_digits n = [digit_char (n div 10), digit_char (n mod 10)]"

definition format_clock :: "gotime \<Rightarrow> string" where
  "format_clock t =
     (let m = nat ((t mod time_day) div time_minute) in two_digits (m div 60) @ '':'' @ two_digits (m mod 60))"

section \<open>Capacity\<close>

definition DefaultOpeningTime :: string where "DefaultOpeningTime = ''08:00''"
definition DefaultClosingTime :: string where "DefaultClosingTime = ''18:00''"

record Capacity =
  cp_TenantID :: uuid
  cp_Bays :: int64
  cp_OpeningTime :: string
  cp_ClosingTime :: string
  cp_TechnicianSlots :: int64
  cp_UpdatedBy :: "uuid option"
  cp_CreatedAt :: gotime
  cp_UpdatedAt :: gotime

text \<open>
  The errors: the sentinel, a refused record with its message, the missing tenant of an update and of
  a row, an unparsable time, a failed statement, a failed publication.
\<close>

datatype garage_error =
    ErrCapacityNotFound
  | ErrCapacityInvalid string
  | ErrTenantRequired
  | ErrTenantIDRequired
  | ErrWallClock
  | ErrGarageDb
  | ErrGaragePublish

definition validate_capacity :: "Capacity \<Rightarrow> garage_error option" where
  "validate_capacity c =
     (if sint (cp_Bays c) < 0 then Some (ErrCapacityInvalid ''bays must be >= 0'')
      else if sint (cp_TechnicianSlots c) < 0 then Some (ErrCapacityInvalid ''technician_slots must be >= 0'')
      else case parseWallClock (cp_OpeningTime c) of
        None \<Rightarrow> Some (ErrCapacityInvalid ''opening_time must be HH:MM'')
      | Some opening \<Rightarrow>
          (case parseWallClock (cp_ClosingTime c) of
             None \<Rightarrow> Some (ErrCapacityInvalid ''closing_time must be HH:MM'')
           | Some closing \<Rightarrow>
               if \<not> opening < closing then Some (ErrCapacityInvalid ''opening_time must be before closing_time'')
               else None))"

definition defaultCapacity :: "uuid \<Rightarrow> Capacity" where
  "defaultCapacity tenant =
     \<lparr>cp_TenantID = tenant, cp_Bays = 0, cp_OpeningTime = DefaultOpeningTime,
      cp_ClosingTime = DefaultClosingTime, cp_TechnicianSlots = 0, cp_UpdatedBy = None,
      cp_CreatedAt = 0, cp_UpdatedAt = 0\<rparr>"

section \<open>The table\<close>

record capacity_row =
  gr_id :: uuid
  gr_tenant_id :: uuid
  gr_bays :: "32 word"
  gr_opening_time :: timecol
  gr_closing_time :: timecol
  gr_technician_slots :: "32 word"
  gr_updated_by :: "uuid option"
  gr_created_at :: gotime
  gr_updated_at :: gotime

definition garage_checks :: "capacity_row \<Rightarrow> bool" where
  "garage_checks r \<longleftrightarrow> 0 \<le> sint (gr_bays r) \<and> 0 \<le> sint (gr_technician_slots r) \<and>
     gr_opening_time r < gr_closing_time r"

definition scanCapacity :: "capacity_row \<Rightarrow> Capacity" where
  "scanCapacity r =
     \<lparr>cp_TenantID = gr_tenant_id r, cp_Bays = scast (gr_bays r),
      cp_OpeningTime = format_clock (scan_time (gr_opening_time r)),
      cp_ClosingTime = format_clock (scan_time (gr_closing_time r)),
      cp_TechnicianSlots = scast (gr_technician_slots r), cp_UpdatedBy = gr_updated_by r,
      cp_CreatedAt = gr_created_at r, cp_UpdatedAt = gr_updated_at r\<rparr>"

definition Store_Capacity :: "db_fault \<Rightarrow> uuid \<Rightarrow> capacity_row list \<Rightarrow> garage_error + Capacity" where
  "Store_Capacity flt tenant rows =
     (if flt \<noteq> Healthy then Inl ErrGarageDb
      else case row_get gr_tenant_id tenant rows of
        None \<Rightarrow> Inl ErrCapacityNotFound
      | Some r \<Rightarrow> Inr (scanCapacity r))"

text \<open>A Go \<open>int\<close> as the argument of an \<open>integer\<close> column: values that do not fit are refused.\<close>

definition int4 :: "int64 \<Rightarrow> 32 word option" where
  "int4 n = (let v = ucast n :: 32 word in if sint v = sint n then Some v else None)"

text \<open>
  \<open>INSERT .. ON CONFLICT (tenant_id) DO UPDATE .. RETURNING\<close>: one statement, under the checks of the
  migration, on the fresh row or on the row of the tenant.
\<close>

definition write_capacity :: "32 word \<Rightarrow> timecol \<Rightarrow> timecol \<Rightarrow> 32 word \<Rightarrow> uuid option \<Rightarrow> gotime \<Rightarrow> capacity_row \<Rightarrow> capacity_row" where
  "write_capacity bays opening closing slots actor now r =
     r\<lparr>gr_bays := bays, gr_opening_time := opening, gr_closing_time := closing,
       gr_technician_slots := slots, gr_updated_by := actor, gr_updated_at := now\<rparr>"

definition fresh_capacity :: "uuid \<Rightarrow> uuid \<Rightarrow> 32 word \<Rightarrow> timecol \<Rightarrow> timecol \<Rightarrow> 32 word \<Rightarrow> uuid option \<Rightarrow> gotime \<Rightarrow> capacity_row" where
  "fresh_capacity k tenant bays opening closing slots actor now =
     \<lparr>gr_id = k, gr_tenant_id = tenant, gr_bays = bays, gr_opening_time = opening, gr_closing_time = closing,
      gr_technician_slots = slots, gr_updated_by = actor, gr_created_at = now, gr_updated_at = now\<rparr>"

definition UpsertCapacity ::
  "db_fault \<Rightarrow> gotime \<Rightarrow> uuid \<Rightarrow> Capacity \<Rightarrow> capacity_row list \<Rightarrow> (garage_error + Capacity) \<times> capacity_row list" where
  "UpsertCapacity flt now fresh c rows =
     (if cp_TenantID c = uuid_nil then (Inl ErrTenantIDRequired, rows)
      else case (parseWallClock (cp_OpeningTime c), parseWallClock (cp_ClosingTime c)) of
        (None, _) \<Rightarrow> (Inl ErrWallClock, rows)
      | (_, None) \<Rightarrow> (Inl ErrWallClock, rows)
      | (Some opening, Some closing) \<Rightarrow>
          (case (int4 (cp_Bays c), int4 (cp_TechnicianSlots c)) of
             (Some bays, Some slots) \<Rightarrow>
               (case row_get gr_tenant_id (cp_TenantID c) rows of
                  None \<Rightarrow>
                    (let r = fresh_capacity fresh (cp_TenantID c) bays (time_value opening) (time_value closing) slots
                               (cp_UpdatedBy c) now in
                     if \<not> garage_checks r \<or> row_get gr_id fresh rows \<noteq> None then (Inl ErrGarageDb, rows)
                     else finish ErrGarageDb flt 0 (c\<lparr>cp_CreatedAt := now, cp_UpdatedAt := now\<rparr>) rows (row_ins r rows))
                | Some old \<Rightarrow>
                    (let f = write_capacity bays (time_value opening) (time_value closing) slots (cp_UpdatedBy c) now in
                     if \<not> garage_checks (f old) then (Inl ErrGarageDb, rows)
                     else finish ErrGarageDb flt 0 (c\<lparr>cp_CreatedAt := gr_created_at old, cp_UpdatedAt := now\<rparr>) rows
                            (row_upd gr_tenant_id (cp_TenantID c) f rows)))
           | _ \<Rightarrow> (Inl ErrGarageDb, rows)))"

section \<open>The service\<close>

definition EventCapacityUpdated :: string where "EventCapacityUpdated = ''capacity.updated.v1''"

record CapacityUpdatedPayload =
  cu_TenantID :: uuid
  cu_Bays :: int64
  cu_OpeningTime :: string
  cu_ClosingTime :: string
  cu_TechnicianSlots :: int64
  cu_UpdatedBy :: "uuid option"

record garage_event =
  ge_Type :: string
  ge_AggregateID :: uuid
  ge_TenantID :: uuid
  ge_ActorID :: "uuid option"
  ge_CorrelationID :: string
  ge_Payload :: CapacityUpdatedPayload

record garage_world =
  gw_rows :: "capacity_row list"
  gw_events :: "garage_event list"

record garage_env =
  gc_flt :: db_fault
  gc_now :: gotime
  gc_fresh :: uuid
  gc_pub :: "(string \<Rightarrow> bool) option"
  gc_correlation :: string

definition garage_publish ::
  "garage_env \<Rightarrow> string \<Rightarrow> uuid \<Rightarrow> uuid \<Rightarrow> uuid option \<Rightarrow> CapacityUpdatedPayload \<Rightarrow> garage_world
     \<Rightarrow> garage_error option \<times> garage_world" where
  "garage_publish e eventType aggregate tenant actor pl w =
     (case gc_pub e of
        None \<Rightarrow> (None, w)
      | Some can \<Rightarrow>
          let actor' = (case actor of Some a \<Rightarrow> if a \<noteq> uuid_nil then Some a else None | None \<Rightarrow> None)
          in if \<not> can eventType then (Some ErrGaragePublish, w)
             else (None, w\<lparr>gw_events := gw_events w @
               [\<lparr>ge_Type = eventType, ge_AggregateID = aggregate, ge_TenantID = tenant, ge_ActorID = actor',
                 ge_CorrelationID = gc_correlation e, ge_Payload = pl\<rparr>]\<rparr>))"

definition Service_Capacity :: "garage_env \<Rightarrow> uuid \<Rightarrow> garage_world \<Rightarrow> garage_error + Capacity" where
  "Service_Capacity e tenant w =
     (case Store_Capacity (gc_flt e) tenant (gw_rows w) of
        Inl err \<Rightarrow> if err = ErrCapacityNotFound then Inr (defaultCapacity tenant) else Inl err
      | Inr c \<Rightarrow> Inr c)"

record garage_scope =
  gs_TenantID :: "uuid option"
  gs_Operator :: bool

definition UpdateCapacity ::
  "garage_env \<Rightarrow> garage_scope \<Rightarrow> uuid option \<Rightarrow> int64 \<Rightarrow> string \<Rightarrow> string \<Rightarrow> int64 \<Rightarrow> garage_world
     \<Rightarrow> (garage_error + Capacity) \<times> garage_world" where
  "UpdateCapacity e scope actor bays opening closing slots w =
     (case gs_TenantID scope of
        None \<Rightarrow> (Inl ErrTenantRequired, w)
      | Some tenant \<Rightarrow>
          let capacity = \<lparr>cp_TenantID = tenant, cp_Bays = bays, cp_OpeningTime = opening, cp_ClosingTime = closing,
                          cp_TechnicianSlots = slots, cp_UpdatedBy = actor, cp_CreatedAt = 0, cp_UpdatedAt = 0\<rparr> in
          case validate_capacity capacity of
            Some err \<Rightarrow> (Inl err, w)
          | None \<Rightarrow>
              (case UpsertCapacity (gc_flt e) (gc_now e) (gc_fresh e) capacity (gw_rows w) of
                 (Inl err, rows) \<Rightarrow> (Inl err, w\<lparr>gw_rows := rows\<rparr>)
               | (Inr c, rows) \<Rightarrow>
                   (case garage_publish e EventCapacityUpdated (cp_TenantID c) (cp_TenantID c) actor
                       \<lparr>cu_TenantID = cp_TenantID c, cu_Bays = cp_Bays c, cu_OpeningTime = cp_OpeningTime c,
                        cu_ClosingTime = cp_ClosingTime c, cu_TechnicianSlots = cp_TechnicianSlots c,
                        cu_UpdatedBy = cp_UpdatedBy c\<rparr> (w\<lparr>gw_rows := rows\<rparr>) of
                      (Some err, w') \<Rightarrow> (Inl err, w')
                    | (None, w') \<Rightarrow> (Inr c, w'))))"

section \<open>The HTTP interface\<close>

definition RoleGarage :: string where "RoleGarage = ''GARAGE''"

definition Garage_OperatorRoles :: "string list" where
  "Garage_OperatorRoles = [''DISPATCHER'', ''ADMIN'', ''SUPER_ADMIN'']"

definition Garage_IsOperatorRole :: "string \<Rightarrow> bool" where
  "Garage_IsOperatorRole role \<longleftrightarrow> role \<in> set Garage_OperatorRoles"

definition capacityWriteRoles :: "string list" where "capacityWriteRoles = [RoleGarage]"

record garage_http =
  gh_parse :: "string \<Rightarrow> uuid option"
  gh_text :: "garage_error \<Rightarrow> string"
  gh_env :: garage_env

definition garage_readScope :: "garage_http \<Rightarrow> Claims option \<Rightarrow> garage_scope option" where
  "garage_readScope c cl =
     (case cl of
        None \<Rightarrow> None
      | Some claims \<Rightarrow>
          if cl_TenantID claims = []
            then Some \<lparr>gs_TenantID = None, gs_Operator = Garage_IsOperatorRole (cl_Role claims)\<rparr>
          else case gh_parse c (cl_TenantID claims) of
            None \<Rightarrow> None
          | Some t \<Rightarrow> Some \<lparr>gs_TenantID = Some t, gs_Operator = Garage_IsOperatorRole (cl_Role claims)\<rparr>)"

definition garageScope :: "garage_http \<Rightarrow> Claims option \<Rightarrow> Error + garage_scope" where
  "garageScope c cl =
     (case garage_readScope c cl of
        None \<Rightarrow> Inl (ErrUnauthorized ''authentication required'')
      | Some scope \<Rightarrow>
          if gs_Operator scope \<or> gs_TenantID scope = None
            then Inl (ErrForbidden ''garage endpoints operate on the caller's own tenant; a tenant_id claim is required'')
          else Inr scope)"

record capacityRequest =
  gq_Bays :: "int64 option"
  gq_OpeningTime :: string
  gq_ClosingTime :: string
  gq_TechnicianSlots :: "int64 option"

record capacityResponse =
  gx_Bays :: int64
  gx_OpeningTime :: string
  gx_ClosingTime :: string
  gx_TechnicianSlots :: int64
  gx_UpdatedAt :: "gotime option"
  gx_UpdatedBy :: "uuid option"

definition newCapacityResponse :: "Capacity \<Rightarrow> capacityResponse" where
  "newCapacityResponse c =
     \<lparr>gx_Bays = cp_Bays c, gx_OpeningTime = cp_OpeningTime c, gx_ClosingTime = cp_ClosingTime c,
      gx_TechnicianSlots = cp_TechnicianSlots c,
      gx_UpdatedAt = (if time_is_zero (cp_UpdatedAt c) then None else Some (cp_UpdatedAt c)),
      gx_UpdatedBy = cp_UpdatedBy c\<rparr>"

fun garage_domain_error :: "(garage_error \<Rightarrow> string) \<Rightarrow> garage_error \<Rightarrow> any_error" where
  "garage_domain_error text_of ErrCapacityNotFound = AppError (ErrNotFound ''capacity not configured'')"
| "garage_domain_error text_of e = AppError (ErrValidation (text_of e) [])"

definition handleGetCapacity :: "garage_http \<Rightarrow> (unit, garage_world, capacityResponse) handler" where
  "handleGetCapacity c cl q w =
     (case garageScope c cl of
        Inl e \<Rightarrow> (WriteError (AppError e), w)
      | Inr scope \<Rightarrow>
          (case Service_Capacity (gh_env c) (the (gs_TenantID scope)) w of
             Inl e \<Rightarrow> (WriteError (garage_domain_error (gh_text c) e), w)
           | Inr v \<Rightarrow> (Reply 200 (newCapacityResponse v), w)))"

definition field_required :: "string \<Rightarrow> Error" where
  "field_required name = ErrValidation (name @ '' is required'') [\<lparr>fe_Field = name, fe_Issue = ''is required''\<rparr>]"

definition capacity_fields :: "capacityRequest \<Rightarrow> Error + int64 \<times> int64" where
  "capacity_fields req =
     (case gq_Bays req of
        None \<Rightarrow> Inl (field_required ''bays'')
      | Some bays \<Rightarrow>
          (case gq_TechnicianSlots req of
             None \<Rightarrow> Inl (field_required ''technician_slots'')
           | Some slots \<Rightarrow>
               if gq_OpeningTime req = [] then Inl (field_required ''opening_time'')
               else if gq_ClosingTime req = [] then Inl (field_required ''closing_time'')
               else Inr (bays, slots)))"

definition handlePutCapacity :: "garage_http \<Rightarrow> (capacityRequest body, garage_world, capacityResponse) handler" where
  "handlePutCapacity c cl q w =
     (case garageScope c cl of
        Inl e \<Rightarrow> (WriteError (AppError e), w)
      | Inr scope \<Rightarrow>
          (case cl of
             None \<Rightarrow> (WriteError (AppError (ErrUnauthorized ''authentication required'')), w)
           | Some claims \<Rightarrow>
               (case gh_parse c (cl_UserID claims) of
                  None \<Rightarrow> (WriteError (AppError (ErrUnauthorized ''authenticated subject is not a user identifier'')), w)
                | Some actor \<Rightarrow>
                    (case DecodeJSON q of
                       Inl e \<Rightarrow> (WriteError (AppError e), w)
                     | Inr req \<Rightarrow>
                         (case capacity_fields req of
                            Inl e \<Rightarrow> (WriteError (AppError e), w)
                          | Inr (bays, slots) \<Rightarrow>
                              (case UpdateCapacity (gh_env c) scope (Some actor) bays (gq_OpeningTime req)
                                  (gq_ClosingTime req) slots w of
                                 (Inl e, w') \<Rightarrow> (WriteError (garage_domain_error (gh_text c) e), w')
                               | (Inr v, w') \<Rightarrow> (Reply 200 (newCapacityResponse v), w')))))))"

datatype garage_request = GetCapacity | PutCapacity "capacityRequest body"

definition garage_Routes :: "garage_http \<Rightarrow> (garage_request, garage_world, capacityResponse) handler" where
  "garage_Routes c cl rq w =
     (case rq of
        GetCapacity \<Rightarrow> RequireAuthenticated (RequireRole capacityWriteRoles (handleGetCapacity c)) cl () w
      | PutCapacity b \<Rightarrow> RequireAuthenticated (RequireRole capacityWriteRoles (handlePutCapacity c)) cl b w)"

end
