(* ===== verification/Garage_Props.thy ===== *)
theory Garage_Props
  imports Garage
begin

text \<open>
  What the capacity table promises: one row per tenant with valid values in it, at all times, and
  that a garage reads back what it declared, with its times in normal form, whatever other garages do.
\<close>

section \<open>Wall-clock times\<close>

lemma parseWallClock_range:
  assumes "parseWallClock raw = Some t"
  obtains h m where "h < 24" "m < 60" "t = clock_time h m"
  using assms by (auto simp: parseWallClock_def not_le intro: that split: option.splits if_splits list.splits)

lemma clock_time_parts:
  assumes "h < 24" and "m < 60"
  shows "clock_time h m mod time_day = (int h * 60 + int m) * time_minute"
proof -
  have "(int h * 60 + int m) * time_minute < time_day" and "0 \<le> (int h * 60 + int m) * time_minute"
    using assms by (simp_all add: time_minute_def time_second_def time_day_def)
  moreover have "clock_time h m = (int h * 60 + int m) * time_minute + (- 366) * time_day"
    by (simp add: clock_time_def year_zero_def)
  ultimately show ?thesis by (simp only: mod_mult_self1 mod_pos_pos_trivial)
qed

lemma time_value_clock:
  assumes "h < 24" and "m < 60"
  shows "time_value (clock_time h m) = (int h * 60 + int m) * 60000000"
  using clock_time_parts [OF assms] by (simp add: time_value_def time_minute_def time_second_def)

lemma format_scanned_clock:
  assumes "h < 24" and "m < 60"
  shows "format_clock (scan_time (time_value (clock_time h m))) = two_digits h @ '':'' @ two_digits m"
proof -
  have "scan_time (time_value (clock_time h m)) = (int h * 60 + int m) * time_minute + 730119 * time_day"
    by (simp add: scan_time_def time_value_clock [OF assms] time_minute_def time_second_def)
  moreover have "(int h * 60 + int m) * time_minute < time_day" and "0 \<le> (int h * 60 + int m) * time_minute"
    using assms by (simp_all add: time_minute_def time_second_def time_day_def)
  ultimately have "scan_time (time_value (clock_time h m)) mod time_day = (int h * 60 + int m) * time_minute"
    by (simp only: mod_mult_self1 mod_pos_pos_trivial)
  then have "nat ((scan_time (time_value (clock_time h m)) mod time_day) div time_minute) = h * 60 + m"
    by (simp add: time_minute_def time_second_def nat_add_distrib nat_mult_distrib)
  then show ?thesis using assms(2) by (simp add: format_clock_def)
qed

lemma clock_time_less: "clock_time h m < clock_time h' m' \<longleftrightarrow> h * 60 + m < h' * 60 + m'"
proof -
  have "clock_time h m < clock_time h' m' \<longleftrightarrow> (int h * 60 + int m) * time_minute < (int h' * 60 + int m') * time_minute"
    by (simp add: clock_time_def)
  also have "\<dots> \<longleftrightarrow> int (h * 60 + m) < int (h' * 60 + m')"
    by (subst mult_less_cancel_right_pos) (simp_all add: time_minute_def time_second_def)
  finally show ?thesis by (simp only: of_nat_less_iff)
qed

lemma time_value_less:
  assumes "parseWallClock a = Some t" and "parseWallClock b = Some u"
  shows "time_value t < time_value u \<longleftrightarrow> t < u"
proof -
  obtain h m where t: "h < 24" "m < 60" "t = clock_time h m" using assms(1) by (rule parseWallClock_range)
  obtain h' m' where u: "h' < 24" "m' < 60" "u = clock_time h' m'" using assms(2) by (rule parseWallClock_range)
  have "time_value t < time_value u \<longleftrightarrow> int (h * 60 + m) * 60000000 < int (h' * 60 + m') * 60000000"
    by (simp only: t(3) u(3) time_value_clock [OF t(1,2)] time_value_clock [OF u(1,2)]) simp
  also have "\<dots> \<longleftrightarrow> h * 60 + m < h' * 60 + m'"
    by (subst mult_less_cancel_right_pos) (simp, simp only: of_nat_less_iff)
  finally show ?thesis by (simp only: t(3) u(3) clock_time_less)
qed

text \<open>What a column gives back for a declared time is a normal form: it denotes the same time.\<close>

lemma parse_two_digits:
  assumes "h < 24" and "m < 60"
  shows "parseWallClock (two_digits h @ '':'' @ two_digits m) = Some (clock_time h m)"
proof -
  have "h div 10 < 10" "m div 10 < 10" using assms by auto
  then show ?thesis using assms by (simp add: parseWallClock_def getnum_def two_digits_def)
qed

definition normal_clock :: "string \<Rightarrow> string" where
  "normal_clock raw = (case parseWallClock raw of None \<Rightarrow> raw | Some t \<Rightarrow> format_clock (scan_time (time_value t)))"

lemma parse_normal_clock:
  assumes "parseWallClock raw = Some t"
  shows "parseWallClock (normal_clock raw) = Some t" and "length (normal_clock raw) = 5"
proof -
  from assms obtain h m where hm: "h < 24" "m < 60" "t = clock_time h m" by (rule parseWallClock_range)
  show "parseWallClock (normal_clock raw) = Some t" "length (normal_clock raw) = 5"
    using hm assms by (simp_all only: normal_clock_def option.case format_scanned_clock parse_two_digits)
      (simp add: two_digits_def)
qed

section \<open>Integer columns\<close>

lemma int4_Some: "int4 n = Some v \<Longrightarrow> scast v = n \<and> sint v = sint n"
proof -
  assume "int4 n = Some v"
  then have v: "sint v = sint n" by (auto simp: int4_def Let_def split: if_splits)
  have "(scast v :: int64) = word_of_int (sint v)" by (rule scast_eq)
  then show ?thesis using v by simp
qed

section \<open>The table\<close>


definition capacity_of :: "uuid \<Rightarrow> capacity_row list \<Rightarrow> Capacity option" where
  "capacity_of tenant rows = map_option scanCapacity (row_get gr_tenant_id tenant rows)"

lemma write_capacity_keys [simp]:
  "gr_id (write_capacity b o' c s a n r) = gr_id r" "gr_tenant_id (write_capacity b o' c s a n r) = gr_tenant_id r"
  by (simp_all add: write_capacity_def)


text \<open>A successful upsert is the update of one entry of the map from tenants to capacities.\<close>

lemma UpsertCapacity_Inr:
  assumes "UpsertCapacity flt now k c rows = (Inr c', rows')"
  shows "cp_TenantID c \<noteq> uuid_nil"
    and "c' = c\<lparr>cp_CreatedAt := cp_CreatedAt c', cp_UpdatedAt := now\<rparr>"
    and "capacity_of tenant rows' = (if tenant = cp_TenantID c
          then Some (c'\<lparr>cp_OpeningTime := normal_clock (cp_OpeningTime c), cp_ClosingTime := normal_clock (cp_ClosingTime c)\<rparr>)
          else capacity_of tenant rows)"
  using assms
  by (cases c; auto simp: UpsertCapacity_def Let_def capacity_of_def row_get_ins row_get_upd scanCapacity_def
      fresh_capacity_def write_capacity_def normal_clock_def
      split: option.splits if_splits dest!: finish_Inr int4_Some dest: row_get_key)+

lemma UpsertCapacity_others:
  "tenant \<noteq> cp_TenantID c \<Longrightarrow>
    row_get gr_tenant_id tenant (snd (UpsertCapacity flt now k c rows)) = row_get gr_tenant_id tenant rows"
  by (auto simp: UpsertCapacity_def Let_def finish_def row_get_ins row_get_upd fresh_capacity_def split: option.splits)

lemma garage_publish_rows [simp]: "gw_rows (snd (garage_publish e ty ag t a pl w)) = gw_rows w"
  by (auto simp: garage_publish_def Let_def split: option.splits)


text \<open>The checks of the service are enough for those of the table, integers that do not fit apart.\<close>

lemma validated_upsert:
  assumes "validate_capacity c = None" and "cp_TenantID c \<noteq> uuid_nil"
    and "int4 (cp_Bays c) = Some bays" and "int4 (cp_TechnicianSlots c) = Some slots"
    and "row_get gr_id k rows = None"
  shows "\<exists>c'. fst (UpsertCapacity Healthy now k c rows) = Inr c'"
proof -
  from assms(1) obtain a b where t: "parseWallClock (cp_OpeningTime c) = Some a" "parseWallClock (cp_ClosingTime c) = Some b"
    "a < b" "0 \<le> sint (cp_Bays c)" "0 \<le> sint (cp_TechnicianSlots c)"
    by (auto simp: validate_capacity_def split: option.splits if_splits)
  have "sint bays = sint (cp_Bays c)" "sint slots = sint (cp_TechnicianSlots c)"
    using assms(3,4) by (simp_all add: int4_Some)
  then show ?thesis using assms t time_value_less [OF t(1,2)]
    by (auto simp: UpsertCapacity_def Let_def garage_checks_def fresh_capacity_def write_capacity_def split: option.splits)
qed

section \<open>Requests\<close>

lemma garageScope_Inr:
  "garageScope c cl = Inr s \<longleftrightarrow> (\<exists>claims t. cl = Some claims \<and> s = \<lparr>gs_TenantID = Some t, gs_Operator = False\<rparr> \<and>
     cl_TenantID claims \<noteq> [] \<and> gh_parse c (cl_TenantID claims) = Some t \<and> \<not> Garage_IsOperatorRole (cl_Role claims))"
  by (cases s) (auto simp: garageScope_def garage_readScope_def split: option.splits if_splits)






definition garage_claims :: Claims where
  "garage_claims = \<lparr>cl_UserID = ''u7'', cl_TenantID = ''t3'', cl_Role = ''GARAGE'', cl_SessionID = [],
     cl_IssuedAt = 0, cl_ExpiresAt = 0\<rparr>"

definition calm_garage :: garage_http where
  "calm_garage = \<lparr>gh_parse = map_of [(''u7'', 7), (''t3'', 3), (''t4'', 4)], gh_text = (\<lambda>_. []),
     gh_env = \<lparr>gc_flt = Healthy, gc_now = 50, gc_fresh = 11, gc_pub = None, gc_correlation = []\<rparr>\<rparr>"

definition sample_put :: capacityRequest where
  "sample_put = \<lparr>gq_Bays = Some 4, gq_OpeningTime = ''7:30'', gq_ClosingTime = ''19:00'', gq_TechnicianSlots = Some 6\<rparr>"

definition empty_garage :: garage_world where "empty_garage = \<lparr>gw_rows = [], gw_events = []\<rparr>"

fun is_reply :: "'b response \<Rightarrow> bool" where
  "is_reply (Reply s x) = True"
| "is_reply (Problem e) = False"



text \<open>
  A garage reads back what it declared. When a write was answered with 200, a read of the same
  tenant on a healthy database, by whichever of its principals, gives the declared counts, the
  subject of the write, and the declared times in the form HH:MM; what any other tenant reads has not
  changed.
\<close>

theorem capacity_read_back:
  assumes put: "garage_Routes c cl (PutCapacity (JsonBody b)) w = (Reply s x, w')"
    and reader: "cl_Role r = RoleGarage" "cl_TenantID r \<noteq> []" "gh_parse d (cl_TenantID r) = Some t"
    and healthy: "gc_flt (gh_env d) = Healthy"
  shows "\<exists>claims writer bays slots at. cl = Some claims \<and> gh_parse c (cl_TenantID claims) = Some writer \<and>
    gq_Bays b = Some bays \<and> gq_TechnicianSlots b = Some slots \<and>
    garage_Routes d (Some r) GetCapacity w' =
      (if t = writer then (Reply 200 \<lparr>gx_Bays = bays, gx_OpeningTime = normal_clock (gq_OpeningTime b),
           gx_ClosingTime = normal_clock (gq_ClosingTime b), gx_TechnicianSlots = slots,
           gx_UpdatedAt = at, gx_UpdatedBy = gh_parse c (cl_UserID claims)\<rparr>, w')
       else (fst (garage_Routes d (Some r) GetCapacity w), w'))"
proof -
  have get: "garage_Routes d (Some r) GetCapacity v =
      (Reply 200 (newCapacityResponse (case capacity_of t (gw_rows v) of None \<Rightarrow> defaultCapacity t | Some k \<Rightarrow> k)), v)" for v
    using reader healthy
    by (simp add: garage_Routes_def RequireAuthenticated_def RequireRole_def capacityWriteRoles_def handleGetCapacity_def
        garageScope_def garage_readScope_def RoleGarage_def Garage_IsOperatorRole_def Garage_OperatorRoles_def
        Service_Capacity_def Store_Capacity_def capacity_of_def split: option.splits)
  from put obtain claims scope writer actor bays slots v where
    cl: "cl = Some claims" and scope: "garageScope c (Some claims) = Inr scope" "gs_TenantID scope = Some writer"
      "gh_parse c (cl_TenantID claims) = Some writer"
    and actor: "gh_parse c (cl_UserID claims) = Some actor"
    and fields: "gq_Bays b = Some bays" "gq_TechnicianSlots b = Some slots"
    and upd: "UpdateCapacity (gh_env c) scope (Some actor) bays (gq_OpeningTime b) (gq_ClosingTime b) slots w = (Inr v, w')"
    by (auto simp: garage_Routes_def RequireAuthenticated_def RequireRole_def handlePutCapacity_def WriteError_def
        capacity_fields_def garageScope_Inr split: option.splits sum.splits prod.splits if_splits)
  let ?k = "\<lparr>cp_TenantID = writer, cp_Bays = bays, cp_OpeningTime = gq_OpeningTime b, cp_ClosingTime = gq_ClosingTime b,
    cp_TechnicianSlots = slots, cp_UpdatedBy = Some actor, cp_CreatedAt = 0, cp_UpdatedAt = 0\<rparr>"
  have pub: "gw_rows y = gw_rows u" if "garage_publish (gh_env c) ty ag tn ac pl u = (rr, y)" for ty ag tn ac pl u rr y
    using garage_publish_rows [of "gh_env c" ty ag tn ac pl u] that by simp
  from upd scope(2) have
    "UpsertCapacity (gc_flt (gh_env c)) (gc_now (gh_env c)) (gc_fresh (gh_env c)) ?k (gw_rows w) = (Inr v, gw_rows w')"
    by (auto simp: UpdateCapacity_def Let_def split: option.splits sum.splits prod.splits dest: pub)
  note ups = UpsertCapacity_Inr [OF this]
  show ?thesis
    using cl scope(3) fields actor ups(3) [of t] arg_cong [OF ups(2), of cp_Bays] arg_cong [OF ups(2), of cp_TechnicianSlots]
      arg_cong [OF ups(2), of cp_UpdatedBy]
    by (auto simp: get newCapacityResponse_def)
qed

text \<open>The answer to a write repeats the times as they were sent, which need not be how they are read.\<close>

lemma put_answer_not_normal:
  "(case fst (garage_Routes calm_garage (Some garage_claims) (PutCapacity (JsonBody sample_put)) empty_garage) of
      Reply _ x \<Rightarrow> gx_OpeningTime x = ''7:30'' | _ \<Rightarrow> False) \<and> normal_clock ''7:30'' = ''07:30''"
  by code_simp

theorem capacity_read_back_witness:
  "\<exists>w'. garage_Routes calm_garage (Some (garage_claims\<lparr>cl_TenantID := ''t4''\<rparr>)) GetCapacity w' =
     (fst (garage_Routes calm_garage (Some (garage_claims\<lparr>cl_TenantID := ''t4''\<rparr>)) GetCapacity empty_garage), w')"
proof -
  let ?o = "garage_Routes calm_garage (Some garage_claims) (PutCapacity (JsonBody sample_put)) empty_garage"
  have "is_reply (fst ?o)" by code_simp
  then obtain s x where put: "?o = (Reply s x, snd ?o)" by (cases ?o; cases "fst ?o") auto
  let ?r = "garage_claims\<lparr>cl_TenantID := ''t4''\<rparr>"
  have r: "cl_Role ?r = RoleGarage" "cl_TenantID ?r \<noteq> []" "gh_parse calm_garage (cl_TenantID ?r) = Some 4"
    "gc_flt (gh_env calm_garage) = Healthy"
    by (simp_all add: garage_claims_def RoleGarage_def calm_garage_def)
  have "gh_parse calm_garage (cl_TenantID garage_claims) = Some 3" by (simp add: garage_claims_def calm_garage_def)
  with capacity_read_back [OF put r] show ?thesis by auto
qed

section \<open>Where the interface departs from its documentation\<close>

text \<open>
  \<open>writeDomainError\<close> is documented to render errors it does not know as 500 without their text. It
  renders them as 422 with their text: a failed statement, whose error names what the database said,
  is presented to the caller as its own mistake.
\<close>

theorem database_failure_disclosed:
  assumes "cl_Role r = RoleGarage" and "cl_TenantID r \<noteq> []" and "gh_parse c (cl_TenantID r) = Some t"
    and "gc_flt (gh_env c) \<noteq> Healthy"
  shows "garage_Routes c (Some r) GetCapacity w = (Problem (ErrValidation (gh_text c ErrGarageDb) []), w)"
  using assms
  by (simp add: garage_Routes_def RequireAuthenticated_def RequireRole_def capacityWriteRoles_def handleGetCapacity_def
      garageScope_def garage_readScope_def RoleGarage_def Garage_IsOperatorRole_def Garage_OperatorRoles_def
      Service_Capacity_def Store_Capacity_def WriteError_def)

end
