(* ===== verification/Money.thy ===== *)
theory Money
  imports Go_Strings
begin

text \<open>
  \<open>backend/payments/money.go\<close>: amounts of KES minor units as \<open>int64\<close>, with overflow- and
  negativity-checked arithmetic. The lemmas show that a successful operation is exact on the
  integers, when it succeeds, and that subtraction undoes addition.
\<close>

section \<open>Model\<close>

definition CurrencyKES :: string where "CurrencyKES = ''KES''"

record Money =
  AmountMinor :: int64
  Currency :: string

datatype money_error =
    UnsupportedCurrency string
  | NotPositive int64
  | LeftOperand money_error
  | RightOperand money_error
  | CurrencyMismatch string string
  | Overflows int64 int64
  | WouldGoNegative int64 int64
  | WouldBeZero int64 int64

text \<open>The error of \<open>Validate\<close>; \<open>None\<close> is Go's nil.\<close>

definition Validate :: "Money \<Rightarrow> money_error option" where
  "Validate m =
     (if Currency m \<noteq> CurrencyKES then Some (UnsupportedCurrency (Currency m))
      else if sint (AmountMinor m) \<le> 0 then Some (NotPositive (AmountMinor m))
      else None)"

definition NewMoney :: "int64 \<Rightarrow> string \<Rightarrow> money_error + Money" where
  "NewMoney amt cur =
     (let m = \<lparr>AmountMinor = amt, Currency = cur\<rparr>
      in case Validate m of Some e \<Rightarrow> Inl e | None \<Rightarrow> Inr m)"

definition Add :: "Money \<Rightarrow> Money \<Rightarrow> money_error + Money" where
  "Add a b =
     (case Validate a of Some e \<Rightarrow> Inl (LeftOperand e) | None \<Rightarrow>
      case Validate b of Some e \<Rightarrow> Inl (RightOperand e) | None \<Rightarrow>
      if Currency a \<noteq> Currency b then Inl (CurrencyMismatch (Currency a) (Currency b))
      else if sint (AmountMinor a) > sint (9223372036854775807 - AmountMinor b)
        then Inl (Overflows (AmountMinor a) (AmountMinor b))
      else Inr \<lparr>AmountMinor = AmountMinor a + AmountMinor b, Currency = Currency a\<rparr>)"

definition Subtract :: "Money \<Rightarrow> Money \<Rightarrow> money_error + Money" where
  "Subtract a b =
     (case Validate a of Some e \<Rightarrow> Inl (LeftOperand e) | None \<Rightarrow>
      case Validate b of Some e \<Rightarrow> Inl (RightOperand e) | None \<Rightarrow>
      if Currency a \<noteq> Currency b then Inl (CurrencyMismatch (Currency b) (Currency a))
      else if sint (AmountMinor b) > sint (AmountMinor a)
        then Inl (WouldGoNegative (AmountMinor a) (AmountMinor b))
      else if AmountMinor b = AmountMinor a
        then Inl (WouldBeZero (AmountMinor a) (AmountMinor b))
      else Inr \<lparr>AmountMinor = AmountMinor a - AmountMinor b, Currency = Currency a\<rparr>)"

definition EqualSameCurrency :: "Money \<Rightarrow> Money \<Rightarrow> bool" where
  "EqualSameCurrency a b \<longleftrightarrow> AmountMinor a = AmountMinor b \<and> Currency a = Currency b"

text \<open>Go's truncating division and remainder, and the verb \<open>%02d\<close>.\<close>

definition go_div :: "int \<Rightarrow> int \<Rightarrow> int" where
  "go_div a b = sgn a * sgn b * (\<bar>a\<bar> div \<bar>b\<bar>)"

definition go_mod :: "int \<Rightarrow> int \<Rightarrow> int" where
  "go_mod a b = a - b * go_div a b"

definition dec_pad2 :: "int \<Rightarrow> string" where
  "dec_pad2 i = (if 0 \<le> i \<and> i < 10 then CHR ''0'' # dec_int i else dec_int i)"

definition money_String :: "Money \<Rightarrow> string" where
  "money_String m =
     (let a = sint (AmountMinor m); n = sint (- AmountMinor m) in
      if Currency m = [] then dec_int a
      else if a < 0
        then Currency m @ '' -'' @ dec_int (go_div n 100) @ ''.'' @ dec_pad2 (go_mod n 100)
      else Currency m @ '' '' @ dec_int (go_div a 100) @ ''.'' @ dec_pad2 (go_mod a 100))"

section \<open>Correctness\<close>

definition valid_money :: "Money \<Rightarrow> bool" where
  "valid_money m \<longleftrightarrow> Currency m = CurrencyKES \<and> 0 < sint (AmountMinor m)"

lemma Validate_None: "Validate m = None \<longleftrightarrow> valid_money m"
  by (auto simp: Validate_def valid_money_def)

lemma NewMoney_Inr: "NewMoney a c = Inr m \<longleftrightarrow> m = \<lparr>AmountMinor = a, Currency = c\<rparr> \<and> valid_money m"
  using Validate_None [of "\<lparr>AmountMinor = a, Currency = c\<rparr>"]
  by (auto simp: NewMoney_def Let_def split: option.splits)

lemma NewMoney_valid: "NewMoney a c = Inr m \<Longrightarrow> valid_money m"
  using NewMoney_Inr by blast

lemma max_minus:
  assumes "0 < sint (b :: int64)"
  shows "sint (9223372036854775807 - b) = max_int64 - sint b"
  using assms sint_int64_bounds [of b] by (subst sint_minus_int64) simp_all

lemma Add_Inr:
  "Add a b = Inr m \<longleftrightarrow>
     valid_money a \<and> valid_money b \<and> sint (AmountMinor a) + sint (AmountMinor b) \<le> max_int64 \<and>
     m = \<lparr>AmountMinor = AmountMinor a + AmountMinor b, Currency = Currency a\<rparr>"
proof (cases "valid_money a \<and> valid_money b")
  case True
  then have "Validate a = None" "Validate b = None" by (simp_all add: Validate_None)
  with True show ?thesis by (auto simp: Add_def valid_money_def max_minus)
next
  case False
  then show ?thesis using Validate_None [of a] Validate_None [of b]
    by (auto simp: Add_def split: option.split)
qed

lemma Subtract_Inr:
  "Subtract a b = Inr m \<longleftrightarrow>
     valid_money a \<and> valid_money b \<and> sint (AmountMinor b) < sint (AmountMinor a) \<and>
     m = \<lparr>AmountMinor = AmountMinor a - AmountMinor b, Currency = Currency a\<rparr>"
proof (cases "valid_money a \<and> valid_money b")
  case True
  then have "Validate a = None" "Validate b = None" by (simp_all add: Validate_None)
  moreover have "AmountMinor b = AmountMinor a \<longleftrightarrow> sint (AmountMinor b) = sint (AmountMinor a)"
    by (simp add: sint_int64_inject)
  ultimately show ?thesis using True by (auto simp: Subtract_def valid_money_def)
next
  case False
  then show ?thesis using Validate_None [of a] Validate_None [of b]
    by (auto simp: Subtract_def split: option.split)
qed

lemma sint_add_exact:
  assumes "0 < sint a" "0 < sint b" "sint a + sint b \<le> max_int64"
  shows "sint (a + b :: int64) = sint a + sint b"
  using assms by (intro sint_plus_int64) simp_all

lemma sint_sub_exact:
  assumes "0 < sint b" "sint b < sint a"
  shows "sint (a - b :: int64) = sint a - sint b"
  using assms sint_int64_bounds [of a] by (intro sint_minus_int64) simp_all

lemma money_eq_iff: "m = \<lparr>AmountMinor = x, Currency = c\<rparr> \<longleftrightarrow> AmountMinor m = x \<and> Currency m = c"
  by (cases m) simp

lemma Add_exact:
  "Add a b = Inr m \<longleftrightarrow>
     valid_money a \<and> valid_money b \<and> valid_money m \<and>
     sint (AmountMinor m) = sint (AmountMinor a) + sint (AmountMinor b)" (is "_ \<longleftrightarrow> ?r")
proof
  assume "Add a b = Inr m"
  then show ?r by (auto simp: Add_Inr valid_money_def sint_add_exact)
next
  assume r: ?r
  then have le: "sint (AmountMinor a) + sint (AmountMinor b) \<le> max_int64"
    using sint_int64_bounds(2) [of "AmountMinor m"] by simp
  with r have "AmountMinor m = AmountMinor a + AmountMinor b"
    by (simp add: sint_int64_inject [symmetric] valid_money_def sint_add_exact)
  with r le show "Add a b = Inr m" by (simp add: Add_Inr money_eq_iff valid_money_def)
qed

lemma Subtract_exact:
  "Subtract a b = Inr m \<longleftrightarrow>
     valid_money a \<and> valid_money b \<and> valid_money m \<and>
     sint (AmountMinor m) = sint (AmountMinor a) - sint (AmountMinor b)" (is "_ \<longleftrightarrow> ?r")
proof
  assume "Subtract a b = Inr m"
  then show ?r by (auto simp: Subtract_Inr valid_money_def sint_sub_exact)
next
  assume r: ?r
  then have lt: "sint (AmountMinor b) < sint (AmountMinor a)" by (simp add: valid_money_def)
  with r have "AmountMinor m = AmountMinor a - AmountMinor b"
    by (simp add: sint_int64_inject [symmetric] valid_money_def sint_sub_exact)
  with r lt show "Subtract a b = Inr m" by (simp add: Subtract_Inr money_eq_iff valid_money_def)
qed

text \<open>
  Money arithmetic never wraps around and never invents money. \<open>Add\<close> returns \<open>m\<close> exactly when
  both operands and \<open>m\<close> are legal (strictly positive KES) amounts and \<open>m\<close> is their integer sum;
  \<open>Subtract\<close> returns \<open>m\<close> exactly when the three are legal and \<open>m\<close> is the integer difference. In
  every other case (overflow, a zero or negative result, a foreign currency) both are errors.
\<close>

theorem money_arithmetic_exact:
  "(Add a b = Inr m \<longleftrightarrow>
     valid_money a \<and> valid_money b \<and> valid_money m \<and>
     sint (AmountMinor m) = sint (AmountMinor a) + sint (AmountMinor b)) \<and>
   (Subtract a b = Inr m \<longleftrightarrow>
     valid_money a \<and> valid_money b \<and> valid_money m \<and>
     sint (AmountMinor m) = sint (AmountMinor a) - sint (AmountMinor b))"
  using Add_exact Subtract_exact by blast

text \<open>
  Subtraction undoes addition and conversely: \<open>a + b\<close> is accepted with result \<open>m\<close> exactly when
  \<open>m - b\<close> is accepted with result \<open>a\<close>.
\<close>

theorem subtract_undoes_add: "Subtract m b = Inr a \<longleftrightarrow> Add a b = Inr m"
  by (auto simp: Add_exact Subtract_exact)

end
