(* ===== verification/Pay_Models.thy ===== *)
theory Pay_Models
  imports Sql Status_Machines Money Platform_Http
begin

text \<open>
  The data of the payments domain: \<open>backend/payments/models.go\<close>, the value types of
  \<open>provider.go\<close>, \<open>store.go\<close> and \<open>service.go\<close>, the error sentinels, and the read scopes of
  \<open>scope.go\<close>. A Go struct and the row of its table share one record: its parameter is the type of
  the nullable text columns, \<open>string\<close> in the struct and \<open>string option\<close> in the row.
\<close>

section \<open>Aggregates\<close>

record 't PaymentIntent =
  pi_ID :: uuid
  pi_TenantID :: "uuid option"
  pi_CustomerID :: "uuid option"
  pi_CreatedBy :: uuid
  pi_AmountMinor :: int64
  pi_Currency :: string
  pi_Status :: IntentStatus
  pi_Provider :: string
  pi_ProviderRef :: 't
  pi_JobID :: "uuid option"
  pi_VehicleID :: "uuid option"
  pi_Description :: string
  pi_FailureReason :: 't
  pi_SucceededAt :: "gotime option"
  pi_FailedAt :: "gotime option"
  pi_CanceledAt :: "gotime option"
  pi_CreatedAt :: gotime
  pi_UpdatedAt :: gotime

record 't Transaction =
  tx_ID :: uuid
  tx_IntentID :: uuid
  tx_Provider :: string
  tx_ProviderRef :: 't
  tx_ProviderReceipt :: 't
  tx_Status :: TransactionStatus
  tx_AmountMinor :: int64
  tx_Currency :: string
  tx_FailureReason :: 't
  tx_OccurredAt :: "gotime option"
  tx_CreatedAt :: gotime
  tx_UpdatedAt :: gotime

record 't Refund =
  rf_ID :: uuid
  rf_IntentID :: uuid
  rf_AmountMinor :: int64
  rf_Currency :: string
  rf_Status :: RefundStatus
  rf_Provider :: string
  rf_ProviderRef :: 't
  rf_Reason :: string
  rf_FailureReason :: 't
  rf_RequestedBy :: "uuid option"
  rf_CreatedAt :: gotime
  rf_UpdatedAt :: gotime

type_synonym intent = "string PaymentIntent"
type_synonym intent_row = "string option PaymentIntent"
type_synonym txn = "string Transaction"
type_synonym txn_row = "string option Transaction"
type_synonym refund = "string Refund"
type_synonym refund_row = "string option Refund"

record IntentTransition =
  it_IntentID :: uuid
  it_FromStatus :: IntentStatus
  it_ToStatus :: IntentStatus
  it_ActorID :: "uuid option"
  it_Reason :: string
  it_CreatedAt :: gotime

record WebhookPayload =
  wp_Event :: string
  wp_Provider :: string
  wp_IntentID :: uuid
  wp_TransactionID :: uuid
  wp_ProviderRef :: string
  wp_ProviderReceipt :: string
  wp_AmountMinor :: int64
  wp_Currency :: string
  wp_FailureReason :: string
  wp_OccurredAt :: gotime

section \<open>Errors\<close>

text \<open>
  The sentinels \<open>errors.Is\<close> distinguishes; \<open>ErrDatabase\<close> stands for every wrapped driver error,
  \<open>ErrPublish\<close> for a failed event publication.
\<close>

datatype pay_error =
    ErrIntentNotFound
  | ErrTransactionNotFound
  | ErrRefundNotFound
  | ErrPayConflict
  | ErrInvalidInput
  | ErrNotRefundable
  | ErrAlreadyRefunded
  | ErrWebhookUnauthorized
  | ErrWebhookRejected
  | ErrProviderUnavailable
  | ErrProviderRejected
  | ErrProviderOther
  | ErrDatabase
  | ErrPublish
  | ErrUnauthorizedClaims

section \<open>Read scopes\<close>

record Scope =
  sc_TenantID :: "uuid option"
  sc_PrincipalID :: "uuid option"
  sc_explicitUnrestricted :: bool

definition zero_scope :: Scope where
  "zero_scope = \<lparr>sc_TenantID = None, sc_PrincipalID = None, sc_explicitUnrestricted = False\<rparr>"

definition UnrestrictedScope :: Scope where
  "UnrestrictedScope = \<lparr>sc_TenantID = None, sc_PrincipalID = None, sc_explicitUnrestricted = True\<rparr>"

definition Unrestricted :: "Scope \<Rightarrow> bool" where
  "Unrestricted s \<longleftrightarrow> sc_explicitUnrestricted s \<and> sc_TenantID s = None \<and> sc_PrincipalID s = None"

datatype pay_col = TenantCol | CreatorCol | CustomerCol

definition scopePredicate :: "Scope \<Rightarrow> nat \<Rightarrow> pay_col sql_cond \<times> uuid list" where
  "scopePredicate scope nextParam =
     (if Unrestricted scope then (SqlTrue, [])
      else case sc_TenantID scope of
        Some t \<Rightarrow> (SqlEq TenantCol nextParam, [t])
      | None \<Rightarrow>
          (case sc_PrincipalID scope of
             Some p \<Rightarrow> (SqlOr (SqlEq CreatorCol nextParam) (SqlEq CustomerCol nextParam), [p, p])
           | None \<Rightarrow> (SqlFalse, [])))"

text \<open>The boundary columns of an intent row.\<close>

fun intent_col :: "('t, 'z) PaymentIntent_scheme \<Rightarrow> pay_col \<Rightarrow> uuid option" where
  "intent_col r TenantCol = pi_TenantID r"
| "intent_col r CreatorCol = Some (pi_CreatedBy r)"
| "intent_col r CustomerCol = pi_CustomerID r"

definition RoleCustomer :: string where "RoleCustomer = ''CUSTOMER''"
definition RoleTechnician :: string where "RoleTechnician = ''TECHNICIAN''"
definition RoleGarage :: string where "RoleGarage = ''GARAGE''"
definition RoleDispatcher :: string where "RoleDispatcher = ''DISPATCHER''"
definition RoleAdmin :: string where "RoleAdmin = ''ADMIN''"
definition RoleSuperAdmin :: string where "RoleSuperAdmin = ''SUPER_ADMIN''"

definition PaymentRoles :: "string list" where
  "PaymentRoles = [RoleGarage, RoleDispatcher, RoleAdmin, RoleSuperAdmin]"

definition PayOperatorRoles :: "string list" where
  "PayOperatorRoles = [RoleAdmin, RoleSuperAdmin]"

definition IsPaymentRole :: "string \<Rightarrow> bool" where
  "IsPaymentRole role \<longleftrightarrow> role \<in> set PaymentRoles"

definition IsPayOperatorRole :: "string \<Rightarrow> bool" where
  "IsPayOperatorRole role \<longleftrightarrow> role \<in> set PayOperatorRoles"

text \<open>
  \<open>ScopeFromClaims\<close>; the parser of \<open>github.com/google/uuid\<close> is the parameter \<open>uuid_parse\<close>.
\<close>

definition ScopeFromClaims :: "(string \<Rightarrow> uuid option) \<Rightarrow> Claims \<Rightarrow> pay_error + Scope" where
  "ScopeFromClaims uuid_parse claims =
     (if IsPayOperatorRole (cl_Role claims) then Inr UnrestrictedScope
      else if cl_TenantID claims \<noteq> [] then
        (case uuid_parse (cl_TenantID claims) of
           None \<Rightarrow> Inl ErrUnauthorizedClaims
         | Some t \<Rightarrow> Inr \<lparr>sc_TenantID = Some t, sc_PrincipalID = None, sc_explicitUnrestricted = False\<rparr>)
      else
        (case uuid_parse (cl_UserID claims) of
           None \<Rightarrow> Inl ErrUnauthorizedClaims
         | Some p \<Rightarrow> Inr \<lparr>sc_TenantID = None, sc_PrincipalID = Some p, sc_explicitUnrestricted = False\<rparr>))"

section \<open>Visibility\<close>

text \<open>
  The abstract meaning of a scope: which intents it admits. \<open>scopePredicate\<close> implements it, once
  its condition is evaluated with its arguments at the positions it was rendered for.
\<close>

definition visible :: "Scope \<Rightarrow> ('t, 'z) PaymentIntent_scheme \<Rightarrow> bool" where
  "visible s r \<longleftrightarrow>
     (if Unrestricted s then True
      else case sc_TenantID s of
        Some t \<Rightarrow> pi_TenantID r = Some t
      | None \<Rightarrow>
          (case sc_PrincipalID s of
             Some p \<Rightarrow> pi_CreatedBy r = p \<or> pi_CustomerID r = Some p
           | None \<Rightarrow> False))"

lemma scopePredicate_meaning:
  "scopePredicate s (Suc (length pre)) = (c, args) \<Longrightarrow>
     sql_eval (intent_col r) (pre @ args @ post) c \<longleftrightarrow> visible s r"
  by (auto simp: scopePredicate_def visible_def sql_arg_def col_eq_def nth_append
      split: if_splits option.splits)

lemma zero_scope_invisible: "\<not> visible zero_scope r"
  by (simp add: visible_def zero_scope_def Unrestricted_def)

lemma scopePredicate_args: "length (snd (scopePredicate s n)) \<le> 2"
  by (auto simp: scopePredicate_def split: option.split)

text \<open>
  A personal principal's predicate names one placeholder but brings two arguments.
\<close>

lemma scopePredicate_principal:
  assumes "sc_TenantID s = None" and "sc_PrincipalID s = Some p"
  shows "scopePredicate s n = (SqlOr (SqlEq CreatorCol n) (SqlEq CustomerCol n), [p, p])"
  using assms by (simp add: scopePredicate_def Unrestricted_def)

end
