(* ===== verification/Pay_Store.thy ===== *)
theory Pay_Store
  imports Pay_Models "HOL-Library.Product_Lexorder"
begin

text \<open>
  The payments repository \<open>backend/payments/store.go\<close> on the tables of
  \<open>backend/migrations/payments\<close>, with their CHECK constraints, unique indexes, foreign keys and
  triggers. An operation takes the fault of this call, the database clock and, where it may draw
  one, a fresh identifier; a writing operation returns the result and the new tables. A
  transaction that ends in an error leaves the tables as they were, unless the commit went through
  and only its acknowledgement was lost.

  The theory shows the integrity of the ledger: the invariant \<open>ledger_ok\<close>, and the relation
  \<open>ledger_evolves\<close> between the tables before and after any sequence of operations (no row is ever
  lost, settled money never moves again, the audit log only grows).
\<close>

section \<open>Tables\<close>

record idem_key =
  ik_Key :: string
  ik_Scope :: string
  ik_PayloadHash :: string
  ik_Result :: string
  ik_CreatedAt :: gotime
  ik_CompletedAt :: "gotime option"

record pay_db =
  intents_t :: "intent_row list"
  txns_t :: "txn_row list"
  refunds_t :: "refund_row list"
  keys_t :: "idem_key list"
  log_t :: "IntentTransition list"

definition empty_pay_db :: pay_db where
  "empty_pay_db = \<lparr>intents_t = [], txns_t = [], refunds_t = [], keys_t = [], log_t = []\<rparr>"

abbreviation get_intent :: "uuid \<Rightarrow> pay_db \<Rightarrow> intent_row option" where
  "get_intent k db \<equiv> row_get pi_ID k (intents_t db)"

abbreviation get_txn :: "uuid \<Rightarrow> pay_db \<Rightarrow> txn_row option" where
  "get_txn k db \<equiv> row_get tx_ID k (txns_t db)"

abbreviation get_refund :: "uuid \<Rightarrow> pay_db \<Rightarrow> refund_row option" where
  "get_refund k db \<equiv> row_get rf_ID k (refunds_t db)"

abbreviation get_key :: "string \<Rightarrow> pay_db \<Rightarrow> idem_key option" where
  "get_key k db \<equiv> row_get ik_Key k (keys_t db)"

subsection \<open>Constraints and triggers of the migrations\<close>

definition amount_ok :: "int64 \<Rightarrow> string \<Rightarrow> bool" where
  "amount_ok a c \<longleftrightarrow> 0 < sint a \<and> c = CurrencyKES"

definition intent_row_ok :: "intent_row \<Rightarrow> bool" where
  "intent_row_ok r \<longleftrightarrow> amount_ok (pi_AmountMinor r) (pi_Currency r) \<and> isKnownIntentStatus (pi_Status r)"

definition txn_row_ok :: "txn_row \<Rightarrow> bool" where
  "txn_row_ok r \<longleftrightarrow> amount_ok (tx_AmountMinor r) (tx_Currency r) \<and> isKnownTransactionStatus (tx_Status r)"

definition refund_row_ok :: "refund_row \<Rightarrow> bool" where
  "refund_row_ok r \<longleftrightarrow> amount_ok (rf_AmountMinor r) (rf_Currency r) \<and> isKnownRefundStatus (rf_Status r)"

text \<open>A partial unique index over a nullable text column: NULL and the empty string never collide.\<close>

definition same_ref :: "string option \<Rightarrow> string option \<Rightarrow> bool" where
  "same_ref a b \<longleftrightarrow> a = b \<and> a \<noteq> None \<and> a \<noteq> Some []"

definition txn_unique :: "txn_row \<Rightarrow> txn_row list \<Rightarrow> bool" where
  "txn_unique r rows \<longleftrightarrow>
     list_all (\<lambda>r'. tx_ID r' = tx_ID r \<or>
        \<not> (tx_Provider r' = tx_Provider r \<and>
           (same_ref (tx_ProviderRef r') (tx_ProviderRef r) \<or>
            same_ref (tx_ProviderReceipt r') (tx_ProviderReceipt r)))) rows"

definition refund_unique :: "refund_row \<Rightarrow> refund_row list \<Rightarrow> bool" where
  "refund_unique r rows \<longleftrightarrow>
     rf_Status r \<noteq> RefundRequested \<or>
     list_all (\<lambda>r'. rf_ID r' = rf_ID r \<or> rf_IntentID r' \<noteq> rf_IntentID r \<or>
        rf_Status r' \<noteq> RefundRequested) rows"

text \<open>\<open>prevent_payment_intent_terminal_mutation\<close>.\<close>

definition intent_trigger :: "intent_row \<Rightarrow> intent_row \<Rightarrow> bool" where
  "intent_trigger old new \<longleftrightarrow>
     \<not> (pi_Status old \<in> {IntentSucceeded, IntentFailed, IntentCanceled} \<and> pi_Status new \<noteq> pi_Status old) \<and>
     pi_AmountMinor new = pi_AmountMinor old \<and> pi_Currency new = pi_Currency old"

text \<open>\<open>guard_payment_transaction_update\<close>.\<close>

definition txn_trigger :: "txn_row \<Rightarrow> txn_row \<Rightarrow> bool" where
  "txn_trigger old new \<longleftrightarrow>
     tx_IntentID new = tx_IntentID old \<and> tx_AmountMinor new = tx_AmountMinor old \<and>
     tx_Currency new = tx_Currency old \<and> tx_Provider new = tx_Provider old \<and>
     tx_CreatedAt new = tx_CreatedAt old \<and>
     tx_Status old = TxPending \<and> tx_Status new \<in> {TxSucceeded, TxFailed}"

text \<open>\<open>guard_payment_refund_update\<close>.\<close>

definition refund_trigger :: "refund_row \<Rightarrow> refund_row \<Rightarrow> bool" where
  "refund_trigger old new \<longleftrightarrow>
     rf_IntentID new = rf_IntentID old \<and> rf_AmountMinor new = rf_AmountMinor old \<and>
     rf_Currency new = rf_Currency old \<and> rf_Provider new = rf_Provider old \<and>
     rf_CreatedAt new = rf_CreatedAt old \<and>
     rf_Status old = RefundRequested \<and> rf_Status new \<in> {RefundCompleted, RefundFailed}"

text \<open>\<open>guard_payment_idempotency_key_update\<close>.\<close>

definition key_trigger :: "idem_key \<Rightarrow> idem_key \<Rightarrow> bool" where
  "key_trigger old new \<longleftrightarrow>
     ik_Scope new = ik_Scope old \<and> ik_PayloadHash new = ik_PayloadHash old \<and>
     ik_CreatedAt new = ik_CreatedAt old \<and> ik_Result old = [] \<and> ik_Result new \<noteq> []"

text \<open>CHECK (payload_hash ~ '^[0-9a-f]{64}$') and CHECK (scope IN ('webhook','reconcile')).\<close>

definition hash_ok :: "string \<Rightarrow> bool" where
  "hash_ok h \<longleftrightarrow> length h = 64 \<and>
     list_all (\<lambda>c. let n = of_char c :: nat in 48 \<le> n \<and> n \<le> 57 \<or> 97 \<le> n \<and> n \<le> 102) h"

definition key_row_ok :: "idem_key \<Rightarrow> bool" where
  "key_row_ok r \<longleftrightarrow> hash_ok (ik_PayloadHash r) \<and> (ik_Scope r = ''webhook'' \<or> ik_Scope r = ''reconcile'')"

section \<open>Scanning\<close>

text \<open>A read fails when its only call fails or its answer is lost.\<close>

definition read_fails :: "db_fault \<Rightarrow> bool" where
  "read_fails f \<longleftrightarrow> f = FailAt 0 \<or> f = LostAck"

definition scanIntent :: "engine \<Rightarrow> intent_row \<Rightarrow> intent option" where
  "scanIntent e r =
     (case (scan_text e (pi_ProviderRef r), scan_text e (pi_FailureReason r)) of
        (Some ref, Some why) \<Rightarrow>
          Some \<lparr>pi_ID = pi_ID r, pi_TenantID = pi_TenantID r, pi_CustomerID = pi_CustomerID r,
            pi_CreatedBy = pi_CreatedBy r, pi_AmountMinor = pi_AmountMinor r,
            pi_Currency = pi_Currency r, pi_Status = pi_Status r, pi_Provider = pi_Provider r,
            pi_ProviderRef = ref, pi_JobID = pi_JobID r, pi_VehicleID = pi_VehicleID r,
            pi_Description = pi_Description r, pi_FailureReason = why,
            pi_SucceededAt = pi_SucceededAt r, pi_FailedAt = pi_FailedAt r,
            pi_CanceledAt = pi_CanceledAt r, pi_CreatedAt = pi_CreatedAt r,
            pi_UpdatedAt = pi_UpdatedAt r\<rparr>
      | _ \<Rightarrow> None)"

definition scanTransaction :: "engine \<Rightarrow> txn_row \<Rightarrow> txn option" where
  "scanTransaction e r =
     (case (scan_text e (tx_ProviderRef r), scan_text e (tx_ProviderReceipt r),
            scan_text e (tx_FailureReason r)) of
        (Some ref, Some rcpt, Some why) \<Rightarrow>
          Some \<lparr>tx_ID = tx_ID r, tx_IntentID = tx_IntentID r, tx_Provider = tx_Provider r,
            tx_ProviderRef = ref, tx_ProviderReceipt = rcpt, tx_Status = tx_Status r,
            tx_AmountMinor = tx_AmountMinor r, tx_Currency = tx_Currency r,
            tx_FailureReason = why, tx_OccurredAt = tx_OccurredAt r,
            tx_CreatedAt = tx_CreatedAt r, tx_UpdatedAt = tx_UpdatedAt r\<rparr>
      | _ \<Rightarrow> None)"

definition scanRefund :: "engine \<Rightarrow> refund_row \<Rightarrow> refund option" where
  "scanRefund e r =
     (case (scan_text e (rf_ProviderRef r), scan_text e (rf_FailureReason r)) of
        (Some ref, Some why) \<Rightarrow>
          Some \<lparr>rf_ID = rf_ID r, rf_IntentID = rf_IntentID r, rf_AmountMinor = rf_AmountMinor r,
            rf_Currency = rf_Currency r, rf_Status = rf_Status r, rf_Provider = rf_Provider r,
            rf_ProviderRef = ref, rf_Reason = rf_Reason r, rf_FailureReason = why,
            rf_RequestedBy = rf_RequestedBy r, rf_CreatedAt = rf_CreatedAt r,
            rf_UpdatedAt = rf_UpdatedAt r\<rparr>
      | _ \<Rightarrow> None)"

text \<open>Scanning the rows of a result set: the first row that cannot be scanned is an error.\<close>

fun scan_rows :: "('r \<Rightarrow> 'v option) \<Rightarrow> 'r list \<Rightarrow> 'v list option" where
  "scan_rows f [] = Some []"
| "scan_rows f (r # rs) =
     (case f r of None \<Rightarrow> None
      | Some v \<Rightarrow> (case scan_rows f rs of None \<Rightarrow> None | Some vs \<Rightarrow> Some (v # vs)))"

section \<open>Intents\<close>

definition intentScopePredicate :: "Scope \<Rightarrow> nat \<Rightarrow> pay_col sql_cond \<times> uuid list" where
  "intentScopePredicate scope nextParam = scopePredicate scope nextParam"

definition intent_insert :: "uuid \<Rightarrow> gotime \<Rightarrow> intent \<Rightarrow> intent_row" where
  "intent_insert nid now i =
     \<lparr>pi_ID = nid, pi_TenantID = pi_TenantID i, pi_CustomerID = pi_CustomerID i,
            pi_CreatedBy = pi_CreatedBy i, pi_AmountMinor = pi_AmountMinor i,
            pi_Currency = pi_Currency i, pi_Status = pi_Status i, pi_Provider = pi_Provider i,
            pi_ProviderRef = None, pi_JobID = None, pi_VehicleID = None, pi_Description = [],
            pi_FailureReason = None, pi_SucceededAt = None, pi_FailedAt = None,
            pi_CanceledAt = None, pi_CreatedAt = now, pi_UpdatedAt = now\<rparr>"

definition CreateIntent ::
  "db_fault \<Rightarrow> gotime \<Rightarrow> uuid \<Rightarrow> intent \<Rightarrow> pay_db \<Rightarrow> (pay_error + intent) \<times> pay_db" where
  "CreateIntent flt now fresh i db =
     (let nid = (if pi_ID i = uuid_nil then fresh else pi_ID i);
          row = intent_insert nid now i
      in if get_intent nid db \<noteq> None \<or> \<not> intent_row_ok row then (Inl ErrDatabase, db)
         else finish ErrDatabase flt 0
           (i\<lparr>pi_ID := nid, pi_CreatedAt := now, pi_UpdatedAt := now\<rparr>)
           db (db\<lparr>intents_t := row_ins row (intents_t db)\<rparr>))"

definition GetIntent :: "engine \<Rightarrow> db_fault \<Rightarrow> uuid \<Rightarrow> Scope \<Rightarrow> pay_db \<Rightarrow> pay_error + intent" where
  "GetIntent e flt iid scope db =
     (let (pred, predArgs) = intentScopePredicate scope 2; args = iid # predArgs in
      if read_fails flt \<or> \<not> args_accepted e (1 # placeholders pred) (length args)
      then Inl ErrDatabase
      else case find (\<lambda>r. pi_ID r = iid \<and> sql_eval (intent_col r) args pred) (intents_t db) of
             None \<Rightarrow> Inl ErrIntentNotFound
           | Some r \<Rightarrow> (case scanIntent e r of None \<Rightarrow> Inl ErrDatabase | Some i \<Rightarrow> Inr i))"

record IntentFilter =
  if_Status :: "IntentStatus option"
  if_CustomerID :: "uuid option"
  if_JobID :: "uuid option"
  if_VehicleID :: "uuid option"

definition filter_matches :: "IntentFilter \<Rightarrow> intent_row \<Rightarrow> bool" where
  "filter_matches f r \<longleftrightarrow>
     (case if_Status f of None \<Rightarrow> True | Some s \<Rightarrow> pi_Status r = s) \<and>
     (case if_CustomerID f of None \<Rightarrow> True | Some c \<Rightarrow> col_eq (pi_CustomerID r) c) \<and>
     (case if_JobID f of None \<Rightarrow> True | Some j \<Rightarrow> col_eq (pi_JobID r) j) \<and>
     (case if_VehicleID f of None \<Rightarrow> True | Some v \<Rightarrow> col_eq (pi_VehicleID r) v)"

definition filter_args :: "IntentFilter \<Rightarrow> nat" where
  "filter_args f = length (filter id
     [if_Status f \<noteq> None, if_CustomerID f \<noteq> None, if_JobID f \<noteq> None, if_VehicleID f \<noteq> None])"

text \<open>The defaults and caps of both layers' pagination (\<open>defaultListLimit\<close>, \<open>maxListLimit\<close>).\<close>

definition page_limit :: "int \<Rightarrow> int" where
  "page_limit limit =
     (let l = (if limit \<le> 0 then 50 else limit) in if l > 200 then 200 else l)"

definition page_offset :: "int \<Rightarrow> int" where
  "page_offset offset = (if offset < 0 then 0 else offset)"

definition ListIntents ::
  "engine \<Rightarrow> db_fault \<Rightarrow> Scope \<Rightarrow> IntentFilter \<Rightarrow> int \<Rightarrow> int \<Rightarrow> pay_db \<Rightarrow> pay_error + intent list" where
  "ListIntents e flt scope f limit offset db =
     (let (pred, predArgs) = intentScopePredicate scope 1;
          n = length predArgs + filter_args f + 2;
          ps = placeholders pred @ [Suc (length predArgs)..<Suc n];
          matching = filter (\<lambda>r. sql_eval (intent_col r) predArgs pred \<and> filter_matches f r) (intents_t db);
          sorted = sort_key (\<lambda>r. (- pi_CreatedAt r, - uint (pi_ID r))) matching;
          page = take (nat (page_limit limit)) (drop (nat (page_offset offset)) sorted)
      in if read_fails flt \<or> \<not> args_accepted e ps n then Inl ErrDatabase
         else case scan_rows (scanIntent e) page of None \<Rightarrow> Inl ErrDatabase | Some is \<Rightarrow> Inr is)"

text \<open>The timestamp column each status move stamps.\<close>

definition stamp_intent :: "IntentStatus \<Rightarrow> gotime \<Rightarrow> intent_row \<Rightarrow> intent_row" where
  "stamp_intent to now r =
     (case to of
        IntentSucceeded \<Rightarrow> r\<lparr>pi_SucceededAt := Some now\<rparr>
      | IntentFailed \<Rightarrow> r\<lparr>pi_FailedAt := Some now\<rparr>
      | IntentCanceled \<Rightarrow> r\<lparr>pi_CanceledAt := Some now\<rparr>
      | _ \<Rightarrow> r)"

definition move_intent :: "IntentStatus \<Rightarrow> gotime \<Rightarrow> intent_row \<Rightarrow> intent_row" where
  "move_intent to now r = (stamp_intent to now r)\<lparr>pi_Status := to, pi_UpdatedAt := now\<rparr>"

definition UpdateIntentStatus ::
  "db_fault \<Rightarrow> gotime \<Rightarrow> uuid \<Rightarrow> IntentStatus \<Rightarrow> IntentStatus \<Rightarrow> uuid option \<Rightarrow> string \<Rightarrow> pay_db
     \<Rightarrow> (pay_error + unit) \<times> pay_db" where
  "UpdateIntentStatus flt now iid expectedFrom newStatus actor reason db =
     (if fails flt 0 \<or> fails flt 1 then (Inl ErrDatabase, db)
      else case get_intent iid db of
        None \<Rightarrow> (Inl ErrIntentNotFound, db)
      | Some r \<Rightarrow>
          if pi_Status r \<noteq> expectedFrom then (Inl ErrPayConflict, db)
          else if fails flt 2 \<or> \<not> intent_trigger r (move_intent newStatus now r) \<or>
                  \<not> intent_row_ok (move_intent newStatus now r)
            then (Inl ErrDatabase, db)
          else if fails flt 3 then (Inl ErrDatabase, db)
          else finish ErrDatabase flt 4 () db
            (db\<lparr>intents_t := row_upd pi_ID iid (move_intent newStatus now) (intents_t db),
                log_t := log_t db @ [\<lparr>it_IntentID = iid, it_FromStatus = pi_Status r,
                  it_ToStatus = newStatus, it_ActorID = actor, it_Reason = reason,
                  it_CreatedAt = now\<rparr>]\<rparr>))"

section \<open>Transactions\<close>

definition txn_insert :: "uuid \<Rightarrow> gotime \<Rightarrow> txn \<Rightarrow> txn_row" where
  "txn_insert nid now t =
     \<lparr>tx_ID = nid, tx_IntentID = tx_IntentID t, tx_Provider = tx_Provider t,
            tx_ProviderRef = nullif_empty (tx_ProviderRef t), tx_ProviderReceipt = None,
            tx_Status = tx_Status t, tx_AmountMinor = tx_AmountMinor t,
            tx_Currency = tx_Currency t, tx_FailureReason = nullif_empty (tx_FailureReason t),
            tx_OccurredAt = None, tx_CreatedAt = now, tx_UpdatedAt = now\<rparr>"

definition InsertTransaction ::
  "db_fault \<Rightarrow> gotime \<Rightarrow> uuid \<Rightarrow> txn \<Rightarrow> pay_db \<Rightarrow> (pay_error + txn) \<times> pay_db" where
  "InsertTransaction flt now fresh t db =
     (let nid = (if tx_ID t = uuid_nil then fresh else tx_ID t);
          row = txn_insert nid now t
      in if get_txn nid db \<noteq> None \<or> \<not> txn_row_ok row \<or> \<not> txn_unique row (txns_t db)
           then (Inl ErrDatabase, db)
         else if get_intent (tx_IntentID t) db = None then (Inl ErrIntentNotFound, db)
         else finish ErrDatabase flt 0
           (t\<lparr>tx_ID := nid, tx_CreatedAt := now, tx_UpdatedAt := now\<rparr>)
           db (db\<lparr>txns_t := row_ins row (txns_t db)\<rparr>))"

text \<open>\<open>EXISTS (SELECT 1 FROM payment_intents i WHERE i.id = .. AND pred)\<close>.\<close>

definition intent_exists :: "pay_col sql_cond \<Rightarrow> uuid list \<Rightarrow> uuid \<Rightarrow> pay_db \<Rightarrow> bool" where
  "intent_exists pred args k db \<longleftrightarrow>
     pred = SqlTrue \<or>
     list_ex (\<lambda>i. pi_ID i = k \<and> sql_eval (intent_col i) args pred) (intents_t db)"

definition GetTransaction :: "engine \<Rightarrow> db_fault \<Rightarrow> uuid \<Rightarrow> Scope \<Rightarrow> pay_db \<Rightarrow> pay_error + txn" where
  "GetTransaction e flt tid scope db =
     (let (pred, predArgs) = scopePredicate scope 2; args = tid # predArgs in
      if read_fails flt \<or> \<not> args_accepted e (1 # placeholders pred) (length args)
      then Inl ErrDatabase
      else case find (\<lambda>t. tx_ID t = tid \<and> intent_exists pred args (tx_IntentID t) db) (txns_t db) of
             None \<Rightarrow> Inl ErrTransactionNotFound
           | Some r \<Rightarrow> (case scanTransaction e r of None \<Rightarrow> Inl ErrDatabase | Some t \<Rightarrow> Inr t))"

definition GetTransactionByProviderRef ::
  "engine \<Rightarrow> db_fault \<Rightarrow> string \<Rightarrow> string \<Rightarrow> pay_db \<Rightarrow> pay_error + txn" where
  "GetTransactionByProviderRef e flt provider ref db =
     (if read_fails flt then Inl ErrDatabase
      else case find (\<lambda>t. tx_Provider t = provider \<and> tx_ProviderRef t = Some ref) (txns_t db) of
             None \<Rightarrow> Inl ErrTransactionNotFound
           | Some r \<Rightarrow> (case scanTransaction e r of None \<Rightarrow> Inl ErrDatabase | Some t \<Rightarrow> Inr t))"

definition ListTransactions ::
  "engine \<Rightarrow> db_fault \<Rightarrow> uuid \<Rightarrow> Scope \<Rightarrow> pay_db \<Rightarrow> pay_error + txn list" where
  "ListTransactions e flt iid scope db =
     (let (pred, predArgs) = scopePredicate scope 2; args = iid # predArgs in
      if read_fails flt \<or> \<not> args_accepted e (1 # placeholders pred) (length args)
      then Inl ErrDatabase
      else case scan_rows (scanTransaction e)
             (sort_key (\<lambda>t. (tx_CreatedAt t, uint (tx_ID t)))
               (filter (\<lambda>t. tx_IntentID t = iid \<and> intent_exists pred args (tx_IntentID t) db) (txns_t db))) of
             None \<Rightarrow> Inl ErrDatabase
           | Some ts \<Rightarrow> Inr ts)"

record ApplyOutcomeParams =
  ao_TransactionID :: uuid
  ao_NewTxStatus :: TransactionStatus
  ao_NewIntentStatus :: IntentStatus
  ao_ProviderReceipt :: string
  ao_FailureReason :: string
  ao_OccurredAt :: gotime
  ao_Reason :: string

definition settle_txn :: "ApplyOutcomeParams \<Rightarrow> gotime \<Rightarrow> txn_row \<Rightarrow> txn_row" where
  "settle_txn p now r =
     r\<lparr>tx_Status := ao_NewTxStatus p, tx_FailureReason := nullif_empty (ao_FailureReason p),
       tx_OccurredAt := Some (if time_is_zero (ao_OccurredAt p) then now else ao_OccurredAt p),
       tx_ProviderReceipt :=
         (case nullif_empty (ao_ProviderReceipt p) of Some x \<Rightarrow> Some x | None \<Rightarrow> tx_ProviderReceipt r),
       tx_UpdatedAt := now\<rparr>"

definition settle_intent :: "ApplyOutcomeParams \<Rightarrow> gotime \<Rightarrow> intent_row \<Rightarrow> intent_row" where
  "settle_intent p now r =
     (let r' = move_intent (ao_NewIntentStatus p) now r
      in if ao_FailureReason p \<noteq> [] then r'\<lparr>pi_FailureReason := Some (ao_FailureReason p)\<rparr> else r')"

text \<open>
  The calls: 0 begin, 1 lock the transaction, 2 settle it, 3 lock the intent, 4 settle it,
  5 append the audit row, 6 commit.
\<close>

definition ApplyTransactionOutcome ::
  "engine \<Rightarrow> db_fault \<Rightarrow> gotime \<Rightarrow> ApplyOutcomeParams \<Rightarrow> pay_db \<Rightarrow> (pay_error + bool) \<times> pay_db" where
  "ApplyTransactionOutcome e flt now p db =
     (if fails flt 0 \<or> fails flt 1 then (Inl ErrDatabase, db)
      else case get_txn (ao_TransactionID p) db of
        None \<Rightarrow> (Inl ErrTransactionNotFound, db)
      | Some row \<Rightarrow>
        (case scanTransaction e row of
           None \<Rightarrow> (Inl ErrDatabase, db)
         | Some t \<Rightarrow>
           if tx_Status t = ao_NewTxStatus p then (Inr False, db)
           else if tx_Status t \<noteq> TxPending then (Inl ErrPayConflict, db)
           else
             let row' = settle_txn p now row in
             if fails flt 2 \<or> \<not> txn_trigger row row' \<or> \<not> txn_row_ok row' \<or> \<not> txn_unique row' (txns_t db)
               then (Inl ErrDatabase, db)
             else
               let db1 = db\<lparr>txns_t := row_upd tx_ID (tx_ID t) (settle_txn p now) (txns_t db)\<rparr> in
               if fails flt 3 then (Inl ErrDatabase, db)
               else case get_intent (tx_IntentID t) db1 of
                 None \<Rightarrow> (Inl ErrIntentNotFound, db)
               | Some i \<Rightarrow>
                   if pi_Status i = ao_NewIntentStatus p
                     then finish ErrDatabase flt 6 True db db1
                   else if pi_Status i \<noteq> IntentProcessing then (Inl ErrPayConflict, db)
                   else if fails flt 4 \<or> \<not> intent_trigger i (settle_intent p now i) \<or>
                           \<not> intent_row_ok (settle_intent p now i)
                     then (Inl ErrDatabase, db)
                   else if fails flt 5 then (Inl ErrDatabase, db)
                   else finish ErrDatabase flt 6 True db
                     (db1\<lparr>intents_t := row_upd pi_ID (tx_IntentID t) (settle_intent p now) (intents_t db1),
                          log_t := log_t db1 @ [\<lparr>it_IntentID = tx_IntentID t,
                            it_FromStatus = pi_Status i, it_ToStatus = ao_NewIntentStatus p,
                            it_ActorID = None, it_Reason = ao_Reason p, it_CreatedAt = now\<rparr>]\<rparr>)))"

section \<open>Refunds\<close>

definition refund_insert :: "uuid \<Rightarrow> gotime \<Rightarrow> refund \<Rightarrow> refund_row" where
  "refund_insert nid now r =
     \<lparr>rf_ID = nid, rf_IntentID = rf_IntentID r, rf_AmountMinor = rf_AmountMinor r,
            rf_Currency = rf_Currency r, rf_Status = RefundRequested, rf_Provider = rf_Provider r,
            rf_ProviderRef = None, rf_Reason = rf_Reason r, rf_FailureReason = None,
            rf_RequestedBy = rf_RequestedBy r, rf_CreatedAt = now, rf_UpdatedAt = now\<rparr>"

definition InsertRefund ::
  "db_fault \<Rightarrow> gotime \<Rightarrow> uuid \<Rightarrow> refund \<Rightarrow> pay_db \<Rightarrow> (pay_error + refund) \<times> pay_db" where
  "InsertRefund flt now fresh r db =
     (let nid = (if rf_ID r = uuid_nil then fresh else rf_ID r);
          row = refund_insert nid now r
      in if get_refund nid db \<noteq> None \<or> \<not> refund_row_ok row \<or> \<not> refund_unique row (refunds_t db)
           then (Inl ErrDatabase, db)
         else if get_intent (rf_IntentID r) db = None then (Inl ErrIntentNotFound, db)
         else finish ErrDatabase flt 0
           (r\<lparr>rf_ID := nid, rf_Status := RefundRequested, rf_CreatedAt := now, rf_UpdatedAt := now\<rparr>)
           db (db\<lparr>refunds_t := row_ins row (refunds_t db)\<rparr>))"

definition GetRefund :: "engine \<Rightarrow> db_fault \<Rightarrow> uuid \<Rightarrow> Scope \<Rightarrow> pay_db \<Rightarrow> pay_error + refund" where
  "GetRefund e flt rid scope db =
     (let (pred, predArgs) = scopePredicate scope 2; args = rid # predArgs in
      if read_fails flt \<or> \<not> args_accepted e (1 # placeholders pred) (length args)
      then Inl ErrDatabase
      else case find (\<lambda>r. rf_ID r = rid \<and> intent_exists pred args (rf_IntentID r) db) (refunds_t db) of
             None \<Rightarrow> Inl ErrRefundNotFound
           | Some r \<Rightarrow> (case scanRefund e r of None \<Rightarrow> Inl ErrDatabase | Some x \<Rightarrow> Inr x))"

definition move_refund :: "RefundStatus \<Rightarrow> string \<Rightarrow> string \<Rightarrow> gotime \<Rightarrow> refund_row \<Rightarrow> refund_row" where
  "move_refund to ref why now r =
     (let r1 = r\<lparr>rf_Status := to, rf_UpdatedAt := now\<rparr>;
          r2 = (if ref \<noteq> [] then r1\<lparr>rf_ProviderRef := Some ref\<rparr> else r1)
      in if why \<noteq> [] then r2\<lparr>rf_FailureReason := Some why\<rparr> else r2)"

definition UpdateRefundStatus ::
  "db_fault \<Rightarrow> gotime \<Rightarrow> uuid \<Rightarrow> RefundStatus \<Rightarrow> RefundStatus \<Rightarrow> string \<Rightarrow> string \<Rightarrow> pay_db
     \<Rightarrow> (pay_error + unit) \<times> pay_db" where
  "UpdateRefundStatus flt now rid expectedFrom newStatus ref why db =
     (if fails flt 0 \<or> fails flt 1 then (Inl ErrDatabase, db)
      else case get_refund rid db of
        None \<Rightarrow> (Inl ErrRefundNotFound, db)
      | Some r \<Rightarrow>
          if rf_Status r \<noteq> expectedFrom then (Inl ErrPayConflict, db)
          else
            let r' = move_refund newStatus ref why now r in
            if fails flt 2 \<or> \<not> refund_trigger r r' \<or> \<not> refund_row_ok r' \<or> \<not> refund_unique r' (refunds_t db)
              then (Inl ErrDatabase, db)
            else finish ErrDatabase flt 3 () db
              (db\<lparr>refunds_t := row_upd rf_ID rid (move_refund newStatus ref why now) (refunds_t db)\<rparr>))"

text \<open>\<open>ORDER BY r.created_at DESC, r.id DESC LIMIT 1\<close>.\<close>

definition LatestRefundForIntent ::
  "engine \<Rightarrow> db_fault \<Rightarrow> uuid \<Rightarrow> Scope \<Rightarrow> pay_db \<Rightarrow> pay_error + refund" where
  "LatestRefundForIntent e flt iid scope db =
     (let (pred, predArgs) = scopePredicate scope 2; args = iid # predArgs in
      if read_fails flt \<or> \<not> args_accepted e (1 # placeholders pred) (length args)
      then Inl ErrDatabase
      else case sort_key (\<lambda>r. (- rf_CreatedAt r, - uint (rf_ID r)))
             (filter (\<lambda>r. rf_IntentID r = iid \<and> intent_exists pred args (rf_IntentID r) db) (refunds_t db)) of
             [] \<Rightarrow> Inl ErrRefundNotFound
           | r # _ \<Rightarrow> (case scanRefund e r of None \<Rightarrow> Inl ErrDatabase | Some x \<Rightarrow> Inr x))"

section \<open>Idempotency keys\<close>

record ClaimResult =
  cr_Claimed :: bool
  cr_ExistingResult :: string
  cr_ExistingPayloadHash :: string

text \<open>
  \<open>INSERT .. ON CONFLICT (key) DO NOTHING\<close>; when no row was inserted, a second statement (call 1)
  reads the stored result and hash.
\<close>

definition key_insert :: "string \<Rightarrow> string \<Rightarrow> string \<Rightarrow> gotime \<Rightarrow> idem_key" where
  "key_insert key scope hash now =
     \<lparr>ik_Key = key, ik_Scope = scope, ik_PayloadHash = hash, ik_Result = [],
            ik_CreatedAt = now, ik_CompletedAt = None\<rparr>"

definition ClaimIdempotencyKey ::
  "db_fault \<Rightarrow> gotime \<Rightarrow> string \<Rightarrow> string \<Rightarrow> string \<Rightarrow> pay_db \<Rightarrow> (pay_error + ClaimResult) \<times> pay_db" where
  "ClaimIdempotencyKey flt now key scope hash db =
     (let row = key_insert key scope hash now
      in if \<not> key_row_ok row \<or> fails flt 0 then (Inl ErrDatabase, db)
         else case get_key key db of
           None \<Rightarrow> finish ErrDatabase flt 0
             \<lparr>cr_Claimed = True, cr_ExistingResult = [], cr_ExistingPayloadHash = []\<rparr>
             db (db\<lparr>keys_t := row_ins row (keys_t db)\<rparr>)
         | Some k \<Rightarrow> finish ErrDatabase flt 1
             \<lparr>cr_Claimed = False, cr_ExistingResult = ik_Result k,
               cr_ExistingPayloadHash = ik_PayloadHash k\<rparr> db db)"

definition complete_key :: "string \<Rightarrow> gotime \<Rightarrow> idem_key \<Rightarrow> idem_key" where
  "complete_key result now k = k\<lparr>ik_Result := result, ik_CompletedAt := Some now\<rparr>"

definition CompleteIdempotencyKey ::
  "db_fault \<Rightarrow> gotime \<Rightarrow> string \<Rightarrow> string \<Rightarrow> pay_db \<Rightarrow> (pay_error + unit) \<times> pay_db" where
  "CompleteIdempotencyKey flt now key result db =
     (case get_key key db of
        None \<Rightarrow> finish ErrDatabase flt 0 () db db
      | Some k \<Rightarrow>
          if \<not> key_trigger k (complete_key result now k) then (Inl ErrDatabase, db)
          else finish ErrDatabase flt 0 () db
            (db\<lparr>keys_t := row_upd ik_Key key (complete_key result now) (keys_t db)\<rparr>))"

section \<open>Stale intents\<close>

text \<open>
  The newest transaction of an intent: greatest \<open>(created_at, id)\<close>.
\<close>

definition newest_txn :: "uuid \<Rightarrow> pay_db \<Rightarrow> txn_row option" where
  "newest_txn iid db =
     (case sort_key (\<lambda>t. (- tx_CreatedAt t, - uint (tx_ID t)))
             (filter (\<lambda>t. tx_IntentID t = iid) (txns_t db)) of
        [] \<Rightarrow> None | t # _ \<Rightarrow> Some t)"

text \<open>
  The query joins the intents, their transactions and the newest-transaction subquery, and selects
  \<open>id\<close>, \<open>provider\<close>, \<open>created_at\<close> and other columns of both tables unqualified: it is answered only
  by an engine that resolves ambiguous columns.
\<close>

definition ListStaleIntents ::
  "engine \<Rightarrow> db_fault \<Rightarrow> gotime \<Rightarrow> int \<Rightarrow> pay_db \<Rightarrow> pay_error + (intent \<times> txn) list" where
  "ListStaleIntents e flt olderThan limit db =
     (let lim = (if limit \<le> 0 then 50 else limit);
          joined = concat (map (\<lambda>i. map (\<lambda>t. (i, t))
            (filter (\<lambda>t. tx_IntentID t = pi_ID i \<and> newest_txn (pi_ID i) db = Some t \<and>
               tx_Status t = TxPending \<and> tx_CreatedAt t < olderThan) (txns_t db)))
            (filter (\<lambda>i. pi_Status i = IntentProcessing) (intents_t db)));
          rows = take (nat lim) (sort_key (\<lambda>(i, t). tx_CreatedAt t) joined)
      in if read_fails flt \<or> \<not> ambiguous_columns e then Inl ErrDatabase
         else case scan_rows (\<lambda>(i, t). case (scanIntent e i, scanTransaction e t) of
                  (Some x, Some y) \<Rightarrow> Some (x, y) | _ \<Rightarrow> None) rows of
                None \<Rightarrow> Inl ErrDatabase | Some xs \<Rightarrow> Inr xs)"

end
