(* ===== verification/Pay_Ledger.thy ===== *)
theory Pay_Ledger
  imports Pay_Store
begin

text \<open>
  The integrity of the payments ledger. \<open>pay_step\<close> is one writing operation of the repository with
  any arguments and any fault; \<open>pay_reach\<close> are the tables such operations can produce from empty
  ones. The invariants are proved operation by operation and lifted by rule induction.
\<close>

section \<open>What each operation can do to the tables\<close>

lemma keys_of_moves [simp]:
  "pi_ID (move_intent s now r) = pi_ID r" "pi_ID (settle_intent p now r) = pi_ID r"
  "tx_ID (settle_txn p now t) = tx_ID t" "rf_ID (move_refund st a b now x) = rf_ID x"
  "ik_Key (complete_key res now k) = ik_Key k"
  by (auto simp: move_intent_def stamp_intent_def settle_intent_def settle_txn_def move_refund_def
      complete_key_def Let_def split: IntentStatus.split)

text \<open>
  Each operation leaves the tables unchanged or makes the one change the next lemmas give, under
  the guards it checked.
\<close>

lemma insert_fields [simp]:
  "pi_ID (intent_insert nid now i) = nid" "pi_Status (intent_insert nid now i) = pi_Status i"
  "pi_ProviderRef (intent_insert nid now i) = None" "pi_JobID (intent_insert nid now i) = None"
  "pi_VehicleID (intent_insert nid now i) = None" "pi_Description (intent_insert nid now i) = []"
  "tx_ID (txn_insert nid now t) = nid" "tx_IntentID (txn_insert nid now t) = tx_IntentID t"
  "rf_ID (refund_insert nid now r) = nid" "rf_IntentID (refund_insert nid now r) = rf_IntentID r"
  "rf_Status (refund_insert nid now r) = RefundRequested"
  "ik_Key (key_insert key sc h now) = key" "ik_Result (key_insert key sc h now) = []"
  "ik_PayloadHash (key_insert key sc h now) = h"
  by (simp_all add: intent_insert_def txn_insert_def refund_insert_def key_insert_def)

definition new_id :: "uuid \<Rightarrow> uuid \<Rightarrow> uuid" where
  "new_id x fresh = (if x = uuid_nil then fresh else x)"

lemma CreateIntent_state:
  fixes db :: pay_db and i :: intent and now :: gotime and fresh :: uuid
  defines "row \<equiv> intent_insert (new_id (pi_ID i) fresh) now i"
  shows "snd (CreateIntent flt now fresh i db) = db \<or>
   (snd (CreateIntent flt now fresh i db) = db\<lparr>intents_t := row_ins row (intents_t db)\<rparr> \<and>
      get_intent (pi_ID row) db = None \<and> intent_row_ok row)"
  by (simp add: CreateIntent_def Let_def finish_def row_def new_id_def)

lemma UpdateIntentStatus_state:
  "snd (UpdateIntentStatus flt now iid exp new actor reason db) = db \<or>
   (\<exists>r. get_intent iid db = Some r \<and> pi_Status r = exp \<and> intent_trigger r (move_intent new now r) \<and>
      intent_row_ok (move_intent new now r) \<and>
      snd (UpdateIntentStatus flt now iid exp new actor reason db) =
        db\<lparr>intents_t := row_upd pi_ID iid (move_intent new now) (intents_t db),
           log_t := log_t db @ [\<lparr>it_IntentID = iid, it_FromStatus = exp, it_ToStatus = new,
             it_ActorID = actor, it_Reason = reason, it_CreatedAt = now\<rparr>]\<rparr>)"
  by (auto simp: UpdateIntentStatus_def finish_def split: option.split)

lemma InsertTransaction_state:
  fixes db :: pay_db and t :: txn and now :: gotime and fresh :: uuid
  defines "row \<equiv> txn_insert (new_id (tx_ID t) fresh) now t"
  shows "snd (InsertTransaction flt now fresh t db) = db \<or>
   (snd (InsertTransaction flt now fresh t db) = db\<lparr>txns_t := row_ins row (txns_t db)\<rparr> \<and>
      get_txn (tx_ID row) db = None \<and> txn_row_ok row \<and> txn_unique row (txns_t db) \<and>
      get_intent (tx_IntentID row) db \<noteq> None)"
  by (simp add: InsertTransaction_def Let_def finish_def row_def new_id_def)

lemma InsertRefund_state:
  fixes db :: pay_db and r :: refund and now :: gotime and fresh :: uuid
  defines "row \<equiv> refund_insert (new_id (rf_ID r) fresh) now r"
  shows "snd (InsertRefund flt now fresh r db) = db \<or>
   (snd (InsertRefund flt now fresh r db) = db\<lparr>refunds_t := row_ins row (refunds_t db)\<rparr> \<and>
      get_refund (rf_ID row) db = None \<and> refund_row_ok row \<and> refund_unique row (refunds_t db) \<and>
      get_intent (rf_IntentID row) db \<noteq> None)"
  by (simp add: InsertRefund_def Let_def finish_def row_def new_id_def)

lemma UpdateRefundStatus_state:
  "snd (UpdateRefundStatus flt now rid exp new ref why db) = db \<or>
   (\<exists>r. get_refund rid db = Some r \<and> refund_trigger r (move_refund new ref why now r) \<and>
      refund_row_ok (move_refund new ref why now r) \<and>
      snd (UpdateRefundStatus flt now rid exp new ref why db) =
        db\<lparr>refunds_t := row_upd rf_ID rid (move_refund new ref why now) (refunds_t db)\<rparr>)"
  by (auto simp: UpdateRefundStatus_def finish_def Let_def split: option.split)

lemma ClaimIdempotencyKey_state:
  "snd (ClaimIdempotencyKey flt now key scope hash db) = db \<or>
   (get_key key db = None \<and> key_row_ok (key_insert key scope hash now) \<and>
      snd (ClaimIdempotencyKey flt now key scope hash db) =
        db\<lparr>keys_t := row_ins (key_insert key scope hash now) (keys_t db)\<rparr>)"
  by (simp add: ClaimIdempotencyKey_def Let_def finish_def split: option.split)

lemma CompleteIdempotencyKey_state:
  "snd (CompleteIdempotencyKey flt now key res db) = db \<or>
   (\<exists>k. get_key key db = Some k \<and> key_trigger k (complete_key res now k) \<and>
      snd (CompleteIdempotencyKey flt now key res db) =
        db\<lparr>keys_t := row_upd ik_Key key (complete_key res now) (keys_t db)\<rparr>)"
  by (auto simp: CompleteIdempotencyKey_def finish_def split: option.split)

lemma scanTransaction_fields:
  "scanTransaction e r = Some t \<Longrightarrow>
     tx_ID t = tx_ID r \<and> tx_IntentID t = tx_IntentID r \<and> tx_Provider t = tx_Provider r \<and>
     tx_Status t = tx_Status r \<and> tx_AmountMinor t = tx_AmountMinor r \<and> tx_Currency t = tx_Currency r \<and>
     scan_text e (tx_ProviderRef r) = Some (tx_ProviderRef t)"
  by (auto simp: scanTransaction_def split: option.splits)

text \<open>A settlement writes the transaction, and the intent with one audit row unless it has settled.\<close>

definition settle_txn_db :: "ApplyOutcomeParams \<Rightarrow> gotime \<Rightarrow> pay_db \<Rightarrow> pay_db" where
  "settle_txn_db p now db =
     db\<lparr>txns_t := row_upd tx_ID (ao_TransactionID p) (settle_txn p now) (txns_t db)\<rparr>"

definition settle_both_db :: "ApplyOutcomeParams \<Rightarrow> gotime \<Rightarrow> uuid \<Rightarrow> pay_db \<Rightarrow> pay_db" where
  "settle_both_db p now iid db =
     (settle_txn_db p now db)\<lparr>intents_t := row_upd pi_ID iid (settle_intent p now) (intents_t db),
        log_t := log_t db @ [\<lparr>it_IntentID = iid, it_FromStatus = IntentProcessing,
          it_ToStatus = ao_NewIntentStatus p, it_ActorID = None, it_Reason = ao_Reason p,
          it_CreatedAt = now\<rparr>]\<rparr>"

text \<open>The guards a settlement has passed when it reaches its commit.\<close>

definition settle_guard :: "engine \<Rightarrow> ApplyOutcomeParams \<Rightarrow> gotime \<Rightarrow> pay_db \<Rightarrow> txn_row \<Rightarrow> intent_row \<Rightarrow> bool" where
  "settle_guard e p now db r i \<longleftrightarrow>
     get_txn (ao_TransactionID p) db = Some r \<and> scanTransaction e r \<noteq> None \<and>
     tx_Status r = TxPending \<and>
     txn_trigger r (settle_txn p now r) \<and> txn_row_ok (settle_txn p now r) \<and>
     txn_unique (settle_txn p now r) (txns_t db) \<and>
     get_intent (tx_IntentID r) db = Some i \<and>
     (pi_Status i = ao_NewIntentStatus p \<or>
      pi_Status i = IntentProcessing \<and> intent_trigger i (settle_intent p now i) \<and>
      intent_row_ok (settle_intent p now i))"

definition settled_db :: "ApplyOutcomeParams \<Rightarrow> gotime \<Rightarrow> pay_db \<Rightarrow> txn_row \<Rightarrow> intent_row \<Rightarrow> pay_db" where
  "settled_db p now db r i =
     (if pi_Status i = ao_NewIntentStatus p then settle_txn_db p now db
      else settle_both_db p now (tx_IntentID r) db)"

lemma ApplyTransactionOutcome_cases:
  obtains (unchanged) res where "ApplyTransactionOutcome e flt now p db = (res, db)" and "res \<noteq> Inr True"
  | (commit) r i where "settle_guard e p now db r i"
      and "ApplyTransactionOutcome e flt now p db = finish ErrDatabase flt 6 True db (settled_db p now db r i)"
proof (cases "fails flt 0 \<or> fails flt 1 \<or> get_txn (ao_TransactionID p) db = None")
  case True
  then show thesis
    by (intro unchanged [of "if fails flt 0 \<or> fails flt 1 then Inl ErrDatabase else Inl ErrTransactionNotFound"])
      (auto simp: ApplyTransactionOutcome_def split: option.splits)
next
  case False
  then obtain r where r: "get_txn (ao_TransactionID p) db = Some r" by auto
  note k = row_get_key [OF r]
  show thesis
  proof (cases "scanTransaction e r")
    case None
    with False r show thesis by (intro unchanged [of "Inl ErrDatabase"]) (auto simp: ApplyTransactionOutcome_def)
  next
    case (Some t)
    note f = scanTransaction_fields [OF Some]
    show thesis
    proof (cases "\<exists>i. settle_guard e p now db r i \<and> \<not> fails flt 2 \<and> \<not> fails flt 3 \<and>
        (pi_Status i = ao_NewIntentStatus p \<or> \<not> fails flt 4 \<and> \<not> fails flt 5) \<and>
        ao_NewTxStatus p \<noteq> TxPending")
      case True
      then obtain i where i: "settle_guard e p now db r i" and fl: "\<not> fails flt 2" "\<not> fails flt 3"
        "pi_Status i = ao_NewIntentStatus p \<or> \<not> fails flt 4 \<and> \<not> fails flt 5" "ao_NewTxStatus p \<noteq> TxPending"
        by auto
      show thesis
        by (rule commit [OF i]) (use i fl False Some f k in
          \<open>auto simp: ApplyTransactionOutcome_def settle_guard_def settled_db_def settle_txn_db_def
            settle_both_db_def Let_def\<close>)
    next
      case no: False
      have "\<exists>res. ApplyTransactionOutcome e flt now p db = (res, db) \<and> res \<noteq> Inr True"
        using no False r Some f k
        by (auto simp: ApplyTransactionOutcome_def settle_guard_def Let_def split: option.splits)
      then show thesis using unchanged by blast
    qed
  qed
qed

lemma ApplyTransactionOutcome_state:
  "snd (ApplyTransactionOutcome e flt now p db) = db \<or>
   (\<exists>r i. settle_guard e p now db r i \<and> snd (ApplyTransactionOutcome e flt now p db) = settled_db p now db r i)"
proof (cases rule: ApplyTransactionOutcome_cases [of e flt now p db])
  case (unchanged res)
  then show ?thesis by simp
next
  case (commit r i)
  then show ?thesis by (auto simp: finish_def)
qed

section \<open>History: what no operation can undo\<close>

definition intent_evolves :: "intent_row \<Rightarrow> intent_row \<Rightarrow> bool" where
  "intent_evolves r r' \<longleftrightarrow>
     pi_TenantID r' = pi_TenantID r \<and> pi_CustomerID r' = pi_CustomerID r \<and>
     pi_CreatedBy r' = pi_CreatedBy r \<and> pi_AmountMinor r' = pi_AmountMinor r \<and>
     pi_Currency r' = pi_Currency r \<and> pi_Provider r' = pi_Provider r \<and>
     pi_ProviderRef r' = pi_ProviderRef r \<and> pi_CreatedAt r' = pi_CreatedAt r \<and>
     (IsIntentTerminal (pi_Status r) \<longrightarrow> pi_Status r' = pi_Status r)"

definition txn_evolves :: "txn_row \<Rightarrow> txn_row \<Rightarrow> bool" where
  "txn_evolves t t' \<longleftrightarrow>
     tx_IntentID t' = tx_IntentID t \<and> tx_Provider t' = tx_Provider t \<and>
     tx_ProviderRef t' = tx_ProviderRef t \<and> tx_AmountMinor t' = tx_AmountMinor t \<and>
     tx_Currency t' = tx_Currency t \<and> tx_CreatedAt t' = tx_CreatedAt t \<and>
     (tx_Status t \<noteq> TxPending \<longrightarrow> t' = t)"

definition refund_evolves :: "refund_row \<Rightarrow> refund_row \<Rightarrow> bool" where
  "refund_evolves r r' \<longleftrightarrow>
     rf_IntentID r' = rf_IntentID r \<and> rf_AmountMinor r' = rf_AmountMinor r \<and>
     rf_Currency r' = rf_Currency r \<and> rf_Provider r' = rf_Provider r \<and>
     rf_CreatedAt r' = rf_CreatedAt r \<and> (rf_Status r \<noteq> RefundRequested \<longrightarrow> r' = r)"

definition key_evolves :: "idem_key \<Rightarrow> idem_key \<Rightarrow> bool" where
  "key_evolves k k' \<longleftrightarrow>
     ik_Scope k' = ik_Scope k \<and> ik_PayloadHash k' = ik_PayloadHash k \<and>
     ik_CreatedAt k' = ik_CreatedAt k \<and> (ik_Result k \<noteq> [] \<longrightarrow> k' = k)"

interpretation ie: row_discipline pi_ID intent_evolves
  by unfold_locales (auto simp: intent_evolves_def)

interpretation te: row_discipline tx_ID txn_evolves
  by unfold_locales (auto simp: txn_evolves_def)

interpretation re: row_discipline rf_ID refund_evolves
  by unfold_locales (auto simp: refund_evolves_def)

interpretation ke: row_discipline ik_Key key_evolves
  by unfold_locales (auto simp: key_evolves_def)

definition ledger_evolves :: "pay_db \<Rightarrow> pay_db \<Rightarrow> bool" where
  "ledger_evolves db db' \<longleftrightarrow>
     table_evolves pi_ID intent_evolves (intents_t db) (intents_t db') \<and>
     table_evolves tx_ID txn_evolves (txns_t db) (txns_t db') \<and>
     table_evolves rf_ID refund_evolves (refunds_t db) (refunds_t db') \<and>
     table_evolves ik_Key key_evolves (keys_t db) (keys_t db') \<and>
     (\<exists>new. log_t db' = log_t db @ new)"

lemmas evolve_intros = ie.te_refl te.te_refl re.te_refl ke.te_refl
  ie.te_ins te.te_ins re.te_ins ke.te_ins ie.te_upd te.te_upd re.te_upd ke.te_upd

lemma ledger_evolves_refl: "ledger_evolves db db"
  by (simp add: ledger_evolves_def evolve_intros)

lemma ledger_evolves_trans: "ledger_evolves a b \<Longrightarrow> ledger_evolves b c \<Longrightarrow> ledger_evolves a c"
  unfolding ledger_evolves_def
  by (metis append.assoc ie.te_trans te.te_trans re.te_trans ke.te_trans)

text \<open>The terminal trigger is exactly the terminal statuses of the state machine.\<close>

lemma terminal_trigger: "IsIntentTerminal s \<longleftrightarrow> s \<in> {IntentSucceeded, IntentFailed, IntentCanceled}"
  by (cases s) (auto simp: status_defs)

lemma move_intent_evolves:
  "intent_trigger r (move_intent new now r) \<Longrightarrow> intent_evolves r (move_intent new now r)"
  by (auto simp: intent_evolves_def intent_trigger_def terminal_trigger move_intent_def stamp_intent_def
      split: IntentStatus.splits)

lemma settle_intent_evolves:
  "intent_trigger r (settle_intent p now r) \<Longrightarrow> intent_evolves r (settle_intent p now r)"
  by (auto simp: intent_evolves_def intent_trigger_def terminal_trigger settle_intent_def move_intent_def
      stamp_intent_def Let_def split: IntentStatus.splits)

lemma settle_txn_evolves:
  "txn_trigger r (settle_txn p now r) \<Longrightarrow> txn_evolves r (settle_txn p now r)"
  by (simp add: txn_evolves_def txn_trigger_def) (simp add: settle_txn_def)

lemma move_refund_evolves:
  "refund_trigger r (move_refund new ref why now r) \<Longrightarrow> refund_evolves r (move_refund new ref why now r)"
  by (simp add: refund_evolves_def refund_trigger_def)

lemma complete_key_evolves:
  "key_trigger k (complete_key res now k) \<Longrightarrow> key_evolves k (complete_key res now k)"
  by (simp add: key_evolves_def key_trigger_def)

lemmas row_evolves = move_intent_evolves settle_intent_evolves settle_txn_evolves
  move_refund_evolves complete_key_evolves

lemma evolves_CreateIntent: "ledger_evolves db (snd (CreateIntent flt now fresh i db))"
  using CreateIntent_state [of flt now fresh i db]
  by (auto simp: ledger_evolves_refl) (simp add: ledger_evolves_def evolve_intros)

lemma evolves_UpdateIntentStatus:
  "ledger_evolves db (snd (UpdateIntentStatus flt now iid exp new actor reason db))"
  using UpdateIntentStatus_state [of flt now iid exp new actor reason db]
  by (auto simp: ledger_evolves_refl)
    (auto simp: ledger_evolves_def evolve_intros(1-8) intro!: ie.te_upd row_evolves)

lemma evolves_InsertTransaction: "ledger_evolves db (snd (InsertTransaction flt now fresh t db))"
  using InsertTransaction_state [of flt now fresh t db]
  by (auto simp: ledger_evolves_refl) (simp add: ledger_evolves_def evolve_intros)

lemma evolves_InsertRefund: "ledger_evolves db (snd (InsertRefund flt now fresh r db))"
  using InsertRefund_state [of flt now fresh r db]
  by (auto simp: ledger_evolves_refl) (simp add: ledger_evolves_def evolve_intros)

lemma evolves_UpdateRefundStatus:
  "ledger_evolves db (snd (UpdateRefundStatus flt now rid exp new ref why db))"
  using UpdateRefundStatus_state [of flt now rid exp new ref why db]
  by (auto simp: ledger_evolves_refl)
    (auto simp: ledger_evolves_def evolve_intros(1-8) intro!: re.te_upd row_evolves)

lemma evolves_ClaimIdempotencyKey:
  "ledger_evolves db (snd (ClaimIdempotencyKey flt now key scope hash db))"
  using ClaimIdempotencyKey_state [of flt now key scope hash db]
  by (auto simp: ledger_evolves_refl) (simp add: ledger_evolves_def evolve_intros)

lemma evolves_CompleteIdempotencyKey:
  "ledger_evolves db (snd (CompleteIdempotencyKey flt now key res db))"
  using CompleteIdempotencyKey_state [of flt now key res db]
  by (auto simp: ledger_evolves_refl)
    (auto simp: ledger_evolves_def evolve_intros(1-8) intro!: ke.te_upd row_evolves)

lemma evolves_settled:
  assumes "settle_guard e p now db r i"
  shows "ledger_evolves db (settled_db p now db r i)"
proof -
  from assms have r: "get_txn (ao_TransactionID p) db = Some r" "txn_trigger r (settle_txn p now r)"
    and i: "get_intent (tx_IntentID r) db = Some i"
    and s: "pi_Status i = ao_NewIntentStatus p \<or> intent_trigger i (settle_intent p now i)"
    by (auto simp: settle_guard_def)
  have "table_evolves tx_ID txn_evolves (txns_t db)
      (row_upd tx_ID (ao_TransactionID p) (settle_txn p now) (txns_t db))"
    using r by (auto intro!: te.te_upd row_evolves)
  moreover have "table_evolves pi_ID intent_evolves (intents_t db)
      (row_upd pi_ID (tx_IntentID r) (settle_intent p now) (intents_t db))"
    if "pi_Status i \<noteq> ao_NewIntentStatus p"
    using i s that by (auto intro!: ie.te_upd row_evolves)
  ultimately show ?thesis
    by (auto simp: settled_db_def settle_txn_db_def settle_both_db_def ledger_evolves_def
        intro: evolve_intros)
qed

lemma evolves_ApplyTransactionOutcome:
  "ledger_evolves db (snd (ApplyTransactionOutcome e flt now p db))"
  using ApplyTransactionOutcome_state [of e flt now p db]
  by (auto simp: ledger_evolves_refl evolves_settled)

section \<open>The invariant\<close>

definition txn_clash :: "txn_row \<Rightarrow> txn_row \<Rightarrow> bool" where
  "txn_clash t t' \<longleftrightarrow> tx_Provider t = tx_Provider t' \<and>
     (same_ref (tx_ProviderRef t) (tx_ProviderRef t') \<or>
      same_ref (tx_ProviderReceipt t) (tx_ProviderReceipt t'))"

definition refund_clash :: "refund_row \<Rightarrow> refund_row \<Rightarrow> bool" where
  "refund_clash r r' \<longleftrightarrow> rf_IntentID r = rf_IntentID r' \<and>
     rf_Status r = RefundRequested \<and> rf_Status r' = RefundRequested"

lemma same_ref_sym: "same_ref a b \<longleftrightarrow> same_ref b a"
  by (auto simp: same_ref_def)

interpretation txn_index: unique_index tx_ID txn_clash
proof unfold_locales
  fix r r'
  show "txn_clash r r' \<Longrightarrow> txn_clash r' r" unfolding txn_clash_def by (metis same_ref_sym)
qed

interpretation refund_index: unique_index rf_ID refund_clash
  by unfold_locales (auto simp: refund_clash_def)

lemma txn_unique_clash:
  "txn_unique r rows \<longleftrightarrow> (\<forall>r' \<in> set rows. tx_ID r' = tx_ID r \<or> \<not> txn_clash r' r)"
  by (auto simp: txn_unique_def txn_clash_def list_all_iff)

lemma refund_unique_clash:
  "refund_unique r rows \<longleftrightarrow> (\<forall>r' \<in> set rows. rf_ID r' = rf_ID r \<or> \<not> refund_clash r' r)"
  by (auto simp: refund_unique_def refund_clash_def list_all_iff)

text \<open>Replaying audit rows from a status: each must start where the previous one ended.\<close>

fun replay :: "IntentStatus \<Rightarrow> IntentTransition list \<Rightarrow> IntentStatus option" where
  "replay s [] = Some s"
| "replay s (e # es) = (if it_FromStatus e = s then replay (it_ToStatus e) es else None)"

definition audit_of :: "uuid \<Rightarrow> pay_db \<Rightarrow> IntentTransition list" where
  "audit_of k db = filter (\<lambda>e. it_IntentID e = k) (log_t db)"

definition audited :: "pay_db \<Rightarrow> bool" where
  "audited db \<longleftrightarrow>
     (\<forall>k r. get_intent k db = Some r \<longrightarrow> replay IntentCreated (audit_of k db) = Some (pi_Status r)) \<and>
     (\<forall>e \<in> set (log_t db). get_intent (it_IntentID e) db \<noteq> None)"

definition rows_ok :: "pay_db \<Rightarrow> bool" where
  "rows_ok db \<longleftrightarrow>
     (\<forall>r \<in> set (intents_t db). intent_row_ok r) \<and> (\<forall>t \<in> set (txns_t db). txn_row_ok t) \<and>
     (\<forall>r \<in> set (refunds_t db). refund_row_ok r)"

definition keys_ok :: "pay_db \<Rightarrow> bool" where
  "keys_ok db \<longleftrightarrow> pk_ok pi_ID (intents_t db) \<and> pk_ok tx_ID (txns_t db) \<and>
     pk_ok rf_ID (refunds_t db) \<and> pk_ok ik_Key (keys_t db)"

definition refs_ok :: "pay_db \<Rightarrow> bool" where
  "refs_ok db \<longleftrightarrow>
     (\<forall>t \<in> set (txns_t db). get_intent (tx_IntentID t) db \<noteq> None) \<and>
     (\<forall>r \<in> set (refunds_t db). get_intent (rf_IntentID r) db \<noteq> None)"

definition indexes_ok :: "pay_db \<Rightarrow> bool" where
  "indexes_ok db \<longleftrightarrow>
     index_ok tx_ID txn_clash (txns_t db) \<and> index_ok rf_ID refund_clash (refunds_t db)"

definition ledger_ok :: "pay_db \<Rightarrow> bool" where
  "ledger_ok db \<longleftrightarrow> keys_ok db \<and> rows_ok db \<and> refs_ok db \<and> indexes_ok db \<and> audited db"

lemmas ledger_parts = ledger_ok_def keys_ok_def rows_ok_def refs_ok_def indexes_ok_def audited_def

subsection \<open>The six shapes of a change\<close>

lemma get_intent_kept:
  "table_evolves pi_ID intent_evolves (intents_t db) rows \<Longrightarrow> get_intent k db \<noteq> None \<Longrightarrow>
     row_get pi_ID k rows \<noteq> None"
  unfolding table_evolves_def by (metis not_None_eq)

lemma replay_append: "replay s (xs @ ys) = (case replay s xs of None \<Rightarrow> None | Some t \<Rightarrow> replay t ys)"
  by (induction xs arbitrary: s) auto

lemma audited_intent_upd:
  assumes "audited db" and "get_intent k db = Some r"
    and "\<And>r. pi_ID (f r) = pi_ID r" and "pi_Status (f r) = it_ToStatus e"
    and "it_IntentID e = k" and "it_FromStatus e = pi_Status r"
    and "intents_t db' = row_upd pi_ID k f (intents_t db)" and "log_t db' = log_t db @ [e]"
  shows "audited db'"
proof -
  have "replay IntentCreated (audit_of k' db') = Some (pi_Status r')" if "get_intent k' db' = Some r'" for k' r'
  proof (cases "k' = k")
    case True
    with that assms have "r' = f r" by (simp add: row_get_upd)
    moreover have "replay IntentCreated (audit_of k db) = Some (pi_Status r)"
      using assms(1,2) by (simp add: audited_def)
    ultimately show ?thesis using True assms by (simp add: audit_of_def replay_append)
  next
    case False
    with that assms have "get_intent k' db = Some r'" by (simp add: row_get_upd)
    then show ?thesis using False assms by (simp add: audit_of_def audited_def)
  qed
  moreover have "\<forall>x \<in> set (log_t db'). get_intent (it_IntentID x) db' \<noteq> None"
    using assms(1-3,5,7,8) by (auto simp: audited_def row_get_upd)
  ultimately show ?thesis unfolding audited_def by blast
qed

lemma audited_intent_ins:
  assumes "audited db" and "get_intent (pi_ID r) db = None" and "pi_Status r = IntentCreated"
  shows "audited (db\<lparr>intents_t := row_ins r (intents_t db)\<rparr>)"
proof -
  have none: "audit_of (pi_ID r) db = []"
    using assms(1,2) by (auto simp: audit_of_def audited_def filter_empty_conv)
  have "replay IntentCreated (audit_of k db) = Some (pi_Status x)"
    if "row_get pi_ID k (row_ins r (intents_t db)) = Some x" for k x
    using that assms none by (auto simp: row_get_ins audited_def split: option.splits if_splits)
  moreover have "\<forall>x \<in> set (log_t db). row_get pi_ID (it_IntentID x) (row_ins r (intents_t db)) \<noteq> None"
    using assms(1) by (auto simp: audited_def row_get_ins split: option.splits)
  ultimately show ?thesis by (simp add: audited_def audit_of_def)
qed

lemma ok_intent_ins:
  assumes "ledger_ok db" and "get_intent (pi_ID r) db = None" and "pi_Status r = IntentCreated"
    and "intent_row_ok r"
  shows "ledger_ok (db\<lparr>intents_t := row_ins r (intents_t db)\<rparr>)"
  using assms tbl.ok_ins [of pi_ID "intents_t db" r] audited_intent_ins [of db r]
    get_intent_kept [of db "row_ins r (intents_t db)"] evolve_intros(5)
  by (auto simp: ledger_ok_def keys_ok_def rows_ok_def refs_ok_def indexes_ok_def)

lemma ok_intent_upd:
  assumes ok: "ledger_ok db" and get: "get_intent k db = Some r"
    and key: "\<And>r. pi_ID (f r) = pi_ID r" and "pi_Status (f r) = it_ToStatus e"
    and "it_IntentID e = k" and "it_FromStatus e = pi_Status r" and "intent_row_ok (f r)"
    and evolves: "intent_evolves r (f r)"
  shows "ledger_ok (db\<lparr>intents_t := row_upd pi_ID k f (intents_t db), log_t := log_t db @ [e]\<rparr>)"
    (is "ledger_ok ?db")
proof -
  have te: "table_evolves pi_ID intent_evolves (intents_t db) (intents_t ?db)"
    using get key evolves by (auto intro!: ie.te_upd)
  have "audited ?db" by (rule audited_intent_upd [OF _ get key]) (use ok assms in \<open>auto simp: ledger_ok_def\<close>)
  moreover have "keys_ok ?db" using ok tbl.ok_upd [of pi_ID f "intents_t db" k] key
    by (auto simp: ledger_ok_def keys_ok_def)
  moreover have "rows_ok ?db"
    using ok tbl.upd_rows_get [of pi_ID f "intents_t db" k r] key get \<open>intent_row_ok (f r)\<close>
    by (auto simp: ledger_ok_def rows_ok_def keys_ok_def)
  moreover have "refs_ok ?db" using ok get_intent_kept [OF te] by (auto simp: ledger_ok_def refs_ok_def)
  ultimately show ?thesis using ok by (simp add: ledger_ok_def indexes_ok_def)
qed

lemma ok_txn_ins:
  assumes "ledger_ok db" and "get_txn (tx_ID t) db = None" and "txn_row_ok t"
    and "txn_unique t (txns_t db)" and "get_intent (tx_IntentID t) db \<noteq> None"
  shows "ledger_ok (db\<lparr>txns_t := row_ins t (txns_t db)\<rparr>)"
  using assms tbl.ok_ins [of tx_ID "txns_t db" t] txn_index.index_ins [of "txns_t db" t]
  by (auto simp: ledger_parts txn_unique_clash audit_of_def)

lemma ok_txn_upd:
  assumes "ledger_ok db" and "get_txn k db = Some t" and key: "\<And>t. tx_ID (f t) = tx_ID t"
    and "txn_row_ok (f t)" and "txn_unique (f t) (txns_t db)" and "tx_IntentID (f t) = tx_IntentID t"
  shows "ledger_ok (db\<lparr>txns_t := row_upd tx_ID k f (txns_t db)\<rparr>)"
proof -
  have pk: "pk_ok tx_ID (txns_t db)" using assms(1) by (simp add: ledger_parts)
  have rows: "set (row_upd tx_ID k f (txns_t db)) = insert (f t) (set (txns_t db) - {t})"
    by (rule tbl.upd_rows_get) (use pk key assms(2) in auto)
  have "index_ok tx_ID txn_clash (row_upd tx_ID k f (txns_t db))"
    by (rule txn_index.index_upd [OF _ key]) (use pk assms in \<open>auto simp: ledger_parts txn_unique_clash\<close>)
  then show ?thesis
    using assms(1,4,6) row_get_set [OF assms(2)] rows tbl.ok_upd [of tx_ID f "txns_t db" k] key pk
    by (auto simp: ledger_parts audit_of_def)
qed

lemma ok_refund_ins:
  assumes "ledger_ok db" and "get_refund (rf_ID r) db = None" and "refund_row_ok r"
    and "refund_unique r (refunds_t db)" and "get_intent (rf_IntentID r) db \<noteq> None"
  shows "ledger_ok (db\<lparr>refunds_t := row_ins r (refunds_t db)\<rparr>)"
  using assms tbl.ok_ins [of rf_ID "refunds_t db" r] refund_index.index_ins [of "refunds_t db" r]
  by (auto simp: ledger_parts refund_unique_clash audit_of_def)

lemma ok_refund_upd:
  assumes "ledger_ok db" and "get_refund k db = Some r" and key: "\<And>r. rf_ID (f r) = rf_ID r"
    and "refund_row_ok (f r)" and "refund_trigger r (f r)"
  shows "ledger_ok (db\<lparr>refunds_t := row_upd rf_ID k f (refunds_t db)\<rparr>)"
proof -
  have pk: "pk_ok rf_ID (refunds_t db)" using assms(1) by (simp add: ledger_parts)
  have rows: "set (row_upd rf_ID k f (refunds_t db)) = insert (f r) (set (refunds_t db) - {r})"
    by (rule tbl.upd_rows_get) (use pk key assms(2) in auto)
  have "index_ok rf_ID refund_clash (row_upd rf_ID k f (refunds_t db))"
    by (rule refund_index.index_upd [OF _ key])
      (use pk assms in \<open>auto simp: ledger_parts refund_clash_def refund_trigger_def\<close>)
  then show ?thesis
    using assms(1,4,5) row_get_set [OF assms(2)] rows tbl.ok_upd [of rf_ID f "refunds_t db" k] key pk
    by (auto simp: ledger_parts audit_of_def refund_trigger_def)
qed

subsection \<open>Every operation keeps the invariant\<close>

lemma moved_status [simp]:
  "pi_Status (move_intent s now r) = s" "pi_Status (settle_intent p now r) = ao_NewIntentStatus p"
  "tx_IntentID (settle_txn p now t) = tx_IntentID t" "tx_Status (settle_txn p now t) = ao_NewTxStatus p"
  "rf_Status (move_refund st a b now x) = st" "ik_Result (complete_key res now k) = res"
  by (auto simp: move_intent_def settle_intent_def settle_txn_def move_refund_def complete_key_def Let_def)

lemma ok_CreateIntent [pay_inv]:
  "ledger_ok db \<Longrightarrow> pi_Status i = IntentCreated \<Longrightarrow> ledger_ok (snd (CreateIntent flt now fresh i db))"
  using CreateIntent_state [of flt now fresh i db] by (auto intro!: ok_intent_ins)

lemma ok_UpdateIntentStatus [pay_inv]:
  assumes "ledger_ok db"
  shows "ledger_ok (snd (UpdateIntentStatus flt now iid exp new actor reason db))"
proof (cases "snd (UpdateIntentStatus flt now iid exp new actor reason db) = db")
  case False
  with UpdateIntentStatus_state [of flt now iid exp new actor reason db] assms show ?thesis
    by (elim disjE exE conjE) (simp_all add: ok_intent_upd move_intent_evolves)
qed (use assms in simp)

lemma ok_InsertTransaction [pay_inv]:
  "ledger_ok db \<Longrightarrow> ledger_ok (snd (InsertTransaction flt now fresh t db))"
  using InsertTransaction_state [of flt now fresh t db] by (elim disjE conjE) (simp_all add: ok_txn_ins)

lemma ok_InsertRefund [pay_inv]: "ledger_ok db \<Longrightarrow> ledger_ok (snd (InsertRefund flt now fresh r db))"
  using InsertRefund_state [of flt now fresh r db] by (elim disjE conjE) (simp_all add: ok_refund_ins)

lemma ok_UpdateRefundStatus [pay_inv]:
  "ledger_ok db \<Longrightarrow> ledger_ok (snd (UpdateRefundStatus flt now rid exp new ref why db))"
  using UpdateRefundStatus_state [of flt now rid exp new ref why db]
  by (elim disjE exE conjE) (simp_all add: ok_refund_upd)

lemma ok_ClaimIdempotencyKey [pay_inv]:
  "ledger_ok db \<Longrightarrow> ledger_ok (snd (ClaimIdempotencyKey flt now key scope hash db))"
  using ClaimIdempotencyKey_state [of flt now key scope hash db]
    tbl.ok_ins [of ik_Key "keys_t db" "key_insert key scope hash now"]
  by (auto simp: ledger_parts audit_of_def)

lemma ok_CompleteIdempotencyKey [pay_inv]:
  "ledger_ok db \<Longrightarrow> ledger_ok (snd (CompleteIdempotencyKey flt now key res db))"
  using CompleteIdempotencyKey_state [of flt now key res db]
    tbl.ok_upd [of ik_Key "complete_key res now" "keys_t db" key]
  by (auto simp: ledger_parts audit_of_def)

lemma ok_settled:
  assumes "settle_guard e p now db r i" and "ledger_ok db"
  shows "ledger_ok (settled_db p now db r i)"
proof -
  have txn: "ledger_ok (settle_txn_db p now db)"
    unfolding settle_txn_db_def using assms by (intro ok_txn_upd [of _ _ r]) (auto simp: settle_guard_def)
  show ?thesis
  proof (cases "pi_Status i = ao_NewIntentStatus p")
    case True
    with txn show ?thesis by (simp add: settled_db_def)
  next
    case False
    have "ledger_ok (settle_both_db p now (tx_IntentID r) db)"
      using ok_intent_upd [OF txn, of "tx_IntentID r" i "settle_intent p now"
          "\<lparr>it_IntentID = tx_IntentID r, it_FromStatus = IntentProcessing,
            it_ToStatus = ao_NewIntentStatus p, it_ActorID = None, it_Reason = ao_Reason p,
            it_CreatedAt = now\<rparr>"] assms False
      by (auto simp: settle_guard_def settle_both_db_def settle_txn_db_def settle_intent_evolves)
    with False show ?thesis by (simp add: settled_db_def)
  qed
qed

lemma ok_ApplyTransactionOutcome [pay_inv]:
  "ledger_ok db \<Longrightarrow> ledger_ok (snd (ApplyTransactionOutcome e flt now p db))"
  using ApplyTransactionOutcome_state [of e flt now p db] by (auto simp: ok_settled)

section \<open>Reachable ledgers\<close>

text \<open>
  One writing operation, with any arguments, clock, fault and fresh identifier. Intents are
  created in status \<open>CREATED\<close>, as the only caller of \<open>CreateIntent\<close> does.
\<close>

inductive pay_step :: "engine \<Rightarrow> pay_db \<Rightarrow> pay_db \<Rightarrow> bool" for e where
  s_create: "pi_Status i = IntentCreated \<Longrightarrow> pay_step e db (snd (CreateIntent flt now fresh i db))"
| s_intent: "pay_step e db (snd (UpdateIntentStatus flt now iid exp new actor reason db))"
| s_txn: "pay_step e db (snd (InsertTransaction flt now fresh t db))"
| s_apply: "pay_step e db (snd (ApplyTransactionOutcome e flt now p db))"
| s_refund: "pay_step e db (snd (InsertRefund flt now fresh r db))"
| s_refund_upd: "pay_step e db (snd (UpdateRefundStatus flt now rid rexp rnew ref why db))"
| s_claim: "pay_step e db (snd (ClaimIdempotencyKey flt now key scope hash db))"
| s_complete: "pay_step e db (snd (CompleteIdempotencyKey flt now key res db))"

definition pay_run :: "engine \<Rightarrow> pay_db \<Rightarrow> pay_db \<Rightarrow> bool" where
  "pay_run e = (pay_step e)\<^sup>*\<^sup>*"

lemma pay_run_refl [simp]: "pay_run e db db"
  by (simp add: pay_run_def)

lemma pay_run_step: "pay_run e a b \<Longrightarrow> pay_step e b c \<Longrightarrow> pay_run e a c"
  by (simp add: pay_run_def)

lemma pay_run_trans: "pay_run e a b \<Longrightarrow> pay_run e b c \<Longrightarrow> pay_run e a c"
  by (simp add: pay_run_def)

lemma step_ok: "pay_step e db db' \<Longrightarrow> ledger_ok db \<Longrightarrow> ledger_ok db'"
  by (induction rule: pay_step.induct) (simp_all add: pay_inv)

lemma step_evolves: "pay_step e db db' \<Longrightarrow> ledger_evolves db db'"
  by (induction rule: pay_step.induct)
    (simp_all add: evolves_CreateIntent evolves_UpdateIntentStatus evolves_InsertTransaction
      evolves_ApplyTransactionOutcome evolves_InsertRefund evolves_UpdateRefundStatus
      evolves_ClaimIdempotencyKey evolves_CompleteIdempotencyKey)

lemma run_ok: "pay_run e db db' \<Longrightarrow> ledger_ok db \<Longrightarrow> ledger_ok db'"
  unfolding pay_run_def by (induction rule: rtranclp_induct) (auto intro: step_ok)

lemma run_evolves: "pay_run e db db' \<Longrightarrow> ledger_evolves db db'"
  unfolding pay_run_def
  by (induction rule: rtranclp_induct) (auto intro: ledger_evolves_refl ledger_evolves_trans step_evolves)

lemma empty_ledger_ok: "ledger_ok empty_pay_db"
  by (simp add: ledger_parts empty_pay_db_def index_ok_def)

section \<open>A sample history\<close>

text \<open>
  An intent of KES 1,500.00 that is created, starts processing, gets its provider transaction and
  succeeds. The witnesses of this development evaluate the properties on it.
\<close>

definition sample_intent :: intent where
  "sample_intent =
     \<lparr>pi_ID = 7, pi_TenantID = Some 3, pi_CustomerID = Some 5, pi_CreatedBy = 4,
      pi_AmountMinor = 150000, pi_Currency = ''KES'', pi_Status = IntentCreated,
      pi_Provider = ''sandbox'', pi_ProviderRef = [], pi_JobID = Some 11, pi_VehicleID = None,
      pi_Description = ''brakes'', pi_FailureReason = [], pi_SucceededAt = None, pi_FailedAt = None,
      pi_CanceledAt = None, pi_CreatedAt = 0, pi_UpdatedAt = 0\<rparr>"

definition sample_txn :: txn where
  "sample_txn =
     \<lparr>tx_ID = 9, tx_IntentID = 7, tx_Provider = ''sandbox'', tx_ProviderRef = ''sbx-1'',
      tx_ProviderReceipt = [], tx_Status = TxPending, tx_AmountMinor = 150000, tx_Currency = ''KES'',
      tx_FailureReason = [], tx_OccurredAt = None, tx_CreatedAt = 0, tx_UpdatedAt = 0\<rparr>"

definition sample_outcome :: ApplyOutcomeParams where
  "sample_outcome =
     \<lparr>ao_TransactionID = 9, ao_NewTxStatus = TxSucceeded, ao_NewIntentStatus = IntentSucceeded,
      ao_ProviderReceipt = ''R1'', ao_FailureReason = [], ao_OccurredAt = 50, ao_Reason = ''paid''\<rparr>"

definition lenient :: engine where
  "lenient = \<lparr>null_to_string = True, surplus_args = True, ambiguous_columns = True\<rparr>"

definition sample_db1 :: pay_db where
  "sample_db1 = snd (CreateIntent Healthy 10 1 sample_intent empty_pay_db)"

definition sample_db2 :: pay_db where
  "sample_db2 = snd (UpdateIntentStatus Healthy 20 7 IntentCreated IntentProcessing (Some 4) ''go'' sample_db1)"

definition sample_db3 :: pay_db where
  "sample_db3 = snd (InsertTransaction Healthy 30 1 sample_txn sample_db2)"

definition sample_db4 :: pay_db where
  "sample_db4 = snd (ApplyTransactionOutcome lenient Healthy 40 sample_outcome sample_db3)"

lemma sample_run:
  "pay_run lenient empty_pay_db sample_db1" "pay_run lenient sample_db1 sample_db4"
  "pay_run lenient empty_pay_db sample_db4" "pay_run lenient empty_pay_db sample_db3"
proof -
  show 1: "pay_run lenient empty_pay_db sample_db1"
    unfolding sample_db1_def by (rule pay_run_step [OF pay_run_refl s_create]) (simp add: sample_intent_def)
  have 2: "pay_run lenient sample_db1 sample_db3"
    unfolding sample_db3_def sample_db2_def
    by (rule pay_run_step [OF pay_run_step [OF pay_run_refl s_intent] s_txn])
  show 3: "pay_run lenient sample_db1 sample_db4"
    unfolding sample_db4_def by (rule pay_run_step [OF 2 s_apply])
  show "pay_run lenient empty_pay_db sample_db3" by (rule pay_run_trans [OF 1 2])
  show "pay_run lenient empty_pay_db sample_db4" by (rule pay_run_trans [OF 1 3])
qed

lemma sample_facts:
  "map_option pi_Status (get_intent 7 sample_db1) = Some IntentCreated"
  "map_option tx_Status (get_txn 9 sample_db3) = Some TxPending"
  "map_option pi_Status (get_intent 7 sample_db4) = Some IntentSucceeded"
  "map_option tx_Status (get_txn 9 sample_db4) = Some TxSucceeded"
  "fst (ApplyTransactionOutcome lenient Healthy 40 sample_outcome sample_db3) = Inr True"
  "length (log_t sample_db4) = 2"
  by code_simp+

section \<open>Properties\<close>

text \<open>
  C1. Ledger integrity. Whatever writing operations run from empty tables, in whatever order, with
  whatever arguments, and whichever of their database calls fail: primary keys are unique; every
  amount is strictly positive KES and every status known; every transaction and refund belongs to
  an existing intent; no two transactions of a provider share a provider reference or receipt; no
  intent has two refunds in flight; and the audit rows of each intent, replayed from \<open>CREATED\<close>,
  form an unbroken chain that ends at the intent's current status.
\<close>

theorem ledger_integrity: "pay_run e empty_pay_db db \<Longrightarrow> ledger_ok db"
  using run_ok empty_ledger_ok by blast

theorem ledger_integrity_witness:
  "pay_run lenient empty_pay_db sample_db4 \<and> ledger_ok sample_db4 \<and> length (log_t sample_db4) = 2"
  using ledger_integrity [OF sample_run(3)] sample_run(3) sample_facts by simp

text \<open>
  Ledger history. Between any two points of any run no row of the four tables is lost; the
  owner, amount, currency, provider and creation time of an intent never change, nor does its
  status once it is terminal; the same holds of transactions and refunds, which are frozen
  completely once they have left \<open>PENDING\<close> and \<open>REQUESTED\<close>; a completed idempotency key never
  changes; and the audit log is only appended to.
\<close>

theorem ledger_history: "pay_run e db db' \<Longrightarrow> ledger_evolves db db'"
  by (rule run_evolves)

theorem ledger_history_witness:
  "ledger_evolves sample_db1 sample_db4 \<and> sample_db1 \<noteq> sample_db4"
proof
  show "ledger_evolves sample_db1 sample_db4" by (rule ledger_history [OF sample_run(2)])
  show "sample_db1 \<noteq> sample_db4" using sample_facts(1,3) by auto
qed




subsection \<open>Settlement\<close>

lemma Apply_True:
  assumes "ApplyTransactionOutcome e flt now p db = (Inr True, db')"
  obtains r i where "settle_guard e p now db r i" and "db' = settled_db p now db r i"
  using assms by (cases rule: ApplyTransactionOutcome_cases [of e flt now p db]) (auto dest: finish_Inr)

lemma settled_reads:
  assumes "settle_guard e p now db r i"
  shows "get_txn (ao_TransactionID p) (settled_db p now db r i) = Some (settle_txn p now r)"
    and "k \<noteq> ao_TransactionID p \<Longrightarrow> get_txn k (settled_db p now db r i) = get_txn k db"
    and "get_intent (tx_IntentID r) (settled_db p now db r i) =
       Some (if pi_Status i = ao_NewIntentStatus p then i else settle_intent p now i)"
    and "k \<noteq> tx_IntentID r \<Longrightarrow> get_intent k (settled_db p now db r i) = get_intent k db"
  using assms
  by (auto simp: settle_guard_def settled_db_def settle_txn_db_def settle_both_db_def table_simps)

text \<open>
  What a settlement does. When \<open>ApplyTransactionOutcome\<close> reports that it applied the outcome,
  the transaction was \<open>PENDING\<close> and is now in the requested terminal status; its intent was
  \<open>PROCESSING\<close> and has moved with exactly one audit row, or already was in the requested status and
  is untouched with no audit row; no other transaction and no other intent changed.
\<close>

theorem settlement_effect:
  assumes "ApplyTransactionOutcome e flt now p db = (Inr True, db')"
  shows "\<exists>t i t' i'. get_txn (ao_TransactionID p) db = Some t \<and> tx_Status t = TxPending \<and>
     get_txn (ao_TransactionID p) db' = Some t' \<and> tx_Status t' = ao_NewTxStatus p \<and>
     ao_NewTxStatus p \<in> {TxSucceeded, TxFailed} \<and> tx_AmountMinor t' = tx_AmountMinor t \<and>
     get_intent (tx_IntentID t) db = Some i \<and> get_intent (tx_IntentID t) db' = Some i' \<and>
     pi_Status i' = ao_NewIntentStatus p \<and> pi_AmountMinor i' = pi_AmountMinor i \<and>
     (if pi_Status i = ao_NewIntentStatus p then i' = i \<and> log_t db' = log_t db
      else pi_Status i = IntentProcessing \<and>
        log_t db' = log_t db @ [\<lparr>it_IntentID = tx_IntentID t, it_FromStatus = IntentProcessing,
          it_ToStatus = ao_NewIntentStatus p, it_ActorID = None, it_Reason = ao_Reason p,
          it_CreatedAt = now\<rparr>]) \<and>
     (\<forall>k. k \<noteq> ao_TransactionID p \<longrightarrow> get_txn k db' = get_txn k db) \<and>
     (\<forall>k. k \<noteq> tx_IntentID t \<longrightarrow> get_intent k db' = get_intent k db)"
proof -
  obtain r i where g: "settle_guard e p now db r i" and db': "db' = settled_db p now db r i"
    using Apply_True [OF assms] .
  have "log_t db' = (if pi_Status i = ao_NewIntentStatus p then log_t db
      else log_t db @ [\<lparr>it_IntentID = tx_IntentID r, it_FromStatus = IntentProcessing,
          it_ToStatus = ao_NewIntentStatus p, it_ActorID = None, it_Reason = ao_Reason p,
          it_CreatedAt = now\<rparr>])"
    by (simp add: db' settled_db_def settle_txn_db_def settle_both_db_def)
  moreover have "pi_Status i = ao_NewIntentStatus p \<or> pi_AmountMinor (settle_intent p now i) = pi_AmountMinor i"
    using g by (auto simp: settle_guard_def intent_trigger_def)
  ultimately show ?thesis
    using g settled_reads [OF g] unfolding db' [symmetric]
    by (intro exI [of _ r] exI [of _ i] exI [of _ "settle_txn p now r"]
        exI [of _ "if pi_Status i = ao_NewIntentStatus p then i else settle_intent p now i"])
      (auto simp: settle_guard_def txn_trigger_def)
qed

theorem settlement_effect_witness:
  "map_option tx_Status (get_txn 9 sample_db4) = Some TxSucceeded \<and>
   map_option pi_Status (get_intent 7 sample_db4) = Some IntentSucceeded"
proof -
  have "ApplyTransactionOutcome lenient Healthy 40 sample_outcome sample_db3 = (Inr True, sample_db4)"
    using sample_facts(5) unfolding sample_db4_def by (metis prod.collapse)
  from settlement_effect [OF this] sample_facts(3,4) show ?thesis by simp
qed

text \<open>A transaction that has left \<open>PENDING\<close> is never written again.\<close>

lemma apply_on_settled:
  assumes "get_txn (ao_TransactionID p) db = Some t" and "tx_Status t \<noteq> TxPending"
  shows "snd (ApplyTransactionOutcome e flt now p db) = db"
    and "fst (ApplyTransactionOutcome e flt now p db) \<noteq> Inr True"
    and "null_to_string e \<Longrightarrow> flt = Healthy \<Longrightarrow> fst (ApplyTransactionOutcome e flt now p db) =
           (if tx_Status t = ao_NewTxStatus p then Inr False else Inl ErrPayConflict)"
proof -
  have no: "\<not> settle_guard e p now db r i" for r i using assms by (auto simp: settle_guard_def)
  have "\<exists>res. ApplyTransactionOutcome e flt now p db = (res, db) \<and> res \<noteq> Inr True"
    by (cases rule: ApplyTransactionOutcome_cases [of e flt now p db]) (use no in auto)
  then show "snd (ApplyTransactionOutcome e flt now p db) = db"
    and "fst (ApplyTransactionOutcome e flt now p db) \<noteq> Inr True" by auto
  show "fst (ApplyTransactionOutcome e flt now p db) =
      (if tx_Status t = ao_NewTxStatus p then Inr False else Inl ErrPayConflict)"
    if "null_to_string e" "flt = Healthy"
    using assms that
    by (auto simp: ApplyTransactionOutcome_def scanTransaction_def scan_text_def split: option.splits)
qed

lemma run_keeps_settled:
  assumes "pay_run e db db'" and "get_txn k db = Some t" and "tx_Status t \<noteq> TxPending"
  shows "get_txn k db' = Some t"
  using run_evolves [OF assms(1)] assms(2,3) te.te_get [of "txns_t db" "txns_t db'" k t]
  by (auto simp: ledger_evolves_def txn_evolves_def)

text \<open>
  A provider outcome is applied at most once. After one successful settlement of a
  transaction, whatever operations follow, every later attempt to apply any outcome to it (a
  duplicate webhook, a reconciliation query, a contradicting provider) changes nothing and never
  reports that it applied. On an engine that scans its rows, a healthy repeat of the same status
  is the no-op \<open>false, nil\<close>, and a contradicting one is \<open>ErrConflict\<close>.
\<close>

theorem settled_exactly_once:
  assumes "ApplyTransactionOutcome e flt now p db = (Inr True, db1)" and "pay_run e db1 db2"
    and "ao_TransactionID q = ao_TransactionID p"
  shows "snd (ApplyTransactionOutcome e flt' now' q db2) = db2 \<and>
    fst (ApplyTransactionOutcome e flt' now' q db2) \<noteq> Inr True \<and>
    (null_to_string e \<and> flt' = Healthy \<longrightarrow> fst (ApplyTransactionOutcome e flt' now' q db2) =
       (if ao_NewTxStatus q = ao_NewTxStatus p then Inr False else Inl ErrPayConflict))"
proof -
  obtain r i where g: "settle_guard e p now db r i" and db1: "db1 = settled_db p now db r i"
    using Apply_True [OF assms(1)] .
  have s: "tx_Status (settle_txn p now r) \<noteq> TxPending" "ao_NewTxStatus p \<noteq> TxPending"
    using g by (auto simp: settle_guard_def txn_trigger_def)
  have get: "get_txn (ao_TransactionID q) db2 = Some (settle_txn p now r)"
    using run_keeps_settled [OF assms(2)] settled_reads(1) [OF g] s(1) assms(3) db1 by simp
  show ?thesis using apply_on_settled [OF get s(1)] by auto
qed

theorem settled_exactly_once_witness:
  "ApplyTransactionOutcome lenient Healthy 99 (sample_outcome\<lparr>ao_NewTxStatus := TxFailed\<rparr>) sample_db4 =
     (Inl ErrPayConflict, sample_db4)"
proof -
  have "ApplyTransactionOutcome lenient Healthy 40 sample_outcome sample_db3 = (Inr True, sample_db4)"
    using sample_facts(5) unfolding sample_db4_def by (metis prod.collapse)
  from settled_exactly_once [OF this pay_run_refl,
      of "sample_outcome\<lparr>ao_NewTxStatus := TxFailed\<rparr>" Healthy 99]
  show ?thesis by (simp add: lenient_def sample_outcome_def prod_eq_iff)
qed

end
