(* ===== verification/Pay_Reads.thy ===== *)
theory Pay_Reads
  imports Pay_Ledger
begin

text \<open>
  The scoped reads of the payments repository: what they return is exactly what the caller's scope
  admits, pages are bounded and ordered, and what a write stored is what a read gives back, with
  the exceptions the model exposes (columns that are never written, columns that are \<open>NULL\<close>, and
  the argument list of a personal scope).
\<close>

section \<open>Scanning keeps what is compared\<close>

lemma scanIntent_fields:
  "scanIntent e r = Some i \<Longrightarrow>
     pi_ID i = pi_ID r \<and> pi_TenantID i = pi_TenantID r \<and> pi_CustomerID i = pi_CustomerID r \<and>
     pi_CreatedBy i = pi_CreatedBy r \<and> pi_Status i = pi_Status r \<and> pi_CreatedAt i = pi_CreatedAt r \<and>
     pi_AmountMinor i = pi_AmountMinor r \<and> pi_Currency i = pi_Currency r \<and>
     pi_Provider i = pi_Provider r"
  by (auto simp: scanIntent_def split: option.splits)

lemma scanIntent_lenient: "null_to_string e \<Longrightarrow> scanIntent e r \<noteq> None"
  by (simp add: scanIntent_def scan_text_def split: option.split)

lemma scanRefund_fields:
  "scanRefund e r = Some x \<Longrightarrow> rf_ID x = rf_ID r \<and> rf_IntentID x = rf_IntentID r \<and>
     rf_Status x = rf_Status r \<and> rf_AmountMinor x = rf_AmountMinor r \<and> rf_CreatedAt x = rf_CreatedAt r"
  by (auto simp: scanRefund_def split: option.splits)

lemma scan_rows_map: "scan_rows f rs = Some vs \<Longrightarrow> map f rs = map Some vs"
  by (induction rs arbitrary: vs) (auto split: option.splits)

lemma scan_rows_length: "scan_rows f rs = Some vs \<Longrightarrow> length vs = length rs"
  using scan_rows_map [of f rs vs] by (metis length_map)

lemma scan_rows_mem: "scan_rows f rs = Some vs \<Longrightarrow> v \<in> set vs \<Longrightarrow> \<exists>r \<in> set rs. f r = Some v"
proof -
  assume a: "scan_rows f rs = Some vs" "v \<in> set vs"
  then have "Some v \<in> set (map f rs)" using scan_rows_map [OF a(1)] by auto
  then show ?thesis by auto
qed

lemma scan_rows_keys:
  assumes "scan_rows f rs = Some vs" and "\<And>r v. f r = Some v \<Longrightarrow> g v = h r"
  shows "map g vs = map h rs"
  using assms(1) by (induction rs arbitrary: vs) (auto split: option.splits dest: assms(2))

section \<open>Which rows a scope admits\<close>

lemma scope_eval_1:
  "scopePredicate s (Suc 0) = (c, args) \<Longrightarrow> sql_eval (intent_col r) args c \<longleftrightarrow> visible s r"
  using scopePredicate_meaning [of s "[]" c args r "[]"] by simp

lemma scope_eval_2:
  "scopePredicate s (Suc (Suc 0)) = (c, args) \<Longrightarrow> sql_eval (intent_col r) (k # args) c \<longleftrightarrow> visible s r"
  using scopePredicate_meaning [of s "[k]" c args r "[]"] by simp

lemma visible_scan: "scanIntent e r = Some i \<Longrightarrow> visible s i \<longleftrightarrow> visible s r"
  by (auto dest!: scanIntent_fields simp: visible_def split: option.splits)

lemma scope_true_visible: "scopePredicate s n = (SqlTrue, args) \<Longrightarrow> visible s r"
  by (auto simp: scopePredicate_def visible_def split: if_splits option.splits)

text \<open>An intent of the tables that the scope admits.\<close>

definition admits :: "Scope \<Rightarrow> pay_db \<Rightarrow> uuid \<Rightarrow> bool" where
  "admits s db k \<longleftrightarrow> (\<exists>i \<in> set (intents_t db). pi_ID i = k \<and> visible s i)"

lemma intent_exists_admits:
  assumes "scopePredicate s (Suc (Suc 0)) = (c, args)" and "get_intent k db \<noteq> None"
  shows "intent_exists c (x # args) k db \<longleftrightarrow> admits s db k"
proof (cases "c = SqlTrue")
  case True
  obtain i where "get_intent k db = Some i" using assms(2) by auto
  with True assms(1) show ?thesis using row_get_set row_get_key scope_true_visible
    by (fastforce simp: intent_exists_def admits_def)
next
  case False
  then show ?thesis using scope_eval_2 [OF assms(1)]
    by (auto simp: intent_exists_def admits_def list_ex_iff)
qed

lemma read_Inr:
  assumes "(let (pred, predArgs) = scopePredicate s 2; args = k # predArgs in
      if read_fails flt \<or> \<not> args_accepted e (1 # placeholders pred) (length args) then Inl ErrDatabase
      else F pred args) = Inr v"
  obtains c as where "scopePredicate s (Suc (Suc 0)) = (c, as)" and "F c (k # as) = Inr v"
  using assms by (auto simp: Let_def numeral_2_eq_2 split: prod.splits if_splits)

lemma GetIntent_Inr:
  assumes "GetIntent e flt k s db = Inr i"
  obtains r where "r \<in> set (intents_t db)" and "pi_ID r = k" and "visible s r" and "scanIntent e r = Some i"
proof -
  from assms obtain c as where s: "scopePredicate s (Suc (Suc 0)) = (c, as)"
    and f: "(case find (\<lambda>r. pi_ID r = k \<and> sql_eval (intent_col r) (k # as) c) (intents_t db) of
             None \<Rightarrow> Inl ErrIntentNotFound
           | Some r \<Rightarrow> (case scanIntent e r of None \<Rightarrow> Inl ErrDatabase | Some i \<Rightarrow> Inr i)) = Inr i"
    unfolding GetIntent_def intentScopePredicate_def by (rule read_Inr)
  then obtain r where "find (\<lambda>r. pi_ID r = k \<and> sql_eval (intent_col r) (k # as) c) (intents_t db) = Some r"
    and i: "scanIntent e r = Some i" by (auto split: option.splits)
  then have "r \<in> set (intents_t db)" "pi_ID r = k" "visible s r"
    using scope_eval_2 [OF s] by (auto simp: find_Some_iff)
  with i that show thesis by blast
qed

lemma GetTransaction_Inr:
  assumes "ledger_ok db" and "GetTransaction e flt k s db = Inr t"
  shows "tx_ID t = k \<and> admits s db (tx_IntentID t)"
proof -
  from assms(2) obtain c as where s: "scopePredicate s (Suc (Suc 0)) = (c, as)"
    and f: "(case find (\<lambda>t. tx_ID t = k \<and> intent_exists c (k # as) (tx_IntentID t) db) (txns_t db) of
             None \<Rightarrow> Inl ErrTransactionNotFound
           | Some r \<Rightarrow> (case scanTransaction e r of None \<Rightarrow> Inl ErrDatabase | Some t \<Rightarrow> Inr t)) = Inr t"
    unfolding GetTransaction_def by (rule read_Inr)
  then obtain r where "r \<in> set (txns_t db)" "tx_ID r = k" "intent_exists c (k # as) (tx_IntentID r) db"
    and t: "scanTransaction e r = Some t" by (auto split: option.splits dest!: find_SomeD)
  then show ?thesis using scanTransaction_fields [OF t] assms(1) intent_exists_admits [OF s]
    by (auto simp: ledger_parts)
qed

lemma ListTransactions_Inr:
  assumes "ledger_ok db" and "ListTransactions e flt k s db = Inr ts" and "t \<in> set ts"
  shows "tx_IntentID t = k \<and> admits s db k"
proof -
  from assms(2) obtain c as where s: "scopePredicate s (Suc (Suc 0)) = (c, as)"
    and f: "(case scan_rows (scanTransaction e)
             (sort_key (\<lambda>t. (tx_CreatedAt t, uint (tx_ID t)))
               (filter (\<lambda>t. tx_IntentID t = k \<and> intent_exists c (k # as) (tx_IntentID t) db) (txns_t db))) of
             None \<Rightarrow> Inl ErrDatabase | Some ts \<Rightarrow> Inr ts) = Inr ts"
    unfolding ListTransactions_def by (rule read_Inr)
  then obtain r where "r \<in> set (txns_t db)" "tx_IntentID r = k" "intent_exists c (k # as) k db"
    and t: "scanTransaction e r = Some t" using assms(3)
    by (auto split: option.splits dest!: scan_rows_mem)
  then show ?thesis using scanTransaction_fields [OF t] assms(1) intent_exists_admits [OF s]
    by (auto simp: ledger_parts)
qed

lemma GetRefund_Inr:
  assumes "ledger_ok db" and "GetRefund e flt k s db = Inr x"
  shows "rf_ID x = k \<and> admits s db (rf_IntentID x)"
proof -
  from assms(2) obtain c as where s: "scopePredicate s (Suc (Suc 0)) = (c, as)"
    and f: "(case find (\<lambda>r. rf_ID r = k \<and> intent_exists c (k # as) (rf_IntentID r) db) (refunds_t db) of
             None \<Rightarrow> Inl ErrRefundNotFound
           | Some r \<Rightarrow> (case scanRefund e r of None \<Rightarrow> Inl ErrDatabase | Some x \<Rightarrow> Inr x)) = Inr x"
    unfolding GetRefund_def by (rule read_Inr)
  then obtain r where "r \<in> set (refunds_t db)" "rf_ID r = k" "intent_exists c (k # as) (rf_IntentID r) db"
    and t: "scanRefund e r = Some x" by (auto split: option.splits dest!: find_SomeD)
  then show ?thesis using scanRefund_fields [OF t] assms(1) intent_exists_admits [OF s]
    by (auto simp: ledger_parts)
qed

lemma LatestRefund_Inr:
  assumes "ledger_ok db" and "LatestRefundForIntent e flt k s db = Inr x"
  shows "rf_IntentID x = k \<and> admits s db k"
proof -
  from assms(2) obtain c as where s: "scopePredicate s (Suc (Suc 0)) = (c, as)"
    and f: "(case sort_key (\<lambda>r. (- rf_CreatedAt r, - uint (rf_ID r)))
             (filter (\<lambda>r. rf_IntentID r = k \<and> intent_exists c (k # as) (rf_IntentID r) db) (refunds_t db)) of
             [] \<Rightarrow> Inl ErrRefundNotFound
           | r # _ \<Rightarrow> (case scanRefund e r of None \<Rightarrow> Inl ErrDatabase | Some x \<Rightarrow> Inr x)) = Inr x"
    unfolding LatestRefundForIntent_def by (rule read_Inr)
  then obtain r rs where "sort_key (\<lambda>r. (- rf_CreatedAt r, - uint (rf_ID r)))
      (filter (\<lambda>r. rf_IntentID r = k \<and> intent_exists c (k # as) (rf_IntentID r) db) (refunds_t db)) = r # rs"
    and x: "scanRefund e r = Some x" by (auto split: list.splits option.splits)
  from this(1) have "r \<in> set (sort_key (\<lambda>r. (- rf_CreatedAt r, - uint (rf_ID r)))
      (filter (\<lambda>r. rf_IntentID r = k \<and> intent_exists c (k # as) (rf_IntentID r) db) (refunds_t db)))"
    by simp
  then have "r \<in> set (refunds_t db)" "rf_IntentID r = k" "intent_exists c (k # as) k db" by auto
  then show ?thesis using scanRefund_fields [OF x] assms(1) intent_exists_admits [OF s]
    by (auto simp: ledger_parts)
qed

section \<open>Listings\<close>

text \<open>The whole listing a scope and a filter select, newest first; a page is a slice of it.\<close>

definition intent_listing :: "Scope \<Rightarrow> IntentFilter \<Rightarrow> pay_db \<Rightarrow> intent_row list" where
  "intent_listing s f db = sort_key (\<lambda>r. (- pi_CreatedAt r, - uint (pi_ID r)))
     (filter (\<lambda>r. visible s r \<and> filter_matches f r) (intents_t db))"

lemma ListIntents_Inr:
  assumes "ListIntents e flt s f limit offset db = Inr is"
  shows "scan_rows (scanIntent e)
    (take (nat (page_limit limit)) (drop (nat (page_offset offset)) (intent_listing s f db))) = Some is"
proof -
  obtain c as where s: "scopePredicate s (Suc 0) = (c, as)" by fastforce
  have "filter (\<lambda>r. sql_eval (intent_col r) as c \<and> filter_matches f r) (intents_t db) =
      filter (\<lambda>r. visible s r \<and> filter_matches f r) (intents_t db)"
    by (simp add: scope_eval_1 [OF s])
  with assms s show ?thesis
    by (auto simp: ListIntents_def intentScopePredicate_def intent_listing_def Let_def
        split: if_splits option.splits)
qed

lemma set_intent_listing:
  "set (intent_listing s f db) = {r \<in> set (intents_t db). visible s r \<and> filter_matches f r}"
  by (auto simp: intent_listing_def)

lemma ListIntents_mem:
  assumes "ListIntents e flt s f limit offset db = Inr is" and "i \<in> set is"
  obtains r where "r \<in> set (intents_t db)" and "visible s r" and "filter_matches f r"
    and "scanIntent e r = Some i"
  using scan_rows_mem [OF ListIntents_Inr [OF assms(1)] assms(2)] set_intent_listing [of s f db]
  by (auto dest!: in_set_takeD in_set_dropD)

lemma distinct_intent_listing:
  assumes "pk_ok pi_ID (intents_t db)"
  shows "distinct (map pi_ID (intent_listing s f db))"
proof -
  have "distinct (map pi_ID (filter (\<lambda>r. visible s r \<and> filter_matches f r) (intents_t db)))"
    using assms by (simp add: pk_ok_def distinct_map_filter)
  then show ?thesis by (simp add: intent_listing_def distinct_map)
qed

lemma ListIntents_slice:
  assumes "ListIntents e flt s f limit offset db = Inr is"
    and "\<And>r i. scanIntent e r = Some i \<Longrightarrow> g i = h r"
  shows "map g is =
    take (nat (page_limit limit)) (drop (nat (page_offset offset)) (map h (intent_listing s f db)))"
  using scan_rows_keys [OF ListIntents_Inr [OF assms(1)] assms(2)]
  by (simp add: take_map drop_map)

lemma page_limit_bounds: "1 \<le> page_limit l \<and> page_limit l \<le> 200"
  by (simp add: page_limit_def)

text \<open>
  Scope isolation. Whatever a scoped read returns belongs to an intent the caller's scope
  admits: the tenant's own intents for a garage, the intents a principal created or is the customer
  of otherwise, all of them only for an operator; the zero scope is admitted nothing. This covers
  single intents, listings, transactions, their listings, refunds and the latest refund, on every
  engine and under every fault.
\<close>

theorem scope_isolation:
  assumes "ledger_ok db"
  shows "(GetIntent e flt k s db = Inr i \<longrightarrow> pi_ID i = k \<and> visible s i) \<and>
    (ListIntents e flt s f limit offset db = Inr is \<longrightarrow> (\<forall>i \<in> set is. visible s i)) \<and>
    (GetTransaction e flt k s db = Inr t \<longrightarrow> tx_ID t = k \<and> admits s db (tx_IntentID t)) \<and>
    (ListTransactions e flt k s db = Inr ts \<longrightarrow> (\<forall>t \<in> set ts. tx_IntentID t = k \<and> admits s db k)) \<and>
    (GetRefund e flt k s db = Inr x \<longrightarrow> rf_ID x = k \<and> admits s db (rf_IntentID x)) \<and>
    (LatestRefundForIntent e flt k s db = Inr x \<longrightarrow> rf_IntentID x = k \<and> admits s db k) \<and>
    \<not> admits zero_scope db k"
proof (intro conjI impI ballI)
  assume "GetIntent e flt k s db = Inr i"
  then obtain r where "pi_ID r = k" "visible s r" "scanIntent e r = Some i" by (rule GetIntent_Inr)
  then show "pi_ID i = k" "visible s i" using scanIntent_fields visible_scan by blast+
next
  fix i assume "ListIntents e flt s f limit offset db = Inr is" "i \<in> set is"
  then show "visible s i" using ListIntents_mem visible_scan by metis
next
  show "\<not> admits zero_scope db k" by (simp add: admits_def zero_scope_invisible)
qed (use GetTransaction_Inr [OF assms, of e flt k s t] ListTransactions_Inr [OF assms, of e flt k s ts]
  GetRefund_Inr [OF assms, of e flt k s x] LatestRefund_Inr [OF assms, of e flt k s x] in simp_all)

theorem scope_isolation_witness:
  "(\<exists>i. GetIntent lenient Healthy 7 \<lparr>sc_TenantID = Some 3, sc_PrincipalID = None,
      sc_explicitUnrestricted = False\<rparr> sample_db4 = Inr i) \<and>
   GetIntent lenient Healthy 7 \<lparr>sc_TenantID = Some 8, sc_PrincipalID = None,
      sc_explicitUnrestricted = False\<rparr> sample_db4 = Inl ErrIntentNotFound \<and>
   \<not> admits zero_scope sample_db4 7"
proof (intro conjI)
  have "case GetIntent lenient Healthy 7 \<lparr>sc_TenantID = Some 3, sc_PrincipalID = None,
      sc_explicitUnrestricted = False\<rparr> sample_db4 of Inl _ \<Rightarrow> False | Inr _ \<Rightarrow> True" by code_simp
  then show "\<exists>i. GetIntent lenient Healthy 7 \<lparr>sc_TenantID = Some 3, sc_PrincipalID = None,
      sc_explicitUnrestricted = False\<rparr> sample_db4 = Inr i" by (auto split: sum.splits)
  show "GetIntent lenient Healthy 7 \<lparr>sc_TenantID = Some 8, sc_PrincipalID = None,
      sc_explicitUnrestricted = False\<rparr> sample_db4 = Inl ErrIntentNotFound" by code_simp
  have "ledger_ok sample_db4" using run_ok [OF sample_run(3) empty_ledger_ok] .
  from scope_isolation [OF this] show "\<not> admits zero_scope sample_db4 7" by blast
qed

text \<open>
  Pages. A page of intents is a slice of one listing, at most 200 rows of it and 50 by default:
  the rows that the scope admits and the filter matches, each once, newest first. Consecutive pages
  therefore neither repeat nor skip an intent while the tables do not change.
\<close>

theorem intent_pages:
  assumes "ledger_ok db" and "ListIntents e flt s f limit offset db = Inr is"
  shows "map pi_ID is =
      take (nat (page_limit limit)) (drop (nat (page_offset offset)) (map pi_ID (intent_listing s f db))) \<and>
    set (intent_listing s f db) = {r \<in> set (intents_t db). visible s r \<and> filter_matches f r} \<and>
    distinct (map pi_ID (intent_listing s f db)) \<and>
    sorted (map (\<lambda>i. (- pi_CreatedAt i, - uint (pi_ID i))) is) \<and> length is \<le> 200"
proof (intro conjI)
  show ids: "map pi_ID is =
      take (nat (page_limit limit)) (drop (nat (page_offset offset)) (map pi_ID (intent_listing s f db)))"
    by (rule ListIntents_slice [OF assms(2)]) (auto dest: scanIntent_fields)
  show "set (intent_listing s f db) = {r \<in> set (intents_t db). visible s r \<and> filter_matches f r}"
    by (rule set_intent_listing)
  show "distinct (map pi_ID (intent_listing s f db))"
    using assms(1) by (intro distinct_intent_listing) (simp add: ledger_parts)
  have "map (\<lambda>i. (- pi_CreatedAt i, - uint (pi_ID i))) is =
      take (nat (page_limit limit)) (drop (nat (page_offset offset))
        (map (\<lambda>r. (- pi_CreatedAt r, - uint (pi_ID r))) (intent_listing s f db)))"
    by (rule ListIntents_slice [OF assms(2)]) (auto dest: scanIntent_fields)
  then show "sorted (map (\<lambda>i. (- pi_CreatedAt i, - uint (pi_ID i))) is)"
    by (simp add: intent_listing_def sorted_wrt_take sorted_wrt_drop)
  have "length is \<le> nat (page_limit limit)" using arg_cong [OF ids, of length] by simp
  then show "length is \<le> 200" using page_limit_bounds [of limit] by linarith
qed

theorem intent_pages_witness:
  "\<exists>is. ListIntents lenient Healthy UnrestrictedScope \<lparr>if_Status = None, if_CustomerID = None,
      if_JobID = None, if_VehicleID = None\<rparr> 1000 (- 3) sample_db4 = Inr is \<and> length is \<le> 200 \<and> is \<noteq> []"
proof -
  define f where "f = \<lparr>if_Status = None, if_CustomerID = None, if_JobID = None, if_VehicleID = None\<rparr>"
  have "case ListIntents lenient Healthy UnrestrictedScope f 1000 (- 3) sample_db4 of
      Inr xs \<Rightarrow> \<not> List.null xs | Inl _ \<Rightarrow> False"
    unfolding f_def by code_simp
  then obtain xs where xs: "ListIntents lenient Healthy UnrestrictedScope f 1000 (- 3) sample_db4 = Inr xs"
    and "xs \<noteq> []" by (auto split: sum.splits)
  moreover have "ledger_ok sample_db4" using run_ok [OF sample_run(3) empty_ledger_ok] .
  ultimately show ?thesis using intent_pages [OF _ xs] unfolding f_def by blast
qed

section \<open>Reading back\<close>

text \<open>
  What survives of a created intent. Reading an intent right after \<open>CreateIntent\<close> gives the
  caller's intent back without its job, vehicle, description and provider reference, which the
  \<open>INSERT\<close> does not name; and on an engine that does not scan \<open>NULL\<close> into a Go string, which is
  what pgx documents, the read fails, since \<open>provider_ref\<close> and \<open>failure_reason\<close> are \<open>NULL\<close>.
\<close>

theorem created_intent_read_back:
  assumes "CreateIntent Healthy now fresh i db = (Inr j, db')"
  shows "GetIntent e Healthy (pi_ID j) UnrestrictedScope db' =
    (if null_to_string e
     then Inr (j\<lparr>pi_ProviderRef := [], pi_JobID := None, pi_VehicleID := None, pi_Description := [],
       pi_FailureReason := [], pi_SucceededAt := None, pi_FailedAt := None, pi_CanceledAt := None\<rparr>)
     else Inl ErrDatabase)"
proof -
  define nid where "nid = (if pi_ID i = uuid_nil then fresh else pi_ID i)"
  have none: "get_intent nid db = None" and j: "j = i\<lparr>pi_ID := nid, pi_CreatedAt := now, pi_UpdatedAt := now\<rparr>"
    and db': "db' = db\<lparr>intents_t := row_ins (intent_insert nid now i) (intents_t db)\<rparr>"
    using assms by (auto simp: CreateIntent_def nid_def Let_def split: if_splits)
  have "find (\<lambda>r. pi_ID r = nid) (intents_t db') = Some (intent_insert nid now i)"
    using none by (simp add: db' row_get_def [symmetric] row_get_ins)
  then show ?thesis
    by (simp add: j GetIntent_def intentScopePredicate_def scopePredicate_def UnrestrictedScope_def
        Unrestricted_def args_accepted_def read_fails_def scanIntent_def scan_text_def intent_insert_def)
qed

theorem created_intent_witness:
  "GetIntent documented_pgx Healthy 7 UnrestrictedScope sample_db1 = Inl ErrDatabase \<and>
   (case GetIntent lenient Healthy 7 UnrestrictedScope sample_db1 of
      Inr i \<Rightarrow> pi_JobID i = None \<and> pi_Description i = [] | Inl _ \<Rightarrow> False)"
proof -
  define j where "j = sample_intent\<lparr>pi_CreatedAt := 10, pi_UpdatedAt := 10\<rparr>"
  have "CreateIntent Healthy 10 1 sample_intent empty_pay_db = (Inr j, sample_db1)"
    unfolding j_def sample_db1_def prod_eq_iff by code_simp
  from created_intent_read_back [OF this, of documented_pgx] created_intent_read_back [OF this, of lenient]
  show ?thesis by (simp add: j_def sample_intent_def documented_pgx_def lenient_def)
qed

section \<open>Columns that are never written\<close>

definition unlinked :: "intent_row \<Rightarrow> bool" where
  "unlinked r \<longleftrightarrow> pi_JobID r = None \<and> pi_VehicleID r = None \<and> pi_ProviderRef r = None \<and>
     pi_Description r = []"

lemma unlinked_moves [simp]:
  "unlinked (intent_insert nid now i)" "unlinked (move_intent st now r) = unlinked r"
  "unlinked (settle_intent p now r) = unlinked r"
  by (auto simp: unlinked_def move_intent_def stamp_intent_def settle_intent_def Let_def
      split: IntentStatus.split)

lemma step_unlinked:
  assumes "pay_step e db db'" and "\<forall>r \<in> set (intents_t db). unlinked r"
  shows "\<forall>r \<in> set (intents_t db'). unlinked r"
  using assms
proof (induction rule: pay_step.induct)
  case (s_create i db flt now fresh)
  then show ?case using CreateIntent_state [of flt now fresh i db] by auto
next
  case (s_intent db flt now iid exp new actor reason)
  then show ?case using UpdateIntentStatus_state [of flt now iid exp new actor reason db]
    by (auto simp: set_row_upd)
next
  case (s_txn db flt now fresh t)
  then show ?case using InsertTransaction_state [of flt now fresh t db] by auto
next
  case (s_apply db flt now p)
  then show ?case using ApplyTransactionOutcome_state [of e flt now p db]
    by (auto simp: settled_db_def settle_both_db_def settle_txn_db_def set_row_upd split: if_splits)
next
  case (s_refund db flt now fresh r)
  then show ?case using InsertRefund_state [of flt now fresh r db] by auto
next
  case (s_refund_upd db flt now rid rexp rnew ref why)
  then show ?case using UpdateRefundStatus_state [of flt now rid rexp rnew ref why db] by auto
next
  case (s_claim db flt now key scope hash)
  then show ?case using ClaimIdempotencyKey_state [of flt now key scope hash db] by auto
next
  case (s_complete db flt now key res)
  then show ?case using CompleteIdempotencyKey_state [of flt now key res db] by auto
qed

lemma run_unlinked: "pay_run e empty_pay_db db \<Longrightarrow> \<forall>r \<in> set (intents_t db). unlinked r"
  unfolding pay_run_def
  by (induction rule: rtranclp_induct) (auto simp: empty_pay_db_def dest: step_unlinked)

text \<open>
  No payment can be found by its job or vehicle. In every reachable ledger a listing filtered
  by job or by vehicle is empty or an error, for every caller, because no operation writes those
  columns.
\<close>

theorem job_filter_finds_nothing:
  assumes "pay_run e empty_pay_db db" and "if_JobID f \<noteq> None \<or> if_VehicleID f \<noteq> None"
    and "ListIntents e' flt s f limit offset db = Inr is"
  shows "is = []"
proof (rule ccontr)
  assume "is \<noteq> []"
  then obtain i where "i \<in> set is" by (meson last_in_set)
  with assms(3) obtain r where "r \<in> set (intents_t db)" "filter_matches f r" by (rule ListIntents_mem)
  with run_unlinked [OF assms(1)] assms(2) show False
    by (auto simp: unlinked_def filter_matches_def col_eq_def split: option.splits)
qed

theorem job_filter_witness:
  "(case ListIntents lenient Healthy UnrestrictedScope \<lparr>if_Status = None, if_CustomerID = None,
      if_JobID = Some 11, if_VehicleID = None\<rparr> 50 0 sample_db1 of Inr is \<Rightarrow> is = [] | Inl _ \<Rightarrow> False) \<and>
   pi_JobID sample_intent = Some 11"
proof -
  define f where "f = \<lparr>if_Status = None, if_CustomerID = None, if_JobID = Some 11, if_VehicleID = None\<rparr>"
  have "case ListIntents lenient Healthy UnrestrictedScope f 50 0 sample_db1 of Inr _ \<Rightarrow> True | Inl _ \<Rightarrow> False"
    unfolding f_def by code_simp
  then obtain xs where xs: "ListIntents lenient Healthy UnrestrictedScope f 50 0 sample_db1 = Inr xs"
    by (auto split: sum.splits)
  with job_filter_finds_nothing [OF sample_run(1) _ xs] show ?thesis
    unfolding f_def [symmetric] by (simp add: f_def sample_intent_def)
qed

section \<open>Personal scopes\<close>

text \<open>
  Personal scopes cannot read. The predicate of a principal without a tenant names one
  placeholder and brings two arguments, so on an engine that refuses surplus arguments, which is
  what pgx documents, every scoped read of the repository is a database error for a customer or an
  independent technician, whatever the tables hold.
\<close>

theorem personal_scope_reads_fail:
  assumes "sc_TenantID s = None" and "sc_PrincipalID s = Some p" and "\<not> surplus_args e"
  shows "GetIntent e flt k s db = Inl ErrDatabase \<and>
    ListIntents e flt s f limit offset db = Inl ErrDatabase \<and>
    GetTransaction e flt k s db = Inl ErrDatabase \<and> ListTransactions e flt k s db = Inl ErrDatabase \<and>
    GetRefund e flt k s db = Inl ErrDatabase \<and> LatestRefundForIntent e flt k s db = Inl ErrDatabase"
proof -
  have three: "\<not> args_accepted e [1, 2, 2] (length [k, p, p])"
    using assms(3) by (simp add: args_accepted_def upt_rec)
  have skipped: "\<not> args_accepted e ps n" if "2 \<le> n" "2 \<notin> set ps" for ps n
  proof -
    have "2 \<in> set [1..<Suc n]" using that by auto
    then show ?thesis using assms(3) that unfolding args_accepted_def list_all_iff by blast
  qed
  have "ListIntents e flt s f limit offset db = Inl ErrDatabase"
    using assms(1,2) by (simp add: ListIntents_def intentScopePredicate_def scopePredicate_principal
        Let_def skipped del: upt_Suc)
  then show ?thesis
    using assms(1,2) three
    by (simp add: GetIntent_def GetTransaction_def ListTransactions_def GetRefund_def
        LatestRefundForIntent_def intentScopePredicate_def scopePredicate_principal)
qed

theorem personal_scope_witness:
  "GetIntent documented_pgx Healthy 7 \<lparr>sc_TenantID = None, sc_PrincipalID = Some 5,
     sc_explicitUnrestricted = False\<rparr> sample_db4 = Inl ErrDatabase \<and>
   visible \<lparr>sc_TenantID = None, sc_PrincipalID = Some 5, sc_explicitUnrestricted = False\<rparr> sample_intent"
  using personal_scope_reads_fail [of "\<lparr>sc_TenantID = None, sc_PrincipalID = Some 5,
     sc_explicitUnrestricted = False\<rparr>" 5 documented_pgx]
  by (simp add: documented_pgx_def visible_def Unrestricted_def sample_intent_def)

end
