(* ===== verification/Pay_Webhook.thy ===== *)
theory Pay_Webhook
  imports Pay_Models
begin

text \<open>
  The webhook trust boundary, \<open>backend/payments/webhook.go\<close>: signing and verifying a delivery and
  validating its content. HMAC-SHA256 and the JSON decoder are the standard library's; they are the
  parameters \<open>hmac\<close> (secret, then message) and \<open>decode\<close> (the envelope of the first JSON value and
  whether another value follows it).
\<close>

section \<open>Model\<close>

definition signatureFreshness :: duration where "signatureFreshness = 5 * time_minute"
definition webhookFutureSkew :: duration where "webhookFutureSkew = 5 * time_minute"
definition maxWebhookFailureReason :: nat where "maxWebhookFailureReason = 500"
definition MaxWebhookBodyBytes :: nat where "MaxWebhookBodyBytes = 65536"

definition WebhookEventTransactionSucceeded :: string where
  "WebhookEventTransactionSucceeded = ''transaction.succeeded''"
definition WebhookEventTransactionFailed :: string where
  "WebhookEventTransactionFailed = ''transaction.failed''"

record webhookEnvelope =
  we_Event :: string
  we_Provider :: string
  we_ProviderRef :: string
  we_ProviderReceipt :: string
  we_AmountMinor :: int64
  we_Currency :: string
  we_FailureReason :: string
  we_OccurredAt :: gotime

type_synonym hmac_fun = "string \<Rightarrow> string \<Rightarrow> string"
type_synonym envelope_decoder = "string \<Rightarrow> (webhookEnvelope \<times> bool) option"

text \<open>The signed message: \<open>"%d."\<close> of the timestamp, then the raw body.\<close>

definition signed_message :: "int \<Rightarrow> string \<Rightarrow> string" where
  "signed_message ts body = dec_int ts @ ''.'' @ body"

definition SignWebhookPayload :: "hmac_fun \<Rightarrow> string \<Rightarrow> string \<Rightarrow> gotime \<Rightarrow> string" where
  "SignWebhookPayload hmac secret body at =
     ''t='' @ dec_int (unix_of at) @ '','' @ ''v1='' @ hex_encode (hmac secret (signed_message (unix_of at) body))"

datatype sig_error =
    SigNotConfigured | SigMissing | SigMalformed | SigBadTimestamp | SigStale | SigNotHex | SigMismatch

text \<open>The loop over the comma-separated parts: a later part of the same kind overrides an earlier one.\<close>

definition sig_part :: "string \<Rightarrow> string \<times> string \<Rightarrow> string \<times> string" where
  "sig_part part0 parts =
     (let part = trim_space part0 in
      if has_prefix part ''t='' then (trim_prefix part ''t='', snd parts)
      else if has_prefix part ''v1='' then (fst parts, trim_prefix part ''v1='')
      else parts)"

definition sig_parts :: "string \<Rightarrow> string \<times> string" where
  "sig_parts header = fold sig_part (split_on (CHR '','') header) ([], [])"

definition verifyWebhookSignature ::
  "hmac_fun \<Rightarrow> string \<Rightarrow> string \<Rightarrow> string \<Rightarrow> gotime \<Rightarrow> sig_error option" where
  "verifyWebhookSignature hmac secret body header now =
     (if secret = [] then Some SigNotConfigured
      else if header = [] then Some SigMissing
      else
        let (tsPart, sigPart) = sig_parts header in
        if tsPart = [] \<or> sigPart = [] then Some SigMalformed
        else case parse_int64 tsPart of
          None \<Rightarrow> Some SigBadTimestamp
        | Some ts \<Rightarrow>
            let skew = time_sub now (time_unix ts) in
            if skew < - signatureFreshness \<or> skew > signatureFreshness then Some SigStale
            else case hex_decode sigPart of
              None \<Rightarrow> Some SigNotHex
            | Some got \<Rightarrow>
                if hmac secret (signed_message (sint ts) body) \<noteq> got then Some SigMismatch else None)"

datatype parse_error =
    BodyEmpty | BodyNotJSON | BodyTrailing | UnknownEvent string | ForeignProvider string
  | RefMissing | ForeignCurrency string | AmountNotPositive int64 | ReasonTooLong
  | ReasonOnSuccess | ReasonMissing | OccurredMissing | OccurredInFuture

text \<open>\<open>clock\<close> is the \<open>time.Now()\<close> the function reads.\<close>

definition parseWebhookPayload ::
  "envelope_decoder \<Rightarrow> gotime \<Rightarrow> string \<Rightarrow> string \<Rightarrow> parse_error + WebhookPayload" where
  "parseWebhookPayload decode clock body provider =
     (if body = [] then Inl BodyEmpty
      else case decode body of
        None \<Rightarrow> Inl BodyNotJSON
      | Some (env, rest) \<Rightarrow>
          if rest then Inl BodyTrailing
          else if we_Event env \<noteq> WebhookEventTransactionSucceeded \<and>
                  we_Event env \<noteq> WebhookEventTransactionFailed then Inl (UnknownEvent (we_Event env))
          else if we_Provider env \<noteq> provider then Inl (ForeignProvider (we_Provider env))
          else if trim_space (we_ProviderRef env) = [] then Inl RefMissing
          else if we_Currency env \<noteq> CurrencyKES then Inl (ForeignCurrency (we_Currency env))
          else if sint (we_AmountMinor env) \<le> 0 then Inl (AmountNotPositive (we_AmountMinor env))
          else if length (we_FailureReason env) > maxWebhookFailureReason then Inl ReasonTooLong
          else if we_Event env = WebhookEventTransactionSucceeded \<and> we_FailureReason env \<noteq> []
            then Inl ReasonOnSuccess
          else if we_Event env = WebhookEventTransactionFailed \<and> trim_space (we_FailureReason env) = []
            then Inl ReasonMissing
          else if time_is_zero (we_OccurredAt env) then Inl OccurredMissing
          else if we_OccurredAt env > clock + webhookFutureSkew then Inl OccurredInFuture
          else Inr \<lparr>wp_Event = we_Event env, wp_Provider = we_Provider env, wp_IntentID = uuid_nil,
            wp_TransactionID = uuid_nil, wp_ProviderRef = we_ProviderRef env,
            wp_ProviderReceipt = we_ProviderReceipt env, wp_AmountMinor = we_AmountMinor env,
            wp_Currency = we_Currency env, wp_FailureReason = we_FailureReason env,
            wp_OccurredAt = we_OccurredAt env\<rparr>)"

text \<open>
  \<open>readWebhookBody\<close>: the request body is absent, unreadable, or a byte string that
  \<open>http.MaxBytesReader\<close> caps.
\<close>

datatype request_body = NoBody | Unreadable | Body string

definition readWebhookBody :: "request_body \<Rightarrow> string option" where
  "readWebhookBody b =
     (case b of NoBody \<Rightarrow> None | Unreadable \<Rightarrow> None
      | Body s \<Rightarrow> if length s > MaxWebhookBodyBytes then None else Some s)"

section \<open>Signatures\<close>

lemma list_all_graphic_prefix: "list_all graphic ''t=''" "list_all graphic ''v1=''"
  by (simp_all add: graphic_def)

lemma sig_parts_sign:
  "sig_parts (SignWebhookPayload hmac secret body at) =
     (dec_int (unix_of at), hex_encode (hmac secret (signed_message (unix_of at) body)))"
proof -
  let ?t = "''t='' @ dec_int (unix_of at)"
  let ?v = "''v1='' @ hex_encode (hmac secret (signed_message (unix_of at) body))"
  have "CHR '','' \<notin> set ?t" "CHR '','' \<notin> set ?v"
    using dec_int_no_comma hex_encode_graphic(2) by auto
  then have "split_on (CHR '','') (?t @ CHR '','' # ?v) = [?t, ?v]"
    using split_on_append split_on_none by metis
  moreover have "trim_space ?t = ?t" "trim_space ?v = ?v"
    using dec_int_graphic hex_encode_graphic(1) list_all_graphic_prefix
    by (auto intro!: trim_space_graphic)
  ultimately show ?thesis
    using trim_prefix_append [of "''t=''"] trim_prefix_append [of "''v1=''"]
    by (simp add: sig_parts_def SignWebhookPayload_def sig_part_def)
qed

lemma dec_int_nonempty [simp]: "dec_int i \<noteq> []"
  by (simp add: dec_int_def)

lemma time_sub_window: "0 \<le> d \<Longrightarrow> d < max_int64 \<Longrightarrow>
    (time_sub a b < - d \<or> time_sub a b > d) \<longleftrightarrow> \<bar>a - b\<bar> > d"
  by (auto simp: time_sub_def)

lemma time_unix_of:
  assumes "0 \<le> at" and "unix_of at + unix_to_internal \<le> max_int64"
  shows "time_unix (word_of_int (unix_of at)) = at div time_second * time_second"
proof -
  have "unix_of at + unix_to_internal = at div time_second" by (simp add: unix_of_def)
  moreover have "0 \<le> at div time_second" using assms(1) by (simp add: pos_imp_zdiv_nonneg_iff time_second_def)
  ultimately have "sint (word_of_int (unix_of at + unix_to_internal) :: int64) = at div time_second"
    using assms by (subst sint_of_int64) simp_all
  then show ?thesis by (simp add: time_unix_def)
qed

text \<open>
  C7. The signature round trip. A header that \<open>SignWebhookPayload\<close> renders for a body with a
  configured secret is accepted exactly while the clock is within five minutes of the signing
  second, before or after; outside of that window it is refused as stale, however genuine.
\<close>

theorem signature_round_trip:
  assumes "secret \<noteq> []" and "\<And>m. hmac secret m \<noteq> []" and "0 \<le> at" and "at div time_second \<le> max_int64"
  shows "verifyWebhookSignature hmac secret body (SignWebhookPayload hmac secret body at) now =
    (if \<bar>now - at div time_second * time_second\<bar> \<le> signatureFreshness then None else Some SigStale)"
proof -
  have at: "0 \<le> at div time_second"
    using assms(3) by (simp add: pos_imp_zdiv_nonneg_iff time_second_def)
  have bounds: "min_int64 \<le> unix_of at" "unix_of at \<le> max_int64" "unix_of at + unix_to_internal \<le> max_int64"
    using at assms(4) by (simp_all add: unix_of_def unix_to_internal_def)
  note ts = parse_dec_int [OF bounds(1,2)] sint_of_int64 [OF bounds(1,2)] time_unix_of [OF assms(3) bounds(3)]
  have win: "(time_sub now x < - signatureFreshness \<or> time_sub now x > signatureFreshness) \<longleftrightarrow>
      \<bar>now - x\<bar> > signatureFreshness" for x
    by (rule time_sub_window) (simp_all add: signatureFreshness_def time_minute_def time_second_def)
  have "SignWebhookPayload hmac secret body at \<noteq> []" by (simp add: SignWebhookPayload_def)
  with assms(1,2) ts win show ?thesis
    by (simp add: verifyWebhookSignature_def sig_parts_sign hex_decode_encode Let_def not_le)
qed

theorem signature_round_trip_witness:
  "verifyWebhookSignature (\<lambda>k m. k @ m) ''key'' ''body''
     (SignWebhookPayload (\<lambda>k m. k @ m) ''key'' ''body'' 63900000000000000000)
     (63900000000000000000 + signatureFreshness) = None"
  using signature_round_trip [of "''key''" "\<lambda>k m. k @ m" 63900000000000000000 "''body''" "63900000000000000000 + signatureFreshness"]
  by (simp add: signatureFreshness_def time_minute_def time_second_def)

text \<open>
  Authenticity. An accepted delivery carries, in its header, a timestamp within five minutes of
  the clock and the hexadecimal form of the MAC, under a secret that is configured, of exactly that
  timestamp and exactly the received body; in particular nothing is accepted without a secret,
  without a header, or with a MAC computed over another body or another time, unless the MACs
  collide.
\<close>

theorem accepted_webhook_is_authentic:
  assumes "verifyWebhookSignature hmac secret body header now = None"
  shows "secret \<noteq> [] \<and> header \<noteq> [] \<and>
    (\<exists>ts. parse_int64 (fst (sig_parts header)) = Some ts \<and>
       \<bar>now - time_unix ts\<bar> \<le> 5 * 60 * 1000000000 \<and>
       hex_decode (snd (sig_parts header)) = Some (hmac secret (signed_message (sint ts) body)))"
proof -
  obtain t v where tv: "sig_parts header = (t, v)" by fastforce
  have win: "(time_sub now x < - signatureFreshness \<or> time_sub now x > signatureFreshness) \<longleftrightarrow>
      \<bar>now - x\<bar> > 300000000000" for x
    using time_sub_window [of signatureFreshness now x]
    by (simp add: signatureFreshness_def time_minute_def time_second_def)
  from assms tv show ?thesis
    unfolding verifyWebhookSignature_def Let_def win by (auto split: if_splits option.splits)
qed

theorem authentic_witness:
  "\<exists>ts. parse_int64 (fst (sig_parts ''v1=6b312e62, t=1'')) = Some ts \<and> \<bar>- time_unix ts + time_unix 1\<bar> \<le> 5 * 60 * 1000000000"
proof -
  have "verifyWebhookSignature (\<lambda>k m. k @ m) ''k'' ''b'' ''v1=6b312e62, t=1'' (time_unix 1) = None"
    by code_simp
  from accepted_webhook_is_authentic [OF this] show ?thesis by (auto simp: abs_minus_commute)
qed

section \<open>Content\<close>

text \<open>
  Payload validation. \<open>parseWebhookPayload\<close> accepts a body exactly when it is one JSON envelope
  with nothing after it, for a known event, of the route's own provider, with a provider reference
  that is not blank, a strictly positive KES amount, a reason of at most 500 bytes that is present
  on a failure and absent on a success, and an occurrence time that is set and at most five minutes
  ahead; and then every field is handed on unchanged.
\<close>

theorem parsed_webhook_valid:
  "parseWebhookPayload decode clock body provider = Inr p \<longleftrightarrow>
     (\<exists>env. body \<noteq> [] \<and> decode body = Some (env, False) \<and> we_Provider env = provider \<and>
        trim_space (we_ProviderRef env) \<noteq> [] \<and>
        valid_money \<lparr>AmountMinor = we_AmountMinor env, Currency = we_Currency env\<rparr> \<and>
        (we_Event env = ''transaction.succeeded'' \<and> we_FailureReason env = [] \<or>
         we_Event env = ''transaction.failed'' \<and> trim_space (we_FailureReason env) \<noteq> [] \<and>
           length (we_FailureReason env) \<le> 500) \<and>
        we_OccurredAt env \<noteq> 0 \<and> we_OccurredAt env \<le> clock + 5 * 60 * 1000000000 \<and>
        p = \<lparr>wp_Event = we_Event env, wp_Provider = we_Provider env, wp_IntentID = 0,
            wp_TransactionID = 0, wp_ProviderRef = we_ProviderRef env,
            wp_ProviderReceipt = we_ProviderReceipt env, wp_AmountMinor = we_AmountMinor env,
            wp_Currency = we_Currency env, wp_FailureReason = we_FailureReason env,
            wp_OccurredAt = we_OccurredAt env\<rparr>)"
proof (cases "decode body")
  case None
  then show ?thesis by (simp add: parseWebhookPayload_def)
next
  case (Some x)
  obtain env rest where x: "x = (env, rest)" by fastforce
  have skew: "webhookFutureSkew = 300000000000"
    by (simp add: webhookFutureSkew_def time_minute_def time_second_def)
  from Some x show ?thesis
    by (auto simp: parseWebhookPayload_def skew valid_money_def time_is_zero_def
        maxWebhookFailureReason_def WebhookEventTransactionSucceeded_def
        WebhookEventTransactionFailed_def not_le)
qed

end
