(* ===== verification/Pay_Service.thy ===== *)
theory Pay_Service
  imports Pay_Reads Pay_Webhook
begin

text \<open>
  The payments service, \<open>backend/payments/service.go\<close>: initiation, webhook handling, refunds and
  the scoped reads. A handler is a function on the world: the ledger tables, the state of the
  settlement providers, the published events and the metric updates. One call brings a
  \<open>call_env\<close>: the engine, the fault and the database clock of its n-th store call, the n-th fresh
  identifier, the process clock, and which event types can be published. A Go function that returns
  a value together with an error is modelled with both.

  The adapters (\<open>provider\<close>) are arbitrary functions here; the theory \<open>Pay_Providers\<close> gives the
  sandbox and the Daraja ones. SHA-256, \<open>uuid.String\<close> and the free-text redaction of
  \<open>backend/platform/redact.go\<close> are parameters of the service.
\<close>

section \<open>Providers\<close>

record InitiateRequest =
  ir_IntentID :: uuid
  ir_TransactionID :: uuid
  ir_Amount :: Money
  ir_Description :: string
  ir_PayerPhone :: string

record InitiateResult =
  is_Status :: TransactionStatus
  is_ProviderRef :: string
  is_ProviderTransactionRef :: string

record QueryResult =
  qr_Status :: TransactionStatus
  qr_ProviderRef :: string
  qr_ProviderTransactionRef :: string
  qr_AmountMinor :: int64
  qr_Currency :: string
  qr_FailureReason :: string
  qr_OccurredAt :: gotime

record RefundRequest =
  rr_RefundID :: uuid
  rr_IntentID :: uuid
  rr_ProviderRef :: string
  rr_Amount :: Money
  rr_Reason :: string

record RefundResult =
  rs_Status :: RefundStatus
  rs_ProviderRef :: string
  rs_FailureReason :: string

text \<open>An adapter's error: its class under \<open>errors.Is\<close> and its text.\<close>

datatype provider_error =
    ProviderUnavailable string
  | ProviderRejected string
  | ProviderOther string

fun perr_text :: "provider_error \<Rightarrow> string" where
  "perr_text (ProviderUnavailable s) = s"
| "perr_text (ProviderRejected s) = s"
| "perr_text (ProviderOther s) = s"

fun perr_class :: "provider_error \<Rightarrow> pay_error" where
  "perr_class (ProviderUnavailable s) = ErrProviderUnavailable"
| "perr_class (ProviderRejected s) = ErrProviderRejected"
| "perr_class (ProviderOther s) = ErrProviderOther"

text \<open>Whether a refused webhook wraps \<open>ErrWebhookUnauthorized\<close> or is a content error.\<close>

datatype webhook_error = WebhookUnauthorized | WebhookContent

text \<open>
  An adapter over external state \<open>'w\<close>. \<open>p_webhook\<close> takes \<open>header.Get\<close>, the raw body, the handler's
  time and the process clock.
\<close>

record 'w provider =
  p_name :: string
  p_initiate :: "InitiateRequest \<Rightarrow> 'w \<Rightarrow> (provider_error + InitiateResult) \<times> 'w"
  p_query :: "string \<Rightarrow> 'w \<Rightarrow> (provider_error + QueryResult) \<times> 'w"
  p_refund :: "RefundRequest \<Rightarrow> 'w \<Rightarrow> (provider_error + RefundResult) \<times> 'w"
  p_webhook :: "(string \<Rightarrow> string) \<Rightarrow> string \<Rightarrow> gotime \<Rightarrow> gotime \<Rightarrow> webhook_error + WebhookPayload"

section \<open>Events and metrics\<close>

record IntentCreatedPayload =
  ic_IntentID :: uuid
  ic_AmountMinor :: int64
  ic_Currency :: string
  ic_Provider :: string
  ic_CustomerID :: "uuid option"
  ic_JobID :: "uuid option"
  ic_VehicleID :: "uuid option"

record TransactionSettledPayload =
  ts_IntentID :: uuid
  ts_TransactionID :: uuid
  ts_Provider :: string
  ts_ProviderRef :: string
  ts_ProviderReceipt :: string
  ts_AmountMinor :: int64
  ts_Currency :: string
  ts_SettledBy :: string
  ts_FailureReason :: string

record RefundCompletedPayload =
  rc_IntentID :: uuid
  rc_RefundID :: uuid
  rc_AmountMinor :: int64
  rc_Currency :: string
  rc_Provider :: string
  rc_ProviderRef :: string

record RefundFailedPayload =
  rl_IntentID :: uuid
  rl_RefundID :: uuid
  rl_AmountMinor :: int64
  rl_Currency :: string
  rl_FailureReason :: string

datatype payload =
    PIntentCreated IntentCreatedPayload
  | PSettled TransactionSettledPayload
  | PRefundCompleted RefundCompletedPayload
  | PRefundFailed RefundFailedPayload

definition EventIntentCreated :: string where "EventIntentCreated = ''intent.created.v1''"
definition EventTransactionSucceededV1 :: string where
  "EventTransactionSucceededV1 = ''transaction.succeeded.v1''"
definition EventTransactionFailedV1 :: string where
  "EventTransactionFailedV1 = ''transaction.failed.v1''"
definition EventRefundCompleted :: string where "EventRefundCompleted = ''refund.completed.v1''"
definition EventRefundFailed :: string where "EventRefundFailed = ''refund.failed.v1''"

record event =
  ev_type :: string
  ev_aggregate :: uuid
  ev_tenant :: "uuid option"
  ev_actor :: "uuid option"
  ev_payload :: payload

datatype metric =
    PaymentInitiated | PaymentSucceeded | PaymentFailed | PaymentRefunded
  | WebhookReceived string | WebhookDuplicate | WebhookProcessed
  | EventPublished string bool
  | ReconciliationRun string nat | ReconciliationDrift nat

definition WebhookOutcomeApplied :: string where "WebhookOutcomeApplied = ''applied''"
definition WebhookOutcomeDuplicate :: string where "WebhookOutcomeDuplicate = ''duplicate''"
definition WebhookOutcomeRejected :: string where "WebhookOutcomeRejected = ''rejected''"

section \<open>The world and one call\<close>

record 'w pay_world =
  w_db :: pay_db
  w_ext :: 'w
  w_events :: "event list"
  w_mets :: "metric list"

record call_env =
  c_engine :: engine
  c_flt :: "nat \<Rightarrow> db_fault"
  c_now :: "nat \<Rightarrow> gotime"
  c_fresh :: "nat \<Rightarrow> uuid"
  c_clock :: gotime
  c_pub :: "(string \<Rightarrow> bool) option"

record 'w service =
  sv_providers :: "string \<Rightarrow> 'w provider option"
  sv_default :: string
  sv_sha256 :: "string \<Rightarrow> string"
  sv_uuid_string :: "uuid \<Rightarrow> string"
  sv_redact :: "string \<Rightarrow> string"

definition count :: "metric \<Rightarrow> 'w pay_world \<Rightarrow> 'w pay_world" where
  "count m w = w\<lparr>w_mets := w_mets w @ [m]\<rparr>"

text \<open>
  \<open>publish\<close>: nothing without a publisher; otherwise the attempt is counted, and a failed one is an
  error and leaves no event.
\<close>

definition publish ::
  "call_env \<Rightarrow> string \<Rightarrow> uuid \<Rightarrow> uuid option \<Rightarrow> uuid option \<Rightarrow> payload \<Rightarrow> 'w pay_world
     \<Rightarrow> pay_error option \<times> 'w pay_world" where
  "publish c eventType aggregateID actorID tenantID p w =
     (case c_pub c of
        None \<Rightarrow> (None, w)
      | Some ok \<Rightarrow>
          let actor = (case actorID of Some a \<Rightarrow> if a = uuid_nil then None else Some a | None \<Rightarrow> None);
              e = \<lparr>ev_type = eventType, ev_aggregate = aggregateID, ev_tenant = tenantID,
                   ev_actor = actor, ev_payload = p\<rparr>
          in if ok eventType
             then (None, count (EventPublished eventType True) (w\<lparr>w_events := w_events w @ [e]\<rparr>))
             else (Some ErrPublish, count (EventPublished eventType False) w))"

definition Provider :: "'w service \<Rightarrow> string \<Rightarrow> pay_error + 'w provider" where
  "Provider sv name0 =
     (let name1 = (if name0 = [] then sv_default sv else name0);
          name2 = (if name1 = [] then ''sandbox'' else name1)
      in case sv_providers sv name2 of None \<Rightarrow> Inl ErrInvalidInput | Some p \<Rightarrow> Inr p)"

definition sha256Hex :: "'w service \<Rightarrow> string \<Rightarrow> string" where
  "sha256Hex sv b = hex_encode (sv_sha256 sv b)"

definition failureReasonFrom :: "provider_error \<Rightarrow> string" where
  "failureReasonFrom err = take maxWebhookFailureReason (perr_text err)"

definition validateOptionalID :: "uuid option \<Rightarrow> bool" where
  "validateOptionalID x \<longleftrightarrow> x \<noteq> Some uuid_nil"

section \<open>Initiation\<close>

definition MaxDescriptionLength :: nat where "MaxDescriptionLength = 200"
definition MaxRefundReasonLength :: nat where "MaxRefundReasonLength = 500"

record InitiateInput =
  in_TenantID :: "uuid option"
  in_CreatedBy :: uuid
  in_CustomerID :: "uuid option"
  in_AmountMinor :: int64
  in_Currency :: string
  in_Provider :: string
  in_JobID :: "uuid option"
  in_VehicleID :: "uuid option"
  in_Description :: string
  in_PayerPhone :: string

text \<open>\<open>None\<close> in \<open>ip_Intent\<close> is the zero value that accompanies an early error.\<close>

record InitiatedPayment =
  ip_Intent :: "intent option"
  ip_Transaction :: "txn option"

abbreviation no_payment :: InitiatedPayment where
  "no_payment \<equiv> \<lparr>ip_Intent = None, ip_Transaction = None\<rparr>"

text \<open>The checks that precede every effect: the money and the adapter, or the error.\<close>

definition initiate_checks :: "'w service \<Rightarrow> InitiateInput \<Rightarrow> pay_error + (Money \<times> 'w provider)" where
  "initiate_checks sv inp =
     (case NewMoney (in_AmountMinor inp) (in_Currency inp) of
        Inl _ \<Rightarrow> Inl ErrInvalidInput
      | Inr amount \<Rightarrow>
          if in_CreatedBy inp = uuid_nil then Inl ErrInvalidInput
          else if \<not> validateOptionalID (in_CustomerID inp) then Inl ErrInvalidInput
          else if \<not> validateOptionalID (in_JobID inp) then Inl ErrInvalidInput
          else if \<not> validateOptionalID (in_VehicleID inp) then Inl ErrInvalidInput
          else case Provider sv (in_Provider inp) of
            Inl e \<Rightarrow> Inl e
          | Inr p \<Rightarrow>
              if length (in_Description inp) > MaxDescriptionLength then Inl ErrInvalidInput
              else Inr (amount, p))"

definition new_intent :: "'w service \<Rightarrow> InitiateInput \<Rightarrow> Money \<Rightarrow> 'w provider \<Rightarrow> intent" where
  "new_intent sv inp amount p =
     \<lparr>pi_ID = uuid_nil, pi_TenantID = in_TenantID inp, pi_CustomerID = in_CustomerID inp,
      pi_CreatedBy = in_CreatedBy inp, pi_AmountMinor = AmountMinor amount,
      pi_Currency = Currency amount, pi_Status = IntentCreated, pi_Provider = p_name p,
      pi_ProviderRef = [], pi_JobID = in_JobID inp, pi_VehicleID = in_VehicleID inp,
      pi_Description = sv_redact sv (in_Description inp), pi_FailureReason = [],
      pi_SucceededAt = None, pi_FailedAt = None, pi_CanceledAt = None, pi_CreatedAt = 0,
      pi_UpdatedAt = 0\<rparr>"

definition new_txn ::
  "uuid \<Rightarrow> uuid \<Rightarrow> string \<Rightarrow> string \<Rightarrow> TransactionStatus \<Rightarrow> Money \<Rightarrow> string \<Rightarrow> txn" where
  "new_txn tid iid provider ref status amount why =
     \<lparr>tx_ID = tid, tx_IntentID = iid, tx_Provider = provider, tx_ProviderRef = ref,
      tx_ProviderReceipt = [], tx_Status = status, tx_AmountMinor = AmountMinor amount,
      tx_Currency = Currency amount, tx_FailureReason = why, tx_OccurredAt = None,
      tx_CreatedAt = 0, tx_UpdatedAt = 0\<rparr>"

definition created_payload :: "intent \<Rightarrow> payload" where
  "created_payload i = PIntentCreated
     \<lparr>ic_IntentID = pi_ID i, ic_AmountMinor = pi_AmountMinor i, ic_Currency = pi_Currency i,
      ic_Provider = pi_Provider i, ic_CustomerID = pi_CustomerID i, ic_JobID = pi_JobID i,
      ic_VehicleID = pi_VehicleID i\<rparr>"

text \<open>The deterministic rejection: record the failed attempt, fail the intent, announce both.\<close>

definition record_rejection ::
  "call_env \<Rightarrow> InitiateInput \<Rightarrow> Money \<Rightarrow> 'w provider \<Rightarrow> intent \<Rightarrow> provider_error \<Rightarrow> 'w pay_world
     \<Rightarrow> (InitiatedPayment \<times> pay_error option) \<times> 'w pay_world" where
  "record_rejection c inp amount p i err w =
     (let tx0 = new_txn (c_fresh c 1) (pi_ID i) (p_name p) [] TxFailed amount (failureReasonFrom err)
      in case InsertTransaction (c_flt c 1) (c_now c 1) (c_fresh c 2) tx0 (w_db w) of
        (Inl e, db) \<Rightarrow> ((\<lparr>ip_Intent = Some i, ip_Transaction = None\<rparr>, Some e), w\<lparr>w_db := db\<rparr>)
      | (Inr tx, db) \<Rightarrow>
          (case UpdateIntentStatus (c_flt c 2) (c_now c 2) (pi_ID i) IntentCreated IntentFailed
                  (Some (in_CreatedBy inp)) ''provider rejected the initiation'' db of
             (Inl e, db') \<Rightarrow> ((\<lparr>ip_Intent = Some i, ip_Transaction = None\<rparr>, Some e), w\<lparr>w_db := db'\<rparr>)
           | (Inr _, db') \<Rightarrow>
               let i' = i\<lparr>pi_Status := IntentFailed, pi_FailureReason := tx_FailureReason tx\<rparr>;
                   w1 = count PaymentFailed (w\<lparr>w_db := db'\<rparr>);
                   (_, w2) = publish c EventIntentCreated (pi_ID i') (Some (in_CreatedBy inp))
                     (in_TenantID inp) (created_payload i') w1;
                   (_, w3) = publish c EventTransactionFailedV1 (tx_ID tx) (Some (in_CreatedBy inp))
                     (in_TenantID inp) (PSettled \<lparr>ts_IntentID = pi_ID i', ts_TransactionID = tx_ID tx,
                        ts_Provider = tx_Provider tx, ts_ProviderRef = [], ts_ProviderReceipt = [],
                        ts_AmountMinor = tx_AmountMinor tx, ts_Currency = tx_Currency tx,
                        ts_SettledBy = ''initiation'', ts_FailureReason = tx_FailureReason tx\<rparr>) w2
               in ((\<lparr>ip_Intent = Some i', ip_Transaction = Some tx\<rparr>, Some (perr_class err)), w3)))"

text \<open>The accepted initiation: record the attempt, start processing, announce the intent.\<close>

definition record_acceptance ::
  "call_env \<Rightarrow> InitiateInput \<Rightarrow> Money \<Rightarrow> 'w provider \<Rightarrow> intent \<Rightarrow> InitiateResult \<Rightarrow> 'w pay_world
     \<Rightarrow> (InitiatedPayment \<times> pay_error option) \<times> 'w pay_world" where
  "record_acceptance c inp amount p i res w =
     (let tx0 = new_txn (c_fresh c 1) (pi_ID i) (p_name p) (is_ProviderRef res) (is_Status res) amount []
      in case InsertTransaction (c_flt c 1) (c_now c 1) (c_fresh c 2) tx0 (w_db w) of
        (Inl e, db) \<Rightarrow> ((\<lparr>ip_Intent = Some i, ip_Transaction = None\<rparr>, Some e), w\<lparr>w_db := db\<rparr>)
      | (Inr tx, db) \<Rightarrow>
          (case UpdateIntentStatus (c_flt c 2) (c_now c 2) (pi_ID i) IntentCreated IntentProcessing
                  (Some (in_CreatedBy inp)) ''provider accepted the initiation'' db of
             (Inl e, db') \<Rightarrow> ((\<lparr>ip_Intent = Some i, ip_Transaction = None\<rparr>, Some e), w\<lparr>w_db := db'\<rparr>)
           | (Inr _, db') \<Rightarrow>
               let i' = i\<lparr>pi_Status := IntentProcessing, pi_ProviderRef := is_ProviderRef res\<rparr>;
                   w1 = count PaymentInitiated (w\<lparr>w_db := db'\<rparr>);
                   (perr, w2) = publish c EventIntentCreated (pi_ID i') (Some (in_CreatedBy inp))
                     (in_TenantID inp) (created_payload i') w1
               in ((\<lparr>ip_Intent = Some i', ip_Transaction = Some tx\<rparr>, perr), w2)))"

definition InitiatePayment ::
  "'w service \<Rightarrow> call_env \<Rightarrow> InitiateInput \<Rightarrow> 'w pay_world
     \<Rightarrow> (InitiatedPayment \<times> pay_error option) \<times> 'w pay_world" where
  "InitiatePayment sv c inp w =
     (case initiate_checks sv inp of
        Inl e \<Rightarrow> ((no_payment, Some e), w)
      | Inr (amount, p) \<Rightarrow>
          (case CreateIntent (c_flt c 0) (c_now c 0) (c_fresh c 0) (new_intent sv inp amount p) (w_db w) of
             (Inl e, db) \<Rightarrow> ((no_payment, Some e), w\<lparr>w_db := db\<rparr>)
           | (Inr i, db) \<Rightarrow>
               let (res, ext) = p_initiate p
                     \<lparr>ir_IntentID = pi_ID i, ir_TransactionID = c_fresh c 1, ir_Amount = amount,
                      ir_Description = pi_Description i, ir_PayerPhone = in_PayerPhone inp\<rparr> (w_ext w);
                   w1 = w\<lparr>w_db := db, w_ext := ext\<rparr>
               in case res of
                  Inl (ProviderUnavailable s) \<Rightarrow>
                    ((\<lparr>ip_Intent = Some i, ip_Transaction = None\<rparr>, Some ErrProviderUnavailable), w1)
                | Inl err \<Rightarrow> record_rejection c inp amount p i err w1
                | Inr r \<Rightarrow> record_acceptance c inp amount p i r w1))"

section \<open>Webhooks\<close>

record WebhookResult =
  wr_Status :: string
  wr_Duplicate :: bool
  wr_IntentID :: uuid
  wr_TransactionID :: uuid

definition WebhookStatusApplied :: string where "WebhookStatusApplied = ''applied''"
definition WebhookStatusDuplicate :: string where "WebhookStatusDuplicate = ''duplicate''"

text \<open>The idempotency key: \<open>webhook:<provider>:<event>:<transaction>\<close>.\<close>

definition webhook_key :: "'w service \<Rightarrow> 'w provider \<Rightarrow> string \<Rightarrow> uuid \<Rightarrow> string" where
  "webhook_key sv p evt tid =
     ''webhook:'' @ p_name p @ '':'' @ evt @ '':'' @ sv_uuid_string sv tid"

text \<open>Step 3: the external input against the ledger.\<close>

definition webhook_matches :: "'w provider \<Rightarrow> WebhookPayload \<Rightarrow> txn \<Rightarrow> bool" where
  "webhook_matches p pl tx \<longleftrightarrow>
     tx_Provider tx = p_name p \<and>
     EqualSameCurrency \<lparr>AmountMinor = wp_AmountMinor pl, Currency = wp_Currency pl\<rparr>
       \<lparr>AmountMinor = tx_AmountMinor tx, Currency = tx_Currency tx\<rparr> \<and>
     \<not> (tx_IntentID tx \<noteq> wp_IntentID pl \<and> wp_IntentID pl \<noteq> uuid_nil)"

definition webhook_outcome :: "WebhookPayload \<Rightarrow> txn \<Rightarrow> ApplyOutcomeParams" where
  "webhook_outcome pl tx =
     \<lparr>ao_TransactionID = tx_ID tx,
      ao_NewTxStatus = (if wp_Event pl = WebhookEventTransactionFailed then TxFailed else TxSucceeded),
      ao_NewIntentStatus =
        (if wp_Event pl = WebhookEventTransactionFailed then IntentFailed else IntentSucceeded),
      ao_ProviderReceipt = wp_ProviderReceipt pl, ao_FailureReason = wp_FailureReason pl,
      ao_OccurredAt = wp_OccurredAt pl, ao_Reason = ''webhook''\<rparr>"

definition settled_payload :: "WebhookPayload \<Rightarrow> txn \<Rightarrow> payload" where
  "settled_payload pl tx = PSettled
     \<lparr>ts_IntentID = tx_IntentID tx, ts_TransactionID = tx_ID tx, ts_Provider = tx_Provider tx,
      ts_ProviderRef = tx_ProviderRef tx, ts_ProviderReceipt = wp_ProviderReceipt pl,
      ts_AmountMinor = tx_AmountMinor tx, ts_Currency = tx_Currency tx, ts_SettledBy = ''webhook'',
      ts_FailureReason = wp_FailureReason pl\<rparr>"

text \<open>
  Step 5 and what follows it: apply, count, complete the key, announce. The result that
  accompanies a failed publication is not modelled; the route answers with the error alone.
\<close>

definition webhook_apply ::
  "'w service \<Rightarrow> call_env \<Rightarrow> 'w provider \<Rightarrow> WebhookPayload \<Rightarrow> txn \<Rightarrow> 'w pay_world
     \<Rightarrow> (pay_error + WebhookResult) \<times> 'w pay_world" where
  "webhook_apply sv c p pl tx w =
     (case ApplyTransactionOutcome (c_engine c) (c_flt c 2) (c_now c 2) (webhook_outcome pl tx) (w_db w) of
        (Inl e, db) \<Rightarrow> (Inl e, w\<lparr>w_db := db\<rparr>)
      | (Inr _, db) \<Rightarrow>
          let w1 = count (if ao_NewTxStatus (webhook_outcome pl tx) = TxSucceeded
                          then PaymentSucceeded else PaymentFailed) (w\<lparr>w_db := db\<rparr>)
          in case CompleteIdempotencyKey (c_flt c 3) (c_now c 3)
                    (webhook_key sv p (wp_Event pl) (tx_ID tx)) ''applied'' (w_db w1) of
               (Inl e, db') \<Rightarrow> (Inl e, w1\<lparr>w_db := db'\<rparr>)
             | (Inr _, db') \<Rightarrow>
                 let w2 = count WebhookProcessed
                            (count (WebhookReceived WebhookOutcomeApplied) (w1\<lparr>w_db := db'\<rparr>));
                     (perr, w3) = publish c
                       (if wp_Event pl = WebhookEventTransactionFailed then EventTransactionFailedV1
                        else EventTransactionSucceededV1)
                       (tx_ID tx) None None (settled_payload pl tx) w2
                 in case perr of
                      Some e \<Rightarrow> (Inl e, w3)
                    | None \<Rightarrow> (Inr \<lparr>wr_Status = WebhookStatusApplied, wr_Duplicate = False,
                        wr_IntentID = tx_IntentID tx, wr_TransactionID = tx_ID tx\<rparr>, w3))"

text \<open>Step 4: claim the key; a replay is compared with the claim that exists, a first delivery applied.\<close>

definition webhook_idempotent ::
  "'w service \<Rightarrow> call_env \<Rightarrow> 'w provider \<Rightarrow> WebhookPayload \<Rightarrow> txn \<Rightarrow> string \<Rightarrow> 'w pay_world
     \<Rightarrow> (pay_error + WebhookResult) \<times> 'w pay_world" where
  "webhook_idempotent sv c p pl tx body w =
     (case ClaimIdempotencyKey (c_flt c 1) (c_now c 1)
             (webhook_key sv p (wp_Event pl) (tx_ID tx)) ''webhook'' (sha256Hex sv body) (w_db w) of
        (Inl e, db) \<Rightarrow> (Inl e, w\<lparr>w_db := db\<rparr>)
      | (Inr claim, db) \<Rightarrow>
          let w1 = w\<lparr>w_db := db\<rparr> in
          if \<not> cr_Claimed claim then
            (if cr_ExistingPayloadHash claim \<noteq> sha256Hex sv body
               then (Inl ErrWebhookRejected, count (WebhookReceived WebhookOutcomeRejected) w1)
             else if cr_ExistingResult claim = [] then (Inl ErrPayConflict, w1)
             else (Inr \<lparr>wr_Status = WebhookStatusDuplicate, wr_Duplicate = True,
                     wr_IntentID = tx_IntentID tx, wr_TransactionID = tx_ID tx\<rparr>,
                   count WebhookDuplicate (count (WebhookReceived WebhookOutcomeDuplicate) w1)))
          else webhook_apply sv c p pl tx w1)"

definition HandleWebhook ::
  "'w service \<Rightarrow> call_env \<Rightarrow> string \<Rightarrow> (string \<Rightarrow> string) \<Rightarrow> string \<Rightarrow> gotime \<Rightarrow> 'w pay_world
     \<Rightarrow> (pay_error + WebhookResult) \<times> 'w pay_world" where
  "HandleWebhook sv c providerName header body now w =
     (let rejected = count (WebhookReceived WebhookOutcomeRejected) in
      case Provider sv providerName of
        Inl e \<Rightarrow> (Inl e, w)
      | Inr p \<Rightarrow>
        (case p_webhook p header body now (c_clock c) of
           Inl WebhookUnauthorized \<Rightarrow> (Inl ErrWebhookUnauthorized, rejected w)
         | Inl WebhookContent \<Rightarrow> (Inl ErrWebhookRejected, rejected w)
         | Inr pl \<Rightarrow>
           (case GetTransactionByProviderRef (c_engine c) (c_flt c 0) (p_name p) (wp_ProviderRef pl) (w_db w) of
              Inl _ \<Rightarrow> (Inl ErrWebhookRejected, rejected w)
            | Inr tx \<Rightarrow>
                if \<not> webhook_matches p pl tx then (Inl ErrWebhookRejected, rejected w)
                else webhook_idempotent sv c p pl tx body w)))"

section \<open>Refunds\<close>

text \<open>The checks of \<open>RefundPayment\<close>, all of them reads: the intent and its adapter, or the error.\<close>

definition refund_checks ::
  "'w service \<Rightarrow> call_env \<Rightarrow> uuid \<Rightarrow> string \<Rightarrow> Scope \<Rightarrow> pay_db \<Rightarrow> pay_error + (intent \<times> 'w provider)" where
  "refund_checks sv c intentID reason scope db =
     (case GetIntent (c_engine c) (c_flt c 0) intentID scope db of
        Inl e \<Rightarrow> Inl e
      | Inr i \<Rightarrow>
          if pi_Status i \<noteq> IntentSucceeded then Inl ErrNotRefundable
          else if length reason > MaxRefundReasonLength then Inl ErrInvalidInput
          else
            let proceed = (case Provider sv (pi_Provider i) of Inl e \<Rightarrow> Inl e | Inr p \<Rightarrow> Inr (i, p))
            in case LatestRefundForIntent (c_engine c) (c_flt c 1) intentID scope db of
                 Inr x \<Rightarrow> if rf_Status x \<noteq> RefundFailed then Inl ErrAlreadyRefunded else proceed
               | Inl ErrRefundNotFound \<Rightarrow> proceed
               | Inl e \<Rightarrow> Inl e)"

definition new_refund :: "intent \<Rightarrow> string \<Rightarrow> uuid \<Rightarrow> refund" where
  "new_refund i reason actorID =
     \<lparr>rf_ID = uuid_nil, rf_IntentID = pi_ID i, rf_AmountMinor = pi_AmountMinor i,
      rf_Currency = pi_Currency i, rf_Status = RefundRequested, rf_Provider = pi_Provider i,
      rf_ProviderRef = [], rf_Reason = reason, rf_FailureReason = [],
      rf_RequestedBy = (if actorID = uuid_nil then None else Some actorID),
      rf_CreatedAt = 0, rf_UpdatedAt = 0\<rparr>"

text \<open>The rest of the handler: insert the refund, call the provider, record and announce its answer.\<close>

definition refund_execute ::
  "call_env \<Rightarrow> string \<Rightarrow> uuid \<Rightarrow> intent \<Rightarrow> 'w provider \<Rightarrow> 'w pay_world
     \<Rightarrow> (refund option \<times> pay_error option) \<times> 'w pay_world" where
  "refund_execute c reason actorID i p w =
     (case InsertRefund (c_flt c 2) (c_now c 2) (c_fresh c 0) (new_refund i reason actorID) (w_db w) of
        (Inl e, db) \<Rightarrow> ((None, Some e), w\<lparr>w_db := db\<rparr>)
      | (Inr r, db) \<Rightarrow>
          let (res, ext) = p_refund p
                \<lparr>rr_RefundID = rf_ID r, rr_IntentID = pi_ID i, rr_ProviderRef = pi_ProviderRef i,
                 rr_Amount = \<lparr>AmountMinor = pi_AmountMinor i, Currency = pi_Currency i\<rparr>,
                 rr_Reason = reason\<rparr> (w_ext w);
              w1 = w\<lparr>w_db := db, w_ext := ext\<rparr>
          in case res of
             Inl (ProviderUnavailable s) \<Rightarrow> ((Some r, Some ErrProviderUnavailable), w1)
           | Inl err \<Rightarrow>
               (case UpdateRefundStatus (c_flt c 3) (c_now c 3) (rf_ID r) RefundRequested RefundFailed
                       [] (failureReasonFrom err) (w_db w1) of
                  (Inl e, db') \<Rightarrow> ((Some r, Some e), w1\<lparr>w_db := db'\<rparr>)
                | (Inr _, db') \<Rightarrow>
                    let r' = r\<lparr>rf_Status := RefundFailed, rf_FailureReason := failureReasonFrom err\<rparr>;
                        (_, w2) = publish c EventRefundFailed (rf_ID r') (Some actorID) (pi_TenantID i)
                          (PRefundFailed \<lparr>rl_IntentID = pi_ID i, rl_RefundID = rf_ID r',
                             rl_AmountMinor = rf_AmountMinor r', rl_Currency = rf_Currency r',
                             rl_FailureReason = rf_FailureReason r'\<rparr>) (w1\<lparr>w_db := db'\<rparr>)
                    in ((Some r', Some (perr_class err)), w2))
           | Inr rs \<Rightarrow>
               (case UpdateRefundStatus (c_flt c 3) (c_now c 3) (rf_ID r) RefundRequested (rs_Status rs)
                       (rs_ProviderRef rs) (rs_FailureReason rs) (w_db w1) of
                  (Inl e, db') \<Rightarrow> ((Some r, Some e), w1\<lparr>w_db := db'\<rparr>)
                | (Inr _, db') \<Rightarrow>
                    let r' = r\<lparr>rf_Status := rs_Status rs, rf_ProviderRef := rs_ProviderRef rs\<rparr>;
                        (perr, w2) = publish c EventRefundCompleted (rf_ID r') (Some actorID) (pi_TenantID i)
                          (PRefundCompleted \<lparr>rc_IntentID = pi_ID i, rc_RefundID = rf_ID r',
                             rc_AmountMinor = rf_AmountMinor r', rc_Currency = rf_Currency r',
                             rc_Provider = pi_Provider i, rc_ProviderRef = rs_ProviderRef rs\<rparr>)
                          (count PaymentRefunded (w1\<lparr>w_db := db'\<rparr>))
                    in ((Some r', perr), w2)))"

definition RefundPayment ::
  "'w service \<Rightarrow> call_env \<Rightarrow> uuid \<Rightarrow> string \<Rightarrow> uuid \<Rightarrow> Scope \<Rightarrow> 'w pay_world
     \<Rightarrow> (refund option \<times> pay_error option) \<times> 'w pay_world" where
  "RefundPayment sv c intentID reason actorID scope w =
     (case refund_checks sv c intentID reason scope (w_db w) of
        Inl e \<Rightarrow> ((None, Some e), w)
      | Inr (i, p) \<Rightarrow> refund_execute c reason actorID i p w)"

section \<open>Reads\<close>

definition Intents ::
  "call_env \<Rightarrow> Scope \<Rightarrow> IntentFilter \<Rightarrow> int \<Rightarrow> int \<Rightarrow> pay_db \<Rightarrow> pay_error + intent list" where
  "Intents c scope f limit offset db =
     (if (case if_Status f of None \<Rightarrow> False | Some s \<Rightarrow> \<not> isKnownIntentStatus s)
      then Inl ErrInvalidInput
      else ListIntents (c_engine c) (c_flt c 0) scope f (page_limit limit) (page_offset offset) db)"

definition Transactions :: "call_env \<Rightarrow> uuid \<Rightarrow> Scope \<Rightarrow> pay_db \<Rightarrow> pay_error + txn list" where
  "Transactions c intentID scope db =
     (case GetIntent (c_engine c) (c_flt c 0) intentID scope db of
        Inl e \<Rightarrow> Inl e
      | Inr _ \<Rightarrow> ListTransactions (c_engine c) (c_flt c 1) intentID scope db)"

end
