(* ===== verification/Pay_Reconcile.thy ===== *)
theory Pay_Reconcile
  imports Pay_Service
begin

text \<open>
  The reconciliation job, \<open>backend/payments/reconcile.go\<close>: one bounded batch asks the providers
  about transactions whose webhook is overdue and applies the terminal answers. Store call 0 of the
  call environment is the scan; store call \<open>n + 1\<close> settles the n-th row of the batch.
\<close>

section \<open>Model\<close>

definition DefaultStaleAfter :: duration where "DefaultStaleAfter = 2 * time_minute"
definition DefaultReconcileBatch :: int where "DefaultReconcileBatch = 100"

definition ReconcileClean :: string where "ReconcileClean = ''clean''"
definition ReconcileRepaired :: string where "ReconcileRepaired = ''repaired''"
definition ReconcileError :: string where "ReconcileError = ''error''"

record Reconciler =
  re_StaleAfter :: duration
  re_BatchLimit :: int

definition NewReconciler :: "duration \<Rightarrow> Reconciler" where
  "NewReconciler staleAfter =
     \<lparr>re_StaleAfter = (if staleAfter \<le> 0 then DefaultStaleAfter else staleAfter),
      re_BatchLimit = DefaultReconcileBatch\<rparr>"

record ReconcileResult =
  rn_Scanned :: nat
  rn_Repaired :: nat
  rn_StillPending :: nat
  rn_Errors :: nat

definition reconcile_outcome :: "QueryResult \<Rightarrow> txn \<Rightarrow> ApplyOutcomeParams" where
  "reconcile_outcome q tx =
     \<lparr>ao_TransactionID = tx_ID tx, ao_NewTxStatus = qr_Status q,
      ao_NewIntentStatus = (if qr_Status q = TxFailed then IntentFailed else IntentSucceeded),
      ao_ProviderReceipt = qr_ProviderTransactionRef q, ao_FailureReason = qr_FailureReason q,
      ao_OccurredAt = qr_OccurredAt q, ao_Reason = ''reconciliation''\<rparr>"

definition reconcile_payload :: "QueryResult \<Rightarrow> intent \<Rightarrow> txn \<Rightarrow> payload" where
  "reconcile_payload q i tx = PSettled
     \<lparr>ts_IntentID = pi_ID i, ts_TransactionID = tx_ID tx, ts_Provider = tx_Provider tx,
      ts_ProviderRef = tx_ProviderRef tx, ts_ProviderReceipt = qr_ProviderTransactionRef q,
      ts_AmountMinor = tx_AmountMinor tx, ts_Currency = tx_Currency tx,
      ts_SettledBy = ''reconciliation'', ts_FailureReason = qr_FailureReason q\<rparr>"

text \<open>The body of the loop for the n-th stale row.\<close>

definition reconcile_one ::
  "'w service \<Rightarrow> call_env \<Rightarrow> nat \<Rightarrow> intent \<times> txn \<Rightarrow> ReconcileResult \<Rightarrow> 'w pay_world
     \<Rightarrow> ReconcileResult \<times> 'w pay_world" where
  "reconcile_one sv c n si res w =
     (let (i, tx) = si; failed = res\<lparr>rn_Errors := rn_Errors res + 1\<rparr> in
      case sv_providers sv (tx_Provider tx) of
        None \<Rightarrow> (failed, w)
      | Some p \<Rightarrow>
          let (ans, ext) = p_query p (tx_ProviderRef tx) (w_ext w); w1 = w\<lparr>w_ext := ext\<rparr> in
          (case ans of
             Inl _ \<Rightarrow> (failed, w1)
           | Inr q \<Rightarrow>
               if qr_Status q = TxPending
                 then (res\<lparr>rn_StillPending := rn_StillPending res + 1\<rparr>, w1)
               else
                 (case ApplyTransactionOutcome (c_engine c) (c_flt c (n + 1)) (c_now c (n + 1))
                         (reconcile_outcome q tx) (w_db w1) of
                    (Inl _, db) \<Rightarrow> (failed, w1\<lparr>w_db := db\<rparr>)
                  | (Inr False, db) \<Rightarrow> (res, w1\<lparr>w_db := db\<rparr>)
                  | (Inr True, db) \<Rightarrow>
                      let w2 = count (if qr_Status q = TxSucceeded then PaymentSucceeded else PaymentFailed)
                                 (w1\<lparr>w_db := db\<rparr>)
                      in (res\<lparr>rn_Repaired := rn_Repaired res + 1\<rparr>,
                          snd (publish c (if qr_Status q = TxFailed then EventTransactionFailedV1
                                          else EventTransactionSucceededV1)
                                 (tx_ID tx) None (pi_TenantID i) (reconcile_payload q i tx) w2)))))"

fun reconcile_loop ::
  "'w service \<Rightarrow> call_env \<Rightarrow> nat \<Rightarrow> (intent \<times> txn) list \<Rightarrow> ReconcileResult \<Rightarrow> 'w pay_world
     \<Rightarrow> ReconcileResult \<times> 'w pay_world" where
  "reconcile_loop sv c n [] res w = (res, w)"
| "reconcile_loop sv c n (si # rest) res w =
     (let (res', w') = reconcile_one sv c n si res w in reconcile_loop sv c (Suc n) rest res' w')"

definition run_outcome :: "ReconcileResult \<Rightarrow> string" where
  "run_outcome res =
     (if rn_Errors res > 0 then ReconcileError
      else if rn_Repaired res > 0 then ReconcileRepaired else ReconcileClean)"

text \<open>\<open>Run\<close>; its \<open>nowFunc\<close> is the process clock.\<close>

definition Run ::
  "'w service \<Rightarrow> Reconciler \<Rightarrow> call_env \<Rightarrow> 'w pay_world
     \<Rightarrow> (pay_error + ReconcileResult) \<times> 'w pay_world" where
  "Run sv r c w =
     (let cutoff = c_clock c - re_StaleAfter r;
          limit = (if re_BatchLimit r \<le> 0 then DefaultReconcileBatch else re_BatchLimit r)
      in case ListStaleIntents (c_engine c) (c_flt c 0) cutoff limit (w_db w) of
           Inl e \<Rightarrow> (Inl e, count (ReconciliationRun ReconcileError 0) w)
         | Inr stale \<Rightarrow>
             let w1 = count (ReconciliationDrift (length stale)) w;
                 (res, w2) = reconcile_loop sv c 0 stale
                   \<lparr>rn_Scanned = length stale, rn_Repaired = 0, rn_StillPending = 0, rn_Errors = 0\<rparr> w1
             in (Inr res, count (ReconciliationRun (run_outcome res) (rn_StillPending res)) w2))"

end
