(* ===== verification/Pay_Providers.thy ===== *)
theory Pay_Providers
  imports Pay_Service
begin

text \<open>
  The two settlement adapters: the sandbox (\<open>backend/payments/sandbox.go\<close>) over its table of
  injected outcomes, and M-Pesa Daraja (\<open>backend/payments/daraja.go\<close>) over its cached token and the
  network. The network, the JSON codecs, \<open>uuid.Parse\<close> and the rendering of timestamps are
  parameters; one provider call sees one reading of the clock.
\<close>

section \<open>Errors\<close>

definition providerUnavailable :: "string \<Rightarrow> provider_error" where
  "providerUnavailable msg = ProviderUnavailable (''payments: provider unavailable: '' @ msg)"

definition providerRejected :: "string \<Rightarrow> provider_error" where
  "providerRejected msg = ProviderRejected (''payments: provider rejected the request: '' @ msg)"

text \<open>The texts of \<open>Validate\<close>, the only money errors the adapters render.\<close>

definition money_error_text :: "(string \<Rightarrow> string) \<Rightarrow> money_error \<Rightarrow> string" where
  "money_error_text quote e =
     (case e of
        UnsupportedCurrency c \<Rightarrow> ''payments: currency '' @ quote c @ '' is not supported (only KES)''
      | NotPositive a \<Rightarrow> ''payments: amount '' @ dec_int (sint a) @ '' minor units is not a positive integer''
      | _ \<Rightarrow> [])"

section \<open>The sandbox\<close>

record sandbox_state =
  sb_outcomes :: "uuid \<Rightarrow> TransactionStatus option"
  sb_initiated :: "uuid \<Rightarrow> int64 option"

record sandbox_config =
  sx_WebhookSecret :: string
  sx_hmac :: hmac_fun
  sx_decode :: envelope_decoder
  sx_uuid_string :: "uuid \<Rightarrow> string"
  sx_uuid_parse :: "string \<Rightarrow> uuid option"
  sx_quote :: "string \<Rightarrow> string"
  sx_now :: gotime

definition WebhookSignatureHeader :: string where
  "WebhookSignatureHeader = ''X-Motivra-Payments-Signature''"

definition SandboxProviderRef :: "sandbox_config \<Rightarrow> uuid \<Rightarrow> string" where
  "SandboxProviderRef x tid = ''SBX-'' @ sx_uuid_string x tid"

definition sandboxRefToTransaction :: "sandbox_config \<Rightarrow> string \<Rightarrow> string + uuid" where
  "sandboxRefToTransaction x ref =
     (if length ref \<le> length ''SBX-''
        then Inl (''payments: sandbox reference '' @ sx_quote x ref @ '' is malformed'')
      else case sx_uuid_parse x (drop (length ''SBX-'') ref) of
        None \<Rightarrow> Inl (''payments: sandbox reference '' @ sx_quote x ref @ '' does not carry a transaction id'')
      | Some tid \<Rightarrow> Inr tid)"

definition SetOutcome :: "uuid \<Rightarrow> TransactionStatus \<Rightarrow> sandbox_state \<Rightarrow> sandbox_state" where
  "SetOutcome tid status s = s\<lparr>sb_outcomes := (sb_outcomes s)(tid := Some status)\<rparr>"

definition sandbox_Initiate ::
  "sandbox_config \<Rightarrow> InitiateRequest \<Rightarrow> sandbox_state \<Rightarrow> (provider_error + InitiateResult) \<times> sandbox_state" where
  "sandbox_Initiate x req s =
     (if ir_IntentID req = uuid_nil \<or> ir_TransactionID req = uuid_nil
        then (Inl (providerRejected ''sandbox: intent_id and transaction_id are required''), s)
      else case Validate (ir_Amount req) of
        Some e \<Rightarrow> (Inl (providerRejected (''sandbox: '' @ money_error_text (sx_quote x) e)), s)
      | None \<Rightarrow>
          (Inr \<lparr>is_Status = TxPending, is_ProviderRef = SandboxProviderRef x (ir_TransactionID req),
                is_ProviderTransactionRef = []\<rparr>,
           s\<lparr>sb_initiated := (sb_initiated s)(ir_TransactionID req := Some (AmountMinor (ir_Amount req)))\<rparr>))"

definition sandbox_Query ::
  "sandbox_config \<Rightarrow> string \<Rightarrow> sandbox_state \<Rightarrow> (provider_error + QueryResult) \<times> sandbox_state" where
  "sandbox_Query x ref s =
     (case sandboxRefToTransaction x ref of
        Inl msg \<Rightarrow> (Inl (providerRejected (''sandbox: '' @ msg)), s)
      | Inr tid \<Rightarrow>
          let amount = (case sb_initiated s tid of Some a \<Rightarrow> a | None \<Rightarrow> 0);
              result = \<lparr>qr_Status = TxPending, qr_ProviderRef = ref, qr_ProviderTransactionRef = [],
                        qr_AmountMinor = 0, qr_Currency = CurrencyKES, qr_FailureReason = [], qr_OccurredAt = 0\<rparr>
          in (case sb_outcomes s tid of
                Some TxSucceeded \<Rightarrow>
                  (Inr (result\<lparr>qr_Status := TxSucceeded, qr_AmountMinor := amount,
                     qr_ProviderTransactionRef := ''SBXR-'' @ sx_uuid_string x tid, qr_OccurredAt := sx_now x\<rparr>), s)
              | Some TxFailed \<Rightarrow>
                  (Inr (result\<lparr>qr_Status := TxFailed, qr_AmountMinor := amount,
                     qr_FailureReason := ''sandbox injected failure'', qr_OccurredAt := sx_now x\<rparr>), s)
              | _ \<Rightarrow> (Inr result, s)))"

definition sandbox_Refund ::
  "sandbox_config \<Rightarrow> RefundRequest \<Rightarrow> sandbox_state \<Rightarrow> (provider_error + RefundResult) \<times> sandbox_state" where
  "sandbox_Refund x req s =
     (if rr_RefundID req = uuid_nil \<or> rr_IntentID req = uuid_nil
        then (Inl (providerRejected ''sandbox: refund_id and intent_id are required''), s)
      else case Validate (rr_Amount req) of
        Some e \<Rightarrow> (Inl (providerRejected (''sandbox: '' @ money_error_text (sx_quote x) e)), s)
      | None \<Rightarrow> (Inr \<lparr>rs_Status = RefundCompleted, rs_ProviderRef = ''SBXRF-'' @ sx_uuid_string x (rr_RefundID req),
            rs_FailureReason = []\<rparr>, s))"

definition sandbox_WebhookEvent ::
  "sandbox_config \<Rightarrow> (string \<Rightarrow> string) \<Rightarrow> string \<Rightarrow> gotime \<Rightarrow> gotime \<Rightarrow> webhook_error + WebhookPayload" where
  "sandbox_WebhookEvent x header body now clock =
     (case verifyWebhookSignature (sx_hmac x) (sx_WebhookSecret x) body (header WebhookSignatureHeader) now of
        Some _ \<Rightarrow> Inl WebhookUnauthorized
      | None \<Rightarrow>
          (case parseWebhookPayload (sx_decode x) clock body ''sandbox'' of
             Inl _ \<Rightarrow> Inl WebhookContent
           | Inr pl \<Rightarrow> Inr pl))"

definition SandboxProvider :: "sandbox_config \<Rightarrow> sandbox_state provider" where
  "SandboxProvider x =
     \<lparr>p_name = ''sandbox'', p_initiate = sandbox_Initiate x, p_query = sandbox_Query x,
      p_refund = sandbox_Refund x, p_webhook = sandbox_WebhookEvent x\<rparr>"

text \<open>The envelope that \<open>SandboxWebhookBody\<close> marshals.\<close>

definition sandbox_envelope :: "string \<Rightarrow> string \<Rightarrow> int64 \<Rightarrow> string \<Rightarrow> gotime \<Rightarrow> webhookEnvelope" where
  "sandbox_envelope event ref amount why at =
     \<lparr>we_Event = event, we_Provider = ''sandbox'', we_ProviderRef = ref, we_ProviderReceipt = [],
      we_AmountMinor = amount, we_Currency = CurrencyKES, we_FailureReason = why, we_OccurredAt = at\<rparr>"

section \<open>Daraja\<close>

record DarajaConfig =
  dc_BaseURL :: string
  dc_ConsumerKey :: string
  dc_ConsumerSecret :: string
  dc_Shortcode :: string
  dc_Passkey :: string
  dc_CallbackURL :: string
  dc_Initiator :: string
  dc_SecurityCredential :: string
  dc_WebhookSecret :: string

definition DarajaConfigFromEnv :: "(string \<Rightarrow> string) \<Rightarrow> DarajaConfig \<times> bool" where
  "DarajaConfigFromEnv getenv =
     (let cfg0 = \<lparr>dc_BaseURL = getenv ''MOTIVRA_PAYMENTS_DARAJA_BASE_URL'',
          dc_ConsumerKey = getenv ''MOTIVRA_PAYMENTS_DARAJA_CONSUMER_KEY'',
          dc_ConsumerSecret = getenv ''MOTIVRA_PAYMENTS_DARAJA_CONSUMER_SECRET'',
          dc_Shortcode = getenv ''MOTIVRA_PAYMENTS_DARAJA_SHORTCODE'',
          dc_Passkey = getenv ''MOTIVRA_PAYMENTS_DARAJA_PASSKEY'',
          dc_CallbackURL = getenv ''MOTIVRA_PAYMENTS_DARAJA_CALLBACK_URL'',
          dc_Initiator = getenv ''MOTIVRA_PAYMENTS_DARAJA_INITIATOR'',
          dc_SecurityCredential = getenv ''MOTIVRA_PAYMENTS_DARAJA_SECURITY_CREDENTIAL'',
          dc_WebhookSecret = getenv ''MOTIVRA_PAYMENTS_DARAJA_WEBHOOK_SECRET''\<rparr>;
          cfg = (if dc_BaseURL cfg0 = [] then cfg0\<lparr>dc_BaseURL := ''https://api.safaricom.co.ke''\<rparr> else cfg0)
      in (cfg, dc_ConsumerKey cfg \<noteq> [] \<and> dc_ConsumerSecret cfg \<noteq> [] \<and> dc_Shortcode cfg \<noteq> [] \<and>
            dc_Passkey cfg \<noteq> [] \<and> dc_CallbackURL cfg \<noteq> []))"

text \<open>A request on the wire and what the network answers.\<close>

datatype jval = JStr string | JInt int64

datatype http_request =
    OAuthGet string string string
  | ApiPost string string "(string \<times> jval) list"

datatype http_answer =
    BuildError string
  | CallFailed string
  | ReadFailed string
  | Answered int string

text \<open>
  The decoded responses (\<open>Inl\<close> is the decoder's error text), the callback, and the environment the
  adapter runs in.
\<close>

record stk_response =
  sk_CheckoutRequestID :: string
  sk_ResponseCode :: string
  sk_ResponseDescription :: string

record query_response =
  qs_ResponseCode :: string
  qs_ResponseDescription :: string
  qs_ResultCode :: string
  qs_ResultDesc :: string

record reversal_response =
  rv_ResponseCode :: string
  rv_ResponseDescription :: string

record stk_callback =
  cb_CheckoutRequestID :: string
  cb_ResultCode :: int
  cb_ResultDesc :: string
  cb_CallbackMetadata :: "(string \<times> string) list option"

record 'n daraja_env =
  de_cfg :: DarajaConfig
  de_http :: "http_request \<Rightarrow> 'n \<Rightarrow> http_answer \<times> 'n"
  de_oauth :: "string \<Rightarrow> (string \<times> string) option"
  de_stk :: "string \<Rightarrow> string + stk_response"
  de_qry :: "string \<Rightarrow> string + query_response"
  de_rev :: "string \<Rightarrow> string + reversal_response"
  de_callback :: "string \<Rightarrow> stk_callback option"
  de_int :: "string \<Rightarrow> int64 option"
  de_str :: "string \<Rightarrow> string option"
  de_hmac :: hmac_fun
  de_timestamp :: "gotime \<Rightarrow> string"
  de_quote :: "string \<Rightarrow> string"
  de_now :: gotime

record 'n daraja_state =
  ds_oauthToken :: string
  ds_tokenExpiry :: gotime
  ds_net :: 'n

text \<open>\<open>base64.StdEncoding\<close>.\<close>

definition b64_char :: "nat \<Rightarrow> char" where
  "b64_char n = ''ABCDEFGHIJKLMNOPQRSTUVWXYZabcdefghijklmnopqrstuvwxyz0123456789+/'' ! (n mod 64)"

fun base64_encode :: "string \<Rightarrow> string" where
  "base64_encode [] = []"
| "base64_encode [a] =
     (let n = of_char a * 16 in [b64_char (n div 64), b64_char n, CHR ''='', CHR ''=''])"
| "base64_encode [a, b] =
     (let n = (of_char a * 256 + of_char b) * 4
      in [b64_char (n div 4096), b64_char (n div 64), b64_char n, CHR ''=''])"
| "base64_encode (a # b # c # s) =
     (let n = (of_char a * 256 + of_char b) * 256 + of_char c
      in b64_char (n div 262144) # b64_char (n div 4096) # b64_char (n div 64) # b64_char n # base64_encode s)"

definition darajaPassword :: "'n daraja_env \<Rightarrow> string" where
  "darajaPassword d =
     base64_encode (dc_Shortcode (de_cfg d) @ dc_Passkey (de_cfg d) @ de_timestamp d (de_now d))"

text \<open>\<open>time.Duration(secs)*time.Second - darajaTokenRefreshBuffer\<close> is \<open>int64\<close> arithmetic.\<close>

definition token_lifetime :: "string \<Rightarrow> duration" where
  "token_lifetime expires =
     (let secs = (case parse_int64 expires of
                    None \<Rightarrow> 3599
                  | Some n \<Rightarrow> if sint n \<le> 0 then 3599 else n)
      in sint (secs * 1000000000 - 60000000000 :: int64))"

definition cachedToken ::
  "'n daraja_env \<Rightarrow> 'n daraja_state \<Rightarrow> (provider_error + string) \<times> 'n daraja_state" where
  "cachedToken d s =
     (if ds_oauthToken s \<noteq> [] \<and> de_now d < ds_tokenExpiry s then (Inr (ds_oauthToken s), s)
      else
        let (ans, net) = de_http d (OAuthGet (dc_BaseURL (de_cfg d) @ ''/oauth/v1/generate?grant_type=client_credentials'')
              (dc_ConsumerKey (de_cfg d)) (dc_ConsumerSecret (de_cfg d))) (ds_net s);
            s1 = s\<lparr>ds_net := net\<rparr>
        in case ans of
             BuildError e \<Rightarrow> (Inl (providerUnavailable (''build oauth request: '' @ e)), s1)
           | CallFailed e \<Rightarrow> (Inl (providerUnavailable (''oauth call failed: '' @ e)), s1)
           | ReadFailed e \<Rightarrow> (Inl (providerUnavailable (''read oauth response: '' @ e)), s1)
           | Answered code raw \<Rightarrow>
               if code < 200 \<or> code > 299
                 then (Inl (providerUnavailable (''oauth returned '' @ dec_int code)), s1)
               else (case de_oauth d raw of
                       None \<Rightarrow> (Inl (providerRejected ''oauth response is malformed''), s1)
                     | Some (tok, expires) \<Rightarrow>
                         if tok = [] then (Inl (providerRejected ''oauth response is malformed''), s1)
                         else (Inr tok, s1\<lparr>ds_oauthToken := tok,
                                ds_tokenExpiry := de_now d + token_lifetime expires\<rparr>)))"

definition truncateForError :: "string \<Rightarrow> string" where
  "truncateForError raw = take 256 raw"

definition truncateFailureReason :: "string \<Rightarrow> string" where
  "truncateFailureReason s = take maxWebhookFailureReason s"

definition postJSON ::
  "'n daraja_env \<Rightarrow> string \<Rightarrow> (string \<times> jval) list \<Rightarrow> (string \<Rightarrow> string + 'r) \<Rightarrow> 'n daraja_state
     \<Rightarrow> (provider_error + 'r) \<times> 'n daraja_state" where
  "postJSON d path payload decode s =
     (case cachedToken d s of
        (Inl e, s1) \<Rightarrow> (Inl e, s1)
      | (Inr tok, s1) \<Rightarrow>
          let (ans, net) = de_http d (ApiPost (dc_BaseURL (de_cfg d) @ path) (''Bearer '' @ tok) payload) (ds_net s1);
              s2 = s1\<lparr>ds_net := net\<rparr>
          in case ans of
               BuildError e \<Rightarrow> (Inl (providerUnavailable (''build '' @ path @ '' request: '' @ e)), s2)
             | CallFailed e \<Rightarrow> (Inl (providerUnavailable (path @ '' call failed: '' @ e)), s2)
             | ReadFailed e \<Rightarrow> (Inl (providerUnavailable (''read '' @ path @ '' response: '' @ e)), s2)
             | Answered code raw \<Rightarrow>
                 if code < 200 \<or> code > 299 then
                   (if code \<ge> 500 then (Inl (providerUnavailable (path @ '' returned '' @ dec_int code)), s2)
                    else (Inl (providerRejected (path @ '' returned '' @ dec_int code @ '': '' @ truncateForError raw)), s2))
                 else (case decode raw of
                         Inl e \<Rightarrow> (Inl (providerRejected (path @ '' response is malformed: '' @ e)), s2)
                       | Inr r \<Rightarrow> (Inr r, s2)))"

definition darajaWholeKES :: "Money \<Rightarrow> provider_error + int64" where
  "darajaWholeKES m =
     (let a = sint (AmountMinor m) in
      if go_mod a 100 \<noteq> 0
        then Inl (providerRejected (''daraja: '' @ money_String m @
          '' is not a whole-KES amount (M-Pesa carries no cents); use integer KES minor units divisible by 100''))
      else Inr (word_of_int (go_div a 100)))"

definition hex_upper :: "char \<Rightarrow> char" where
  "hex_upper c = (let n = of_char c :: nat in if 97 \<le> n \<and> n \<le> 122 then char_of (n - 32) else c)"

text \<open>The first four bytes of the identifier.\<close>

definition uuid_head :: "uuid \<Rightarrow> string" where
  "uuid_head u = map (\<lambda>k. char_of (nat (uint u div 2 ^ k mod 256))) [120, 112, 104, 96]"

definition darajaAccountReference :: "uuid \<Rightarrow> string" where
  "darajaAccountReference u = ''MVR'' @ map hex_upper (hex_encode (uuid_head u))"

definition darajaDescription :: "string \<Rightarrow> string" where
  "darajaDescription desc0 =
     (let desc = take 60 desc0 in if trim_space desc = [] then ''Motivra payment'' else desc)"

definition daraja_Initiate ::
  "'n daraja_env \<Rightarrow> InitiateRequest \<Rightarrow> 'n daraja_state \<Rightarrow> (provider_error + InitiateResult) \<times> 'n daraja_state" where
  "daraja_Initiate d req s =
     (if ir_IntentID req = uuid_nil \<or> ir_TransactionID req = uuid_nil
        then (Inl (providerRejected ''daraja: intent_id and transaction_id are required''), s)
      else case Validate (ir_Amount req) of
        Some e \<Rightarrow> (Inl (providerRejected (''daraja: '' @ money_error_text (de_quote d) e)), s)
      | None \<Rightarrow>
          if trim_space (ir_PayerPhone req) = []
            then (Inl (providerRejected ''daraja: payer_phone is required for STK push''), s)
          else case darajaWholeKES (ir_Amount req) of
            Inl e \<Rightarrow> (Inl e, s)
          | Inr wholeKES \<Rightarrow>
              let cfg = de_cfg d;
                  payload = [(''BusinessShortCode'', JStr (dc_Shortcode cfg)),
                    (''Password'', JStr (darajaPassword d)),
                    (''Timestamp'', JStr (de_timestamp d (de_now d))),
                    (''TransactionType'', JStr ''CustomerPayBillOnline''),
                    (''Amount'', JInt wholeKES), (''PartyA'', JStr (ir_PayerPhone req)),
                    (''PartyB'', JStr (dc_Shortcode cfg)), (''PhoneNumber'', JStr (ir_PayerPhone req)),
                    (''CallBackURL'', JStr (dc_CallbackURL cfg)),
                    (''AccountReference'', JStr (darajaAccountReference (ir_IntentID req))),
                    (''TransactionDesc'', JStr (darajaDescription (ir_Description req)))]
              in (case postJSON d ''/mpesa/stkpush/v1/processrequest'' payload (de_stk d) s of
                    (Inl e, s') \<Rightarrow> (Inl e, s')
                  | (Inr r, s') \<Rightarrow>
                      if sk_ResponseCode r \<noteq> ''0''
                        then (Inl (providerRejected (''daraja: STK push refused: '' @ sk_ResponseDescription r)), s')
                      else if sk_CheckoutRequestID r = []
                        then (Inl (providerRejected ''daraja: STK push response carries no CheckoutRequestID''), s')
                      else (Inr \<lparr>is_Status = TxPending, is_ProviderRef = sk_CheckoutRequestID r,
                              is_ProviderTransactionRef = []\<rparr>, s')))"

definition darajaQueryOutcome :: "string \<Rightarrow> string \<Rightarrow> QueryResult \<times> bool" where
  "darajaQueryOutcome code desc =
     (let result = \<lparr>qr_Status = TxPending, qr_ProviderRef = [], qr_ProviderTransactionRef = [],
            qr_AmountMinor = 0, qr_Currency = CurrencyKES, qr_FailureReason = [], qr_OccurredAt = 0\<rparr>
      in if code = ''0'' then (result\<lparr>qr_Status := TxSucceeded\<rparr>, True)
         else if code = ''1032'' \<or> code = ''1037'' \<or> code = ''1'' \<or> code = ''2001''
           then (result\<lparr>qr_Status := TxFailed, qr_FailureReason := truncateFailureReason desc\<rparr>, True)
         else (result, False))"

definition daraja_Query ::
  "'n daraja_env \<Rightarrow> string \<Rightarrow> 'n daraja_state \<Rightarrow> (provider_error + QueryResult) \<times> 'n daraja_state" where
  "daraja_Query d ref s =
     (if trim_space ref = [] then (Inl (providerRejected ''daraja: provider_ref is required''), s)
      else
        let cfg = de_cfg d;
            payload = [(''BusinessShortCode'', JStr (dc_Shortcode cfg)), (''Password'', JStr (darajaPassword d)),
              (''Timestamp'', JStr (de_timestamp d (de_now d))), (''CheckoutRequestID'', JStr ref)]
        in (case postJSON d ''/mpesa/stkpushquery/v1/query'' payload (de_qry d) s of
              (Inl e, s') \<Rightarrow> (Inl e, s')
            | (Inr r, s') \<Rightarrow>
                if qs_ResponseCode r \<noteq> ''0''
                  then (Inl (providerRejected (''daraja: status query refused: '' @ qs_ResponseDescription r)), s')
                else (Inr ((fst (darajaQueryOutcome (qs_ResultCode r) (qs_ResultDesc r)))
                        \<lparr>qr_ProviderRef := ref, qr_OccurredAt := de_now d\<rparr>), s')))"

definition daraja_Refund ::
  "'n daraja_env \<Rightarrow> RefundRequest \<Rightarrow> 'n daraja_state \<Rightarrow> (provider_error + RefundResult) \<times> 'n daraja_state" where
  "daraja_Refund d req s =
     (if rr_RefundID req = uuid_nil \<or> rr_IntentID req = uuid_nil
        then (Inl (providerRejected ''daraja: refund_id and intent_id are required''), s)
      else case Validate (rr_Amount req) of
        Some e \<Rightarrow> (Inl (providerRejected (''daraja: '' @ money_error_text (de_quote d) e)), s)
      | None \<Rightarrow>
          let cfg = de_cfg d in
          if dc_Initiator cfg = [] \<or> dc_SecurityCredential cfg = []
            then (Inl (providerRejected ''daraja: reversal credentials are not configured (owner action)''), s)
          else if trim_space (rr_ProviderRef req) = []
            then (Inl (providerRejected
              (''daraja: the original payment'' @ [CHR 0x27] @ ''s provider_ref is required for reversal'')), s)
          else case darajaWholeKES (rr_Amount req) of
            Inl e \<Rightarrow> (Inl e, s)
          | Inr wholeKES \<Rightarrow>
              let payload = [(''Initiator'', JStr (dc_Initiator cfg)),
                    (''SecurityCredential'', JStr (dc_SecurityCredential cfg)),
                    (''CommandID'', JStr ''TransactionReversal''), (''TransactionID'', JStr (rr_ProviderRef req)),
                    (''Amount'', JInt wholeKES), (''ReceiverParty'', JStr (dc_Shortcode cfg)),
                    (''RecieverIdentifierType'', JStr ''11''), (''ResultURL'', JStr (dc_CallbackURL cfg)),
                    (''Remarks'', JStr (darajaDescription (rr_Reason req))),
                    (''QueueTimeOutURL'', JStr (dc_CallbackURL cfg))]
              in (case postJSON d ''/mpesa/reversal/v1/request'' payload (de_rev d) s of
                    (Inl e, s') \<Rightarrow> (Inl e, s')
                  | (Inr r, s') \<Rightarrow>
                      if rv_ResponseCode r \<noteq> ''0''
                        then (Inr \<lparr>rs_Status = RefundFailed, rs_ProviderRef = [],
                                rs_FailureReason = truncateFailureReason (rv_ResponseDescription r)\<rparr>, s')
                      else (Inr \<lparr>rs_Status = RefundCompleted, rs_ProviderRef = rr_ProviderRef req,
                              rs_FailureReason = []\<rparr>, s')))"

text \<open>The loop over the callback metadata; a value that does not decode leaves the variable as it was.\<close>

definition callback_item ::
  "'n daraja_env \<Rightarrow> string \<times> string \<Rightarrow> int64 \<times> string \<Rightarrow> int64 \<times> string" where
  "callback_item d item acc =
     (if fst item = ''Amount''
        then (case de_int d (snd item) of Some a \<Rightarrow> (a, snd acc) | None \<Rightarrow> acc)
      else if fst item = ''MpesaReceiptNumber''
        then (case de_str d (snd item) of Some r \<Rightarrow> (fst acc, r) | None \<Rightarrow> acc)
      else acc)"

definition callback_amount :: "'n daraja_env \<Rightarrow> stk_callback \<Rightarrow> int64 \<times> string" where
  "callback_amount d cb =
     (case cb_CallbackMetadata cb of
        None \<Rightarrow> (0, [])
      | Some items \<Rightarrow> fold (callback_item d) items (0, []))"

definition daraja_WebhookEvent ::
  "'n daraja_env \<Rightarrow> (string \<Rightarrow> string) \<Rightarrow> string \<Rightarrow> gotime \<Rightarrow> gotime \<Rightarrow> webhook_error + WebhookPayload" where
  "daraja_WebhookEvent d header body now clock =
     (case verifyWebhookSignature (de_hmac d) (dc_WebhookSecret (de_cfg d)) body (header WebhookSignatureHeader) now of
        Some _ \<Rightarrow> Inl WebhookUnauthorized
      | None \<Rightarrow>
          (case de_callback d body of
             None \<Rightarrow> Inl WebhookContent
           | Some cb \<Rightarrow>
               if cb_CheckoutRequestID cb = [] then Inl WebhookContent
               else
                 let (amount, receipt) = callback_amount d cb;
                     pl = \<lparr>wp_Event = WebhookEventTransactionFailed, wp_Provider = ''daraja'',
                       wp_IntentID = uuid_nil, wp_TransactionID = uuid_nil,
                       wp_ProviderRef = cb_CheckoutRequestID cb, wp_ProviderReceipt = receipt,
                       wp_AmountMinor = amount * 100, wp_Currency = CurrencyKES, wp_FailureReason = [],
                       wp_OccurredAt = now\<rparr>
                 in if cb_ResultCode cb = 0
                    then (if sint (wp_AmountMinor pl) \<le> 0 then Inl WebhookContent
                          else Inr (pl\<lparr>wp_Event := WebhookEventTransactionSucceeded\<rparr>))
                    else Inr (pl\<lparr>wp_FailureReason := truncateFailureReason (cb_ResultDesc cb)\<rparr>)))"

definition DarajaProvider :: "'n daraja_env \<Rightarrow> 'n daraja_state provider" where
  "DarajaProvider d =
     \<lparr>p_name = ''daraja'', p_initiate = daraja_Initiate d, p_query = daraja_Query d,
      p_refund = daraja_Refund d, p_webhook = daraja_WebhookEvent d\<rparr>"

section \<open>The contract of an adapter\<close>

text \<open>
  What the service relies on: an accepted initiation is \<open>PENDING\<close> under a reference that is not
  empty and for legal money; a query and a refund answer with a known status; an authenticated
  webhook is a known event of the adapter itself, a success for a positive amount, with a reason
  of bounded length.
\<close>

locale settlement_provider =
  fixes prov :: "'w provider"
  assumes initiate_pending: "p_initiate prov req s = (Inr r, s') \<Longrightarrow>
      is_Status r = TxPending \<and> is_ProviderRef r \<noteq> [] \<and> valid_money (ir_Amount req)"
    and query_known: "p_query prov ref s = (Inr q, s') \<Longrightarrow>
      qr_Status q \<in> {TxPending, TxSucceeded, TxFailed} \<and> qr_ProviderRef q = ref \<and>
      length (qr_FailureReason q) \<le> 500"
    and refund_known: "p_refund prov rq s = (Inr rs, s') \<Longrightarrow>
      rs_Status rs \<in> {RefundCompleted, RefundFailed} \<and> valid_money (rr_Amount rq)"
    and webhook_known: "p_webhook prov hdr body now clock = Inr pl \<Longrightarrow>
      wp_Provider pl = p_name prov \<and>
      (wp_Event pl = WebhookEventTransactionSucceeded \<and> 0 < sint (wp_AmountMinor pl) \<and> wp_FailureReason pl = [] \<or>
       wp_Event pl = WebhookEventTransactionFailed) \<and>
      wp_Currency pl = CurrencyKES \<and> length (wp_FailureReason pl) \<le> 500"
begin

text \<open>A success webhook never settles with a failure reason.\<close>

lemma success_without_reason:
  assumes "p_webhook prov hdr body now clock = Inr pl"
    and "ao_NewTxStatus (webhook_outcome pl tx) = TxSucceeded"
  shows "ao_FailureReason (webhook_outcome pl tx) = []"
  using webhook_known [OF assms(1)] assms(2) by (auto simp: webhook_outcome_def split: if_splits)

end

interpretation sandbox: settlement_provider "SandboxProvider x" for x
proof (unfold_locales, goal_cases)
  case (1 req s r s')
  then show ?case
    by (auto simp: SandboxProvider_def sandbox_Initiate_def SandboxProviderRef_def Validate_None
        split: if_splits option.splits)
next
  case (2 ref s q s')
  then show ?case
    by (auto simp: SandboxProvider_def sandbox_Query_def Let_def
        split: if_splits option.splits sum.splits TransactionStatus.splits)
next
  case (3 rq s rs s')
  then show ?case
    by (auto simp: SandboxProvider_def sandbox_Refund_def Validate_None split: if_splits option.splits)
next
  case (4 hdr body now clock pl)
  then have "parseWebhookPayload (sx_decode x) clock body ''sandbox'' = Inr pl"
    by (auto simp: SandboxProvider_def sandbox_WebhookEvent_def split: option.splits sum.splits)
  then show ?case
    by (auto simp: parseWebhookPayload_def SandboxProvider_def maxWebhookFailureReason_def
        split: if_splits option.splits)
qed

lemma truncateFailureReason_le: "length (truncateFailureReason s) \<le> 500"
  by (simp add: truncateFailureReason_def maxWebhookFailureReason_def)

interpretation daraja: settlement_provider "DarajaProvider d" for d
proof (unfold_locales, goal_cases)
  case (1 req s r s')
  then show ?case
    by (auto simp: DarajaProvider_def daraja_Initiate_def Let_def Validate_None
        split: if_splits option.splits sum.splits prod.splits)
next
  case (2 ref s q s')
  then show ?case
    using truncateFailureReason_le
    by (auto simp: DarajaProvider_def daraja_Query_def darajaQueryOutcome_def Let_def
        split: if_splits option.splits sum.splits prod.splits)
next
  case (3 rq s rs s')
  then show ?case
    by (auto simp: DarajaProvider_def daraja_Refund_def Let_def Validate_None
        split: if_splits option.splits sum.splits prod.splits)
next
  case (4 hdr body now clock pl)
  then show ?case
    using truncateFailureReason_le
    by (auto simp: DarajaProvider_def daraja_WebhookEvent_def Let_def not_le
        split: if_splits option.splits sum.splits prod.splits)
qed

section \<open>Properties of the adapters\<close>

text \<open>
  The sandbox settles what it was told. With an identifier codec that reads back what it
  renders, a transaction the sandbox accepted and whose outcome was then injected is reported, when
  queried under the reference the initiation returned, with exactly that outcome and exactly the
  amount that was initiated.
\<close>

theorem sandbox_reports_injected_outcome:
  assumes "sx_uuid_parse x (sx_uuid_string x (ir_TransactionID req)) = Some (ir_TransactionID req)"
    and "sx_uuid_string x (ir_TransactionID req) \<noteq> []"
    and "sandbox_Initiate x req s = (Inr r, s1)" and "st = TxSucceeded \<or> st = TxFailed"
  shows "\<exists>q. sandbox_Query x (is_ProviderRef r) (SetOutcome (ir_TransactionID req) st s1) =
      (Inr q, SetOutcome (ir_TransactionID req) st s1) \<and>
    qr_Status q = st \<and> qr_AmountMinor q = AmountMinor (ir_Amount req) \<and> qr_OccurredAt q = sx_now x"
proof -
  have r: "is_ProviderRef r = SandboxProviderRef x (ir_TransactionID req)"
    and s1: "sb_initiated s1 (ir_TransactionID req) = Some (AmountMinor (ir_Amount req))"
    using assms(3) by (auto simp: sandbox_Initiate_def split: if_splits option.splits)
  have "sandboxRefToTransaction x (SandboxProviderRef x (ir_TransactionID req)) = Inr (ir_TransactionID req)"
    using assms(1,2) by (simp add: sandboxRefToTransaction_def SandboxProviderRef_def)
  with r s1 assms(4) show ?thesis by (auto simp: sandbox_Query_def SetOutcome_def Let_def)
qed

definition sample_sandbox :: sandbox_config where
  "sample_sandbox = \<lparr>sx_WebhookSecret = ''key'', sx_hmac = (\<lambda>k m. k @ m),
     sx_decode = (\<lambda>b. Some (sandbox_envelope ''transaction.succeeded'' (''SBX-'' @ dec_nat 9) 150000 [] 50, False)),
     sx_uuid_string = (\<lambda>u. dec_nat (unat u)),
     sx_uuid_parse = (\<lambda>b. case digits_val 0 b of None \<Rightarrow> None | Some n \<Rightarrow> Some (of_nat n)),
     sx_quote = (\<lambda>b. b), sx_now = 60\<rparr>"

definition sample_request :: InitiateRequest where
  "sample_request = \<lparr>ir_IntentID = 7, ir_TransactionID = 9,
     ir_Amount = \<lparr>AmountMinor = 150000, Currency = ''KES''\<rparr>, ir_Description = [], ir_PayerPhone = []\<rparr>"

definition empty_sandbox :: sandbox_state where
  "empty_sandbox = \<lparr>sb_outcomes = (\<lambda>_. None), sb_initiated = (\<lambda>_. None)\<rparr>"

theorem sandbox_outcome_witness:
  "\<exists>q s. sandbox_Query sample_sandbox (SandboxProviderRef sample_sandbox 9) s = (Inr q, s) \<and>
     qr_Status q = TxSucceeded \<and> qr_AmountMinor q = 150000"
proof -
  have ok: "sandbox_Initiate sample_sandbox sample_request empty_sandbox =
      (Inr \<lparr>is_Status = TxPending, is_ProviderRef = SandboxProviderRef sample_sandbox 9,
        is_ProviderTransactionRef = []\<rparr>, empty_sandbox\<lparr>sb_initiated := (sb_initiated empty_sandbox)(9 := Some 150000)\<rparr>)"
    by (simp add: sandbox_Initiate_def sample_request_def Validate_def CurrencyKES_def)
  show ?thesis
    using sandbox_reports_injected_outcome [OF _ _ ok, of TxSucceeded]
    by (auto simp: sample_request_def sample_sandbox_def digits_val_dec_nat)
qed

lemma go_divmod_exact:
  fixes a b :: int
  assumes "0 < b"
  shows "go_mod a b = 0 \<longleftrightarrow> b dvd a" and "b dvd a \<Longrightarrow> go_div a b * b = a"
proof -
  have "go_div a b * b = a - go_mod a b" by (simp add: go_mod_def algebra_simps)
  moreover have "go_div a b * b = sgn a * (\<bar>a\<bar> - \<bar>a\<bar> mod b)"
    using assms by (simp add: go_div_def minus_mod_eq_div_mult algebra_simps)
  moreover have "sgn a * \<bar>a\<bar> = a" by (simp add: mult_sgn_abs)
  ultimately have *: "go_mod a b = sgn a * (\<bar>a\<bar> mod b)"
    by (simp add: right_diff_distrib)
  show "go_mod a b = 0 \<longleftrightarrow> b dvd a"
    unfolding * by (cases "a = 0") (auto simp: sgn_if dvd_eq_mod_eq_0 [symmetric])
  then show "b dvd a \<Longrightarrow> go_div a b * b = a" by (simp add: go_mod_def algebra_simps)
qed

text \<open>
  Daraja amounts are exact. The whole-KES amount of a push or reversal is \<open>k\<close> exactly when \<open>k\<close>
  shillings are the ledger amount to the cent: an amount with cents is refused, never rounded, and
  the amount that is sent, scaled back the way the callback handler scales it, is the ledger amount
  again.
\<close>

theorem daraja_whole_kes_exact:
  "(darajaWholeKES m = Inr k \<longleftrightarrow> sint k * 100 = sint (AmountMinor m)) \<and>
   (\<forall>k. darajaWholeKES m = Inr k \<longrightarrow> k * 100 = AmountMinor m)"
proof -
  have iff: "darajaWholeKES m = Inr k \<longleftrightarrow> sint k * 100 = sint (AmountMinor m)" for k
  proof (cases "100 dvd sint (AmountMinor m)")
    case True
    let ?q = "go_div (sint (AmountMinor m)) 100"
    have q: "?q * 100 = sint (AmountMinor m)" using go_divmod_exact(2) [OF _ True] by simp
    have "min_int64 \<le> ?q" "?q \<le> max_int64" using q sint_int64_bounds [of "AmountMinor m"] by linarith+
    then have "sint (word_of_int ?q :: int64) = ?q" by (rule sint_of_int64)
    with q True show ?thesis
      using go_divmod_exact(1) [of 100 "sint (AmountMinor m)"]
      by (auto simp: darajaWholeKES_def Let_def sint_int64_inject [symmetric])
  next
    case False
    then have "sint k * 100 \<noteq> sint (AmountMinor m)" by (metis dvd_triv_right)
    with False show ?thesis using go_divmod_exact(1) [of 100 "sint (AmountMinor m)"]
      by (simp add: darajaWholeKES_def Let_def)
  qed
  have "k * 100 = AmountMinor m" if "darajaWholeKES m = Inr k" for k
  proof -
    have "word_of_int (sint k * 100) = (word_of_int (sint (AmountMinor m)) :: int64)"
      using iff [of k] that by simp
    then show ?thesis by simp
  qed
  with iff show ?thesis by blast
qed

theorem daraja_whole_kes_witness:
  "darajaWholeKES \<lparr>AmountMinor = 150000, Currency = ''KES''\<rparr> = Inr 1500"
  using daraja_whole_kes_exact [of "\<lparr>AmountMinor = 150000, Currency = ''KES''\<rparr>" 1500] by simp

text \<open>
  Daraja's attested amount wraps around. The callback handler scales the announced shillings
  with an unchecked 64 bit multiplication, so an authenticated success callback that announces
  \<open>a + 2^62\<close> shillings is normalized to exactly the payload of one that announces \<open>a\<close>, and the
  exact-amount check of \<open>HandleWebhook\<close> cannot tell them apart.
\<close>

theorem daraja_attested_amount_wraps:
  assumes "verifyWebhookSignature (de_hmac d) (dc_WebhookSecret (de_cfg d)) body (hdr WebhookSignatureHeader) now = None"
    and "de_callback d body = Some cb" and "cb_CheckoutRequestID cb \<noteq> []" and "cb_ResultCode cb = 0"
    and "callback_amount d cb = (a + 4611686018427387904, receipt)" and "0 < sint (a * 100)"
  shows "\<exists>pl. p_webhook (DarajaProvider d) hdr body now clock = Inr pl \<and> wp_AmountMinor pl = a * 100"
proof -
  have "(a + 4611686018427387904) * 100 = a * 100" by (simp add: distrib_right)
  with assms show ?thesis
    by (auto simp: DarajaProvider_def daraja_WebhookEvent_def simp del: distrib_right_numeral)
qed

definition sample_daraja :: "unit daraja_env" where
  "sample_daraja = \<lparr>de_cfg = \<lparr>dc_BaseURL = [], dc_ConsumerKey = ''k'', dc_ConsumerSecret = ''s'', dc_Shortcode = ''1'',
       dc_Passkey = ''p'', dc_CallbackURL = ''u'', dc_Initiator = ''i'', dc_SecurityCredential = ''c'',
       dc_WebhookSecret = ''k''\<rparr>,
     de_http = (\<lambda>_ n. (CallFailed [], n)), de_oauth = (\<lambda>_. None), de_stk = (\<lambda>_. Inl []),
     de_qry = (\<lambda>_. Inl []), de_rev = (\<lambda>_. Inl []),
     de_callback = (\<lambda>b. Some \<lparr>cb_CheckoutRequestID = ''ws_1'', cb_ResultCode = 0, cb_ResultDesc = [],
        cb_CallbackMetadata = Some [(''Amount'', b)]\<rparr>),
     de_int = (\<lambda>b. if b = ''big'' then Some 4611686018427389404 else None), de_str = (\<lambda>_. None), de_hmac = (\<lambda>k m. k @ m),
     de_timestamp = (\<lambda>_. []), de_quote = (\<lambda>b. b), de_now = 0\<rparr>"

theorem daraja_wrap_witness:
  "\<exists>pl. p_webhook (DarajaProvider sample_daraja)
      (\<lambda>_. SignWebhookPayload (\<lambda>k m. k @ m) ''k'' ''big'' (time_unix 1))
      ''big'' (time_unix 1) 0 = Inr pl \<and> wp_AmountMinor pl = 1500 * 100"
proof (rule daraja_attested_amount_wraps)
  show "verifyWebhookSignature (de_hmac sample_daraja) (dc_WebhookSecret (de_cfg sample_daraja))
      ''big'' ((\<lambda>_. SignWebhookPayload (\<lambda>k m. k @ m) ''k'' ''big'' (time_unix 1))
        WebhookSignatureHeader) (time_unix 1) = None"
    by code_simp
  show "de_callback sample_daraja ''big'' = Some \<lparr>cb_CheckoutRequestID = ''ws_1'', cb_ResultCode = 0,
      cb_ResultDesc = [], cb_CallbackMetadata = Some [(''Amount'', ''big'')]\<rparr>"
    by (simp add: sample_daraja_def)
  show "callback_amount sample_daraja \<lparr>cb_CheckoutRequestID = ''ws_1'', cb_ResultCode = 0, cb_ResultDesc = [],
      cb_CallbackMetadata = Some [(''Amount'', ''big'')]\<rparr> = (1500 + 4611686018427387904, [])"
    by code_simp
qed simp_all

end
