(* ===== verification/Pay_Flows.thy ===== *)
theory Pay_Flows
  imports Pay_Reconcile Pay_Providers
begin

text \<open>
  What the payments service guarantees across its handlers. \<open>svc_step\<close> is one store operation with
  the arguments the service uses; every handler is a sequence of such steps, so what holds of
  \<open>svc_run\<close> holds of every interleaving of the store operations of concurrent handlers.
\<close>

section \<open>The store operations the service performs\<close>

definition agrees :: "intent_row \<Rightarrow> int64 \<Rightarrow> string \<Rightarrow> string \<Rightarrow> bool" where
  "agrees i amt cur prov \<longleftrightarrow> pi_AmountMinor i = amt \<and> pi_Currency i = cur \<and> pi_Provider i = prov"

text \<open>The intent status that goes with a settled transaction status.\<close>

definition intent_for :: "TransactionStatus \<Rightarrow> IntentStatus" where
  "intent_for s = (if s = TxFailed then IntentFailed else IntentSucceeded)"

inductive svc_step :: "engine \<Rightarrow> pay_db \<Rightarrow> pay_db \<Rightarrow> bool" for e where
  v_create: "pi_Status i = IntentCreated \<Longrightarrow> svc_step e db (snd (CreateIntent flt now fresh i db))"
| v_start: "svc_step e db (snd (UpdateIntentStatus flt now iid IntentCreated IntentProcessing actor reason db))"
| v_reject: "svc_step e db (snd (UpdateIntentStatus flt now iid IntentCreated IntentFailed actor reason db))"
| v_txn: "(\<And>i. get_intent (tx_IntentID t) db = Some i \<Longrightarrow>
     agrees i (tx_AmountMinor t) (tx_Currency t) (tx_Provider t)) \<Longrightarrow>
   svc_step e db (snd (InsertTransaction flt now fresh t db))"
| v_apply: "ao_NewIntentStatus p = intent_for (ao_NewTxStatus p) \<Longrightarrow>
   svc_step e db (snd (ApplyTransactionOutcome e flt now p db))"
| v_refund: "(\<And>i. get_intent (rf_IntentID r) db = Some i \<Longrightarrow> pi_Status i = IntentSucceeded \<and>
     agrees i (rf_AmountMinor r) (rf_Currency r) (rf_Provider r)) \<Longrightarrow>
   svc_step e db (snd (InsertRefund flt now fresh r db))"
| v_refund_upd: "svc_step e db (snd (UpdateRefundStatus flt now rid RefundRequested rnew ref why db))"
| v_claim: "svc_step e db (snd (ClaimIdempotencyKey flt now key ''webhook'' hash db))"
| v_complete: "svc_step e db (snd (CompleteIdempotencyKey flt now key ''applied'' db))"

definition svc_run :: "engine \<Rightarrow> pay_db \<Rightarrow> pay_db \<Rightarrow> bool" where
  "svc_run e = (svc_step e)\<^sup>*\<^sup>*"

lemma svc_run_refl [simp]: "svc_run e db db"
  by (simp add: svc_run_def)

lemma svc_run_step: "svc_run e a b \<Longrightarrow> svc_step e b c \<Longrightarrow> svc_run e a c"
  by (simp add: svc_run_def)

lemma svc_run_one: "svc_step e a b \<Longrightarrow> svc_run e a b"
  by (simp add: svc_run_def)

lemma svc_run_trans [trans]: "svc_run e a b \<Longrightarrow> svc_run e b c \<Longrightarrow> svc_run e a c"
  by (simp add: svc_run_def)

lemma svc_step_pay: "svc_step e db db' \<Longrightarrow> pay_step e db db'"
  by (induction rule: svc_step.induct) (auto intro: pay_step.intros)

lemma svc_run_pay: "svc_run e db db' \<Longrightarrow> pay_run e db db'"
  unfolding svc_run_def pay_run_def
  by (induction rule: rtranclp_induct) (auto dest: svc_step_pay)

section \<open>Money is backed\<close>

definition paid_by :: "pay_db \<Rightarrow> uuid \<Rightarrow> bool" where
  "paid_by db k \<longleftrightarrow> (\<exists>tid t. get_txn tid db = Some t \<and> tx_IntentID t = k \<and> tx_Status t = TxSucceeded)"

definition backed_intents :: "pay_db \<Rightarrow> bool" where
  "backed_intents db \<longleftrightarrow>
     (\<forall>k i. get_intent k db = Some i \<longrightarrow> pi_Status i = IntentSucceeded \<longrightarrow> paid_by db k)"

definition matching_txns :: "pay_db \<Rightarrow> bool" where
  "matching_txns db \<longleftrightarrow>
     (\<forall>tid t i. get_txn tid db = Some t \<longrightarrow> get_intent (tx_IntentID t) db = Some i \<longrightarrow>
        agrees i (tx_AmountMinor t) (tx_Currency t) (tx_Provider t))"

definition backed_refunds :: "pay_db \<Rightarrow> bool" where
  "backed_refunds db \<longleftrightarrow>
     (\<forall>rid r. get_refund rid db = Some r \<longrightarrow>
        (\<exists>i. get_intent (rf_IntentID r) db = Some i \<and> pi_Status i = IntentSucceeded \<and>
           agrees i (rf_AmountMinor r) (rf_Currency r) (rf_Provider r)))"

definition service_moves :: "(IntentStatus \<times> IntentStatus) set" where
  "service_moves = {(IntentCreated, IntentProcessing), (IntentCreated, IntentFailed),
     (IntentProcessing, IntentSucceeded), (IntentProcessing, IntentFailed)}"

definition moves_ok :: "pay_db \<Rightarrow> bool" where
  "moves_ok db \<longleftrightarrow> (\<forall>e \<in> set (log_t db). (it_FromStatus e, it_ToStatus e) \<in> service_moves)"

subsection \<open>Persistence along steps\<close>

lemma evolves_txn: "ledger_evolves db db' \<Longrightarrow> get_txn k db = Some t \<Longrightarrow>
    \<exists>t'. get_txn k db' = Some t' \<and> txn_evolves t t'"
  by (auto simp: ledger_evolves_def table_evolves_def)

lemma evolves_intent: "ledger_evolves db db' \<Longrightarrow> get_intent k db = Some i \<Longrightarrow>
    \<exists>i'. get_intent k db' = Some i' \<and> intent_evolves i i'"
  by (auto simp: ledger_evolves_def table_evolves_def)

lemma paid_persists: "ledger_evolves db db' \<Longrightarrow> paid_by db k \<Longrightarrow> paid_by db' k"
proof -
  assume ev: "ledger_evolves db db'" and "paid_by db k"
  then obtain tid t where t: "get_txn tid db = Some t" "tx_IntentID t = k" "tx_Status t = TxSucceeded"
    by (auto simp: paid_by_def)
  obtain t' where "get_txn tid db' = Some t'" "txn_evolves t t'" using evolves_txn [OF ev t(1)] by blast
  with t show "paid_by db' k" unfolding paid_by_def txn_evolves_def by force
qed

lemma agrees_evolves: "intent_evolves i i' \<Longrightarrow> agrees i' a c p \<longleftrightarrow> agrees i a c p"
  by (simp add: agrees_def intent_evolves_def)

lemma backed_refund_persists:
  assumes "ledger_evolves db db'" and "get_intent k db = Some i" and "pi_Status i = IntentSucceeded"
    and "agrees i a c p"
  shows "\<exists>i'. get_intent k db' = Some i' \<and> pi_Status i' = IntentSucceeded \<and> agrees i' a c p"
proof -
  obtain i' where "get_intent k db' = Some i'" and ev: "intent_evolves i i'"
    using evolves_intent [OF assms(1,2)] by blast
  moreover have "pi_Status i' = IntentSucceeded" using ev assms(3)
    by (simp add: intent_evolves_def terminal_trigger)
  ultimately show ?thesis using assms(4) agrees_evolves [OF ev] by blast
qed

text \<open>
  The three obligations of a step: an intent that newly succeeded is paid, a transaction that is
  new agrees with its intent, and a refund that is new is backed.
\<close>

lemma backed_intents_step:
  assumes "backed_intents db" and "ledger_evolves db db'"
    and "\<And>k i. get_intent k db' = Some i \<Longrightarrow> pi_Status i = IntentSucceeded \<Longrightarrow>
      (\<exists>i0. get_intent k db = Some i0 \<and> pi_Status i0 = IntentSucceeded) \<or> paid_by db' k"
  shows "backed_intents db'"
  unfolding backed_intents_def
proof (intro allI impI)
  fix k i
  assume "get_intent k db' = Some i" and "pi_Status i = IntentSucceeded"
  then consider i0 where "get_intent k db = Some i0" "pi_Status i0 = IntentSucceeded" | "paid_by db' k"
    using assms(3) by blast
  then show "paid_by db' k"
    using assms(1) paid_persists [OF assms(2)] by cases (auto simp: backed_intents_def)
qed

lemma matching_txns_step:
  assumes "matching_txns db" and "ledger_evolves db db'" and "refs_ok db"
    and "\<And>tid t i. get_txn tid db' = Some t \<Longrightarrow> get_intent (tx_IntentID t) db' = Some i \<Longrightarrow>
      (\<exists>t0. get_txn tid db = Some t0) \<or> agrees i (tx_AmountMinor t) (tx_Currency t) (tx_Provider t)"
  shows "matching_txns db'"
  unfolding matching_txns_def
proof (intro allI impI)
  fix tid t i
  assume t: "get_txn tid db' = Some t" and i: "get_intent (tx_IntentID t) db' = Some i"
  show "agrees i (tx_AmountMinor t) (tx_Currency t) (tx_Provider t)"
  proof (cases "get_txn tid db")
    case None
    then show ?thesis using assms(4) [OF t i] by auto
  next
    case (Some t0)
    have ev: "txn_evolves t0 t" using evolves_txn [OF assms(2) Some] t by auto
    obtain i0 where i0: "get_intent (tx_IntentID t0) db = Some i0"
      using assms(3) row_get_set [OF Some] by (auto simp: refs_ok_def)
    have "agrees i0 (tx_AmountMinor t0) (tx_Currency t0) (tx_Provider t0)"
      using assms(1) Some i0 by (simp add: matching_txns_def)
    moreover have "intent_evolves i0 i"
      using evolves_intent [OF assms(2) i0] i ev by (auto simp: txn_evolves_def)
    ultimately show ?thesis using ev agrees_evolves by (simp add: txn_evolves_def)
  qed
qed

lemma backed_refunds_step:
  assumes "backed_refunds db" and "ledger_evolves db db'"
    and "\<And>rid r. get_refund rid db' = Some r \<Longrightarrow>
      (\<exists>r0. get_refund rid db = Some r0) \<or>
      (\<exists>i. get_intent (rf_IntentID r) db = Some i \<and> pi_Status i = IntentSucceeded \<and>
         agrees i (rf_AmountMinor r) (rf_Currency r) (rf_Provider r))"
  shows "backed_refunds db'"
  unfolding backed_refunds_def
proof (intro allI impI)
  fix rid r
  assume r: "get_refund rid db' = Some r"
  have "\<exists>i. get_intent (rf_IntentID r) db = Some i \<and> pi_Status i = IntentSucceeded \<and>
      agrees i (rf_AmountMinor r) (rf_Currency r) (rf_Provider r)"
  proof (cases "get_refund rid db")
    case None
    then show ?thesis using assms(3) [OF r] by auto
  next
    case (Some r0)
    obtain r' where "get_refund rid db' = Some r'" "refund_evolves r0 r'"
      using assms(2) Some re.te_get [of "refunds_t db" "refunds_t db'" rid r0]
      unfolding ledger_evolves_def by blast
    with r have "refund_evolves r0 r" by simp
    then show ?thesis using assms(1) Some by (auto simp: backed_refunds_def refund_evolves_def)
  qed
  then show "\<exists>i. get_intent (rf_IntentID r) db' = Some i \<and> pi_Status i = IntentSucceeded \<and>
      agrees i (rf_AmountMinor r) (rf_Currency r) (rf_Provider r)"
    using backed_refund_persists [OF assms(2)] by blast
qed

subsection \<open>The four obligations, step by step\<close>

definition service_ok :: "pay_db \<Rightarrow> bool" where
  "service_ok db \<longleftrightarrow> ledger_ok db \<and> backed_intents db \<and> matching_txns db \<and> backed_refunds db \<and> moves_ok db"

lemma service_ok_step:
  assumes "service_ok db" and ok: "ledger_ok db'" and ev: "ledger_evolves db db'"
    and "\<And>k i. get_intent k db' = Some i \<Longrightarrow> pi_Status i = IntentSucceeded \<Longrightarrow>
      (\<exists>i0. get_intent k db = Some i0 \<and> pi_Status i0 = IntentSucceeded) \<or> paid_by db' k"
    and "\<And>tid t i. get_txn tid db' = Some t \<Longrightarrow> get_intent (tx_IntentID t) db' = Some i \<Longrightarrow>
      (\<exists>t0. get_txn tid db = Some t0) \<or> agrees i (tx_AmountMinor t) (tx_Currency t) (tx_Provider t)"
    and "\<And>rid r. get_refund rid db' = Some r \<Longrightarrow>
      (\<exists>r0. get_refund rid db = Some r0) \<or>
      (\<exists>i. get_intent (rf_IntentID r) db = Some i \<and> pi_Status i = IntentSucceeded \<and>
         agrees i (rf_AmountMinor r) (rf_Currency r) (rf_Provider r))"
    and "moves_ok db'"
  shows "service_ok db'"
proof -
  have "refs_ok db" using assms(1) by (simp add: service_ok_def ledger_ok_def)
  then show ?thesis
    using assms(1) backed_intents_step [OF _ ev assms(4)] matching_txns_step [OF _ ev _ assms(5)]
      backed_refunds_step [OF _ ev assms(6)] ok assms(7) by (simp add: service_ok_def)
qed

lemma service_ok_CreateIntent:
  assumes "service_ok db" and "pi_Status i = IntentCreated"
  shows "service_ok (snd (CreateIntent flt now fresh i db))"
proof (rule service_ok_step [OF assms(1)])
  show "ledger_ok (snd (CreateIntent flt now fresh i db))"
    using assms by (simp add: service_ok_def ok_CreateIntent)
qed (use CreateIntent_state [of flt now fresh i db] assms evolves_CreateIntent in
  \<open>auto simp: row_get_ins service_ok_def moves_ok_def split: option.splits if_splits\<close>)

lemma service_ok_UpdateIntentStatus:
  assumes "service_ok db" and "(from, to) \<in> service_moves" and "to \<noteq> IntentSucceeded"
  shows "service_ok (snd (UpdateIntentStatus flt now iid from to actor reason db))"
proof (rule service_ok_step [OF assms(1)])
  show "ledger_ok (snd (UpdateIntentStatus flt now iid from to actor reason db))"
    using assms by (simp add: service_ok_def ok_UpdateIntentStatus)
qed (use UpdateIntentStatus_state [of flt now iid "from" to actor reason db] assms
    evolves_UpdateIntentStatus in
  \<open>auto simp: row_get_upd service_ok_def moves_ok_def split: if_splits\<close>)

lemma service_ok_InsertTransaction:
  assumes "service_ok db" and "\<And>i. get_intent (tx_IntentID t) db = Some i \<Longrightarrow>
     agrees i (tx_AmountMinor t) (tx_Currency t) (tx_Provider t)"
  shows "service_ok (snd (InsertTransaction flt now fresh t db))"
proof (rule service_ok_step [OF assms(1)])
  show "ledger_ok (snd (InsertTransaction flt now fresh t db))"
    using assms by (simp add: service_ok_def ok_InsertTransaction)
qed (use InsertTransaction_state [of flt now fresh t db] assms evolves_InsertTransaction in
  \<open>auto simp: row_get_ins service_ok_def moves_ok_def txn_insert_def split: option.splits if_splits\<close>)

lemma service_ok_InsertRefund:
  assumes "service_ok db" and "\<And>i. get_intent (rf_IntentID r) db = Some i \<Longrightarrow>
     pi_Status i = IntentSucceeded \<and> agrees i (rf_AmountMinor r) (rf_Currency r) (rf_Provider r)"
  shows "service_ok (snd (InsertRefund flt now fresh r db))"
proof (rule service_ok_step [OF assms(1)])
  show "ledger_ok (snd (InsertRefund flt now fresh r db))"
    using assms by (simp add: service_ok_def ok_InsertRefund)
qed (use InsertRefund_state [of flt now fresh r db] assms evolves_InsertRefund in
  \<open>auto simp: row_get_ins service_ok_def moves_ok_def refund_insert_def split: option.splits if_splits\<close>)

lemma service_ok_UpdateRefundStatus:
  assumes "service_ok db"
  shows "service_ok (snd (UpdateRefundStatus flt now rid exp new ref why db))"
proof (rule service_ok_step [OF assms(1)])
  show "ledger_ok (snd (UpdateRefundStatus flt now rid exp new ref why db))"
    using assms by (simp add: service_ok_def ok_UpdateRefundStatus)
qed (use UpdateRefundStatus_state [of flt now rid exp new ref why db] assms evolves_UpdateRefundStatus in
  \<open>auto simp: row_get_upd service_ok_def moves_ok_def split: if_splits\<close>)

lemma service_ok_keys:
  assumes "service_ok db"
  shows "service_ok (snd (ClaimIdempotencyKey flt now key scope hash db))"
    and "service_ok (snd (CompleteIdempotencyKey flt now key res db))"
proof -
  show "service_ok (snd (ClaimIdempotencyKey flt now key scope hash db))"
  proof (rule service_ok_step [OF assms(1)])
    show "ledger_ok (snd (ClaimIdempotencyKey flt now key scope hash db))"
      using assms by (simp add: service_ok_def ok_ClaimIdempotencyKey)
  qed (use ClaimIdempotencyKey_state [of flt now key scope hash db] assms evolves_ClaimIdempotencyKey in
    \<open>auto simp: service_ok_def moves_ok_def\<close>)
  show "service_ok (snd (CompleteIdempotencyKey flt now key res db))"
  proof (rule service_ok_step [OF assms(1)])
    show "ledger_ok (snd (CompleteIdempotencyKey flt now key res db))"
      using assms by (simp add: service_ok_def ok_CompleteIdempotencyKey)
  qed (use CompleteIdempotencyKey_state [of flt now key res db] assms evolves_CompleteIdempotencyKey in
    \<open>auto simp: service_ok_def moves_ok_def\<close>)
qed

lemma service_ok_settled:
  assumes ok: "service_ok db" and g: "settle_guard e p now db r i"
    and p: "ao_NewIntentStatus p = intent_for (ao_NewTxStatus p)"
  shows "service_ok (settled_db p now db r i)" (is "service_ok ?db")
proof (rule service_ok_step [OF ok])
  show "ledger_ok ?db" using ok g by (simp add: service_ok_def ok_settled)
  show "ledger_evolves db ?db" using g by (rule evolves_settled)
  note reads = settled_reads [OF g]
  have st: "ao_NewTxStatus p \<in> {TxSucceeded, TxFailed}" using g by (auto simp: settle_guard_def txn_trigger_def)
  show "(\<exists>i0. get_intent k db = Some i0 \<and> pi_Status i0 = IntentSucceeded) \<or> paid_by ?db k"
    if "get_intent k ?db = Some j" "pi_Status j = IntentSucceeded" for k j
  proof (cases "k = tx_IntentID r")
    case True
    with that reads(3) have "ao_NewIntentStatus p = IntentSucceeded \<or> get_intent k db = Some j"
      using g by (auto simp: settle_guard_def split: if_splits)
    with st p that(2) have "ao_NewTxStatus p = TxSucceeded \<or> get_intent k db = Some j"
      by (auto simp: intent_for_def split: if_splits)
    moreover have "paid_by ?db k" if "ao_NewTxStatus p = TxSucceeded"
      unfolding paid_by_def using reads(1) True that
      by (intro exI [of _ "ao_TransactionID p"] exI [of _ "settle_txn p now r"]) simp
    ultimately show ?thesis using that(2) by blast
  next
    case False
    then show ?thesis using that reads(4) by auto
  qed
  show "(\<exists>t0. get_txn tid db = Some t0) \<or> agrees j (tx_AmountMinor t) (tx_Currency t) (tx_Provider t)"
    if "get_txn tid ?db = Some t" for tid t j
    using that reads(2) [of tid] g by (cases "tid = ao_TransactionID p") (auto simp: settle_guard_def)
  show "(\<exists>r0. get_refund rid db = Some r0) \<or> X" if "get_refund rid ?db = Some x" for rid x X
    using that by (auto simp: settled_db_def settle_txn_db_def settle_both_db_def split: if_splits)
  show "moves_ok ?db"
    using ok st p by (auto simp: service_ok_def moves_ok_def service_moves_def settled_db_def
        settle_txn_db_def settle_both_db_def intent_for_def)
qed

lemma svc_step_ok: "svc_step e db db' \<Longrightarrow> service_ok db \<Longrightarrow> service_ok db'"
proof (induction rule: svc_step.induct)
  case (v_apply p db flt now)
  then show ?case using ApplyTransactionOutcome_state [of e flt now p db] service_ok_settled by metis
qed (simp_all add: service_ok_CreateIntent service_ok_UpdateIntentStatus service_ok_InsertTransaction
  service_ok_InsertRefund service_ok_UpdateRefundStatus service_ok_keys service_moves_def)

lemma svc_run_ok: "svc_run e db db' \<Longrightarrow> service_ok db \<Longrightarrow> service_ok db'"
  unfolding svc_run_def by (induction rule: rtranclp_induct) (auto intro: svc_step_ok)

lemma empty_service_ok: "service_ok empty_pay_db"
  using empty_ledger_ok
  by (simp add: service_ok_def backed_intents_def matching_txns_def backed_refunds_def moves_ok_def
      empty_pay_db_def)

section \<open>Every handler is a run of store operations\<close>

lemma count_fields [simp]:
  "w_db (count m w) = w_db w" "w_ext (count m w) = w_ext w" "w_events (count m w) = w_events w"
  by (simp_all add: count_def)

lemma publish_fields [simp]:
  "w_db (snd (publish c ty ag ac te p w)) = w_db w" "w_ext (snd (publish c ty ag ac te p w)) = w_ext w"
  by (auto simp: publish_def Let_def split: option.split)

lemma publish_db: "publish c ty ag ac te p w = (r, w') \<Longrightarrow> w_db w' = w_db w \<and> w_ext w' = w_ext w"
  using publish_fields [of c ty ag ac te p w] by simp

lemma op_runs:
  "CreateIntent flt now fresh i db = (x1, db') \<Longrightarrow> pi_Status i = IntentCreated \<Longrightarrow> svc_run e db db'"
  "UpdateIntentStatus flt now iid IntentCreated IntentProcessing actor reason db = (x2, db') \<Longrightarrow> svc_run e db db'"
  "UpdateIntentStatus flt now iid IntentCreated IntentFailed actor reason db = (x3, db') \<Longrightarrow> svc_run e db db'"
  "UpdateRefundStatus flt now rid RefundRequested rnew ref why db = (x4, db') \<Longrightarrow> svc_run e db db'"
  "ClaimIdempotencyKey flt now key ''webhook'' hash db = (x5, db') \<Longrightarrow> svc_run e db db'"
  "CompleteIdempotencyKey flt now key ''applied'' db = (x6, db') \<Longrightarrow> svc_run e db db'"
  "ApplyTransactionOutcome e flt now p db = (x7, db') \<Longrightarrow> ao_NewIntentStatus p = intent_for (ao_NewTxStatus p) \<Longrightarrow>
     svc_run e db db'"
  by (metis svc_run_one svc_step.intros snd_conv)+

lemma CreateIntent_Inr:
  assumes "CreateIntent flt now fresh i db = (Inr j, db')"
  shows "get_intent (pi_ID j) db' = Some (intent_insert (pi_ID j) now i)"
    and "j = i\<lparr>pi_ID := pi_ID j, pi_CreatedAt := now, pi_UpdatedAt := now\<rparr>"
    and "db' = db\<lparr>intents_t := row_ins (intent_insert (pi_ID j) now i) (intents_t db)\<rparr>"
    and "get_intent (pi_ID j) db = None"
  using assms by (auto simp: CreateIntent_def Let_def row_get_ins split: if_splits dest!: finish_Inr)

lemma txn_run:
  assumes "InsertTransaction flt now fresh t db = (x, db')" and "get_intent (tx_IntentID t) db = Some i"
    and "agrees i (tx_AmountMinor t) (tx_Currency t) (tx_Provider t)"
  shows "svc_run e db db'"
proof -
  have "svc_step e db (snd (InsertTransaction flt now fresh t db))"
    by (rule v_txn) (use assms(2,3) in simp)
  with assms(1) show ?thesis by (simp add: svc_run_one)
qed

lemma record_rejection_run:
  assumes "get_intent (pi_ID i) (w_db w) = Some r" and "agrees r (AmountMinor amount) (Currency amount) (p_name p)"
  shows "svc_run e (w_db w) (w_db (snd (record_rejection c inp amount p i err w)))"
proof -
  let ?t = "new_txn (c_fresh c 1) (pi_ID i) (p_name p) [] TxFailed amount (failureReasonFrom err)"
  obtain x db1 where ins: "InsertTransaction (c_flt c 1) (c_now c 1) (c_fresh c 2) ?t (w_db w) = (x, db1)"
    by fastforce
  have run1: "svc_run e (w_db w) db1"
    by (rule txn_run [OF ins]) (use assms in \<open>simp_all add: new_txn_def\<close>)
  obtain y db2 where upd: "UpdateIntentStatus (c_flt c 2) (c_now c 2) (pi_ID i) IntentCreated IntentFailed
      (Some (in_CreatedBy inp)) ''provider rejected the initiation'' db1 = (y, db2)" by fastforce
  have "svc_run e (w_db w) db2" using run1 op_runs(3) [OF upd] by (rule svc_run_trans)
  with run1 ins upd show ?thesis
    by (cases x; cases y) (auto simp: record_rejection_def Let_def case_prod_unfold)
qed

lemma record_acceptance_run:
  assumes "get_intent (pi_ID i) (w_db w) = Some r" and "agrees r (AmountMinor amount) (Currency amount) (p_name p)"
  shows "svc_run e (w_db w) (w_db (snd (record_acceptance c inp amount p i res w)))"
proof -
  let ?t = "new_txn (c_fresh c 1) (pi_ID i) (p_name p) (is_ProviderRef res) (is_Status res) amount []"
  obtain x db1 where ins: "InsertTransaction (c_flt c 1) (c_now c 1) (c_fresh c 2) ?t (w_db w) = (x, db1)"
    by fastforce
  have run1: "svc_run e (w_db w) db1"
    by (rule txn_run [OF ins]) (use assms in \<open>simp_all add: new_txn_def\<close>)
  obtain y db2 where upd: "UpdateIntentStatus (c_flt c 2) (c_now c 2) (pi_ID i) IntentCreated IntentProcessing
      (Some (in_CreatedBy inp)) ''provider accepted the initiation'' db1 = (y, db2)" by fastforce
  have "svc_run e (w_db w) db2" using run1 op_runs(2) [OF upd] by (rule svc_run_trans)
  with run1 ins upd show ?thesis
    by (cases x; cases y) (auto simp: record_acceptance_def Let_def case_prod_unfold)
qed

lemma InitiatePayment_run: "svc_run e (w_db w) (w_db (snd (InitiatePayment sv c inp w)))"
proof (cases "initiate_checks sv inp")
  case (Inl err)
  then show ?thesis by (simp add: InitiatePayment_def)
next
  case (Inr ap)
  obtain amount p where ap: "ap = (amount, p)" by fastforce
  let ?i = "new_intent sv inp amount p"
  obtain x db1 where cr: "CreateIntent (c_flt c 0) (c_now c 0) (c_fresh c 0) ?i (w_db w) = (x, db1)"
    by fastforce
  have run1: "svc_run e (w_db w) db1" by (rule op_runs(1) [OF cr]) (simp add: new_intent_def)
  show ?thesis
  proof (cases x)
    case (Inl err)
    with Inr ap cr run1 show ?thesis by (simp add: InitiatePayment_def)
  next
    case x: (Inr j)
    obtain res ext where pr: "p_initiate p \<lparr>ir_IntentID = pi_ID j, ir_TransactionID = c_fresh c 1,
        ir_Amount = amount, ir_Description = pi_Description j, ir_PayerPhone = in_PayerPhone inp\<rparr> (w_ext w) = (res, ext)"
      by fastforce
    let ?w = "w\<lparr>w_db := db1, w_ext := ext\<rparr>"
    note j = CreateIntent_Inr [OF cr [unfolded x]]
    have ag: "get_intent (pi_ID j) (w_db ?w) = Some (intent_insert (pi_ID j) (c_now c 0) ?i)"
      "agrees (intent_insert (pi_ID j) (c_now c 0) ?i) (AmountMinor amount) (Currency amount) (p_name p)"
      using j(1) by (simp_all add: agrees_def intent_insert_def new_intent_def)
    have "svc_run e db1 (w_db (snd (record_rejection c inp amount p j err ?w)))"
      "svc_run e db1 (w_db (snd (record_acceptance c inp amount p j r ?w)))" for err r
      using record_rejection_run [OF ag] record_acceptance_run [OF ag] by simp_all
    then have "svc_run e db1 (w_db (snd (InitiatePayment sv c inp w)))"
      using Inr ap cr x pr
      by (auto simp: InitiatePayment_def Let_def split: sum.split provider_error.split)
    with run1 show ?thesis by (rule svc_run_trans)
  qed
qed

lemma webhook_outcome_intent [simp]:
  "ao_NewIntentStatus (webhook_outcome pl tx) = intent_for (ao_NewTxStatus (webhook_outcome pl tx))"
  by (simp add: webhook_outcome_def intent_for_def)

lemma webhook_apply_run: "svc_run (c_engine c) (w_db w) (w_db (snd (webhook_apply sv c p pl tx w)))"
proof -
  obtain x db1 where ap: "ApplyTransactionOutcome (c_engine c) (c_flt c 2) (c_now c 2)
      (webhook_outcome pl tx) (w_db w) = (x, db1)" by fastforce
  have run1: "svc_run (c_engine c) (w_db w) db1" by (rule op_runs(7) [OF ap]) simp
  obtain y db2 where co: "CompleteIdempotencyKey (c_flt c 3) (c_now c 3)
      (webhook_key sv p (wp_Event pl) (tx_ID tx)) ''applied'' db1 = (y, db2)" by fastforce
  have "svc_run (c_engine c) (w_db w) db2" using run1 op_runs(6) [OF co] by (rule svc_run_trans)
  with run1 ap co show ?thesis
    by (cases x; cases y) (auto simp: webhook_apply_def Let_def case_prod_unfold split: option.split)
qed

lemma webhook_idempotent_run:
  "svc_run (c_engine c) (w_db w) (w_db (snd (webhook_idempotent sv c p pl tx body w)))"
proof -
  obtain x db1 where cl: "ClaimIdempotencyKey (c_flt c 1) (c_now c 1)
      (webhook_key sv p (wp_Event pl) (tx_ID tx)) ''webhook'' (sha256Hex sv body) (w_db w) = (x, db1)"
    by fastforce
  have run1: "svc_run (c_engine c) (w_db w) db1" by (rule op_runs(5) [OF cl])
  have "svc_run (c_engine c) db1 (w_db (snd (webhook_apply sv c p pl tx (w\<lparr>w_db := db1\<rparr>))))"
    using webhook_apply_run [of c "w\<lparr>w_db := db1\<rparr>"] by simp
  with run1 have "svc_run (c_engine c) (w_db w) (w_db (snd (webhook_apply sv c p pl tx (w\<lparr>w_db := db1\<rparr>))))"
    by (rule svc_run_trans)
  with run1 cl show ?thesis by (cases x) (auto simp: webhook_idempotent_def Let_def)
qed

text \<open>A delivery stops before the ledger is touched, or passes every check.\<close>

lemma HandleWebhook_cases:
  obtains (stop) e w' where "HandleWebhook sv c name hdr body now w = (Inl e, w')"
      and "w_db w' = w_db w" and "w_events w' = w_events w" and "w_ext w' = w_ext w"
  | (go) p pl tx where "Provider sv name = Inr p" and "p_webhook p hdr body now (c_clock c) = Inr pl"
      and "GetTransactionByProviderRef (c_engine c) (c_flt c 0) (p_name p) (wp_ProviderRef pl) (w_db w) = Inr tx"
      and "webhook_matches p pl tx"
      and "HandleWebhook sv c name hdr body now w = webhook_idempotent sv c p pl tx body w"
proof -
  have "(\<exists>e w'. HandleWebhook sv c name hdr body now w = (Inl e, w') \<and> w_db w' = w_db w \<and>
      w_events w' = w_events w \<and> w_ext w' = w_ext w) \<or>
    (\<exists>p pl tx. Provider sv name = Inr p \<and> p_webhook p hdr body now (c_clock c) = Inr pl \<and>
      GetTransactionByProviderRef (c_engine c) (c_flt c 0) (p_name p) (wp_ProviderRef pl) (w_db w) = Inr tx \<and>
      webhook_matches p pl tx \<and>
      HandleWebhook sv c name hdr body now w = webhook_idempotent sv c p pl tx body w)"
    by (auto simp: HandleWebhook_def Let_def split: sum.split webhook_error.split)
  then show thesis using stop go by blast
qed

lemma HandleWebhook_run:
  "svc_run (c_engine c) (w_db w) (w_db (snd (HandleWebhook sv c name hdr body now w)))"
proof (cases rule: HandleWebhook_cases [of sv c name hdr body now w])
  case (stop e w')
  then show ?thesis by simp
next
  case (go p pl tx)
  then show ?thesis by (simp add: webhook_idempotent_run)
qed

lemma refund_execute_run:
  assumes "get_intent (pi_ID i) (w_db w) = Some r" and "pi_Status r = IntentSucceeded"
    and "agrees r (pi_AmountMinor i) (pi_Currency i) (pi_Provider i)"
  shows "svc_run e (w_db w) (w_db (snd (refund_execute c reason actor i p w)))"
proof -
  obtain x db1 where ins: "InsertRefund (c_flt c 2) (c_now c 2) (c_fresh c 0)
      (new_refund i reason actor) (w_db w) = (x, db1)" by fastforce
  have "svc_step e (w_db w) (snd (InsertRefund (c_flt c 2) (c_now c 2) (c_fresh c 0)
      (new_refund i reason actor) (w_db w)))"
    by (rule v_refund) (use assms in \<open>simp add: new_refund_def\<close>)
  then have run1: "svc_run e (w_db w) db1" using ins by (simp add: svc_run_one)
  have upd: "svc_run e (w_db w) (snd (UpdateRefundStatus flt now rid RefundRequested new ref why db1))"
    for flt now rid new ref why
    using run1 v_refund_upd svc_run_step by blast
  show ?thesis
  proof (cases x)
    case (Inl err)
    with ins run1 show ?thesis by (simp add: refund_execute_def)
  next
    case (Inr rf)
    obtain res ext where pr: "p_refund p \<lparr>rr_RefundID = rf_ID rf, rr_IntentID = pi_ID i,
        rr_ProviderRef = pi_ProviderRef i, rr_Amount = \<lparr>AmountMinor = pi_AmountMinor i, Currency = pi_Currency i\<rparr>,
        rr_Reason = reason\<rparr> (w_ext w) = (res, ext)" by fastforce
    show ?thesis
      using ins Inr pr run1
      by (auto simp: refund_execute_def Let_def case_prod_unfold upd split: sum.split provider_error.split)
  qed
qed

lemma refund_checks_Inr:
  assumes "refund_checks sv c k reason scope db = Inr (i, p)" and "pk_ok pi_ID (intents_t db)"
  obtains r where "get_intent k db = Some r" and "scanIntent (c_engine c) r = Some i" and "visible scope r"
    and "pi_Status i = IntentSucceeded" and "length reason \<le> MaxRefundReasonLength"
    and "Provider sv (pi_Provider i) = Inr p"
    and "LatestRefundForIntent (c_engine c) (c_flt c 1) k scope db = Inl ErrRefundNotFound \<or>
      (\<exists>x. LatestRefundForIntent (c_engine c) (c_flt c 1) k scope db = Inr x \<and> rf_Status x = RefundFailed)"
proof -
  obtain j where j: "GetIntent (c_engine c) (c_flt c 0) k scope db = Inr j"
    using assms(1) by (auto simp: refund_checks_def split: sum.splits)
  then obtain r where r: "r \<in> set (intents_t db)" "pi_ID r = k" "visible scope r" "scanIntent (c_engine c) r = Some j"
    by (rule GetIntent_Inr)
  have "get_intent k db = Some r" using tbl.get_rows [OF assms(2)] r(1,2) by blast
  moreover have "j = i \<and> pi_Status i = IntentSucceeded \<and> length reason \<le> MaxRefundReasonLength \<and>
      Provider sv (pi_Provider i) = Inr p \<and>
      (LatestRefundForIntent (c_engine c) (c_flt c 1) k scope db = Inl ErrRefundNotFound \<or>
      (\<exists>x. LatestRefundForIntent (c_engine c) (c_flt c 1) k scope db = Inr x \<and> rf_Status x = RefundFailed))"
    using assms(1) j
    by (auto simp: refund_checks_def Let_def split: sum.splits if_splits pay_error.splits)
  ultimately show thesis using that r(3,4) by blast
qed

lemma RefundPayment_run:
  assumes "ledger_ok (w_db w)"
  shows "svc_run e (w_db w) (w_db (snd (RefundPayment sv c k reason actor scope w)))"
proof (cases "refund_checks sv c k reason scope (w_db w)")
  case (Inl err)
  then show ?thesis by (simp add: RefundPayment_def)
next
  case (Inr x)
  obtain i p where x: "x = (i, p)" by fastforce
  have pk: "pk_ok pi_ID (intents_t (w_db w))" using assms by (simp add: ledger_parts)
  obtain r where r: "get_intent k (w_db w) = Some r" and i: "scanIntent (c_engine c) r = Some i"
    and st: "pi_Status i = IntentSucceeded" using refund_checks_Inr [OF Inr [unfolded x] pk] by metis
  have "svc_run e (w_db w) (w_db (snd (refund_execute c reason actor i p w)))"
    by (rule refund_execute_run [of _ _ r])
      (use r st scanIntent_fields [OF i] row_get_key [OF r] in \<open>simp_all add: agrees_def\<close>)
  with Inr x show ?thesis by (simp add: RefundPayment_def)
qed

lemma reconcile_one_run:
  "svc_run (c_engine c) (w_db w) (w_db (snd (reconcile_one sv c n si res w)))"
proof -
  have ap: "svc_run (c_engine c) (w_db w) (snd (ApplyTransactionOutcome (c_engine c) flt now
      (reconcile_outcome q tx) (w_db w)))" for flt now q tx
    by (rule svc_run_one, rule v_apply) (simp add: reconcile_outcome_def intent_for_def)
  show ?thesis
    using ap
    by (auto simp: reconcile_one_def Let_def case_prod_unfold split: option.split sum.split bool.split)
qed

lemma reconcile_loop_run:
  "svc_run (c_engine c) (w_db w) (w_db (snd (reconcile_loop sv c n sis res w)))"
proof (induction sis arbitrary: n res w)
  case (Cons si sis)
  have "svc_run (c_engine c) (w_db w) (w_db (snd (reconcile_one sv c n si res w)))"
    by (rule reconcile_one_run)
  then show ?case using Cons svc_run_trans by (fastforce simp: case_prod_unfold Let_def)
qed simp

lemma Run_run: "svc_run (c_engine c) (w_db w) (w_db (snd (Run sv r c w)))"
proof -
  have "svc_run (c_engine c) (w_db w) (w_db (snd (reconcile_loop sv c n sis res (count m w))))" for n sis res m
    using reconcile_loop_run [of c "count m w"] by simp
  then show ?thesis by (auto simp: Run_def Let_def case_prod_unfold split: sum.split)
qed

section \<open>Properties of the service\<close>

text \<open>One call of a handler, with any arguments and any environment on the engine \<open>e\<close>.\<close>

inductive pay_call :: "'w service \<Rightarrow> engine \<Rightarrow> 'w pay_world \<Rightarrow> 'w pay_world \<Rightarrow> bool" for sv e where
  call_initiate: "c_engine c = e \<Longrightarrow> pay_call sv e w (snd (InitiatePayment sv c inp w))"
| call_webhook: "c_engine c = e \<Longrightarrow> pay_call sv e w (snd (HandleWebhook sv c name hdr body now w))"
| call_refund: "c_engine c = e \<Longrightarrow> pay_call sv e w (snd (RefundPayment sv c k reason actor scope w))"
| call_reconcile: "c_engine c = e \<Longrightarrow> pay_call sv e w (snd (Run sv r c w))"

lemma pay_call_run: "pay_call sv e w w' \<Longrightarrow> ledger_ok (w_db w) \<Longrightarrow> svc_run e (w_db w) (w_db w')"
  by (induction rule: pay_call.induct)
    (auto intro: InitiatePayment_run HandleWebhook_run RefundPayment_run Run_run)

lemma pay_calls_run:
  assumes "(pay_call sv e)\<^sup>*\<^sup>* w w'" and "ledger_ok (w_db w)"
  shows "svc_run e (w_db w) (w_db w')"
  using assms(1)
proof (induction rule: rtranclp_induct)
  case (step w1 w2)
  then have "ledger_ok (w_db w1)" using run_ok [OF svc_run_pay] assms(2) by blast
  then show ?case using step pay_call_run svc_run_trans by blast
qed simp

text \<open>
  A sample deployment with the sandbox adapter: one payment is initiated and settled by a signed
  webhook. The witnesses evaluate the handlers on it.
\<close>

definition sample_service :: "sandbox_state service" where
  "sample_service = \<lparr>sv_providers = (\<lambda>n. if n = ''sandbox'' then Some (SandboxProvider sample_sandbox) else None),
     sv_default = ''sandbox'', sv_sha256 = (\<lambda>_. replicate 32 (CHR ''x'')),
     sv_uuid_string = (\<lambda>u. dec_nat (unat u)), sv_redact = (\<lambda>b. b)\<rparr>"

definition sample_env :: call_env where
  "sample_env = \<lparr>c_engine = lenient, c_flt = (\<lambda>_. Healthy), c_now = (\<lambda>n. 10 + int n),
     c_fresh = (\<lambda>n. if n = 0 then 7 else if n = 1 then 9 else 21), c_clock = 50, c_pub = Some (\<lambda>_. True)\<rparr>"

definition sample_input :: InitiateInput where
  "sample_input = \<lparr>in_TenantID = Some 3, in_CreatedBy = 4, in_CustomerID = Some 5, in_AmountMinor = 150000,
     in_Currency = ''KES'', in_Provider = [], in_JobID = None, in_VehicleID = None,
     in_Description = ''brakes'', in_PayerPhone = []\<rparr>"

definition sample_header :: "string \<Rightarrow> string" where
  "sample_header h = SignWebhookPayload (\<lambda>k m. k @ m) ''key'' ''{}'' (time_unix 1)"

definition sample_w0 :: "sandbox_state pay_world" where
  "sample_w0 = \<lparr>w_db = empty_pay_db, w_ext = empty_sandbox, w_events = [], w_mets = []\<rparr>"

definition sample_w1 :: "sandbox_state pay_world" where
  "sample_w1 = snd (InitiatePayment sample_service sample_env sample_input sample_w0)"

definition sample_w2 :: "sandbox_state pay_world" where
  "sample_w2 = snd (HandleWebhook sample_service sample_env ''sandbox'' sample_header ''{}'' (time_unix 1) sample_w1)"

definition sample_db_w1 :: pay_db where
  "sample_db_w1 =
     \<lparr>intents_t =
       [\<lparr>pi_ID = 7, pi_TenantID = Some 3, pi_CustomerID = Some 5, pi_CreatedBy = 4, pi_AmountMinor = 150000,
         pi_Currency = ''KES'', pi_Status = IntentProcessing, pi_Provider = ''sandbox'', pi_ProviderRef = None,
         pi_JobID = None, pi_VehicleID = None, pi_Description = [], pi_FailureReason = None,
         pi_SucceededAt = None, pi_FailedAt = None, pi_CanceledAt = None, pi_CreatedAt = 10, pi_UpdatedAt = 12\<rparr>],
      txns_t =
       [\<lparr>tx_ID = 9, tx_IntentID = 7, tx_Provider = ''sandbox'', tx_ProviderRef = Some ''SBX-9'',
         tx_ProviderReceipt = None, tx_Status = TxPending, tx_AmountMinor = 150000, tx_Currency = ''KES'',
         tx_FailureReason = None, tx_OccurredAt = None, tx_CreatedAt = 11, tx_UpdatedAt = 11\<rparr>],
      refunds_t = [], keys_t = [],
      log_t =
       [\<lparr>it_IntentID = 7, it_FromStatus = IntentCreated, it_ToStatus = IntentProcessing, it_ActorID = Some 4,
         it_Reason = ''provider accepted the initiation'', it_CreatedAt = 12\<rparr>]\<rparr>"

definition sample_db_w2 :: pay_db where
  "sample_db_w2 = sample_db_w1
     \<lparr>intents_t := map (\<lambda>r. r\<lparr>pi_Status := IntentSucceeded, pi_SucceededAt := Some 12, pi_UpdatedAt := 12\<rparr>) (intents_t sample_db_w1),
      txns_t := map (\<lambda>t. t\<lparr>tx_Status := TxSucceeded, tx_OccurredAt := Some 50, tx_UpdatedAt := 12\<rparr>) (txns_t sample_db_w1),
      keys_t := [\<lparr>ik_Key = ''webhook:sandbox:transaction.succeeded:9'', ik_Scope = ''webhook'',
        ik_PayloadHash = ''7878787878787878787878787878787878787878787878787878787878787878'',
        ik_Result = ''applied'', ik_CreatedAt = 11, ik_CompletedAt = Some 13\<rparr>],
      log_t := log_t sample_db_w1 @ [\<lparr>it_IntentID = 7, it_FromStatus = IntentProcessing, it_ToStatus = IntentSucceeded,
        it_ActorID = None, it_Reason = ''webhook'', it_CreatedAt = 12\<rparr>]\<rparr>"

lemmas pay_eval = InitiatePayment_def initiate_checks_def NewMoney_def Validate_def CreateIntent_def
  new_intent_def intent_insert_def intent_row_ok_def amount_ok_def CurrencyKES_def validateOptionalID_def
  MaxDescriptionLength_def SandboxProvider_def sandbox_Initiate_def record_acceptance_def new_txn_def
  InsertTransaction_def txn_insert_def txn_row_ok_def txn_unique_def UpdateIntentStatus_def move_intent_def
  stamp_intent_def intent_trigger_def publish_def count_def Let_def status_defs empty_pay_db_def row_ins_def
  row_upd_def nullif_empty_def created_payload_def EventIntentCreated_def empty_sandbox_def
  SandboxProviderRef_def row_get_def webhook_idempotent_def webhook_apply_def webhook_matches_def
  EqualSameCurrency_def webhook_key_def ClaimIdempotencyKey_def key_insert_def key_row_ok_def
  ApplyTransactionOutcome_def webhook_outcome_def scanTransaction_def scan_text_def settle_txn_def
  txn_trigger_def settle_intent_def time_is_zero_def CompleteIdempotencyKey_def complete_key_def
  key_trigger_def GetTransactionByProviderRef_def read_fails_def WebhookEventTransactionFailed_def
  settled_payload_def WebhookOutcomeApplied_def WebhookStatusApplied_def EventTransactionSucceededV1_def
  same_ref_def lenient_def refund_execute_def InsertRefund_def new_refund_def refund_insert_def
  refund_row_ok_def refund_unique_def sandbox_Refund_def UpdateRefundStatus_def move_refund_def
  refund_trigger_def EventRefundCompleted_def scanIntent_def scanRefund_def

text \<open>The samples, field by field, and the two renderings they use.\<close>

lemma sample_fields [simp]:
  "sv_providers sample_service n = (if n = ''sandbox'' then Some (SandboxProvider sample_sandbox) else None)"
  "sv_default sample_service = ''sandbox''" "sv_uuid_string sample_service u = dec_nat (unat u)"
  "sv_redact sample_service b = b" "sx_uuid_string sample_sandbox u = dec_nat (unat u)"
  "c_engine sample_env = lenient" "c_flt sample_env m = Healthy" "c_now sample_env m = 10 + int m"
  "c_fresh sample_env m = (if m = 0 then 7 else if m = 1 then 9 else 21)" "c_clock sample_env = 50"
  "c_pub sample_env = Some (\<lambda>_. True)"
  by (simp_all add: sample_service_def sample_sandbox_def sample_env_def)

lemma sample_renderings:
  "dec_nat 9 = ''9''" "dec_nat 7 = ''7''"
  "sha256Hex sample_service b = ''7878787878787878787878787878787878787878787878787878787878787878''"
  "hash_ok ''7878787878787878787878787878787878787878787878787878787878787878''"
  by code_simp+

lemma sample_provider: "Provider sample_service ''sandbox'' = Inr (SandboxProvider sample_sandbox)"
  by (simp add: Provider_def)

lemma sample_w1_db: "w_db sample_w1 = sample_db_w1"
  by (simp add: pay_eval Provider_def sample_renderings sample_input_def sample_w1_def sample_w0_def sample_db_w1_def)

definition sample_payload :: WebhookPayload where
  "sample_payload = \<lparr>wp_Event = ''transaction.succeeded'', wp_Provider = ''sandbox'', wp_IntentID = 0,
     wp_TransactionID = 0, wp_ProviderRef = ''SBX-9'', wp_ProviderReceipt = [], wp_AmountMinor = 150000,
     wp_Currency = ''KES'', wp_FailureReason = [], wp_OccurredAt = 50\<rparr>"

lemma sample_webhook:
  "p_webhook (SandboxProvider sample_sandbox) sample_header ''{}'' (time_unix 1) 50 = Inr sample_payload"
  by code_simp

definition sample_applied :: WebhookResult where
  "sample_applied = \<lparr>wr_Status = ''applied'', wr_Duplicate = False, wr_IntentID = 7, wr_TransactionID = 9\<rparr>"

definition sample_pending :: txn where
  "sample_pending =
     \<lparr>tx_ID = 9, tx_IntentID = 7, tx_Provider = ''sandbox'', tx_ProviderRef = ''SBX-9'', tx_ProviderReceipt = [],
      tx_Status = TxPending, tx_AmountMinor = 150000, tx_Currency = ''KES'', tx_FailureReason = [],
      tx_OccurredAt = None, tx_CreatedAt = 11, tx_UpdatedAt = 11\<rparr>"

lemma sample_lookup:
  "GetTransactionByProviderRef lenient Healthy ''sandbox'' ''SBX-9'' sample_db_w1 = Inr sample_pending"
  by (simp add: pay_eval sample_db_w1_def sample_pending_def)

text \<open>A delivery of the sample webhook on the ledger of the initiated payment reaches the claim.\<close>

lemma sample_handle:
  assumes "c_engine c = lenient" and "c_flt c 0 = Healthy" and "c_clock c = 50" and "w_db w = sample_db_w1"
  shows "HandleWebhook sample_service c ''sandbox'' sample_header ''{}'' (time_unix 1) w =
    webhook_idempotent sample_service c (SandboxProvider sample_sandbox) sample_payload sample_pending ''{}'' w"
proof -
  have "webhook_matches (SandboxProvider sample_sandbox) sample_payload sample_pending"
    by (simp add: webhook_matches_def EqualSameCurrency_def SandboxProvider_def sample_payload_def sample_pending_def)
  moreover have "p_name (SandboxProvider sample_sandbox) = ''sandbox''" "wp_ProviderRef sample_payload = ''SBX-9''"
    by (simp_all add: SandboxProvider_def sample_payload_def)
  ultimately show ?thesis
    by (simp add: HandleWebhook_def sample_provider sample_webhook assms sample_lookup)
qed

lemma sample_apply:
  "fst (webhook_idempotent sample_service sample_env (SandboxProvider sample_sandbox) sample_payload sample_pending
     ''{}'' sample_w1) = Inr sample_applied"
  "w_db (snd (webhook_idempotent sample_service sample_env (SandboxProvider sample_sandbox) sample_payload sample_pending
     ''{}'' sample_w1)) = sample_db_w2"
  by (simp_all add: sample_w1_db pay_eval sample_renderings sample_payload_def sample_applied_def
      sample_pending_def sample_db_w2_def sample_db_w1_def)

lemma sample_delivery:
  "HandleWebhook sample_service sample_env ''sandbox'' sample_header ''{}'' (time_unix 1) sample_w1 =
     (Inr sample_applied, sample_w2)"
  "w_db sample_w2 = sample_db_w2"
proof -
  have h: "HandleWebhook sample_service sample_env ''sandbox'' sample_header ''{}'' (time_unix 1) sample_w1 =
      webhook_idempotent sample_service sample_env (SandboxProvider sample_sandbox) sample_payload sample_pending ''{}'' sample_w1"
    by (rule sample_handle) (simp_all add: sample_w1_db)
  show "HandleWebhook sample_service sample_env ''sandbox'' sample_header ''{}'' (time_unix 1) sample_w1 =
     (Inr sample_applied, sample_w2)"
    unfolding sample_w2_def h using sample_apply(1) by (metis prod.collapse)
  show "w_db sample_w2 = sample_db_w2" unfolding sample_w2_def h by (rule sample_apply(2))
qed

lemma sample_calls: "(pay_call sample_service lenient)\<^sup>*\<^sup>* sample_w0 sample_w2"
proof -
  have "pay_call sample_service lenient sample_w0 sample_w1"
    unfolding sample_w1_def by (rule call_initiate) simp
  moreover have "pay_call sample_service lenient sample_w1 sample_w2"
    unfolding sample_w2_def by (rule call_webhook) simp
  ultimately show ?thesis by (meson converse_rtranclp_into_rtranclp rtranclp.rtrancl_refl)
qed

lemma sample_w_facts:
  "w_db sample_w0 = empty_pay_db"
  "map_option pi_Status (get_intent 7 (w_db sample_w1)) = Some IntentProcessing"
  "map_option pi_Status (get_intent 7 (w_db sample_w2)) = Some IntentSucceeded"
  by (simp_all add: sample_w0_def sample_w1_db sample_delivery(2) sample_db_w1_def sample_db_w2_def row_get_def)

lemma sample_ledgers_ok: "ledger_ok (w_db sample_w1)" "ledger_ok (w_db sample_w2)"
  "svc_run lenient empty_pay_db (w_db sample_w2)"
proof -
  have 1: "svc_run lenient empty_pay_db (w_db sample_w1)"
    using InitiatePayment_run [of lenient sample_w0 sample_service sample_env sample_input] sample_w_facts(1)
    by (simp add: sample_w1_def)
  show "svc_run lenient empty_pay_db (w_db sample_w2)"
    using svc_run_trans [OF 1] HandleWebhook_run [of sample_env sample_w1 sample_service] by (simp add: sample_w2_def)
  then show "ledger_ok (w_db sample_w1)" "ledger_ok (w_db sample_w2)"
    using 1 run_ok [OF svc_run_pay] empty_ledger_ok by blast+
qed

text \<open>
  C2. Money is backed. After any calls of the handlers, from an empty ledger, with any providers
  and any faults: an intent reported \<open>SUCCEEDED\<close> has a \<open>SUCCEEDED\<close> transaction for exactly its
  amount and currency with its provider; and every refund belongs to an intent that has succeeded,
  and is for exactly that intent's amount, currency and provider.
\<close>

theorem money_is_backed:
  assumes "(pay_call sv e)\<^sup>*\<^sup>* w0 w" and "w_db w0 = empty_pay_db"
  shows "(\<forall>k i. get_intent k (w_db w) = Some i \<longrightarrow> pi_Status i = IntentSucceeded \<longrightarrow>
      (\<exists>tid t. get_txn tid (w_db w) = Some t \<and> tx_IntentID t = k \<and> tx_Status t = TxSucceeded \<and>
         tx_AmountMinor t = pi_AmountMinor i \<and> tx_Currency t = pi_Currency i \<and>
         tx_Provider t = pi_Provider i)) \<and>
    (\<forall>rid r. get_refund rid (w_db w) = Some r \<longrightarrow>
      (\<exists>i. get_intent (rf_IntentID r) (w_db w) = Some i \<and> pi_Status i = IntentSucceeded \<and>
         rf_AmountMinor r = pi_AmountMinor i \<and> rf_Currency r = pi_Currency i \<and>
         rf_Provider r = pi_Provider i))"
proof -
  have "svc_run e empty_pay_db (w_db w)" using pay_calls_run [OF assms(1)] assms(2) empty_ledger_ok by simp
  then have ok: "service_ok (w_db w)" using svc_run_ok empty_service_ok by blast
  show ?thesis
  proof (intro conjI allI impI)
    fix k i
    assume i: "get_intent k (w_db w) = Some i" "pi_Status i = IntentSucceeded"
    then obtain tid t where t: "get_txn tid (w_db w) = Some t" "tx_IntentID t = k" "tx_Status t = TxSucceeded"
      using ok unfolding service_ok_def backed_intents_def paid_by_def by blast
    have "agrees i (tx_AmountMinor t) (tx_Currency t) (tx_Provider t)"
      using ok t(1,2) i(1) unfolding service_ok_def matching_txns_def by blast
    with t show "\<exists>tid t. get_txn tid (w_db w) = Some t \<and> tx_IntentID t = k \<and> tx_Status t = TxSucceeded \<and>
         tx_AmountMinor t = pi_AmountMinor i \<and> tx_Currency t = pi_Currency i \<and>
         tx_Provider t = pi_Provider i" unfolding agrees_def by metis
  next
    fix rid r
    assume "get_refund rid (w_db w) = Some r"
    then show "\<exists>i. get_intent (rf_IntentID r) (w_db w) = Some i \<and> pi_Status i = IntentSucceeded \<and>
         rf_AmountMinor r = pi_AmountMinor i \<and> rf_Currency r = pi_Currency i \<and>
         rf_Provider r = pi_Provider i"
      using ok unfolding service_ok_def backed_refunds_def agrees_def by metis
  qed
qed

theorem money_is_backed_witness:
  "\<exists>tid t i. get_intent 7 (w_db sample_w2) = Some i \<and> pi_Status i = IntentSucceeded \<and>
     get_txn tid (w_db sample_w2) = Some t \<and> tx_IntentID t = 7 \<and> tx_Status t = TxSucceeded \<and>
     tx_AmountMinor t = pi_AmountMinor i"
proof -
  obtain i where "get_intent 7 (w_db sample_w2) = Some i" "pi_Status i = IntentSucceeded"
    using sample_w_facts(3) by auto
  with money_is_backed [OF sample_calls sample_w_facts(1)] show ?thesis by metis
qed

text \<open>
  C6. Handlers refine the ledger. Every handler, on an intact ledger, changes the tables only
  through a sequence of the repository's operations with the arguments the service is meant to use:
  intents are created \<open>CREATED\<close> and move only \<open>CREATED\<close> to \<open>PROCESSING\<close> or \<open>FAILED\<close>; a transaction
  is inserted for the amount, currency and provider of its intent; a settlement takes the intent
  where its transaction goes; a refund is inserted for a succeeded intent, in full.
\<close>

theorem handlers_refine_the_ledger:
  assumes "ledger_ok (w_db w)"
  shows "svc_run (c_engine c) (w_db w) (w_db (snd (InitiatePayment sv c inp w))) \<and>
    svc_run (c_engine c) (w_db w) (w_db (snd (HandleWebhook sv c name hdr body now w))) \<and>
    svc_run (c_engine c) (w_db w) (w_db (snd (RefundPayment sv c k reason actor scope w))) \<and>
    svc_run (c_engine c) (w_db w) (w_db (snd (Run sv r c w)))"
  by (intro conjI InitiatePayment_run HandleWebhook_run RefundPayment_run [OF assms] Run_run)

theorem handlers_refine_witness:
  "svc_run lenient (w_db sample_w0) (w_db sample_w1) \<and> w_db sample_w0 \<noteq> w_db sample_w1"
proof
  have "ledger_ok (w_db sample_w0)" using empty_ledger_ok sample_w_facts(1) by simp
  from handlers_refine_the_ledger [OF this, of sample_env sample_service sample_input]
  show "svc_run lenient (w_db sample_w0) (w_db sample_w1)"
    unfolding sample_w1_def by (simp add: sample_env_def)
  show "w_db sample_w0 \<noteq> w_db sample_w1"
  proof
    assume "w_db sample_w0 = w_db sample_w1"
    then have "get_intent 7 empty_pay_db \<noteq> None" using sample_w_facts(1,2) by auto
    then show False by (simp add: empty_pay_db_def)
  qed
qed

lemma replay_service:
  assumes "replay IntentCreated es = Some s" and "\<forall>e \<in> set es. (it_FromStatus e, it_ToStatus e) \<in> service_moves"
  shows "map it_ToStatus es \<in> {[], [IntentProcessing], [IntentFailed],
      [IntentProcessing, IntentSucceeded], [IntentProcessing, IntentFailed]} \<and>
    s = last (IntentCreated # map it_ToStatus es)"
proof (cases es)
  case (Cons a as)
  show ?thesis
  proof (cases as)
    case Nil
    with Cons assms show ?thesis by (auto simp: service_moves_def split: if_splits)
  next
    case b: (Cons b bs)
    show ?thesis
    proof (cases bs)
      case Nil
      with Cons b assms show ?thesis by (auto simp: service_moves_def split: if_splits)
    next
      case (Cons d ds)
      with \<open>es = a # as\<close> b assms show ?thesis by (auto simp: service_moves_def split: if_splits)
    qed
  qed
qed (use assms in simp)

text \<open>
  C4. The life of an intent. Under every interleaving of the store operations that the handlers
  perform, the audit log of an intent is one of five: nothing yet; started; rejected; started and
  succeeded; started and failed. The last entry is the intent's status, so an intent moves at most
  twice, never succeeds without having been processed, and never leaves a terminal status.
\<close>

theorem intent_lifecycle:
  assumes "svc_run e empty_pay_db db" and "get_intent k db = Some i"
  shows "map it_ToStatus (audit_of k db) \<in> {[], [IntentProcessing], [IntentFailed],
      [IntentProcessing, IntentSucceeded], [IntentProcessing, IntentFailed]} \<and>
    pi_Status i = last (IntentCreated # map it_ToStatus (audit_of k db))"
proof (rule replay_service)
  have ok: "service_ok db" using svc_run_ok [OF assms(1) empty_service_ok] .
  then show "replay IntentCreated (audit_of k db) = Some (pi_Status i)"
    using assms(2) by (simp add: service_ok_def ledger_ok_def audited_def)
  show "\<forall>e \<in> set (audit_of k db). (it_FromStatus e, it_ToStatus e) \<in> service_moves"
    using ok by (auto simp: service_ok_def moves_ok_def audit_of_def)
qed

theorem intent_lifecycle_witness:
  "\<exists>i. get_intent 7 (w_db sample_w2) = Some i \<and>
     pi_Status i = last (IntentCreated # map it_ToStatus (audit_of 7 (w_db sample_w2)))"
proof -
  obtain i where i: "get_intent 7 (w_db sample_w2) = Some i" using sample_w_facts(3) by auto
  from intent_lifecycle [OF sample_ledgers_ok(3) i] i show ?thesis by blast
qed

end
