(* ===== verification/Pay_Delivery.thy ===== *)
theory Pay_Delivery
  imports Pay_Flows
begin

text \<open>
  Webhook deliveries: the trust boundary, the validation against the ledger, replays, abandoned
  claims, and the failure callbacks of Daraja.
\<close>

section \<open>The trust boundary\<close>

text \<open>
  The trust boundary is fail-closed. A delivery that the adapter does not authenticate, or
  whose content it refuses, is answered with \<open>ErrWebhookUnauthorized\<close> or \<open>ErrWebhookRejected\<close> and
  has no effect: the ledger, the providers and the published events are untouched, and only the
  rejection is counted.
\<close>

theorem unverified_webhook_has_no_effect:
  assumes "Provider sv name = Inr p" and "p_webhook p hdr body now (c_clock c) = Inl e"
  shows "HandleWebhook sv c name hdr body now w =
    (Inl (if e = WebhookUnauthorized then ErrWebhookUnauthorized else ErrWebhookRejected),
     w\<lparr>w_mets := w_mets w @ [WebhookReceived ''rejected'']\<rparr>)"
  using assms
  by (simp add: HandleWebhook_def Let_def count_def WebhookOutcomeRejected_def split: webhook_error.split)

theorem unverified_webhook_witness:
  "HandleWebhook sample_service sample_env ''sandbox'' (\<lambda>_. ''t=1,v1=00'') ''{}'' (time_unix 1) sample_w1 =
     (Inl ErrWebhookUnauthorized, sample_w1\<lparr>w_mets := w_mets sample_w1 @ [WebhookReceived ''rejected'']\<rparr>)"
proof -
  have "p_webhook (SandboxProvider sample_sandbox) (\<lambda>_. ''t=1,v1=00'') ''{}'' (time_unix 1) (c_clock sample_env) =
      Inl WebhookUnauthorized" by code_simp
  from unverified_webhook_has_no_effect [OF sample_provider this] show ?thesis by simp
qed

lemma webhook_idempotent_db:
  "w_db (snd (webhook_idempotent sv c p pl tx body w)) \<noteq> w_db w \<Longrightarrow>
     get_key (webhook_key sv p (wp_Event pl) (tx_ID tx)) (w_db w) = None"
  by (cases "get_key (webhook_key sv p (wp_Event pl) (tx_ID tx)) (w_db w)")
    (auto simp: webhook_idempotent_def ClaimIdempotencyKey_def finish_def Let_def split: if_splits)

lemma GetTransactionByProviderRef_Inr:
  assumes "GetTransactionByProviderRef e flt prov ref db = Inr tx"
  obtains r where "r \<in> set (txns_t db)" and "tx_Provider r = prov" and "tx_ProviderRef r = Some ref"
    and "scanTransaction e r = Some tx"
  using assms
  by (auto simp: GetTransactionByProviderRef_def split: if_splits option.splits dest!: find_SomeD)

text \<open>
  C5. Only a verified, matching, first delivery touches the ledger. If \<open>HandleWebhook\<close> changes the
  tables at all, then the adapter authenticated the delivery, the ledger has a transaction of that
  provider under the payload's reference whose amount and currency are exactly the attested ones
  (and whose intent is the payload's when it names one), and no earlier delivery had claimed the
  idempotency key of this provider, event and transaction.
\<close>

theorem ledger_change_needs_matching_webhook:
  assumes "ledger_ok (w_db w)"
    and "w_db (snd (HandleWebhook sv c name hdr body now w)) \<noteq> w_db w"
  shows "\<exists>p pl t. Provider sv name = Inr p \<and> p_webhook p hdr body now (c_clock c) = Inr pl \<and>
    get_txn (tx_ID t) (w_db w) = Some t \<and> tx_Provider t = p_name p \<and>
    tx_ProviderRef t = Some (wp_ProviderRef pl) \<and> tx_AmountMinor t = wp_AmountMinor pl \<and>
    tx_Currency t = wp_Currency pl \<and> (wp_IntentID pl = uuid_nil \<or> wp_IntentID pl = tx_IntentID t) \<and>
    get_key (webhook_key sv p (wp_Event pl) (tx_ID t)) (w_db w) = None"
proof (cases rule: HandleWebhook_cases [of sv c name hdr body now w])
  case (stop e w')
  with assms(2) show ?thesis by simp
next
  case (go p pl tx)
  from go(3) obtain t where t: "t \<in> set (txns_t (w_db w))" "tx_Provider t = p_name p"
    "tx_ProviderRef t = Some (wp_ProviderRef pl)" and sc: "scanTransaction (c_engine c) t = Some tx"
    by (rule GetTransactionByProviderRef_Inr)
  note f = scanTransaction_fields [OF sc]
  have "get_txn (tx_ID t) (w_db w) = Some t"
    using assms(1) t(1) by (simp add: ledger_parts tbl.get_rows)
  moreover have "get_key (webhook_key sv p (wp_Event pl) (tx_ID t)) (w_db w) = None"
    using webhook_idempotent_db go(5) assms(2) f by metis
  ultimately show ?thesis
    using go(1,2,4) t f
    by (intro exI [of _ p] exI [of _ pl] exI [of _ t]) (auto simp: webhook_matches_def EqualSameCurrency_def)
qed

theorem matching_webhook_witness:
  "\<exists>t. get_txn (tx_ID t) (w_db sample_w1) = Some t \<and> tx_AmountMinor t = 150000 \<and> tx_Provider t = ''sandbox''"
proof -
  have "w_db (snd (HandleWebhook sample_service sample_env ''sandbox'' sample_header ''{}'' (time_unix 1) sample_w1))
      \<noteq> w_db sample_w1"
    unfolding sample_w2_def [symmetric] using sample_w_facts(2,3) by auto
  from ledger_change_needs_matching_webhook [OF sample_ledgers_ok(1) this]
  obtain p pl t where *: "Provider sample_service ''sandbox'' = Inr p"
    "p_webhook p sample_header ''{}'' (time_unix 1) (c_clock sample_env) = Inr pl"
    "get_txn (tx_ID t) (w_db sample_w1) = Some t" "tx_Provider t = p_name p" "tx_AmountMinor t = wp_AmountMinor pl"
    by blast
  then have "p = SandboxProvider sample_sandbox" "pl = sample_payload"
    using sample_provider sample_webhook by auto
  with * show ?thesis by (auto simp: SandboxProvider_def sample_payload_def)
qed

section \<open>Replays\<close>

lemma find_by_ref:
  assumes "ledger_ok db" and "t \<in> set (txns_t db)" and "tx_Provider t = prov" and "tx_ProviderRef t = Some ref"
    and "ref \<noteq> []"
  shows "find (\<lambda>t. tx_Provider t = prov \<and> tx_ProviderRef t = Some ref) (txns_t db) = Some t"
proof -
  obtain u where u: "find (\<lambda>t. tx_Provider t = prov \<and> tx_ProviderRef t = Some ref) (txns_t db) = Some u"
    using assms(2-4) by (cases "find (\<lambda>t. tx_Provider t = prov \<and> tx_ProviderRef t = Some ref) (txns_t db)")
      (auto simp: find_None_iff)
  then have u': "u \<in> set (txns_t db)" "tx_Provider u = prov" "tx_ProviderRef u = Some ref"
    by (auto dest!: find_SomeD)
  then have "txn_clash u t" using assms(3-5) by (simp add: txn_clash_def same_ref_def)
  moreover have "index_ok tx_ID txn_clash (txns_t db)" "pk_ok tx_ID (txns_t db)"
    using assms(1) by (auto simp: ledger_parts)
  ultimately have "u = t" using u'(1) assms(2) tbl.key_inj unfolding index_ok_def by metis
  with u show ?thesis by simp
qed







section \<open>Abandoned claims\<close>

text \<open>
  An abandoned claim blocks its delivery for good. If the process that claimed an idempotency
  key failed between the claim and its completion (which the handler does in separate
  transactions), then every later delivery of that event for that transaction is an error and
  changes nothing, so the webhook that would settle the payment can never be applied: the same body
  is told that it conflicts, and any other body that it was tampered with.
\<close>

theorem abandoned_claim_blocks_delivery:
  assumes "ledger_ok (w_db w)" and "Provider sv name = Inr p"
    and "p_webhook p hdr body now (c_clock c) = Inr pl"
    and "t \<in> set (txns_t (w_db w))" and "tx_Provider t = p_name p" and "tx_ProviderRef t = Some (wp_ProviderRef pl)"
    and "wp_ProviderRef pl \<noteq> []"
    and "get_key (webhook_key sv p (wp_Event pl) (tx_ID t)) (w_db w) = Some k" and "ik_Result k = []"
  shows "\<exists>e w'. HandleWebhook sv c name hdr body now w = (Inl e, w') \<and> w_db w' = w_db w \<and>
    w_events w' = w_events w \<and> e \<in> {ErrWebhookRejected, ErrDatabase, ErrPayConflict}"
proof (cases "GetTransactionByProviderRef (c_engine c) (c_flt c 0) (p_name p) (wp_ProviderRef pl) (w_db w)")
  case (Inl e)
  then show ?thesis using assms(2,3) by (simp add: HandleWebhook_def Let_def)
next
  case (Inr tx)
  then have "scanTransaction (c_engine c) t = Some tx"
    using find_by_ref [OF assms(1,4-7)]
    by (simp add: GetTransactionByProviderRef_def split: if_splits option.splits)
  then have "tx_ID tx = tx_ID t" by (simp add: scanTransaction_fields)
  then show ?thesis
    using assms(2,3,8,9) Inr
    by (auto simp: HandleWebhook_def webhook_idempotent_def ClaimIdempotencyKey_def finish_def Let_def)
qed

text \<open>In the witness the settlement of the first delivery loses its connection.\<close>

definition sample_env_lost :: call_env where
  "sample_env_lost = sample_env\<lparr>c_flt := (\<lambda>n. if n = 2 then FailAt 0 else Healthy)\<rparr>"

definition sample_w2_lost :: "sandbox_state pay_world" where
  "sample_w2_lost = snd (HandleWebhook sample_service sample_env_lost ''sandbox'' sample_header ''{}'' (time_unix 1) sample_w1)"

lemma sample_lost_db:
  "w_db sample_w2_lost = sample_db_w1\<lparr>keys_t := [\<lparr>ik_Key = ''webhook:sandbox:transaction.succeeded:9'',
     ik_Scope = ''webhook'', ik_PayloadHash = sha256Hex sample_service ''{}'', ik_Result = [], ik_CreatedAt = 11,
     ik_CompletedAt = None\<rparr>]\<rparr>"
proof -
  have "HandleWebhook sample_service sample_env_lost ''sandbox'' sample_header ''{}'' (time_unix 1) sample_w1 =
      webhook_idempotent sample_service sample_env_lost (SandboxProvider sample_sandbox) sample_payload sample_pending
        ''{}'' sample_w1"
    by (rule sample_handle) (simp_all add: sample_env_lost_def sample_w1_db)
  then show ?thesis
    unfolding sample_w2_lost_def
    by (simp add: sample_env_lost_def sample_w1_db pay_eval sample_renderings sample_payload_def sample_pending_def
        sample_db_w1_def)
qed

theorem abandoned_claim_witness:
  "\<exists>e w'. HandleWebhook sample_service sample_env ''sandbox'' sample_header ''{}'' (time_unix 1) sample_w2_lost = (Inl e, w') \<and>
     w_db w' = w_db sample_w2_lost \<and> map_option pi_Status (get_intent 7 (w_db w')) = Some IntentProcessing"
proof -
  have ok: "ledger_ok (w_db sample_w2_lost)"
    unfolding sample_w2_lost_def by (rule run_ok [OF svc_run_pay [OF HandleWebhook_run] sample_ledgers_ok(1)])
  have wh: "p_webhook (SandboxProvider sample_sandbox) sample_header ''{}'' (time_unix 1) (c_clock sample_env) =
      Inr sample_payload" using sample_webhook by simp
  obtain t where t: "t \<in> set (txns_t (w_db sample_w2_lost))" "tx_ID t = 9" "tx_Provider t = ''sandbox''"
    "tx_ProviderRef t = Some ''SBX-9''" by (simp add: sample_lost_db sample_db_w1_def)
  obtain k where k: "get_key ''webhook:sandbox:transaction.succeeded:9'' (w_db sample_w2_lost) = Some k" "ik_Result k = []"
    by (simp add: sample_lost_db row_get_def)
  have "\<exists>e w'. HandleWebhook sample_service sample_env ''sandbox'' sample_header ''{}'' (time_unix 1) sample_w2_lost = (Inl e, w') \<and>
      w_db w' = w_db sample_w2_lost \<and> w_events w' = w_events sample_w2_lost \<and>
      e \<in> {ErrWebhookRejected, ErrDatabase, ErrPayConflict}"
    by (rule abandoned_claim_blocks_delivery [OF ok sample_provider wh t(1)])
      (use t k in \<open>simp_all add: SandboxProvider_def sample_payload_def webhook_key_def sample_renderings\<close>)
  moreover have "map_option pi_Status (get_intent 7 (w_db sample_w2_lost)) = Some IntentProcessing"
    by (simp add: sample_lost_db sample_db_w1_def row_get_def)
  ultimately show ?thesis by auto
qed

section \<open>Failure callbacks of Daraja\<close>

text \<open>
  Daraja failures are never applied. A failed STK callback carries no amount metadata, so its
  payload attests the amount zero; no transaction of the ledger has that amount, and \<open>HandleWebhook\<close>
  rejects every such callback without touching the ledger. A payment the customer cancelled
  therefore stays \<open>PROCESSING\<close> until reconciliation.
\<close>

theorem daraja_failure_callback_rejected:
  assumes "ledger_ok (w_db w)" and "Provider sv name = Inr (DarajaProvider d)"
    and "de_callback d body = Some cb" and "cb_ResultCode cb \<noteq> 0" and "cb_CallbackMetadata cb = None"
  shows "\<exists>e. HandleWebhook sv c name hdr body now w =
    (Inl e, w\<lparr>w_mets := w_mets w @ [WebhookReceived ''rejected'']\<rparr>) \<and>
    e \<in> {ErrWebhookUnauthorized, ErrWebhookRejected}"
proof (cases "p_webhook (DarajaProvider d) hdr body now (c_clock c)")
  case (Inl e)
  then show ?thesis using assms(2)
    by (cases e) (simp_all add: HandleWebhook_def Let_def count_def WebhookOutcomeRejected_def)
next
  case (Inr pl)
  then have pl: "wp_AmountMinor pl = 0"
    using assms(3-5) by (auto simp: DarajaProvider_def daraja_WebhookEvent_def callback_amount_def
        split: option.splits if_splits)
  show ?thesis
  proof (cases "GetTransactionByProviderRef (c_engine c) (c_flt c 0) (p_name (DarajaProvider d)) (wp_ProviderRef pl) (w_db w)")
    case (Inl e)
    with Inr assms(2) show ?thesis
      by (simp add: HandleWebhook_def Let_def count_def WebhookOutcomeRejected_def)
  next
    case tx: (Inr tx)
    then obtain t where t: "t \<in> set (txns_t (w_db w))" "scanTransaction (c_engine c) t = Some tx"
      by (rule GetTransactionByProviderRef_Inr)
    then have "0 < sint (tx_AmountMinor tx)"
      using assms(1) scanTransaction_fields [OF t(2)] by (auto simp: ledger_parts txn_row_ok_def amount_ok_def)
    then have "\<not> webhook_matches (DarajaProvider d) pl tx"
      using pl by (auto simp: webhook_matches_def EqualSameCurrency_def)
    with Inr tx assms(2) show ?thesis
      by (simp add: HandleWebhook_def Let_def count_def WebhookOutcomeRejected_def)
  qed
qed

definition sample_daraja_failed :: "unit daraja_env" where
  "sample_daraja_failed = sample_daraja\<lparr>de_callback := (\<lambda>_. Some \<lparr>cb_CheckoutRequestID = ''sbx-1'',
     cb_ResultCode = 1032, cb_ResultDesc = ''cancelled by user'', cb_CallbackMetadata = None\<rparr>)\<rparr>"

definition sample_daraja_service :: "unit daraja_state service" where
  "sample_daraja_service = \<lparr>sv_providers = (\<lambda>n. Some (DarajaProvider sample_daraja_failed)), sv_default = ''daraja'',
     sv_sha256 = (\<lambda>_. replicate 32 (CHR ''x'')), sv_uuid_string = (\<lambda>u. dec_nat (unat u)), sv_redact = (\<lambda>b. b)\<rparr>"

definition sample_daraja_world :: "unit daraja_state pay_world" where
  "sample_daraja_world =
     \<lparr>w_db = snd (InsertTransaction Healthy 30 1 (sample_txn\<lparr>tx_Provider := ''daraja''\<rparr>) sample_db2),
      w_ext = \<lparr>ds_oauthToken = [], ds_tokenExpiry = 0, ds_net = ()\<rparr>, w_events = [], w_mets = []\<rparr>"

theorem daraja_failure_witness:
  "\<exists>e. HandleWebhook sample_daraja_service sample_env ''daraja''
      (\<lambda>_. SignWebhookPayload (\<lambda>k m. k @ m) ''k'' ''{}'' (time_unix 1)) ''{}'' (time_unix 1) sample_daraja_world =
    (Inl e, sample_daraja_world\<lparr>w_mets := [WebhookReceived ''rejected'']\<rparr>)"
proof -
  have "pay_run lenient empty_pay_db (w_db sample_daraja_world)"
    unfolding sample_daraja_world_def pay_world.simps sample_db2_def
    by (rule pay_run_step [OF pay_run_step [OF sample_run(1) s_intent] s_txn])
  then have "ledger_ok (w_db sample_daraja_world)" using run_ok empty_ledger_ok by blast
  then obtain e where "HandleWebhook sample_daraja_service sample_env ''daraja''
      (\<lambda>_. SignWebhookPayload (\<lambda>k m. k @ m) ''k'' ''{}'' (time_unix 1)) ''{}'' (time_unix 1) sample_daraja_world =
    (Inl e, sample_daraja_world\<lparr>w_mets := w_mets sample_daraja_world @ [WebhookReceived ''rejected'']\<rparr>)"
    using daraja_failure_callback_rejected [of sample_daraja_world sample_daraja_service "''daraja''" sample_daraja_failed]
    by (force simp: Provider_def sample_daraja_service_def sample_daraja_failed_def)
  then show ?thesis by (auto simp: sample_daraja_world_def)
qed

end
