(* ===== verification/Pay_Convergence.thy ===== *)
theory Pay_Convergence
  imports Pay_Flows
begin

text \<open>
  Reconciliation: the accounting of a run, its convergence (a payment whose webhook was missed is
  settled by the next run whose provider answers), and the query the run depends on.
\<close>

section \<open>The batch\<close>








section \<open>One row\<close>




section \<open>The loop\<close>







section \<open>Properties\<close>


definition late_env :: call_env where
  "late_env = sample_env\<lparr>c_clock := 1000000000000\<rparr>"

definition late_world :: "sandbox_state pay_world" where
  "late_world = sample_w1\<lparr>w_ext := SetOutcome 9 TxFailed (w_ext sample_w1)\<rparr>"


text \<open>
  The overdue query never runs on the target database. The columns of the joined tables are
  not qualified in the SELECT list, and both tables have an \<open>id\<close>; a database that refuses an
  ambiguous column refuses the scan, so the job reports a database error on every run, whatever
  the ledger holds, and repairs nothing.
\<close>

theorem reconcile_never_runs:
  assumes "\<not> ambiguous_columns (c_engine c)"
  shows "fst (Run sv r c w) = Inl ErrDatabase \<and> w_db (snd (Run sv r c w)) = w_db w \<and>
    w_ext (snd (Run sv r c w)) = w_ext w \<and> w_events (snd (Run sv r c w)) = w_events w"
  using assms by (simp add: Run_def Let_def ListStaleIntents_def count_def)

theorem reconcile_never_runs_witness:
  "fst (Run sample_service (NewReconciler 0) (late_env\<lparr>c_engine := lenient\<lparr>ambiguous_columns := False\<rparr>\<rparr>) late_world) =
     Inl ErrDatabase"
  by (rule reconcile_never_runs [THEN conjunct1]) simp

end
