(* ===== verification/Pay_Refunds.thy ===== *)
theory Pay_Refunds
  imports Pay_Delivery
begin

text \<open>
  Refunds: what a successful \<open>RefundPayment\<close> guarantees, and what it does not (the race of two
  concurrent requests, the announcement of a refused refund, refunds through Daraja).
\<close>

section \<open>A successful refund\<close>

lemma UpdateRefundStatus_Inr:
  assumes "UpdateRefundStatus flt now rid exp new ref why db = (Inr u, db')"
  shows "\<exists>r. get_refund rid db = Some r \<and> rf_Status r = exp \<and> new \<in> {RefundCompleted, RefundFailed} \<and>
    db' = db\<lparr>refunds_t := row_upd rf_ID rid (move_refund new ref why now) (refunds_t db)\<rparr>"
  using assms
  by (auto simp: UpdateRefundStatus_def Let_def refund_trigger_def split: if_splits option.splits dest!: finish_Inr)

lemma InsertRefund_Inr:
  assumes "InsertRefund flt now fresh r db = (Inr r', db')"
  shows "db' = db\<lparr>refunds_t := row_ins (refund_insert (rf_ID r') now r) (refunds_t db)\<rparr>"
    and "get_refund (rf_ID r') db = None" and "refund_unique (refund_insert (rf_ID r') now r) (refunds_t db)"
    and "r' = r\<lparr>rf_ID := rf_ID r', rf_Status := RefundRequested, rf_CreatedAt := now, rf_UpdatedAt := now\<rparr>"
  using assms by (auto simp: InsertRefund_def Let_def split: if_splits dest!: finish_Inr)

lemma refund_execute_ok:
  assumes "refund_execute c reason actor i p w = ((Some r, None), w')"
  shows "\<exists>st ref row. get_refund (rf_ID r) (w_db w) = None \<and> get_refund (rf_ID r) (w_db w') = Some row \<and>
    rf_Status row = st \<and> rf_Status r = st \<and> st \<in> {RefundCompleted, RefundFailed} \<and>
    rf_IntentID row = pi_ID i \<and> rf_AmountMinor row = pi_AmountMinor i \<and> rf_Currency row = pi_Currency i \<and>
    intents_t (w_db w') = intents_t (w_db w) \<and> txns_t (w_db w') = txns_t (w_db w)"
proof -
  obtain r0 db1 where ins: "InsertRefund (c_flt c 2) (c_now c 2) (c_fresh c 0) (new_refund i reason actor) (w_db w) = (Inr r0, db1)"
    using assms by (auto simp: refund_execute_def split: prod.splits sum.splits)
  note i = InsertRefund_Inr [OF ins]
  have "\<exists>st ref why db2. UpdateRefundStatus (c_flt c 3) (c_now c 3) (rf_ID r0) RefundRequested st ref why db1 =
      (Inr (), db2) \<and> r = r0\<lparr>rf_Status := st, rf_ProviderRef := ref\<rparr> \<and> w_db w' = db2"
    using assms ins
    by (auto simp: refund_execute_def Let_def split: prod.splits sum.splits provider_error.splits dest!: publish_db) blast
  then obtain st ref why db2 where upd: "UpdateRefundStatus (c_flt c 3) (c_now c 3) (rf_ID r0) RefundRequested st ref why db1 =
      (Inr (), db2)" and r: "r = r0\<lparr>rf_Status := st, rf_ProviderRef := ref\<rparr>" and w': "w_db w' = db2"
    by blast
  note u = UpdateRefundStatus_Inr [OF upd]
  have row: "get_refund (rf_ID r0) db1 = Some (refund_insert (rf_ID r0) (c_now c 2) (new_refund i reason actor))"
    using i(1,2) by (simp add: row_get_ins)
  then have "get_refund (rf_ID r0) db2 = Some (move_refund st ref why (c_now c 3)
      (refund_insert (rf_ID r0) (c_now c 2) (new_refund i reason actor)))"
    using u by (auto simp: row_get_upd)
  then show ?thesis
    using i u r w' by (auto simp: move_refund_def refund_insert_def new_refund_def Let_def)
qed

text \<open>
  What a refund that reports no error guarantees. The intent was visible to the caller's scope
  and had \<open>SUCCEEDED\<close>; the latest refund the caller could see, if any, had failed; exactly one new
  refund row exists, settled, for the full amount and currency of the intent; and neither intents
  nor transactions changed.
\<close>

theorem refund_without_error:
  assumes "ledger_ok (w_db w)" and "RefundPayment sv c k reason actor scope w = ((Some r, None), w')"
  shows "\<exists>i row. get_intent k (w_db w) = Some i \<and> visible scope i \<and> pi_Status i = IntentSucceeded \<and>
    (LatestRefundForIntent (c_engine c) (c_flt c 1) k scope (w_db w) = Inl ErrRefundNotFound \<or>
     (\<exists>x. LatestRefundForIntent (c_engine c) (c_flt c 1) k scope (w_db w) = Inr x \<and> rf_Status x = RefundFailed)) \<and>
    get_refund (rf_ID r) (w_db w) = None \<and> get_refund (rf_ID r) (w_db w') = Some row \<and>
    rf_Status row \<in> {RefundCompleted, RefundFailed} \<and> rf_IntentID row = k \<and>
    rf_AmountMinor row = pi_AmountMinor i \<and> rf_Currency row = pi_Currency i \<and>
    intents_t (w_db w') = intents_t (w_db w) \<and> txns_t (w_db w') = txns_t (w_db w)"
proof -
  obtain i p where ch: "refund_checks sv c k reason scope (w_db w) = Inr (i, p)"
    and ex: "refund_execute c reason actor i p w = ((Some r, None), w')"
    using assms(2) by (auto simp: RefundPayment_def split: sum.splits prod.splits)
  have pk: "pk_ok pi_ID (intents_t (w_db w))" using assms(1) by (simp add: ledger_parts)
  obtain ir where ir: "get_intent k (w_db w) = Some ir" "scanIntent (c_engine c) ir = Some i" "visible scope ir"
    "pi_Status i = IntentSucceeded"
    "LatestRefundForIntent (c_engine c) (c_flt c 1) k scope (w_db w) = Inl ErrRefundNotFound \<or>
     (\<exists>x. LatestRefundForIntent (c_engine c) (c_flt c 1) k scope (w_db w) = Inr x \<and> rf_Status x = RefundFailed)"
    by (rule refund_checks_Inr [OF ch pk])
  show ?thesis
    using refund_execute_ok [OF ex] scanIntent_fields [OF ir(2)] row_get_key [OF ir(1)] ir(1,3,4,5)
    by (intro exI [of _ ir]) auto
qed

text \<open>The settled sample intent as the service reads it, and two refunds of it.\<close>

definition sample_settled :: intent where
  "sample_settled =
     \<lparr>pi_ID = 7, pi_TenantID = Some 3, pi_CustomerID = Some 5, pi_CreatedBy = 4, pi_AmountMinor = 150000,
      pi_Currency = ''KES'', pi_Status = IntentSucceeded, pi_Provider = ''sandbox'', pi_ProviderRef = [],
      pi_JobID = None, pi_VehicleID = None, pi_Description = [], pi_FailureReason = [],
      pi_SucceededAt = Some 12, pi_FailedAt = None, pi_CanceledAt = None, pi_CreatedAt = 10, pi_UpdatedAt = 12\<rparr>"

lemma sample_refund_checks:
  assumes "c_engine c = lenient" and "c_flt c 0 = Healthy" and "c_flt c 1 = Healthy" and "length reason \<le> 500"
  shows "refund_checks sample_service c 7 reason UnrestrictedScope sample_db_w2 =
    Inr (sample_settled, SandboxProvider sample_sandbox)"
proof -
  have "GetIntent lenient Healthy 7 UnrestrictedScope sample_db_w2 = Inr sample_settled"
    by (simp add: GetIntent_def intentScopePredicate_def scopePredicate_def UnrestrictedScope_def Unrestricted_def
        args_accepted_def read_fails_def sample_db_w2_def sample_db_w1_def scanIntent_def scan_text_def lenient_def
        sample_settled_def)
  moreover have "LatestRefundForIntent lenient Healthy 7 UnrestrictedScope sample_db_w2 = Inl ErrRefundNotFound"
    by (simp add: LatestRefundForIntent_def scopePredicate_def UnrestrictedScope_def Unrestricted_def
        args_accepted_def read_fails_def sample_db_w2_def sample_db_w1_def lenient_def)
  ultimately show ?thesis
    using assms(4) sample_provider
    by (simp add: refund_checks_def MaxRefundReasonLength_def assms(1,2) assms(3) [simplified] Let_def
        sample_settled_def)
qed

definition sample_refund_row :: "uuid \<Rightarrow> gotime \<Rightarrow> string \<Rightarrow> string \<Rightarrow> refund_row" where
  "sample_refund_row rid at ref why =
     \<lparr>rf_ID = rid, rf_IntentID = 7, rf_AmountMinor = 150000, rf_Currency = ''KES'', rf_Status = RefundCompleted,
      rf_Provider = ''sandbox'', rf_ProviderRef = Some ref, rf_Reason = why, rf_FailureReason = None,
      rf_RequestedBy = Some 4, rf_CreatedAt = at, rf_UpdatedAt = at + 1\<rparr>"

definition sample_db_w3 :: pay_db where
  "sample_db_w3 = sample_db_w2\<lparr>refunds_t := [sample_refund_row 7 12 ''SBXRF-7'' ''a'']\<rparr>"

lemma sample_refund_a:
  "\<exists>r wa. refund_execute sample_env ''a'' 4 sample_settled (SandboxProvider sample_sandbox) sample_w2 =
     ((Some r, None), wa) \<and> w_db wa = sample_db_w3 \<and> rf_ID r = 7"
  by (simp add: sample_delivery(2) sample_db_w3_def sample_db_w2_def sample_db_w1_def sample_settled_def
      sample_renderings sample_refund_row_def pay_eval)

theorem refund_without_error_witness:
  "\<exists>r w'. RefundPayment sample_service sample_env 7 ''a'' 4 UnrestrictedScope sample_w2 = ((Some r, None), w') \<and>
     (\<exists>row. get_refund (rf_ID r) (w_db w') = Some row \<and> rf_AmountMinor row = 150000)"
proof -
  obtain r wa where "refund_execute sample_env ''a'' 4 sample_settled (SandboxProvider sample_sandbox) sample_w2 =
     ((Some r, None), wa)" using sample_refund_a by blast
  then have rp: "RefundPayment sample_service sample_env 7 ''a'' 4 UnrestrictedScope sample_w2 = ((Some r, None), wa)"
    by (simp add: RefundPayment_def sample_delivery(2) sample_refund_checks)
  have "map_option pi_AmountMinor (get_intent 7 (w_db sample_w2)) = Some 150000"
    by (simp add: sample_delivery(2) sample_db_w2_def sample_db_w1_def row_get_def)
  with refund_without_error [OF sample_ledgers_ok(2) rp] rp show ?thesis by auto
qed

section \<open>Two concurrent refunds\<close>

text \<open>The second request draws another identifier and runs on a later database clock.\<close>

definition sample_env2 :: call_env where
  "sample_env2 = sample_env\<lparr>c_fresh := (\<lambda>_. 9), c_now := (\<lambda>n. 100 + int n)\<rparr>"

lemma sample_refund_b:
  assumes "w_db wa = sample_db_w3"
  shows "\<exists>r wb. refund_execute sample_env2 ''b'' 4 sample_settled (SandboxProvider sample_sandbox) wa = ((Some r, None), wb) \<and>
     refunds_t (w_db wb) = [sample_refund_row 7 12 ''SBXRF-7'' ''a'', sample_refund_row 9 102 ''SBXRF-9'' ''b'']"
  by (simp add: assms sample_env2_def sample_db_w3_def sample_db_w2_def sample_db_w1_def sample_settled_def
      sample_renderings sample_refund_row_def pay_eval)

text \<open>
  Two concurrent refund requests can pay twice. The checks of \<open>RefundPayment\<close> read outside the
  transaction that inserts the refund, and the unique index only forbids two refunds in flight: two
  requests that both pass the checks before either inserts, and of which the second inserts after
  the first has settled, are both executed by the provider and both end \<open>COMPLETED\<close> without an
  error. There is a ledger, reached by an initiation and its webhook, on which this happens.
\<close>

theorem concurrent_refunds_pay_twice:
  "\<exists>(sv :: sandbox_state service) ca cb w i p ra rb wa wb.
     svc_run lenient empty_pay_db (w_db w) \<and>
     refund_checks sv ca 7 ''a'' UnrestrictedScope (w_db w) = Inr (i, p) \<and>
     refund_checks sv cb 7 ''b'' UnrestrictedScope (w_db w) = Inr (i, p) \<and>
     refund_execute ca ''a'' 4 i p w = ((Some ra, None), wa) \<and>
     refund_execute cb ''b'' 4 i p wa = ((Some rb, None), wb) \<and>
     map rf_Status (refunds_t (w_db wb)) = [RefundCompleted, RefundCompleted] \<and>
     map rf_IntentID (refunds_t (w_db wb)) = [7, 7] \<and>
     map rf_AmountMinor (refunds_t (w_db wb)) = [pi_AmountMinor i, pi_AmountMinor i]"
proof -
  obtain ra wa where a: "refund_execute sample_env ''a'' 4 sample_settled (SandboxProvider sample_sandbox) sample_w2 =
     ((Some ra, None), wa)" "w_db wa = sample_db_w3" using sample_refund_a by blast
  obtain rb wb where b: "refund_execute sample_env2 ''b'' 4 sample_settled (SandboxProvider sample_sandbox) wa = ((Some rb, None), wb)"
    "refunds_t (w_db wb) = [sample_refund_row 7 12 ''SBXRF-7'' ''a'', sample_refund_row 9 102 ''SBXRF-9'' ''b'']"
    using sample_refund_b [OF a(2)] by blast
  have checks: "refund_checks sample_service sample_env 7 ''a'' UnrestrictedScope (w_db sample_w2) =
      Inr (sample_settled, SandboxProvider sample_sandbox)"
    "refund_checks sample_service sample_env2 7 ''b'' UnrestrictedScope (w_db sample_w2) =
      Inr (sample_settled, SandboxProvider sample_sandbox)"
    by (simp_all add: sample_delivery(2) sample_refund_checks sample_env2_def)
  have "map rf_Status (refunds_t (w_db wb)) = [RefundCompleted, RefundCompleted]"
    "map rf_IntentID (refunds_t (w_db wb)) = [7, 7]"
    "map rf_AmountMinor (refunds_t (w_db wb)) = [pi_AmountMinor sample_settled, pi_AmountMinor sample_settled]"
    by (simp_all add: b(2) sample_refund_row_def sample_settled_def)
  with sample_ledgers_ok(3) checks a(1) b(1) show ?thesis
    by (intro exI [of _ sample_service] exI [of _ sample_env] exI [of _ sample_env2] exI [of _ sample_w2]
        exI [of _ sample_settled] exI [of _ "SandboxProvider sample_sandbox"] exI [of _ ra] exI [of _ rb]
        exI [of _ wa] exI [of _ wb]) simp
qed

section \<open>A refused refund is announced as completed\<close>

text \<open>
  A refund the provider refuses is announced as completed. When the adapter answers a refund
  request with the status \<open>FAILED\<close> (which the Daraja adapter does on every refused reversal), the
  row is recorded \<open>FAILED\<close>, but the handler returns no error, counts a refunded payment and publishes
  \<open>refund.completed.v1\<close> for it.
\<close>

theorem refused_refund_announced_completed:
  assumes "InsertRefund (c_flt c 2) (c_now c 2) (c_fresh c 0) (new_refund i reason actor) (w_db w) = (Inr r, db1)"
    and "p_refund p \<lparr>rr_RefundID = rf_ID r, rr_IntentID = pi_ID i, rr_ProviderRef = pi_ProviderRef i,
       rr_Amount = \<lparr>AmountMinor = pi_AmountMinor i, Currency = pi_Currency i\<rparr>, rr_Reason = reason\<rparr> (w_ext w) =
       (Inr rs, ext)"
    and "rs_Status rs = RefundFailed" and "c_flt c 3 = Healthy"
    and "c_pub c = Some ok" and "ok ''refund.completed.v1''"
  shows "\<exists>r' w' row ev. refund_execute c reason actor i p w = ((Some r', None), w') \<and>
    get_refund (rf_ID r') (w_db w') = Some row \<and> rf_Status row = RefundFailed \<and>
    w_events w' = w_events w @ [ev] \<and> ev_type ev = ''refund.completed.v1'' \<and> ev_aggregate ev = rf_ID r' \<and>
    PaymentRefunded \<in> set (w_mets w')"
proof -
  note ins = InsertRefund_Inr [OF assms(1)]
  have row: "get_refund (rf_ID r) db1 = Some (refund_insert (rf_ID r) (c_now c 2) (new_refund i reason actor))"
    using ins(1,2) by (simp add: row_get_ins)
  have ok: "refund_row_ok (refund_insert (rf_ID r) (c_now c 2) (new_refund i reason actor))"
    using assms(1) by (auto simp: InsertRefund_def Let_def split: if_splits dest!: finish_Inr)
  have upd: "UpdateRefundStatus Healthy (c_now c 3) (rf_ID r) RefundRequested RefundFailed (rs_ProviderRef rs) (rs_FailureReason rs) db1 =
      (Inr (), db1\<lparr>refunds_t := row_upd rf_ID (rf_ID r)
        (move_refund RefundFailed (rs_ProviderRef rs) (rs_FailureReason rs) (c_now c 3)) (refunds_t db1)\<rparr>)"
    using row ok by (simp add: UpdateRefundStatus_def Let_def refund_trigger_def refund_row_ok_def refund_unique_def
        move_refund_def status_defs)
  then show ?thesis
    using assms row
    by (simp add: refund_execute_def Let_def publish_def count_def EventRefundCompleted_def row_get_upd)
qed

definition refusing_provider :: "sandbox_state provider" where
  "refusing_provider = (SandboxProvider sample_sandbox)
     \<lparr>p_refund := (\<lambda>req s. (Inr \<lparr>rs_Status = RefundFailed, rs_ProviderRef = [], rs_FailureReason = ''no''\<rparr>, s))\<rparr>"

theorem refused_refund_witness:
  "\<exists>r' w' row. refund_execute sample_env ''a'' 4 sample_settled refusing_provider sample_w2 = ((Some r', None), w') \<and>
     get_refund (rf_ID r') (w_db w') = Some row \<and> rf_Status row = RefundFailed"
proof -
  have ins: "InsertRefund (c_flt sample_env 2) (c_now sample_env 2) (c_fresh sample_env 0)
      (new_refund sample_settled ''a'' 4) (w_db sample_w2) =
     (Inr ((new_refund sample_settled ''a'' 4)\<lparr>rf_ID := 7, rf_CreatedAt := 12, rf_UpdatedAt := 12\<rparr>),
      sample_db_w2\<lparr>refunds_t := [refund_insert 7 12 (new_refund sample_settled ''a'' 4)]\<rparr>)"
    by (simp add: sample_delivery(2) sample_db_w2_def sample_db_w1_def sample_settled_def pay_eval)
  show ?thesis
    using refused_refund_announced_completed [OF ins, of refusing_provider "\<lparr>rs_Status = RefundFailed, rs_ProviderRef = [],
        rs_FailureReason = ''no''\<rparr>" "w_ext sample_w2" "\<lambda>_. True"]
    by (auto simp: refusing_provider_def)
qed

section \<open>Refunds through Daraja\<close>

lemma daraja_Refund_no_ref:
  assumes "rr_ProviderRef req = []"
  shows "\<exists>m. daraja_Refund d req s = (Inl (ProviderRejected m), s)"
  using assms by (auto simp: daraja_Refund_def Let_def providerRejected_def trim_space_def split: option.split)

lemma completed_insert:
  "get_refund rid (snd (InsertRefund flt now fresh r db)) = Some x \<Longrightarrow> rf_Status x = RefundCompleted \<Longrightarrow>
     get_refund rid db = Some x"
  using InsertRefund_state [of flt now fresh r db]
  by (auto simp: row_get_ins split: option.splits if_splits)

lemma completed_fail:
  "get_refund rid (snd (UpdateRefundStatus flt now k exp RefundFailed ref why db)) = Some x \<Longrightarrow>
     rf_Status x = RefundCompleted \<Longrightarrow> get_refund rid db = Some x"
  using UpdateRefundStatus_state [of flt now k exp RefundFailed ref why db]
  by (auto simp: row_get_upd split: if_splits)

text \<open>A rejected reversal never completes a refund.\<close>

lemma refund_execute_rejected:
  assumes "\<And>req s. rr_ProviderRef req = pi_ProviderRef i \<Longrightarrow> \<exists>m. p_refund p req s = (Inl (ProviderRejected m), s)"
  shows "snd (fst (refund_execute c reason actor i p w)) \<noteq> None \<and>
    (\<forall>rid x. get_refund rid (w_db (snd (refund_execute c reason actor i p w))) = Some x \<longrightarrow>
       rf_Status x = RefundCompleted \<longrightarrow> get_refund rid (w_db w) = Some x)"
proof -
  obtain y db1 where ins: "InsertRefund (c_flt c 2) (c_now c 2) (c_fresh c 0) (new_refund i reason actor) (w_db w) = (y, db1)"
    by fastforce
  have old: "get_refund rid db1 = Some x \<Longrightarrow> rf_Status x = RefundCompleted \<Longrightarrow> get_refund rid (w_db w) = Some x" for rid x
    using completed_insert [of rid "c_flt c 2" "c_now c 2" "c_fresh c 0" "new_refund i reason actor" "w_db w" x] ins by simp
  show ?thesis
  proof (cases y)
    case (Inl e)
    with ins old show ?thesis by (simp add: refund_execute_def)
  next
    case (Inr r)
    let ?req = "\<lparr>rr_RefundID = rf_ID r, rr_IntentID = pi_ID i, rr_ProviderRef = pi_ProviderRef i,
      rr_Amount = \<lparr>AmountMinor = pi_AmountMinor i, Currency = pi_Currency i\<rparr>, rr_Reason = reason\<rparr>"
    obtain m where m: "p_refund p ?req (w_ext w) = (Inl (ProviderRejected m), w_ext w)" using assms [of ?req] by auto
    obtain z db2 where upd: "UpdateRefundStatus (c_flt c 3) (c_now c 3) (rf_ID r) RefundRequested RefundFailed []
        (failureReasonFrom (ProviderRejected m)) db1 = (z, db2)" by fastforce
    have "get_refund rid (w_db w) = Some x" if "get_refund rid db2 = Some x" "rf_Status x = RefundCompleted" for rid x
    proof (rule old [OF _ that(2)])
      show "get_refund rid db1 = Some x"
        using completed_fail [of rid "c_flt c 3" "c_now c 3" "rf_ID r" RefundRequested "[]"
            "failureReasonFrom (ProviderRejected m)" db1 x] upd that by simp
    qed
    with Inr ins m upd show ?thesis
      by (cases z) (simp_all add: refund_execute_def Let_def case_prod_unfold)
  qed
qed

text \<open>
  Refunds through Daraja never complete. The provider reference that the reversal needs is read
  from the intent, and no operation ever writes it there: in every reachable ledger a refund of a
  Daraja intent ends in an error, and no refund becomes \<open>COMPLETED\<close> by it, for every caller, every
  configuration and every answer of the network (which is not even asked).
\<close>

theorem daraja_refunds_never_complete:
  assumes "pay_run e empty_pay_db (w_db w)" and "get_intent k (w_db w) = Some i" and "pi_Provider i = ''daraja''"
    and "sv_providers sv ''daraja'' = Some (DarajaProvider d)"
  shows "snd (fst (RefundPayment sv c k reason actor scope w)) \<noteq> None \<and>
    (\<forall>rid x. get_refund rid (w_db (snd (RefundPayment sv c k reason actor scope w))) = Some x \<longrightarrow>
       rf_Status x = RefundCompleted \<longrightarrow> get_refund rid (w_db w) = Some x)"
proof (cases "refund_checks sv c k reason scope (w_db w)")
  case (Inl err)
  then show ?thesis by (simp add: RefundPayment_def)
next
  case (Inr y)
  obtain j p where y: "y = (j, p)" by fastforce
  have pk: "pk_ok pi_ID (intents_t (w_db w))"
    using run_ok [OF assms(1) empty_ledger_ok] by (simp add: ledger_parts)
  obtain r where "get_intent k (w_db w) = Some r" "scanIntent (c_engine c) r = Some j"
    and p: "Provider sv (pi_Provider j) = Inr p" 
    by (rule refund_checks_Inr [OF Inr [unfolded y] pk]) (rule that; assumption)
  with assms(2) have j: "scanIntent (c_engine c) i = Some j" by simp
  have "pi_ProviderRef i = None" using run_unlinked [OF assms(1)] row_get_set [OF assms(2)] by (simp add: unlinked_def)
  then have ref: "pi_ProviderRef j = []"
    using j by (auto simp: scanIntent_def scan_text_def split: option.splits if_splits)
  have "pi_Provider j = ''daraja''" using scanIntent_fields [OF j] assms(3) by simp
  with p assms(4) have "p = DarajaProvider d" by (simp add: Provider_def)
  then have rej: "\<exists>m. p_refund p req s = (Inl (ProviderRejected m), s)" if "rr_ProviderRef req = pi_ProviderRef j" for req s
    using daraja_Refund_no_ref [of req d s] that ref by (simp add: DarajaProvider_def)
  have "RefundPayment sv c k reason actor scope w = refund_execute c reason actor j p w"
    by (simp only: RefundPayment_def Inr y sum.case prod.case)
  then show ?thesis using refund_execute_rejected [of j p c reason actor w] rej by presburger
qed

definition sample_daraja_paid :: "unit daraja_state pay_world" where
  "sample_daraja_paid =
     \<lparr>w_db = snd (UpdateIntentStatus Healthy 12 7 IntentProcessing IntentSucceeded None []
        (snd (UpdateIntentStatus Healthy 11 7 IntentCreated IntentProcessing None []
          (snd (CreateIntent Healthy 10 1 (sample_intent\<lparr>pi_Provider := ''daraja''\<rparr>) empty_pay_db))))),
      w_ext = \<lparr>ds_oauthToken = [], ds_tokenExpiry = 0, ds_net = ()\<rparr>, w_events = [], w_mets = []\<rparr>"

theorem daraja_refund_witness:
  "snd (fst (RefundPayment sample_daraja_service sample_env 7 ''x'' 4 UnrestrictedScope sample_daraja_paid)) \<noteq> None \<and>
   map_option (\<lambda>i. (pi_Provider i, pi_Status i)) (get_intent 7 (w_db sample_daraja_paid)) = Some (''daraja'', IntentSucceeded)"
proof -
  have facts: "map_option (\<lambda>i. (pi_Provider i, pi_Status i)) (get_intent 7 (w_db sample_daraja_paid)) =
      Some (''daraja'', IntentSucceeded)"
    by (simp add: sample_daraja_paid_def sample_intent_def pay_eval)
  have "pay_run lenient empty_pay_db (w_db sample_daraja_paid)"
    unfolding sample_daraja_paid_def pay_world.simps
    by (intro pay_run_step [OF pay_run_step [OF pay_run_step [OF pay_run_refl s_create] s_intent] s_intent])
      (simp add: sample_intent_def)
  moreover obtain i where "get_intent 7 (w_db sample_daraja_paid) = Some i" "pi_Provider i = ''daraja''"
    using facts by auto
  moreover have "sv_providers sample_daraja_service ''daraja'' = Some (DarajaProvider sample_daraja_failed)"
    by (simp add: sample_daraja_service_def)
  ultimately have "snd (fst (RefundPayment sample_daraja_service sample_env 7 ''x'' 4 UnrestrictedScope sample_daraja_paid)) \<noteq> None"
    using daraja_refunds_never_complete by blast
  with facts show ?thesis by simp
qed

end
