(* ===== verification/Pay_Http.thy ===== *)
theory Pay_Http
  imports Pay_Delivery Pay_Convergence Pay_Refunds Http_Input
begin

text \<open>
  The HTTP interface of payments, \<open>backend/payments/http.go\<close>: nine routes behind the gates, the
  webhook receiver among them, which has no principal. A call brings a \<open>pay_http\<close>: the service, the
  environment of its store calls, the reconciler if there is one, the clock of the webhook handler,
  and what is not part of the repository: \<open>uuid.Parse\<close> and the texts of errors.
\<close>

section \<open>Bodies\<close>

record initiateRequest =
  iq_AmountMinor :: int64
  iq_Currency :: string
  iq_Provider :: string
  iq_CustomerID :: "uuid option"
  iq_JobID :: "uuid option"
  iq_VehicleID :: "uuid option"
  iq_Description :: string
  iq_PayerPhone :: string

record refundRequest =
  fq_Reason :: string

record intentResponse =
  xi_ID :: uuid
  xi_TenantID :: "uuid option"
  xi_CustomerID :: "uuid option"
  xi_CreatedBy :: uuid
  xi_AmountMinor :: int64
  xi_Currency :: string
  xi_Status :: string
  xi_Provider :: string
  xi_ProviderRef :: string
  xi_JobID :: "uuid option"
  xi_VehicleID :: "uuid option"
  xi_Description :: string
  xi_FailureReason :: string
  xi_SucceededAt :: "gotime option"
  xi_FailedAt :: "gotime option"
  xi_CanceledAt :: "gotime option"
  xi_CreatedAt :: gotime
  xi_UpdatedAt :: gotime

record transactionResponse =
  xt_ID :: uuid
  xt_IntentID :: uuid
  xt_Provider :: string
  xt_ProviderRef :: string
  xt_ProviderReceipt :: string
  xt_Status :: string
  xt_AmountMinor :: int64
  xt_Currency :: string
  xt_FailureReason :: string
  xt_OccurredAt :: "gotime option"
  xt_CreatedAt :: gotime
  xt_UpdatedAt :: gotime

record refundResponse =
  xr_ID :: uuid
  xr_IntentID :: uuid
  xr_AmountMinor :: int64
  xr_Currency :: string
  xr_Status :: string
  xr_Provider :: string
  xr_ProviderRef :: string
  xr_Reason :: string
  xr_FailureReason :: string
  xr_RequestedBy :: "uuid option"
  xr_CreatedAt :: gotime
  xr_UpdatedAt :: gotime

definition newIntentResponse :: "intent \<Rightarrow> intentResponse" where
  "newIntentResponse i =
     \<lparr>xi_ID = pi_ID i, xi_TenantID = pi_TenantID i, xi_CustomerID = pi_CustomerID i, xi_CreatedBy = pi_CreatedBy i,
      xi_AmountMinor = pi_AmountMinor i, xi_Currency = pi_Currency i, xi_Status = intent_name (pi_Status i),
      xi_Provider = pi_Provider i, xi_ProviderRef = pi_ProviderRef i, xi_JobID = pi_JobID i,
      xi_VehicleID = pi_VehicleID i, xi_Description = pi_Description i, xi_FailureReason = pi_FailureReason i,
      xi_SucceededAt = pi_SucceededAt i, xi_FailedAt = pi_FailedAt i, xi_CanceledAt = pi_CanceledAt i,
      xi_CreatedAt = pi_CreatedAt i, xi_UpdatedAt = pi_UpdatedAt i\<rparr>"

definition newTransactionResponse :: "txn \<Rightarrow> transactionResponse" where
  "newTransactionResponse t =
     \<lparr>xt_ID = tx_ID t, xt_IntentID = tx_IntentID t, xt_Provider = tx_Provider t, xt_ProviderRef = tx_ProviderRef t,
      xt_ProviderReceipt = tx_ProviderReceipt t, xt_Status = tx_name (tx_Status t),
      xt_AmountMinor = tx_AmountMinor t, xt_Currency = tx_Currency t, xt_FailureReason = tx_FailureReason t,
      xt_OccurredAt = tx_OccurredAt t, xt_CreatedAt = tx_CreatedAt t, xt_UpdatedAt = tx_UpdatedAt t\<rparr>"

definition newRefundResponse :: "refund \<Rightarrow> refundResponse" where
  "newRefundResponse r =
     \<lparr>xr_ID = rf_ID r, xr_IntentID = rf_IntentID r, xr_AmountMinor = rf_AmountMinor r, xr_Currency = rf_Currency r,
      xr_Status = refund_name (rf_Status r), xr_Provider = rf_Provider r, xr_ProviderRef = rf_ProviderRef r,
      xr_Reason = rf_Reason r, xr_FailureReason = rf_FailureReason r, xr_RequestedBy = rf_RequestedBy r,
      xr_CreatedAt = rf_CreatedAt r, xr_UpdatedAt = rf_UpdatedAt r\<rparr>"

section \<open>Principals and input\<close>

record 'w pay_http =
  ph_parse :: "string \<Rightarrow> uuid option"
  ph_text :: "pay_error \<Rightarrow> string"
  ph_body_text :: string
  ph_service :: "'w service"
  ph_env :: call_env
  ph_reconciler :: "Reconciler option"
  ph_now :: gotime

text \<open>The detail of the error of \<open>ScopeFromClaims\<close>.\<close>

definition claims_error :: "Claims \<Rightarrow> Error" where
  "claims_error cl = ErrUnauthorized
     (if cl_TenantID cl \<noteq> [] then ''authenticated tenant claim is not a tenant identifier''
      else ''authenticated subject is not a user identifier'')"

definition scopeFromRequest :: "'w pay_http \<Rightarrow> Claims option \<Rightarrow> Error + Scope" where
  "scopeFromRequest c cl =
     (case cl of
        None \<Rightarrow> Inl (ErrUnauthorized ''authentication required'')
      | Some claims \<Rightarrow>
          (case ScopeFromClaims (ph_parse c) claims of
             Inl _ \<Rightarrow> Inl (claims_error claims)
           | Inr s \<Rightarrow> Inr s))"

definition actorAndScope :: "'w pay_http \<Rightarrow> Claims option \<Rightarrow> Error + uuid \<times> Scope" where
  "actorAndScope c cl =
     (case cl of
        None \<Rightarrow> Inl (ErrUnauthorized ''authentication required'')
      | Some claims \<Rightarrow>
          (case ph_parse c (cl_UserID claims) of
             None \<Rightarrow> Inl (ErrUnauthorized ''authenticated subject is not a user identifier'')
           | Some actor \<Rightarrow>
               (case ScopeFromClaims (ph_parse c) claims of
                  Inl _ \<Rightarrow> Inl (claims_error claims)
                | Inr s \<Rightarrow> Inr (actor, s))))"

definition parseQueryUUID :: "(string \<Rightarrow> uuid option) \<Rightarrow> string \<Rightarrow> string \<Rightarrow> Error + uuid" where
  "parseQueryUUID parse name raw =
     (case parse raw of
        None \<Rightarrow> Inl (ErrValidation (name @ '' is not a valid identifier'') [\<lparr>fe_Field = name, fe_Issue = ''must be a uuid''\<rparr>])
      | Some k \<Rightarrow> Inr k)"

text \<open>\<open>uuidFromRequest\<close> of payments does not trim.\<close>

definition pay_path_uuid :: "(string \<Rightarrow> uuid option) \<Rightarrow> string \<Rightarrow> string \<Rightarrow> Error + uuid" where
  "pay_path_uuid parse name raw =
     (if raw = [] then Inl (ErrValidation ''resource id is required'' [\<lparr>fe_Field = name, fe_Issue = ''is required''\<rparr>])
      else case parse raw of
        None \<Rightarrow> Inl (ErrValidation ''resource id is not a valid identifier'' [\<lparr>fe_Field = name, fe_Issue = ''must be a uuid''\<rparr>])
      | Some k \<Rightarrow> Inr k)"

datatype 'a optional_body = TooLarge | Blank | Malformed string | Present 'a

fun decodeOptionalJSON :: "'a \<Rightarrow> 'a optional_body \<Rightarrow> Error + 'a" where
  "decodeOptionalJSON zero TooLarge = Inl (ErrValidation ''request body exceeds the size limit or could not be read'' [])"
| "decodeOptionalJSON zero Blank = Inr zero"
| "decodeOptionalJSON zero (Malformed msg) = Inl (ErrValidation (''request body is not valid JSON: '' @ msg) [])"
| "decodeOptionalJSON zero (Present v) = Inr v"

text \<open>A query parameter that may be absent: trimmed, and parsed when it is not empty.\<close>

definition optional_query :: "(string \<Rightarrow> Error + 'a) \<Rightarrow> string \<Rightarrow> Error + 'a option" where
  "optional_query f value =
     (let raw = trim_space value in
      if raw = [] then Inr None
      else case f raw of Inl e \<Rightarrow> Inl e | Inr v \<Rightarrow> Inr (Some v))"

definition status_query :: "string \<Rightarrow> Error + IntentStatus" where
  "status_query raw =
     (case find (\<lambda>s. intent_name s = raw) AllIntentStatuses of
        Some s \<Rightarrow> Inr s
      | None \<Rightarrow> Inl (ErrValidation ''status is not a known payment intent status''
          [\<lparr>fe_Field = ''status'', fe_Issue = ''must be one of the documented intent statuses''\<rparr>]))"

record intent_query =
  nq_status :: string
  nq_customer :: string
  nq_job :: string
  nq_vehicle :: string
  nq_page :: page_query

definition intent_filter_of :: "(string \<Rightarrow> uuid option) \<Rightarrow> intent_query \<Rightarrow> Error + IntentFilter" where
  "intent_filter_of parse q =
     (case optional_query status_query (nq_status q) of
        Inl e \<Rightarrow> Inl e
      | Inr st \<Rightarrow>
          (case optional_query (parseQueryUUID parse ''customer_id'') (nq_customer q) of
             Inl e \<Rightarrow> Inl e
           | Inr cu \<Rightarrow>
               (case optional_query (parseQueryUUID parse ''job_id'') (nq_job q) of
                  Inl e \<Rightarrow> Inl e
                | Inr jo \<Rightarrow>
                    (case optional_query (parseQueryUUID parse ''vehicle_id'') (nq_vehicle q) of
                       Inl e \<Rightarrow> Inl e
                     | Inr ve \<Rightarrow> Inr \<lparr>if_Status = st, if_CustomerID = cu, if_JobID = jo, if_VehicleID = ve\<rparr>))))"

section \<open>Errors\<close>

definition ErrUnavailable :: Error where
  "ErrUnavailable = \<lparr>er_Status = 503, er_Code = ''provider_unavailable'',
     er_Title = ''Payment provider unavailable'', er_Detail = [], er_FieldErrors = []\<rparr>"

fun pay_domain_error :: "(pay_error \<Rightarrow> string) \<Rightarrow> pay_error \<Rightarrow> any_error" where
  "pay_domain_error text_of ErrWebhookUnauthorized = AppError (ErrUnauthorized (text_of ErrWebhookUnauthorized))"
| "pay_domain_error text_of ErrWebhookRejected = AppError (ErrValidation (text_of ErrWebhookRejected) [])"
| "pay_domain_error text_of ErrPayConflict = AppError (ErrConflict (text_of ErrPayConflict))"
| "pay_domain_error text_of ErrNotRefundable = AppError (ErrConflict (text_of ErrNotRefundable))"
| "pay_domain_error text_of ErrAlreadyRefunded = AppError (ErrConflict (text_of ErrAlreadyRefunded))"
| "pay_domain_error text_of ErrInvalidInput = AppError (ErrValidation (text_of ErrInvalidInput) [])"
| "pay_domain_error text_of ErrProviderRejected = AppError (ErrValidation ''payment request rejected by the provider'' [])"
| "pay_domain_error text_of ErrProviderUnavailable = AppError ErrUnavailable"
| "pay_domain_error text_of ErrIntentNotFound = AppError (ErrNotFound ''payment intent not found'')"
| "pay_domain_error text_of ErrTransactionNotFound = AppError (ErrNotFound ''transaction not found'')"
| "pay_domain_error text_of ErrRefundNotFound = AppError (ErrNotFound ''refund not found'')"
| "pay_domain_error text_of _ = OtherError"

definition pay_problem :: "'w pay_http \<Rightarrow> pay_error \<Rightarrow> 'b response" where
  "pay_problem c e = WriteError (pay_domain_error (ph_text c) e)"

section \<open>Handlers\<close>

definition DefaultIntentsLimit :: int where "DefaultIntentsLimit = 50"
definition MaxIntentsLimit :: int where "MaxIntentsLimit = 200"

definition initiate_input :: "uuid \<Rightarrow> Scope \<Rightarrow> initiateRequest \<Rightarrow> InitiateInput" where
  "initiate_input actor scope req =
     \<lparr>in_TenantID = sc_TenantID scope, in_CreatedBy = actor, in_CustomerID = iq_CustomerID req,
      in_AmountMinor = iq_AmountMinor req, in_Currency = iq_Currency req, in_Provider = iq_Provider req,
      in_JobID = iq_JobID req, in_VehicleID = iq_VehicleID req, in_Description = iq_Description req,
      in_PayerPhone = iq_PayerPhone req\<rparr>"

text \<open>The intent of an answer without error is always there; \<open>None\<close> would be the zero struct.\<close>

definition handleInitiate ::
  "'w pay_http \<Rightarrow> (initiateRequest body, 'w pay_world, intentResponse option \<times> transactionResponse option) handler" where
  "handleInitiate c cl q w =
     (case actorAndScope c cl of
        Inl e \<Rightarrow> (WriteError (AppError e), w)
      | Inr (actor, scope) \<Rightarrow>
          (case DecodeJSON q of
             Inl e \<Rightarrow> (WriteError (AppError e), w)
           | Inr req \<Rightarrow>
               (case InitiatePayment (ph_service c) (ph_env c) (initiate_input actor scope req) w of
                  ((ip, Some e), w') \<Rightarrow> (pay_problem c e, w')
                | ((ip, None), w') \<Rightarrow>
                    (Reply 201 (map_option newIntentResponse (ip_Intent ip),
                       map_option newTransactionResponse (ip_Transaction ip)), w'))))"

definition handleListIntents :: "'w pay_http \<Rightarrow> (intent_query, 'w pay_world, intentResponse list) handler" where
  "handleListIntents c cl q w =
     (case scopeFromRequest c cl of
        Inl e \<Rightarrow> (WriteError (AppError e), w)
      | Inr scope \<Rightarrow>
          (case intent_filter_of (ph_parse c) q of
             Inl e \<Rightarrow> (WriteError (AppError e), w)
           | Inr f \<Rightarrow>
               (case paginate DefaultIntentsLimit MaxIntentsLimit (nq_page q) of
                  Inl e \<Rightarrow> (WriteError (AppError e), w)
                | Inr (limit, offset) \<Rightarrow>
                    (case Intents (ph_env c) scope f limit offset (w_db w) of
                       Inl e \<Rightarrow> (pay_problem c e, w)
                     | Inr xs \<Rightarrow> (Reply 200 (map newIntentResponse xs), w)))))"

text \<open>The common course of the four reads by identifier.\<close>

definition read_by_id ::
  "'w pay_http \<Rightarrow> string \<Rightarrow> (uuid \<Rightarrow> Scope \<Rightarrow> pay_db \<Rightarrow> pay_error + 'a) \<Rightarrow> ('a \<Rightarrow> 'b)
     \<Rightarrow> (string, 'w pay_world, 'b) handler" where
  "read_by_id c name get render cl p w =
     (case scopeFromRequest c cl of
        Inl e \<Rightarrow> (WriteError (AppError e), w)
      | Inr scope \<Rightarrow>
          (case pay_path_uuid (ph_parse c) name p of
             Inl e \<Rightarrow> (WriteError (AppError e), w)
           | Inr k \<Rightarrow>
               (case get k scope (w_db w) of
                  Inl e \<Rightarrow> (pay_problem c e, w)
                | Inr v \<Rightarrow> (Reply 200 (render v), w))))"

definition handleGetIntent :: "'w pay_http \<Rightarrow> (string, 'w pay_world, intentResponse) handler" where
  "handleGetIntent c = read_by_id c ''intentID''
     (GetIntent (c_engine (ph_env c)) (c_flt (ph_env c) 0)) newIntentResponse"

definition pay_handleListTransactions :: "'w pay_http \<Rightarrow> (string, 'w pay_world, transactionResponse list) handler" where
  "pay_handleListTransactions c = read_by_id c ''intentID'' (Transactions (ph_env c)) (map newTransactionResponse)"

definition handleGetTransaction :: "'w pay_http \<Rightarrow> (string, 'w pay_world, transactionResponse) handler" where
  "handleGetTransaction c = read_by_id c ''transactionID''
     (GetTransaction (c_engine (ph_env c)) (c_flt (ph_env c) 0)) newTransactionResponse"

definition handleGetRefund :: "'w pay_http \<Rightarrow> (string, 'w pay_world, refundResponse) handler" where
  "handleGetRefund c = read_by_id c ''refundID''
     (GetRefund (c_engine (ph_env c)) (c_flt (ph_env c) 0)) newRefundResponse"

definition handleRefund ::
  "'w pay_http \<Rightarrow> (string \<times> refundRequest optional_body, 'w pay_world, refundResponse option) handler" where
  "handleRefund c cl q w =
     (case actorAndScope c cl of
        Inl e \<Rightarrow> (WriteError (AppError e), w)
      | Inr (actor, scope) \<Rightarrow>
          (case pay_path_uuid (ph_parse c) ''intentID'' (fst q) of
             Inl e \<Rightarrow> (WriteError (AppError e), w)
           | Inr k \<Rightarrow>
               (case decodeOptionalJSON \<lparr>fq_Reason = []\<rparr> (snd q) of
                  Inl e \<Rightarrow> (WriteError (AppError e), w)
                | Inr req \<Rightarrow>
                    (case RefundPayment (ph_service c) (ph_env c) k (fq_Reason req) actor scope w of
                       ((r, Some e), w') \<Rightarrow> (pay_problem c e, w')
                     | ((r, None), w') \<Rightarrow> (Reply 201 (map_option newRefundResponse r), w')))))"

record webhook_call =
  hc_provider :: string
  hc_header :: "string \<Rightarrow> string"
  hc_body :: request_body

definition handleWebhook :: "'w pay_http \<Rightarrow> (webhook_call, 'w pay_world, WebhookResult) handler" where
  "handleWebhook c cl q w =
     (case Provider (ph_service c) (hc_provider q) of
        Inl _ \<Rightarrow> (WriteError (AppError (ErrNotFound ''payment provider not configured'')), w)
      | Inr _ \<Rightarrow>
          (case readWebhookBody (hc_body q) of
             None \<Rightarrow> (WriteError (AppError (ErrValidation (ph_body_text c) [])), w)
           | Some body \<Rightarrow>
               (case HandleWebhook (ph_service c) (ph_env c) (hc_provider q) (hc_header q) body (ph_now c) w of
                  (Inl e, w') \<Rightarrow> (pay_problem c e, w')
                | (Inr r, w') \<Rightarrow> (Reply 200 r, w'))))"

definition handleReconcile :: "'w pay_http \<Rightarrow> (unit, 'w pay_world, ReconcileResult) handler" where
  "handleReconcile c cl q w =
     (case ph_reconciler c of
        None \<Rightarrow> (WriteError (AppError (ErrNotFound ''reconciliation is not configured'')), w)
      | Some rec \<Rightarrow>
          (case Run (ph_service c) rec (ph_env c) w of
             (Inl e, w') \<Rightarrow> (pay_problem c e, w')
           | (Inr r, w') \<Rightarrow> (Reply 200 r, w')))"

section \<open>Routes\<close>

datatype pay_request =
    PostIntent "initiateRequest body"
  | GetIntents intent_query
  | GetOneIntent string
  | GetIntentTransactions string
  | GetOneTransaction string
  | PostRefund string "refundRequest optional_body"
  | GetOneRefund string
  | PostWebhook webhook_call
  | PostReconcile

datatype pay_reply =
    Initiated "intentResponse option" "transactionResponse option"
  | IntentList "intentResponse list"
  | IntentBody intentResponse
  | TransactionList "transactionResponse list"
  | TransactionBody transactionResponse
  | RefundBody refundResponse
  | RefundStored "refundResponse option"
  | WebhookBody WebhookResult
  | ReconcileBody ReconcileResult

definition requireMoneyMover :: "('q, 'w, 'b) handler \<Rightarrow> ('q, 'w, 'b) handler" where
  "requireMoneyMover h = RequireAuthenticated (RequireRole PaymentRoles h)"

definition requireOperator :: "('q, 'w, 'b) handler \<Rightarrow> ('q, 'w, 'b) handler" where
  "requireOperator h = RequireAuthenticated (RequireRole PayOperatorRoles h)"

definition pay_Routes :: "'w pay_http \<Rightarrow> (pay_request, 'w pay_world, pay_reply) handler" where
  "pay_Routes c cl rq w =
     (case rq of
        PostIntent b \<Rightarrow> apfst (map_response (\<lambda>(i, t). Initiated i t)) (requireMoneyMover (handleInitiate c) cl b w)
      | GetIntents q \<Rightarrow> apfst (map_response IntentList) (RequireAuthenticated (handleListIntents c) cl q w)
      | GetOneIntent p \<Rightarrow> apfst (map_response IntentBody) (RequireAuthenticated (handleGetIntent c) cl p w)
      | GetIntentTransactions p \<Rightarrow>
          apfst (map_response TransactionList) (RequireAuthenticated (pay_handleListTransactions c) cl p w)
      | GetOneTransaction p \<Rightarrow>
          apfst (map_response TransactionBody) (RequireAuthenticated (handleGetTransaction c) cl p w)
      | PostRefund p b \<Rightarrow> apfst (map_response RefundStored) (requireMoneyMover (handleRefund c) cl (p, b) w)
      | GetOneRefund p \<Rightarrow> apfst (map_response RefundBody) (RequireAuthenticated (handleGetRefund c) cl p w)
      | PostWebhook q \<Rightarrow> apfst (map_response WebhookBody) (handleWebhook c cl q w)
      | PostReconcile \<Rightarrow> apfst (map_response ReconcileBody) (requireOperator (handleReconcile c) cl () w))"

end
