(* ===== verification/Pay_Api.thy ===== *)
theory Pay_Api
  imports Pay_Http
begin

text \<open>
  What the HTTP interface of payments promises: who can change the ledger, that requests reach it
  only through the operations of the service, and what a principal of a tenant can learn.
\<close>

section \<open>Changes\<close>

lemma requireMoneyMover_changes:
  "requireMoneyMover h cl q w = (r, w') \<Longrightarrow> w' \<noteq> w \<Longrightarrow>
    \<exists>claims. cl = Some claims \<and> cl_Role claims \<in> set PaymentRoles \<and> h (Some claims) q w = (r, w')"
  unfolding requireMoneyMover_def by (blast dest: RequireAuthenticated_cases' RequireRole_cases')

lemma requireOperator_changes:
  "requireOperator h cl q w = (r, w') \<Longrightarrow> w' \<noteq> w \<Longrightarrow>
    \<exists>claims. cl = Some claims \<and> cl_Role claims \<in> set PayOperatorRoles \<and> h (Some claims) q w = (r, w')"
  unfolding requireOperator_def by (blast dest: RequireAuthenticated_cases' RequireRole_cases')

text \<open>The writes of the interface: the service operation a route calls, and for whom.\<close>

inductive pay_write :: "'w pay_http \<Rightarrow> Claims option \<Rightarrow> 'w pay_world \<Rightarrow> pay_request \<Rightarrow> 'w pay_world \<Rightarrow> bool"
  for c :: "'w pay_http" and cl :: "Claims option" and w :: "'w pay_world" where
  write_initiate: "cl = Some claims \<Longrightarrow> cl_Role claims \<in> set PaymentRoles \<Longrightarrow>
    actorAndScope c cl = Inr (actor, scope) \<Longrightarrow>
    InitiatePayment (ph_service c) (ph_env c) (initiate_input actor scope req) w = (ip, w') \<Longrightarrow>
    pay_write c cl w (PostIntent b) w'"
| write_refund: "cl = Some claims \<Longrightarrow> cl_Role claims \<in> set PaymentRoles \<Longrightarrow>
    actorAndScope c cl = Inr (actor, scope) \<Longrightarrow>
    RefundPayment (ph_service c) (ph_env c) k reason actor scope w = (rr, w') \<Longrightarrow>
    pay_write c cl w (PostRefund p b') w'"
| write_webhook: "readWebhookBody (hc_body q) = Some body \<Longrightarrow>
    HandleWebhook (ph_service c) (ph_env c) (hc_provider q) (hc_header q) body (ph_now c) w = (hr, w') \<Longrightarrow>
    pay_write c cl w (PostWebhook q) w'"
| write_reconcile: "cl = Some claims \<Longrightarrow> cl_Role claims \<in> set PayOperatorRoles \<Longrightarrow>
    ph_reconciler c = Some rec \<Longrightarrow> Run (ph_service c) rec (ph_env c) w = (res, w') \<Longrightarrow>
    pay_write c cl w PostReconcile w'"

inductive_cases pay_writeE: "pay_write c cl w rq w'"

lemma pay_write_call: "pay_write c cl w rq w' \<Longrightarrow> pay_call (ph_service c) (c_engine (ph_env c)) w w'"
  by (induction rule: pay_write.induct) (metis pay_call.intros snd_conv)+

lemma handleInitiate_effect:
  assumes "handleInitiate c (Some claims) b w = (r, w')" and "w' \<noteq> w" and "cl_Role claims \<in> set PaymentRoles"
  shows "pay_write c (Some claims) w (PostIntent b) w'"
  using assms
  by (auto simp: handleInitiate_def split: sum.splits prod.splits option.splits intro: write_initiate)

lemma handleRefund_effect:
  assumes "handleRefund c (Some claims) (p, b) w = (r, w')" and "w' \<noteq> w" and "cl_Role claims \<in> set PaymentRoles"
  shows "pay_write c (Some claims) w (PostRefund p b) w'"
  using assms
  by (auto simp: handleRefund_def split: sum.splits prod.splits option.splits intro: write_refund)

lemma handleWebhook_effect:
  assumes "handleWebhook c cl q w = (r, w')" and "w' \<noteq> w"
  shows "pay_write c cl w (PostWebhook q) w'"
  using assms
  by (auto simp: handleWebhook_def split: sum.splits prod.splits option.splits intro: write_webhook)

lemma handleReconcile_effect:
  assumes "handleReconcile c (Some claims) q w = (r, w')" and "w' \<noteq> w" and "cl_Role claims \<in> set PayOperatorRoles"
  shows "pay_write c (Some claims) w PostReconcile w'"
  using assms
  by (auto simp: handleReconcile_def split: sum.splits prod.splits option.splits intro: write_reconcile)

lemma read_by_id_keeps: "read_by_id c name get render cl p w = (r, w') \<Longrightarrow> w' = w"
  by (auto simp: read_by_id_def split: sum.splits)

lemma handleListIntents_keeps: "handleListIntents c cl q w = (r, w') \<Longrightarrow> w' = w"
  by (auto simp: handleListIntents_def split: sum.splits prod.splits)

lemmas pay_reads = handleGetIntent_def pay_handleListTransactions_def handleGetTransaction_def handleGetRefund_def

lemma pay_Routes_effect:
  assumes "pay_Routes c cl rq w = (r, w')" and "w' \<noteq> w"
  shows "pay_write c cl w rq w'"
proof (cases rq)
  case (PostIntent b)
  then show ?thesis using assms handleInitiate_effect
    by (auto simp: pay_Routes_def apfst_pair dest!: requireMoneyMover_changes)
next
  case (PostRefund p b)
  then show ?thesis using assms handleRefund_effect
    by (auto simp: pay_Routes_def apfst_pair dest!: requireMoneyMover_changes)
next
  case (PostWebhook q)
  then show ?thesis using assms handleWebhook_effect
    by (auto simp: pay_Routes_def apfst_pair)
next
  case PostReconcile
  then show ?thesis using assms handleReconcile_effect
    by (auto simp: pay_Routes_def apfst_pair dest!: requireOperator_changes)
qed (use assms in \<open>auto simp: pay_Routes_def apfst_pair pay_reads dest!: RequireAuthenticated_cases'
      dest: read_by_id_keeps handleListIntents_keeps\<close>)

inductive pay_api_step :: "'w service \<Rightarrow> engine \<Rightarrow> 'w pay_world \<Rightarrow> 'w pay_world \<Rightarrow> bool" for sv e where
  "ph_service c = sv \<Longrightarrow> c_engine (ph_env c) = e \<Longrightarrow> pay_api_step sv e w (snd (pay_Routes c cl rq w))"

lemma pay_api_step_call:
  assumes "pay_api_step sv e w w'"
  shows "(pay_call sv e)\<^sup>*\<^sup>* w w'"
proof -
  obtain c cl rq where "pay_Routes c cl rq w = (fst (pay_Routes c cl rq w), w')"
    and "ph_service c = sv" "c_engine (ph_env c) = e"
    using assms by cases (metis prod.collapse)
  with pay_Routes_effect [OF this(1)] show ?thesis by (cases "w' = w") (auto dest!: pay_write_call)
qed

lemma pay_api_steps_calls: "(pay_api_step sv e)\<^sup>*\<^sup>* w w' \<Longrightarrow> (pay_call sv e)\<^sup>*\<^sup>* w w'"
  by (induction rule: rtranclp_induct) (auto dest: pay_api_step_call intro: rtranclp_trans)

section \<open>Reads\<close>

definition owned :: "uuid \<Rightarrow> pay_db \<Rightarrow> uuid \<Rightarrow> bool" where
  "owned t db k \<longleftrightarrow> list_ex (\<lambda>i. pi_ID i = k) (filter (\<lambda>i. pi_TenantID i = Some t) (intents_t db))"

definition same_tenant_ledger :: "uuid \<Rightarrow> pay_db \<Rightarrow> pay_db \<Rightarrow> bool" where
  "same_tenant_ledger t a b \<longleftrightarrow>
     filter (\<lambda>i. pi_TenantID i = Some t) (intents_t a) = filter (\<lambda>i. pi_TenantID i = Some t) (intents_t b) \<and>
     filter (\<lambda>x. owned t a (tx_IntentID x)) (txns_t a) = filter (\<lambda>x. owned t b (tx_IntentID x)) (txns_t b) \<and>
     filter (\<lambda>x. owned t a (rf_IntentID x)) (refunds_t a) = filter (\<lambda>x. owned t b (rf_IntentID x)) (refunds_t b)"

definition tenant_scope :: "uuid \<Rightarrow> Scope" where
  "tenant_scope t = \<lparr>sc_TenantID = Some t, sc_PrincipalID = None, sc_explicitUnrestricted = False\<rparr>"

lemma tenant_predicate: "scopePredicate (tenant_scope t) n = (SqlEq TenantCol n, [t])"
  by (simp add: scopePredicate_def tenant_scope_def Unrestricted_def)

lemma tenant_row: "sql_eval (intent_col i) [x, t] (SqlEq TenantCol 2) \<longleftrightarrow> pi_TenantID i = Some t"
  by (simp add: sql_arg_def col_eq_def split: option.splits)

lemma tenant_row_1: "sql_eval (intent_col i) [t] (SqlEq TenantCol 1) \<longleftrightarrow> pi_TenantID i = Some t"
  by (simp add: sql_arg_def col_eq_def split: option.splits)

lemma tenant_exists: "intent_exists (SqlEq TenantCol 2) [x, t] k db \<longleftrightarrow> owned t db k"
  by (auto simp: intent_exists_def owned_def list_ex_iff tenant_row simp del: sql_eval.simps)

lemma owned_same: "same_tenant_ledger t a b \<Longrightarrow> owned t a = owned t b"
  by (simp add: fun_eq_iff owned_def same_tenant_ledger_def)

lemma GetIntent_confined:
  assumes "same_tenant_ledger t a b"
  shows "GetIntent e f k (tenant_scope t) a = GetIntent e f k (tenant_scope t) b"
proof -
  have f: "find (\<lambda>i. pi_ID i = k \<and> sql_eval (intent_col i) [k, t] (SqlEq TenantCol 2)) xs
      = find (\<lambda>i. pi_ID i = k) (filter (\<lambda>i. pi_TenantID i = Some t) xs)" for xs
    unfolding tenant_row by (induction xs) auto
  have eq: "find (\<lambda>i. pi_ID i = k \<and> sql_eval (intent_col i) [k, t] (SqlEq TenantCol 2)) (intents_t a) = find (\<lambda>i. pi_ID i = k \<and> sql_eval (intent_col i) [k, t] (SqlEq TenantCol 2)) (intents_t b)"
    using assms by (simp only: same_tenant_ledger_def f)
  show ?thesis
    unfolding GetIntent_def intentScopePredicate_def tenant_predicate prod.case Let_def eq ..
qed

lemma ListIntents_confined:
  assumes "same_tenant_ledger t a b"
  shows "ListIntents e f (tenant_scope t) q limit offset a = ListIntents e f (tenant_scope t) q limit offset b"
proof -
  have f: "filter (\<lambda>i. sql_eval (intent_col i) [t] (SqlEq TenantCol 1) \<and> filter_matches q i) xs
      = filter (filter_matches q) (filter (\<lambda>i. pi_TenantID i = Some t) xs)" for xs
    unfolding tenant_row_1 by (simp add: conj_commute)
  have eq: "filter (\<lambda>i. sql_eval (intent_col i) [t] (SqlEq TenantCol 1) \<and> filter_matches q i) (intents_t a) = filter (\<lambda>i. sql_eval (intent_col i) [t] (SqlEq TenantCol 1) \<and> filter_matches q i) (intents_t b)"
    using assms by (simp only: same_tenant_ledger_def f)
  show ?thesis
    unfolding ListIntents_def intentScopePredicate_def tenant_predicate prod.case Let_def eq ..
qed

lemma GetTransaction_confined:
  assumes "same_tenant_ledger t a b"
  shows "GetTransaction e f k (tenant_scope t) a = GetTransaction e f k (tenant_scope t) b"
proof -
  have f: "find (\<lambda>x. tx_ID x = k \<and> intent_exists (SqlEq TenantCol 2) [k, t] (tx_IntentID x) db) xs
      = find (\<lambda>x. tx_ID x = k) (filter (\<lambda>x. owned t db (tx_IntentID x)) xs)" for db xs
    unfolding tenant_exists by (induction xs) auto
  have eq: "find (\<lambda>x. tx_ID x = k \<and> intent_exists (SqlEq TenantCol 2) [k, t] (tx_IntentID x) a) (txns_t a) = find (\<lambda>x. tx_ID x = k \<and> intent_exists (SqlEq TenantCol 2) [k, t] (tx_IntentID x) b) (txns_t b)"
    using assms by (simp only: same_tenant_ledger_def f)
  show ?thesis
    unfolding GetTransaction_def tenant_predicate prod.case Let_def eq ..
qed

lemma ListTransactions_confined:
  assumes "same_tenant_ledger t a b"
  shows "ListTransactions e f k (tenant_scope t) a = ListTransactions e f k (tenant_scope t) b"
proof -
  have f: "filter (\<lambda>x. tx_IntentID x = k \<and> intent_exists (SqlEq TenantCol 2) [k, t] (tx_IntentID x) db) xs
      = filter (\<lambda>x. tx_IntentID x = k) (filter (\<lambda>x. owned t db (tx_IntentID x)) xs)" for db xs
    unfolding tenant_exists by (simp add: conj_commute)
  have eq: "filter (\<lambda>x. tx_IntentID x = k \<and> intent_exists (SqlEq TenantCol 2) [k, t] (tx_IntentID x) a) (txns_t a) = filter (\<lambda>x. tx_IntentID x = k \<and> intent_exists (SqlEq TenantCol 2) [k, t] (tx_IntentID x) b) (txns_t b)"
    using assms by (simp only: same_tenant_ledger_def f)
  show ?thesis
    unfolding ListTransactions_def tenant_predicate prod.case Let_def eq ..
qed

lemma GetRefund_confined:
  assumes "same_tenant_ledger t a b"
  shows "GetRefund e f k (tenant_scope t) a = GetRefund e f k (tenant_scope t) b"
proof -
  have f: "find (\<lambda>x. rf_ID x = k \<and> intent_exists (SqlEq TenantCol 2) [k, t] (rf_IntentID x) db) xs
      = find (\<lambda>x. rf_ID x = k) (filter (\<lambda>x. owned t db (rf_IntentID x)) xs)" for db xs
    unfolding tenant_exists by (induction xs) auto
  have eq: "find (\<lambda>x. rf_ID x = k \<and> intent_exists (SqlEq TenantCol 2) [k, t] (rf_IntentID x) a) (refunds_t a) = find (\<lambda>x. rf_ID x = k \<and> intent_exists (SqlEq TenantCol 2) [k, t] (rf_IntentID x) b) (refunds_t b)"
    using assms by (simp only: same_tenant_ledger_def f)
  show ?thesis
    unfolding GetRefund_def tenant_predicate prod.case Let_def eq ..
qed

lemma read_by_id_confined:
  assumes "scopeFromRequest c cl = Inr s" and "\<And>k. get k s (w_db a) = get k s (w_db b)"
  shows "fst (read_by_id c name get render cl p a) = fst (read_by_id c name get render cl p b)"
  using assms by (simp add: read_by_id_def split: sum.splits)

fun pay_reading :: "pay_request \<Rightarrow> bool" where
  "pay_reading (PostIntent b) = False"
| "pay_reading (PostRefund p b) = False"
| "pay_reading (PostWebhook q) = False"
| "pay_reading PostReconcile = False"
| "pay_reading _ = True"

lemma fst_apfst_cong: "fst x = fst y \<Longrightarrow> fst (apfst f x) = fst (apfst f y)"
  by simp

section \<open>Properties\<close>

text \<open>
  A request changes the ledger only for a caller the route is meant for. Initiations and refunds
  are made by a principal of a money-mover role, in the name of the subject of the validated claims
  and under the scope they give; reconciliation by an operator; and the webhook receiver, which has
  no principal, changes it only for a delivery the provider's adapter has accepted. The reading
  routes change nothing.
\<close>

theorem pay_changes_authorized:
  assumes "pay_Routes c cl rq w = (r, w')" and "w_db w' \<noteq> w_db w"
  shows "case rq of
      PostIntent b \<Rightarrow> \<exists>claims actor scope req. cl = Some claims \<and> cl_Role claims \<in> set PaymentRoles \<and>
        ph_parse c (cl_UserID claims) = Some actor \<and> ScopeFromClaims (ph_parse c) claims = Inr scope \<and>
        w' = snd (InitiatePayment (ph_service c) (ph_env c) (initiate_input actor scope req) w)
    | PostRefund p b \<Rightarrow> \<exists>claims actor scope k reason. cl = Some claims \<and> cl_Role claims \<in> set PaymentRoles \<and>
        ph_parse c (cl_UserID claims) = Some actor \<and> ScopeFromClaims (ph_parse c) claims = Inr scope \<and>
        w' = snd (RefundPayment (ph_service c) (ph_env c) k reason actor scope w)
    | PostReconcile \<Rightarrow> \<exists>claims rec. cl = Some claims \<and> cl_Role claims \<in> set PayOperatorRoles \<and>
        w' = snd (Run (ph_service c) rec (ph_env c) w)
    | PostWebhook q \<Rightarrow> \<exists>p body pl. Provider (ph_service c) (hc_provider q) = Inr p \<and>
        readWebhookBody (hc_body q) = Some body \<and>
        p_webhook p (hc_header q) body (ph_now c) (c_clock (ph_env c)) = Inr pl \<and>
        w' = snd (HandleWebhook (ph_service c) (ph_env c) (hc_provider q) (hc_header q) body (ph_now c) w)
    | _ \<Rightarrow> False"
proof -
  have actor: "ph_parse c (cl_UserID claims) = Some actor \<and> ScopeFromClaims (ph_parse c) claims = Inr scope"
    if "actorAndScope c (Some claims) = Inr (actor, scope)" for claims actor scope
    using that by (auto simp: actorAndScope_def split: option.splits sum.splits)
  have "w' \<noteq> w" using assms(2) by blast
  from pay_Routes_effect [OF assms(1) this] show ?thesis
  proof cases
    case (write_initiate claims actor scope req ip b)
    then show ?thesis using actor by (simp, metis snd_conv)
  next
    case (write_refund claims actor scope k reason rr p b)
    then show ?thesis using actor by (simp, metis snd_conv)
  next
    case (write_webhook q body hr)
    then show ?thesis using assms(2)
      by (cases rule: HandleWebhook_cases [of "ph_service c" "ph_env c" "hc_provider q" "hc_header q" body "ph_now c" w])
        auto
  next
    case (write_reconcile claims rec res)
    then show ?thesis by (simp, metis snd_conv)
  qed
qed

definition sample_http :: "sandbox_state pay_http" where
  "sample_http = \<lparr>ph_parse = map_of [(''u4'', 4), (''t8'', 8)], ph_text = (\<lambda>_. []), ph_body_text = [],
     ph_service = sample_service, ph_env = sample_env, ph_reconciler = None, ph_now = time_unix 1\<rparr>"

definition sample_call :: webhook_call where
  "sample_call = \<lparr>hc_provider = ''sandbox'', hc_header = sample_header, hc_body = Body ''{}''\<rparr>"

theorem pay_changes_authorized_witness:
  "\<exists>p pl. Provider sample_service ''sandbox'' = Inr p \<and> p_webhook p sample_header ''{}'' (time_unix 1) 50 = Inr pl \<and>
     snd (pay_Routes sample_http None (PostWebhook sample_call) sample_w1) = sample_w2"
proof -
  have body: "readWebhookBody (Body ''{}'') = Some ''{}''"
    by (simp add: readWebhookBody_def MaxWebhookBodyBytes_def)
  have w2: "snd (pay_Routes sample_http None (PostWebhook sample_call) sample_w1) = sample_w2"
    by (simp add: pay_Routes_def handleWebhook_def sample_http_def sample_call_def sample_provider body
        sample_w2_def split: sum.split prod.split)
  have "w_db sample_w2 \<noteq> w_db sample_w1" using sample_w_facts(2,3) by auto
  from pay_changes_authorized [of sample_http None "PostWebhook sample_call" sample_w1 _ sample_w2] this w2
  show ?thesis by (auto simp: sample_http_def sample_call_def body prod_eq_iff)
qed

text \<open>
  No information about payments leaves a tenant. For a principal of a tenant, two ledgers that
  agree on the tenant's intents and on the transactions and refunds of those get the same answers
  from every reading route: other tenants' payments, and whether an identifier belongs to one, cannot
  be told.
\<close>

theorem pay_reads_confined:
  assumes "ScopeFromClaims (ph_parse c) claims = Inr (tenant_scope t)"
    and "same_tenant_ledger t (w_db a) (w_db b)" and "pay_reading rq"
  shows "fst (pay_Routes c (Some claims) rq a) = fst (pay_Routes c (Some claims) rq b)"
proof -
  have scope: "scopeFromRequest c (Some claims) = Inr (tenant_scope t)"
    using assms(1) by (simp add: scopeFromRequest_def)
  note confined = GetIntent_confined [OF assms(2)] ListIntents_confined [OF assms(2)]
    GetTransaction_confined [OF assms(2)] ListTransactions_confined [OF assms(2)] GetRefund_confined [OF assms(2)]
  have "Transactions e k (tenant_scope t) (w_db a) = Transactions e k (tenant_scope t) (w_db b)" for e k
    by (simp add: Transactions_def confined split: sum.split)
  moreover have "fst (handleListIntents c (Some claims) q a) = fst (handleListIntents c (Some claims) q b)" for q
    by (simp add: handleListIntents_def scope Intents_def confined split: sum.splits prod.splits)
  ultimately show ?thesis using assms(3)
    by (cases rq)
      (simp_all add: pay_Routes_def RequireAuthenticated_def pay_reads confined
        read_by_id_confined [OF scope, of _ a b])
qed

definition foreign_claims :: Claims where
  "foreign_claims = \<lparr>cl_UserID = ''u4'', cl_TenantID = ''t8'', cl_Role = ''GARAGE'', cl_SessionID = [],
     cl_IssuedAt = 0, cl_ExpiresAt = 0\<rparr>"

theorem pay_reads_confined_witness:
  "fst (pay_Routes sample_http (Some foreign_claims) (GetOneIntent ''u4'') sample_w0) =
   fst (pay_Routes sample_http (Some foreign_claims) (GetOneIntent ''u4'') sample_w1)"
proof (rule pay_reads_confined)
  show "ScopeFromClaims (ph_parse sample_http) foreign_claims = Inr (tenant_scope 8)"
    by (simp add: ScopeFromClaims_def foreign_claims_def sample_http_def tenant_scope_def IsPayOperatorRole_def
        PayOperatorRoles_def RoleAdmin_def RoleSuperAdmin_def)
  show "same_tenant_ledger 8 (w_db sample_w0) (w_db sample_w1)"
    by (simp add: same_tenant_ledger_def sample_w1_db sample_db_w1_def sample_w0_def empty_pay_db_def owned_def)
qed simp

end
