(* ===== verification/Job_Models.thy ===== *)
theory Job_Models
  imports Sql Status_Machines Complex_Main
begin

text \<open>
  The jobs domain: the structs of \<open>backend/jobs/models.go\<close>, the error sentinels of \<open>store.go\<close>,
  \<open>statemachine.go\<close> and \<open>service.go\<close>, the coordinates of a request and the read scopes of
  \<open>scope.go\<close>. None of the columns is a nullable text, so a struct and the row of its table are the
  same record. The status table and \<open>CanTransition\<close> of \<open>statemachine.go\<close> are in \<open>Status_Machines\<close>.
\<close>

section \<open>Coordinates\<close>

text \<open>
  A \<open>float64\<close> as far as the code looks at it: it is compared and tested for NaN. A finite one is a
  rational number.
\<close>

datatype float64 = FNaN | FPosInf | FNegInf | FNum rat

fun float_le :: "float64 \<Rightarrow> float64 \<Rightarrow> bool" where
  "float_le FNaN _ = False"
| "float_le _ FNaN = False"
| "float_le FNegInf _ = True"
| "float_le _ FPosInf = True"
| "float_le (FNum a) (FNum b) = (a \<le> b)"
| "float_le _ _ = False"

definition MinLatitude :: float64 where "MinLatitude = FNum (-90)"
definition MaxLatitude :: float64 where "MaxLatitude = FNum 90"
definition MinLongitude :: float64 where "MinLongitude = FNum (-180)"
definition MaxLongitude :: float64 where "MaxLongitude = FNum 180"

definition LocationValid :: "float64 option \<Rightarrow> float64 option \<Rightarrow> bool" where
  "LocationValid lat lng =
     (if (lat = None) \<noteq> (lng = None) then False
      else case lat of
        None \<Rightarrow> True
      | Some la \<Rightarrow>
          (let ln = the lng in
             la \<noteq> FNaN \<and> ln \<noteq> FNaN \<and>
             float_le MinLatitude la \<and> float_le la MaxLatitude \<and>
             float_le MinLongitude ln \<and> float_le ln MaxLongitude))"

section \<open>Structs\<close>

definition RequestStatusReceived :: string where "RequestStatusReceived = ''received''"
definition RequestStatusConverted :: string where "RequestStatusConverted = ''converted''"
definition RequestStatusCancelled :: string where "RequestStatusCancelled = ''cancelled''"

definition AssignmentStatusAssigned :: string where "AssignmentStatusAssigned = ''assigned''"
definition AssignmentStatusAccepted :: string where "AssignmentStatusAccepted = ''accepted''"
definition AssignmentStatusDeclined :: string where "AssignmentStatusDeclined = ''declined''"
definition AssignmentStatusReassigned :: string where "AssignmentStatusReassigned = ''reassigned''"

lemmas row_status_defs = RequestStatusReceived_def RequestStatusConverted_def RequestStatusCancelled_def
  AssignmentStatusAssigned_def AssignmentStatusAccepted_def AssignmentStatusDeclined_def
  AssignmentStatusReassigned_def

record ServiceRequest =
  sr_ID :: uuid
  sr_TenantID :: "uuid option"
  sr_CustomerID :: uuid
  sr_VehicleID :: "uuid option"
  sr_Description :: string
  sr_LocationLat :: "float64 option"
  sr_LocationLng :: "float64 option"
  sr_AddressText :: string
  sr_Status :: string
  sr_CreatedAt :: gotime
  sr_UpdatedAt :: gotime

record Job =
  jb_ID :: uuid
  jb_ServiceRequestID :: "uuid option"
  jb_TenantID :: "uuid option"
  jb_CustomerID :: uuid
  jb_VehicleID :: "uuid option"
  jb_Status :: Status
  jb_ProblemSummary :: string
  jb_TechnicianID :: "uuid option"
  jb_CreatedAt :: gotime
  jb_UpdatedAt :: gotime

record JobAssignment =
  as_ID :: uuid
  as_JobID :: uuid
  as_TenantID :: "uuid option"
  as_TechnicianID :: uuid
  as_AssignedBy :: "uuid option"
  as_AcceptedAt :: "gotime option"
  as_Status :: string
  as_CreatedAt :: gotime

record JobTransition =
  jt_ID :: int64
  jt_JobID :: uuid
  jt_TenantID :: "uuid option"
  jt_FromStatus :: Status
  jt_ToStatus :: Status
  jt_ActorID :: "uuid option"
  jt_Reason :: string
  jt_CreatedAt :: gotime

section \<open>Errors\<close>

text \<open>
  An error of the domain, by what \<open>errors.Is\<close> finds in it: the sentinels, a conflict with the
  refused move (\<open>None\<close> for the two conflicts of the service that no table lookup raises), a
  validation message, and the errors no sentinel names.
\<close>

datatype job_error =
    ErrRequestNotFound
  | ErrJobNotFound
  | ErrAlreadyConverted
  | ErrJobConflict "Status conflict option"
  | ErrJobInvalid string
  | ErrNoOpenAssignment
  | ErrJobDatabase
  | ErrJobPublish

section \<open>Read scopes\<close>

record ReadScope =
  sp_ViewerID :: uuid
  sp_TenantID :: "uuid option"
  sp_Operator :: bool

definition job_zero_scope :: ReadScope where
  "job_zero_scope = \<lparr>sp_ViewerID = uuid_nil, sp_TenantID = None, sp_Operator = False\<rparr>"

definition JobRoleTechnician :: string where "JobRoleTechnician = ''TECHNICIAN''"
definition JobRoleDispatcher :: string where "JobRoleDispatcher = ''DISPATCHER''"
definition JobRoleAdmin :: string where "JobRoleAdmin = ''ADMIN''"
definition JobRoleSuperAdmin :: string where "JobRoleSuperAdmin = ''SUPER_ADMIN''"

definition OperatorRoles :: "string list" where
  "OperatorRoles = [JobRoleDispatcher, JobRoleAdmin, JobRoleSuperAdmin]"

definition IsOperatorRole :: "string \<Rightarrow> bool" where
  "IsOperatorRole role \<longleftrightarrow> role \<in> set OperatorRoles"

datatype job_col = JobTenantCol | JobCustomerCol | JobTechnicianCol

fun request_col :: "ServiceRequest \<Rightarrow> job_col \<Rightarrow> uuid option" where
  "request_col r JobTenantCol = sr_TenantID r"
| "request_col r JobCustomerCol = Some (sr_CustomerID r)"
| "request_col r JobTechnicianCol = None"

fun job_col_of :: "Job \<Rightarrow> job_col \<Rightarrow> uuid option" where
  "job_col_of j JobTenantCol = jb_TenantID j"
| "job_col_of j JobCustomerCol = Some (jb_CustomerID j)"
| "job_col_of j JobTechnicianCol = jb_TechnicianID j"

text \<open>What a scope admits, independently of the SQL that implements it.\<close>

definition request_visible :: "ReadScope \<Rightarrow> ServiceRequest \<Rightarrow> bool" where
  "request_visible s r \<longleftrightarrow>
     (if sp_Operator s then True
      else case sp_TenantID s of
        Some t \<Rightarrow> sr_TenantID r = Some t
      | None \<Rightarrow> sp_ViewerID s \<noteq> uuid_nil \<and> sr_CustomerID r = sp_ViewerID s)"

definition job_visible :: "ReadScope \<Rightarrow> Job \<Rightarrow> bool" where
  "job_visible s j \<longleftrightarrow>
     (if sp_Operator s then True
      else case sp_TenantID s of
        Some t \<Rightarrow> jb_TenantID j = Some t
      | None \<Rightarrow> sp_ViewerID s \<noteq> uuid_nil \<and>
          (jb_CustomerID j = sp_ViewerID s \<or> jb_TechnicianID j = Some (sp_ViewerID s)))"

end
