(* ===== verification/Job_Store.thy ===== *)
theory Job_Store
  imports Job_Models "HOL-Library.Product_Lexorder"
begin

text \<open>
  The jobs repository \<open>backend/jobs/store.go\<close> on the tables of \<open>backend/migrations/jobs\<close>. An
  operation takes the fault of this call, the transaction's \<open>now()\<close>, and the identifiers it draws
  (\<open>uuid.New()\<close>, the column default of \<open>job_assignments.id\<close>, the sequence of \<open>job_transitions.id\<close>).
  The audit table \<open>jlog_t\<close> is in insertion order; its trigger forbids updates and deletes, and no
  operation attempts one.
\<close>

section \<open>Tables\<close>

record job_db =
  requests_t :: "ServiceRequest list"
  jobs_t :: "Job list"
  assigns_t :: "JobAssignment list"
  jlog_t :: "JobTransition list"

definition empty_job_db :: job_db where
  "empty_job_db = \<lparr>requests_t = [], jobs_t = [], assigns_t = [], jlog_t = []\<rparr>"

abbreviation get_request :: "uuid \<Rightarrow> job_db \<Rightarrow> ServiceRequest option" where
  "get_request k db \<equiv> row_get sr_ID k (requests_t db)"

abbreviation get_job :: "uuid \<Rightarrow> job_db \<Rightarrow> Job option" where
  "get_job k db \<equiv> row_get jb_ID k (jobs_t db)"

text \<open>The CHECK constraints.\<close>

definition request_row_ok :: "ServiceRequest \<Rightarrow> bool" where
  "request_row_ok r \<longleftrightarrow>
     sr_Status r \<in> {RequestStatusReceived, RequestStatusConverted, RequestStatusCancelled}"

definition job_row_ok :: "Job \<Rightarrow> bool" where
  "job_row_ok j \<longleftrightarrow> isKnownStatus (jb_Status j)"

section \<open>Scope predicates\<close>

definition requestScopePredicate :: "ReadScope \<Rightarrow> nat \<Rightarrow> job_col sql_cond \<times> uuid list" where
  "requestScopePredicate scope nextParam =
     (if sp_Operator scope then (SqlTrue, [])
      else case sp_TenantID scope of
        Some t \<Rightarrow> (SqlEq JobTenantCol nextParam, [t])
      | None \<Rightarrow>
          if sp_ViewerID scope \<noteq> uuid_nil
            then (SqlEq JobCustomerCol nextParam, [sp_ViewerID scope])
          else (SqlFalse, []))"

definition jobScopePredicate :: "ReadScope \<Rightarrow> nat \<Rightarrow> job_col sql_cond \<times> uuid list" where
  "jobScopePredicate scope nextParam =
     (if sp_Operator scope then (SqlTrue, [])
      else case sp_TenantID scope of
        Some t \<Rightarrow> (SqlEq JobTenantCol nextParam, [t])
      | None \<Rightarrow>
          if sp_ViewerID scope \<noteq> uuid_nil
            then (SqlOr (SqlEq JobCustomerCol nextParam) (SqlEq JobTechnicianCol nextParam),
                  [sp_ViewerID scope, sp_ViewerID scope])
          else (SqlFalse, []))"

section \<open>Requests\<close>

text \<open>A read has one call, and its answer can be lost.\<close>

definition query_fails :: "db_fault \<Rightarrow> bool" where
  "query_fails f \<longleftrightarrow> f = FailAt 0 \<or> f = LostAck"

definition CreateRequest ::
  "db_fault \<Rightarrow> gotime \<Rightarrow> uuid \<Rightarrow> ServiceRequest \<Rightarrow> job_db \<Rightarrow> (job_error + ServiceRequest) \<times> job_db" where
  "CreateRequest flt now fresh r db =
     (let nid = (if sr_ID r = uuid_nil then fresh else sr_ID r);
          row = r\<lparr>sr_ID := nid, sr_CreatedAt := now, sr_UpdatedAt := now\<rparr>
      in if get_request nid db \<noteq> None \<or> \<not> request_row_ok row then (Inl ErrJobDatabase, db)
         else finish ErrJobDatabase flt 0 row db (db\<lparr>requests_t := row_ins row (requests_t db)\<rparr>))"

definition GetRequest ::
  "engine \<Rightarrow> db_fault \<Rightarrow> uuid \<Rightarrow> ReadScope \<Rightarrow> job_db \<Rightarrow> job_error + ServiceRequest" where
  "GetRequest e flt rid scope db =
     (let (pred, predArgs) = requestScopePredicate scope 2; args = rid # predArgs in
      if query_fails flt \<or> \<not> args_accepted e (1 # placeholders pred) (length args)
        then Inl ErrJobDatabase
      else case find (\<lambda>r. sr_ID r = rid \<and> sql_eval (request_col r) args pred) (requests_t db) of
             None \<Rightarrow> Inl ErrRequestNotFound
           | Some r \<Rightarrow> Inr r)"

section \<open>Jobs\<close>

text \<open>Calls: begin, claim the request, insert, commit.\<close>

definition job_insert :: "uuid \<Rightarrow> gotime \<Rightarrow> Job \<Rightarrow> Job" where
  "job_insert fresh now j =
     j\<lparr>jb_ID := (if jb_ID j = uuid_nil then fresh else jb_ID j),
       jb_Status := (if jb_Status j = StatusOther [] then StatusCreated else jb_Status j),
       jb_CreatedAt := now, jb_UpdatedAt := now\<rparr>"

definition claim_request :: "gotime \<Rightarrow> ServiceRequest \<Rightarrow> ServiceRequest" where
  "claim_request now r = r\<lparr>sr_Status := RequestStatusConverted, sr_UpdatedAt := now\<rparr>"

definition CreateJob ::
  "db_fault \<Rightarrow> gotime \<Rightarrow> uuid \<Rightarrow> Job \<Rightarrow> job_db \<Rightarrow> (job_error + Job) \<times> job_db" where
  "CreateJob flt now fresh j db =
     (let row = job_insert fresh now j in
      if fails flt 0 then (Inl ErrJobDatabase, db)
      else
        let claimed = (case jb_ServiceRequestID j of
              None \<Rightarrow> Inr db
            | Some rid \<Rightarrow>
                if fails flt 1 then Inl ErrJobDatabase
                else case get_request rid db of
                  None \<Rightarrow> Inl ErrAlreadyConverted
                | Some r \<Rightarrow>
                    if sr_Status r \<noteq> RequestStatusReceived then Inl ErrAlreadyConverted
                    else Inr (db\<lparr>requests_t := row_upd sr_ID rid (claim_request now) (requests_t db)\<rparr>))
        in case claimed of
             Inl err \<Rightarrow> (Inl err, db)
           | Inr db1 \<Rightarrow>
               if fails flt 2 \<or> get_job (jb_ID row) db1 \<noteq> None \<or> \<not> job_row_ok row
                 then (Inl ErrJobDatabase, db)
               else finish ErrJobDatabase flt 3 row db (db1\<lparr>jobs_t := row_ins row (jobs_t db1)\<rparr>))"

definition GetJob :: "engine \<Rightarrow> db_fault \<Rightarrow> uuid \<Rightarrow> ReadScope \<Rightarrow> job_db \<Rightarrow> job_error + Job" where
  "GetJob e flt jid scope db =
     (let (pred, predArgs) = jobScopePredicate scope 2; args = jid # predArgs in
      if query_fails flt \<or> \<not> args_accepted e (1 # placeholders pred) (length args)
        then Inl ErrJobDatabase
      else case find (\<lambda>j. jb_ID j = jid \<and> sql_eval (job_col_of j) args pred) (jobs_t db) of
             None \<Rightarrow> Inl ErrJobNotFound
           | Some j \<Rightarrow> Inr j)"

text \<open>One row of the audit log, and the job row it goes with.\<close>

definition log_move ::
  "int64 \<Rightarrow> gotime \<Rightarrow> Job \<Rightarrow> Status \<Rightarrow> uuid option \<Rightarrow> string \<Rightarrow> JobTransition" where
  "log_move sq now j to actor reason =
     \<lparr>jt_ID = sq, jt_JobID = jb_ID j, jt_TenantID = jb_TenantID j, jt_FromStatus = jb_Status j,
      jt_ToStatus = to, jt_ActorID = actor, jt_Reason = reason, jt_CreatedAt = now\<rparr>"

definition move_job :: "gotime \<Rightarrow> Status \<Rightarrow> Job \<Rightarrow> Job" where
  "move_job now to j = j\<lparr>jb_Status := to, jb_UpdatedAt := now\<rparr>"

text \<open>Calls: begin, lock, update, insert the audit row, commit.\<close>

definition UpdateJobStatus ::
  "db_fault \<Rightarrow> gotime \<Rightarrow> int64 \<Rightarrow> uuid \<Rightarrow> Status \<Rightarrow> uuid option \<Rightarrow> string \<Rightarrow> job_db
     \<Rightarrow> (job_error + unit) \<times> job_db" where
  "UpdateJobStatus flt now sq jid newStatus actor reason db =
     (if fails flt 0 \<or> fails flt 1 then (Inl ErrJobDatabase, db)
      else case get_job jid db of
        None \<Rightarrow> (Inl ErrJobNotFound, db)
      | Some j \<Rightarrow>
          if fails flt 2 \<or> \<not> job_row_ok (move_job now newStatus j) then (Inl ErrJobDatabase, db)
          else if fails flt 3 then (Inl ErrJobDatabase, db)
          else finish ErrJobDatabase flt 4 () db
            (db\<lparr>jobs_t := row_upd jb_ID jid (move_job now newStatus) (jobs_t db),
                jlog_t := jlog_t db @ [log_move sq now j newStatus actor reason]\<rparr>))"

section \<open>Assignments\<close>

definition retire :: "uuid \<Rightarrow> JobAssignment \<Rightarrow> JobAssignment" where
  "retire jid a =
     (if as_JobID a = jid \<and> as_Status a = AssignmentStatusAssigned
        then a\<lparr>as_Status := AssignmentStatusReassigned\<rparr> else a)"

definition assign_job :: "gotime \<Rightarrow> uuid \<Rightarrow> Job \<Rightarrow> Job" where
  "assign_job now tech j =
     j\<lparr>jb_Status := StatusAssigned, jb_TechnicianID := Some tech, jb_UpdatedAt := now\<rparr>"

text \<open>Calls: begin, lock, retire, insert the assignment, update the job, insert the audit row, commit.\<close>

definition AssignTechnician ::
  "db_fault \<Rightarrow> gotime \<Rightarrow> uuid \<Rightarrow> int64 \<Rightarrow> uuid \<Rightarrow> uuid \<Rightarrow> uuid option \<Rightarrow> job_db
     \<Rightarrow> (job_error + unit) \<times> job_db" where
  "AssignTechnician flt now fresh sq jid tech assignedBy db =
     (if fails flt 0 \<or> fails flt 1 then (Inl ErrJobDatabase, db)
      else case get_job jid db of
        None \<Rightarrow> (Inl ErrJobNotFound, db)
      | Some j \<Rightarrow>
          if fails flt 2 \<or> fails flt 3 \<or> row_get as_ID fresh (assigns_t db) \<noteq> None \<or> fails flt 4 \<or> fails flt 5
            then (Inl ErrJobDatabase, db)
          else finish ErrJobDatabase flt 6 () db
            (db\<lparr>assigns_t := row_ins
                  \<lparr>as_ID = fresh, as_JobID = jid, as_TenantID = jb_TenantID j, as_TechnicianID = tech,
                   as_AssignedBy = assignedBy, as_AcceptedAt = None,
                   as_Status = AssignmentStatusAssigned, as_CreatedAt = now\<rparr>
                  (map (retire jid) (assigns_t db)),
                jobs_t := row_upd jb_ID jid (assign_job now tech) (jobs_t db),
                jlog_t := jlog_t db @ [log_move sq now j StatusAssigned assignedBy ''technician assigned'']\<rparr>))"

definition open_for :: "uuid \<Rightarrow> uuid \<Rightarrow> JobAssignment \<Rightarrow> bool" where
  "open_for jid tech a \<longleftrightarrow>
     as_JobID a = jid \<and> as_TechnicianID a = tech \<and> as_Status a = AssignmentStatusAssigned"

definition accept_row :: "gotime \<Rightarrow> uuid \<Rightarrow> uuid \<Rightarrow> JobAssignment \<Rightarrow> JobAssignment" where
  "accept_row now jid tech a =
     (if open_for jid tech a
        then a\<lparr>as_Status := AssignmentStatusAccepted, as_AcceptedAt := Some now\<rparr> else a)"

text \<open>Calls: begin, lock, accept, update the job, insert the audit row, commit.\<close>

definition AcceptAssignment ::
  "db_fault \<Rightarrow> gotime \<Rightarrow> int64 \<Rightarrow> uuid \<Rightarrow> uuid \<Rightarrow> job_db \<Rightarrow> (job_error + unit) \<times> job_db" where
  "AcceptAssignment flt now sq jid tech db =
     (if fails flt 0 \<or> fails flt 1 then (Inl ErrJobDatabase, db)
      else case get_job jid db of
        None \<Rightarrow> (Inl ErrJobNotFound, db)
      | Some j \<Rightarrow>
          if fails flt 2 then (Inl ErrJobDatabase, db)
          else if \<not> list_ex (open_for jid tech) (assigns_t db) then (Inl ErrNoOpenAssignment, db)
          else if fails flt 3 \<or> fails flt 4 then (Inl ErrJobDatabase, db)
          else finish ErrJobDatabase flt 5 () db
            (db\<lparr>assigns_t := map (accept_row now jid tech) (assigns_t db),
                jobs_t := row_upd jb_ID jid (move_job now StatusAccepted) (jobs_t db),
                jlog_t := jlog_t db @
                  [log_move sq now j StatusAccepted (Some tech) ''technician accepted assignment'']\<rparr>))"

section \<open>Listings\<close>

record JobFilter =
  jf_Status :: "Status option"
  jf_TechnicianID :: "uuid option"

definition job_page_limit :: "int \<Rightarrow> int" where
  "job_page_limit limit = (let l = (if limit \<le> 0 then 50 else limit) in if l > 200 then 200 else l)"

definition job_page_offset :: "int \<Rightarrow> int" where
  "job_page_offset offset = (if offset < 0 then 0 else offset)"

definition job_filter_matches :: "JobFilter \<Rightarrow> Job \<Rightarrow> bool" where
  "job_filter_matches f j \<longleftrightarrow>
     (case jf_Status f of None \<Rightarrow> True | Some s \<Rightarrow> jb_Status j = s) \<and>
     (case jf_TechnicianID f of None \<Rightarrow> True | Some t \<Rightarrow> col_eq (jb_TechnicianID j) t)"

definition job_filter_args :: "JobFilter \<Rightarrow> nat" where
  "job_filter_args f = (case jf_Status f of None \<Rightarrow> 0 | Some _ \<Rightarrow> 1) +
     (case jf_TechnicianID f of None \<Rightarrow> 0 | Some _ \<Rightarrow> 1)"

text \<open>
  The arguments of the filter come first, then those of the scope, then limit and offset. The
  filter's own placeholders are numbered as they are added, so they are always used. The order of
  jobs with equal creation times is the engine's: here it is the order of the table.
\<close>

definition ListJobs ::
  "engine \<Rightarrow> db_fault \<Rightarrow> JobFilter \<Rightarrow> int \<Rightarrow> int \<Rightarrow> ReadScope \<Rightarrow> job_db \<Rightarrow> job_error + Job list" where
  "ListJobs e flt f limit offset scope db =
     (let k = job_filter_args f;
          (pred, predArgs) = jobScopePredicate scope (Suc k);
          pageParam = Suc (k + length predArgs);
          ps = [1..<Suc k] @ placeholders pred @ [pageParam, Suc pageParam];
          args = replicate k uuid_nil @ predArgs;
          matching = filter (\<lambda>j. job_filter_matches f j \<and> sql_eval (job_col_of j) args pred) (jobs_t db);
          sorted = sort_key (\<lambda>j. - jb_CreatedAt j) matching
      in if query_fails flt \<or> \<not> args_accepted e ps (k + length predArgs + 2) then Inl ErrJobDatabase
         else Inr (take (nat (job_page_limit limit)) (drop (nat (job_page_offset offset)) sorted)))"

text \<open>
  The trail selects eight columns and scans into seven destinations. What \<open>Scan\<close> makes of a row
  then is the driver's: the parameter \<open>short_scan\<close>, with \<open>None\<close> for an error (pgx documents that
  the number of destinations must match the number of columns).
\<close>

definition trail_visible :: "ReadScope \<Rightarrow> job_db \<Rightarrow> JobTransition \<Rightarrow> bool" where
  "trail_visible scope db t \<longleftrightarrow>
     (if sp_Operator scope then True
      else case sp_TenantID scope of
        Some x \<Rightarrow> col_eq (jt_TenantID t) x
      | None \<Rightarrow>
          if sp_ViewerID scope \<noteq> uuid_nil
            then list_ex (\<lambda>j. jb_ID j = jt_JobID t \<and>
                   (jb_CustomerID j = sp_ViewerID scope \<or> col_eq (jb_TechnicianID j) (sp_ViewerID scope)))
                 (jobs_t db)
          else False)"

definition order_trail :: "JobTransition list \<Rightarrow> JobTransition list" where
  "order_trail ts = sort_key (\<lambda>t. (jt_CreatedAt t, sint (jt_ID t))) ts"

fun scan_trail :: "(JobTransition \<Rightarrow> JobTransition option) \<Rightarrow> JobTransition list \<Rightarrow> JobTransition list option" where
  "scan_trail f [] = Some []"
| "scan_trail f (r # rs) =
     (case f r of None \<Rightarrow> None
      | Some v \<Rightarrow> (case scan_trail f rs of None \<Rightarrow> None | Some vs \<Rightarrow> Some (v # vs)))"

definition ListTransitions ::
  "(JobTransition \<Rightarrow> JobTransition option) \<Rightarrow> db_fault \<Rightarrow> uuid \<Rightarrow> ReadScope \<Rightarrow> job_db
     \<Rightarrow> job_error + JobTransition list" where
  "ListTransitions short_scan flt jid scope db =
     (if query_fails flt then Inl ErrJobDatabase
      else case scan_trail short_scan
             (order_trail (filter (\<lambda>t. jt_JobID t = jid \<and> trail_visible scope db t) (jlog_t db))) of
             None \<Rightarrow> Inl ErrJobDatabase
           | Some ts \<Rightarrow> Inr ts)"

end
