(* ===== verification/Job_Service.thy ===== *)
theory Job_Service
  imports Job_Store Go_Strings
begin

text \<open>
  The jobs service, \<open>backend/jobs/service.go\<close>. A call works on the tables and the published events,
  and brings a \<open>job_env\<close>: the engine, the fault, the clock and the identifiers of its n-th store
  call, the request's correlation id, and which event types can be published (\<open>None\<close> is a service
  without a publisher). Every mutation is a read and a decision (\<open>.._check\<close>) followed by one store
  operation and its event (\<open>.._write\<close>): no database transaction spans the two, so other calls may
  run in between.
\<close>

section \<open>Events\<close>

record RequestReceivedPayload =
  rp_RequestID :: uuid
  rp_CustomerID :: uuid
  rp_VehicleID :: "uuid option"
  rp_AddressText :: string

record JobCreatedPayload =
  jp_JobID :: uuid
  jp_ServiceRequestID :: "uuid option"
  jp_CustomerID :: uuid
  jp_VehicleID :: "uuid option"
  jp_ProblemSummary :: string

record JobStatusChangedPayload =
  cp_JobID :: uuid
  cp_From :: Status
  cp_To :: Status
  cp_Reason :: string
  cp_ActorID :: "uuid option"

record JobAssignedPayload =
  ap_JobID :: uuid
  ap_TechnicianID :: uuid
  ap_AssignedBy :: "uuid option"

datatype job_payload =
    PRequestReceived RequestReceivedPayload
  | PJobCreated JobCreatedPayload
  | PStatusChanged JobStatusChangedPayload
  | PJobAssigned JobAssignedPayload

definition EventRequestReceived :: string where "EventRequestReceived = ''request.received.v1''"
definition EventJobCreated :: string where "EventJobCreated = ''job.created.v1''"
definition EventJobStatusChanged :: string where "EventJobStatusChanged = ''job.status.changed.v1''"
definition EventJobAssigned :: string where "EventJobAssigned = ''job.assigned.v1''"

lemmas job_event_types = EventRequestReceived_def EventJobCreated_def EventJobStatusChanged_def
  EventJobAssigned_def

record job_event =
  je_Type :: string
  je_AggregateID :: uuid
  je_TenantID :: "uuid option"
  je_ActorID :: "uuid option"
  je_CorrelationID :: string
  je_Payload :: job_payload

record job_world =
  jw_db :: job_db
  jw_events :: "job_event list"

record job_env =
  jc_engine :: engine
  jc_flt :: "nat \<Rightarrow> db_fault"
  jc_now :: "nat \<Rightarrow> gotime"
  jc_fresh :: "nat \<Rightarrow> uuid"
  jc_seq :: "nat \<Rightarrow> int64"
  jc_pub :: "(string \<Rightarrow> bool) option"
  jc_correlation :: string

definition job_publish ::
  "job_env \<Rightarrow> string \<Rightarrow> uuid \<Rightarrow> uuid option \<Rightarrow> uuid option \<Rightarrow> job_payload \<Rightarrow> job_world
     \<Rightarrow> job_error option \<times> job_world" where
  "job_publish c eventType aggregate actor tenant pl w =
     (case jc_pub c of
        None \<Rightarrow> (None, w)
      | Some can \<Rightarrow>
          let actor' = (case actor of Some a \<Rightarrow> if a \<noteq> uuid_nil then Some a else None | None \<Rightarrow> None)
          in if \<not> can eventType then (Some ErrJobPublish, w)
             else (None, w\<lparr>jw_events := jw_events w @
               [\<lparr>je_Type = eventType, je_AggregateID = aggregate, je_TenantID = tenant,
                 je_ActorID = actor', je_CorrelationID = jc_correlation c, je_Payload = pl\<rparr>]\<rparr>))"

text \<open>Finishing an operation with its event: a failed publication is the operation's error.\<close>

definition announced :: "'a \<Rightarrow> job_error option \<times> job_world \<Rightarrow> (job_error + 'a) \<times> job_world" where
  "announced v r = (case r of (None, w) \<Rightarrow> (Inr v, w) | (Some e, w) \<Rightarrow> (Inl e, w))"

section \<open>Requests\<close>

definition request_checks :: "ServiceRequest \<Rightarrow> job_error + ServiceRequest" where
  "request_checks r =
     (if sr_CustomerID r = uuid_nil then Inl (ErrJobInvalid ''customer_id is required'')
      else if trim_space (sr_Description r) = [] then Inl (ErrJobInvalid ''description is required'')
      else if \<not> LocationValid (sr_LocationLat r) (sr_LocationLng r)
        then Inl (ErrJobInvalid ''location_lat and location_lng must be provided together and within WGS-84 bounds'')
      else Inr (if sr_Status r = [] then r\<lparr>sr_Status := RequestStatusReceived\<rparr> else r))"

definition Service_CreateRequest ::
  "job_env \<Rightarrow> ServiceRequest \<Rightarrow> job_world \<Rightarrow> (job_error + ServiceRequest) \<times> job_world" where
  "Service_CreateRequest c r w =
     (case request_checks r of
        Inl e \<Rightarrow> (Inl e, w)
      | Inr r1 \<Rightarrow>
          (case CreateRequest (jc_flt c 0) (jc_now c 0) (jc_fresh c 0) r1 (jw_db w) of
             (Inl e, db) \<Rightarrow> (Inl e, w\<lparr>jw_db := db\<rparr>)
           | (Inr r2, db) \<Rightarrow>
               announced r2 (job_publish c EventRequestReceived (sr_ID r2) (Some (sr_CustomerID r2)) (sr_TenantID r2)
                 (PRequestReceived \<lparr>rp_RequestID = sr_ID r2, rp_CustomerID = sr_CustomerID r2,
                    rp_VehicleID = sr_VehicleID r2, rp_AddressText = sr_AddressText r2\<rparr>) (w\<lparr>jw_db := db\<rparr>))))"

section \<open>Conversion\<close>

definition conversion_check ::
  "job_env \<Rightarrow> uuid \<Rightarrow> ReadScope \<Rightarrow> job_db \<Rightarrow> job_error + ServiceRequest" where
  "conversion_check c rid scope db =
     (case GetRequest (jc_engine c) (jc_flt c 0) rid scope db of
        Inl e \<Rightarrow> Inl e
      | Inr r \<Rightarrow> if sr_Status r \<noteq> RequestStatusReceived then Inl ErrAlreadyConverted else Inr r)"

definition new_job :: "ServiceRequest \<Rightarrow> Job" where
  "new_job r =
     \<lparr>jb_ID = uuid_nil, jb_ServiceRequestID = Some (sr_ID r), jb_TenantID = sr_TenantID r,
      jb_CustomerID = sr_CustomerID r, jb_VehicleID = sr_VehicleID r, jb_Status = StatusCreated,
      jb_ProblemSummary = sr_Description r, jb_TechnicianID = None, jb_CreatedAt = 0, jb_UpdatedAt = 0\<rparr>"

definition conversion_write ::
  "job_env \<Rightarrow> ReadScope \<Rightarrow> ServiceRequest \<Rightarrow> job_world \<Rightarrow> (job_error + Job) \<times> job_world" where
  "conversion_write c scope r w =
     (case CreateJob (jc_flt c 1) (jc_now c 1) (jc_fresh c 1) (new_job r) (jw_db w) of
        (Inl e, db) \<Rightarrow> (Inl e, w\<lparr>jw_db := db\<rparr>)
      | (Inr j, db) \<Rightarrow>
          announced j (job_publish c EventJobCreated (jb_ID j) (Some (sp_ViewerID scope)) (jb_TenantID j)
            (PJobCreated \<lparr>jp_JobID = jb_ID j, jp_ServiceRequestID = jb_ServiceRequestID j,
               jp_CustomerID = jb_CustomerID j, jp_VehicleID = jb_VehicleID j,
               jp_ProblemSummary = jb_ProblemSummary j\<rparr>) (w\<lparr>jw_db := db\<rparr>)))"

definition CreateJobFromRequest ::
  "job_env \<Rightarrow> uuid \<Rightarrow> ReadScope \<Rightarrow> job_world \<Rightarrow> (job_error + Job) \<times> job_world" where
  "CreateJobFromRequest c rid scope w =
     (case conversion_check c rid scope (jw_db w) of
        Inl e \<Rightarrow> (Inl e, w)
      | Inr r \<Rightarrow> conversion_write c scope r w)"

section \<open>Transitions\<close>

text \<open>The store calls of a transition are numbered from \<open>k\<close>.\<close>

definition transition_check ::
  "job_env \<Rightarrow> nat \<Rightarrow> uuid \<Rightarrow> Status \<Rightarrow> ReadScope \<Rightarrow> job_db \<Rightarrow> job_error + Job" where
  "transition_check c k jid to scope db =
     (case GetJob (jc_engine c) (jc_flt c k) jid scope db of
        Inl e \<Rightarrow> Inl e
      | Inr j \<Rightarrow> (case CanTransition (jb_Status j) to of Some x \<Rightarrow> Inl (ErrJobConflict (Some x)) | None \<Rightarrow> Inr j))"

definition changed_payload :: "uuid \<Rightarrow> Job \<Rightarrow> Status \<Rightarrow> string \<Rightarrow> uuid option \<Rightarrow> job_payload" where
  "changed_payload jid j to reason actor =
     PStatusChanged \<lparr>cp_JobID = jid, cp_From = jb_Status j, cp_To = to, cp_Reason = reason, cp_ActorID = actor\<rparr>"

definition transition_write ::
  "job_env \<Rightarrow> nat \<Rightarrow> uuid \<Rightarrow> Status \<Rightarrow> uuid option \<Rightarrow> string \<Rightarrow> Job \<Rightarrow> job_world
     \<Rightarrow> (job_error + unit) \<times> job_world" where
  "transition_write c k jid to actor reason j w =
     (case UpdateJobStatus (jc_flt c (Suc k)) (jc_now c (Suc k)) (jc_seq c (Suc k)) jid to actor reason (jw_db w) of
        (Inl e, db) \<Rightarrow> (Inl e, w\<lparr>jw_db := db\<rparr>)
      | (Inr _, db) \<Rightarrow>
          announced () (job_publish c EventJobStatusChanged jid actor (jb_TenantID j)
            (changed_payload jid j to reason actor) (w\<lparr>jw_db := db\<rparr>)))"

definition Transition ::
  "job_env \<Rightarrow> nat \<Rightarrow> uuid \<Rightarrow> Status \<Rightarrow> uuid option \<Rightarrow> string \<Rightarrow> ReadScope \<Rightarrow> job_world
     \<Rightarrow> (job_error + unit) \<times> job_world" where
  "Transition c k jid to actor reason scope w =
     (case transition_check c k jid to scope (jw_db w) of
        Inl e \<Rightarrow> (Inl e, w)
      | Inr j \<Rightarrow> transition_write c k jid to actor reason j w)"

section \<open>Assignment\<close>

text \<open>
  The decision of \<open>AssignTechnician\<close> once the job is read: refused, nothing to do (a status from
  which the table would allow \<open>ASSIGNED\<close> but the switch does not know), assign at once, or step
  back to \<open>DISPATCHING\<close> first.
\<close>

datatype assign_decision = AssignRefused job_error | AssignNothing | AssignDirect Job | AssignAfterStep Job

definition assign_check ::
  "job_env \<Rightarrow> uuid \<Rightarrow> uuid \<Rightarrow> ReadScope \<Rightarrow> job_db \<Rightarrow> assign_decision" where
  "assign_check c jid tech scope db =
     (case GetJob (jc_engine c) (jc_flt c 0) jid scope db of
        Inl e \<Rightarrow> AssignRefused e
      | Inr j \<Rightarrow>
          if jb_Status j = StatusDispatching then AssignDirect j
          else if jb_Status j = StatusAssigned then
            (if jb_TechnicianID j = Some tech then AssignRefused (ErrJobConflict None) else AssignAfterStep j)
          else (case CanTransition (jb_Status j) StatusAssigned of
                  Some x \<Rightarrow> AssignRefused (ErrJobConflict (Some x))
                | None \<Rightarrow> AssignNothing))"

definition assign_write ::
  "job_env \<Rightarrow> nat \<Rightarrow> uuid \<Rightarrow> uuid \<Rightarrow> uuid option \<Rightarrow> Job \<Rightarrow> job_world \<Rightarrow> (job_error + unit) \<times> job_world" where
  "assign_write c k jid tech assignedBy j w =
     (case AssignTechnician (jc_flt c k) (jc_now c k) (jc_fresh c k) (jc_seq c k) jid tech assignedBy (jw_db w) of
        (Inl e, db) \<Rightarrow> (Inl e, w\<lparr>jw_db := db\<rparr>)
      | (Inr _, db) \<Rightarrow>
          announced () (job_publish c EventJobAssigned jid assignedBy (jb_TenantID j)
            (PJobAssigned \<lparr>ap_JobID = jid, ap_TechnicianID = tech, ap_AssignedBy = assignedBy\<rparr>)
            (w\<lparr>jw_db := db\<rparr>)))"

definition Service_AssignTechnician ::
  "job_env \<Rightarrow> uuid \<Rightarrow> uuid \<Rightarrow> uuid option \<Rightarrow> ReadScope \<Rightarrow> job_world \<Rightarrow> (job_error + unit) \<times> job_world" where
  "Service_AssignTechnician c jid tech assignedBy scope w =
     (case assign_check c jid tech scope (jw_db w) of
        AssignRefused e \<Rightarrow> (Inl e, w)
      | AssignNothing \<Rightarrow> (Inr (), w)
      | AssignDirect j \<Rightarrow> assign_write c 1 jid tech assignedBy j w
      | AssignAfterStep j \<Rightarrow>
          (case Transition c 1 jid StatusDispatching assignedBy ''reassignment'' scope w of
             (Inl e, w1) \<Rightarrow> (Inl e, w1)
           | (Inr _, w1) \<Rightarrow> assign_write c 3 jid tech assignedBy j w1))"

section \<open>Acceptance\<close>

definition accept_check ::
  "job_env \<Rightarrow> uuid \<Rightarrow> uuid \<Rightarrow> ReadScope \<Rightarrow> job_db \<Rightarrow> job_error + Job" where
  "accept_check c jid tech scope db =
     (case GetJob (jc_engine c) (jc_flt c 0) jid scope db of
        Inl e \<Rightarrow> Inl e
      | Inr j \<Rightarrow>
          (case CanTransition (jb_Status j) StatusAccepted of
             Some x \<Rightarrow> Inl (ErrJobConflict (Some x))
           | None \<Rightarrow>
               if jb_TechnicianID j \<noteq> None \<and> jb_TechnicianID j \<noteq> Some tech then Inl (ErrJobConflict None)
               else Inr j))"

definition accept_write ::
  "job_env \<Rightarrow> uuid \<Rightarrow> uuid \<Rightarrow> Job \<Rightarrow> job_world \<Rightarrow> (job_error + unit) \<times> job_world" where
  "accept_write c jid tech j w =
     (case AcceptAssignment (jc_flt c 1) (jc_now c 1) (jc_seq c 1) jid tech (jw_db w) of
        (Inl e, db) \<Rightarrow> (Inl e, w\<lparr>jw_db := db\<rparr>)
      | (Inr _, db) \<Rightarrow>
          announced () (job_publish c EventJobStatusChanged jid (Some tech) (jb_TenantID j)
            (changed_payload jid j StatusAccepted ''technician accepted assignment'' (Some tech)) (w\<lparr>jw_db := db\<rparr>)))"

definition Accept ::
  "job_env \<Rightarrow> uuid \<Rightarrow> uuid \<Rightarrow> ReadScope \<Rightarrow> job_world \<Rightarrow> (job_error + unit) \<times> job_world" where
  "Accept c jid tech scope w =
     (case accept_check c jid tech scope (jw_db w) of
        Inl e \<Rightarrow> (Inl e, w)
      | Inr j \<Rightarrow> accept_write c jid tech j w)"

section \<open>Reads\<close>

definition Transitions ::
  "(JobTransition \<Rightarrow> JobTransition option) \<Rightarrow> job_env \<Rightarrow> uuid \<Rightarrow> ReadScope \<Rightarrow> job_world
     \<Rightarrow> job_error + JobTransition list" where
  "Transitions short_scan c jid scope w = ListTransitions short_scan (jc_flt c 0) jid scope (jw_db w)"

definition Jobs :: "job_env \<Rightarrow> JobFilter \<Rightarrow> int \<Rightarrow> int \<Rightarrow> ReadScope \<Rightarrow> job_world \<Rightarrow> job_error + Job list" where
  "Jobs c f limit offset scope w =
     (if (case jf_Status f of Some s \<Rightarrow> \<not> isKnownStatus s | None \<Rightarrow> False)
        then Inl (ErrJobInvalid ''unknown status'')
      else ListJobs (jc_engine c) (jc_flt c 0) f (job_page_limit limit) (job_page_offset offset) scope (jw_db w))"

definition JobsByStatus ::
  "job_env \<Rightarrow> Status \<Rightarrow> int \<Rightarrow> int \<Rightarrow> ReadScope \<Rightarrow> job_world \<Rightarrow> job_error + Job list" where
  "JobsByStatus c s limit offset scope w =
     Jobs c \<lparr>jf_Status = Some s, jf_TechnicianID = None\<rparr> limit offset scope w"

end
