(* ===== verification/Job_Ledger.thy ===== *)
theory Job_Ledger
  imports Job_Service
begin

text \<open>
  The integrity of the jobs tables. \<open>job_step\<close> is one store operation with the arguments the service
  uses; \<open>jobs_ok\<close> is what every interleaving of such operations keeps: keys and references, one job
  per request, at most one open assignment per job and its technician on the job, the tenant of a
  job on all its rows, and an audit trail that replays from \<open>CREATED\<close> to the job's status.
\<close>

section \<open>The invariant\<close>

definition trail_of :: "uuid \<Rightarrow> job_db \<Rightarrow> JobTransition list" where
  "trail_of k db = filter (\<lambda>t. jt_JobID t = k) (jlog_t db)"

fun replay_moves :: "Status \<Rightarrow> JobTransition list \<Rightarrow> Status option" where
  "replay_moves s [] = Some s"
| "replay_moves s (t # ts) = (if jt_FromStatus t = s then replay_moves (jt_ToStatus t) ts else None)"

lemma replay_moves_append:
  "replay_moves s (ts @ us) = (case replay_moves s ts of None \<Rightarrow> None | Some s' \<Rightarrow> replay_moves s' us)"
  by (induction ts arbitrary: s) auto

abbreviation is_open :: "JobAssignment \<Rightarrow> bool" where
  "is_open a \<equiv> as_Status a = AssignmentStatusAssigned"

definition job_refs :: "job_db \<Rightarrow> bool" where
  "job_refs db \<longleftrightarrow>
     (\<forall>j \<in> set (jobs_t db). \<forall>r. jb_ServiceRequestID j = Some r \<longrightarrow> get_request r db \<noteq> None) \<and>
     (\<forall>a \<in> set (assigns_t db). get_job (as_JobID a) db \<noteq> None) \<and>
     (\<forall>t \<in> set (jlog_t db). get_job (jt_JobID t) db \<noteq> None)"

text \<open>A request is the origin of at most one job, and while it is \<open>received\<close> of none.\<close>

definition one_conversion :: "job_db \<Rightarrow> bool" where
  "one_conversion db \<longleftrightarrow>
     (\<forall>j \<in> set (jobs_t db). \<forall>k \<in> set (jobs_t db). \<forall>r.
        jb_ServiceRequestID j = Some r \<longrightarrow> jb_ServiceRequestID k = Some r \<longrightarrow> jb_ID j = jb_ID k) \<and>
     (\<forall>j \<in> set (jobs_t db). \<forall>r q.
        jb_ServiceRequestID j = Some r \<longrightarrow> get_request r db = Some q \<longrightarrow>
        sr_Status q = RequestStatusConverted \<and> jb_TenantID j = sr_TenantID q \<and> jb_CustomerID j = sr_CustomerID q)"

definition one_open :: "job_db \<Rightarrow> bool" where
  "one_open db \<longleftrightarrow>
     (\<forall>k. length (filter (\<lambda>a. as_JobID a = k \<and> is_open a) (assigns_t db)) \<le> 1)"

definition open_technician :: "job_db \<Rightarrow> bool" where
  "open_technician db \<longleftrightarrow>
     (\<forall>a \<in> set (assigns_t db). is_open a \<longrightarrow>
        (\<forall>j. get_job (as_JobID a) db = Some j \<longrightarrow> jb_TechnicianID j = Some (as_TechnicianID a)))"

definition one_tenant :: "job_db \<Rightarrow> bool" where
  "one_tenant db \<longleftrightarrow>
     (\<forall>a \<in> set (assigns_t db). \<forall>j. get_job (as_JobID a) db = Some j \<longrightarrow> as_TenantID a = jb_TenantID j) \<and>
     (\<forall>t \<in> set (jlog_t db). \<forall>j. get_job (jt_JobID t) db = Some j \<longrightarrow> jt_TenantID t = jb_TenantID j)"

definition trails_replay :: "job_db \<Rightarrow> bool" where
  "trails_replay db \<longleftrightarrow>
     (\<forall>k j. get_job k db = Some j \<longrightarrow> replay_moves StatusCreated (trail_of k db) = Some (jb_Status j))"

definition jobs_ok :: "job_db \<Rightarrow> bool" where
  "jobs_ok db \<longleftrightarrow>
     pk_ok sr_ID (requests_t db) \<and> pk_ok jb_ID (jobs_t db) \<and> pk_ok as_ID (assigns_t db) \<and>
     (\<forall>j \<in> set (jobs_t db). job_row_ok j) \<and> (\<forall>r \<in> set (requests_t db). request_row_ok r) \<and>
     job_refs db \<and> one_conversion db \<and> one_open db \<and> open_technician db \<and> one_tenant db \<and> trails_replay db"

lemma conversion_unique: "one_conversion db \<Longrightarrow> j \<in> set (jobs_t db) \<Longrightarrow> k \<in> set (jobs_t db) \<Longrightarrow>
    jb_ServiceRequestID j = Some r \<Longrightarrow> jb_ServiceRequestID k = Some r \<Longrightarrow> jb_ID j = jb_ID k"
  unfolding one_conversion_def by blast

lemma conversion_owner: "one_conversion db \<Longrightarrow> j \<in> set (jobs_t db) \<Longrightarrow> jb_ServiceRequestID j = Some r \<Longrightarrow>
    get_request r db = Some q \<Longrightarrow>
    sr_Status q = RequestStatusConverted \<and> jb_TenantID j = sr_TenantID q \<and> jb_CustomerID j = sr_CustomerID q"
  unfolding one_conversion_def by blast

lemma one_conversionI:
  assumes "\<And>j k r. j \<in> set (jobs_t db) \<Longrightarrow> k \<in> set (jobs_t db) \<Longrightarrow>
      jb_ServiceRequestID j = Some r \<Longrightarrow> jb_ServiceRequestID k = Some r \<Longrightarrow> jb_ID j = jb_ID k"
    and "\<And>j r q. j \<in> set (jobs_t db) \<Longrightarrow> jb_ServiceRequestID j = Some r \<Longrightarrow> get_request r db = Some q \<Longrightarrow>
      sr_Status q = RequestStatusConverted \<and> jb_TenantID j = sr_TenantID q \<and> jb_CustomerID j = sr_CustomerID q"
  shows "one_conversion db"
  unfolding one_conversion_def using assms by blast

lemmas jobs_parts = jobs_ok_def job_refs_def one_conversion_def open_technician_def one_tenant_def

lemma empty_jobs_ok: "jobs_ok empty_job_db"
  by (simp add: jobs_parts one_open_def trails_replay_def empty_job_db_def)

section \<open>What each operation leaves behind\<close>

definition inserted_request :: "uuid \<Rightarrow> gotime \<Rightarrow> ServiceRequest \<Rightarrow> ServiceRequest" where
  "inserted_request fresh now r =
     r\<lparr>sr_ID := (if sr_ID r = uuid_nil then fresh else sr_ID r), sr_CreatedAt := now, sr_UpdatedAt := now\<rparr>"

lemma CreateRequest_state:
  "snd (CreateRequest flt now fresh r db) = db \<or>
   get_request (sr_ID (inserted_request fresh now r)) db = None \<and> request_row_ok (inserted_request fresh now r) \<and>
   snd (CreateRequest flt now fresh r db) =
     db\<lparr>requests_t := row_ins (inserted_request fresh now r) (requests_t db)\<rparr>"
  by (auto simp: CreateRequest_def inserted_request_def Let_def finish_def)

definition converted_db :: "gotime \<Rightarrow> Job \<Rightarrow> uuid \<Rightarrow> job_db \<Rightarrow> job_db" where
  "converted_db now row rid db =
     db\<lparr>requests_t := row_upd sr_ID rid (claim_request now) (requests_t db), jobs_t := row_ins row (jobs_t db)\<rparr>"

lemma CreateJob_state:
  assumes "jb_ServiceRequestID j = Some rid"
  shows "snd (CreateJob flt now fresh j db) = db \<or>
   (\<exists>q. get_request rid db = Some q \<and> sr_Status q = RequestStatusReceived \<and>
      get_job (jb_ID (job_insert fresh now j)) db = None \<and> job_row_ok (job_insert fresh now j) \<and>
      snd (CreateJob flt now fresh j db) = converted_db now (job_insert fresh now j) rid db)"
  using assms
  by (auto simp: CreateJob_def Let_def finish_def converted_db_def split: option.splits if_splits)

definition moved_db :: "int64 \<Rightarrow> gotime \<Rightarrow> Job \<Rightarrow> Status \<Rightarrow> uuid option \<Rightarrow> string \<Rightarrow> job_db \<Rightarrow> job_db" where
  "moved_db sq now j to actor reason db =
     db\<lparr>jobs_t := row_upd jb_ID (jb_ID j) (move_job now to) (jobs_t db),
        jlog_t := jlog_t db @ [log_move sq now j to actor reason]\<rparr>"

lemma UpdateJobStatus_state:
  "snd (UpdateJobStatus flt now sq jid to actor reason db) = db \<or>
   (\<exists>j. get_job jid db = Some j \<and> isKnownStatus to \<and>
      snd (UpdateJobStatus flt now sq jid to actor reason db) = moved_db sq now j to actor reason db)"
  by (auto simp: UpdateJobStatus_def finish_def moved_db_def job_row_ok_def move_job_def
      split: option.splits dest: row_get_key)

definition new_assignment :: "uuid \<Rightarrow> gotime \<Rightarrow> Job \<Rightarrow> uuid \<Rightarrow> uuid option \<Rightarrow> JobAssignment" where
  "new_assignment fresh now j tech assignedBy =
     \<lparr>as_ID = fresh, as_JobID = jb_ID j, as_TenantID = jb_TenantID j, as_TechnicianID = tech,
      as_AssignedBy = assignedBy, as_AcceptedAt = None, as_Status = AssignmentStatusAssigned, as_CreatedAt = now\<rparr>"

definition assigned_db :: "uuid \<Rightarrow> int64 \<Rightarrow> gotime \<Rightarrow> Job \<Rightarrow> uuid \<Rightarrow> uuid option \<Rightarrow> job_db \<Rightarrow> job_db" where
  "assigned_db fresh sq now j tech assignedBy db =
     db\<lparr>assigns_t := row_ins (new_assignment fresh now j tech assignedBy) (map (retire (jb_ID j)) (assigns_t db)),
        jobs_t := row_upd jb_ID (jb_ID j) (assign_job now tech) (jobs_t db),
        jlog_t := jlog_t db @ [log_move sq now j StatusAssigned assignedBy ''technician assigned'']\<rparr>"

lemma AssignTechnician_state:
  "snd (AssignTechnician flt now fresh sq jid tech assignedBy db) = db \<or>
   (\<exists>j. get_job jid db = Some j \<and> row_get as_ID fresh (assigns_t db) = None \<and>
      snd (AssignTechnician flt now fresh sq jid tech assignedBy db) = assigned_db fresh sq now j tech assignedBy db)"
  by (auto simp: AssignTechnician_def finish_def assigned_db_def new_assignment_def
      split: option.splits dest: row_get_key)

definition accepted_db :: "int64 \<Rightarrow> gotime \<Rightarrow> Job \<Rightarrow> uuid \<Rightarrow> job_db \<Rightarrow> job_db" where
  "accepted_db sq now j tech db =
     db\<lparr>assigns_t := map (accept_row now (jb_ID j) tech) (assigns_t db),
        jobs_t := row_upd jb_ID (jb_ID j) (move_job now StatusAccepted) (jobs_t db),
        jlog_t := jlog_t db @ [log_move sq now j StatusAccepted (Some tech) ''technician accepted assignment'']\<rparr>"

lemma AcceptAssignment_state:
  "snd (AcceptAssignment flt now sq jid tech db) = db \<or>
   (\<exists>j. get_job jid db = Some j \<and> list_ex (open_for jid tech) (assigns_t db) \<and>
      snd (AcceptAssignment flt now sq jid tech db) = accepted_db sq now j tech db)"
  by (auto simp: AcceptAssignment_def finish_def accepted_db_def split: option.splits dest: row_get_key)

section \<open>Preservation\<close>

lemma job_updates_keep [simp]:
  "jb_ID (move_job now to j) = jb_ID j" "jb_ServiceRequestID (move_job now to j) = jb_ServiceRequestID j"
  "jb_TenantID (move_job now to j) = jb_TenantID j" "jb_CustomerID (move_job now to j) = jb_CustomerID j"
  "jb_TechnicianID (move_job now to j) = jb_TechnicianID j" "jb_Status (move_job now to j) = to"
  "jb_ID (assign_job now tech j) = jb_ID j" "jb_ServiceRequestID (assign_job now tech j) = jb_ServiceRequestID j"
  "jb_TenantID (assign_job now tech j) = jb_TenantID j" "jb_CustomerID (assign_job now tech j) = jb_CustomerID j"
  "jb_TechnicianID (assign_job now tech j) = Some tech" "jb_Status (assign_job now tech j) = StatusAssigned"
  "sr_ID (claim_request now r) = sr_ID r" "sr_TenantID (claim_request now r) = sr_TenantID r"
  "sr_CustomerID (claim_request now r) = sr_CustomerID r" "sr_Status (claim_request now r) = RequestStatusConverted"
  by (simp_all add: move_job_def assign_job_def claim_request_def)

lemma assignment_updates_keep [simp]:
  "as_ID (retire k a) = as_ID a" "as_JobID (retire k a) = as_JobID a" "as_TenantID (retire k a) = as_TenantID a"
  "as_TechnicianID (retire k a) = as_TechnicianID a"
  "as_ID (accept_row now k t a) = as_ID a" "as_JobID (accept_row now k t a) = as_JobID a"
  "as_TenantID (accept_row now k t a) = as_TenantID a" "as_TechnicianID (accept_row now k t a) = as_TechnicianID a"
  by (simp_all add: retire_def accept_row_def)

lemma open_retire: "is_open (retire k a) \<longleftrightarrow> is_open a \<and> as_JobID a \<noteq> k"
  by (auto simp: retire_def row_status_defs)

lemma open_accept: "is_open (accept_row now k t a) \<longleftrightarrow> is_open a \<and> \<not> open_for k t a"
  by (auto simp: accept_row_def row_status_defs)

lemma log_move_fields [simp]:
  "jt_JobID (log_move sq now j to actor reason) = jb_ID j"
  "jt_TenantID (log_move sq now j to actor reason) = jb_TenantID j"
  "jt_FromStatus (log_move sq now j to actor reason) = jb_Status j"
  "jt_ToStatus (log_move sq now j to actor reason) = to"
  by (simp_all add: log_move_def)

lemma new_assignment_fields [simp]:
  "as_ID (new_assignment fresh now j tech b) = fresh" "as_JobID (new_assignment fresh now j tech b) = jb_ID j"
  "as_TenantID (new_assignment fresh now j tech b) = jb_TenantID j"
  "as_TechnicianID (new_assignment fresh now j tech b) = tech" "is_open (new_assignment fresh now j tech b)"
  by (simp_all add: new_assignment_def)

lemma known_status_simps [simp]: "isKnownStatus StatusAssigned" "isKnownStatus StatusAccepted" "isKnownStatus StatusCreated"
  by (simp_all add: status_defs)

text \<open>Rewriting one job, its assignments in place, and one entry of the trail.\<close>

definition rewritten ::
  "uuid \<Rightarrow> (Job \<Rightarrow> Job) \<Rightarrow> (JobAssignment \<Rightarrow> JobAssignment) \<Rightarrow> JobTransition \<Rightarrow> job_db \<Rightarrow> job_db" where
  "rewritten k f g t db =
     db\<lparr>assigns_t := map g (assigns_t db), jobs_t := row_upd jb_ID k f (jobs_t db), jlog_t := jlog_t db @ [t]\<rparr>"

definition keeps_owner :: "(Job \<Rightarrow> Job) \<Rightarrow> bool" where
  "keeps_owner f \<longleftrightarrow> (\<forall>j. jb_ID (f j) = jb_ID j \<and> jb_ServiceRequestID (f j) = jb_ServiceRequestID j \<and>
     jb_TenantID (f j) = jb_TenantID j \<and> jb_CustomerID (f j) = jb_CustomerID j)"

definition keeps_assignment :: "(JobAssignment \<Rightarrow> JobAssignment) \<Rightarrow> bool" where
  "keeps_assignment g \<longleftrightarrow> (\<forall>a. as_ID (g a) = as_ID a \<and> as_JobID (g a) = as_JobID a \<and>
     as_TenantID (g a) = as_TenantID a \<and> as_TechnicianID (g a) = as_TechnicianID a \<and> (is_open (g a) \<longrightarrow> is_open a))"

lemma keeps_simps:
  assumes "keeps_owner f" and "keeps_assignment g"
  shows "jb_ID (f j) = jb_ID j" "jb_ServiceRequestID (f j) = jb_ServiceRequestID j"
    "jb_TenantID (f j) = jb_TenantID j" "jb_CustomerID (f j) = jb_CustomerID j"
    "as_ID (g a) = as_ID a" "as_JobID (g a) = as_JobID a" "as_TenantID (g a) = as_TenantID a"
    "as_TechnicianID (g a) = as_TechnicianID a" "is_open (g a) \<Longrightarrow> is_open a"
  using assms by (auto simp: keeps_owner_def keeps_assignment_def)

lemma length_filter_map_le:
  assumes "\<And>a. P (g a) \<Longrightarrow> P a"
  shows "length (filter P (map g xs)) \<le> length (filter P xs)"
  using assms by (induction xs) auto

lemma ok_rewritten:
  assumes ok: "jobs_ok db" and j: "get_job k db = Some j"
    and f: "keeps_owner f" "job_row_ok (f j)" and g: "keeps_assignment g"
    and tech: "\<And>a. is_open (g a) \<Longrightarrow> as_JobID a = k \<Longrightarrow> jb_TechnicianID (f j) = jb_TechnicianID j"
    and t: "jt_JobID t = k" "jt_TenantID t = jb_TenantID j" "jt_FromStatus t = jb_Status j" "jt_ToStatus t = jb_Status (f j)"
  shows "jobs_ok (rewritten k f g t db)"
proof -
  note ks = keeps_simps [OF f(1) g]
  let ?db = "rewritten k f g t db"
  have gj: "get_job k' ?db = (if k' = k then Some (f j) else get_job k' db)" for k'
    using j ks(1) by (simp add: rewritten_def row_get_upd)
  have req [simp]: "requests_t ?db = requests_t db" by (simp add: rewritten_def)
  have as: "assigns_t ?db = map g (assigns_t db)" by (simp add: rewritten_def)
  have log: "jlog_t ?db = jlog_t db @ [t]" by (simp add: rewritten_def)
  have jobs: "j' \<in> set (jobs_t ?db) \<Longrightarrow> \<exists>i \<in> set (jobs_t db). jb_ID j' = jb_ID i \<and>
      jb_ServiceRequestID j' = jb_ServiceRequestID i \<and> jb_TenantID j' = jb_TenantID i \<and> jb_CustomerID j' = jb_CustomerID i" for j'
    using ks by (auto simp: rewritten_def row_upd_def)
  have pks: "pk_ok sr_ID (requests_t ?db)" "pk_ok jb_ID (jobs_t ?db)" "pk_ok as_ID (assigns_t ?db)"
    using ok tbl.ok_upd [of jb_ID f] ks(1,5)
    by (simp_all add: jobs_ok_def rewritten_def pk_ok_def comp_def map_key_row_upd)
  have rows: "\<forall>j \<in> set (jobs_t ?db). job_row_ok j" "\<forall>r \<in> set (requests_t ?db). request_row_ok r"
    using ok j f(2) tbl.upd_rows_get [of jb_ID f "jobs_t db" k j] ks(1)
    by (auto simp: jobs_ok_def rewritten_def)
  have refs: "job_refs ?db"
    unfolding job_refs_def
  proof (intro conjI ballI allI impI)
    fix j' r
    assume "j' \<in> set (jobs_t ?db)" "jb_ServiceRequestID j' = Some r"
    then obtain i where "i \<in> set (jobs_t db)" "jb_ServiceRequestID i = Some r" using jobs by fastforce
    then show "get_request r ?db \<noteq> None" using ok by (simp add: jobs_ok_def job_refs_def)
  next
    fix a
    assume "a \<in> set (assigns_t ?db)"
    then obtain b where "b \<in> set (assigns_t db)" "as_JobID a = as_JobID b" using ks(6) as by auto
    then show "get_job (as_JobID a) ?db \<noteq> None" using ok gj by (simp add: jobs_ok_def job_refs_def)
  next
    fix u
    assume "u \<in> set (jlog_t ?db)"
    then consider "u = t" | "u \<in> set (jlog_t db)" using log by auto
    then show "get_job (jt_JobID u) ?db \<noteq> None"
      using ok gj t(1) by cases (simp_all add: jobs_ok_def job_refs_def)
  qed
  have conv: "one_conversion ?db"
    using ok jobs unfolding jobs_ok_def one_conversion_def req by metis
  have opens: "one_open ?db"
    unfolding one_open_def as
  proof
    fix k'
    have "length (filter (\<lambda>a. as_JobID a = k' \<and> is_open a) (map g (assigns_t db))) \<le>
        length (filter (\<lambda>a. as_JobID a = k' \<and> is_open a) (assigns_t db))"
      by (rule length_filter_map_le) (use ks in simp)
    then show "length (filter (\<lambda>a. as_JobID a = k' \<and> is_open a) (map g (assigns_t db))) \<le> 1"
      using ok unfolding jobs_ok_def one_open_def by (meson order_trans)
  qed
  have otech: "open_technician ?db"
    using ok j tech ks(6,8,9) unfolding jobs_ok_def open_technician_def as gj by (auto split: if_splits)
  have ten: "one_tenant ?db"
    using ok j t(1,2) ks(3,6,7) unfolding jobs_ok_def one_tenant_def as log gj by (auto split: if_splits)
  have tr: "trails_replay ?db"
    using ok j t unfolding jobs_ok_def trails_replay_def trail_of_def log gj by (auto simp: replay_moves_append)
  show ?thesis using pks rows refs conv opens otech ten tr by (simp add: jobs_ok_def)
qed

lemma ok_new_assignment:
  assumes ok: "jobs_ok db" and j: "get_job (as_JobID a) db = Some j"
    and a: "row_get as_ID (as_ID a) (assigns_t db) = None" "as_TenantID a = jb_TenantID j"
      "jb_TechnicianID j = Some (as_TechnicianID a)"
    and fr: "filter (\<lambda>b. as_JobID b = as_JobID a \<and> is_open b) (assigns_t db) = []"
  shows "jobs_ok (db\<lparr>assigns_t := row_ins a (assigns_t db)\<rparr>)"
proof -
  let ?db = "db\<lparr>assigns_t := row_ins a (assigns_t db)\<rparr>"
  have same: "requests_t ?db = requests_t db" "jobs_t ?db = jobs_t db" "jlog_t ?db = jlog_t db" by simp_all
  have "pk_ok as_ID (assigns_t ?db)" using ok a(1) tbl.ok_ins [of as_ID "assigns_t db" a] by (simp add: jobs_ok_def)
  moreover have "one_open ?db"
    unfolding one_open_def
  proof
    fix k
    show "length (filter (\<lambda>b. as_JobID b = k \<and> is_open b) (assigns_t ?db)) \<le> 1"
      using ok fr by (cases "as_JobID a = k") (auto simp: jobs_ok_def one_open_def row_ins_def)
  qed
  moreover have "job_refs ?db" "open_technician ?db" "one_tenant ?db"
    using ok j a by (simp_all add: jobs_ok_def job_refs_def open_technician_def one_tenant_def)
  moreover have "one_conversion ?db = one_conversion db" "trails_replay ?db = trails_replay db"
    unfolding one_conversion_def trails_replay_def trail_of_def same by (rule refl)+
  ultimately show ?thesis using ok by (simp add: jobs_ok_def)
qed

lemma ok_moved:
  assumes "jobs_ok db" and "get_job k db = Some j" and "isKnownStatus to"
  shows "jobs_ok (moved_db sq now j to actor reason db)"
proof -
  have "moved_db sq now j to actor reason db = rewritten k (move_job now to) id (log_move sq now j to actor reason) db"
    using row_get_key [OF assms(2)] by (simp add: moved_db_def rewritten_def)
  also have "jobs_ok \<dots>"
    by (rule ok_rewritten [OF assms(1,2)])
      (use assms row_get_key [OF assms(2)] in \<open>auto simp: keeps_owner_def keeps_assignment_def job_row_ok_def\<close>)
  finally show ?thesis .
qed

lemma ok_accepted:
  assumes "jobs_ok db" and "get_job k db = Some j"
  shows "jobs_ok (accepted_db sq now j tech db)"
proof -
  have "accepted_db sq now j tech db = rewritten k (move_job now StatusAccepted) (accept_row now (jb_ID j) tech)
      (log_move sq now j StatusAccepted (Some tech) ''technician accepted assignment'') db"
    using row_get_key [OF assms(2)] by (simp add: accepted_db_def rewritten_def)
  also have "jobs_ok \<dots>"
    by (rule ok_rewritten [OF assms])
      (use assms row_get_key [OF assms(2)] in
        \<open>auto simp: keeps_owner_def keeps_assignment_def job_row_ok_def open_accept\<close>)
  finally show ?thesis .
qed

lemma ok_assigned:
  assumes "jobs_ok db" and "get_job k db = Some j" and "row_get as_ID fresh (assigns_t db) = None"
  shows "jobs_ok (assigned_db fresh sq now j tech assignedBy db)"
proof -
  let ?mid = "rewritten k (assign_job now tech) (retire k)
      (log_move sq now j StatusAssigned assignedBy ''technician assigned'') db"
  have k: "jb_ID j = k" using row_get_key [OF assms(2)] .
  have mid: "jobs_ok ?mid"
    by (rule ok_rewritten [OF assms(1,2)])
      (use assms k in \<open>auto simp: keeps_owner_def keeps_assignment_def job_row_ok_def open_retire\<close>)
  have "get_job k ?mid = Some (assign_job now tech j)"
    using assms(2) by (simp add: rewritten_def row_get_upd)
  moreover have "filter (\<lambda>b. as_JobID b = k \<and> is_open b) (assigns_t ?mid) = []"
    by (auto simp: rewritten_def filter_empty_conv open_retire)
  moreover have "row_get as_ID fresh (assigns_t ?mid) = None"
    using assms(3) by (auto simp: rewritten_def row_get_def find_None_iff)
  ultimately have "jobs_ok (?mid\<lparr>assigns_t := row_ins (new_assignment fresh now j tech assignedBy) (assigns_t ?mid)\<rparr>)"
    by (intro ok_new_assignment [OF mid, where j = "assign_job now tech j"]) (simp_all add: k)
  also have "?mid\<lparr>assigns_t := row_ins (new_assignment fresh now j tech assignedBy) (assigns_t ?mid)\<rparr> =
      assigned_db fresh sq now j tech assignedBy db"
    by (simp add: rewritten_def assigned_db_def k)
  finally show ?thesis .
qed

lemma ok_request:
  assumes ok: "jobs_ok db" and "get_request (sr_ID r) db = None" and "request_row_ok r"
  shows "jobs_ok (db\<lparr>requests_t := row_ins r (requests_t db)\<rparr>)"
proof -
  let ?db = "db\<lparr>requests_t := row_ins r (requests_t db)\<rparr>"
  have gr: "get_request k ?db = (if k = sr_ID r then Some r else get_request k db)" for k
    using assms(2) by (auto simp: row_get_ins split: option.split)
  have fr: "jb_ServiceRequestID j \<noteq> Some (sr_ID r)" if "j \<in> set (jobs_t db)" for j
    using ok that assms(2) by (auto simp: jobs_ok_def job_refs_def)
  have "pk_ok sr_ID (requests_t ?db)" using ok assms(2) tbl.ok_ins [of sr_ID "requests_t db" r] by (simp add: jobs_ok_def)
  moreover have "job_refs ?db" using ok unfolding jobs_ok_def job_refs_def gr by auto
  moreover have "one_conversion ?db"
  proof (rule one_conversionI)
    fix j j' r'
    assume "j \<in> set (jobs_t ?db)" "j' \<in> set (jobs_t ?db)" "jb_ServiceRequestID j = Some r'" "jb_ServiceRequestID j' = Some r'"
    then show "jb_ID j = jb_ID j'" using ok conversion_unique [of db j j' r'] by (simp add: jobs_ok_def)
  next
    fix j r' q
    assume "j \<in> set (jobs_t ?db)" "jb_ServiceRequestID j = Some r'" "get_request r' ?db = Some q"
    then show "sr_Status q = RequestStatusConverted \<and> jb_TenantID j = sr_TenantID q \<and> jb_CustomerID j = sr_CustomerID q"
      using ok fr [of j] gr [of r'] conversion_owner [of db j r' q] by (auto simp: jobs_ok_def split: if_splits)
  qed
  ultimately show ?thesis
    using ok assms(3) by (auto simp: jobs_ok_def one_open_def open_technician_def one_tenant_def trails_replay_def trail_of_def)
qed

lemma ok_converted:
  assumes ok: "jobs_ok db" and q: "get_request rid db = Some q" "sr_Status q = RequestStatusReceived"
    and row: "get_job (jb_ID row) db = None" "job_row_ok row" "jb_ServiceRequestID row = Some rid"
      "jb_TenantID row = sr_TenantID q" "jb_CustomerID row = sr_CustomerID q" "jb_Status row = StatusCreated"
  shows "jobs_ok (converted_db now row rid db)"
proof -
  let ?db = "converted_db now row rid db"
  have gr: "get_request k ?db = (if k = rid then Some (claim_request now q) else get_request k db)" for k
    using q(1) by (simp add: converted_db_def row_get_upd)
  have gj: "get_job k ?db = (if k = jb_ID row then Some row else get_job k db)" for k
    using row(1) by (auto simp: converted_db_def row_get_ins split: option.split)
  have none: "jb_ServiceRequestID j \<noteq> Some rid" if "j \<in> set (jobs_t db)" for j
    using ok that q by (auto simp: jobs_ok_def one_conversion_def row_status_defs)
  have jobs: "set (jobs_t ?db) = insert row (set (jobs_t db))" by (simp add: converted_db_def)
  have as: "assigns_t ?db = assigns_t db" and log: "jlog_t ?db = jlog_t db" by (simp_all add: converted_db_def)
  have noref: "\<forall>a \<in> set (assigns_t db). as_JobID a \<noteq> jb_ID row" "\<forall>t \<in> set (jlog_t db). jt_JobID t \<noteq> jb_ID row"
    using ok row(1) by (auto simp: jobs_ok_def job_refs_def)
  have "pk_ok sr_ID (requests_t ?db)" "pk_ok jb_ID (jobs_t ?db)" "pk_ok as_ID (assigns_t ?db)"
    using ok row(1) tbl.ok_ins [of jb_ID "jobs_t db" row] tbl.ok_upd [of sr_ID "claim_request now"]
    by (simp_all add: jobs_ok_def converted_db_def)
  moreover have "\<forall>j \<in> set (jobs_t ?db). job_row_ok j" using ok row(2) jobs by (simp add: jobs_ok_def)
  moreover have "\<forall>r \<in> set (requests_t ?db). request_row_ok r"
    using ok by (auto simp: jobs_ok_def converted_db_def set_row_upd request_row_ok_def)
  moreover have "job_refs ?db"
    using ok q(1) row(3) by (simp add: jobs_ok_def job_refs_def gr gj jobs as log)
  moreover have "one_conversion ?db"
  proof (rule one_conversionI)
    fix j j' r'
    assume "j \<in> set (jobs_t ?db)" "j' \<in> set (jobs_t ?db)" "jb_ServiceRequestID j = Some r'" "jb_ServiceRequestID j' = Some r'"
    then show "jb_ID j = jb_ID j'"
      using ok conversion_unique [of db j j' r'] none [of j] none [of j'] row(3) by (auto simp: jobs_ok_def jobs)
  next
    fix j r' q'
    assume "j \<in> set (jobs_t ?db)" "jb_ServiceRequestID j = Some r'" "get_request r' ?db = Some q'"
    then show "sr_Status q' = RequestStatusConverted \<and> jb_TenantID j = sr_TenantID q' \<and> jb_CustomerID j = sr_CustomerID q'"
      using ok none [of j] row(3-5) gr [of r'] conversion_owner [of db j r' q'] by (auto simp: jobs_ok_def jobs split: if_splits)
  qed
  moreover have "one_open ?db" "open_technician ?db" "one_tenant ?db"
    using ok noref by (simp_all add: jobs_ok_def one_open_def open_technician_def one_tenant_def gj as log)
  moreover have "trails_replay ?db"
    using ok noref(2) row(6) by (simp add: jobs_ok_def trails_replay_def trail_of_def gj log filter_empty_conv)
  ultimately show ?thesis by (simp add: jobs_ok_def)
qed

end
