(* ===== verification/Job_Flows.thy ===== *)
theory Job_Flows
  imports Job_Ledger
begin

text \<open>
  What the jobs service guarantees across its handlers. \<open>job_step\<close> is one store operation with the
  arguments the service uses; what holds of \<open>job_run\<close> holds of every interleaving of the store
  operations of concurrent handlers. \<open>job_call\<close> is a whole handler, run without interruption.
\<close>

section \<open>Steps\<close>

inductive job_step :: "job_db \<Rightarrow> job_db \<Rightarrow> bool" where
  s_request: "job_step db (snd (CreateRequest flt now fresh r db))"
| s_convert: "(\<And>q. get_request (sr_ID r) db = Some q \<Longrightarrow>
      sr_TenantID q = sr_TenantID r \<and> sr_CustomerID q = sr_CustomerID r) \<Longrightarrow>
    job_step db (snd (CreateJob flt now fresh (new_job r) db))"
| s_move: "job_step db (snd (UpdateJobStatus flt now sq jid to actor reason db))"
| s_assign: "job_step db (snd (AssignTechnician flt now fresh sq jid tech assignedBy db))"
| s_accept: "job_step db (snd (AcceptAssignment flt now sq jid tech db))"

inductive_cases job_stepE: "job_step db db'"

definition job_run :: "job_db \<Rightarrow> job_db \<Rightarrow> bool" where
  "job_run = job_step\<^sup>*\<^sup>*"

lemma job_run_refl [simp]: "job_run db db"
  by (simp add: job_run_def)

lemma job_run_one: "job_step a b \<Longrightarrow> job_run a b"
  by (simp add: job_run_def)

lemma job_run_trans [trans]: "job_run a b \<Longrightarrow> job_run b c \<Longrightarrow> job_run a c"
  by (simp add: job_run_def)

lemma new_job_insert [simp]:
  "jb_ServiceRequestID (job_insert fresh now (new_job r)) = Some (sr_ID r)"
  "jb_TenantID (job_insert fresh now (new_job r)) = sr_TenantID r"
  "jb_CustomerID (job_insert fresh now (new_job r)) = sr_CustomerID r"
  "jb_Status (job_insert fresh now (new_job r)) = StatusCreated"
  "jb_ID (job_insert fresh now (new_job r)) = fresh"
  "jb_ServiceRequestID (new_job r) = Some (sr_ID r)"
  by (simp_all add: job_insert_def new_job_def)

text \<open>
  Every step either leaves the tables, or is one of five effects. The later arguments are by cases
  on the effect.
\<close>

lemma job_step_effect:
  assumes "job_step db db'"
  obtains (same) "db' = db"
  | (request) r where "get_request (sr_ID r) db = None" "request_row_ok r"
      "db' = db\<lparr>requests_t := row_ins r (requests_t db)\<rparr>"
  | (convert) now row rid q where "get_request rid db = Some q" "sr_Status q = RequestStatusReceived"
      "get_job (jb_ID row) db = None" "job_row_ok row" "jb_ServiceRequestID row = Some rid"
      "jb_TenantID row = sr_TenantID q" "jb_CustomerID row = sr_CustomerID q" "jb_Status row = StatusCreated"
      "db' = converted_db now row rid db"
  | (move) k j sq now to actor reason where "get_job k db = Some j" "isKnownStatus to"
      "db' = moved_db sq now j to actor reason db"
  | (assign) k j fresh sq now tech assignedBy where "get_job k db = Some j"
      "row_get as_ID fresh (assigns_t db) = None" "db' = assigned_db fresh sq now j tech assignedBy db"
  | (accept) k j sq now tech where "get_job k db = Some j" "list_ex (open_for k tech) (assigns_t db)"
      "db' = accepted_db sq now j tech db"
  using assms
proof (cases rule: job_step.cases)
  case (s_request flt now fresh r)
  then show ?thesis using CreateRequest_state [of flt now fresh r db] same request by metis
next
  case (s_convert r flt now fresh)
  then show ?thesis
    using CreateJob_state [OF new_job_insert(6), of flt now fresh r db] same
      convert [of "sr_ID r" _ "job_insert fresh now (new_job r)" now] by fastforce
next
  case (s_move flt now sq jid to actor reason)
  then show ?thesis using UpdateJobStatus_state [of flt now sq jid to actor reason db] same move by metis
next
  case (s_assign flt now fresh sq jid tech assignedBy)
  then show ?thesis using AssignTechnician_state [of flt now fresh sq jid tech assignedBy db] same assign by metis
next
  case (s_accept flt now sq jid tech)
  then show ?thesis using AcceptAssignment_state [of flt now sq jid tech db] same accept by metis
qed

lemma job_step_ok: "job_step db db' \<Longrightarrow> jobs_ok db \<Longrightarrow> jobs_ok db'"
  by (erule job_step_effect)
    (auto intro: ok_request ok_converted ok_moved ok_assigned ok_accepted)

lemma job_run_ok: "job_run db db' \<Longrightarrow> jobs_ok db \<Longrightarrow> jobs_ok db'"
  unfolding job_run_def by (induction rule: rtranclp_induct) (auto intro: job_step_ok)

section \<open>History\<close>

definition request_evolves :: "ServiceRequest \<Rightarrow> ServiceRequest \<Rightarrow> bool" where
  "request_evolves r r' \<longleftrightarrow>
     sr_TenantID r' = sr_TenantID r \<and> sr_CustomerID r' = sr_CustomerID r \<and> sr_Description r' = sr_Description r \<and>
     (sr_Status r = RequestStatusConverted \<longrightarrow> sr_Status r' = RequestStatusConverted)"

definition job_evolves :: "Job \<Rightarrow> Job \<Rightarrow> bool" where
  "job_evolves j j' \<longleftrightarrow>
     jb_TenantID j' = jb_TenantID j \<and> jb_CustomerID j' = jb_CustomerID j \<and>
     jb_ServiceRequestID j' = jb_ServiceRequestID j \<and> jb_VehicleID j' = jb_VehicleID j \<and>
     jb_ProblemSummary j' = jb_ProblemSummary j \<and> jb_CreatedAt j' = jb_CreatedAt j"

definition closed_evolves :: "JobAssignment \<Rightarrow> JobAssignment \<Rightarrow> bool" where
  "closed_evolves a a' \<longleftrightarrow>
     as_JobID a' = as_JobID a \<and> as_TechnicianID a' = as_TechnicianID a \<and> as_AssignedBy a' = as_AssignedBy a \<and>
     (\<not> is_open a \<longrightarrow> a' = a)"

interpretation rq: row_discipline sr_ID request_evolves
  by unfold_locales (auto simp: request_evolves_def)

interpretation jb: row_discipline jb_ID job_evolves
  by unfold_locales (auto simp: job_evolves_def)

interpretation asg: row_discipline as_ID closed_evolves
  by unfold_locales (auto simp: closed_evolves_def)

lemma te_map:
  assumes "\<And>r. key (f r) = key r" and "\<And>r. ev r (f r)"
  shows "table_evolves key ev rows (map f rows)"
proof -
  have "row_get key k (map f rows) = map_option f (row_get key k rows)" for k
    using assms(1) by (induction rows) (auto simp: row_get_def)
  then show ?thesis using assms(2) by (auto simp: table_evolves_def)
qed

definition jobs_evolve :: "job_db \<Rightarrow> job_db \<Rightarrow> bool" where
  "jobs_evolve db db' \<longleftrightarrow>
     table_evolves sr_ID request_evolves (requests_t db) (requests_t db') \<and>
     table_evolves jb_ID job_evolves (jobs_t db) (jobs_t db') \<and>
     table_evolves as_ID closed_evolves (assigns_t db) (assigns_t db') \<and>
     (\<exists>ts. jlog_t db' = jlog_t db @ ts)"

lemma jobs_evolve_refl: "jobs_evolve db db"
  by (simp add: jobs_evolve_def rq.te_refl jb.te_refl asg.te_refl)

lemma jobs_evolve_trans: "jobs_evolve a b \<Longrightarrow> jobs_evolve b c \<Longrightarrow> jobs_evolve a c"
  unfolding jobs_evolve_def using rq.te_trans jb.te_trans asg.te_trans by (metis append.assoc)

lemma closed_updates:
  "closed_evolves a (retire k a)" "closed_evolves a (accept_row now k tech a)"
  by (auto simp: closed_evolves_def retire_def accept_row_def open_for_def)

lemma owner_updates:
  "job_evolves j (move_job now to j)" "job_evolves j (assign_job now tech j)"
  "request_evolves r (claim_request now r)"
  by (auto simp: job_evolves_def request_evolves_def move_job_def assign_job_def claim_request_def)

lemma job_step_evolves: "job_step db db' \<Longrightarrow> jobs_evolve db db'"
proof (erule job_step_effect)
  fix fresh sq now tech assignedBy k j
  assume db': "db' = assigned_db fresh sq now j tech assignedBy db"
  have "table_evolves as_ID closed_evolves (assigns_t db) (map (retire (jb_ID j)) (assigns_t db))"
    by (rule te_map) (simp_all add: closed_updates)
  then have "table_evolves as_ID closed_evolves (assigns_t db)
      (row_ins (new_assignment fresh now j tech assignedBy) (map (retire (jb_ID j)) (assigns_t db)))"
    by (rule asg.te_trans) (rule asg.te_ins)
  then show "jobs_evolve db db'"
    using db' by (simp add: jobs_evolve_def rq.te_refl jb.te_upd assigned_db_def owner_updates)
qed (simp_all add: jobs_evolve_refl jobs_evolve_def rq.te_refl jb.te_refl asg.te_refl rq.te_ins jb.te_ins
    rq.te_upd jb.te_upd converted_db_def moved_db_def accepted_db_def owner_updates te_map closed_updates)

lemma job_run_evolves: "job_run db db' \<Longrightarrow> jobs_evolve db db'"
  unfolding job_run_def
  by (induction rule: rtranclp_induct) (auto intro: jobs_evolve_refl jobs_evolve_trans job_step_evolves)

section \<open>Handlers are runs\<close>

lemma job_publish_db [simp]: "jw_db (snd (job_publish c ty ag actor tn pl w)) = jw_db w"
  by (auto simp: job_publish_def Let_def split: option.split)

lemma announced_db [simp]: "jw_db (snd (announced v r)) = jw_db (snd r)"
  by (auto simp: announced_def split: prod.split option.split)

lemma GetRequest_Inr:
  "GetRequest e flt rid scope db = Inr r \<Longrightarrow> pk_ok sr_ID (requests_t db) \<Longrightarrow> get_request rid db = Some r"
  by (auto simp: GetRequest_def tbl.get_rows split: if_splits option.splits prod.splits dest: find_SomeD)

lemma GetJob_Inr:
  "GetJob e flt jid scope db = Inr j \<Longrightarrow> pk_ok jb_ID (jobs_t db) \<Longrightarrow> get_job jid db = Some j"
  by (auto simp: GetJob_def tbl.get_rows split: if_splits option.splits prod.splits dest: find_SomeD)

lemma Service_CreateRequest_run: "job_run (jw_db w) (jw_db (snd (Service_CreateRequest c r w)))"
proof -
  have "job_run (jw_db w) (snd (CreateRequest f n i r1 (jw_db w)))" for f n i r1
    by (rule job_run_one, rule s_request)
  then show ?thesis
    unfolding Service_CreateRequest_def by (auto split: sum.split prod.split) (metis snd_conv)+
qed

lemma conversion_write_run:
  assumes "\<And>q. get_request (sr_ID r) (jw_db w) = Some q \<Longrightarrow>
      sr_TenantID q = sr_TenantID r \<and> sr_CustomerID q = sr_CustomerID r"
  shows "job_run (jw_db w) (jw_db (snd (conversion_write c scope r w)))"
proof -
  have "job_run (jw_db w) (snd (CreateJob f n i (new_job r) (jw_db w)))" for f n i
    by (rule job_run_one, rule s_convert) (use assms in blast)
  then show ?thesis
    unfolding conversion_write_def by (auto split: sum.split prod.split) (metis snd_conv)+
qed

lemma CreateJobFromRequest_run:
  assumes "jobs_ok (jw_db w)"
  shows "job_run (jw_db w) (jw_db (snd (CreateJobFromRequest c rid scope w)))"
proof (cases "conversion_check c rid scope (jw_db w)")
  case (Inl e)
  then show ?thesis by (simp add: CreateJobFromRequest_def)
next
  case (Inr r)
  then have "GetRequest (jc_engine c) (jc_flt c 0) rid scope (jw_db w) = Inr r"
    by (auto simp: conversion_check_def split: sum.splits if_splits)
  then have r: "get_request rid (jw_db w) = Some r" using assms GetRequest_Inr by (simp add: jobs_ok_def)
  show ?thesis
    using Inr conversion_write_run [of r w] r row_get_key [OF r] by (simp add: CreateJobFromRequest_def)
qed

lemma transition_write_run: "job_run (jw_db w) (jw_db (snd (transition_write c k jid to actor reason j w)))"
proof -
  have "job_run (jw_db w) (snd (UpdateJobStatus f n q jid to actor reason (jw_db w)))" for f n q
    by (rule job_run_one, rule s_move)
  then show ?thesis
    unfolding transition_write_def by (auto split: sum.split prod.split) (metis snd_conv)+
qed

lemma Transition_run: "job_run (jw_db w) (jw_db (snd (Transition c k jid to actor reason scope w)))"
  by (simp add: Transition_def transition_write_run split: sum.split)

lemma assign_write_run: "job_run (jw_db w) (jw_db (snd (assign_write c k jid tech assignedBy j w)))"
proof -
  have "job_run (jw_db w) (snd (AssignTechnician f n i q jid tech assignedBy (jw_db w)))" for f n i q
    by (rule job_run_one, rule s_assign)
  then show ?thesis
    unfolding assign_write_def by (auto split: sum.split prod.split) (metis snd_conv)+
qed

lemma Service_AssignTechnician_run:
  "job_run (jw_db w) (jw_db (snd (Service_AssignTechnician c jid tech assignedBy scope w)))"
proof -
  have "job_run (jw_db w) (jw_db (snd (assign_write c 3 jid tech assignedBy j
      (snd (Transition c 1 jid StatusDispatching assignedBy ''reassignment'' scope w)))))" for j
    using job_run_trans [OF Transition_run assign_write_run] .
  then show ?thesis
    using Transition_run [of w c 1 jid StatusDispatching assignedBy "''reassignment''" scope]
    by (auto simp: Service_AssignTechnician_def assign_write_run split: assign_decision.split sum.split prod.split)
qed

lemma accept_write_run: "job_run (jw_db w) (jw_db (snd (accept_write c jid tech j w)))"
proof -
  have "job_run (jw_db w) (snd (AcceptAssignment f n q jid tech (jw_db w)))" for f n q
    by (rule job_run_one, rule s_accept)
  then show ?thesis
    unfolding accept_write_def by (auto split: sum.split prod.split) (metis snd_conv)+
qed

lemma Accept_run: "job_run (jw_db w) (jw_db (snd (Accept c jid tech scope w)))"
  by (simp add: Accept_def accept_write_run split: sum.split)

section \<open>Uninterrupted handlers\<close>

inductive job_call :: "job_world \<Rightarrow> job_world \<Rightarrow> bool" where
  call_request: "job_call w (snd (Service_CreateRequest c r w))"
| call_convert: "job_call w (snd (CreateJobFromRequest c rid scope w))"
| call_transition: "job_call w (snd (Transition c k jid to actor reason scope w))"
| call_assign: "job_call w (snd (Service_AssignTechnician c jid tech assignedBy scope w))"
| call_accept: "job_call w (snd (Accept c jid tech scope w))"

lemma job_call_run: "job_call w w' \<Longrightarrow> jobs_ok (jw_db w) \<Longrightarrow> job_run (jw_db w) (jw_db w')"
  by (induction rule: job_call.induct)
    (auto intro: Service_CreateRequest_run CreateJobFromRequest_run Transition_run
      Service_AssignTechnician_run Accept_run)

lemma job_calls_run:
  assumes "job_call\<^sup>*\<^sup>* w w'" and "jobs_ok (jw_db w)"
  shows "job_run (jw_db w) (jw_db w')"
  using assms(1)
proof (induction rule: rtranclp_induct)
  case (step w1 w2)
  then have "jobs_ok (jw_db w1)" using job_run_ok assms(2) by blast
  then show ?case using step job_call_run job_run_trans by blast
qed simp

definition legal_trail :: "job_db \<Rightarrow> bool" where
  "legal_trail db \<longleftrightarrow> (\<forall>t \<in> set (jlog_t db). CanTransition (jt_FromStatus t) (jt_ToStatus t) = None)"

lemma legal_trail_same: "jlog_t db' = jlog_t db \<Longrightarrow> legal_trail db \<Longrightarrow> legal_trail db'"
  by (simp add: legal_trail_def)

lemma CreateRequest_log [simp]: "jlog_t (snd (CreateRequest f n i r db)) = jlog_t db"
  using CreateRequest_state [of f n i r db] by auto

lemma CreateJob_log [simp]: "jlog_t (snd (CreateJob f n i (new_job r) db)) = jlog_t db"
  using CreateJob_state [OF new_job_insert(6), of f n i r db] by (auto simp: converted_db_def)

lemma legal_moved:
  assumes "legal_trail db" and "get_job jid db = Some j" and "CanTransition (jb_Status j) to = None"
  shows "legal_trail (snd (UpdateJobStatus f n q jid to actor reason db))"
  using UpdateJobStatus_state [of f n q jid to actor reason db] assms
  by (auto simp: legal_trail_def moved_db_def)

lemma legal_assigned:
  assumes "legal_trail db" and "get_job jid db = Some j" and "jb_Status j = StatusDispatching"
  shows "legal_trail (snd (AssignTechnician f n i q jid tech b db))"
  using AssignTechnician_state [of f n i q jid tech b db] assms
  by (auto simp: legal_trail_def assigned_db_def CanTransition_def)

lemma legal_accepted:
  assumes "legal_trail db" and "get_job jid db = Some j" and "CanTransition (jb_Status j) StatusAccepted = None"
  shows "legal_trail (snd (AcceptAssignment f n q jid tech db))"
  using AcceptAssignment_state [of f n q jid tech db] assms
  by (auto simp: legal_trail_def accepted_db_def)

lemma writes_db:
  "jw_db (snd (transition_write c k jid to actor reason j w)) =
     snd (UpdateJobStatus (jc_flt c (Suc k)) (jc_now c (Suc k)) (jc_seq c (Suc k)) jid to actor reason (jw_db w))"
  "jw_db (snd (assign_write c k jid tech b j w)) =
     snd (AssignTechnician (jc_flt c k) (jc_now c k) (jc_fresh c k) (jc_seq c k) jid tech b (jw_db w))"
  "jw_db (snd (accept_write c jid tech j w)) =
     snd (AcceptAssignment (jc_flt c 1) (jc_now c 1) (jc_seq c 1) jid tech (jw_db w))"
  "jw_db (snd (conversion_write c scope r w)) =
     snd (CreateJob (jc_flt c 1) (jc_now c 1) (jc_fresh c 1) (new_job r) (jw_db w))"
  by (auto simp: transition_write_def assign_write_def accept_write_def conversion_write_def
      split: sum.split prod.split)

lemma transition_check_Inr:
  assumes "transition_check c k jid to scope db = Inr j" and "pk_ok jb_ID (jobs_t db)"
  shows "get_job jid db = Some j" and "CanTransition (jb_Status j) to = None"
  using assms GetJob_Inr by (auto simp: transition_check_def split: sum.splits option.splits)

lemma Transition_legal:
  assumes "legal_trail (jw_db w)" and "jobs_ok (jw_db w)"
  shows "legal_trail (jw_db (snd (Transition c k jid to actor reason scope w)))"
proof (cases "transition_check c k jid to scope (jw_db w)")
  case (Inr j)
  then show ?thesis
    using assms transition_check_Inr [OF Inr] legal_moved [OF assms(1)]
    by (simp add: Transition_def writes_db jobs_ok_def)
qed (simp add: Transition_def assms)

text \<open>A transition that reports success has left the job in the requested status.\<close>

lemma announced_Inr: "announced v r = (Inr v', w') \<Longrightarrow> v' = v \<and> r = (None, w')"
  by (auto simp: announced_def split: prod.splits option.splits)

lemma UpdateJobStatus_Inr:
  "UpdateJobStatus f n q jid to actor reason db = (Inr u, db') \<Longrightarrow>
     \<exists>j. get_job jid db = Some j \<and> db' = moved_db q n j to actor reason db"
  by (auto simp: UpdateJobStatus_def moved_db_def split: if_splits option.splits dest!: finish_Inr row_get_key)

lemma moved_job: "get_job k db = Some j \<Longrightarrow>
    get_job k (moved_db sq now j to actor reason db) = Some (move_job now to j)"
  using row_get_key [of jb_ID k "jobs_t db" j] by (simp add: moved_db_def row_get_upd)

lemma Transition_Inr:
  assumes "Transition c k jid to actor reason scope w = (Inr u, w')"
  shows "\<exists>j. get_job jid (jw_db w') = Some j \<and> jb_Status j = to"
proof -
  obtain j where tw: "transition_write c k jid to actor reason j w = (Inr u, w')"
    using assms by (auto simp: Transition_def split: sum.splits)
  obtain v db where up: "UpdateJobStatus (jc_flt c (Suc k)) (jc_now c (Suc k)) (jc_seq c (Suc k)) jid to actor reason (jw_db w) =
      (Inr v, db)"
    using tw by (auto simp: transition_write_def split: prod.splits sum.splits)
  have "jw_db w' = db" using writes_db(1) [of c k jid to actor reason j w] tw up by simp
  then show ?thesis using UpdateJobStatus_Inr [OF up] moved_job by fastforce
qed

lemma Service_AssignTechnician_legal:
  assumes "legal_trail (jw_db w)" and "jobs_ok (jw_db w)"
  shows "legal_trail (jw_db (snd (Service_AssignTechnician c jid tech b scope w)))"
proof (cases "assign_check c jid tech scope (jw_db w)")
  case (AssignDirect j)
  then have "GetJob (jc_engine c) (jc_flt c 0) jid scope (jw_db w) = Inr j" "jb_Status j = StatusDispatching"
    by (auto simp: assign_check_def split: sum.splits if_splits option.splits)
  then show ?thesis
    using AssignDirect GetJob_Inr assms legal_assigned [OF assms(1)]
    by (simp add: Service_AssignTechnician_def writes_db jobs_ok_def)
next
  case (AssignAfterStep j)
  obtain res w1 where tr: "Transition c 1 jid StatusDispatching b ''reassignment'' scope w = (res, w1)" by fastforce
  have t: "legal_trail (jw_db w1)" using Transition_legal [OF assms, of c 1 jid StatusDispatching b] tr by (metis snd_conv)
  show ?thesis
  proof (cases res)
    case (Inl e)
    then show ?thesis using AssignAfterStep tr t by (simp add: Service_AssignTechnician_def)
  next
    case (Inr u)
    obtain j' where "get_job jid (jw_db w1) = Some j'" "jb_Status j' = StatusDispatching"
      using Transition_Inr [OF tr [unfolded Inr]] by blast
    then have "legal_trail (jw_db (snd (assign_write c 3 jid tech b j w1)))"
      using legal_assigned [OF t] by (simp add: writes_db)
    then show ?thesis using AssignAfterStep tr Inr by (simp add: Service_AssignTechnician_def)
  qed
qed (simp_all add: Service_AssignTechnician_def assms)

lemma Accept_legal:
  assumes "legal_trail (jw_db w)" and "jobs_ok (jw_db w)"
  shows "legal_trail (jw_db (snd (Accept c jid tech scope w)))"
proof (cases "accept_check c jid tech scope (jw_db w)")
  case (Inr j)
  then have "GetJob (jc_engine c) (jc_flt c 0) jid scope (jw_db w) = Inr j" "CanTransition (jb_Status j) StatusAccepted = None"
    by (auto simp: accept_check_def split: sum.splits if_splits option.splits)
  then show ?thesis
    using Inr GetJob_Inr assms legal_accepted [OF assms(1)] by (simp add: Accept_def writes_db jobs_ok_def)
qed (simp add: Accept_def assms)

lemma job_call_legal:
  "job_call w w' \<Longrightarrow> jobs_ok (jw_db w) \<Longrightarrow> legal_trail (jw_db w) \<Longrightarrow> legal_trail (jw_db w')"
proof (induction rule: job_call.induct)
  case (call_request w c r)
  have "jlog_t (jw_db (snd (Service_CreateRequest c r w))) = jlog_t (jw_db w)"
    unfolding Service_CreateRequest_def by (auto split: sum.split prod.split) (metis CreateRequest_log snd_conv)+
  then show ?case using call_request legal_trail_same by blast
next
  case (call_convert w c rid scope)
  have "jlog_t (jw_db (snd (CreateJobFromRequest c rid scope w))) = jlog_t (jw_db w)"
    by (simp add: CreateJobFromRequest_def writes_db split: sum.split)
  then show ?case using call_convert legal_trail_same by blast
qed (simp_all add: Transition_legal Service_AssignTechnician_legal Accept_legal)

end
