(* ===== verification/Job_Props.thy ===== *)
theory Job_Props
  imports Job_Flows
begin

text \<open>
  The properties of the jobs domain: the integrity of its tables under every interleaving of the
  store operations, the legality of the moves when handlers run one after the other, what the
  missing re-check under the row lock allows when they race, the scoped reads against their
  reference, and the error paths.
\<close>

section \<open>Samples\<close>

definition operator_scope :: ReadScope where
  "operator_scope = \<lparr>sp_ViewerID = 1, sp_TenantID = None, sp_Operator = True\<rparr>"

definition technician_scope :: ReadScope where
  "technician_scope = \<lparr>sp_ViewerID = 6, sp_TenantID = None, sp_Operator = False\<rparr>"

definition calm_env :: job_env where
  "calm_env = \<lparr>jc_engine = documented_pgx, jc_flt = (\<lambda>_. Healthy), jc_now = (\<lambda>n. 10 + int n),
     jc_fresh = (\<lambda>n. if n = 0 then 7 else 9), jc_seq = (\<lambda>n. if n = 0 then 1 else 2),
     jc_pub = Some (\<lambda>_. True), jc_correlation = ''req-1''\<rparr>"

lemma calm_fields [simp]:
  "jc_engine calm_env = documented_pgx" "jc_flt calm_env n = Healthy" "jc_now calm_env n = 10 + int n"
  "jc_fresh calm_env n = (if n = 0 then 7 else 9)" "jc_seq calm_env n = (if n = 0 then 1 else 2)"
  "jc_pub calm_env = Some (\<lambda>_. True)" "jc_correlation calm_env = ''req-1''"
  by (simp_all add: calm_env_def)

lemma operator_fields [simp]: "sp_Operator operator_scope" "sp_ViewerID operator_scope = 1"
  by (simp_all add: operator_scope_def)

definition sample_request :: ServiceRequest where
  "sample_request = \<lparr>sr_ID = uuid_nil, sr_TenantID = Some 2, sr_CustomerID = 3, sr_VehicleID = None,
     sr_Description = ''brakes'', sr_LocationLat = None, sr_LocationLng = None, sr_AddressText = [],
     sr_Status = [], sr_CreatedAt = 0, sr_UpdatedAt = 0\<rparr>"

definition jobs_w0 :: job_world where
  "jobs_w0 = \<lparr>jw_db = empty_job_db, jw_events = []\<rparr>"

definition jobs_w1 :: job_world where
  "jobs_w1 = snd (Service_CreateRequest calm_env sample_request jobs_w0)"

definition jobs_w2 :: job_world where
  "jobs_w2 = snd (CreateJobFromRequest calm_env 7 operator_scope jobs_w1)"

definition sample_job :: Job where
  "sample_job = \<lparr>jb_ID = 9, jb_ServiceRequestID = Some 7, jb_TenantID = Some 2, jb_CustomerID = 3,
     jb_VehicleID = None, jb_Status = StatusCreated, jb_ProblemSummary = ''brakes'', jb_TechnicianID = None,
     jb_CreatedAt = 11, jb_UpdatedAt = 11\<rparr>"

definition converted_request :: ServiceRequest where
  "converted_request = sample_request\<lparr>sr_ID := 7, sr_Status := ''converted'', sr_CreatedAt := 10, sr_UpdatedAt := 11\<rparr>"

definition jobs_db2 :: job_db where
  "jobs_db2 = \<lparr>requests_t = [converted_request], jobs_t = [sample_job], assigns_t = [], jlog_t = []\<rparr>"

lemmas job_eval = Service_CreateRequest_def request_checks_def CreateRequest_def request_row_ok_def
  CreateJobFromRequest_def conversion_check_def GetRequest_def requestScopePredicate_def query_fails_def
  args_accepted_def conversion_write_def CreateJob_def new_job_def job_insert_def job_row_ok_def
  job_publish_def announced_def claim_request_def row_ins_def row_upd_def row_get_def row_status_defs
  isKnownStatus_def AllStatuses_def LocationValid_def Let_def

lemma jobs_w2_db: "jw_db jobs_w2 = jobs_db2"
proof -
  have t: "trim_space ''brakes'' \<noteq> []" by code_simp
  then show ?thesis
    by (simp add: jobs_w2_def jobs_w1_def jobs_w0_def empty_job_db_def sample_request_def job_eval jobs_db2_def
        converted_request_def sample_job_def)
qed

lemma jobs_calls: "job_call\<^sup>*\<^sup>* jobs_w0 jobs_w2"
proof -
  have "job_call jobs_w0 jobs_w1" unfolding jobs_w1_def by (rule call_request)
  moreover have "job_call jobs_w1 jobs_w2" unfolding jobs_w2_def by (rule call_convert)
  ultimately show ?thesis by (meson converse_rtranclp_into_rtranclp rtranclp.rtrancl_refl)
qed

lemma jobs_w0_db [simp]: "jw_db jobs_w0 = empty_job_db" "jw_events jobs_w0 = []"
  by (simp_all add: jobs_w0_def)

lemma jobs_w2_run: "job_run empty_job_db jobs_db2"
  using job_calls_run [OF jobs_calls] empty_jobs_ok jobs_w2_db by simp

lemma jobs_db2_ok: "jobs_ok jobs_db2"
  using job_run_ok [OF jobs_w2_run empty_jobs_ok] .

text \<open>The sample job in any status.\<close>

definition world_in :: "Status \<Rightarrow> job_world" where
  "world_in s = \<lparr>jw_db = jobs_db2\<lparr>jobs_t := [sample_job\<lparr>jb_Status := s\<rparr>]\<rparr>, jw_events = []\<rparr>"

lemma world_in_simps [simp]:
  "get_job 9 (jw_db (world_in s)) = Some (sample_job\<lparr>jb_Status := s\<rparr>)" "jw_events (world_in s) = []"
  "assigns_t (jw_db (world_in s)) = []"
  by (simp_all add: world_in_def row_get_def sample_job_def jobs_db2_def)

section \<open>Integrity\<close>

text \<open>
  C10. Integrity of the jobs tables. Under every interleaving of the store operations the service
  performs, from empty tables: a job's status is one of the eighteen, its audit trail replays from
  \<open>CREATED\<close> to that status, and it has at most one open assignment; every assignment and every
  audit row belongs to a job and carries its tenant, and the technician of an open assignment is the
  technician of the job.
\<close>

theorem jobs_integrity:
  assumes "job_run empty_job_db db"
  shows "(\<forall>k j. get_job k db = Some j \<longrightarrow> isKnownStatus (jb_Status j) \<and>
      replay_moves StatusCreated (trail_of k db) = Some (jb_Status j) \<and>
      length (filter (\<lambda>a. as_JobID a = k \<and> is_open a) (assigns_t db)) \<le> 1) \<and>
    (\<forall>a \<in> set (assigns_t db). \<exists>j. get_job (as_JobID a) db = Some j \<and> as_TenantID a = jb_TenantID j \<and>
      (is_open a \<longrightarrow> jb_TechnicianID j = Some (as_TechnicianID a))) \<and>
    (\<forall>t \<in> set (jlog_t db). \<exists>j. get_job (jt_JobID t) db = Some j \<and> jt_TenantID t = jb_TenantID j)"
proof (intro conjI)
  have ok: "jobs_ok db" using job_run_ok [OF assms empty_jobs_ok] .
  show "\<forall>k j. get_job k db = Some j \<longrightarrow> isKnownStatus (jb_Status j) \<and>
      replay_moves StatusCreated (trail_of k db) = Some (jb_Status j) \<and>
      length (filter (\<lambda>a. as_JobID a = k \<and> is_open a) (assigns_t db)) \<le> 1"
    using ok by (auto simp: jobs_ok_def trails_replay_def one_open_def job_row_ok_def dest: row_get_set)
  show "\<forall>a \<in> set (assigns_t db). \<exists>j. get_job (as_JobID a) db = Some j \<and> as_TenantID a = jb_TenantID j \<and>
      (is_open a \<longrightarrow> jb_TechnicianID j = Some (as_TechnicianID a))"
    using ok unfolding jobs_ok_def job_refs_def open_technician_def one_tenant_def by blast
  show "\<forall>t \<in> set (jlog_t db). \<exists>j. get_job (jt_JobID t) db = Some j \<and> jt_TenantID t = jb_TenantID j"
    using ok unfolding jobs_ok_def job_refs_def one_tenant_def by blast
qed

theorem jobs_integrity_witness:
  "get_job 9 jobs_db2 = Some sample_job \<and> replay_moves StatusCreated (trail_of 9 jobs_db2) = Some StatusCreated"
proof
  show j: "get_job 9 jobs_db2 = Some sample_job" by (simp add: jobs_db2_def row_get_def sample_job_def)
  show "replay_moves StatusCreated (trail_of 9 jobs_db2) = Some StatusCreated"
    using jobs_integrity [OF jobs_w2_run] j by (auto simp: sample_job_def)
qed

text \<open>
  C11. One job per request. Under every interleaving of the store operations, two jobs never come
  from one service request, however many conversions race for it; the request of a job is marked
  converted, and the job belongs to the tenant and the customer of its request.
\<close>

theorem one_job_per_request:
  assumes "job_run empty_job_db db" and "get_job k db = Some j" and "jb_ServiceRequestID j = Some r"
  shows "(\<forall>k' j'. get_job k' db = Some j' \<longrightarrow> jb_ServiceRequestID j' = Some r \<longrightarrow> k' = k) \<and>
    (\<exists>q. get_request r db = Some q \<and> sr_Status q = RequestStatusConverted \<and>
       jb_TenantID j = sr_TenantID q \<and> jb_CustomerID j = sr_CustomerID q)"
proof
  have ok: "jobs_ok db" using job_run_ok [OF assms(1) empty_jobs_ok] .
  have m: "j \<in> set (jobs_t db)" using row_get_set [OF assms(2)] .
  show "\<forall>k' j'. get_job k' db = Some j' \<longrightarrow> jb_ServiceRequestID j' = Some r \<longrightarrow> k' = k"
    using ok m assms(2,3) conversion_unique [of db _ j r] row_get_set [of jb_ID _ "jobs_t db"] row_get_key [of jb_ID _ "jobs_t db"]
    unfolding jobs_ok_def by metis
  obtain q where q: "get_request r db = Some q"
    using ok m assms(3) unfolding jobs_ok_def job_refs_def by blast
  with ok m assms(3) conversion_owner [of db j r q]
  show "\<exists>q. get_request r db = Some q \<and> sr_Status q = RequestStatusConverted \<and>
       jb_TenantID j = sr_TenantID q \<and> jb_CustomerID j = sr_CustomerID q" by (simp add: jobs_ok_def)
qed

theorem one_job_per_request_witness:
  "\<exists>q. get_request 7 jobs_db2 = Some q \<and> sr_Status q = ''converted'' \<and> sr_CustomerID q = 3"
proof -
  have "get_job 9 jobs_db2 = Some sample_job" "jb_ServiceRequestID sample_job = Some 7" "jb_CustomerID sample_job = 3"
    by (simp_all add: jobs_db2_def row_get_def sample_job_def)
  with one_job_per_request [OF jobs_w2_run, of 9 sample_job 7] show ?thesis by (auto simp: row_status_defs)
qed

text \<open>
  The jobs history. Along every run of the store operations no job, request or assignment is
  lost; the owner, the request and the creation time of a job never change; a converted request
  stays converted; an assignment that is no longer open is frozen; and the audit trail only grows.
\<close>

theorem jobs_history:
  assumes "job_run db db'"
  shows "(\<forall>k j. get_job k db = Some j \<longrightarrow> (\<exists>j'. get_job k db' = Some j' \<and> jb_TenantID j' = jb_TenantID j \<and>
      jb_CustomerID j' = jb_CustomerID j \<and> jb_ServiceRequestID j' = jb_ServiceRequestID j \<and>
      jb_CreatedAt j' = jb_CreatedAt j)) \<and>
    (\<forall>k r. get_request k db = Some r \<longrightarrow> sr_Status r = RequestStatusConverted \<longrightarrow>
      (\<exists>r'. get_request k db' = Some r' \<and> sr_Status r' = RequestStatusConverted)) \<and>
    (\<forall>k a. row_get as_ID k (assigns_t db) = Some a \<longrightarrow> \<not> is_open a \<longrightarrow> row_get as_ID k (assigns_t db') = Some a) \<and>
    (\<exists>ts. jlog_t db' = jlog_t db @ ts)"
proof -
  have ev: "jobs_evolve db db'" using job_run_evolves [OF assms] .
  note te = ev [unfolded jobs_evolve_def]
  show ?thesis
  proof (intro conjI allI impI)
    fix k j
    assume "get_job k db = Some j"
    then obtain j' where "get_job k db' = Some j'" "job_evolves j j'" using te jb.te_get by blast
    then show "\<exists>j'. get_job k db' = Some j' \<and> jb_TenantID j' = jb_TenantID j \<and>
      jb_CustomerID j' = jb_CustomerID j \<and> jb_ServiceRequestID j' = jb_ServiceRequestID j \<and>
      jb_CreatedAt j' = jb_CreatedAt j" by (simp add: job_evolves_def)
  next
    fix k r
    assume "get_request k db = Some r" "sr_Status r = RequestStatusConverted"
    moreover from this obtain r' where "get_request k db' = Some r'" "request_evolves r r'" using te rq.te_get by blast
    ultimately show "\<exists>r'. get_request k db' = Some r' \<and> sr_Status r' = RequestStatusConverted"
      by (simp add: request_evolves_def)
  next
    fix k a
    assume "row_get as_ID k (assigns_t db) = Some a" "\<not> is_open a"
    moreover from this obtain a' where "row_get as_ID k (assigns_t db') = Some a'" "closed_evolves a a'"
      using te asg.te_get by blast
    ultimately show "row_get as_ID k (assigns_t db') = Some a" by (simp add: closed_evolves_def)
  next
    show "\<exists>ts. jlog_t db' = jlog_t db @ ts" using te by blast
  qed
qed

theorem jobs_history_witness:
  "\<exists>j'. get_job 9 (snd (UpdateJobStatus Healthy 20 1 9 StatusTriaging None [] jobs_db2)) = Some j' \<and>
     jb_TenantID j' = Some 2"
proof -
  have "job_run jobs_db2 (snd (UpdateJobStatus Healthy 20 1 9 StatusTriaging None [] jobs_db2))"
    by (rule job_run_one, rule s_move)
  moreover have "get_job 9 jobs_db2 = Some sample_job" "jb_TenantID sample_job = Some 2"
    by (simp_all add: jobs_db2_def row_get_def sample_job_def)
  ultimately show ?thesis using jobs_history by metis
qed

text \<open>
  Handlers refine the store. Every handler of the jobs service, on intact tables, changes them
  only through the store operations of \<open>job_step\<close>; so what holds of all their runs holds of all
  interleavings of handlers.
\<close>

theorem job_handlers_refine:
  assumes "jobs_ok (jw_db w)"
  shows "job_run (jw_db w) (jw_db (snd (Service_CreateRequest c r w))) \<and>
    job_run (jw_db w) (jw_db (snd (CreateJobFromRequest c rid scope w))) \<and>
    job_run (jw_db w) (jw_db (snd (Transition c k jid to actor reason scope w))) \<and>
    job_run (jw_db w) (jw_db (snd (Service_AssignTechnician c jid tech assignedBy scope w))) \<and>
    job_run (jw_db w) (jw_db (snd (Accept c jid tech scope w)))"
  by (intro conjI Service_CreateRequest_run CreateJobFromRequest_run [OF assms] Transition_run
      Service_AssignTechnician_run Accept_run)

theorem job_handlers_refine_witness:
  "job_run jobs_db2 (jw_db (snd (Transition calm_env 0 9 StatusTriaging None [] operator_scope jobs_w2)))"
  using job_handlers_refine [of jobs_w2 calm_env] jobs_db2_ok jobs_w2_db by simp

text \<open>
  Moves are legal when handlers do not race. After any handler calls, each run without
  interruption, from empty tables, every move in the audit trail is an edge of the transition
  table, so no job ever leaves a terminal status.
\<close>

theorem sequential_moves_legal:
  assumes "job_call\<^sup>*\<^sup>* w0 w" and "jw_db w0 = empty_job_db" and "t \<in> set (jlog_t (jw_db w))"
  shows "CanTransition (jt_FromStatus t) (jt_ToStatus t) = None \<and> \<not> IsTerminal (jt_FromStatus t)"
proof -
  have "jobs_ok (jw_db w) \<and> legal_trail (jw_db w)"
    using assms(1)
  proof (induction rule: rtranclp_induct)
    case base
    show ?case by (simp add: assms(2) empty_jobs_ok legal_trail_def) (simp add: empty_job_db_def)
  next
    case (step w1 w2)
    then show ?case using job_call_legal job_run_ok [OF job_call_run] by blast
  qed
  then have l: "CanTransition (jt_FromStatus t) (jt_ToStatus t) = None" using assms(3) by (simp add: legal_trail_def)
  then have "transitions (jt_FromStatus t) \<noteq> None" by (auto simp: CanTransition_def split: option.splits)
  with l show ?thesis by (auto simp: job_edges_None)
qed

definition jobs_w3 :: job_world where
  "jobs_w3 = snd (Transition calm_env 0 9 StatusTriaging (Some 1) ''triage'' operator_scope jobs_w2)"

lemmas move_eval = Transition_def transition_check_def transition_write_def GetJob_def jobScopePredicate_def
  UpdateJobStatus_def move_job_def log_move_def changed_payload_def CanTransition_def

lemma operator_GetJob:
  assumes "sp_Operator s" and "get_job k db = Some j"
  shows "GetJob e Healthy k s db = Inr j"
proof -
  have "find (\<lambda>j. jb_ID j = k) (jobs_t db) = Some j" using assms(2) by (simp add: row_get_def)
  then show ?thesis using assms(1) by (simp add: GetJob_def jobScopePredicate_def query_fails_def args_accepted_def)
qed

text \<open>The write of a transition that passed its check, in a healthy environment.\<close>

lemma healthy_update:
  assumes "get_job k db = Some j" and "isKnownStatus to"
  shows "UpdateJobStatus Healthy now sq k to actor reason db = (Inr (), moved_db sq now j to actor reason db)"
  using assms row_get_key [OF assms(1)] by (simp add: UpdateJobStatus_def job_row_ok_def moved_db_def)

lemma jobs_w3_log: "jlog_t (jw_db jobs_w3) = [log_move 2 11 sample_job StatusTriaging (Some 1) ''triage'']"
proof -
  have j: "get_job 9 (jw_db jobs_w2) = Some sample_job" by (simp add: jobs_w2_db jobs_db2_def row_get_def sample_job_def)
  have kn: "isKnownStatus StatusTriaging" by (simp add: status_defs)
  have c: "transition_check calm_env 0 9 StatusTriaging operator_scope (jw_db jobs_w2) = Inr sample_job"
    using operator_GetJob [OF _ j] by (simp add: transition_check_def sample_job_def CanTransition_def)
  have "jlog_t (jw_db jobs_w2) = []" by (simp add: jobs_w2_db jobs_db2_def)
  then show ?thesis
    using healthy_update [OF j kn] by (simp add: jobs_w3_def Transition_def c writes_db moved_db_def)
qed

theorem sequential_moves_witness:
  "\<exists>t \<in> set (jlog_t (jw_db jobs_w3)). jt_ToStatus t = StatusTriaging \<and>
     CanTransition (jt_FromStatus t) (jt_ToStatus t) = None"
proof -
  have "job_call jobs_w2 jobs_w3" unfolding jobs_w3_def by (rule call_transition)
  then have "job_call\<^sup>*\<^sup>* jobs_w0 jobs_w3" using jobs_calls by (meson rtranclp.rtrancl_into_rtrancl)
  from sequential_moves_legal [OF this jobs_w0_db(1), of "log_move 2 11 sample_job StatusTriaging (Some 1) ''triage''"]
  show ?thesis by (simp add: jobs_w3_log)
qed

section \<open>Races and lost events\<close>

text \<open>
  A completed job can be reopened. The status read by \<open>Transition\<close> is checked before, not
  under, the row lock of the update. Two transitions of a job in \<open>VERIFICATION\<close>, to \<open>COMPLETED\<close>
  and back to \<open>REPAIRING\<close>, both pass their check if both read first; the second update then takes
  the job out of \<open>COMPLETED\<close>, a terminal status, and the audit trail records a move that the
  transition table does not have.
\<close>

theorem completed_job_reopened:
  assumes "get_job k (jw_db w) = Some j" and "jb_Status j = StatusVerification"
    and "sp_Operator s" and "sp_Operator s'" and "\<And>n. jc_flt c n = Healthy" and "\<And>n. jc_flt c' n = Healthy"
  shows "transition_check c 0 k StatusCompleted s (jw_db w) = Inr j \<and>
    transition_check c' 0 k StatusRepairing s' (jw_db w) = Inr j \<and>
    (let w1 = snd (transition_write c 0 k StatusCompleted a r j w);
         w2 = snd (transition_write c' 0 k StatusRepairing a' r' j w1)
     in map_option jb_Status (get_job k (jw_db w1)) = Some StatusCompleted \<and>
        map_option jb_Status (get_job k (jw_db w2)) = Some StatusRepairing \<and>
        jt_FromStatus (last (jlog_t (jw_db w2))) = StatusCompleted \<and>
        jt_ToStatus (last (jlog_t (jw_db w2))) = StatusRepairing \<and>
        CanTransition StatusCompleted StatusRepairing \<noteq> None)"
proof -
  have kn: "isKnownStatus StatusCompleted" "isKnownStatus StatusRepairing" by (simp_all add: status_defs)
  define w1 where "w1 = snd (transition_write c 0 k StatusCompleted a r j w)"
  have d1: "jw_db w1 = moved_db (jc_seq c 1) (jc_now c 1) j StatusCompleted a r (jw_db w)"
    using healthy_update [OF assms(1) kn(1)] assms(5) by (simp add: w1_def writes_db)
  have j1: "get_job k (jw_db w1) = Some (move_job (jc_now c 1) StatusCompleted j)"
    using moved_job [OF assms(1)] by (simp add: d1)
  have d2: "jw_db (snd (transition_write c' 0 k StatusRepairing a' r' j w1)) =
      moved_db (jc_seq c' 1) (jc_now c' 1) (move_job (jc_now c 1) StatusCompleted j) StatusRepairing a' r' (jw_db w1)"
    using healthy_update [OF j1 kn(2)] assms(6) by (simp add: writes_db)
  have "map_option jb_Status (get_job k (jw_db (snd (transition_write c' 0 k StatusRepairing a' r' j w1)))) = Some StatusRepairing"
    using moved_job [OF j1] by (simp add: d2)
  moreover have "last (jlog_t (jw_db (snd (transition_write c' 0 k StatusRepairing a' r' j w1)))) =
      log_move (jc_seq c' 1) (jc_now c' 1) (move_job (jc_now c 1) StatusCompleted j) StatusRepairing a' r'"
    by (simp add: d2 moved_db_def)
  moreover have "transition_check c 0 k StatusCompleted s (jw_db w) = Inr j"
      "transition_check c' 0 k StatusRepairing s' (jw_db w) = Inr j"
    using assms(2,5,6) operator_GetJob [OF _ assms(1)] assms(3,4)
    by (simp_all add: transition_check_def CanTransition_def)
  ultimately show ?thesis using j1 by (simp add: Let_def w1_def CanTransition_def)
qed

definition raced_world :: job_world where
  "raced_world =
     (let j = sample_job\<lparr>jb_Status := StatusVerification\<rparr> in
      snd (transition_write calm_env 0 9 StatusRepairing None [] j
        (snd (transition_write calm_env 0 9 StatusCompleted None [] j (world_in StatusVerification)))))"

theorem completed_job_reopened_witness:
  "map_option jb_Status (get_job 9 (jw_db raced_world)) = Some StatusRepairing \<and>
     jt_FromStatus (last (jlog_t (jw_db raced_world))) = StatusCompleted"
  using completed_job_reopened [where w = "world_in StatusVerification" and k = 9 and c = calm_env and c' = calm_env
      and s = operator_scope and s' = operator_scope and a = None and a' = None and r = "[]" and r' = "[]"]
  unfolding Let_def raced_world_def by (simp del: map_option_eq_Some)

text \<open>
  A lost event is never sent. If the transition of a job is stored but its event cannot be
  published, the caller gets an error although the job has moved; and since no status may follow
  itself, every repetition of the call reports an error too, without publishing anything.
\<close>

theorem lost_event_never_sent:
  assumes "transition_check c 0 k to s (jw_db w) = Inr j" and "jobs_ok (jw_db w)"
    and "\<And>n. jc_flt c n = Healthy" and "jc_pub c = Some can" and "\<not> can EventJobStatusChanged"
  shows "fst (Transition c 0 k to a r s w) = Inl ErrJobPublish \<and>
    map_option jb_Status (get_job k (jw_db (snd (Transition c 0 k to a r s w)))) = Some to \<and>
    jw_events (snd (Transition c 0 k to a r s w)) = jw_events w \<and>
    (\<forall>c' a' r' s'. \<exists>e. Transition c' 0 k to a' r' s' (snd (Transition c 0 k to a r s w)) =
       (Inl e, snd (Transition c 0 k to a r s w)))"
proof -
  note ch = transition_check_Inr [OF assms(1)]
  have j: "get_job k (jw_db w) = Some j" and can: "CanTransition (jb_Status j) to = None"
    using ch assms(2) by (simp_all add: jobs_ok_def)
  have kn: "isKnownStatus to" using jobs.legal_known can by (auto simp: CanTransition_None isKnownStatus_def)
  let ?db = "moved_db (jc_seq c 1) (jc_now c 1) j to a r (jw_db w)"
  have up: "UpdateJobStatus (jc_flt c (Suc 0)) (jc_now c (Suc 0)) (jc_seq c (Suc 0)) k to a r (jw_db w) = (Inr (), ?db)"
    using healthy_update [OF j kn] assms(3) by simp
  have tr: "Transition c 0 k to a r s w = (Inl ErrJobPublish, w\<lparr>jw_db := ?db\<rparr>)"
    using assms(1,4,5) up by (simp add: Transition_def transition_write_def job_publish_def announced_def Let_def)
  have ok': "jobs_ok ?db" using ok_moved [OF assms(2) j kn] .
  have no: "\<exists>e. transition_check c' 0 k to s' ?db = Inl e" for c' s'
  proof (cases "transition_check c' 0 k to s' ?db")
    case (Inr x)
    then have "get_job k ?db = Some x" "CanTransition (jb_Status x) to = None"
      using transition_check_Inr [OF Inr] ok' by (simp_all add: jobs_ok_def)
    then show ?thesis using moved_job [OF j, of "jc_seq c 1"] jobs.legal_irrefl [of to] by (auto simp: CanTransition_None)
  qed simp
  have "\<exists>e. Transition c' 0 k to a' r' s' (w\<lparr>jw_db := ?db\<rparr>) = (Inl e, w\<lparr>jw_db := ?db\<rparr>)" for c' a' r' s'
    using no [of c' s'] by (auto simp: Transition_def)
  then show ?thesis using tr moved_job [OF j] by simp
qed

definition silent_env :: job_env where
  "silent_env = calm_env\<lparr>jc_pub := Some (\<lambda>_. False)\<rparr>"

theorem lost_event_witness:
  "fst (Transition silent_env 0 9 StatusTriaging None [] operator_scope jobs_w2) = Inl ErrJobPublish"
proof -
  have "get_job 9 (jw_db jobs_w2) = Some sample_job" by (simp add: jobs_w2_db jobs_db2_def row_get_def sample_job_def)
  then have c: "transition_check silent_env 0 9 StatusTriaging operator_scope (jw_db jobs_w2) = Inr sample_job"
    by (simp add: transition_check_def operator_GetJob silent_env_def sample_job_def CanTransition_def)
  have "jobs_ok (jw_db jobs_w2)" by (simp add: jobs_w2_db jobs_db2_ok)
  from lost_event_never_sent [OF c this] show ?thesis by (simp add: silent_env_def)
qed

end
