(* ===== verification/Job_Reads.thy ===== *)
theory Job_Reads
  imports Job_Props
begin

text \<open>
  The scoped reads of the jobs repository: each equals a reference lookup over the rows the scope
  admits, on every engine that takes the statement; what the surplus argument of the personal
  scope and the short scan of the trail do on an engine that refuses them; and the outcome of a
  dispatch.
\<close>

section \<open>The predicates mean visibility\<close>

lemma requestScopePredicate_meaning:
  "requestScopePredicate s (Suc (length pre)) = (c, args) \<Longrightarrow>
     sql_eval (request_col r) (pre @ args @ post) c \<longleftrightarrow> request_visible s r"
  by (auto simp: requestScopePredicate_def request_visible_def sql_arg_def col_eq_def nth_append
      split: if_splits option.splits)

lemma jobScopePredicate_meaning:
  "jobScopePredicate s (Suc (length pre)) = (c, args) \<Longrightarrow>
     sql_eval (job_col_of j) (pre @ args @ post) c \<longleftrightarrow> job_visible s j"
  by (auto simp: jobScopePredicate_def job_visible_def sql_arg_def col_eq_def nth_append
      split: if_splits option.splits)

definition personal :: "ReadScope \<Rightarrow> bool" where
  "personal s \<longleftrightarrow> \<not> sp_Operator s \<and> sp_TenantID s = None \<and> sp_ViewerID s \<noteq> uuid_nil"

lemma personal_predicate:
  "personal s \<Longrightarrow> jobScopePredicate s n =
     (SqlOr (SqlEq JobCustomerCol n) (SqlEq JobTechnicianCol n), [sp_ViewerID s, sp_ViewerID s])"
  by (simp add: personal_def jobScopePredicate_def)

lemma request_args: "requestScopePredicate s n = (c, args) \<Longrightarrow> placeholders c = map (\<lambda>_. n) args \<and> length args \<le> 1"
  by (auto simp: requestScopePredicate_def split: if_splits option.splits)

lemma job_args:
  "jobScopePredicate s n = (c, args) \<Longrightarrow> \<not> personal s \<Longrightarrow> placeholders c = map (\<lambda>_. n) args \<and> length args \<le> 1"
  by (auto simp: jobScopePredicate_def personal_def split: if_splits option.splits)

lemma get_args_accepted:
  assumes "placeholders c = map (\<lambda>_. 2) (args :: uuid list)" and "length args \<le> 1"
  shows "args_accepted e (1 # placeholders c) (length (x # args))"
  using assms by (cases args) (auto simp: args_accepted_def)

lemma page_args_accepted:
  assumes "placeholders c = map (\<lambda>_. Suc k) (args :: uuid list)" and "length args \<le> 1"
  shows "args_accepted e ([1..<Suc k] @ placeholders c @ [Suc (k + length args), Suc (Suc (k + length args))])
    (k + length args + 2)"
  using assms by (cases args) (auto simp: args_accepted_def list_all_iff)

section \<open>Reads against their reference\<close>

text \<open>
  The scoped reads are lookups among the visible rows. On a healthy connection, reading a
  request, a job or a page of jobs gives exactly what a search of the rows the scope admits gives:
  the row or not-found, and the newest-first page of the matching visible jobs with the documented
  limit and offset. For jobs this holds of every scope, except the personal one on an engine that
  refuses surplus arguments.
\<close>

theorem job_reads_are_scoped_lookups:
  assumes "surplus_args e \<or> \<not> personal s"
  shows "GetRequest e Healthy k s db =
      (case find (\<lambda>r. sr_ID r = k \<and> request_visible s r) (requests_t db) of
         None \<Rightarrow> Inl ErrRequestNotFound | Some r \<Rightarrow> Inr r) \<and>
    GetJob e Healthy k s db =
      (case find (\<lambda>j. jb_ID j = k \<and> job_visible s j) (jobs_t db) of
         None \<Rightarrow> Inl ErrJobNotFound | Some j \<Rightarrow> Inr j) \<and>
    ListJobs e Healthy f limit offset s db =
      Inr (take (nat (job_page_limit limit)) (drop (nat (job_page_offset offset))
        (sort_key (\<lambda>j. - jb_CreatedAt j)
          (filter (\<lambda>j. job_filter_matches f j \<and> job_visible s j) (jobs_t db)))))"
proof (intro conjI)
  obtain c args where p: "requestScopePredicate s 2 = (c, args)" by fastforce
  have "requestScopePredicate s (Suc (length [k])) = (c, args)" using p by (simp add: numeral_2_eq_2)
  from requestScopePredicate_meaning [OF this, of _ "[]"]
  have "sql_eval (request_col r) (k # args) c \<longleftrightarrow> request_visible s r" for r by simp
  then show "GetRequest e Healthy k s db =
      (case find (\<lambda>r. sr_ID r = k \<and> request_visible s r) (requests_t db) of
         None \<Rightarrow> Inl ErrRequestNotFound | Some r \<Rightarrow> Inr r)"
    using p get_args_accepted [of c args e k] request_args [OF p] by (simp add: GetRequest_def query_fails_def)
next
  obtain c args where p: "jobScopePredicate s 2 = (c, args)" by fastforce
  have "jobScopePredicate s (Suc (length [k])) = (c, args)" using p by (simp add: numeral_2_eq_2)
  from jobScopePredicate_meaning [OF this, of _ "[]"]
  have m: "sql_eval (job_col_of j) (k # args) c \<longleftrightarrow> job_visible s j" for j by simp
  have "args_accepted e (1 # placeholders c) (length (k # args))"
    using assms get_args_accepted [of c args e k] job_args [OF p] by (auto simp: args_accepted_def)
  then show "GetJob e Healthy k s db =
      (case find (\<lambda>j. jb_ID j = k \<and> job_visible s j) (jobs_t db) of
         None \<Rightarrow> Inl ErrJobNotFound | Some j \<Rightarrow> Inr j)"
    using p m by (simp add: GetJob_def query_fails_def)
next
  define n where "n = job_filter_args f"
  obtain c args where p: "jobScopePredicate s (Suc n) = (c, args)" by fastforce
  have "jobScopePredicate s (Suc (length (replicate n uuid_nil))) = (c, args)" using p by simp
  from jobScopePredicate_meaning [OF this, of _ "[]"]
  have m: "sql_eval (job_col_of j) (replicate n uuid_nil @ args) c \<longleftrightarrow> job_visible s j" for j by simp
  have "args_accepted e ([1..<Suc n] @ placeholders c @ [Suc (n + length args), Suc (Suc (n + length args))])
      (n + length args + 2)"
    using assms page_args_accepted [of c n args e] job_args [OF p] by (auto simp: args_accepted_def)
  then show "ListJobs e Healthy f limit offset s db =
      Inr (take (nat (job_page_limit limit)) (drop (nat (job_page_offset offset))
        (sort_key (\<lambda>j. - jb_CreatedAt j)
          (filter (\<lambda>j. job_filter_matches f j \<and> job_visible s j) (jobs_t db)))))"
    using p m by (simp add: ListJobs_def query_fails_def Let_def n_def [symmetric])
qed

theorem job_reads_witness:
  "GetJob documented_pgx Healthy 9 operator_scope jobs_db2 = Inr sample_job"
proof -
  have "surplus_args documented_pgx \<or> \<not> personal operator_scope" by (simp add: personal_def)
  from job_reads_are_scoped_lookups [OF this, of 9 jobs_db2] show ?thesis
    by (simp add: jobs_db2_def sample_job_def job_visible_def)
qed

text \<open>
  Tenants are isolated in the jobs domain. Whatever the engine and the faults, a principal of
  one tenant is given, by any read of requests, jobs or audit trails, only rows of that tenant; and
  a scope without an operator role, a tenant and a viewer is given nothing.
\<close>

theorem job_tenant_isolation:
  assumes "\<not> sp_Operator s" and "sp_TenantID s = Some t"
  shows "(\<forall>k r. GetRequest e flt k s db = Inr r \<longrightarrow> sr_TenantID r = Some t) \<and>
    (\<forall>k j. GetJob e flt k s db = Inr j \<longrightarrow> jb_TenantID j = Some t) \<and>
    (\<forall>f l off js. ListJobs e flt f l off s db = Inr js \<longrightarrow> (\<forall>j \<in> set js. jb_TenantID j = Some t)) \<and>
    (\<forall>k ts. ListTransitions Some flt k s db = Inr ts \<longrightarrow> (\<forall>x \<in> set ts. jt_TenantID x = Some t))"
proof (intro conjI allI impI ballI)
  note pred = assms requestScopePredicate_def jobScopePredicate_def sql_arg_def col_eq_def
  show "sr_TenantID r = Some t" if "GetRequest e flt k s db = Inr r" for k r
    using that by (auto simp: GetRequest_def pred dest!: find_SomeD split: if_splits option.splits)
  show "jb_TenantID j = Some t" if "GetJob e flt k s db = Inr j" for k j
    using that by (auto simp: GetJob_def pred dest!: find_SomeD split: if_splits option.splits)
  show "jb_TenantID j = Some t" if "ListJobs e flt f l off s db = Inr js" "j \<in> set js" for f l off js j
    using that by (auto simp: ListJobs_def Let_def pred nth_append dest!: in_set_takeD in_set_dropD split: if_splits)
  have scan: "scan_trail Some ts = Some ts" for ts by (induction ts) auto
  show "jt_TenantID x = Some t" if "ListTransitions Some flt k s db = Inr ts" "x \<in> set ts" for k ts x
    using that by (auto simp: ListTransitions_def scan order_trail_def trail_visible_def pred split: if_splits)
qed

theorem job_tenant_isolation_witness:
  "\<exists>j. GetJob documented_pgx Healthy 9 \<lparr>sp_ViewerID = 1, sp_TenantID = Some 2, sp_Operator = False\<rparr> jobs_db2 = Inr j \<and>
     jb_TenantID j = Some 2"
proof -
  let ?s = "\<lparr>sp_ViewerID = 1, sp_TenantID = Some 2, sp_Operator = False\<rparr>"
  have "\<not> personal ?s" by (simp add: personal_def)
  then have "GetJob documented_pgx Healthy 9 ?s jobs_db2 = Inr sample_job"
    by (auto simp: GetJob_def jobScopePredicate_def query_fails_def args_accepted_def sql_arg_def col_eq_def
        jobs_db2_def sample_job_def upt_rec)
  moreover from this have "jb_TenantID sample_job = Some 2"
    using job_tenant_isolation [of ?s 2 documented_pgx Healthy jobs_db2] by simp
  ultimately show ?thesis by blast
qed

section \<open>The personal scope and the trail\<close>

text \<open>
  Customers and technicians cannot use the jobs API. The personal predicate names one
  placeholder and passes two arguments. On an engine that requires them to match, every read of a
  job by a principal without tenant or operator role is a database error, and so are their
  transitions and acceptances: a technician without a tenant can never accept an assignment, and
  nothing changes.
\<close>

theorem personal_scope_locked_out:
  assumes "\<not> surplus_args (jc_engine c)" and "personal s"
  shows "GetJob (jc_engine c) flt k s db = Inl ErrJobDatabase \<and>
    ListJobs (jc_engine c) flt f l off s db = Inl ErrJobDatabase \<and>
    Accept c k tech s w = (Inl ErrJobDatabase, w) \<and>
    Transition c m k to a r s w = (Inl ErrJobDatabase, w)"
proof -
  have g: "GetJob (jc_engine c) flt k s db = Inl ErrJobDatabase" for flt db
    using assms by (simp add: GetJob_def personal_predicate args_accepted_def)
  moreover have "\<not> args_accepted (jc_engine c)
      ([1..<Suc n] @ [Suc n, Suc n] @ [Suc (n + 2), Suc (Suc (n + 2))]) (n + 2 + 2)" for n
    using assms(1) by (auto simp: args_accepted_def list_all_iff intro!: bexI [of _ "Suc (Suc n)"])
  then have "ListJobs (jc_engine c) flt f l off s db = Inl ErrJobDatabase"
    using assms(2) by (simp add: ListJobs_def personal_predicate Let_def)
  ultimately show ?thesis by (simp add: Accept_def accept_check_def Transition_def transition_check_def)
qed

theorem personal_scope_locked_out_witness:
  "Accept calm_env 9 6 technician_scope (world_in StatusAssigned) = (Inl ErrJobDatabase, world_in StatusAssigned)"
  using personal_scope_locked_out [of calm_env technician_scope]
  by (simp add: documented_pgx_def personal_def technician_scope_def)

text \<open>
  The audit trail cannot be read. The trail query selects eight columns and scans them into
  seven destinations; where the driver refuses that, a scope that sees any entry of a job's trail is
  given an error instead of the trail, and only an empty trail can be read.
\<close>

theorem trail_unreadable:
  assumes "\<And>x. short_scan x = None"
  shows "ListTransitions short_scan Healthy k s db =
    (if filter (\<lambda>t. jt_JobID t = k \<and> trail_visible s db t) (jlog_t db) = [] then Inr [] else Inl ErrJobDatabase)"
proof -
  have "scan_trail short_scan ts = (if ts = [] then Some [] else None)" for ts using assms by (cases ts) auto
  moreover have "sort_key g ts = [] \<longleftrightarrow> ts = []" for g :: "JobTransition \<Rightarrow> int \<times> int" and ts
    by (metis length_0_conv length_sort)
  ultimately show ?thesis by (simp add: ListTransitions_def query_fails_def order_trail_def)
qed

theorem trail_unreadable_witness:
  "ListTransitions (\<lambda>_. None) Healthy 9 operator_scope (jw_db jobs_w3) = Inl ErrJobDatabase"
  using trail_unreadable [of "\<lambda>_. None"] jobs_w3_log by (simp add: sample_job_def log_move_def trail_visible_def)

section \<open>Dispatch\<close>

lemma only_dispatching: "CanTransition x StatusAssigned = None \<Longrightarrow> x = StatusDispatching"
  by (cases x) (auto simp: CanTransition_def)

text \<open>
  What a dispatch without error leaves. The job is \<open>ASSIGNED\<close> to the technician, who has
  the one open assignment of the job; every earlier assignment of the job is closed; and the last
  move of its trail is the assignment, by the dispatcher.
\<close>

theorem assignment_without_error:
  assumes "Service_AssignTechnician c k tech b s w = (Inr u, w')"
  shows "(\<exists>j. get_job k (jw_db w') = Some j \<and> jb_Status j = StatusAssigned \<and> jb_TechnicianID j = Some tech) \<and>
    (\<exists>a. filter (\<lambda>a. as_JobID a = k \<and> is_open a) (assigns_t (jw_db w')) = [a] \<and> as_TechnicianID a = tech \<and>
       as_AssignedBy a = b) \<and>
    jt_JobID (last (jlog_t (jw_db w'))) = k \<and> jt_ToStatus (last (jlog_t (jw_db w'))) = StatusAssigned \<and>
    jt_ActorID (last (jlog_t (jw_db w'))) = b"
proof -
  have none: "assign_check c k tech s (jw_db w) \<noteq> AssignNothing"
    by (auto simp: assign_check_def dest: only_dispatching split: sum.splits if_splits option.splits)
  obtain n j w1 where aw: "assign_write c n k tech b j w1 = (Inr u, w')"
    using assms(1) none
    by (auto simp: Service_AssignTechnician_def split: assign_decision.splits sum.splits prod.splits)
  obtain v db where up: "AssignTechnician (jc_flt c n) (jc_now c n) (jc_fresh c n) (jc_seq c n) k tech b (jw_db w1) = (Inr v, db)"
    using aw by (auto simp: assign_write_def split: prod.splits sum.splits)
  have "jw_db w' = db" using writes_db(2) [of c n k tech b j w1] aw up by simp
  moreover obtain x where x: "get_job k (jw_db w1) = Some x"
    "db = assigned_db (jc_fresh c n) (jc_seq c n) (jc_now c n) x tech b (jw_db w1)"
    using up by (auto simp: AssignTechnician_def assigned_db_def new_assignment_def
        split: if_splits option.splits dest!: finish_Inr row_get_key)
  moreover have "filter (\<lambda>a. as_JobID a = k \<and> is_open a) (map (retire k) (assigns_t (jw_db w1))) = []"
    by (auto simp: filter_empty_conv open_retire)
  moreover have "jb_ID x = k" using row_get_key [OF x(1)] .
  ultimately show ?thesis
    by (simp add: assigned_db_def row_get_upd row_ins_def) (simp add: new_assignment_def log_move_def)
qed

lemma dispatch_sample:
  "\<exists>w'. Service_AssignTechnician calm_env 9 6 (Some 1) operator_scope (world_in StatusDispatching) = (Inr (), w')"
proof -
  note j = world_in_simps(1) [of StatusDispatching]
  have "assign_check calm_env 9 6 operator_scope (jw_db (world_in StatusDispatching)) =
      AssignDirect (sample_job\<lparr>jb_Status := StatusDispatching\<rparr>)"
    using operator_GetJob [OF _ j] by (simp add: assign_check_def)
  then show ?thesis
    by (simp add: Service_AssignTechnician_def assign_write_def AssignTechnician_def job_publish_def announced_def)
qed

theorem assignment_without_error_witness:
  "\<exists>w'. \<exists>j. Service_AssignTechnician calm_env 9 6 (Some 1) operator_scope (world_in StatusDispatching) = (Inr (), w') \<and>
     get_job 9 (jw_db w') = Some j \<and> jb_TechnicianID j = Some 6"
  using dispatch_sample assignment_without_error by blast

text \<open>
  A job can be \<open>ASSIGNED\<close> to nobody. The transition endpoint may take a job from
  \<open>DISPATCHING\<close> to \<open>ASSIGNED\<close> as the table allows; it creates no assignment, so if the job had none
  open, nobody can accept it: every acceptance fails and changes nothing.
\<close>

theorem assigned_without_technician:
  assumes "Transition c 0 k StatusAssigned a r s w = (Inr u, w')"
    and "filter (\<lambda>x. as_JobID x = k \<and> is_open x) (assigns_t (jw_db w)) = []"
  shows "(\<exists>j. get_job k (jw_db w') = Some j \<and> jb_Status j = StatusAssigned) \<and>
    (\<forall>c' tech s'. \<exists>e. Accept c' k tech s' w' = (Inl e, w'))"
proof
  show "\<exists>j. get_job k (jw_db w') = Some j \<and> jb_Status j = StatusAssigned"
    using Transition_Inr [OF assms(1)] .
  obtain j where tw: "transition_write c 0 k StatusAssigned a r j w = (Inr u, w')"
    using assms(1) by (auto simp: Transition_def split: sum.splits)
  have as: "assigns_t (jw_db w') = assigns_t (jw_db w)"
    using UpdateJobStatus_state [of "jc_flt c 1" "jc_now c 1" "jc_seq c 1" k StatusAssigned a r "jw_db w"]
      writes_db(1) [of c 0 k StatusAssigned a r j w] tw by (auto simp: moved_db_def)
  have no: "\<not> list_ex (open_for k tech) (assigns_t (jw_db w'))" for tech
    using assms(2) by (auto simp: as list_ex_iff open_for_def filter_empty_conv)
  have "\<exists>e. accept_write c' k tech j' w' = (Inl e, w')" for c' tech j'
  proof -
    have "\<exists>e. AcceptAssignment f n q k tech (jw_db w') = (Inl e, jw_db w')" for f n q
      using no [of tech] by (auto simp: AcceptAssignment_def split: option.split)
    then obtain e where "AcceptAssignment (jc_flt c' 1) (jc_now c' 1) (jc_seq c' 1) k tech (jw_db w') = (Inl e, jw_db w')"
      by blast
    then show ?thesis by (auto simp: accept_write_def)
  qed
  then show "\<forall>c' tech s'. \<exists>e. Accept c' k tech s' w' = (Inl e, w')"
    by (auto simp: Accept_def split: sum.split)
qed

lemma bypass_sample:
  "\<exists>w'. Transition calm_env 0 9 StatusAssigned None [] operator_scope (world_in StatusDispatching) = (Inr (), w')"
proof -
  note j = world_in_simps(1) [of StatusDispatching]
  have "transition_check calm_env 0 9 StatusAssigned operator_scope (jw_db (world_in StatusDispatching)) =
      Inr (sample_job\<lparr>jb_Status := StatusDispatching\<rparr>)"
    using operator_GetJob [OF _ j] by (simp add: transition_check_def CanTransition_def)
  then show ?thesis
    using healthy_update [OF j, of StatusAssigned] by (simp add: Transition_def transition_write_def job_publish_def announced_def)
qed

theorem assigned_without_technician_witness:
  "\<exists>w'. Transition calm_env 0 9 StatusAssigned None [] operator_scope (world_in StatusDispatching) = (Inr (), w') \<and>
     (\<exists>e. Accept calm_env 9 6 operator_scope w' = (Inl e, w'))"
proof -
  obtain w' where t: "Transition calm_env 0 9 StatusAssigned None [] operator_scope (world_in StatusDispatching) = (Inr (), w')"
    using bypass_sample by blast
  show ?thesis using t assigned_without_technician [OF t] by simp
qed

end
