(* ===== verification/Job_Http.thy ===== *)
theory Job_Http
  imports Job_Reads Http_Input
begin

text \<open>
  The HTTP layer of the jobs domain, \<open>backend/jobs/http.go\<close>: the scope a request reads with, the
  eight handlers and their gates, the wire forms, and the translation of domain errors. The text of
  a wrapped error is the argument \<open>text_of\<close>. Store calls of one request are numbered on from those of
  the service operation before them (\<open>later\<close>).
\<close>

section \<open>Scopes and input\<close>

definition dispatchRoles :: "string list" where "dispatchRoles = OperatorRoles"

record job_http =
  jh_parse :: "string \<Rightarrow> uuid option"
  jh_text :: "job_error \<Rightarrow> string"
  jh_scan :: "JobTransition \<Rightarrow> JobTransition option"
  jh_env :: job_env

definition later :: "nat \<Rightarrow> job_env \<Rightarrow> job_env" where
  "later k c = c\<lparr>jc_flt := (\<lambda>n. jc_flt c (k + n)), jc_now := (\<lambda>n. jc_now c (k + n)),
     jc_fresh := (\<lambda>n. jc_fresh c (k + n)), jc_seq := (\<lambda>n. jc_seq c (k + n))\<rparr>"

definition readScope :: "job_http \<Rightarrow> Claims option \<Rightarrow> ReadScope option" where
  "readScope c cl =
     (case cl of
        None \<Rightarrow> None
      | Some claims \<Rightarrow>
          (case principal_of (jh_parse c) claims of
             Principal viewer tenant \<Rightarrow>
               Some \<lparr>sp_ViewerID = viewer, sp_TenantID = tenant, sp_Operator = IsOperatorRole (cl_Role claims)\<rparr>
           | _ \<Rightarrow> None))"

definition parseStatus :: "string \<Rightarrow> Error + Status" where
  "parseStatus raw =
     (let candidate = ascii_upper (trim_space raw) in
      case find (\<lambda>s. status_name s = candidate) AllStatuses of
        Some s \<Rightarrow> Inr s
      | None \<Rightarrow> Inl (ErrValidation ''status is not a known job status''
          [\<lparr>fe_Field = ''status'', fe_Issue = ''must be one of the documented job statuses''\<rparr>]))"

definition DefaultJobsLimit :: int where "DefaultJobsLimit = 50"
definition MaxJobsLimit :: int where "MaxJobsLimit = 200"

definition listPagination :: "page_query \<Rightarrow> Error + int \<times> int" where
  "listPagination = paginate DefaultJobsLimit MaxJobsLimit"

section \<open>Bodies\<close>

record createRequestRequest =
  cq_VehicleID :: "uuid option"
  cq_Description :: string
  cq_LocationLat :: "float64 option"
  cq_LocationLng :: "float64 option"
  cq_AddressText :: string

record transitionRequest =
  tq_To :: string
  tq_Reason :: string

record assignmentRequest =
  aq_TechnicianID :: "uuid option"

record requestResponse =
  rr_ID :: uuid
  rr_CustomerID :: uuid
  rr_VehicleID :: "uuid option"
  rr_Description :: string
  rr_LocationLat :: "float64 option"
  rr_LocationLng :: "float64 option"
  rr_AddressText :: string
  rr_Status :: string
  rr_CreatedAt :: gotime
  rr_UpdatedAt :: gotime

record jobResponse =
  jr_ID :: uuid
  jr_ServiceRequestID :: "uuid option"
  jr_CustomerID :: uuid
  jr_VehicleID :: "uuid option"
  jr_Status :: Status
  jr_ProblemSummary :: string
  jr_TechnicianID :: "uuid option"
  jr_CreatedAt :: gotime
  jr_UpdatedAt :: gotime

record transitionResponse =
  tr_ID :: int64
  tr_JobID :: uuid
  tr_FromStatus :: Status
  tr_ToStatus :: Status
  tr_ActorID :: "uuid option"
  tr_Reason :: string
  tr_CreatedAt :: gotime

definition newRequestResponse :: "ServiceRequest \<Rightarrow> requestResponse" where
  "newRequestResponse r =
     \<lparr>rr_ID = sr_ID r, rr_CustomerID = sr_CustomerID r, rr_VehicleID = sr_VehicleID r,
      rr_Description = sr_Description r, rr_LocationLat = sr_LocationLat r, rr_LocationLng = sr_LocationLng r,
      rr_AddressText = sr_AddressText r, rr_Status = sr_Status r, rr_CreatedAt = sr_CreatedAt r,
      rr_UpdatedAt = sr_UpdatedAt r\<rparr>"

definition newJobResponse :: "Job \<Rightarrow> jobResponse" where
  "newJobResponse j =
     \<lparr>jr_ID = jb_ID j, jr_ServiceRequestID = jb_ServiceRequestID j, jr_CustomerID = jb_CustomerID j,
      jr_VehicleID = jb_VehicleID j, jr_Status = jb_Status j, jr_ProblemSummary = jb_ProblemSummary j,
      jr_TechnicianID = jb_TechnicianID j, jr_CreatedAt = jb_CreatedAt j, jr_UpdatedAt = jb_UpdatedAt j\<rparr>"

definition newTransitionResponse :: "JobTransition \<Rightarrow> transitionResponse" where
  "newTransitionResponse t =
     \<lparr>tr_ID = jt_ID t, tr_JobID = jt_JobID t, tr_FromStatus = jt_FromStatus t, tr_ToStatus = jt_ToStatus t,
      tr_ActorID = jt_ActorID t, tr_Reason = jt_Reason t, tr_CreatedAt = jt_CreatedAt t\<rparr>"

section \<open>Errors\<close>

text \<open>
  None of the errors the service makes itself, those of validation included, is a platform error:
  what \<open>writeDomainError\<close> does not name becomes a 500.
\<close>

fun domain_error :: "(job_error \<Rightarrow> string) \<Rightarrow> job_error \<Rightarrow> any_error" where
  "domain_error text_of ErrAlreadyConverted = AppError (ErrConflict (text_of ErrAlreadyConverted))"
| "domain_error text_of (ErrJobConflict x) = AppError (ErrConflict (text_of (ErrJobConflict x)))"
| "domain_error text_of ErrRequestNotFound = AppError (ErrNotFound ''service request not found'')"
| "domain_error text_of ErrJobNotFound = AppError (ErrNotFound ''job not found'')"
| "domain_error text_of _ = OtherError"

definition writeDomainError :: "job_http \<Rightarrow> job_error \<Rightarrow> 'b response" where
  "writeDomainError c e = WriteError (domain_error (jh_text c) e)"

abbreviation unauthenticated :: "'b response" where
  "unauthenticated \<equiv> WriteError (AppError (ErrUnauthorized ''authentication required''))"

abbreviation no_subject :: "'b response" where
  "no_subject \<equiv> WriteError (AppError (ErrUnauthorized ''authenticated subject is not a user identifier''))"

section \<open>Handlers\<close>

definition handleCreateRequest ::
  "job_http \<Rightarrow> (createRequestRequest body, job_world, requestResponse) handler" where
  "handleCreateRequest c cl q w =
     (case cl of
        None \<Rightarrow> (unauthenticated, w)
      | Some claims \<Rightarrow>
          (case principal_of (jh_parse c) claims of
             BadSubject \<Rightarrow> (no_subject, w)
           | BadTenant \<Rightarrow>
               (WriteError (AppError (ErrUnauthorized ''authenticated tenant claim is not a tenant identifier'')), w)
           | Principal customer tenant \<Rightarrow>
               (case DecodeJSON q of
                  Inl e \<Rightarrow> (WriteError (AppError e), w)
                | Inr req \<Rightarrow>
                    if trim_space (cq_Description req) = []
                      then (WriteError (AppError (ErrValidation ''description is required''
                        [\<lparr>fe_Field = ''description'', fe_Issue = ''is required''\<rparr>])), w)
                    else if \<not> LocationValid (cq_LocationLat req) (cq_LocationLng req)
                      then (WriteError (AppError (ErrValidation
                        ''location_lat and location_lng must be provided together and within WGS-84 bounds''
                        [\<lparr>fe_Field = ''location'', fe_Issue = ''must be a paired, in-bounds coordinate''\<rparr>])), w)
                    else
                      (case Service_CreateRequest (jh_env c)
                          \<lparr>sr_ID = uuid_nil, sr_TenantID = tenant, sr_CustomerID = customer,
                           sr_VehicleID = cq_VehicleID req, sr_Description = cq_Description req,
                           sr_LocationLat = cq_LocationLat req, sr_LocationLng = cq_LocationLng req,
                           sr_AddressText = cq_AddressText req, sr_Status = RequestStatusReceived,
                           sr_CreatedAt = 0, sr_UpdatedAt = 0\<rparr> w of
                         (Inl e, w') \<Rightarrow> (writeDomainError c e, w')
                       | (Inr r, w') \<Rightarrow> (Reply 201 (newRequestResponse r), w')))))"

definition handleCreateJobFromRequest :: "job_http \<Rightarrow> (string, job_world, jobResponse) handler" where
  "handleCreateJobFromRequest c cl q w =
     (case readScope c cl of
        None \<Rightarrow> (unauthenticated, w)
      | Some scope \<Rightarrow>
          (case path_uuid (jh_parse c) ''requestID'' q of
             Inl e \<Rightarrow> (WriteError (AppError e), w)
           | Inr rid \<Rightarrow>
               (case CreateJobFromRequest (jh_env c) rid scope w of
                  (Inl e, w') \<Rightarrow> (writeDomainError c e, w')
                | (Inr j, w') \<Rightarrow> (Reply 201 (newJobResponse j), w'))))"

text \<open>Reading the job back with the store call numbered k, the end of three handlers.\<close>

definition reply_job :: "job_http \<Rightarrow> nat \<Rightarrow> nat \<Rightarrow> uuid \<Rightarrow> ReadScope \<Rightarrow> job_world \<Rightarrow> jobResponse response" where
  "reply_job c code k jid scope w =
     (case GetJob (jc_engine (jh_env c)) (jc_flt (jh_env c) k) jid scope (jw_db w) of
        Inl e \<Rightarrow> writeDomainError c e
      | Inr j \<Rightarrow> Reply code (newJobResponse j))"

definition handleGetJob :: "job_http \<Rightarrow> (string, job_world, jobResponse) handler" where
  "handleGetJob c cl q w =
     (case readScope c cl of
        None \<Rightarrow> (unauthenticated, w)
      | Some scope \<Rightarrow>
          (case path_uuid (jh_parse c) ''jobID'' q of
             Inl e \<Rightarrow> (WriteError (AppError e), w)
           | Inr jid \<Rightarrow> (reply_job c 200 0 jid scope w, w)))"

definition handleTransition :: "job_http \<Rightarrow> (string \<times> transitionRequest body, job_world, jobResponse) handler" where
  "handleTransition c cl q w =
     (case cl of
        None \<Rightarrow> (unauthenticated, w)
      | Some claims \<Rightarrow>
          (case path_uuid (jh_parse c) ''jobID'' (fst q) of
             Inl e \<Rightarrow> (WriteError (AppError e), w)
           | Inr jid \<Rightarrow>
               (case DecodeJSON (snd q) of
                  Inl e \<Rightarrow> (WriteError (AppError e), w)
                | Inr req \<Rightarrow>
                    (case parseStatus (tq_To req) of
                       Inl e \<Rightarrow> (WriteError (AppError e), w)
                     | Inr to \<Rightarrow>
                         (case jh_parse c (cl_UserID claims) of
                            None \<Rightarrow> (no_subject, w)
                          | Some actor \<Rightarrow>
                              (case readScope c cl of
                                 None \<Rightarrow> (unauthenticated, w)
                               | Some scope \<Rightarrow>
                                   (case Transition (jh_env c) 0 jid to (Some actor) (tq_Reason req) scope w of
                                      (Inl e, w') \<Rightarrow> (writeDomainError c e, w')
                                    | (Inr _, w') \<Rightarrow> (reply_job c 200 2 jid scope w', w'))))))))"

definition handleAssign :: "job_http \<Rightarrow> (string \<times> assignmentRequest body, job_world, jobResponse) handler" where
  "handleAssign c cl q w =
     (case cl of
        None \<Rightarrow> (unauthenticated, w)
      | Some claims \<Rightarrow>
          (case path_uuid (jh_parse c) ''jobID'' (fst q) of
             Inl e \<Rightarrow> (WriteError (AppError e), w)
           | Inr jid \<Rightarrow>
               (case DecodeJSON (snd q) of
                  Inl e \<Rightarrow> (WriteError (AppError e), w)
                | Inr req \<Rightarrow>
                    (case aq_TechnicianID req of
                       None \<Rightarrow> (WriteError (AppError (ErrValidation ''technician_id is required''
                         [\<lparr>fe_Field = ''technician_id'', fe_Issue = ''is required''\<rparr>])), w)
                     | Some tech \<Rightarrow>
                         if tech = uuid_nil
                           then (WriteError (AppError (ErrValidation ''technician_id is required''
                             [\<lparr>fe_Field = ''technician_id'', fe_Issue = ''is required''\<rparr>])), w)
                         else
                           (case readScope c cl of
                              None \<Rightarrow> (unauthenticated, w)
                            | Some scope \<Rightarrow>
                                (case Service_AssignTechnician (jh_env c) jid tech (jh_parse c (cl_UserID claims)) scope w of
                                   (Inl e, w') \<Rightarrow> (writeDomainError c e, w')
                                 | (Inr _, w') \<Rightarrow> (reply_job c 201 4 jid scope w', w')))))))"

definition handleAccept :: "job_http \<Rightarrow> (string, job_world, unit) handler" where
  "handleAccept c cl q w =
     (case cl of
        None \<Rightarrow> (unauthenticated, w)
      | Some claims \<Rightarrow>
          (case path_uuid (jh_parse c) ''jobID'' q of
             Inl e \<Rightarrow> (WriteError (AppError e), w)
           | Inr jid \<Rightarrow>
               (case jh_parse c (cl_UserID claims) of
                  None \<Rightarrow> (no_subject, w)
                | Some tech \<Rightarrow>
                    (case readScope c cl of
                       None \<Rightarrow> (unauthenticated, w)
                     | Some scope \<Rightarrow>
                         (case Accept (jh_env c) jid tech scope w of
                            (Inl e, w') \<Rightarrow> (writeDomainError c e, w')
                          | (Inr _, w') \<Rightarrow> (Reply 204 (), w'))))))"

definition handleListTransitions :: "job_http \<Rightarrow> (string, job_world, transitionResponse list) handler" where
  "handleListTransitions c cl q w =
     (case readScope c cl of
        None \<Rightarrow> (unauthenticated, w)
      | Some scope \<Rightarrow>
          (case path_uuid (jh_parse c) ''jobID'' q of
             Inl e \<Rightarrow> (WriteError (AppError e), w)
           | Inr jid \<Rightarrow>
               (case GetJob (jc_engine (jh_env c)) (jc_flt (jh_env c) 0) jid scope (jw_db w) of
                  Inl e \<Rightarrow> (writeDomainError c e, w)
                | Inr _ \<Rightarrow>
                    (case Transitions (jh_scan c) (later 1 (jh_env c)) jid scope w of
                       Inl e \<Rightarrow> (writeDomainError c e, w)
                     | Inr ts \<Rightarrow> (Reply 200 (map newTransitionResponse ts), w)))))"

record list_query =
  lq_status :: string
  lq_technician :: string
  lq_page :: page_query

definition job_filter_of :: "job_http \<Rightarrow> list_query \<Rightarrow> Error + JobFilter" where
  "job_filter_of c q =
     (let rawStatus = trim_space (lq_status q); rawTechnician = trim_space (lq_technician q) in
      case (if rawStatus = [] then Inr None else map_sum (\<lambda>e. e) Some (parseStatus rawStatus)) of
        Inl e \<Rightarrow> Inl e
      | Inr status \<Rightarrow>
          if rawTechnician = [] then Inr \<lparr>jf_Status = status, jf_TechnicianID = None\<rparr>
          else case jh_parse c rawTechnician of
            None \<Rightarrow> Inl (ErrValidation ''technician_id is not a valid identifier''
              [\<lparr>fe_Field = ''technician_id'', fe_Issue = ''must be a uuid''\<rparr>])
          | Some t \<Rightarrow> Inr \<lparr>jf_Status = status, jf_TechnicianID = Some t\<rparr>)"

definition handleListJobs :: "job_http \<Rightarrow> (list_query, job_world, jobResponse list) handler" where
  "handleListJobs c cl q w =
     (case readScope c cl of
        None \<Rightarrow> (unauthenticated, w)
      | Some scope \<Rightarrow>
          (case job_filter_of c q of
             Inl e \<Rightarrow> (WriteError (AppError e), w)
           | Inr flt \<Rightarrow>
               (case listPagination (lq_page q) of
                  Inl e \<Rightarrow> (WriteError (AppError e), w)
                | Inr (limit, offset) \<Rightarrow>
                    (case Jobs (jh_env c) flt limit offset scope w of
                       Inl e \<Rightarrow> (writeDomainError c e, w)
                     | Inr js \<Rightarrow> (Reply 200 (map newJobResponse js), w)))))"

section \<open>Routes\<close>

datatype job_request =
    PostRequest "createRequestRequest body"
  | PostRequestJob string
  | GetJobs list_query
  | GetOneJob string
  | GetJobTransitions string
  | PostTransition string "transitionRequest body"
  | PostAssignment string "assignmentRequest body"
  | PostAccept string

datatype job_reply =
    RequestBody requestResponse
  | JobBody jobResponse
  | JobList "jobResponse list"
  | Trail "transitionResponse list"
  | NoContent

definition Routes :: "job_http \<Rightarrow> (job_request, job_world, job_reply) handler" where
  "Routes c cl rq w =
     (case rq of
        PostRequest b \<Rightarrow> apfst (map_response RequestBody) (RequireAuthenticated (handleCreateRequest c) cl b w)
      | PostRequestJob p \<Rightarrow> apfst (map_response JobBody) (RequireAuthenticated (handleCreateJobFromRequest c) cl p w)
      | GetJobs q \<Rightarrow> apfst (map_response JobList) (RequireRole dispatchRoles (handleListJobs c) cl q w)
      | GetOneJob p \<Rightarrow> apfst (map_response JobBody) (RequireAuthenticated (handleGetJob c) cl p w)
      | GetJobTransitions p \<Rightarrow> apfst (map_response Trail) (RequireAuthenticated (handleListTransitions c) cl p w)
      | PostTransition p b \<Rightarrow> apfst (map_response JobBody) (RequireRole dispatchRoles (handleTransition c) cl (p, b) w)
      | PostAssignment p b \<Rightarrow> apfst (map_response JobBody) (RequireRole dispatchRoles (handleAssign c) cl (p, b) w)
      | PostAccept p \<Rightarrow> apfst (map_response (\<lambda>_. NoContent)) (RequireRole [JobRoleTechnician] (handleAccept c) cl p w))"

end
