(* ===== verification/Job_Api.thy ===== *)
theory Job_Api
  imports Job_Http
begin

text \<open>
  What the HTTP interface of the jobs domain promises: who can change what, that requests keep the
  integrity of the tables, what a principal of a tenant can learn, and the answers of the
  transition endpoint.
\<close>

section \<open>Changes\<close>

lemma readScope_Some:
  "readScope c cl = Some s \<longleftrightarrow> (\<exists>claims. cl = Some claims \<and>
     principal_of (jh_parse c) claims = Principal (sp_ViewerID s) (sp_TenantID s) \<and>
     sp_Operator s = IsOperatorRole (cl_Role claims))"
  by (cases s) (auto simp: readScope_def split: option.splits principal.splits)

lemma principal_subject: "principal_of parse claims = Principal v t \<Longrightarrow> parse (cl_UserID claims) = Some v"
  by (auto simp: principal_of_def split: option.splits if_splits)

text \<open>
  The writes of the interface: the service operation a route calls, and the principal it acts for.
\<close>

inductive api_write :: "job_http \<Rightarrow> Claims \<Rightarrow> job_world \<Rightarrow> job_request \<Rightarrow> job_world \<Rightarrow> bool"
  for c :: job_http and claims :: Claims and w :: job_world where
  write_request: "Service_CreateRequest (jh_env c) r w = (res, w') \<Longrightarrow>
    principal_of (jh_parse c) claims = Principal (sr_CustomerID r) (sr_TenantID r) \<Longrightarrow>
    api_write c claims w (PostRequest b) w'"
| write_convert: "CreateJobFromRequest (jh_env c) rid s w = (res', w') \<Longrightarrow>
    readScope c (Some claims) = Some s \<Longrightarrow> api_write c claims w (PostRequestJob p) w'"
| write_transition: "Transition (jh_env c) 0 jid to (Some (sp_ViewerID s)) reason s w = (done, w') \<Longrightarrow>
    readScope c (Some claims) = Some s \<Longrightarrow> sp_Operator s \<Longrightarrow>
    api_write c claims w (PostTransition p tb) w'"
| write_assign: "Service_AssignTechnician (jh_env c) jid tech (Some (sp_ViewerID s)) s w = (done, w') \<Longrightarrow>
    readScope c (Some claims) = Some s \<Longrightarrow> sp_Operator s \<Longrightarrow> tech \<noteq> uuid_nil \<Longrightarrow>
    api_write c claims w (PostAssignment p ab) w'"
| write_accept: "Accept (jh_env c) jid (sp_ViewerID s) s w = (done, w') \<Longrightarrow>
    readScope c (Some claims) = Some s \<Longrightarrow> cl_Role claims = JobRoleTechnician \<Longrightarrow>
    api_write c claims w (PostAccept p) w'"

inductive_cases api_writeE: "api_write c claims w rq w'"

lemma api_write_call: "api_write c claims w rq w' \<Longrightarrow> job_call w w'"
  by (induction rule: api_write.induct) (metis job_call.intros snd_conv)+

lemma handleCreateRequest_effect:
  assumes "handleCreateRequest c (Some claims) b w = (r, w')" and "w' \<noteq> w"
  shows "api_write c claims w (PostRequest b) w'"
  using assms
  by (auto simp: handleCreateRequest_def split: principal.splits sum.splits prod.splits if_splits
      intro: write_request)

lemma handleCreateJobFromRequest_effect:
  assumes "handleCreateJobFromRequest c (Some claims) p w = (r, w')" and "w' \<noteq> w"
  shows "api_write c claims w (PostRequestJob p) w'"
  using assms
  by (auto simp: handleCreateJobFromRequest_def split: option.splits sum.splits prod.splits intro: write_convert)

lemma operator_claims:
  assumes "readScope c (Some claims) = Some s" and "cl_Role claims \<in> set dispatchRoles"
  shows "sp_Operator s" and "jh_parse c (cl_UserID claims) = Some (sp_ViewerID s)"
  using assms by (auto simp: readScope_Some IsOperatorRole_def dispatchRoles_def dest: principal_subject)

lemma handleTransition_effect:
  assumes "handleTransition c (Some claims) (p, b) w = (r, w')" and "w' \<noteq> w"
    and "cl_Role claims \<in> set dispatchRoles"
  shows "api_write c claims w (PostTransition p b) w'"
  using assms operator_claims [OF _ assms(3)]
  by (auto simp: handleTransition_def split: option.splits sum.splits prod.splits intro: write_transition)

lemma handleAssign_effect:
  assumes "handleAssign c (Some claims) (p, b) w = (r, w')" and "w' \<noteq> w"
    and "cl_Role claims \<in> set dispatchRoles"
  shows "api_write c claims w (PostAssignment p b) w'"
  using assms operator_claims [OF _ assms(3)]
  by (auto simp: handleAssign_def split: option.splits sum.splits prod.splits if_splits intro: write_assign)

lemma handleAccept_effect:
  assumes "handleAccept c (Some claims) p w = (r, w')" and "w' \<noteq> w"
    and "cl_Role claims = JobRoleTechnician"
  shows "api_write c claims w (PostAccept p) w'"
  using assms
  by (auto simp: handleAccept_def readScope_Some split: option.splits sum.splits prod.splits
      intro!: write_accept dest: principal_subject)

lemma get_routes_keep:
  "handleGetJob c cl p w = (rj, w') \<Longrightarrow> w' = w"
  "handleListTransitions c cl p w = (rt, w') \<Longrightarrow> w' = w"
  "handleListJobs c cl q w = (rl, w') \<Longrightarrow> w' = w"
  by (auto simp: handleGetJob_def handleListTransitions_def handleListJobs_def split: option.splits sum.splits prod.splits)

lemma Routes_effect:
  assumes "Routes c cl rq w = (r, w')" and "w' \<noteq> w"
  shows "\<exists>claims. cl = Some claims \<and> api_write c claims w rq w'"
proof (cases rq)
  case (PostRequest b)
  then show ?thesis using assms handleCreateRequest_effect
    by (auto simp: Routes_def apfst_pair dest!: RequireAuthenticated_cases')
next
  case (PostRequestJob p)
  then show ?thesis using assms handleCreateJobFromRequest_effect
    by (auto simp: Routes_def apfst_pair dest!: RequireAuthenticated_cases')
next
  case (GetJobs q)
  then show ?thesis using assms
    by (auto simp: Routes_def apfst_pair dest!: RequireRole_cases' dest: get_routes_keep)
next
  case (GetOneJob p)
  then show ?thesis using assms
    by (auto simp: Routes_def apfst_pair dest!: RequireAuthenticated_cases' dest: get_routes_keep)
next
  case (GetJobTransitions p)
  then show ?thesis using assms
    by (auto simp: Routes_def apfst_pair dest!: RequireAuthenticated_cases' dest: get_routes_keep)
next
  case (PostTransition p b)
  then show ?thesis using assms handleTransition_effect
    by (auto simp: Routes_def apfst_pair dest!: RequireRole_cases')
next
  case (PostAssignment p b)
  then show ?thesis using assms handleAssign_effect
    by (auto simp: Routes_def apfst_pair dest!: RequireRole_cases')
next
  case (PostAccept p)
  then show ?thesis using assms handleAccept_effect
    by (auto simp: Routes_def apfst_pair dest!: RequireRole_cases')
qed

inductive api_step :: "job_world \<Rightarrow> job_world \<Rightarrow> bool" where
  "api_step w (snd (Routes c cl rq w))"

lemma api_step_call:
  assumes "api_step w w'"
  shows "job_call\<^sup>*\<^sup>* w w'"
proof -
  obtain c cl rq where "Routes c cl rq w = (fst (Routes c cl rq w), w')"
    using assms by cases (metis prod.collapse)
  from Routes_effect [OF this] show ?thesis by (cases "w' = w") (auto dest: api_write_call)
qed

lemma api_steps_calls: "api_step\<^sup>*\<^sup>* w w' \<Longrightarrow> job_call\<^sup>*\<^sup>* w w'"
  by (induction rule: rtranclp_induct) (auto dest: api_step_call intro: rtranclp_trans)

lemma parseStatus_known: "parseStatus raw = Inr s \<Longrightarrow> isKnownStatus s"
  by (auto simp: parseStatus_def isKnownStatus_def Let_def find_Some_iff split: option.splits)

lemma operator_missing:
  assumes "sp_Operator s" and "get_job k db = None"
  shows "GetJob e Healthy k s db = Inl ErrJobNotFound"
proof -
  have "find (\<lambda>j. jb_ID j = k) (jobs_t db) = None" using assms(2) by (simp add: row_get_def)
  then show ?thesis using assms(1) by (simp add: GetJob_def jobScopePredicate_def query_fails_def args_accepted_def)
qed

lemma published:
  assumes "\<forall>can. jc_pub c = Some can \<longrightarrow> can ty"
  shows "\<exists>w'. announced v (job_publish c ty ag actor tn pl w) = (Inr v, w') \<and> jw_db w' = jw_db w"
  using assms by (cases "jc_pub c") (simp_all add: announced_def job_publish_def Let_def)

section \<open>Properties\<close>

text \<open>
  C12. A request changes the state only for a principal the route is meant for, through one
  operation of the service, in the name of the subject of the validated claims: requests are created
  for that subject and its tenant; moves and assignments are made by operators, with the subject as
  the actor; acceptances by technicians, for the subject as the technician. The reading routes
  change nothing.
\<close>

theorem api_changes_authorized:
  assumes "Routes c cl rq w = (r, w')" and "w' \<noteq> w"
  shows "\<exists>claims. cl = Some claims \<and>
    (case rq of
       PostRequest b \<Rightarrow> \<exists>q. principal_of (jh_parse c) claims = Principal (sr_CustomerID q) (sr_TenantID q) \<and>
         w' = snd (Service_CreateRequest (jh_env c) q w)
     | PostRequestJob p \<Rightarrow> \<exists>k s. readScope c cl = Some s \<and> w' = snd (CreateJobFromRequest (jh_env c) k s w)
     | PostTransition p b \<Rightarrow> \<exists>k to reason s. readScope c cl = Some s \<and> sp_Operator s \<and>
         w' = snd (Transition (jh_env c) 0 k to (Some (sp_ViewerID s)) reason s w)
     | PostAssignment p b \<Rightarrow> \<exists>k tech s. readScope c cl = Some s \<and> sp_Operator s \<and> tech \<noteq> uuid_nil \<and>
         w' = snd (Service_AssignTechnician (jh_env c) k tech (Some (sp_ViewerID s)) s w)
     | PostAccept p \<Rightarrow> \<exists>k s. readScope c cl = Some s \<and> cl_Role claims = JobRoleTechnician \<and>
         w' = snd (Accept (jh_env c) k (sp_ViewerID s) s w)
     | _ \<Rightarrow> False)"
proof -
  from Routes_effect [OF assms] obtain claims where cl: "cl = Some claims" and e: "api_write c claims w rq w'"
    by blast
  from e show ?thesis
    by (cases rule: api_write.cases) (simp_all add: cl, (metis snd_conv)+)
qed

definition quiet_http :: job_http where
  "quiet_http = \<lparr>jh_parse = map_of [(''ops'', 1), (''j9'', 9)], jh_text = (\<lambda>_. []), jh_scan = Some, jh_env = calm_env\<rparr>"

definition ops_claims :: Claims where
  "ops_claims = \<lparr>cl_UserID = ''ops'', cl_TenantID = [], cl_Role = ''DISPATCHER'', cl_SessionID = [],
     cl_IssuedAt = 0, cl_ExpiresAt = 0\<rparr>"

lemma ops_scope: "readScope quiet_http (Some ops_claims) = Some operator_scope"
  by (simp add: readScope_def ops_claims_def quiet_http_def principal_of_def operator_scope_def
      IsOperatorRole_def OperatorRoles_def JobRoleDispatcher_def)

lemma api_samples: "path_uuid (jh_parse quiet_http) ''jobID'' ''j9'' = Inr 9" "parseStatus '' triaging'' = Inr StatusTriaging"
  by code_simp+

text \<open>
  The transition endpoint, for an operator and a healthy database. An unknown job answers 404
  and a move the table forbids answers 409, without a change; a legal move answers 200 with the job
  in its new status, which is the stored job, and the audit trail has gained exactly that move, by
  the subject of the claims and with the reason of the request.
\<close>

theorem transition_endpoint:
  assumes scope: "readScope c (Some claims) = Some s" and op: "sp_Operator s"
    and path: "path_uuid (jh_parse c) ''jobID'' p = Inr k" and to: "parseStatus (tq_To b) = Inr to"
    and healthy: "jc_flt (jh_env c) = (\<lambda>_. Healthy)"
    and pub: "\<forall>can. jc_pub (jh_env c) = Some can \<longrightarrow> can EventJobStatusChanged"
  shows "case get_job k (jw_db w) of
      None \<Rightarrow> Routes c (Some claims) (PostTransition p (JsonBody b)) w = (Problem (ErrNotFound ''job not found''), w)
    | Some j \<Rightarrow>
        (case CanTransition (jb_Status j) to of
           Some x \<Rightarrow> Routes c (Some claims) (PostTransition p (JsonBody b)) w
             = (Problem (ErrConflict (jh_text c (ErrJobConflict (Some x)))), w)
         | None \<Rightarrow> \<exists>w' now sq. Routes c (Some claims) (PostTransition p (JsonBody b)) w
             = (Reply 200 (JobBody (newJobResponse (move_job now to j))), w') \<and>
             get_job k (jw_db w') = Some (move_job now to j) \<and>
             jlog_t (jw_db w') = jlog_t (jw_db w) @ [log_move sq now j to (Some (sp_ViewerID s)) (tq_Reason b)])"
proof -
  let ?e = "jh_env c" and ?rq = "PostTransition p (JsonBody b)"
  have role: "cl_Role claims \<in> set dispatchRoles" and subject: "jh_parse c (cl_UserID claims) = Some (sp_ViewerID s)"
    using scope op by (auto simp: readScope_Some IsOperatorRole_def dispatchRoles_def dest: principal_subject)
  have route: "Routes c (Some claims) ?rq w =
      (case Transition ?e 0 k to (Some (sp_ViewerID s)) (tq_Reason b) s w of
         (Inl e, w') \<Rightarrow> (WriteError (domain_error (jh_text c) e), w')
       | (Inr _, w') \<Rightarrow> (map_response JobBody (reply_job c 200 2 k s w'), w'))"
    using role subject scope path to
    by (simp add: Routes_def RequireRole_def handleTransition_def writeDomainError_def WriteError_def
        split: sum.splits prod.splits)
  show ?thesis
  proof (cases "get_job k (jw_db w)")
    case None
    then show ?thesis using op healthy
      by (simp add: route Transition_def transition_check_def operator_missing WriteError_def)
  next
    case (Some j)
    note get = operator_GetJob [OF op]
    show ?thesis
    proof (cases "CanTransition (jb_Status j) to")
      case None
      let ?db = "moved_db (jc_seq ?e 1) (jc_now ?e 1) j to (Some (sp_ViewerID s)) (tq_Reason b) (jw_db w)"
      have known: "isKnownStatus to" using to by (rule parseStatus_known)
      obtain w' where w': "Transition ?e 0 k to (Some (sp_ViewerID s)) (tq_Reason b) s w = (Inr (), w')" "jw_db w' = ?db"
        using get [OF Some] healthy None healthy_update [OF Some known]
          published [OF pub, of "()" k "Some (sp_ViewerID s)" "jb_TenantID j"
            "changed_payload k j to (tq_Reason b) (Some (sp_ViewerID s))" "w\<lparr>jw_db := ?db\<rparr>"]
        by (auto simp: Transition_def transition_check_def transition_write_def)
      have "get_job k ?db = Some (move_job (jc_now ?e 1) to j)" using Some by (rule moved_job)
      moreover from this have "reply_job c 200 2 k s w' = Reply 200 (newJobResponse (move_job (jc_now ?e 1) to j))"
        using get healthy w'(2) by (simp add: reply_job_def)
      moreover have "jlog_t ?db = jlog_t (jw_db w) @
          [log_move (jc_seq ?e 1) (jc_now ?e 1) j to (Some (sp_ViewerID s)) (tq_Reason b)]"
        by (simp add: moved_db_def)
      ultimately show ?thesis using Some None w' by (auto simp: route)
    next
      case (Some x)
      then show ?thesis using get [OF \<open>get_job k (jw_db w) = Some j\<close>] healthy \<open>get_job k (jw_db w) = Some j\<close>
        by (simp add: route Transition_def transition_check_def WriteError_def)
    qed
  qed
qed

theorem transition_endpoint_witness:
  "\<exists>w' now. Routes quiet_http (Some ops_claims)
      (PostTransition ''j9'' (JsonBody \<lparr>tq_To = '' triaging'', tq_Reason = ''triage''\<rparr>)) jobs_w2
    = (Reply 200 (JobBody (newJobResponse (move_job now StatusTriaging sample_job))), w')"
proof -
  have e: "jc_flt (jh_env quiet_http) = (\<lambda>_. Healthy)"
    and p: "\<forall>can. jc_pub (jh_env quiet_http) = Some can \<longrightarrow> can EventJobStatusChanged"
    by (auto simp: quiet_http_def)
  have j: "get_job 9 (jw_db jobs_w2) = Some sample_job"
    by (simp add: jobs_w2_db jobs_db2_def row_get_def sample_job_def)
  from transition_endpoint [OF ops_scope _ api_samples(1) _ e p,
      where b = "\<lparr>tq_To = '' triaging'', tq_Reason = ''triage''\<rparr>" and w = jobs_w2 and to = StatusTriaging]
  show ?thesis using j api_samples(2) by (auto simp: sample_job_def CanTransition_def)
qed

lemma transition_sample_changes:
  "\<exists>r w'. Routes quiet_http (Some ops_claims)
      (PostTransition ''j9'' (JsonBody \<lparr>tq_To = '' triaging'', tq_Reason = ''triage''\<rparr>)) jobs_w2 = (r, w') \<and> w' \<noteq> jobs_w2"
proof -
  have j: "get_job 9 (jw_db jobs_w2) = Some sample_job"
    by (simp add: jobs_w2_db jobs_db2_def row_get_def sample_job_def)
  have "jw_db (snd (Transition calm_env 0 9 StatusTriaging (Some 1) ''triage'' operator_scope jobs_w2))
      \<noteq> jw_db jobs_w2"
    using jobs_w3_log unfolding jobs_w3_def by (auto simp: jobs_w2_db jobs_db2_def)
  then have c: "snd (Transition calm_env 0 9 StatusTriaging (Some 1) ''triage'' operator_scope jobs_w2) \<noteq> jobs_w2"
    by metis
  have role: "cl_Role ops_claims \<in> set dispatchRoles" and sub: "jh_parse quiet_http (cl_UserID ops_claims) = Some 1"
    by (simp_all add: ops_claims_def quiet_http_def dispatchRoles_def OperatorRoles_def JobRoleDispatcher_def)
  show ?thesis using c role sub ops_scope api_samples
    by (simp add: Routes_def RequireRole_def handleTransition_def prod_eq_iff [of _ "(_, _)"] split: sum.splits prod.splits)
      (simp add: quiet_http_def)
qed

theorem api_changes_authorized_witness:
  "\<exists>k to reason s. readScope quiet_http (Some ops_claims) = Some s \<and> sp_Operator s \<and>
     snd (Routes quiet_http (Some ops_claims)
       (PostTransition ''j9'' (JsonBody \<lparr>tq_To = '' triaging'', tq_Reason = ''triage''\<rparr>)) jobs_w2)
     = snd (Transition calm_env 0 k to (Some (sp_ViewerID s)) reason s jobs_w2)"
proof -
  obtain r w' where r: "Routes quiet_http (Some ops_claims)
      (PostTransition ''j9'' (JsonBody \<lparr>tq_To = '' triaging'', tq_Reason = ''triage''\<rparr>)) jobs_w2 = (r, w')" "w' \<noteq> jobs_w2"
    using transition_sample_changes by blast
  from api_changes_authorized [OF r] r(1) show ?thesis by (auto simp: quiet_http_def)
qed

text \<open>
  The whole interface keeps the tables intact. After any sequence of requests, of any
  principals and with any faults of the database and of the publisher, from empty tables, the jobs
  invariant holds and every move in the audit trail is an edge of the transition table.
\<close>

theorem api_keeps_integrity:
  assumes "api_step\<^sup>*\<^sup>* w0 w" and "jw_db w0 = empty_job_db"
  shows "jobs_ok (jw_db w) \<and>
    (\<forall>t \<in> set (jlog_t (jw_db w)). CanTransition (jt_FromStatus t) (jt_ToStatus t) = None)"
proof -
  from api_steps_calls [OF assms(1)] have "jobs_ok (jw_db w) \<and> legal_trail (jw_db w)"
  proof (induction rule: rtranclp_induct)
    case base
    show ?case by (simp add: assms(2) empty_jobs_ok legal_trail_def) (simp add: empty_job_db_def)
  next
    case (step w1 w2)
    then show ?case using job_call_legal job_run_ok [OF job_call_run] by blast
  qed
  then show ?thesis by (simp add: legal_trail_def)
qed

theorem api_keeps_integrity_witness:
  "jobs_ok (jw_db (snd (Routes quiet_http None (GetOneJob ''j9'') jobs_w0)))"
  using api_keeps_integrity [of jobs_w0 "snd (Routes quiet_http None (GetOneJob ''j9'') jobs_w0)"]
  by (auto intro: api_step.intros)

section \<open>Reads\<close>









end
