(* ===== verification/Float64.thy ===== *)
theory Float64
  imports Prelude "HOL-Library.Log_Nat"
begin

text \<open>
  Go's \<open>float64\<close>: IEEE 754 binary64 with rounding to nearest, ties to even. A finite \<open>float64\<close> is
  the rational number it denotes, and every operation is the exact one followed by
  \<open>float64\<close>, which is also the conversion of a constant or an integer. Left out: the
  infinities, since an exponent above 1023 does not overflow here, NaN and the sign of
  zero. The rest of the theory shows that rounding is monotone and exact on the products of an integer up
  to \<open>2^53\<close> and a power of two, which is what the interface \<open>rounding\<close> promises its clients.
\<close>

section \<open>Rounding\<close>

definition round_even :: "rat \<Rightarrow> int" where
  "round_even x =
     (let f = \<lfloor>x\<rfloor>; d = x - of_int f
      in if d < 1 / 2 then f else if d > 1 / 2 then f + 1 else if even f then f else f + 1)"

text \<open>The exponent of a positive rational, from the bit lengths of numerator and denominator.\<close>

definition exponent :: "rat \<Rightarrow> int" where
  "exponent x =
     (let (n, d) = quotient_of x; k = bitlen n - bitlen d
      in if 2 powi k \<le> x then k else k - 1)"

definition unit_last_place :: "rat \<Rightarrow> rat" where
  "unit_last_place x = 2 powi (max (exponent x) (- 1022) - 52)"

definition float64_pos :: "rat \<Rightarrow> rat" where
  "float64_pos x = of_int (round_even (x / unit_last_place x)) * unit_last_place x"

definition binary64 :: "rat \<Rightarrow> rat" where
  "binary64 x = (if x = 0 then 0 else if x < 0 then - float64_pos (- x) else float64_pos x)"

definition fadd :: "rat \<Rightarrow> rat \<Rightarrow> rat" where "fadd a b = binary64 (a + b)"
definition fsub :: "rat \<Rightarrow> rat \<Rightarrow> rat" where "fsub a b = binary64 (a - b)"
definition fmul :: "rat \<Rightarrow> rat \<Rightarrow> rat" where "fmul a b = binary64 (a * b)"
definition fdiv :: "rat \<Rightarrow> rat \<Rightarrow> rat" where "fdiv a b = binary64 (a / b)"

text \<open>\<open>float64(n)\<close> of an integer.\<close>

definition fint :: "int \<Rightarrow> rat" where "fint n = binary64 (of_int n)"

text \<open>\<open>math.Round\<close>: half away from zero.\<close>

definition math_round :: "rat \<Rightarrow> rat" where
  "math_round x = (if x < 0 then - of_int \<lfloor>- x + 1 / 2\<rfloor> else of_int \<lfloor>x + 1 / 2\<rfloor>)"

text \<open>A value a variable of type \<open>float64\<close> can hold.\<close>

definition is_float :: "rat \<Rightarrow> bool" where "is_float x \<longleftrightarrow> binary64 x = x"

section \<open>Rounding to an integer\<close>

lemma round_even_of_int [simp]: "round_even (of_int n) = n"
  by (simp add: round_even_def)

lemma round_even_error: "\<bar>of_int (round_even x) - x\<bar> \<le> 1 / 2"
  unfolding round_even_def Let_def by (auto simp: abs_if) linarith+

lemma round_even_mono:
  assumes "x \<le> y"
  shows "round_even x \<le> round_even y"
proof -
  have "\<lfloor>x\<rfloor> \<le> \<lfloor>y\<rfloor>" using assms by (rule floor_mono)
  then consider (same) "\<lfloor>x\<rfloor> = \<lfloor>y\<rfloor>" | (less) "\<lfloor>x\<rfloor> + 1 \<le> \<lfloor>y\<rfloor>" by linarith
  then show ?thesis
  proof cases
    case same
    then show ?thesis using assms by (auto simp: round_even_def Let_def)
  next
    case less
    then show ?thesis by (auto simp: round_even_def Let_def)
  qed
qed

lemma round_even_bounds:
  assumes "of_int a \<le> x" and "x \<le> of_int b"
  shows "a \<le> round_even x" and "round_even x \<le> b"
  using round_even_mono [OF assms(1)] round_even_mono [OF assms(2)] by simp_all

section \<open>The exponent\<close>

lemma exponent_bounds:
  assumes "0 < x"
  shows "2 powi exponent x \<le> x" and "x < 2 powi (exponent x + 1)"
proof -
  obtain n d where nd: "quotient_of x = (n, d)" by fastforce
  have d: "0 < d" using nd by (rule quotient_of_denom_pos)
  have x: "x = of_int n / of_int d" using nd by (rule quotient_of_div)
  have n: "0 < n" using assms d by (simp add: x zero_less_divide_iff)
  have bits: "(2 :: rat) powi (bitlen z - 1) \<le> of_int z \<and> of_int z < (2 :: rat) powi bitlen z"
    if "0 < z" for z :: int
  proof -
    have "1 \<le> bitlen z" using that by (simp add: bitlen_alt_def)
    moreover have "2 ^ nat (bitlen z - 1) \<le> z \<and> z < 2 ^ nat (bitlen z)" using bitlen_bounds [OF that] .
    ultimately show ?thesis
      by (simp add: power_int_def flip: of_int_power_le_of_int_cancel_iff)
  qed
  define k where "k = bitlen n - bitlen d"
  have "x < 2 powi bitlen n / 2 powi (bitlen d - 1)"
    unfolding x using bits [OF n] bits [OF d] n d by (intro frac_less) auto
  also have "\<dots> = 2 powi (k + 1)"
    unfolding k_def by (simp flip: power_int_diff) (simp add: algebra_simps)
  finally have upper: "x < 2 powi (k + 1)" .
  have "(2 :: rat) powi (k - 1) = 2 powi (bitlen n - 1) / 2 powi bitlen d"
    unfolding k_def by (simp flip: power_int_diff) (simp add: algebra_simps)
  also have "\<dots> \<le> x"
    unfolding x using bits [OF n] bits [OF d] n d by (intro frac_le) (auto intro: less_imp_le)
  finally have lower: "2 powi (k - 1) \<le> x" .
  show "2 powi exponent x \<le> x" and "x < 2 powi (exponent x + 1)"
    using upper lower by (auto simp: exponent_def nd k_def [symmetric])
qed

lemma power_int_two_less_iff: "(2 :: rat) powi a < 2 powi b \<longleftrightarrow> a < b"
  by (meson linorder_not_less one_le_numeral one_less_numeral_iff power_int_increasing
      power_int_strict_increasing semiring_norm(76))

lemma exponent_mono:
  assumes "0 < x" and "x \<le> y"
  shows "exponent x \<le> exponent y"
proof -
  have "2 powi exponent x < (2 :: rat) powi (exponent y + 1)"
    using exponent_bounds(1) [OF assms(1)] exponent_bounds(2) [of y] assms by linarith
  then show ?thesis by (simp add: power_int_two_less_iff)
qed

lemma exponent_unique:
  assumes "2 powi k \<le> x" and "x < 2 powi (k + 1)"
  shows "exponent x = k"
proof -
  have "0 < (2 :: rat) powi k" by simp
  then have "0 < x" using assms(1) by linarith
  from exponent_bounds [OF this] assms
  have "(2 :: rat) powi exponent x < 2 powi (k + 1)" and "(2 :: rat) powi k < 2 powi (exponent x + 1)"
    by linarith+
  then show ?thesis by (simp add: power_int_two_less_iff)
qed

lemma unit_pos [simp]: "0 < unit_last_place x"
  by (simp add: unit_last_place_def)

section \<open>Rounding a positive number\<close>

text \<open>\<open>top x\<close> is the exponent the rounding of x uses: the result lies between the powers of two
  around it.\<close>

definition top :: "rat \<Rightarrow> int" where "top x = max (exponent x) (- 1022)"

lemma scaled_power: "2 powi (top x + k) / unit_last_place x = 2 powi (k + 52)"
  by (simp add: unit_last_place_def top_def algebra_simps flip: power_int_diff)

lemma below_next_power:
  assumes "0 < x"
  shows "float64_pos x \<le> 2 powi (top x + 1)"
proof -
  have "x \<le> 2 powi (exponent x + 1)" using exponent_bounds(2) [OF assms] by simp
  also have "\<dots> \<le> 2 powi (top x + 1)" by (rule power_int_increasing) (simp_all add: top_def)
  finally have "x / unit_last_place x \<le> 2 powi (top x + 1) / unit_last_place x"
    by (rule divide_right_mono) (simp add: less_imp_le)
  then have "x / unit_last_place x \<le> of_int (2 ^ 53)" unfolding scaled_power by simp
  from round_even_mono [OF this] have "round_even (x / unit_last_place x) \<le> 2 ^ 53"
    unfolding round_even_of_int .
  then have "(of_int (round_even (x / unit_last_place x)) :: rat) \<le> 2 ^ 53"
    by (metis of_int_le_iff of_int_numeral of_int_power)
  also have "(2 :: rat) ^ 53 = 2 powi (top x + 1) / unit_last_place x"
    unfolding scaled_power by simp
  finally show ?thesis by (simp add: float64_pos_def pos_le_divide_eq)
qed

lemma above_power:
  assumes "0 < x" and "top x = exponent x"
  shows "2 powi top x \<le> float64_pos x"
proof -
  have "2 powi top x / unit_last_place x \<le> x / unit_last_place x"
    using exponent_bounds(1) [OF assms(1)] assms(2) by (intro divide_right_mono) (simp_all add: less_imp_le)
  then have "of_int (2 ^ 52) \<le> x / unit_last_place x"
    using scaled_power [of x 0] by simp
  from round_even_mono [OF this] have "2 ^ 52 \<le> round_even (x / unit_last_place x)"
    unfolding round_even_of_int .
  then have "(2 :: rat) ^ 52 \<le> of_int (round_even (x / unit_last_place x))"
    by (metis of_int_le_iff of_int_numeral of_int_power)
  moreover have "2 powi top x / unit_last_place x = (2 :: rat) ^ 52"
    using scaled_power [of x 0] by simp
  ultimately have "2 powi top x / unit_last_place x \<le> of_int (round_even (x / unit_last_place x))" by simp
  then show ?thesis unfolding float64_pos_def by (subst (asm) pos_divide_le_eq) (rule unit_pos)
qed

lemma float64_pos_nonneg:
  assumes "0 \<le> x"
  shows "0 \<le> float64_pos x"
proof -
  have "0 \<le> round_even (x / unit_last_place x)"
    using assms by (intro round_even_bounds(1) [where b = "\<lceil>x / unit_last_place x\<rceil>"])
      (simp_all add: less_imp_le)
  then show ?thesis by (simp add: float64_pos_def less_imp_le)
qed

lemma float64_pos_mono:
  assumes "0 < x" and "x \<le> y"
  shows "float64_pos x \<le> float64_pos y"
proof -
  have y: "0 < y" using assms by linarith
  have "top x \<le> top y" using exponent_mono [OF assms] by (simp add: top_def)
  then consider (same) "top x = top y" | (less) "top x + 1 \<le> top y" by linarith
  then show ?thesis
  proof cases
    case same
    then have unit: "unit_last_place x = unit_last_place y" by (simp add: unit_last_place_def top_def)
    have "x / unit_last_place y \<le> y / unit_last_place y"
      using assms(2) by (intro divide_right_mono) (simp_all add: less_imp_le)
    from round_even_mono [OF this] show ?thesis
      by (simp add: float64_pos_def unit mult_right_mono less_imp_le)
  next
    case less
    then have normal: "top y = exponent y" by (auto simp: top_def)
    have "float64_pos x \<le> 2 powi (top x + 1)" using assms(1) by (rule below_next_power)
    also have "\<dots> \<le> 2 powi top y" using less by (intro power_int_increasing) simp_all
    also have "\<dots> \<le> float64_pos y" using y normal by (rule above_power)
    finally show ?thesis .
  qed
qed

section \<open>Rounding\<close>

lemma float64_mono:
  assumes "x \<le> y"
  shows "binary64 x \<le> binary64 y"
proof -
  consider "y < 0" | "x < 0" "0 \<le> y" | "0 \<le> x" by linarith
  then show ?thesis
  proof cases
    case 1
    then show ?thesis using assms float64_pos_mono [of "- y" "- x"] by (simp add: binary64_def)
  next
    case 2
    then show ?thesis using float64_pos_nonneg [of "- x"] float64_pos_nonneg [of y]
      by (simp add: binary64_def)
  next
    case 3
    then show ?thesis using assms float64_pos_mono [of x y] float64_pos_nonneg [of y]
      by (auto simp: binary64_def)
  qed
qed

lemma float64_zero [simp]: "binary64 0 = 0"
  by (simp add: binary64_def)

lemma float64_nonneg: "0 \<le> x \<Longrightarrow> 0 \<le> binary64 x"
  using float64_mono [of 0 x] by simp

lemma float64_uminus: "binary64 (- x) = - binary64 x"
  by (simp add: binary64_def)

text \<open>Every multiple of a unit that is small enough is represented exactly.\<close>

lemma float64_exact:
  assumes k: "\<bar>k\<bar> \<le> 2 ^ 53" and m: "- 1074 \<le> m"
  shows "binary64 (of_int k * 2 powi m) = of_int k * 2 powi m"
proof -
  have pos: "binary64 (of_int n * 2 powi m) = of_int n * 2 powi m" if n: "0 < n" "n \<le> 2 ^ 53" for n :: int
  proof -
    let ?x = "of_int n * 2 powi m :: rat"
    have x: "0 < ?x" using n by simp
    show ?thesis
    proof (cases "n = 2 ^ 53")
      case True
      then have "?x = 2 powi (m + 53)" by (simp add: power_int_add)
      then have "exponent ?x = m + 53"
        by (intro exponent_unique) (simp_all add: power_int_two_less_iff)
      then have "unit_last_place ?x = 2 powi (m + 1)" using m by (simp add: unit_last_place_def add.commute)
      moreover have "?x = of_int (2 ^ 52) * 2 powi (m + 1)" by (simp add: True power_int_add)
      ultimately have "?x / unit_last_place ?x = of_int (2 ^ 52)" by simp
      then have "float64_pos ?x = ?x"
        using round_even_of_int [of "2 ^ 52"] \<open>unit_last_place ?x = _\<close> \<open>?x = of_int (2 ^ 52) * _\<close>
        by (simp add: float64_pos_def)
      then show ?thesis using x by (simp add: binary64_def)
    next
      case False
      then have "(of_int n :: rat) < 2 ^ 53"
        using n(2) by (metis of_int_less_iff of_int_numeral of_int_power order_le_imp_less_or_eq)
      then have "?x < 2 powi (m + 53)" by (simp add: power_int_add)
      then have "(2 :: rat) powi exponent ?x < 2 powi (m + 53)"
        using exponent_bounds(1) [OF x] by linarith
      then have e: "max (exponent ?x) (- 1022) - 52 \<le> m" using m by (simp add: power_int_two_less_iff)
      define j where "j = nat (m - (max (exponent ?x) (- 1022) - 52))"
      have "2 powi m = 2 powi int j * unit_last_place ?x"
        unfolding unit_last_place_def j_def using e by (simp flip: power_int_add)
      then have "?x = of_int (n * 2 ^ j) * unit_last_place ?x" by simp
      then have "?x / unit_last_place ?x = of_int (n * 2 ^ j)"
        by (metis nonzero_mult_div_cancel_right order_less_irrefl unit_pos)
      then have "float64_pos ?x = ?x"
        using \<open>?x = of_int (n * 2 ^ j) * unit_last_place ?x\<close> by (simp only: float64_pos_def round_even_of_int)
      then show ?thesis using x by (simp add: binary64_def)
    qed
  qed
  consider "k = 0" | "0 < k" | "k < 0" by linarith
  then show ?thesis
  proof cases
    case 3
    then show ?thesis using pos [of "- k"] k float64_uminus [of "of_int k * 2 powi m"] by simp
  qed (use pos [of k] k in simp_all)
qed

lemma float64_int:
  assumes "\<bar>k\<bar> \<le> 2 ^ 53"
  shows "binary64 (of_int k) = of_int k"
  using float64_exact [OF assms, of 0] by simp

lemma float64_one [simp]: "binary64 1 = 1"
  using float64_int [of 1] by simp

lemma float64_numeral:
  assumes "numeral k \<le> (2 :: int) ^ 53"
  shows "binary64 (numeral k) = numeral k"
  using float64_int [of "numeral k"] assms by simp

section \<open>The rounding interface\<close>

text \<open>What a client of \<open>float64\<close> relies on.\<close>

locale rounding =
  fixes rnd :: "rat \<Rightarrow> rat"
  assumes mono: "x \<le> y \<Longrightarrow> rnd x \<le> rnd y"
    and whole: "\<bar>k\<bar> \<le> 2 ^ 53 \<Longrightarrow> rnd (of_int k) = of_int k"
begin

lemma zero: "rnd 0 = 0"
  using whole [of 0] by simp

lemma one: "rnd 1 = 1"
  using whole [of 1] by simp

lemma nonneg: "0 \<le> x \<Longrightarrow> 0 \<le> rnd x"
  using mono [of 0 x] zero by simp

lemma unit_interval: "0 \<le> x \<Longrightarrow> x \<le> 1 \<Longrightarrow> 0 \<le> rnd x \<and> rnd x \<le> 1"
  using nonneg [of x] mono [of x 1] one by simp

lemma bounded:
  assumes "\<bar>k\<bar> \<le> 2 ^ 53" and "x \<le> of_int k"
  shows "rnd x \<le> of_int k"
  using mono [OF assms(2)] whole [OF assms(1)] by simp

text \<open>A product with a factor of the unit interval does not exceed the other factor.\<close>

lemma product_below:
  assumes "rnd a = a" and "0 \<le> a" and "0 \<le> b" and "b \<le> 1"
  shows "0 \<le> rnd (a * b)" and "rnd (a * b) \<le> a"
  using nonneg [of "a * b"] mono [of "a * b" a] assms by (simp_all add: mult_left_le)

text \<open>\<open>math.Round(x * m) / m\<close> keeps the unit interval.\<close>

lemma rounded_quotient:
  assumes m: "0 < m" "m \<le> 2 ^ 53" and x: "0 \<le> x" "rnd (x * of_int m) < of_int m + 1 / 2"
  shows "0 \<le> rnd (math_round (rnd (x * of_int m)) / of_int m)"
    and "rnd (math_round (rnd (x * of_int m)) / of_int m) \<le> 1"
proof -
  let ?p = "rnd (x * of_int m)"
  have p: "0 \<le> ?p" using m x by (intro nonneg) simp
  then have "math_round ?p = of_int \<lfloor>?p + 1 / 2\<rfloor>" by (simp add: math_round_def)
  moreover have "0 \<le> \<lfloor>?p + 1 / 2\<rfloor>" using p by simp
  moreover have "\<lfloor>?p + 1 / 2\<rfloor> \<le> m" using x(2) by linarith
  ultimately have "0 \<le> math_round ?p" and "math_round ?p \<le> of_int m" by simp_all
  then have "0 \<le> math_round ?p / of_int m \<and> math_round ?p / of_int m \<le> 1" using m by simp
  then show "0 \<le> rnd (math_round ?p / of_int m)" and "rnd (math_round ?p / of_int m) \<le> 1"
    using unit_interval by blast+
qed

end

interpretation fl: rounding binary64
  by unfold_locales (auto intro: float64_mono float64_int)

end
