(* ===== verification/Dispatch.thy ===== *)
theory Dispatch
  imports Platform_Http Float64 "HOL-Library.Product_Lexorder" "HOL-Library.Multiset"
begin

text \<open>
  The dispatch scoring engine, \<open>backend/dispatch/scoring.go\<close>. Its arithmetic is that of \<open>Float64\<close>,
  one rounding for each operation of the source, as a compiler that does not fuse multiplication
  and addition emits it; negative zero is not told from zero, which shows in the sign of a rating
  or distance of \<open>-0\<close> in a reason and nowhere else.
  \<open>strings.EqualFold\<close>, which folds case by the tables of Unicode, is the parameter \<open>fold_eq\<close>. A
  technician's \<open>uuid\<close> is compared by its rendering; that is of fixed length, in hexadecimal, so
  its order is that of the number.
\<close>

section \<open>Arithmetic\<close>

definition clamp01 :: "rat \<Rightarrow> rat" where
  "clamp01 x = (if x \<le> 0 then 0 else if x \<ge> 1 then 1 else x)"

definition roundUnit :: rat where "roundUnit = 10000"

definition round4 :: "rat \<Rightarrow> rat" where
  "round4 x = fdiv (math_round (fmul x roundUnit)) roundUnit"

text \<open>\<open>%.nf\<close>: the decimal expansion to n places, halves to even.\<close>

definition pad_left :: "nat \<Rightarrow> string \<Rightarrow> string" where
  "pad_left n s = replicate (n - length s) (CHR ''0'') @ s"

definition fixed :: "nat \<Rightarrow> rat \<Rightarrow> string" where
  "fixed n x =
     (let k = nat (round_even (\<bar>x\<bar> * 10 ^ n));
          digits = pad_left (Suc n) (dec_nat k);
          whole = take (length digits - n) digits;
          frac = drop (length digits - n) digits
      in (if x < 0 then ''-'' else []) @ whole @ (if n = 0 then [] else ''.'' @ frac))"

fun join :: "string \<Rightarrow> string list \<Rightarrow> string" where
  "join sep [] = []"
| "join sep [s] = s"
| "join sep (s # t # ts) = s @ sep @ join sep (t # ts)"

section \<open>Inputs and outputs\<close>

definition FactorTechnicalFit :: string where "FactorTechnicalFit = ''technical_fit''"
definition FactorProximity :: string where "FactorProximity = ''proximity''"
definition FactorAvailability :: string where "FactorAvailability = ''availability''"
definition FactorEquipment :: string where "FactorEquipment = ''equipment''"
definition FactorParts :: string where "FactorParts = ''parts''"
definition FactorPerformance :: string where "FactorPerformance = ''performance''"

record Candidate =
  ca_TechnicianID :: uuid
  ca_DistanceKm :: rat
  ca_ETAMinutes :: int
  ca_Skills :: "string list"
  ca_VehicleMakes :: "string list"
  ca_Available :: bool
  ca_HasEquipment :: bool
  ca_HasRequiredParts :: bool
  ca_CompletedJobs :: int
  ca_AcceptanceRate :: rat
  ca_CompletionRate :: rat
  ca_AvgCustomerRating :: rat
  ca_DeclinedLast :: bool

record JobContext =
  jx_RequiredSkills :: "string list"
  jx_VehicleMake :: string
  jx_RequiredParts :: "string list"

record Weights =
  wt_TechnicalFit :: rat
  wt_Proximity :: rat
  wt_Availability :: rat
  wt_Equipment :: rat
  wt_Parts :: rat
  wt_Performance :: rat

definition DefaultWeights :: "Weights" where
  "DefaultWeights =
     \<lparr>wt_TechnicalFit = binary64 (30 / 100), wt_Proximity = binary64 (20 / 100), wt_Availability = binary64 (15 / 100),
      wt_Equipment = binary64 (15 / 100), wt_Parts = binary64 (10 / 100), wt_Performance = binary64 (10 / 100)\<rparr>"

datatype weights_error = NegativeWeight string rat | WeightsSum rat

definition weights_sum :: "Weights \<Rightarrow> rat" where
  "weights_sum w =
     fadd (fadd (fadd (fadd (fadd (wt_TechnicalFit w) (wt_Proximity w))
       (wt_Availability w)) (wt_Equipment w)) (wt_Parts w)) (wt_Performance w)"

definition weightsSumTolerance :: "rat" where
  "weightsSumTolerance = binary64 (1 / 1000000000)"

definition Weights_Validate :: "Weights \<Rightarrow> weights_error option" where
  "Weights_Validate w =
     (case find (\<lambda>(name, v). v < 0)
         [(''technical_fit'', wt_TechnicalFit w), (''proximity'', wt_Proximity w),
          (''availability'', wt_Availability w), (''equipment'', wt_Equipment w),
          (''parts'', wt_Parts w), (''performance'', wt_Performance w)] of
        Some (name, v) \<Rightarrow> Some (NegativeWeight name v)
      | None \<Rightarrow>
          if \<bar>fsub (weights_sum w) 1\<bar> > weightsSumTolerance then Some (WeightsSum (weights_sum w)) else None)"

record Factor =
  fa_Name :: string
  fa_Weight :: rat
  fa_Raw :: rat
  fa_Normalized :: rat
  fa_Reason :: string

record Score =
  so_TechnicianID :: uuid
  so_Total :: rat
  so_Factors :: "Factor list"
  so_TopReasons :: "string list"

record factorResult =
  fr_raw :: rat
  fr_normalized :: rat
  fr_reason :: string

section \<open>The factors\<close>

definition containsFold :: "(string \<Rightarrow> string \<Rightarrow> bool) \<Rightarrow> string list \<Rightarrow> string \<Rightarrow> bool" where
  "containsFold fold_eq items needle = list_ex (\<lambda>item. fold_eq item needle) items"

definition splitSkills ::
  "(string \<Rightarrow> string \<Rightarrow> bool) \<Rightarrow> string list \<Rightarrow> string list \<Rightarrow> string list \<times> string list" where
  "splitSkills fold_eq required held =
     (filter (containsFold fold_eq held) required, filter (\<lambda>s. \<not> containsFold fold_eq held s) required)"

definition ratedForMake :: "(string \<Rightarrow> string \<Rightarrow> bool) \<Rightarrow> string list \<Rightarrow> string \<Rightarrow> bool" where
  "ratedForMake fold_eq makes mk = (if mk = [] then False else containsFold fold_eq makes mk)"

definition makeMismatchBonus :: rat where "makeMismatchBonus = 1 / 2"

definition scoreTechnicalFit ::
  "(string \<Rightarrow> string \<Rightarrow> bool) \<Rightarrow> Candidate \<Rightarrow> JobContext \<Rightarrow> factorResult" where
  "scoreTechnicalFit fold_eq c j =
     (let (matched, missing) = splitSkills fold_eq (jx_RequiredSkills j) (ca_Skills c);
          n = length (jx_RequiredSkills j);
          ratio = (if n > 0 then fdiv (fint (int (length matched))) (fint (int n)) else 1);
          (bonus, makeNote) =
            (if jx_VehicleMake j = [] then (1, ''no vehicle make constraint'')
             else if ratedForMake fold_eq (ca_VehicleMakes c) (jx_VehicleMake j)
               then (1, ''rated on '' @ jx_VehicleMake j)
             else (makeMismatchBonus, ''not rated on '' @ jx_VehicleMake j @ ''; 0.5 make bonus applied''));
          skills =
            (if n = 0 then ''no specific skills required for this job''
             else ''matches '' @ dec_nat (length matched) @ ''/'' @ dec_nat n @ '' required skills'' @
               (if matched \<noteq> [] then '' ('' @ join '', '' matched @ '')'' else []) @
               (if missing \<noteq> [] then ''; missing ('' @ join '', '' missing @ '')'' else []))
      in \<lparr>fr_raw = ratio, fr_normalized = round4 (clamp01 (fmul ratio bonus)),
          fr_reason = skills @ ''; '' @ makeNote\<rparr>)"

definition etaScaleMinutes :: rat where "etaScaleMinutes = 30"

definition proximity_curve :: "int \<Rightarrow> rat" where
  "proximity_curve eta = fdiv 1 (fadd 1 (fdiv (fint eta) etaScaleMinutes))"

definition scoreProximity :: "Candidate \<Rightarrow> factorResult" where
  "scoreProximity c =
     (let eta = (if ca_ETAMinutes c < 0 then 0 else ca_ETAMinutes c) in
      if \<not> ca_Available c
        then \<lparr>fr_raw = fint eta, fr_normalized = 0,
          fr_reason = ''technician unavailable; proximity scored 0 (ETA would be '' @ dec_int eta @ '' min)''\<rparr>
      else
        let normalized = proximity_curve eta in
        \<lparr>fr_raw = fint eta, fr_normalized = round4 normalized,
         fr_reason = ''ETA '' @ dec_int eta @ '' min, '' @ fixed 1 (ca_DistanceKm c) @ '' km away; proximity '' @
           fixed 2 normalized\<rparr>)"

definition declinedLastPenalty :: rat where "declinedLastPenalty = 1 / 2"

definition scoreAvailability :: "Candidate \<Rightarrow> factorResult" where
  "scoreAvailability c =
     (if \<not> ca_Available c
        then \<lparr>fr_raw = 0, fr_normalized = 0, fr_reason = ''technician is not available; availability scored 0''\<rparr>
      else if ca_DeclinedLast c
        then \<lparr>fr_raw = 1, fr_normalized = declinedLastPenalty,
          fr_reason = ''technician is available but declined the last dispatch offer (0.5 availability penalty)''\<rparr>
      else \<lparr>fr_raw = 1, fr_normalized = 1, fr_reason = ''technician is available with no recent decline''\<rparr>)"

definition scoreEquipment :: "Candidate \<Rightarrow> factorResult" where
  "scoreEquipment c =
     (if ca_HasEquipment c
        then \<lparr>fr_raw = 1, fr_normalized = 1, fr_reason = ''required tools and equipment are on the van''\<rparr>
      else \<lparr>fr_raw = 0, fr_normalized = 0, fr_reason = ''missing required tools or equipment''\<rparr>)"

definition partsPartialCredit :: rat where "partsPartialCredit = 1 / 2"

definition scoreParts :: "Candidate \<Rightarrow> JobContext \<Rightarrow> factorResult" where
  "scoreParts c j =
     (if jx_RequiredParts j = []
        then \<lparr>fr_raw = 1, fr_normalized = 1, fr_reason = ''no parts required for this job''\<rparr>
      else if ca_HasRequiredParts c
        then \<lparr>fr_raw = 1, fr_normalized = 1,
          fr_reason = ''has all '' @ dec_nat (length (jx_RequiredParts j)) @ '' required parts ('' @
            join '', '' (jx_RequiredParts j) @ '')''\<rparr>
      else \<lparr>fr_raw = 0, fr_normalized = partsPartialCredit,
        fr_reason = ''missing required parts ('' @ join '', '' (jx_RequiredParts j) @
          ''); partial parts coverage scored 0.5''\<rparr>)"

definition ratingScale :: rat where "ratingScale = 5"

definition scorePerformance :: "Candidate \<Rightarrow> factorResult" where
  "scorePerformance c =
     (let completion = clamp01 (ca_CompletionRate c);
          rating = fdiv (min (max (ca_AvgCustomerRating c) 0) ratingScale) ratingScale;
          acceptance = clamp01 (ca_AcceptanceRate c);
          composite = fadd (fadd (fmul (binary64 (4 / 10)) completion) (fmul (binary64 (4 / 10)) rating))
            (fmul (binary64 (2 / 10)) acceptance);
          reason = ''completion '' @ fixed 0 (fmul completion 100) @ ''%, rating '' @
            fixed 1 (ca_AvgCustomerRating c) @ ''/5, acceptance '' @ fixed 0 (fmul acceptance 100) @
            ''% over '' @ dec_int (ca_CompletedJobs c) @ '' completed jobs''
      in \<lparr>fr_raw = composite, fr_normalized = round4 (clamp01 composite),
          fr_reason = reason @
            (if ca_CompletedJobs c = 0 then '' (new technician, no history yet)'' else [])\<rparr>)"

section \<open>Scoring\<close>

definition contribution :: "Factor \<Rightarrow> rat" where
  "contribution f = fmul (fa_Weight f) (fa_Normalized f)"

text \<open>The loop over the ordered indices: it skips what contributes nothing and stops at n reasons.\<close>

fun take_reasons :: "Factor list \<Rightarrow> nat \<Rightarrow> nat list \<Rightarrow> string list" where
  "take_reasons fs n [] = []"
| "take_reasons fs n (i # is) =
     (if n = 0 then []
      else if contribution (fs ! i) \<le> 0 then take_reasons fs n is
      else (fa_Name (fs ! i) @ '': '' @ fa_Reason (fs ! i)) # take_reasons fs (n - 1) is)"

definition TopReasons :: "Score \<Rightarrow> int \<Rightarrow> string list" where
  "TopReasons s n =
     (if n \<le> 0 \<or> so_Factors s = [] then []
      else take_reasons (so_Factors s) (nat n)
        (sort_key (\<lambda>i. (- contribution (so_Factors s ! i), i)) [0..<length (so_Factors s)]))"

definition factor_of :: "string \<Rightarrow> rat \<Rightarrow> factorResult \<Rightarrow> Factor" where
  "factor_of name w r =
     \<lparr>fa_Name = name, fa_Weight = w, fa_Raw = fr_raw r, fa_Normalized = fr_normalized r, fa_Reason = fr_reason r\<rparr>"

definition factors_of ::
  "(string \<Rightarrow> string \<Rightarrow> bool) \<Rightarrow> Candidate \<Rightarrow> JobContext \<Rightarrow> Weights \<Rightarrow> Factor list" where
  "factors_of fold_eq c j w =
     [factor_of FactorTechnicalFit (wt_TechnicalFit w) (scoreTechnicalFit fold_eq c j),
      factor_of FactorProximity (wt_Proximity w) (scoreProximity c),
      factor_of FactorAvailability (wt_Availability w) (scoreAvailability c),
      factor_of FactorEquipment (wt_Equipment w) (scoreEquipment c),
      factor_of FactorParts (wt_Parts w) (scoreParts c j),
      factor_of FactorPerformance (wt_Performance w) (scorePerformance c)]"

definition total_of :: "Factor list \<Rightarrow> rat" where
  "total_of fs = fold (\<lambda>f t. fadd t (contribution f)) fs 0"

definition defaultTopReasons :: int where "defaultTopReasons = 3"

definition ScoreCandidate ::
  "(string \<Rightarrow> string \<Rightarrow> bool) \<Rightarrow> JobContext \<Rightarrow> Weights \<Rightarrow> Candidate \<Rightarrow> Score" where
  "ScoreCandidate fold_eq j w c =
     (let factors = factors_of fold_eq c j w;
          score = \<lparr>so_TechnicianID = ca_TechnicianID c, so_Total = round4 (total_of factors),
                   so_Factors = factors, so_TopReasons = []\<rparr>
      in score\<lparr>so_TopReasons := TopReasons score defaultTopReasons\<rparr>)"

definition score_rank :: "Score \<Rightarrow> rat \<times> int" where
  "score_rank s = (- so_Total s, uint (so_TechnicianID s))"

definition ScoreCandidates ::
  "(string \<Rightarrow> string \<Rightarrow> bool) \<Rightarrow> Candidate list \<Rightarrow> JobContext \<Rightarrow> Weights \<Rightarrow> Score list" where
  "ScoreCandidates fold_eq candidates j w =
     sort_key score_rank (map (ScoreCandidate fold_eq j w) candidates)"

section \<open>The unit interval\<close>

definition in_unit :: "rat \<Rightarrow> bool" where "in_unit x \<longleftrightarrow> 0 \<le> x \<and> x \<le> 1"

lemma in_unit_simps [simp]: "in_unit 0" "in_unit 1" "in_unit (1 / 2)"
  by (simp_all add: in_unit_def)

lemma in_unit_clamp01 [simp]: "in_unit (clamp01 x)"
  by (simp add: in_unit_def clamp01_def)

lemma in_unit_float64: "in_unit x \<Longrightarrow> in_unit (binary64 x)"
  using fl.unit_interval by (simp add: in_unit_def)

lemma round4_unit:
  assumes "0 \<le> x" and "binary64 (x * 10000) < 10000 + 1 / 2"
  shows "in_unit (round4 x)"
  using fl.rounded_quotient [of 10000 x] assms
  by (simp add: in_unit_def round4_def fdiv_def fmul_def roundUnit_def)

lemma round4_in_unit:
  assumes "in_unit x"
  shows "in_unit (round4 x)"
proof (rule round4_unit)
  show "0 \<le> x" using assms by (simp add: in_unit_def)
  have "binary64 (x * 10000) \<le> 10000" using fl.bounded [of 10000 "x * 10000"] assms by (simp add: in_unit_def)
  then show "binary64 (x * 10000) < 10000 + 1 / 2" by simp
qed

lemma in_unit_proximity_curve: "in_unit (proximity_curve (max 0 eta))"
proof -
  let ?d = "fadd 1 (fdiv (fint (max 0 eta)) etaScaleMinutes)"
  have "0 \<le> fdiv (fint (max 0 eta)) etaScaleMinutes"
    by (simp add: fdiv_def fint_def etaScaleMinutes_def fl.nonneg)
  then have "1 \<le> ?d" using fl.mono [of 1 "1 + fdiv (fint (max 0 eta)) etaScaleMinutes"] fl.one
    by (simp add: fadd_def)
  then have "in_unit (1 / ?d)" by (simp add: in_unit_def)
  then show ?thesis by (simp add: proximity_curve_def fdiv_def [of 1] in_unit_float64)
qed

lemma in_unit_technical [simp]: "in_unit (fr_normalized (scoreTechnicalFit fold_eq c j))"
  by (simp add: scoreTechnicalFit_def Let_def round4_in_unit split: prod.splits)

lemma in_unit_proximity [simp]: "in_unit (fr_normalized (scoreProximity c))"
proof -
  have "(if ca_ETAMinutes c < 0 then 0 else ca_ETAMinutes c) = max 0 (ca_ETAMinutes c)" by simp
  then show ?thesis
    by (simp only: scoreProximity_def Let_def) (simp add: round4_in_unit in_unit_proximity_curve)
qed

lemma in_unit_availability [simp]: "in_unit (fr_normalized (scoreAvailability c))"
  by (simp add: scoreAvailability_def declinedLastPenalty_def)

lemma in_unit_equipment [simp]: "in_unit (fr_normalized (scoreEquipment c))"
  by (simp add: scoreEquipment_def)

lemma in_unit_parts [simp]: "in_unit (fr_normalized (scoreParts c j))"
  by (simp add: scoreParts_def partsPartialCredit_def)

lemma in_unit_performance [simp]: "in_unit (fr_normalized (scorePerformance c))"
  by (simp add: scorePerformance_def Let_def round4_in_unit)

lemma in_unit_factors: "f \<in> set (factors_of fold_eq c j w) \<Longrightarrow> in_unit (fa_Normalized f)"
  by (auto simp: factors_of_def factor_of_def)

section \<open>The total\<close>

text \<open>Weights as a \<open>float64\<close> variable can hold them.\<close>

definition float_weights :: "Weights \<Rightarrow> bool" where
  "float_weights w \<longleftrightarrow> list_all is_float
     [wt_TechnicalFit w, wt_Proximity w, wt_Availability w, wt_Equipment w, wt_Parts w, wt_Performance w]"

definition weight_values :: "Weights \<Rightarrow> rat list" where
  "weight_values w =
     [wt_TechnicalFit w, wt_Proximity w, wt_Availability w, wt_Equipment w, wt_Parts w, wt_Performance w]"

lemma weights_of_factors: "map fa_Weight (factors_of fold_eq c j w) = weight_values w"
  by (simp add: factors_of_def factor_of_def weight_values_def)

lemma float_weights_values: "float_weights w \<longleftrightarrow> (\<forall>v \<in> set (weight_values w). is_float v)"
  by (simp add: float_weights_def weight_values_def)

lemma valid_weights_nonneg: "Weights_Validate w = None \<Longrightarrow> v \<in> set (weight_values w) \<Longrightarrow> 0 \<le> v"
  by (auto simp: Weights_Validate_def weight_values_def not_less split: if_splits)

lemma running_total:
  assumes "\<forall>f \<in> set fs. in_unit (fa_Normalized f) \<and> 0 \<le> fa_Weight f \<and> is_float (fa_Weight f)"
    and "0 \<le> t" and "t \<le> u"
  shows "0 \<le> fold (\<lambda>f t. fadd t (contribution f)) fs t
    \<and> fold (\<lambda>f t. fadd t (contribution f)) fs t \<le> fold (\<lambda>f u. fadd u (fa_Weight f)) fs u"
  using assms
proof (induction fs arbitrary: t u)
  case (Cons f fs)
  have "0 \<le> contribution f \<and> contribution f \<le> fa_Weight f"
    using Cons.prems(1) fl.product_below [of "fa_Weight f" "fa_Normalized f"]
    by (simp add: contribution_def fmul_def in_unit_def is_float_def)
  then have "0 \<le> fadd t (contribution f)" and "fadd t (contribution f) \<le> fadd u (fa_Weight f)"
    using Cons.prems(2,3) fl.nonneg [of "t + contribution f"]
      fl.mono [of "t + contribution f" "u + fa_Weight f"]
    by (simp_all add: fadd_def)
  then show ?case using Cons.IH [of "fadd t (contribution f)" "fadd u (fa_Weight f)"] Cons.prems(1) by simp
qed simp

lemma weights_sum_fold:
  assumes "float_weights w"
  shows "fold (\<lambda>f u. fadd u (fa_Weight f)) (factors_of fold_eq c j w) 0 = weights_sum w"
  using assms
  by (simp add: factors_of_def factor_of_def weights_sum_def float_weights_def is_float_def fadd_def [of 0])

lemma tolerance_eval:
  "weightsSumTolerance < binary64 (2 / 1000000000)"
  "binary64 ((1 + 2 / 1000000000) * 10000) < 10000 + 1 / 2"
  by code_simp+

lemma valid_sum_bounded:
  assumes "Weights_Validate w = None"
  shows "weights_sum w \<le> 1 + 2 / 1000000000"
proof (rule ccontr)
  assume "\<not> ?thesis"
  then have "binary64 (2 / 1000000000) \<le> fsub (weights_sum w) 1"
    unfolding fsub_def by (intro fl.mono) simp
  moreover have "fsub (weights_sum w) 1 \<le> weightsSumTolerance"
    using assms by (auto simp: Weights_Validate_def split: option.splits if_splits)
  ultimately show False using tolerance_eval(1) by linarith
qed

lemma total_unit:
  assumes valid: "Weights_Validate w = None" and floats: "float_weights w"
  shows "in_unit (so_Total (ScoreCandidate fold_eq j w c))"
proof -
  let ?fs = "factors_of fold_eq c j w"
  have "fa_Weight f \<in> set (weight_values w)" if "f \<in> set ?fs" for f
    using that by (simp flip: weights_of_factors [of fold_eq c j w])
  then have "0 \<le> total_of ?fs \<and> total_of ?fs \<le> weights_sum w"
    using running_total [of ?fs 0 0] in_unit_factors [of _ fold_eq c j w] valid_weights_nonneg [OF valid]
      floats weights_sum_fold [OF floats]
    unfolding total_of_def float_weights_values by fastforce
  then have low: "0 \<le> total_of ?fs" and "total_of ?fs \<le> 1 + 2 / 1000000000"
    using valid_sum_bounded [OF valid] by simp_all
  then have "binary64 (total_of ?fs * 10000) \<le> binary64 ((1 + 2 / 1000000000) * 10000)"
    by (intro fl.mono) simp
  then have "in_unit (round4 (total_of ?fs))"
    using low tolerance_eval(2) by (intro round4_unit) linarith+
  then show ?thesis by (simp add: ScoreCandidate_def Let_def)
qed

section \<open>The catalogue\<close>

record FactorInfo =
  fi_Name :: string
  fi_Description :: string
  fi_DefaultWeight :: rat

definition FactorCatalogue :: "FactorInfo list" where
  "FactorCatalogue =
     [\<lparr>fi_Name = FactorTechnicalFit,
       fi_Description = ''Skill overlap with the job'' @ [CHR 0x27] @ ''s required skills, multiplied by the vehicle-make bonus (1.0 when rated on the make, 0.5 otherwise).'',
       fi_DefaultWeight = wt_TechnicalFit DefaultWeights\<rparr>,
      \<lparr>fi_Name = FactorProximity,
       fi_Description = ''Closeness to the job, 1/(1+ETA/30); scored 0 when the technician is unavailable.'',
       fi_DefaultWeight = wt_Proximity DefaultWeights\<rparr>,
      \<lparr>fi_Name = FactorAvailability,
       fi_Description = ''1 when available, 0.5 when the technician declined the last offer, 0 when unavailable.'',
       fi_DefaultWeight = wt_Availability DefaultWeights\<rparr>,
      \<lparr>fi_Name = FactorEquipment,
       fi_Description = ''1 when the required tools are on the van, 0 otherwise.'',
       fi_DefaultWeight = wt_Equipment DefaultWeights\<rparr>,
      \<lparr>fi_Name = FactorParts,
       fi_Description = ''1 when all required parts are on the van; 0.5 when parts are missing (partial coverage); neutral 1 when the job needs no parts.'',
       fi_DefaultWeight = wt_Parts DefaultWeights\<rparr>,
      \<lparr>fi_Name = FactorPerformance,
       fi_Description = ''Weighted track record: 0.4 completion rate + 0.4 average customer rating (of 5) + 0.2 acceptance rate.'',
       fi_DefaultWeight = wt_Performance DefaultWeights\<rparr>]"

lemma scored_factors_in_catalogue:
  "map fa_Name (factors_of fold_eq c j w) = map fi_Name FactorCatalogue"
  by (simp add: factors_of_def factor_of_def FactorCatalogue_def)

lemma DefaultWeights_valid: "Weights_Validate DefaultWeights = None"
  by code_simp

lemma DefaultWeights_floats: "float_weights DefaultWeights"
  by code_simp

section \<open>The ranking\<close>

lemma ScoreCandidate_id [simp]: "so_TechnicianID (ScoreCandidate fold_eq j w c) = ca_TechnicianID c"
  by (simp add: ScoreCandidate_def Let_def)

lemma ScoreCandidate_factors [simp]: "so_Factors (ScoreCandidate fold_eq j w c) = factors_of fold_eq c j w"
  by (simp add: ScoreCandidate_def Let_def)



lemma ranked_set: "set (ScoreCandidates fold_eq cs j w) = ScoreCandidate fold_eq j w ` set cs"
  by (simp add: ScoreCandidates_def)




section \<open>The reasons\<close>

definition reason_text :: "Factor \<Rightarrow> string" where
  "reason_text f = fa_Name f @ '': '' @ fa_Reason f"

lemma take_reasons_filter:
  "take_reasons fs n is = map (\<lambda>i. reason_text (fs ! i)) (take n (filter (\<lambda>i. 0 < contribution (fs ! i)) is))"
  by (induction fs n "is" rule: take_reasons.induct) (auto simp: reason_text_def take_Cons' not_le)

lemma reasons_of_best:
  fixes order :: "nat list"
  assumes sorted: "sorted (map key order)" and i: "i \<in> set (take n (filter P order))"
    and k: "k \<in> set order" "P k" "k \<notin> set (take n (filter P order))"
  shows "key i \<le> (key k :: 'k :: linorder)"
proof -
  have "k \<in> set (drop n (filter P order))"
    using k by (metis (mono_tags, lifting) Un_iff append_take_drop_id filter_set mem_Collect_eq set_append set_filter)
  moreover have "sorted (map key (take n (filter P order) @ drop n (filter P order)))"
    using sorted by (simp add: sorted_filter)
  ultimately show ?thesis using i by (simp only: map_append sorted_append) auto
qed

section \<open>Properties\<close>

text \<open>
  C15. Under weights that pass \<open>Validate\<close>, every factor value and every total the engine reports
  lies between 0 and 1, in spite of the rounding of each operation and of weights whose sum is
  only within the tolerance; the factors are those of the catalogue with the applied weights.
\<close>

theorem scores_on_unit_scale:
  assumes "Weights_Validate w = None" and "float_weights w"
    and "s \<in> set (ScoreCandidates fold_eq cs j w)"
  shows "0 \<le> so_Total s \<and> so_Total s \<le> 1
    \<and> (\<forall>f \<in> set (so_Factors s). 0 \<le> fa_Normalized f \<and> fa_Normalized f \<le> 1)
    \<and> map fa_Name (so_Factors s) = map fi_Name FactorCatalogue
    \<and> map fa_Weight (so_Factors s) = weight_values w"
proof -
  from assms(3) obtain c where s: "s = ScoreCandidate fold_eq j w c" by (auto simp: ranked_set)
  show ?thesis
    using total_unit [OF assms(1,2), of fold_eq j c] in_unit_factors [of _ fold_eq c j w]
      scored_factors_in_catalogue [of fold_eq c j w] weights_of_factors [of fold_eq c j w]
    unfolding s ScoreCandidate_factors in_unit_def by blast
qed

definition example_candidate :: Candidate where
  "example_candidate =
     \<lparr>ca_TechnicianID = 7, ca_DistanceKm = 4, ca_ETAMinutes = 15, ca_Skills = [''brakes''],
      ca_VehicleMakes = [''toyota''], ca_Available = True, ca_HasEquipment = True,
      ca_HasRequiredParts = False, ca_CompletedJobs = 12, ca_AcceptanceRate = 3 / 4,
      ca_CompletionRate = 1, ca_AvgCustomerRating = 9 / 2, ca_DeclinedLast = False\<rparr>"

definition example_job :: JobContext where
  "example_job = \<lparr>jx_RequiredSkills = [''brakes'', ''abs''], jx_VehicleMake = [], jx_RequiredParts = []\<rparr>"

theorem scores_on_unit_scale_witness:
  "so_Total (ScoreCandidate (=) example_job DefaultWeights example_candidate) \<le> 1"
  using scores_on_unit_scale [OF DefaultWeights_valid DefaultWeights_floats, of _ "(=)"
      "[example_candidate]" example_job]
  by (simp add: ScoreCandidates_def)



text \<open>
  The reasons \<open>TopReasons\<close> gives are at most n, each of a different factor that moved the
  total; as many as there are such factors when they are fewer than n; and no factor left out
  contributes more than one that is named.
\<close>

theorem top_reasons_explain:
  fixes s :: Score and n :: nat
  defines "moved \<equiv> {i. i < length (so_Factors s) \<and> 0 < contribution (so_Factors s ! i)}"
  shows "\<exists>is. TopReasons s (int n) = map (\<lambda>i. reason_text (so_Factors s ! i)) is \<and>
     distinct is \<and> set is \<subseteq> moved \<and> length is = min n (card moved) \<and>
     (\<forall>i \<in> set is. \<forall>k \<in> moved - set is. contribution (so_Factors s ! k) \<le> contribution (so_Factors s ! i))"
proof -
  let ?fs = "so_Factors s"
  let ?key = "\<lambda>i. (- contribution (?fs ! i), i)"
  let ?order = "sort_key ?key [0..<length ?fs]"
  let ?moved = "filter (\<lambda>i. 0 < contribution (?fs ! i)) ?order"
  have set_moved: "set ?moved = moved" by (auto simp: moved_def)
  have distinct: "distinct ?moved" by simp
  have "TopReasons s (int n) = map (\<lambda>i. reason_text (?fs ! i)) (take n ?moved)"
    by (auto simp: TopReasons_def take_reasons_filter)
  moreover have "distinct (take n ?moved)" using distinct by (rule distinct_take)
  moreover have "set (take n ?moved) \<subseteq> moved" using set_take_subset [of n ?moved] set_moved by simp
  moreover have "length (take n ?moved) = min n (card moved)"
    using distinct_card [OF distinct] set_moved by (simp add: min.commute)
  moreover have "contribution (?fs ! k) \<le> contribution (?fs ! i)"
    if "i \<in> set (take n ?moved)" and "k \<in> moved - set (take n ?moved)" for i k
  proof -
    have "?key i \<le> ?key k" using that set_moved
      by (intro reasons_of_best [where P = "\<lambda>i. 0 < contribution (?fs ! i)" and n = n and order = ?order])
        auto
    then show ?thesis by (auto simp: less_eq_prod_def)
  qed
  ultimately show ?thesis by blast
qed

theorem top_reasons_explain_witness:
  "length (TopReasons (ScoreCandidate (=) example_job DefaultWeights example_candidate) 2) \<le> 2"
proof -
  obtain order where "TopReasons (ScoreCandidate (=) example_job DefaultWeights example_candidate) (int 2)
      = map (\<lambda>i. reason_text (so_Factors (ScoreCandidate (=) example_job DefaultWeights example_candidate) ! i)) order"
    and "length order \<le> 2"
    using top_reasons_explain [of "ScoreCandidate (=) example_job DefaultWeights example_candidate" 2] by force
  then show ?thesis by simp
qed

end
