(* ===== verification/Dispatch_Http.thy ===== *)
theory Dispatch_Http
  imports Dispatch Http_Input Sql
begin

text \<open>
  The scoring endpoint and its audit trail: \<open>backend/dispatch/http.go\<close> and \<open>audit.go\<close>. A call brings
  a \<open>dispatch_env\<close>: whether a recorder is configured, the fault of its insert, the fresh
  identifiers, and the functions that are not part of the repository: \<open>uuid.Parse\<close>,
  \<open>strings.EqualFold\<close>, the rendering \<open>%g\<close> of a number in a message, and the SHA-256 of the JSON
  encoding of the inputs. The world of a handler is the table \<open>audit_log\<close>, which a trigger keeps
  append-only.
\<close>

section \<open>The audit trail\<close>







section \<open>Validation\<close>









section \<open>Scoring\<close>











definition handleFactors :: "(unit, 'w, FactorInfo list \<times> Weights) handler" where
  "handleFactors cl q w = (Reply 200 (FactorCatalogue, DefaultWeights), w)"

section \<open>What is recorded\<close>












end
