(* ===== verification/Vin.thy ===== *)
theory Vin
  imports Go_Strings
begin

text \<open>
  Vehicle identification numbers, \<open>backend/vehicles/vin.go\<close>: normalization and the ISO 3779 check
  digit. The raw input is the list of its code points (what \<open>strings.Map\<close> and \<open>strings.ToUpper\<close>
  iterate over; a byte that is no UTF-8 is the replacement rune 65533). Of \<open>unicode.ToUpper\<close> only
  the code points that map into ASCII matter, because anything else is refused afterwards: the
  lower-case letters, the dotless i (305) and the long s (383). The length test counts bytes; an
  input of 17 bytes that are not all ASCII is refused by the character test, so the model counts
  code points and leaves the choice between the two refusals open.
\<close>

section \<open>Model\<close>

definition vinLength :: nat where "vinLength = 17"

definition vinForbidden :: string where "vinForbidden = ''IOQ''"

definition vinCheckDigitChars :: string where "vinCheckDigitChars = ''0123456789X''"

definition vinCharValues :: "char \<Rightarrow> nat option" where
  "vinCharValues = map_of
     (zip ''0123456789'' [0, 1, 2, 3, 4, 5, 6, 7, 8, 9] @
      zip ''ABCDEFGH'' [1, 2, 3, 4, 5, 6, 7, 8] @
      zip ''JKLMNPR'' [1, 2, 3, 4, 5, 7, 9] @
      zip ''STUVWXYZ'' [2, 3, 4, 5, 6, 7, 8, 9])"

definition vinPositionWeights :: "nat list" where
  "vinPositionWeights = [8, 7, 6, 5, 4, 3, 2, 10, 0, 9, 8, 7, 6, 5, 4, 3, 2]"

datatype vin_error = VinMalformed | VinCheckDigit

definition rune_upper :: "nat \<Rightarrow> nat" where
  "rune_upper r =
     (if 97 \<le> r \<and> r \<le> 122 then r - 32 else if r = 305 then 73 else if r = 383 then 83 else r)"

definition vin_rune_ok :: "nat \<Rightarrow> bool" where
  "vin_rune_ok r \<longleftrightarrow>
     (65 \<le> r \<and> r \<le> 90 \<or> 48 \<le> r \<and> r \<le> 57) \<and> r \<notin> of_char ` set vinForbidden"

definition NormalizeVIN :: "nat list \<Rightarrow> vin_error + string" where
  "NormalizeVIN raw =
     (let vin = map rune_upper (filter (\<lambda>r. r \<noteq> 32 \<and> r \<noteq> 45) raw) in
      if length vin \<noteq> vinLength \<or> \<not> list_all vin_rune_ok vin then Inl VinMalformed
      else Inr (map char_of vin))"

text \<open>The weighted sum: \<open>None\<close> when a character has no value.\<close>

fun vin_sum :: "string \<Rightarrow> nat list \<Rightarrow> nat option" where
  "vin_sum [] _ = Some 0"
| "vin_sum (c # cs) [] = Some 0"
| "vin_sum (c # cs) (w # ws) =
     (case (vinCharValues c, vin_sum cs ws) of
        (Some v, Some s) \<Rightarrow> Some (v * w + s)
      | _ \<Rightarrow> None)"

definition vinCheckDigit :: "string \<Rightarrow> vin_error + char" where
  "vinCheckDigit vin =
     (if length vin \<noteq> vinLength then Inl VinMalformed
      else case vin_sum vin vinPositionWeights of
        None \<Rightarrow> Inl VinMalformed
      | Some s \<Rightarrow> Inr (vinCheckDigitChars ! (s mod 11)))"

definition ValidateVIN :: "nat list \<Rightarrow> vin_error + string" where
  "ValidateVIN raw =
     (case NormalizeVIN raw of
        Inl e \<Rightarrow> Inl e
      | Inr vin \<Rightarrow>
          (case vinCheckDigit vin of
             Inl e \<Rightarrow> Inl e
           | Inr want \<Rightarrow> if vin ! 8 \<noteq> want then Inl VinCheckDigit else Inr vin))"

text \<open>The code points of a string of ASCII characters.\<close>

definition runes :: "string \<Rightarrow> nat list" where
  "runes s = map of_char s"

section \<open>The alphabet\<close>

definition vin_char :: "char \<Rightarrow> bool" where
  "vin_char c \<longleftrightarrow> vinCharValues c \<noteq> None"

definition vin_alphabet :: string where
  "vin_alphabet = ''0123456789ABCDEFGHJKLMNPRSTUVWXYZ''"

text \<open>The characters that normalization lets through are exactly those with a value.\<close>

lemma vin_char_alphabet: "vin_char c \<longleftrightarrow> c \<in> set vin_alphabet"
  by (simp add: vin_char_def vinCharValues_def vin_alphabet_def)

lemma alphabet_runes: "map of_char vin_alphabet =
    [48, 49, 50, 51, 52, 53, 54, 55, 56, 57, 65, 66, 67, 68, 69, 70, 71, 72, 74, 75, 76, 77, 78, 80, 82,
     83, 84, 85, 86, 87, 88, 89, 90 :: nat]"
  by (simp add: vin_alphabet_def)

lemma vin_rune_ok_runes: "vin_rune_ok r \<longleftrightarrow> r \<in> set (map of_char vin_alphabet)"
proof -
  have f: "of_char ` set vinForbidden = {73, 79, 81 :: nat}" by (simp add: vinForbidden_def)
  show ?thesis unfolding vin_rune_ok_def f alphabet_runes by (simp, presburger)
qed

lemma vin_rune_ok_char: "vin_rune_ok (of_char c) \<longleftrightarrow> vin_char c"
  by (auto simp: vin_rune_ok_runes vin_char_alphabet)

lemma vin_rune_char: "vin_rune_ok r \<Longrightarrow> vin_char (char_of r)"
  by (auto simp: vin_rune_ok_runes vin_char_alphabet)

lemma vin_char_upper: "vin_char c \<Longrightarrow> rune_upper (of_char c) = of_char c \<and> of_char c \<noteq> (32 :: nat) \<and> of_char c \<noteq> (45 :: nat)"
  by (auto simp: vin_char_alphabet vin_alphabet_def rune_upper_def)

lemma vin_value: "vin_char c \<Longrightarrow> \<exists>v. vinCharValues c = Some v"
  by (auto simp: vin_char_def)

section \<open>Normal form\<close>

lemma normal_form:
  assumes "length v = vinLength" and "list_all vin_char v"
  shows "NormalizeVIN (runes v) = Inr v"
proof -
  have up: "map rune_upper (filter (\<lambda>r. r \<noteq> 32 \<and> r \<noteq> 45) (runes v)) = runes v"
    using assms(2) by (induction v) (auto simp: runes_def vin_char_upper)
  have "list_all vin_rune_ok (runes v)"
    using assms(2) by (simp add: runes_def list_all_iff vin_rune_ok_char)
  moreover have "map char_of (runes v) = v" by (simp add: runes_def comp_def)
  ultimately show ?thesis using assms(1) by (simp add: NormalizeVIN_def Let_def up) (simp add: runes_def)
qed

lemma normalized:
  assumes "NormalizeVIN raw = Inr v"
  shows "length v = vinLength" and "list_all vin_char v"
proof -
  let ?r = "map rune_upper (filter (\<lambda>r. r \<noteq> 32 \<and> r \<noteq> 45) raw)"
  have "length ?r = vinLength" "list_all vin_rune_ok ?r" "v = map char_of ?r"
    using assms by (simp_all add: NormalizeVIN_def Let_def split: if_splits)
  moreover from this(2) have "list_all vin_char (map char_of ?r)"
    unfolding list_all_iff set_map using vin_rune_char by blast
  ultimately show "length v = vinLength" "list_all vin_char v" by simp_all
qed



section \<open>The check digit\<close>

definition char_value :: "char \<Rightarrow> nat" where
  "char_value c = (case vinCharValues c of Some v \<Rightarrow> v | None \<Rightarrow> 0)"

definition weighted :: "string \<Rightarrow> nat list \<Rightarrow> nat" where
  "weighted v ws = (\<Sum>i < min (length v) (length ws). char_value (v ! i) * ws ! i)"

lemma weighted_Cons: "weighted (c # cs) (w # ws) = char_value c * w + weighted cs ws"
  by (simp add: weighted_def sum.lessThan_Suc_shift del: sum.lessThan_Suc)

lemma vin_sum_weighted: "list_all vin_char v \<Longrightarrow> vin_sum v ws = Some (weighted v ws)"
proof (induction v ws rule: vin_sum.induct)
  case (3 c cs w ws)
  then show ?case using vin_value [of c] by (auto simp: weighted_Cons char_value_def)
qed (simp_all add: weighted_def)

lemma weights_length: "length vinPositionWeights = 17"
  by (simp add: vinPositionWeights_def)

lemma check_digit:
  assumes "length v = vinLength" and "list_all vin_char v"
  shows "vinCheckDigit v = Inr (vinCheckDigitChars ! (weighted v vinPositionWeights mod 11))"
  using assms by (simp add: vinCheckDigit_def vin_sum_weighted)

lemma validate_iff:
  assumes "length v = vinLength" and "list_all vin_char v"
  shows "ValidateVIN (runes v) =
    (if v ! 8 = vinCheckDigitChars ! (weighted v vinPositionWeights mod 11) then Inr v else Inl VinCheckDigit)"
  using assms by (simp add: ValidateVIN_def normal_form check_digit)

lemma char_value_bound: "char_value c \<le> 9"
proof (cases "vinCharValues c")
  case (Some v)
  then have "(c, v) \<in> set (zip ''0123456789'' [0, 1, 2, 3, 4, 5, 6, 7, 8, 9] @
      zip ''ABCDEFGH'' [1, 2, 3, 4, 5, 6, 7, 8] @ zip ''JKLMNPR'' [1, 2, 3, 4, 5, 7, 9] @
      zip ''STUVWXYZ'' [2, 3, 4, 5, 6, 7, 8, 9])" unfolding vinCharValues_def by (rule map_of_SomeD)
  then have "v \<le> 9" by auto
  with Some show ?thesis by (simp add: char_value_def)
qed (simp add: char_value_def)

lemma check_chars_inj: "m < 11 \<Longrightarrow> n < 11 \<Longrightarrow> vinCheckDigitChars ! m = vinCheckDigitChars ! n \<Longrightarrow> m = n"
proof -
  have "distinct vinCheckDigitChars" "length vinCheckDigitChars = 11" by (simp_all add: vinCheckDigitChars_def)
  then show "m < 11 \<Longrightarrow> n < 11 \<Longrightarrow> vinCheckDigitChars ! m = vinCheckDigitChars ! n \<Longrightarrow> m = n"
    by (simp add: nth_eq_iff_index_eq)
qed

text \<open>Replacing one summand, as integers.\<close>

lemma weighted_update:
  assumes "i < length v" and "length v = length ws"
  shows "int (weighted (v[i := c]) ws) =
    int (weighted v ws) + (int (char_value c) - int (char_value (v ! i))) * int (ws ! i)"
proof -
  let ?f = "\<lambda>v j. char_value (v ! j) * ws ! j"
  have s: "sum (?f u) {..<length v} = ?f u i + sum (?f u) ({..<length v} - {i})" for u
    using assms(1) by (simp add: sum.remove [of "{..<length v}" i])
  have "sum (?f (v[i := c])) ({..<length v} - {i}) = sum (?f v) ({..<length v} - {i})"
    by (rule sum.cong) auto
  then show ?thesis
    using s [of v] s [of "v[i := c]"] assms by (simp add: weighted_def algebra_simps)
qed

lemma mod_eleven:
  fixes e :: int
  assumes "int a = int b + d * e" and "a mod 11 = b mod 11" and "-9 \<le> d" and "d \<le> 9" and "e = -8 \<or> 1 \<le> e \<and> e \<le> 10"
  shows "d = 0"
proof -
  have "int a mod 11 = int b mod 11" using assms(2) by (metis of_nat_mod of_nat_numeral)
  then have "11 dvd d * e" using assms(1) by (metis add_diff_cancel_left' mod_eq_dvd_iff)
  moreover have "e = -8 \<or> e = 1 \<or> e = 2 \<or> e = 3 \<or> e = 4 \<or> e = 5 \<or> e = 6 \<or> e = 7 \<or> e = 8 \<or> e = 9 \<or> e = 10"
    using assms(5) by arith
  ultimately show "d = 0"
    using assms(3,4) by (elim disjE) (simp_all, presburger+)
qed

text \<open>A change of the weighted sum that is no multiple of eleven is seen at the check digit.\<close>

lemma change_detected:
  assumes v: "ValidateVIN (runes v) = Inr v" and u: "length u = vinLength" "list_all vin_char u"
    and "int (weighted u vinPositionWeights) = int (weighted v vinPositionWeights) + d * e"
    and "d \<noteq> 0" and "-9 \<le> d" and "d \<le> 9" and "e = -8 \<or> 1 \<le> e \<and> e \<le> 10" and "u ! 8 = v ! 8"
  shows "ValidateVIN (runes u) = Inl VinCheckDigit"
proof -
  have nv: "NormalizeVIN (runes v) = Inr v" using v by (auto simp: ValidateVIN_def split: sum.splits if_splits)
  have old: "v ! 8 = vinCheckDigitChars ! (weighted v vinPositionWeights mod 11)"
    using v validate_iff [OF normalized [OF nv]] by (simp split: if_splits)
  have "weighted u vinPositionWeights mod 11 \<noteq> weighted v vinPositionWeights mod 11"
    using mod_eleven [OF assms(4) _ assms(6,7,8)] assms(5) by blast
  then have "vinCheckDigitChars ! (weighted u vinPositionWeights mod 11) \<noteq>
      vinCheckDigitChars ! (weighted v vinPositionWeights mod 11)"
    using check_chars_inj [of "weighted u vinPositionWeights mod 11" "weighted v vinPositionWeights mod 11"] by auto
  then show ?thesis using old assms(9) by (simp add: validate_iff [OF u])
qed

lemma valid_vin:
  assumes "ValidateVIN (runes v) = Inr v"
  shows "length v = 17" and "list_all vin_char v"
  using assms normalized [of "runes v" v] by (auto simp: ValidateVIN_def vinLength_def split: sum.splits if_splits)

lemma different_values:
  assumes "vin_char a" and "vin_char b" and "vinCharValues a \<noteq> vinCharValues b"
  shows "int (char_value a) - int (char_value b) \<noteq> 0"
  using assms by (auto simp: char_value_def vin_char_def)

lemma value_difference: "-9 \<le> int (char_value a) - int (char_value b)" "int (char_value a) - int (char_value b) \<le> 9"
  using char_value_bound [of a] char_value_bound [of b] by auto

lemma weight_range:
  assumes "i < 17" and "i \<noteq> 8"
  shows "1 \<le> int (vinPositionWeights ! i)" and "int (vinPositionWeights ! i) \<le> 10"
proof -
  have "list_all (\<lambda>j. j = 8 \<or> 1 \<le> vinPositionWeights ! j \<and> vinPositionWeights ! j \<le> 10) [0..<17]"
    by (simp add: vinPositionWeights_def upt_conv_Cons)
  then show "1 \<le> int (vinPositionWeights ! i)" "int (vinPositionWeights ! i) \<le> 10"
    using assms by (auto simp: list_all_iff)
qed

lemma weight_step:
  assumes "i < 16" and "i \<noteq> 7" and "i \<noteq> 8"
  shows "int (vinPositionWeights ! i) - int (vinPositionWeights ! Suc i) \<in> {1, -8}"
proof -
  have "list_all (\<lambda>j. j = 7 \<or> j = 8 \<or> int (vinPositionWeights ! j) - int (vinPositionWeights ! Suc j) \<in> {1, -8}) [0..<16]"
    by (simp add: vinPositionWeights_def upt_conv_Cons)
  then show ?thesis using assms by (auto simp: list_all_iff)
qed

text \<open>
  C19. The check digit detects single errors. In a valid VIN, exchanging one character for another
  allowed one is refused when it changes the check digit itself or the transliteration value at any
  other position; and exchanging two neighbours of different value is refused at every position
  that does not involve the check digit.
\<close>

theorem vin_single_error_detected:
  assumes "ValidateVIN (runes v) = Inr v"
  shows "(\<forall>i c. i < 17 \<longrightarrow> vinCharValues c \<noteq> None \<longrightarrow> c \<noteq> v ! i \<longrightarrow>
      i = 8 \<or> vinCharValues c \<noteq> vinCharValues (v ! i) \<longrightarrow>
      ValidateVIN (runes (v[i := c])) = Inl VinCheckDigit) \<and>
    (\<forall>i. i < 16 \<longrightarrow> i \<noteq> 7 \<longrightarrow> i \<noteq> 8 \<longrightarrow> vinCharValues (v ! Suc i) \<noteq> vinCharValues (v ! i) \<longrightarrow>
      ValidateVIN (runes (v[i := v ! Suc i, Suc i := v ! i])) = Inl VinCheckDigit)"
proof (intro conjI allI impI)
  note n = valid_vin [OF assms]
  have ch: "vin_char (v ! i)" if "i < 17" for i using n that by (simp add: list_all_iff)
  have lens: "length v = length vinPositionWeights" using n(1) by (simp add: weights_length)
  fix i c
  assume i: "i < 17" and c: "vinCharValues c \<noteq> None" "c \<noteq> v ! i" and val: "i = 8 \<or> vinCharValues c \<noteq> vinCharValues (v ! i)"
  have u: "length (v[i := c]) = vinLength" "list_all vin_char (v[i := c])"
    using n c(1) by (auto simp: list_all_iff vinLength_def vin_char_def dest!: set_update_subset_insert [THEN subsetD])
  have up: "int (weighted (v[i := c]) vinPositionWeights) = int (weighted v vinPositionWeights) +
      (int (char_value c) - int (char_value (v ! i))) * int (vinPositionWeights ! i)"
    using weighted_update [of i v vinPositionWeights c] i n(1) lens by simp
  show "ValidateVIN (runes (v[i := c])) = Inl VinCheckDigit"
  proof (cases "i = 8")
    case True
    have "v ! 8 = vinCheckDigitChars ! (weighted v vinPositionWeights mod 11)"
      using assms validate_iff [of v] n by (simp add: vinLength_def split: if_splits)
    moreover have "weighted (v[i := c]) vinPositionWeights = weighted v vinPositionWeights"
      using up True by (simp add: vinPositionWeights_def)
    ultimately show ?thesis using True c(2) n(1) validate_iff [OF u] by simp
  next
    case False
    show ?thesis
      by (rule change_detected [OF assms u up different_values value_difference])
        (use False val c(1) ch [OF i] weight_range [OF i False] in \<open>auto simp: vin_char_def\<close>)
  qed
next
  note n = valid_vin [OF assms]
  have lens: "length v = length vinPositionWeights" using n(1) by (simp add: weights_length)
  fix i
  assume i: "i < 16" "i \<noteq> 7" "i \<noteq> 8" and val: "vinCharValues (v ! Suc i) \<noteq> vinCharValues (v ! i)"
  let ?u = "v[i := v ! Suc i, Suc i := v ! i]"
  have ch: "vin_char (v ! i)" "vin_char (v ! Suc i)" using n i by (simp_all add: list_all_iff)
  have "set ?u = set v" using i n(1) by (intro set_swap) auto
  then have u: "length ?u = vinLength" "list_all vin_char ?u" using n by (auto simp: list_all_iff vinLength_def)
  have up: "int (weighted ?u vinPositionWeights) = int (weighted v vinPositionWeights) +
      (int (char_value (v ! Suc i)) - int (char_value (v ! i))) *
      (int (vinPositionWeights ! i) - int (vinPositionWeights ! Suc i))"
    using weighted_update [of i v vinPositionWeights "v ! Suc i"]
      weighted_update [of "Suc i" "v[i := v ! Suc i]" vinPositionWeights "v ! i"] i(1) n(1) lens
    by (simp add: algebra_simps)
  show "ValidateVIN (runes ?u) = Inl VinCheckDigit"
    by (rule change_detected [OF assms u up different_values value_difference])
      (use i val ch weight_step [OF i] in auto)
qed

theorem vin_single_error_witness:
  "ValidateVIN (runes ''1M8GDM9AXKP042798'') = Inl VinCheckDigit \<and>
   ValidateVIN (runes ''M18GDM9AXKP042788'') = Inl VinCheckDigit"
proof -
  have v: "ValidateVIN (runes ''1M8GDM9AXKP042788'') = Inr ''1M8GDM9AXKP042788''" by code_simp
  note d = vin_single_error_detected [OF v]
  show ?thesis
    using d [THEN conjunct1, rule_format, of 15 "CHR ''9''"] d [THEN conjunct2, rule_format, of 0]
    by (simp add: vinCharValues_def)
qed

end
