(* ===== verification/Machine_Props.thy ===== *)
theory Machine_Props
  imports Status_Machines
begin

text \<open>
  Where the status machines lead: the payment machines always settle, and a job can be brought to a
  terminal status from everywhere but \<open>ESCALATED\<close>.
\<close>

context settling_machine
begin

lemma moves_terminate: "wfp (\<lambda>t s. can s t = None)"
proof (rule wfp_if_convertible_to_nat)
  show "rank t < rank s" if "can s t = None" for t s
    using that rank_decreases unfolding legal_def [symmetric] legal_iff by blast
qed

end

text \<open>
  C20. Payments settle. There is no infinite sequence of legal moves of a payment intent, of a
  transaction or of a refund, and the statuses without a legal move are exactly the terminal ones: so
  every sequence of legal moves that is not cut short ends in a terminal status.
\<close>

theorem payment_moves_terminate:
  "wfp (\<lambda>t s. CanTransitionIntentStatus s t = None) \<and>
   wfp (\<lambda>t s. CanTransitionTransactionStatus s t = None) \<and>
   wfp (\<lambda>t s. CanTransitionRefundStatus s t = None) \<and>
   (\<forall>s. IsIntentTerminal s \<longleftrightarrow> isKnownIntentStatus s \<and> (\<forall>t. CanTransitionIntentStatus s t \<noteq> None)) \<and>
   (\<forall>s. IsTransactionTerminal s \<longleftrightarrow> isKnownTransactionStatus s \<and> (\<forall>t. CanTransitionTransactionStatus s t \<noteq> None)) \<and>
   (\<forall>s. IsRefundTerminal s \<longleftrightarrow> isKnownRefundStatus s \<and> (\<forall>t. CanTransitionRefundStatus s t \<noteq> None))"
  unfolding CanTransitionIntentStatus_def CanTransitionTransactionStatus_def CanTransitionRefundStatus_def
    IsIntentTerminal_def IsTransactionTerminal_def IsRefundTerminal_def
  using intents.moves_terminate txs.moves_terminate refunds.moves_terminate
    intents.dead_end_iff txs.dead_end_iff refunds.dead_end_iff
  unfolding intents.legal_def txs.legal_def refunds.legal_def by blast

section \<open>Jobs\<close>

abbreviation job_moves :: "Status \<Rightarrow> Status \<Rightarrow> bool" where
  "job_moves \<equiv> (\<lambda>s t. CanTransition s t = None)\<^sup>*\<^sup>*"

definition can_finish :: "Status \<Rightarrow> bool" where
  "can_finish s \<longleftrightarrow> (\<exists>t. IsTerminal t \<and> job_moves s t)"

lemma can_finish_terminal: "IsTerminal s \<Longrightarrow> can_finish s"
  unfolding can_finish_def by blast

lemma can_finish_move: "CanTransition s t = None \<Longrightarrow> can_finish t \<Longrightarrow> can_finish s"
  unfolding can_finish_def by (metis (mono_tags, lifting) converse_rtranclp_into_rtranclp)

lemma can_finish_ends [simp]: "can_finish StatusCancelled" "can_finish StatusFailed" "can_finish StatusCompleted"
  by (simp_all add: can_finish_terminal IsTerminal_def)

lemma can_finish_cancel: "CanTransition s StatusCancelled = None \<Longrightarrow> can_finish s"
  using can_finish_move [of s StatusCancelled] by simp

lemma can_finish_awaiting: "can_finish StatusAwaitingApproval"
  by (rule can_finish_cancel) (simp add: CanTransition_def)

lemma can_finish_estimate: "can_finish StatusEstimate"
  by (rule can_finish_move [OF _ can_finish_awaiting]) (simp add: CanTransition_def)

lemma can_finish_diagnosis: "can_finish StatusDiagnosis"
  by (rule can_finish_move [OF _ can_finish_estimate]) (simp add: CanTransition_def)

lemma can_finish_inspection: "can_finish StatusInspection"
  by (rule can_finish_move [OF _ can_finish_diagnosis]) (simp add: CanTransition_def)

lemma can_finish_verification: "can_finish StatusVerification"
  by (rule can_finish_move [of _ StatusCompleted]) (simp_all add: CanTransition_def)

lemma can_finish_repairing: "can_finish StatusRepairing"
  by (rule can_finish_move [OF _ can_finish_verification]) (simp add: CanTransition_def)

lemma can_finish_approved: "can_finish StatusApproved"
  by (rule can_finish_move [OF _ can_finish_repairing]) (simp add: CanTransition_def)

lemma can_finish_arrived: "can_finish StatusArrived"
  by (rule can_finish_move [OF _ can_finish_inspection]) (simp add: CanTransition_def)

lemma escalated_stays: "job_moves StatusEscalated t \<Longrightarrow> t = StatusEscalated"
  by (induction rule: rtranclp_induct) (simp_all add: CanTransition_def)

text \<open>
  A job can always be finished, unless it is escalated: from every other of the eighteen
  statuses a sequence of legal moves leads to a terminal one, and from \<open>ESCALATED\<close>, which is not
  terminal, none does.
\<close>

theorem jobs_can_finish:
  assumes "isKnownStatus s"
  shows "(\<exists>t. IsTerminal t \<and> (\<lambda>a b. CanTransition a b = None)\<^sup>*\<^sup>* s t) \<longleftrightarrow> s \<noteq> StatusEscalated"
proof -
  have "\<not> can_finish StatusEscalated"
    unfolding can_finish_def using escalated_stays by (auto simp: IsTerminal_def)
  moreover have "can_finish s" if "s \<noteq> StatusEscalated"
    using assms that can_finish_awaiting can_finish_estimate can_finish_diagnosis can_finish_inspection
      can_finish_verification can_finish_repairing can_finish_approved can_finish_arrived
    by (cases s) (auto simp: status_defs CanTransition_def intro: can_finish_cancel)
  ultimately show ?thesis unfolding can_finish_def by blast
qed

theorem jobs_can_finish_witness:
  "\<exists>t. IsTerminal t \<and> (\<lambda>a b. CanTransition a b = None)\<^sup>*\<^sup>* StatusInspection t"
  using jobs_can_finish [of StatusInspection] by (simp add: status_defs)

end
