(* ===== verification/Spec2Isabelle.thy ===== *)
theory Spec2Isabelle
  imports Insp_Props Id_Props Garage_Props Pay_Api Job_Api Dispatch_Http Vin Rate_Limit Machine_Props
begin

text \<open>
  Verification of the Motivra backend, the Go services under \<open>backend/\<close>: payments, jobs, dispatch
  scoring, inspections, garages, identity, VIN validation, and the parts of the platform package they stand on.

  \<^bold>\<open>The program.\<close> A customer's service request becomes a job; operators move the job through 18
  statuses and assign technicians, chosen with the scores of the dispatch engine; the customer pays
  through an intent that a provider (a sandbox, or Daraja for M-Pesa) settles by a signed webhook,
  by reconciliation if the webhook is lost, and that can be refunded. Garages declare their
  capacity. Inspectors work through a template for a vehicle, record findings and evidence, submit, and
  issue a report whose content hash can be verified later. Identity keeps the accounts, signs people in with short access tokens and refresh tokens
  that rotate, verifies addresses, and keeps an audit trail. Each domain has a repository
  over PostgreSQL, a service that checks and publishes events, and an HTTP interface behind the
  gates of the platform package.

  \<^bold>\<open>The theories\<close>, in the order they build on each other:
  \<^item> \<open>Prelude\<close>, \<open>Go_Strings\<close>, \<open>Sql\<close>: Go values (\<open>int64\<close> as 64 bit words, \<open>uuid.UUID\<close> as 128 bit
    words, \<open>time.Time\<close> as nanoseconds, strings as bytes), the string functions the code calls, and
    what the repositories use of the database: keyed tables (locales \<open>keyed_table\<close>,
    \<open>row_discipline\<close>, \<open>unique_index\<close>), \<open>WHERE\<close> conditions with numbered placeholders, and faults.
  \<^item> \<open>Status_Machines\<close>: \<open>payments/statemachine.go\<close> and \<open>jobs/statemachine.go\<close>, as interpretations of
    the locales \<open>status_machine\<close> and \<open>settling_machine\<close>; \<open>Machine_Props\<close>: where they lead.
  \<^item> \<open>Money\<close>: \<open>payments/money.go\<close>. \<open>Pay_Models\<close>, \<open>Pay_Store\<close>: \<open>models.go\<close>, \<open>scope.go\<close>, \<open>store.go\<close>, the
    five tables of a \<open>pay_db\<close> and one definition for each repository operation. \<open>Pay_Webhook\<close>:
    \<open>webhook.go\<close>. \<open>Pay_Service\<close>: \<open>provider.go\<close> and \<open>service.go\<close>. \<open>Pay_Providers\<close>: \<open>sandbox.go\<close> and
    \<open>daraja.go\<close>, as interpretations of the locale \<open>settlement_provider\<close>. \<open>Pay_Reconcile\<close>:
    \<open>reconcile.go\<close>.
  \<^item> \<open>Pay_Ledger\<close>: the ledger invariant, kept by every store operation, and what each changes;
    \<open>Pay_Flows\<close>: what holds under every interleaving of the handlers' store operations;
    \<open>Pay_Delivery\<close>, \<open>Pay_Reads\<close>, \<open>Pay_Refunds\<close>, \<open>Pay_Convergence\<close>: webhooks, scoped reads, refunds,
    reconciliation; \<open>Pay_Http\<close>: \<open>http.go\<close>; \<open>Pay_Api\<close>: who can change the ledger through it, and what
    a tenant can learn.
  \<^item> \<open>Platform_Http\<close>, \<open>Http_Input\<close>: \<open>platform/errors.go\<close>, \<open>auth.go\<close> and the claims of \<open>jwt.go\<close>.
  \<^item> \<open>Job_Models\<close>, \<open>Job_Store\<close>, \<open>Job_Service\<close>, \<open>Job_Http\<close>: \<open>jobs/models.go\<close> and \<open>scope.go\<close>, \<open>store.go\<close>,
    \<open>service.go\<close>, \<open>http.go\<close>; \<open>Job_Ledger\<close>, \<open>Job_Flows\<close>, \<open>Job_Props\<close>, \<open>Job_Reads\<close>, \<open>Job_Api\<close>: the
    invariant of the tables, the interleavings, the scoped reads, the interface as a whole.
  \<^item> \<open>Float64\<close>: binary64 arithmetic with rounding to nearest even, as an interpretation of the
    locale \<open>rounding\<close>; \<open>Dispatch\<close>, \<open>Dispatch_Http\<close>: \<open>dispatch/scoring.go\<close>, \<open>http.go\<close> and \<open>audit.go\<close>.
  \<^item> \<open>Garage\<close>, \<open>Garage_Props\<close>: \<open>garages/capacity.go\<close>, \<open>store.go\<close>, \<open>service.go\<close>, \<open>scope.go\<close> and \<open>http.go\<close>.
  \<^item> \<open>Handlers\<close>: handlers as resumptions, alone, among others (\<open>exec\<close>) and in pools, with the locale
    \<open>discipline\<close> of relations that all actions respect; \<open>Base64\<close>: the encoding of \<open>encoding/base64\<close>.
  \<^item> \<open>Id_Models\<close>, \<open>Id_Store\<close>, \<open>Id_Password\<close>, \<open>Id_Tokens\<close>, \<open>Id_Service\<close>, \<open>Id_Http\<close>: \<open>identity/models.go\<close>,
    \<open>audit.go\<close> and \<open>config.go\<close>; \<open>store.go\<close>; \<open>password.go\<close> and \<open>breach.go\<close>; \<open>tokens.go\<close>; \<open>service.go\<close>,
    \<open>sessions.go\<close>, \<open>verification.go\<close> and \<open>events.go\<close>; \<open>http.go\<close>. \<open>Id_Ledger\<close>: integrity and history of the
    tables, and the locales \<open>sessionless\<close>, \<open>minting\<close>, \<open>sweeping\<close>, \<open>table_discipline\<close>, which say what handlers
    respect from what statements respect; \<open>Id_Sessions\<close>, \<open>Id_Accounts\<close>: rotation, login, password change;
    \<open>Id_Pools\<close>, \<open>Id_Verify\<close>, \<open>Id_Trail\<close>: invariants of pools, single use, the audit trail; \<open>Id_Demo\<close>: a small
    instance; \<open>Id_Props\<close>: the properties.
  \<^item> \<open>Rely\<close>, \<open>Prog_Http\<close>: what a handler relies on from the others and guarantees with each action; the
    gates of the platform for handlers that are resumptions. \<open>Insp_Models\<close>, \<open>Insp_Report\<close>, \<open>Insp_Store\<close>,
    \<open>Insp_Service\<close>, \<open>Insp_Http\<close>: \<open>inspections/models.go\<close>, \<open>statemachine.go\<close> and \<open>scope.go\<close>; \<open>templates.go\<close> and
    \<open>report.go\<close>; \<open>store.go\<close>; \<open>service.go\<close>; \<open>http.go\<close>. \<open>Insp_Canon\<close>: the selection of findings, readiness,
    the comparison, the canonical input; \<open>Insp_Ledger\<close>, \<open>Insp_Steps\<close>: consistency and history of the
    tables, and that every writing statement keeps them; \<open>Insp_Flows\<close>, \<open>Insp_Work\<close>, \<open>Insp_Issue\<close>,
    \<open>Insp_Pools\<close>: reads, writes, reports and routes among others; \<open>Insp_Demo\<close>: a small instance;
    \<open>Insp_Props\<close>: the properties.
  \<^item> \<open>Vin\<close>: \<open>vehicles/vin.go\<close>. \<open>Rate_Limit\<close>: \<open>platform/ratelimit.go\<close>.

  \<^bold>\<open>How the code is modelled.\<close> A table is the list of its rows. A repository operation takes the
  fault that befalls it (\<open>FailAt n\<close>: its n-th database call fails and the transaction is rolled back;
  \<open>LostAck\<close>: the last call takes effect but is reported as an error), the clock, fresh identifiers
  and the tables, and returns an error or a value with the new tables. A service operation takes an
  environment with these things for each of its store calls, and the answers of the network. No
  database transaction spans two store calls, so each handler is split where others may run in
  between; the step relations \<open>pay_step\<close>, \<open>svc_step\<close> and \<open>job_step\<close> are the single store operations,
  and what is proved of their runs holds of all interleavings of handlers. In identity a handler is a
  \<open>prog\<close>, the sequence of its actions, each a statement or transaction, a read of the clock, of random
  bytes or of the network; in inspections too, and there its properties speak of pools of calls of the
  routes (\<open>insp_runs\<close>), in which a call may stop anywhere. In identity \<open>id_move\<close> is one action of any handler, and the properties speak of a handler
  among arbitrary others or of arbitrary pools of them.

  \<^bold>\<open>Parameters.\<close> What is not in the repository is an argument of the definitions that use it: the
  record \<open>engine\<close> and the function \<open>short_scan\<close> (what pgx and PostgreSQL do with statements they
  document as errors), HMAC and SHA-256, the network, the JSON decoder, \<open>uuid.Parse\<close>, Unicode case
  folding, \<open>RedactFreeText\<close>, argon2, SHA-1, the signing of access tokens, the answers of the breach list,
  PostgreSQL's \<open>LOWER\<close>, the text it gives back of a \<open>jsonb\<close> column, \<open>uuid.NewSHA1\<close> and the text of a uuid,
  the rendering of times and of \<open>%g\<close>, and the texts of wrapped errors.
  Every recursion of the models is structural or on a list; there is no fuel.

  \<^bold>\<open>What the theorems show.\<close> For payments: the integrity and history of the ledger, that money
  reported as paid is backed by exactly one settlement of the exact amount, that only an
  authentic, fresh, matching and first webhook changes the ledger, replays included, isolation of
  scopes, the arithmetic, convergence of reconciliation, who can change and who can read the ledger
  through the interface, and the two places where the guarantees
  stop (an abandoned idempotency claim, two refunds at once). For jobs: the integrity and history of
  the tables, one job for a request, legality of moves for handlers that do not race and its failure
  for two that do, the scoped reads against their reference, and the interface: who can change what,
  what a tenant can learn, what the transition endpoint answers. For dispatch: totals on the unit
  scale in spite of rounding, a ranking independent of the request's order, honest reasons, and no
  answer without its audit row. For garages: integrity and what a write is read back as. For identity:
  integrity and history of the tables, what a rotation leaves, that a refresh token works once for calls
  that do not overlap and forks for two that do, the absolute bound of sessions, safety of a session from
  strangers, single use of verification tokens, soundness of login, that a password change signs out,
  an audit entry for every success, tenant-scoped reads of the trail, and hashes that verify. For
  inspections: integrity and history under any overlap of calls, the seal of a submission, completeness
  of every report and the hash it carries, sessions left alone by strangers, confined reads, the
  selection of findings against its specification, and that the canonical input determines what it
  certifies; and two places where the code fails its purpose: a verification never succeeds, because the
  snapshots come back from \<open>jsonb\<close> in another spacing, and a submission that overlaps with a finding can
  never be reported. For the platform: the rate limit is enforced. For vehicles: every
  wrong character of a VIN that could change the check digit is detected. The proved lemmas that
  document defects of the code stand beside these, without a claim number.

  \<^bold>\<open>Not modelled.\<close> The metrics of payments and of inspections; the rest of vehicles and of the platform (token validation and keys, the Redis limiter,
  events over NATS, configuration, boot, logging, tracing); the commands and the frontends. Of what
  is modelled: values of metrics, the nil checks of constructors, the text of SQL beyond conditions
  and columns, infinities, NaN and negative zero in the scoring arithmetic, and the order a database
  gives rows with equal sort keys, which is the table's order here.
\<close>

end
